(* ===== verification/Prelude.thy ===== *)
theory Prelude imports "HOL-Library.Word" "HOL-Library.Monad_Syntax" begin

text \<open>
  Types and lemmas every component shares: the machine words the C code uses, the reading of
  a call that does not return as None of the option monad, C's conversions between integer
  widths, and the bit-field macros of config_architecture.h.

  A C function that changes state is modelled as a function from the state to an option of the
  pair of its return value and the new state. None stands for a call with undefined behaviour
  (a null or out-of-bounds access, the use of an uninitialised value) or for a process that
  ends in exit(); every other outcome, error returns included, is Some.
\<close>

unbundle bit_operations_syntax

type_synonym u8 = "8 word"
type_synonym u16 = "16 word"
type_synonym u32 = "32 word"
type_synonym u64 = "64 word"

named_theorems frame_simps \<open>parts of the state an operation leaves alone\<close>

section \<open>C integer conversions\<close>

text \<open>The value of an unsigned 64-bit expression assigned to an \<open>int\<close>: its low 32 bits, signed.\<close>

definition int_of_u64 :: "u64 \<Rightarrow> int" where
  "int_of_u64 w = sint (ucast w :: u32)"

text \<open>The value of an \<open>int\<close> converted to \<open>unsigned\<close>.\<close>

definition unsigned_of_int :: "int \<Rightarrow> u32" where
  "unsigned_of_int i = word_of_int i"

lemma unsigned_of_int_of_u64 [simp]: "unsigned_of_int (int_of_u64 w) = ucast w"
  by (simp add: unsigned_of_int_def int_of_u64_def)

lemma unat_unsigned_of_int:
  "0 \<le> i \<Longrightarrow> i < 2 ^ 32 \<Longrightarrow> unat (unsigned_of_int i) = nat i"
  by (simp add: unsigned_of_int_def unat_eq_nat_uint uint_word_of_int)

lemma unat_u32: "unat (w :: u32) < 2 ^ 32"
  using unsigned_less [of w] by simp

lemma unat_u64: "unat (w :: u64) < 2 ^ 64"
  using unsigned_less [of w] by simp

lemma less_2_31_32: "(n :: nat) < 2 ^ 31 \<Longrightarrow> n < 2 ^ 32"
  by (erule less_trans) simp

lemma unat_of_nat_small:
  "n < 2 ^ LENGTH('a) \<Longrightarrow> unat (of_nat n :: 'a::len word) = n"
  by (simp add: unat_of_nat take_bit_nat_eq_self)

lemma ucast_of_nat:
  assumes "unat (of_nat n :: 'a::len word) = n"
  shows "ucast (of_nat n :: 'a word) = (of_nat n :: 'b::len word)"
  by (metis assms of_nat_unat)

lemma unat_ucast_small:
  "unat w < 2 ^ LENGTH('b) \<Longrightarrow> unat (ucast w :: 'b::len word) = unat w"
  by (simp add: unsigned_ucast_eq take_bit_nat_eq_self)

lemma unat_ucast_32_64 [simp]: "unat (ucast (w :: u32) :: u64) = unat w"
  by (rule unat_ucast_small) (use unat_u32 [of w] in simp)

section \<open>Bit fields\<close>

text \<open>\<open>MASK_RANGE(m,n)\<close> and \<open>MASK_VAL(x,m,n)\<close>: bits n to m of a register, n the lower one.\<close>

definition MASK_RANGE :: "nat \<Rightarrow> nat \<Rightarrow> u64" where
  "MASK_RANGE m n = push_bit n (push_bit (m - n + 1) 1 - 1)"

definition MASK_VAL :: "u64 \<Rightarrow> nat \<Rightarrow> nat \<Rightarrow> u64" where
  "MASK_VAL x m n = drop_bit n (x AND MASK_RANGE m n)"

lemma MASK_RANGE_mask: "MASK_RANGE m n = push_bit n (mask (m - n + 1))"
  by (simp add: MASK_RANGE_def mask_eq_exp_minus_1 push_bit_of_1)

lemma MASK_VAL_take_drop: "MASK_VAL x m n = take_bit (m - n + 1) (drop_bit n x)"
  if "n \<le> m" "m < 64"
  using that
  by (auto simp: MASK_VAL_def MASK_RANGE_mask bit_eq_iff bit_simps)

lemma unat_MASK_VAL:
  assumes "n \<le> m" "m < 64"
  shows "unat (MASK_VAL x m n) = unat x div 2 ^ n mod 2 ^ (m - n + 1)"
proof -
  have "take_bit 64 (unat x) = unat x"
    by (rule take_bit_nat_eq_self) (use unsigned_less [of x] in simp)
  then have "unat (MASK_VAL x m n) = take_bit (m - n + 1) (drop_bit n (unat x))"
    unfolding MASK_VAL_take_drop [OF assms] by (simp add: unsigned_take_bit_eq unsigned_drop_bit_eq)
  then show ?thesis by (simp add: take_bit_eq_mod drop_bit_eq_div)
qed

lemma MASK_VAL_less:
  assumes "n \<le> m" "m < 64"
  shows "unat (MASK_VAL x m n) < 2 ^ (m - n + 1)"
  using assms by (simp add: unat_MASK_VAL del: power_Suc)

section \<open>The option monad\<close>

lemma bind_Some_iff: "Option.bind m f = Some r \<longleftrightarrow> (\<exists>x. m = Some x \<and> f x = Some r)"
  by (cases m) auto

end
