(* ===== verification/Timers.thy ===== *)
theory Timers imports Prelude "HOL-Library.While_Combinator" begin

text \<open>
  variorum_timers.c: the millisecond clock, the periodic timer and the sleep by select. The
  clock reading and the sleep are the environment's: the reading is an argument, the request
  to sleep a result. \<open>step\<close> and \<open>interval\<close> are C's 32-bit \<open>unsigned int\<close>, so their product
  wraps before it is added to the 64-bit start time.
\<close>

record mstimer =
  startms :: u64
  step :: u32
  interval :: u32
  nextms :: u64

text \<open>\<open>clock_gettime\<close> gives seconds and nanoseconds, both \<open>long\<close>.\<close>

definition now_ms :: "int \<Rightarrow> int \<Rightarrow> u64" where
  "now_ms tv_sec tv_nsec =
     word_of_int (tv_sec * 1000) + word_of_int ((tv_nsec + 500000) div 1000000)"

text \<open>\<open>t->startms + t->step * t->interval\<close>, in C's types.\<close>

definition next_firing :: "mstimer \<Rightarrow> u64" where
  "next_firing t = startms t + ucast (step t * interval t)"

text \<open>One turn of the catch-up loop, on the pair of the timer and the count.\<close>

definition timer_catch_up :: "mstimer \<times> int \<Rightarrow> mstimer \<times> int" where
  "timer_catch_up = (\<lambda>(t, cadd). let t = t\<lparr>step := step t + 1\<rparr> in
     (t\<lparr>nextms := next_firing t\<rparr>, cadd + 1))"

text \<open>
  The timer after the call, the return value and the milliseconds slept; None when the loop
  does not end.
\<close>

definition timer_sleep :: "u64 \<Rightarrow> mstimer \<Rightarrow> (mstimer \<times> int \<times> u64) option" where
  "timer_sleep now t =
    (if nextms t \<le> now then
       map_option (\<lambda>(t, cadd). (t, cadd, 0))
         (while_option (\<lambda>(t, _). nextms t \<le> now) timer_catch_up (t, 0))
     else
       let ms = nextms t - now; t = t\<lparr>step := step t + 1\<rparr> in
       Some (t\<lparr>nextms := next_firing t\<rparr>, 0, ms))"

definition init_msTimer :: "u64 \<Rightarrow> int \<Rightarrow> mstimer" where
  "init_msTimer now ms_interval =
    (let t = \<lparr>startms = now, step = 1, interval = unsigned_of_int ms_interval, nextms = 0\<rparr> in
     t\<lparr>nextms := next_firing t\<rparr>)"

text \<open>The \<open>timeval\<close> handed to select; C's division truncates towards zero.\<close>

definition sleep_ms :: "int \<Rightarrow> int \<times> int" where
  "sleep_ms ms = (sgn ms * (\<bar>ms\<bar> div 1000), sgn ms * (\<bar>ms\<bar> mod 1000) * 1000)"

section \<open>The clock and the sleep\<close>

lemma now_ms_nat:
  assumes "0 \<le> s" "s < 2 ^ 50" "0 \<le> ns" "ns < 10 ^ 9"
  shows "uint (now_ms s ns) = s * 1000 + (ns + 500000) div 1000000"
proof -
  let ?v = "s * 1000 + (ns + 500000) div 1000000"
  have "0 \<le> (ns + 500000) div 1000000" "(ns + 500000) div 1000000 \<le> 1000"
    using assms by auto
  then have "0 \<le> ?v" "?v < 2 ^ 64" using assms by auto
  then have "uint (word_of_int ?v :: u64) = ?v"
    by (simp only: uint_word_of_int) simp
  then show ?thesis by (simp add: now_ms_def)
qed

text \<open>The clock reads the nearest millisecond: it is off by half a millisecond at most.\<close>

theorem now_ms_nearest:
  assumes "0 \<le> s" "s < 2 ^ 50" "0 \<le> ns" "ns < 10 ^ 9"
  shows "\<bar>uint (now_ms s ns) * 1000000 - (s * 10 ^ 9 + ns)\<bar> \<le> 500000"
proof -
  let ?x = "ns + 500000"
  have "?x div 1000000 * 1000000 \<le> ?x" "?x < ?x div 1000000 * 1000000 + 1000000" by arith+
  then show ?thesis unfolding now_ms_nat [OF assms]
    by (simp add: abs_le_iff distrib_right)
qed

theorem now_ms_nearest_witness:
  "\<bar>uint (now_ms 1700000000 999600000) * 1000000 - (1700000000 * 10 ^ 9 + 999600000)\<bar> \<le> (500000 :: int)"
  by (rule now_ms_nearest) simp_all

lemma sleep_ms_exact:
  assumes "0 \<le> ms"
  shows "\<exists>s us. sleep_ms ms = (s, us) \<and> s * 1000000 + us = ms * 1000 \<and> 0 \<le> us \<and> us < 1000000 \<and> 0 \<le> s"
proof (cases "ms = 0")
  case False
  then have "sleep_ms ms = (ms div 1000, ms mod 1000 * 1000)" using assms by (simp add: sleep_ms_def sgn_if)
  moreover have "ms div 1000 * 1000000 + ms mod 1000 * 1000 = ms * 1000" by arith
  ultimately show ?thesis using assms by (auto simp: pos_imp_zdiv_nonneg_iff)
qed (simp add: sleep_ms_def)

section \<open>The periodic timer\<close>

text \<open>A timer the interface made: its deadline is the grid point its step names.\<close>

definition timer_ok :: "mstimer \<Rightarrow> bool" where
  "timer_ok t \<longleftrightarrow> nextms t = next_firing t"

lemma timer_ok_init: "timer_ok (init_msTimer now i)"
  by (simp add: timer_ok_def init_msTimer_def next_firing_def Let_def)

lemma startms_catch_up [simp]: "startms (fst (timer_catch_up p)) = startms (fst p)"
  and interval_catch_up [simp]: "interval (fst (timer_catch_up p)) = interval (fst p)"
  and step_catch_up [simp]: "step (fst (timer_catch_up p)) = step (fst p) + 1"
  and nextms_catch_up [simp]: "nextms (fst (timer_catch_up p)) = next_firing (fst (timer_catch_up p))"
  and snd_catch_up [simp]: "snd (timer_catch_up p) = snd p + 1"
  by (auto simp: timer_catch_up_def Let_def next_firing_def split: prod.splits)

lemma timer_ok_catch_up: "timer_ok (fst (timer_catch_up p))"
  by (simp add: timer_ok_def)

text \<open>Inside the first \<open>2 ^ 32\<close> milliseconds the grid points are the exact multiples.\<close>

lemma unat_next_firing:
  assumes "unat (step t) * unat (interval t) < 2 ^ 32" "unat (startms t) + 2 ^ 32 \<le> 2 ^ 64"
  shows "unat (next_firing t) = unat (startms t) + unat (step t) * unat (interval t)"
proof -
  have p: "unat (step t * interval t) = unat (step t) * unat (interval t)"
    using assms(1) by (simp add: unat_word_ariths)
  show ?thesis
    using assms by (simp add: next_firing_def unat_word_ariths p)
qed

text \<open>
  The catch-up loop from a timer whose step is behind: it stops at the first grid point after
  now. The measure is how many grid points are left.
\<close>

lemma catch_up_stops:
  fixes now :: u64
  assumes "S = unat (startms t)" "I = unat (interval t)" "0 < I" "S \<le> unat now"
    "unat now - S + I < 2 ^ 32" "S + 2 ^ 32 \<le> 2 ^ 64"
    "timer_ok t" "unat (step t) \<le> (unat now - S) div I + 1"
    "d = (unat now - S) div I + 1 - unat (step t)"
  shows "\<exists>t'. while_option (\<lambda>(t, _). nextms t \<le> now) timer_catch_up (t, c) = Some (t', c + int d) \<and>
    timer_ok t' \<and> startms t' = startms t \<and> interval t' = interval t \<and>
    unat (step t') = (unat now - S) div I + 1"
  using assms
proof (induction d arbitrary: t c)
  case 0
  let ?K = "(unat now - S) div I + 1"
  have st: "unat (step t) = ?K" using "0.prems" by simp
  have "?K * I \<le> unat now - S + I" by simp
  then have "unat (next_firing t) = S + ?K * I"
    using "0.prems" st by (subst unat_next_firing) auto
  moreover have "unat now - S < ?K * I"
    using \<open>0 < I\<close> dividend_less_div_times [of I "unat now - S"] by simp
  ultimately have "\<not> nextms t \<le> now"
    using "0.prems" by (simp add: timer_ok_def word_le_nat_alt)
  then show ?case using "0.prems" st
    by (intro exI [of _ t]) (simp add: while_option_unfold)
next
  case (Suc d)
  let ?K = "(unat now - S) div I + 1"
  let ?t = "fst (timer_catch_up (t, c))"
  have lt: "unat (step t) < ?K" using Suc.prems by simp
  have KI: "?K * I \<le> unat now - S + I" by simp
  have "unat (step t) * I \<le> (unat now - S) div I * I" using lt by simp
  then have le: "unat (step t) * I \<le> unat now - S" using div_times_less_eq_dividend le_trans by blast
  then have nf: "unat (next_firing t) = S + unat (step t) * I"
    using Suc.prems by (subst unat_next_firing) auto
  have cond: "nextms t \<le> now"
    using le nf Suc.prems by (simp add: timer_ok_def word_le_nat_alt)
  have "?K \<le> unat now - S + 1" by (simp add: div_le_dividend)
  then have "unat (step t) + 1 < 2 ^ 32"
    using lt Suc.prems(3,5) by linarith
  then have st: "unat (step ?t) = unat (step t) + 1" by (simp add: unat_word_ariths)
  have "\<exists>t'. while_option (\<lambda>(t, _). nextms t \<le> now) timer_catch_up (?t, c + 1)
      = Some (t', c + 1 + int d) \<and> timer_ok t' \<and> startms t' = startms ?t \<and>
      interval t' = interval ?t \<and> unat (step t') = ?K"
    by (rule Suc.IH) (use Suc.prems lt st in \<open>auto simp: timer_ok_catch_up\<close>)
  moreover have "timer_catch_up (t, c) = (?t, c + 1)" by (simp add: prod_eq_iff)
  ultimately show ?case using cond
    by (subst while_option_unfold) (simp add: add_ac)
qed

text \<open>
  A late timer catches up. When the deadline has passed, timer_sleep returns without
  sleeping, its return value is the number of deadlines skipped, and the new deadline is the
  first point of the interval grid after now. It needs the run to be shorter than
  \<open>2 ^ 32\<close> milliseconds.
\<close>

theorem timer_sleep_catches_up:
  assumes "timer_ok t" "0 < interval t" "nextms t \<le> now" "startms t \<le> now"
    "unat now - unat (startms t) + unat (interval t) < 2 ^ 32"
    "unat (startms t) + 2 ^ 32 \<le> 2 ^ 64" "unat (step t) * unat (interval t) < 2 ^ 32"
  shows "\<exists>t' k. timer_sleep now t = Some (t', k, 0) \<and> timer_ok t' \<and>
    startms t' = startms t \<and> interval t' = interval t \<and>
    int (unat (step t')) = int (unat (step t)) + k \<and> 0 < k \<and>
    now < nextms t' \<and> unat (nextms t') \<le> unat now + unat (interval t)"
proof -
  let ?S = "unat (startms t)" and ?I = "unat (interval t)"
  let ?K = "(unat now - ?S) div ?I + 1"
  have I: "0 < ?I" using assms(2) by (simp add: word_less_nat_alt)
  have S: "?S \<le> unat now" using assms(4) by (simp add: word_le_nat_alt)
  have "?S + unat (step t) * ?I \<le> unat now"
    using assms(1,3) unat_next_firing [OF assms(7,6)] by (simp add: timer_ok_def word_le_nat_alt)
  then have "unat (step t) * ?I \<le> unat now - ?S" by simp
  then have "unat (step t) \<le> (unat now - ?S) div ?I"
    using I by (simp add: less_eq_div_iff_mult_less_eq)
  then have stepK: "unat (step t) < ?K" by simp
  obtain t' where t': "while_option (\<lambda>(t, _). nextms t \<le> now) timer_catch_up (t, 0)
      = Some (t', 0 + int (?K - unat (step t)))"
    and ok: "timer_ok t'" "startms t' = startms t" "interval t' = interval t" "unat (step t') = ?K"
    using catch_up_stops [OF refl refl I S assms(5,6,1) less_imp_le [OF stepK] refl, of 0] by blast
  have KI: "?K * ?I \<le> unat now - ?S + ?I" by simp
  have "unat (step t') * unat (interval t') < 2 ^ 32"
    unfolding ok using KI assms(5) by linarith
  then have nt: "unat (nextms t') = ?S + ?K * ?I"
    using ok assms(6) unat_next_firing [of t'] by (simp only: timer_ok_def)
  have "unat now - ?S < ?K * ?I"
    using I dividend_less_div_times [of ?I "unat now - ?S"] by simp
  then have "now < nextms t'" "unat (nextms t') \<le> unat now + ?I"
    using nt KI S by (auto simp: word_less_nat_alt)
  moreover have "timer_sleep now t = Some (t', int (?K - unat (step t)), 0)"
    using t' assms(3) by (simp add: timer_sleep_def)
  moreover have "int (unat (step t')) = int (unat (step t)) + int (?K - unat (step t))"
    "0 < int (?K - unat (step t))"
    using ok(4) stepK by linarith+
  ultimately show ?thesis using ok(1-3) by blast
qed

theorem timer_sleep_catches_up_witness:
  "\<exists>t' k. timer_sleep 1730 \<lparr>startms = 1000, step = 1, interval = 50, nextms = 1050\<rparr> = Some (t', k, 0) \<and>
    timer_ok t' \<and> startms t' = 1000 \<and> interval t' = 50 \<and> int (unat (step t')) = 1 + k \<and> 0 < k \<and>
    1730 < nextms t' \<and> unat (nextms t') \<le> 1780"
  using timer_sleep_catches_up [of "\<lparr>startms = 1000, step = 1, interval = 50, nextms = 1050\<rparr>" 1730]
  by (simp add: timer_ok_def next_firing_def)

text \<open>
  C38: after \<open>2 ^ 32\<close> milliseconds the loop no longer ends: the 32-bit product of step and
  interval wraps, so no deadline ever passes now.
\<close>

theorem timer_sleep_hangs_after_wrap:
  assumes "timer_ok t" "unat (startms t) + 2 ^ 32 \<le> unat now"
  shows "timer_sleep now t = None"
proof -
  have before: "next_firing t' \<le> now" if "startms t' = startms t" for t'
  proof -
    have "unat (step t' * interval t') < 2 ^ 32"
      by (rule unat_u32)
    moreover have "unat now < 2 ^ 64" by (rule unat_u64)
    ultimately have "unat (next_firing t') \<le> unat now"
      using assms(2) that by (simp add: next_firing_def unat_word_ariths)
    then show ?thesis by (simp add: word_le_nat_alt)
  qed
  have inv: "startms (fst r) = startms t \<and> timer_ok (fst r)"
    if "while_option (\<lambda>(t, _). nextms t \<le> now) timer_catch_up (t, 0) = Some r" for r
    by (rule while_option_rule [where P = "\<lambda>r. startms (fst r) = startms t \<and> timer_ok (fst r)", OF _ that])
      (use assms(1) in \<open>auto simp: timer_ok_catch_up split: prod.splits\<close>)
  have "while_option (\<lambda>(t, _). nextms t \<le> now) timer_catch_up (t, 0) = None"
  proof (rule ccontr)
    assume "while_option (\<lambda>(t, _). nextms t \<le> now) timer_catch_up (t, 0) \<noteq> None"
    then obtain r where r: "while_option (\<lambda>(t, _). nextms t \<le> now) timer_catch_up (t, 0) = Some r"
      by blast
    have "\<not> nextms (fst r) \<le> now" using while_option_stop [OF r] by (auto split: prod.splits)
    with inv [OF r] before show False by (auto simp: timer_ok_def)
  qed
  moreover have "nextms t \<le> now" using assms(1) before by (simp add: timer_ok_def)
  ultimately show ?thesis by (simp add: timer_sleep_def)
qed

theorem timer_sleep_hangs_after_wrap_witness:
  "timer_sleep (1000 + 2 ^ 32) (init_msTimer 1000 50) = None"
  by (rule timer_sleep_hangs_after_wrap [OF timer_ok_init]) (simp add: init_msTimer_def Let_def)

end
