(* ===== verification/Variorum_Error.thy ===== *)
theory Variorum_Error imports Prelude begin

text \<open>
  variorum_error.c and variorum_error.h: the error codes, the table of their names, and the
  copy of a name into a caller's buffer with strncpy. variorum_error_handler prints to stderr;
  the model keeps the codes it was called with, in order, in the log of the state.
\<close>

section \<open>The error codes\<close>

datatype variorum_error_e =
    VARIORUM_ERROR_RUNTIME
  | VARIORUM_ERROR_RAPL_INIT
  | VARIORUM_ERROR_MSR_CLOSE
  | VARIORUM_ERROR_MSR_READ
  | VARIORUM_ERROR_ARRAY_BOUNDS
  | VARIORUM_ERROR_PLATFORM_ENV
  | VARIORUM_ERROR_MSR_MODULE
  | VARIORUM_ERROR_MSR_WRITE
  | VARIORUM_ERROR_MSR_BATCH
  | VARIORUM_ERROR_INVAL
  | VARIORUM_ERROR_UNSUPPORTED_PLATFORM
  | VARIORUM_ERROR_UNSUPPORTED_ARCH
  | VARIORUM_ERROR_FEATURE_NOT_IMPLEMENTED
  | VARIORUM_ERROR_FEATURE_NOT_AVAILABLE
  | VARIORUM_ERROR_FUNCTION

fun err_code :: "variorum_error_e \<Rightarrow> int" where
  "err_code VARIORUM_ERROR_RUNTIME = -1"
| "err_code VARIORUM_ERROR_RAPL_INIT = -2"
| "err_code VARIORUM_ERROR_MSR_CLOSE = -3"
| "err_code VARIORUM_ERROR_MSR_READ = -4"
| "err_code VARIORUM_ERROR_ARRAY_BOUNDS = -5"
| "err_code VARIORUM_ERROR_PLATFORM_ENV = -6"
| "err_code VARIORUM_ERROR_MSR_MODULE = -7"
| "err_code VARIORUM_ERROR_MSR_WRITE = -8"
| "err_code VARIORUM_ERROR_MSR_BATCH = -9"
| "err_code VARIORUM_ERROR_INVAL = -10"
| "err_code VARIORUM_ERROR_UNSUPPORTED_PLATFORM = -11"
| "err_code VARIORUM_ERROR_UNSUPPORTED_ARCH = -12"
| "err_code VARIORUM_ERROR_FEATURE_NOT_IMPLEMENTED = -13"
| "err_code VARIORUM_ERROR_FEATURE_NOT_AVAILABLE = -14"
| "err_code VARIORUM_ERROR_FUNCTION = -15"

lemma err_code_negative [simp]: "err_code e < 0"
  by (cases e) auto

lemma err_code_nonzero [simp]: "err_code e \<noteq> 0" "0 \<noteq> err_code e" "\<not> 0 < err_code e" "\<not> 0 \<le> err_code e"
  using err_code_negative [of e] by linarith+

lemma err_code_inject [simp]: "err_code e = err_code f \<longleftrightarrow> e = f"
  by (cases e; cases f) auto

section \<open>The messages\<close>

text \<open>
  The argument of the switch is the enum's integer: a value that is no enumerator takes the
  default branch.
\<close>

definition error_name :: "int \<Rightarrow> string" where
  "error_name err =
    (if err = err_code VARIORUM_ERROR_RUNTIME then ''_ERROR_VARIORUM_RUNTIME''
     else if err = err_code VARIORUM_ERROR_RAPL_INIT then ''_ERROR_VARIORUM_RAPL_INIT''
     else if err = err_code VARIORUM_ERROR_MSR_CLOSE then ''_ERROR_VARIORUM_MSR_CLOSE''
     else if err = err_code VARIORUM_ERROR_MSR_READ then ''_ERROR_VARIORUM_MSR_READ''
     else if err = err_code VARIORUM_ERROR_MSR_WRITE then ''_ERROR_VARIORUM_MSR_WRITE''
     else if err = err_code VARIORUM_ERROR_MSR_BATCH then ''_ERROR_VARIORUM_MSR_BATCH''
     else if err = err_code VARIORUM_ERROR_ARRAY_BOUNDS then ''_ERROR_VARIORUM_ARRAY_BOUNDS''
     else if err = err_code VARIORUM_ERROR_PLATFORM_ENV then ''_ERROR_VARIORUM_PLATFORM_ENV''
     else if err = err_code VARIORUM_ERROR_MSR_MODULE then ''_ERROR_VARIORUM_MSR_MODULE''
     else if err = err_code VARIORUM_ERROR_INVAL then ''_ERROR_VARIORUM_INVAL''
     else if err = err_code VARIORUM_ERROR_UNSUPPORTED_PLATFORM
       then ''_ERROR_VARIORUM_UNSUPPORTED_PLATFORM''
     else if err = err_code VARIORUM_ERROR_UNSUPPORTED_ARCH
       then ''_ERROR_VARIORUM_UNSUPPORTED_ARCH''
     else if err = err_code VARIORUM_ERROR_FEATURE_NOT_IMPLEMENTED
       then ''_ERROR_VARIORUM_FEATURE_NOT_IMPLEMENTED''
     else if err = err_code VARIORUM_ERROR_FEATURE_NOT_AVAILABLE
       then ''_ERROR_VARIORUM_FEATURE_NOT_AVAILABLE''
     else if err = err_code VARIORUM_ERROR_FUNCTION then ''_ERROR_VARIORUM_FUNCTION''
     else ''Unknown variorum error code.'')"

text \<open>
  \<open>strncpy(buf, src, n)\<close> overwrites exactly the first n bytes of the buffer: the source up to n
  characters, the rest of the n bytes zero. A buffer shorter than n is overrun.
\<close>

definition NUL :: char where "NUL = CHR 0x00"

definition strncpy :: "string \<Rightarrow> string \<Rightarrow> nat \<Rightarrow> string option" where
  "strncpy buf src n =
    (if n \<le> length buf
     then Some (take n (src @ replicate n NUL) @ drop n buf)
     else None)"

definition variorum_error_message :: "int \<Rightarrow> string \<Rightarrow> nat \<Rightarrow> string option" where
  "variorum_error_message err msg size' = do {
     msg \<leftarrow> strncpy msg (error_name err) size';
     Some (if 0 < size' then msg[size' - 1 := NUL] else msg)
   }"

definition NAME_MAX :: nat where "NAME_MAX = 1024"

definition get_variorum_error_message :: "int \<Rightarrow> string \<Rightarrow> string option" where
  "get_variorum_error_message err brief_msg =
     variorum_error_message (if err = 0 then err_code VARIORUM_ERROR_RUNTIME else err)
       brief_msg NAME_MAX"

text \<open>What a reader of a C string sees: the bytes before the first NUL.\<close>

definition c_string :: "string \<Rightarrow> string" where
  "c_string buf = takeWhile (\<lambda>c. c \<noteq> NUL) buf"

section \<open>The log\<close>

record vbase =
  elog :: "variorum_error_e list"

definition variorum_error_handler :: "variorum_error_e \<Rightarrow> 'a vbase_scheme \<Rightarrow> 'a vbase_scheme" where
  "variorum_error_handler e s = s\<lparr>elog := elog s @ [e]\<rparr>"

lemma elog_error_handler [simp]: "elog (variorum_error_handler e s) = elog s @ [e]"
  by (simp add: variorum_error_handler_def)

lemma more_error_handler [simp]: "vbase.more (variorum_error_handler e s) = vbase.more s"
  by (simp add: variorum_error_handler_def)

section \<open>Properties\<close>

lemma error_name_no_NUL: "NUL \<notin> set (error_name err)"
  by (simp add: error_name_def NUL_def)

lemma error_name_short: "length (error_name err) < NAME_MAX"
  by (simp add: error_name_def NAME_MAX_def)

lemma variorum_error_message_Some:
  assumes "n \<le> length buf" "0 < n"
  shows "\<exists>msg. variorum_error_message err buf n = Some msg \<and> length msg = length buf \<and>
    drop n msg = drop n buf \<and> c_string msg = take (n - 1) (error_name err)"
proof -
  let ?e = "error_name err"
  define w where "w = take (n - 1) (?e @ replicate n NUL)"
  have lw: "length w = n - 1" by (simp add: w_def)
  have tk: "take n (?e @ replicate n NUL) = w @ [(?e @ replicate n NUL) ! (n - 1)]"
    using take_Suc_conv_app_nth [of "n - 1" "?e @ replicate n NUL"] assms by (simp add: w_def)
  have "strncpy buf ?e n = Some (w @ (?e @ replicate n NUL) ! (n - 1) # drop n buf)"
    unfolding strncpy_def tk using assms(1) by simp
  then have msg: "variorum_error_message err buf n = Some (w @ [NUL] @ drop n buf)"
    using assms lw by (simp add: variorum_error_message_def list_update_append)
  have "c_string (w @ [NUL] @ drop n buf) = takeWhile (\<lambda>c. c \<noteq> NUL) w"
    by (simp add: c_string_def takeWhile_tail)
  also have "\<dots> = take (n - 1) ?e"
  proof -
    have "\<forall>c \<in> set (take (n - 1) ?e). c \<noteq> NUL"
      using error_name_no_NUL [of err] by (metis in_set_takeD)
    then have "takeWhile (\<lambda>c. c \<noteq> NUL) (take (n - 1) ?e @ r)
        = take (n - 1) ?e @ takeWhile (\<lambda>c. c \<noteq> NUL) r" for r
      by (intro takeWhile_append2) blast
    moreover have "takeWhile (\<lambda>c. c \<noteq> NUL) (replicate k NUL) = []" for k
      by (cases k) auto
    ultimately show ?thesis by (simp only: w_def take_append take_replicate append_Nil2)
  qed
  finally show ?thesis using msg lw assms by simp
qed

text \<open>
  Error messages never overrun the caller's buffer and always read back as the code's own
  name, cut to the space before the closing NUL; bytes past the size given are untouched.
\<close>

theorem error_message_in_buffer:
  assumes "n \<le> length buf" "0 < n"
  shows "\<exists>msg. variorum_error_message err buf n = Some msg \<and> length msg = length buf \<and>
    drop n msg = drop n buf \<and> c_string msg = take (n - 1) (error_name err)"
  using assms by (rule variorum_error_message_Some)

theorem error_message_in_buffer_witness:
  "\<exists>msg. variorum_error_message (-5) (replicate 40 CHR ''x'') 10 = Some msg \<and>
     length msg = 40 \<and> drop 10 msg = replicate 30 CHR ''x'' \<and> c_string msg = ''_ERROR_VA''"
  using error_message_in_buffer [of 10 "replicate 40 CHR ''x''" "-5"]
  by (simp add: error_name_def)

end
