(* ===== verification/Platform.thy ===== *)
theory Platform imports Variorum_Error begin

text \<open>
  config_architecture.h: the build configuration with its index enum, the table of feature
  functions of a platform, and the reset of that table (variorum_init_func_ptrs of
  config_architecture.c).

  A function pointer is the name of the function it points to: a handler. The 26 pointer fields
  of struct platform are one map from the field, a slot, to the handler or None for NULL.
\<close>

section \<open>Platforms of a build\<close>

text \<open>The vendors in the order of enum supported_platforms_e.\<close>

datatype platform_kind =
  INTEL_CPU | INTEL_GPU | AMD_CPU | AMD_GPU | IBM_CPU | NVIDIA_GPU | ARM_CPU

text \<open>A build: which of the VARIORUM_WITH options are on.\<close>

type_synonym build = "platform_kind \<Rightarrow> bool"

definition platform_enum :: "platform_kind list" where
  "platform_enum = [INTEL_CPU, INTEL_GPU, AMD_CPU, AMD_GPU, IBM_CPU, NVIDIA_GPU, ARM_CPU]"

definition platforms :: "build \<Rightarrow> platform_kind list" where
  "platforms b = filter b platform_enum"

definition P_NUM_PLATFORMS :: "build \<Rightarrow> nat" where
  "P_NUM_PLATFORMS b = length (platforms b)"

text \<open>The enumerator of a platform: the number of enabled platforms before it.\<close>

definition P_IDX :: "build \<Rightarrow> platform_kind \<Rightarrow> nat" where
  "P_IDX b k = length (filter b (takeWhile (\<lambda>x. x \<noteq> k) platform_enum))"

definition MAX_PLATFORMS :: nat where "MAX_PLATFORMS = 2"

instantiation platform_kind :: linorder
begin

definition less_eq_platform_kind :: "platform_kind \<Rightarrow> platform_kind \<Rightarrow> bool" where
  "less_eq_platform_kind k l \<longleftrightarrow>
     length (takeWhile (\<lambda>x. x \<noteq> k) platform_enum) \<le> length (takeWhile (\<lambda>x. x \<noteq> l) platform_enum)"

definition less_platform_kind :: "platform_kind \<Rightarrow> platform_kind \<Rightarrow> bool" where
  "less_platform_kind k l \<longleftrightarrow>
     length (takeWhile (\<lambda>x. x \<noteq> k) platform_enum) < length (takeWhile (\<lambda>x. x \<noteq> l) platform_enum)"

instance
proof
  fix k l :: platform_kind
  show "k \<le> l \<Longrightarrow> l \<le> k \<Longrightarrow> k = l"
    by (cases k; cases l) (simp_all add: less_eq_platform_kind_def platform_enum_def)
qed (auto simp: less_eq_platform_kind_def less_platform_kind_def)

end

section \<open>Feature functions\<close>

datatype slot =
    Poll_power | Monitoring | Print_power_limit | Cap_best_effort_node_power_limit
  | Cap_socket_frequency_limit | Cap_gpu_power_ratio | Cap_each_socket_power_limit
  | Cap_each_core_frequency_limit | Cap_each_gpu_power_limit | Print_features | Print_thermals
  | Print_counters | Print_frequency | Print_power | Enable_turbo | Disable_turbo | Print_turbo
  | Print_gpu_utilization | Get_utilization_json | Get_power_json
  | Get_node_power_domain_info_json | Get_frequency_json | Get_thermals_json
  | Print_available_frequencies | Print_energy | Get_energy_json

text \<open>
  The functions that are installed: the prefix of the C name is the constructor of a handler,
  the rest the operation. For example \<open>intel_cpu_fm M_06_2A get_clocks\<close> is
  intel_cpu_fm_06_2a_get_clocks (the functions of model 06_8F lack the intel_cpu_ prefix).
\<close>

datatype intel_model =
  M_06_2A | M_06_2D | M_06_3E | M_06_3F | M_06_4F | M_06_55 | M_06_9E | M_06_6A | M_06_8F

datatype op =
    get_power_limits | get_power_limit | cap_power_limits | get_features | get_thermals
  | get_counters | get_clocks | get_power | get_energy | get_turbo_status | enable_turbo
  | disable_turbo | poll_power | monitoring | get_power_json | get_node_power_domain_info_json
  | get_power_domain_info_json | cap_best_effort_node_power_limit | get_frequencies
  | get_thermals_json | get_clocks_json | get_energy_json | cap_frequency
  | set_socket_power_limit | set_and_verify_best_effort_node_power_limit | print_energy
  | print_boostlimit | set_each_core_boostlimit | set_socket_boostlimit | get_json_boostlimit
  | cap_and_verify_node_power_limit | cap_socket_power_limit | cap_gpu_power_ratio
  | get_node_thermal_json | get_node_frequency_json | get_node_energy_json
  | cap_socket_frequency | get_gpu_utilization | get_gpu_utilization_json
  | cap_each_gpu_power_limit

datatype handler =
    intel_cpu_fm intel_model op
  | gpu_power_ratio_unimplemented
  | amd_cpu_epyc op
  | ibm_cpu_p9 op
  | arm_juno_r2 op
  | arm_neoverse_n1 op
  | volta op
  | amd_gpu_instinct op
  | intel_gpu op

text \<open>A pointer to the model number: NULL, to a live allocation holding it, or freed.\<close>

datatype arch_ptr = Null | Live u64 | Freed

record platform =
  fptr :: "slot \<Rightarrow> handler option"
  arch_id :: arch_ptr
  hostname :: string
  num_sockets :: int
  total_cores :: int
  total_threads :: int
  num_cores_per_socket :: int
  num_threads_per_core :: int

text \<open>\<open>*g_platform[idx].arch_id\<close>\<close>

fun deref_arch :: "arch_ptr \<Rightarrow> u64 option" where
  "deref_arch (Live m) = Some m"
| "deref_arch _ = None"

text \<open>\<open>g_platform[idx].slot = h\<close> for a list of assignments, in their order.\<close>

definition install :: "(slot \<times> handler) list \<Rightarrow> platform \<Rightarrow> platform" where
  "install hs p = p\<lparr>fptr := foldl (\<lambda>f (sl, h). f(sl := Some h)) (fptr p) hs\<rparr>"

lemma fptr_install:
  "fptr (install hs p) sl = (case map_of (rev hs) sl of Some h \<Rightarrow> Some h | None \<Rightarrow> fptr p sl)"
proof -
  have "foldl (\<lambda>f (sl, h). f(sl := Some h)) f hs sl =
      (case map_of (rev hs) sl of Some h \<Rightarrow> Some h | None \<Rightarrow> f sl)" for f
    by (induction hs arbitrary: f) (auto simp: map_add_def split: option.splits)
  then show ?thesis by (simp add: install_def)
qed

lemma install_frame [simp]:
  "arch_id (install hs p) = arch_id p" "hostname (install hs p) = hostname p"
  "num_sockets (install hs p) = num_sockets p" "total_cores (install hs p) = total_cores p"
  "total_threads (install hs p) = total_threads p"
  by (simp_all add: install_def)

section \<open>Resetting the table\<close>

text \<open>The 26 assignments of NULL, in their order.\<close>

definition cleared_slots :: "slot list" where
  "cleared_slots =
    [Print_power_limit, Cap_socket_frequency_limit, Cap_best_effort_node_power_limit,
     Cap_gpu_power_ratio, Cap_each_socket_power_limit, Cap_each_core_frequency_limit,
     Print_available_frequencies, Cap_each_gpu_power_limit, Print_features, Print_thermals,
     Print_counters, Print_frequency, Print_power, Enable_turbo, Disable_turbo, Print_turbo,
     Poll_power, Print_gpu_utilization, Get_utilization_json, Monitoring, Get_power_json,
     Get_node_power_domain_info_json, Print_energy, Get_thermals_json, Get_frequency_json,
     Get_energy_json]"

definition clear_func_ptrs :: "platform \<Rightarrow> platform" where
  "clear_func_ptrs p = p\<lparr>fptr := foldl (\<lambda>f sl. f(sl := None)) (fptr p) cleared_slots\<rparr>"

text \<open>
  The loop over the platforms of the build; an index past the array is undefined behaviour.
\<close>

fun variorum_init_func_ptrs_loop :: "nat \<Rightarrow> nat \<Rightarrow> platform list \<Rightarrow> platform list option" where
  "variorum_init_func_ptrs_loop i 0 ps = Some ps"
| "variorum_init_func_ptrs_loop i (Suc n) ps =
    (if i < length ps
     then variorum_init_func_ptrs_loop (Suc i) n (ps[i := clear_func_ptrs (ps ! i)])
     else None)"

definition variorum_init_func_ptrs :: "build \<Rightarrow> platform list \<Rightarrow> platform list option" where
  "variorum_init_func_ptrs b ps = variorum_init_func_ptrs_loop 0 (P_NUM_PLATFORMS b) ps"

lemma foldl_clear: "foldl (\<lambda>f sl. f(sl := None)) f sls sl = (if sl \<in> set sls then None else f sl)"
  by (induction sls arbitrary: f) auto

lemma cleared_slots_all: "sl \<in> set cleared_slots"
  by (cases sl) (simp_all add: cleared_slots_def)

lemma fptr_clear_func_ptrs [simp]: "fptr (clear_func_ptrs p) sl = None"
  by (simp add: clear_func_ptrs_def foldl_clear cleared_slots_all)

lemma clear_func_ptrs_frame [simp]:
  "arch_id (clear_func_ptrs p) = arch_id p" "hostname (clear_func_ptrs p) = hostname p"
  "num_sockets (clear_func_ptrs p) = num_sockets p" "total_cores (clear_func_ptrs p) = total_cores p"
  "total_threads (clear_func_ptrs p) = total_threads p"
  by (simp_all add: clear_func_ptrs_def)

lemma init_loop:
  "variorum_init_func_ptrs_loop i n ps =
    (if i + n \<le> length ps \<or> n = 0
     then Some (map (\<lambda>j. if i \<le> j \<and> j < i + n then clear_func_ptrs (ps ! j) else ps ! j) [0..<length ps])
     else None)"
proof (induction i n ps rule: variorum_init_func_ptrs_loop.induct)
  case (1 i ps)
  show ?case by (auto intro!: nth_equalityI)
next
  case (2 i n ps)
  show ?case
  proof (cases "i < length ps")
    case True
    with 2 show ?thesis
      by (auto simp: nth_list_update not_less_eq_eq intro!: nth_equalityI)
  qed simp
qed

section \<open>Indices\<close>

lemma P_IDX_less: "b k \<Longrightarrow> P_IDX b k < P_NUM_PLATFORMS b"
  by (cases k) (auto simp: P_IDX_def P_NUM_PLATFORMS_def platforms_def platform_enum_def)

lemma P_IDX_mono: "b k \<Longrightarrow> k < l \<Longrightarrow> P_IDX b k < P_IDX b l"
  by (cases k; cases l) (simp_all add: less_platform_kind_def P_IDX_def platform_enum_def)

lemma P_IDX_inj: "b k \<Longrightarrow> b l \<Longrightarrow> P_IDX b k = P_IDX b l \<Longrightarrow> k = l"
  by (metis P_IDX_mono less_irrefl linorder_less_linear)

lemma platforms_nth: "b k \<Longrightarrow> platforms b ! P_IDX b k = k"
  by (cases k) (simp_all add: platforms_def P_IDX_def platform_enum_def)

text \<open>
  The reset stays inside \<open>g_platform\<close> exactly for builds of at most two platforms, and
  then every one of the 26 pointers of every platform of the build is NULL and nothing else of
  the table has changed.
\<close>

theorem init_func_ptrs_resets:
  assumes "length ps = MAX_PLATFORMS"
  shows "(variorum_init_func_ptrs b ps = None \<longleftrightarrow> MAX_PLATFORMS < P_NUM_PLATFORMS b) \<and>
    (\<forall>ps'. variorum_init_func_ptrs b ps = Some ps' \<longrightarrow>
      length ps' = length ps \<and>
      (\<forall>i < P_NUM_PLATFORMS b. \<exists>f. ps' ! i = (ps ! i)\<lparr>fptr := f\<rparr> \<and> (\<forall>sl. f sl = None)) \<and>
      (\<forall>i < length ps. P_NUM_PLATFORMS b \<le> i \<longrightarrow> ps' ! i = ps ! i))"
proof -
  have "\<exists>f. clear_func_ptrs p = p\<lparr>fptr := f\<rparr> \<and> (\<forall>sl. f sl = None)" for p
    by (rule exI [of _ "fptr (clear_func_ptrs p)"]) (simp add: clear_func_ptrs_def foldl_clear cleared_slots_all)
  then show ?thesis using assms
    by (auto simp: variorum_init_func_ptrs_def init_loop MAX_PLATFORMS_def split: if_splits)
qed

text \<open>The array before the first call: static storage, all zero.\<close>

definition zero_platform :: platform where
  "zero_platform = \<lparr>fptr = \<lambda>_. None, arch_id = Null, hostname = '''', num_sockets = 0,
     total_cores = 0, total_threads = 0, num_cores_per_socket = 0, num_threads_per_core = 0\<rparr>"

definition g_platform_init :: "platform list" where
  "g_platform_init = replicate MAX_PLATFORMS zero_platform"

lemma length_g_platform_init [simp]: "length g_platform_init = MAX_PLATFORMS"
  by (simp add: g_platform_init_def)

theorem init_func_ptrs_resets_witness:
  "variorum_init_func_ptrs (\<lambda>k. k \<in> {INTEL_CPU, NVIDIA_GPU, ARM_CPU}) g_platform_init = None \<and>
   variorum_init_func_ptrs (\<lambda>k. k = INTEL_CPU)
      [install [(Print_power, ibm_cpu_p9 get_power)] zero_platform, zero_platform] \<noteq> None"
proof -
  have "P_NUM_PLATFORMS (\<lambda>k. k \<in> {INTEL_CPU, NVIDIA_GPU, ARM_CPU}) = 3"
    "P_NUM_PLATFORMS (\<lambda>k. k = INTEL_CPU) = 1"
    by (simp_all add: P_NUM_PLATFORMS_def platforms_def platform_enum_def)
  then show ?thesis
    using init_func_ptrs_resets [of g_platform_init "\<lambda>k. k \<in> {INTEL_CPU, NVIDIA_GPU, ARM_CPU}"]
      init_func_ptrs_resets [of "[install [(Print_power, ibm_cpu_p9 get_power)] zero_platform, zero_platform]"
        "\<lambda>k. k = INTEL_CPU"]
    by (auto simp: MAX_PLATFORMS_def)
qed

end
