(* ===== verification/Topology.thy ===== *)
theory Topology imports Platform "HOL-Library.Signed_Division" begin

text \<open>
  variorum_topology.c and variorum_get_topology of config_architecture.c: the machine's
  sockets, cores and threads, read from hwloc, checked, and stored in the platform array.

  hwloc is a library: what its calls return is the parameter \<open>hwloc\<close>. Its documentation says
  that \<open>hwloc_get_nbobjs_by_type\<close> gives 0 when there is no such object, -1 when they are at
  several levels, and otherwise their number; this is \<open>hwloc_counts\<close>. A check that fails ends
  the process: the result is then Inl of the message's cause.
\<close>

datatype hwloc_obj_type = HWLOC_OBJ_SOCKET | HWLOC_OBJ_CORE | HWLOC_OBJ_PU

record hwloc =
  hwloc_topology_init :: int
  hwloc_topology_load :: int
  hwloc_get_nbobjs_by_type :: "hwloc_obj_type \<Rightarrow> int"
  gethostname :: string

definition hwloc_counts :: "hwloc \<Rightarrow> bool" where
  "hwloc_counts H \<longleftrightarrow>
     (\<forall>ty \<in> {HWLOC_OBJ_SOCKET, HWLOC_OBJ_CORE, HWLOC_OBJ_PU}.
        -1 \<le> hwloc_get_nbobjs_by_type H ty \<and> hwloc_get_nbobjs_by_type H ty < 2 ^ 31)"

datatype exit_cause =
    Topology_init_failed | Topology_load_failed
  | Sockets_at_several_levels | No_sockets
  | Cores_at_several_levels | No_cores
  | Threads_at_several_levels | No_threads
  | Cores_not_multiple_of_sockets | Threads_not_multiple_of_cores

record tbase = vbase +
  init_variorum_init_topology :: bool
  g_platform :: "platform list"

section \<open>variorum\_topology.c\<close>

definition variorum_init_topology ::
  "hwloc \<Rightarrow> 'a tbase_scheme \<Rightarrow> exit_cause + (int \<times> 'a tbase_scheme)" where
  "variorum_init_topology H s =
    (if \<not> init_variorum_init_topology s then
       let s = s\<lparr>init_variorum_init_topology := True\<rparr> in
       if hwloc_topology_init H \<noteq> 0 then Inl Topology_init_failed
       else if hwloc_topology_load H \<noteq> 0 then Inl Topology_load_failed
       else Inr (0, s)
     else Inr (0, s))"

definition get_nbobjs ::
  "hwloc_obj_type \<Rightarrow> hwloc \<Rightarrow> 'a tbase_scheme \<Rightarrow> exit_cause + (int \<times> 'a tbase_scheme)" where
  "get_nbobjs ty H s =
    (case variorum_init_topology H s of
       Inl e \<Rightarrow> Inl e
     | Inr (rc, s) \<Rightarrow> Inr (if rc = 0 then hwloc_get_nbobjs_by_type H ty else rc, s))"

definition variorum_get_num_sockets ::
  "hwloc \<Rightarrow> 'a tbase_scheme \<Rightarrow> exit_cause + (int \<times> 'a tbase_scheme)" where
  "variorum_get_num_sockets H s = get_nbobjs HWLOC_OBJ_SOCKET H s"

definition variorum_get_num_cores ::
  "hwloc \<Rightarrow> 'a tbase_scheme \<Rightarrow> exit_cause + (int \<times> 'a tbase_scheme)" where
  "variorum_get_num_cores H s = get_nbobjs HWLOC_OBJ_CORE H s"

definition variorum_get_num_threads ::
  "hwloc \<Rightarrow> 'a tbase_scheme \<Rightarrow> exit_cause + (int \<times> 'a tbase_scheme)" where
  "variorum_get_num_threads H s = get_nbobjs HWLOC_OBJ_PU H s"

section \<open>variorum\_get\_topology\<close>

text \<open>The unsigned values a caller gets for its three out-parameters.\<close>

record topo =
  nsockets :: u32
  ncores :: u32
  nthreads :: u32

definition upd_platform ::
  "nat \<Rightarrow> (platform \<Rightarrow> platform) \<Rightarrow> 'a tbase_scheme \<Rightarrow> 'a tbase_scheme" where
  "upd_platform idx f s = s\<lparr>g_platform := (g_platform s)[idx := f (g_platform s ! idx)]\<rparr>"

definition topo_of :: "platform \<Rightarrow> topo" where
  "topo_of p = \<lparr>nsockets = unsigned_of_int (num_sockets p), ncores = unsigned_of_int (total_cores p),
     nthreads = unsigned_of_int (total_threads p)\<rparr>"

text \<open>
  The static flag of the C function is never set (the assignment is commented out), so every
  call reads and checks the counts again. None: \<open>idx\<close> is outside the array.
\<close>

definition variorum_get_topology ::
  "hwloc \<Rightarrow> nat \<Rightarrow> 'a tbase_scheme \<Rightarrow> (exit_cause + (topo \<times> 'a tbase_scheme)) option" where
  "variorum_get_topology H idx s =
    (if length (g_platform s) \<le> idx then None
     else
     let s = upd_platform idx (\<lambda>p. p\<lparr>hostname := gethostname H\<rparr>) s in
     case variorum_init_topology H s of Inl e \<Rightarrow> Some (Inl e) | Inr (_, s) \<Rightarrow>
     case variorum_get_num_sockets H s of Inl e \<Rightarrow> Some (Inl e) | Inr (sockets, s) \<Rightarrow>
     let s = upd_platform idx (\<lambda>p. p\<lparr>num_sockets := sockets\<rparr>) s in
     if sockets = -1 then Some (Inl Sockets_at_several_levels)
     else if sockets = 0 then Some (Inl No_sockets) else
     case variorum_get_num_cores H s of Inl e \<Rightarrow> Some (Inl e) | Inr (cores, s) \<Rightarrow>
     let s = upd_platform idx (\<lambda>p. p\<lparr>total_cores := cores\<rparr>) s in
     if cores = -1 then Some (Inl Cores_at_several_levels)
     else if cores = 0 then Some (Inl No_cores) else
     case variorum_get_num_threads H s of Inl e \<Rightarrow> Some (Inl e) | Inr (threads, s) \<Rightarrow>
     let s = upd_platform idx (\<lambda>p. p\<lparr>total_threads := threads\<rparr>) s in
     if threads = -1 then Some (Inl Threads_at_several_levels)
     else if threads = 0 then Some (Inl No_threads) else
     let s = upd_platform idx (\<lambda>p. p\<lparr>num_cores_per_socket := cores sdiv sockets\<rparr>) s in
     if cores smod sockets \<noteq> 0 then Some (Inl Cores_not_multiple_of_sockets) else
     let s = upd_platform idx (\<lambda>p. p\<lparr>num_threads_per_core := threads sdiv cores\<rparr>) s in
     if threads smod cores \<noteq> 0 then Some (Inl Threads_not_multiple_of_cores)
     else Some (Inr (topo_of (g_platform s ! idx), s)))"

section \<open>Properties\<close>

text \<open>What the users of the counts rely on.\<close>

definition topo_ok :: "topo \<Rightarrow> bool" where
  "topo_ok T \<longleftrightarrow> 0 < unat (nsockets T) \<and> 0 < unat (ncores T) \<and> 0 < unat (nthreads T) \<and>
     unat (nsockets T) dvd unat (ncores T) \<and> unat (ncores T) dvd unat (nthreads T) \<and>
     unat (nthreads T) < 2 ^ 31"

text \<open>The platform entry after a successful call.\<close>

definition fill_platform :: "hwloc \<Rightarrow> platform \<Rightarrow> platform" where
  "fill_platform H p = p\<lparr>hostname := gethostname H,
     num_sockets := hwloc_get_nbobjs_by_type H HWLOC_OBJ_SOCKET,
     total_cores := hwloc_get_nbobjs_by_type H HWLOC_OBJ_CORE,
     total_threads := hwloc_get_nbobjs_by_type H HWLOC_OBJ_PU,
     num_cores_per_socket := hwloc_get_nbobjs_by_type H HWLOC_OBJ_CORE sdiv
       hwloc_get_nbobjs_by_type H HWLOC_OBJ_SOCKET,
     num_threads_per_core := hwloc_get_nbobjs_by_type H HWLOC_OBJ_PU sdiv
       hwloc_get_nbobjs_by_type H HWLOC_OBJ_CORE\<rparr>"

text \<open>The machines the library accepts.\<close>

definition topology_accepted :: "hwloc \<Rightarrow> bool" where
  "topology_accepted H \<longleftrightarrow>
    (let S = hwloc_get_nbobjs_by_type H HWLOC_OBJ_SOCKET;
         C = hwloc_get_nbobjs_by_type H HWLOC_OBJ_CORE;
         P = hwloc_get_nbobjs_by_type H HWLOC_OBJ_PU
     in 0 < S \<and> 0 < C \<and> 0 < P \<and> S dvd C \<and> C dvd P)"

lemma upd_platform_simps [simp]:
  "init_variorum_init_topology (upd_platform i f s) = init_variorum_init_topology s"
  "elog (upd_platform i f s) = elog s"
  "length (g_platform (upd_platform i f s)) = length (g_platform s)"
  "tbase.more (upd_platform i f s) = tbase.more s"
  "i < length (g_platform s) \<Longrightarrow> g_platform (upd_platform i f s) ! i = f (g_platform s ! i)"
  by (simp_all add: upd_platform_def)

lemma upd_platform_twice [simp]:
  "i < length (g_platform s) \<Longrightarrow> upd_platform i f (upd_platform i g s) = upd_platform i (f \<circ> g) s"
  by (simp add: upd_platform_def)

lemma smod_eq_0_iff_dvd: "(a :: int) smod b = 0 \<longleftrightarrow> b dvd a"
  by (auto simp: signed_modulo_int_def sgn_eq_0_iff)

lemma get_topology_cases:
  assumes "idx < length (g_platform s)" "hwloc_counts H"
    "hwloc_topology_init H = 0" "hwloc_topology_load H = 0"
  shows "if topology_accepted H
    then variorum_get_topology H idx s =
      Some (Inr (topo_of (fill_platform H (g_platform s ! idx)),
        (upd_platform idx (fill_platform H) s)\<lparr>init_variorum_init_topology := True\<rparr>))
    else \<exists>e. variorum_get_topology H idx s = Some (Inl e)"
proof -
  let ?S = "hwloc_get_nbobjs_by_type H HWLOC_OBJ_SOCKET" and ?C = "hwloc_get_nbobjs_by_type H HWLOC_OBJ_CORE"
    and ?P = "hwloc_get_nbobjs_by_type H HWLOC_OBJ_PU"
  have "-1 \<le> ?S" "-1 \<le> ?C" "-1 \<le> ?P" using assms(2) by (auto simp: hwloc_counts_def)
  then have acc: "topology_accepted H \<longleftrightarrow> ?S \<noteq> -1 \<and> ?S \<noteq> 0 \<and> ?C \<noteq> -1 \<and> ?C \<noteq> 0 \<and> ?P \<noteq> -1 \<and> ?P \<noteq> 0 \<and>
      ?C smod ?S = 0 \<and> ?P smod ?C = 0"
    by (auto simp: topology_accepted_def Let_def smod_eq_0_iff_dvd)
  show ?thesis
    unfolding acc
    using assms(1,3,4)
    by (auto simp: variorum_get_topology_def variorum_init_topology_def get_nbobjs_def
        variorum_get_num_sockets_def variorum_get_num_cores_def variorum_get_num_threads_def Let_def
        upd_platform_def fill_platform_def)
qed

lemma unsigned_count: "0 < i \<Longrightarrow> i < 2 ^ 31 \<Longrightarrow> unat (unsigned_of_int i) = nat i"
  by (rule unat_unsigned_of_int) simp_all

lemma uint_count: "0 < i \<Longrightarrow> i < 2 ^ 31 \<Longrightarrow> uint (unsigned_of_int i) = i"
  by (simp add: unsigned_of_int_def uint_word_of_int)

lemma topo_ok_fill:
  assumes "hwloc_counts H" "topology_accepted H"
  shows "topo_ok (topo_of (fill_platform H p))"
  using assms
  by (auto simp: topo_ok_def topo_of_def fill_platform_def topology_accepted_def Let_def hwloc_counts_def
      unsigned_count nat_dvd_iff)

text \<open>
  C33: variorum_get_topology returns, rather than ending the process, on exactly the machines
  whose counts are positive and divide one another; what it then hands out and stores are
  hwloc's counts, the caller's values satisfy the divisibility every index computation of the
  MSR layer relies on, and only the entry of this platform has changed.
\<close>

theorem get_topology_correct:
  assumes "idx < length (g_platform s)" "hwloc_counts H"
    "hwloc_topology_init H = 0" "hwloc_topology_load H = 0"
  shows "(topology_accepted H \<longleftrightarrow> (\<exists>r. variorum_get_topology H idx s = Some (Inr r))) \<and>
    (\<forall>T s'. variorum_get_topology H idx s = Some (Inr (T, s')) \<longrightarrow>
       topo_ok T \<and> T = topo_of (g_platform s' ! idx) \<and>
       uint (nsockets T) = hwloc_get_nbobjs_by_type H HWLOC_OBJ_SOCKET \<and>
       uint (ncores T) = hwloc_get_nbobjs_by_type H HWLOC_OBJ_CORE \<and>
       uint (nthreads T) = hwloc_get_nbobjs_by_type H HWLOC_OBJ_PU \<and>
       num_cores_per_socket (g_platform s' ! idx) * num_sockets (g_platform s' ! idx)
         = total_cores (g_platform s' ! idx) \<and>
       num_threads_per_core (g_platform s' ! idx) * total_cores (g_platform s' ! idx)
         = total_threads (g_platform s' ! idx) \<and>
       fptr (g_platform s' ! idx) = fptr (g_platform s ! idx) \<and>
       arch_id (g_platform s' ! idx) = arch_id (g_platform s ! idx) \<and>
       (\<forall>j < length (g_platform s). j \<noteq> idx \<longrightarrow> g_platform s' ! j = g_platform s ! j))"
proof (cases "topology_accepted H")
  case False
  then show ?thesis using get_topology_cases [OF assms] by auto
next
  case True
  have r: "variorum_get_topology H idx s =
      Some (Inr (topo_of (fill_platform H (g_platform s ! idx)),
        (upd_platform idx (fill_platform H) s)\<lparr>init_variorum_init_topology := True\<rparr>))"
    using True get_topology_cases [OF assms] by simp
  show ?thesis
    using True assms(1,2) topo_ok_fill [OF assms(2) True] unfolding r
    by (auto simp: topology_accepted_def Let_def hwloc_counts_def fill_platform_def topo_of_def
        uint_count signed_divide_int_def upd_platform_def)
qed

definition two_socket_machine :: hwloc where
  "two_socket_machine = \<lparr>hwloc_topology_init = 0, hwloc_topology_load = 0,
     hwloc_get_nbobjs_by_type = (\<lambda>ty. case ty of HWLOC_OBJ_SOCKET \<Rightarrow> 2 | HWLOC_OBJ_CORE \<Rightarrow> 16
       | HWLOC_OBJ_PU \<Rightarrow> 32), gethostname = ''node1''\<rparr>"

definition tbase_init :: tbase where
  "tbase_init = \<lparr>elog = [], init_variorum_init_topology = False, g_platform = g_platform_init\<rparr>"

theorem get_topology_correct_witness:
  "\<exists>T s'. variorum_get_topology two_socket_machine 0 tbase_init = Some (Inr (T, s')) \<and>
     uint (nsockets T) = 2 \<and> topo_ok T"
proof -
  have hc: "hwloc_counts two_socket_machine" "topology_accepted two_socket_machine"
    by (simp_all add: hwloc_counts_def two_socket_machine_def topology_accepted_def)
  have c: "(0 :: nat) < length (g_platform tbase_init)" "hwloc_topology_init two_socket_machine = 0"
    "hwloc_topology_load two_socket_machine = 0"
    by (simp_all add: tbase_init_def two_socket_machine_def MAX_PLATFORMS_def)
  obtain T s' where r: "variorum_get_topology two_socket_machine 0 tbase_init = Some (Inr (T, s'))"
    using get_topology_correct [OF c(1) hc(1) c(2,3)] hc(2) by auto
  then have "topo_ok T" "uint (nsockets T) = 2"
    using get_topology_correct [OF c(1) hc(1) c(2,3)]
    by (auto simp: two_socket_machine_def)
  with r show ?thesis by auto
qed

text \<open>
  The counts are stable. After a successful call a second one, for the same platform,
  hands out the same values and changes nothing, although it queries hwloc again.
\<close>

theorem get_topology_idempotent:
  assumes "idx < length (g_platform s)" "hwloc_counts H"
    "hwloc_topology_init H = 0" "hwloc_topology_load H = 0"
    "variorum_get_topology H idx s = Some (Inr (T, s'))"
  shows "variorum_get_topology H idx s' = Some (Inr (T, s'))"
proof -
  have acc: "topology_accepted H"
    using assms(5) get_topology_cases [OF assms(1-4)] by (auto split: if_splits)
  with assms(5) get_topology_cases [OF assms(1-4)]
  have s': "s' = (upd_platform idx (fill_platform H) s)\<lparr>init_variorum_init_topology := True\<rparr>"
    and T: "T = topo_of (fill_platform H (g_platform s ! idx))" by simp_all
  have len: "idx < length (g_platform s')" using assms(1) s' by simp
  have "fill_platform H (fill_platform H p) = fill_platform H p" for p
    by (simp add: fill_platform_def)
  then show ?thesis
    using get_topology_cases [OF len assms(2-4)] acc assms(1)
    by (simp add: s' T upd_platform_def)
qed

theorem get_topology_idempotent_witness:
  "\<exists>T s'. variorum_get_topology two_socket_machine 1 tbase_init = Some (Inr (T, s')) \<and>
     variorum_get_topology two_socket_machine 1 s' = Some (Inr (T, s'))"
proof -
  have hc: "hwloc_counts two_socket_machine" "topology_accepted two_socket_machine"
    by (simp_all add: hwloc_counts_def two_socket_machine_def topology_accepted_def)
  have c: "(1 :: nat) < length (g_platform tbase_init)" "hwloc_topology_init two_socket_machine = 0"
    "hwloc_topology_load two_socket_machine = 0"
    by (simp_all add: tbase_init_def two_socket_machine_def MAX_PLATFORMS_def)
  obtain T s' where r: "variorum_get_topology two_socket_machine 1 tbase_init = Some (Inr (T, s'))"
    using get_topology_cases [OF c(1) hc(1) c(2,3)] hc(2) by auto
  then show ?thesis using get_topology_idempotent [OF c(1) hc(1) c(2,3) r] by blast
qed

end
