(* ===== verification/Msr_Device.thy ===== *)
theory Msr_Device imports Topology begin

text \<open>
  The device half of msr_core.c: the file descriptor of every logical processor, the search
  for a usable MSR kernel module, opening and closing the device files, and reading and
  writing a register by index or by (socket, core, thread) coordinate.

  The operating system and the msr and msr-safe kernel drivers are parameters, collected in an
  \<open>os_env\<close>: which files stat and open find, which closes fail, and what a read, a write or a
  batch ioctl does to the register file. \<open>driver_ok\<close> says what the library relies on.
  The topology a function asks variorum_get_topology for is its argument \<open>T\<close>; by
  get_topology_idempotent those calls change nothing once variorum_enter has made the first.
\<close>

section \<open>The operating system\<close>

datatype msr_path = Allowlist_path | Stock_path int | Safe_path int | Batch_path | Midr_path nat | Sysfs_path string

fun path_cpu :: "msr_path \<Rightarrow> int" where
  "path_cpu (Stock_path c) = c"
| "path_cpu (Safe_path c) = c"
| "path_cpu _ = -1"

fun is_cpu_path :: "msr_path \<Rightarrow> bool" where
  "is_cpu_path (Stock_path c) = True"
| "is_cpu_path (Safe_path c) = True"
| "is_cpu_path _ = False"

text \<open>The registers of each cpu, by address.\<close>

type_synonym regs = "int \<Rightarrow> u64 \<Rightarrow> u64"

text \<open>struct msr\_batch\_op\<close>

record msr_batch_op =
  op_cpu :: u16
  op_isrdmsr :: u16
  op_err :: int
  op_msr :: u32
  op_msrdata :: u64
  op_wmask :: u64

record os_env =
  os_stat :: "msr_path \<Rightarrow> (bool \<times> bool) option"
    \<comment> \<open>None: stat fails; otherwise the owner's read and write permission\<close>
  os_can_open :: "msr_path \<Rightarrow> bool"
  os_close_fails :: "int \<Rightarrow> bool"
  drv_can_read :: "msr_path \<Rightarrow> u64 \<Rightarrow> bool"
  drv_read :: "regs \<Rightarrow> msr_path \<Rightarrow> u64 \<Rightarrow> u64 option"
    \<comment> \<open>None: fewer than 8 bytes were read\<close>
  drv_write :: "regs \<Rightarrow> msr_path \<Rightarrow> u64 \<Rightarrow> u64 \<Rightarrow> regs option"
  drv_ioctl :: "regs \<Rightarrow> msr_batch_op list \<Rightarrow> int \<times> msr_batch_op list \<times> regs"

definition set_reg :: "int \<Rightarrow> u64 \<Rightarrow> u64 \<Rightarrow> regs \<Rightarrow> regs" where
  "set_reg c m v R = R(c := (R c)(m := v))"

definition batch_read_op :: "regs \<Rightarrow> msr_batch_op \<Rightarrow> msr_batch_op" where
  "batch_read_op R op = op\<lparr>op_msrdata := R (int (unat (op_cpu op))) (ucast (op_msr op))\<rparr>"

text \<open>
  The behaviour of the drivers for a register that each processor has to itself and whose bits can all be written: a read gives
  the register, a write that succeeds sets it and nothing else, a batch of reads that succeeds fills in every result and
  changes no register. A register that several processors share stands here for the copy of the one processor of a socket
  or core through which the code accesses it; sharing itself, and write masks, are in scoped_driver of Msr_Access.
\<close>

definition driver_ok :: "os_env \<Rightarrow> bool" where
  "driver_ok E \<longleftrightarrow>
     (\<forall>R p m. drv_read E R p m = (if drv_can_read E p m then Some (R (path_cpu p) m) else None)) \<and>
     (\<forall>R p m v R'. drv_write E R p m v = Some R' \<longrightarrow> R' = set_reg (path_cpu p) m v R) \<and>
     (\<forall>R ops rc ops' R'. drv_ioctl E R ops = (rc, ops', R') \<longrightarrow> 0 \<le> rc \<longrightarrow>
        (\<forall>op \<in> set ops. op_isrdmsr op \<noteq> 0) \<longrightarrow> ops' = map (batch_read_op R) ops \<and> R' = R)"

record msr_state = tbase +
  init_core_fd :: bool
  file_descriptors :: "int option list" \<comment> \<open>None: allocated, not yet written\<close>
  core_nthreads :: u32
  open_files :: "int \<Rightarrow> msr_path option"
  next_fd :: int
  registers :: regs

definition os_open :: "os_env \<Rightarrow> msr_path \<Rightarrow> 'a msr_state_scheme \<Rightarrow> int \<times> 'a msr_state_scheme" where
  "os_open E p s =
    (if os_can_open E p
     then (next_fd s, s\<lparr>open_files := (open_files s)(next_fd s \<mapsto> p), next_fd := next_fd s + 1\<rparr>)
     else (-1, s))"

definition os_close :: "os_env \<Rightarrow> int \<Rightarrow> 'a msr_state_scheme \<Rightarrow> int \<times> 'a msr_state_scheme" where
  "os_close E fd s =
    (if open_files s fd = None \<or> os_close_fails E fd then (-1, s)
     else (0, s\<lparr>open_files := (open_files s)(fd := None)\<rparr>))"

definition pread :: "os_env \<Rightarrow> int \<Rightarrow> u64 \<Rightarrow> 'a msr_state_scheme \<Rightarrow> u64 option" where
  "pread E fd m s =
    (case open_files s fd of None \<Rightarrow> None
     | Some p \<Rightarrow> if is_cpu_path p then drv_read E (registers s) p m else None)"

definition pwrite ::
  "os_env \<Rightarrow> int \<Rightarrow> u64 \<Rightarrow> u64 \<Rightarrow> 'a msr_state_scheme \<Rightarrow> 'a msr_state_scheme option" where
  "pwrite E fd m v s =
    (case open_files s fd of None \<Rightarrow> None
     | Some p \<Rightarrow> if is_cpu_path p then
         map_option (\<lambda>R. s\<lparr>registers := R\<rparr>) (drv_write E (registers s) p m v) else None)"

section \<open>Coordinates\<close>

text \<open>All of it 32-bit unsigned arithmetic, widened at the return.\<close>

definition devidx :: "topo \<Rightarrow> u32 \<Rightarrow> u32 \<Rightarrow> u32 \<Rightarrow> u64" where
  "devidx T socket core thread =
     ucast ((thread * nsockets T * (ncores T div nsockets T)) + (socket * ncores T div nsockets T)
       + core)"

definition sockets_assert :: "topo \<Rightarrow> u32 \<Rightarrow> 'a vbase_scheme \<Rightarrow> int \<times> 'a vbase_scheme" where
  "sockets_assert T socket s =
    (if nsockets T < socket
     then (err_code VARIORUM_ERROR_PLATFORM_ENV, variorum_error_handler VARIORUM_ERROR_PLATFORM_ENV s)
     else (0, s))"

definition threads_assert :: "topo \<Rightarrow> u32 \<Rightarrow> 'a vbase_scheme \<Rightarrow> int \<times> 'a vbase_scheme" where
  "threads_assert T thread s =
    (if nthreads T < thread
     then (err_code VARIORUM_ERROR_PLATFORM_ENV, variorum_error_handler VARIORUM_ERROR_PLATFORM_ENV s)
     else (0, s))"

definition cores_assert :: "topo \<Rightarrow> u32 \<Rightarrow> 'a vbase_scheme \<Rightarrow> int \<times> 'a vbase_scheme" where
  "cores_assert T core s =
    (if ncores T < core
     then (err_code VARIORUM_ERROR_PLATFORM_ENV, variorum_error_handler VARIORUM_ERROR_PLATFORM_ENV s)
     else (0, s))"

section \<open>File descriptors\<close>

text \<open>
  A pointer into the static array, as its index; None is NULL. The first call allocates the
  array, uninitialised, and keeps the number of threads.
\<close>

definition core_fd :: "topo \<Rightarrow> u32 \<Rightarrow> 'a msr_state_scheme \<Rightarrow> nat option \<times> 'a msr_state_scheme" where
  "core_fd T dev_idx s =
    (let s = (if \<not> init_core_fd s
              then s\<lparr>init_core_fd := True, core_nthreads := nthreads T,
                     file_descriptors := replicate (unat (nthreads T)) None\<rparr>
              else s)
     in if dev_idx < core_nthreads s then (Some (unat dev_idx), s)
        else (None, variorum_error_handler VARIORUM_ERROR_ARRAY_BOUNDS s))"

text \<open>
  \<open>kerneltype\<close> is 3 before the allowlist is looked at, 0 for msr-safe, 1 for the stock module.
  It and \<open>dev_idx\<close> (None for the null pointer of the first call) are changed in place.
\<close>

definition stat_module ::
  "os_env \<Rightarrow> msr_path \<Rightarrow> int \<Rightarrow> int option \<Rightarrow> 'a vbase_scheme \<Rightarrow>
    (int \<times> int \<times> int option \<times> 'a vbase_scheme) option" where
  "stat_module E filename kerneltype dev_idx s =
    (if kerneltype = 3 then
       (case os_stat E filename of
          None \<Rightarrow> Some (-1, 1, dev_idx, s)
        | Some (r, w) \<Rightarrow> if \<not> r \<or> \<not> w then Some (-1, 1, dev_idx, s) else Some (0, 0, dev_idx, s))
     else
       (case os_stat E filename of
          None \<Rightarrow>
            (case dev_idx of
               None \<Rightarrow> None
             | Some d \<Rightarrow>
                 let s = variorum_error_handler VARIORUM_ERROR_MSR_MODULE s in
                 if kerneltype \<noteq> 0
                 then Some (err_code VARIORUM_ERROR_RAPL_INIT, kerneltype, dev_idx, s)
                 else Some (0, 1, Some (-1), s))
        | Some (r, w) \<Rightarrow>
            if \<not> r \<or> \<not> w then
              (case dev_idx of
                 None \<Rightarrow> None
               | Some d \<Rightarrow>
                   let s = variorum_error_handler VARIORUM_ERROR_MSR_MODULE s;
                       s = variorum_error_handler VARIORUM_ERROR_MSR_MODULE s in
                   Some (err_code VARIORUM_ERROR_MSR_MODULE, 1, Some (-1), s))
            else Some (0, kerneltype, dev_idx, s)))"

lemma stat_module_progress:
  assumes "stat_module E p kt (Some d) s = Some (rc, kt', d', s')" "\<not> rc < 0"
  shows "d' = Some d \<and> (kt' = kt \<or> kt = 3 \<and> kt' = 0) \<or> kt = 0 \<and> kt' = 1 \<and> d' = Some (-1)"
  using assms by (auto simp: stat_module_def Let_def split: option.splits if_splits)

lemma core_fd_bound: "core_fd T d s = (Some i, s') \<Longrightarrow> i = unat d \<and> d < core_nthreads s'"
  by (auto simp: core_fd_def Let_def split: if_splits)

lemma core_fd_minus_1: "fst (core_fd T (unsigned_of_int (-1)) s) = None"
proof -
  have "\<not> (-1 :: u32) < w" for w using word_order.extremum [of w] by (simp add: not_less)
  then show ?thesis by (simp add: core_fd_def Let_def unsigned_of_int_def)
qed

definition set_fd :: "nat \<Rightarrow> int \<Rightarrow> 'a msr_state_scheme \<Rightarrow> 'a msr_state_scheme" where
  "set_fd i fd s = s\<lparr>file_descriptors := (file_descriptors s)[i := Some fd]\<rparr>"

text \<open>
  The loop of init_msr over the devices. \<open>dev_idx--\<close> before the loop's own \<open>dev_idx++\<close> retries
  the same device with the stock module. The measure counts each device twice, and once less
  when the stock module is already in use.
\<close>

function init_msr_loop ::
  "os_env \<Rightarrow> topo \<Rightarrow> int \<Rightarrow> int \<Rightarrow> 'a msr_state_scheme \<Rightarrow> (int \<times> 'a msr_state_scheme) option" where
  "init_msr_loop E T kerneltype dev_idx s =
    (if dev_idx < sint (nthreads T) then
       let filename = (if kerneltype \<noteq> 0 then Stock_path dev_idx else Safe_path dev_idx) in
       case stat_module E filename kerneltype (Some dev_idx) s of
         None \<Rightarrow> None
       | Some (rc, kerneltype', dev', s) \<Rightarrow>
           if rc < 0 then Some (-1, s)
           else
             case core_fd T (unsigned_of_int (the dev')) s of
               (None, s) \<Rightarrow> None
             | (Some i, s) \<Rightarrow>
                 let (fd, s) = os_open E filename s; s = set_fd i fd s in
                 if fd = -1 then
                   let s = variorum_error_handler VARIORUM_ERROR_RAPL_INIT s in
                   if kerneltype' \<noteq> 0
                   then Some (err_code VARIORUM_ERROR_RAPL_INIT,
                              variorum_error_handler VARIORUM_ERROR_RAPL_INIT s)
                   else init_msr_loop E T 1 (the dev') s
                 else init_msr_loop E T kerneltype' (the dev' + 1) s
     else Some (0, s))"
  by pat_completeness auto
termination
proof (relation "measure (\<lambda>(E, T, kt, d, s). nat (2 * (sint (nthreads T) - d)) + (if kt = 0 \<or> kt = 3 then 1 else 0))",
    goal_cases)
  case (2 E T kt d s fn p rc q kt' r d' s1 q' i s2 p2 fd s3 s4 s5)
  then show ?case
    by (auto dest!: stat_module_progress)
next
  case (3 E T kt d s fn p rc q kt' r d' s1 q' i s2 p2 fd s3 s4)
  then show ?case
    by (auto dest!: stat_module_progress; metis core_fd_minus_1 fst_conv option.distinct(1))
qed simp

declare init_msr_loop.simps [simp del]

definition init_msr :: "os_env \<Rightarrow> topo \<Rightarrow> 'a msr_state_scheme \<Rightarrow> (int \<times> 'a msr_state_scheme) option" where
  "init_msr E T s =
    (case stat_module E Allowlist_path 3 None s of
       None \<Rightarrow> None
     | Some (_, kerneltype, _, s) \<Rightarrow> init_msr_loop E T kerneltype 0 s)"

fun finalize_msr_loop ::
  "os_env \<Rightarrow> topo \<Rightarrow> int \<Rightarrow> nat list \<Rightarrow> 'a msr_state_scheme \<Rightarrow> (int \<times> 'a msr_state_scheme) option" where
  "finalize_msr_loop E T ret [] s = Some (ret, s)"
| "finalize_msr_loop E T ret (dev_idx # ds) s =
    (case core_fd T (of_nat dev_idx) s of
       (None, s) \<Rightarrow> finalize_msr_loop E T ret ds s
     | (Some i, s) \<Rightarrow>
         (case file_descriptors s ! i of
            None \<Rightarrow> None
          | Some fd \<Rightarrow>
              let (ret, s) = os_close E fd s in
              if ret \<noteq> 0
              then finalize_msr_loop E T ret ds (variorum_error_handler VARIORUM_ERROR_MSR_CLOSE s)
              else finalize_msr_loop E T ret ds (set_fd i 0 s)))"

definition finalize_msr :: "os_env \<Rightarrow> topo \<Rightarrow> 'a msr_state_scheme \<Rightarrow> (int \<times> 'a msr_state_scheme) option" where
  "finalize_msr E T s = finalize_msr_loop E T 0 [0..<unat (nthreads T)] s"

section \<open>Register access\<close>

text \<open>The value read goes to \<open>*val\<close>; a read that fails leaves it as it was.\<close>

definition read_msr_by_idx ::
  "os_env \<Rightarrow> topo \<Rightarrow> int \<Rightarrow> u64 \<Rightarrow> u64 \<Rightarrow> 'a msr_state_scheme \<Rightarrow>
    (int \<times> u64 \<times> 'a msr_state_scheme) option" where
  "read_msr_by_idx E T dev_idx msr val s =
    (case core_fd T (unsigned_of_int dev_idx) s of
       (None, s) \<Rightarrow> Some (-1, val, s)
     | (Some i, s) \<Rightarrow>
         (case file_descriptors s ! i of
            None \<Rightarrow> None
          | Some fd \<Rightarrow>
              (case pread E fd msr s of
                 None \<Rightarrow> Some (err_code VARIORUM_ERROR_MSR_READ, val,
                           variorum_error_handler VARIORUM_ERROR_MSR_READ s)
               | Some v \<Rightarrow> Some (0, v, s))))"

definition write_msr_by_idx ::
  "os_env \<Rightarrow> topo \<Rightarrow> int \<Rightarrow> u64 \<Rightarrow> u64 \<Rightarrow> 'a msr_state_scheme \<Rightarrow>
    (int \<times> 'a msr_state_scheme) option" where
  "write_msr_by_idx E T dev_idx msr val s =
    (case core_fd T (unsigned_of_int dev_idx) s of
       (None, s) \<Rightarrow> Some (-1, s)
     | (Some i, s) \<Rightarrow>
         (case file_descriptors s ! i of
            None \<Rightarrow> None
          | Some fd \<Rightarrow>
              (case pwrite E fd msr val s of
                 None \<Rightarrow> Some (err_code VARIORUM_ERROR_MSR_WRITE,
                           variorum_error_handler VARIORUM_ERROR_MSR_WRITE s)
               | Some s \<Rightarrow> Some (0, s))))"

text \<open>
  The three assertions only report: their results are not looked at. \<open>val\<close> is None for NULL.
\<close>

definition write_msr_by_coord ::
  "os_env \<Rightarrow> topo \<Rightarrow> u32 \<Rightarrow> u32 \<Rightarrow> u32 \<Rightarrow> u64 \<Rightarrow> u64 \<Rightarrow> 'a msr_state_scheme \<Rightarrow>
    (int \<times> 'a msr_state_scheme) option" where
  "write_msr_by_coord E T socket core thread msr val s =
    (let (_, s) = sockets_assert T socket s; (_, s) = cores_assert T core s;
         (_, s) = threads_assert T thread s
     in write_msr_by_idx E T (int_of_u64 (devidx T socket core thread)) msr val s)"

definition read_msr_by_coord ::
  "os_env \<Rightarrow> topo \<Rightarrow> u32 \<Rightarrow> u32 \<Rightarrow> u32 \<Rightarrow> u64 \<Rightarrow> u64 option \<Rightarrow> 'a msr_state_scheme \<Rightarrow>
    (int \<times> u64 option \<times> 'a msr_state_scheme) option" where
  "read_msr_by_coord E T socket core thread msr val s =
    (let (_, s) = sockets_assert T socket s; (_, s) = cores_assert T core s;
         (_, s) = threads_assert T thread s
     in case val of
          None \<Rightarrow> Some (err_code VARIORUM_ERROR_MSR_READ, None,
                     variorum_error_handler VARIORUM_ERROR_MSR_READ s)
        | Some v \<Rightarrow> do {
            (rc, v, s) \<leftarrow> read_msr_by_idx E T (int_of_u64 (devidx T socket core thread)) msr v s;
            Some (rc, Some v, s)
          })"

section \<open>Coordinates name every processor once\<close>

text \<open>A coordinate that exists on the machine.\<close>

definition valid_coord :: "topo \<Rightarrow> u32 \<Rightarrow> u32 \<Rightarrow> u32 \<Rightarrow> bool" where
  "valid_coord T socket core thread \<longleftrightarrow>
     unat socket < unat (nsockets T) \<and> unat core < unat (ncores T) div unat (nsockets T) \<and>
     unat thread < unat (nthreads T) div unat (ncores T)"

lemma topo_products:
  assumes "topo_ok T"
  obtains S c t where "S = unat (nsockets T)" "unat (ncores T) = S * c" "unat (nthreads T) = S * c * t"
    "0 < S" "0 < c" "0 < t" "S * c * t < 2 ^ 31"
proof -
  from assms obtain c t where "unat (ncores T) = unat (nsockets T) * c"
    "unat (nthreads T) = unat (ncores T) * t"
    by (auto simp: topo_ok_def elim!: dvdE)
  then show ?thesis using assms that [of "unat (nsockets T)" c t]
    by (auto simp: topo_ok_def)
qed

lemma unat_devidx:
  assumes "topo_ok T" "valid_coord T socket core thread" "unat socket * unat (ncores T) < 2 ^ 32"
  shows "unat (devidx T socket core thread) =
    unat thread * unat (ncores T) + unat socket * (unat (ncores T) div unat (nsockets T)) + unat core"
    and "unat (devidx T socket core thread) < unat (nthreads T)"
proof -
  obtain S c t where S: "S = unat (nsockets T)" and C: "unat (ncores T) = S * c"
    and P: "unat (nthreads T) = S * c * t" and pos: "0 < S" "0 < c" "0 < t" and b: "S * c * t < 2 ^ 31"
    using topo_products [OF assms(1)] by blast
  have v: "unat socket < S" "unat core < c" "unat thread < t"
    using assms(2) C P pos S by (auto simp: valid_coord_def)
  have "unat thread * S * c + S * c \<le> S * c * t"
    using mult_le_mono2 [of "unat thread + 1" t "S * c"] v by (simp add: algebra_simps)
  moreover have "unat socket * c + c \<le> S * c"
    using mult_le_mono1 [of "unat socket + 1" S c] v by (simp add: algebra_simps)
  ultimately have sum: "unat thread * S * c + unat socket * c + unat core < S * c * t"
    using v by linarith
  have "unat thread * S \<le> unat thread * S * c" using pos by simp
  moreover have big: "(2 :: nat) ^ 31 < 2 ^ 32" by simp
  have "c \<le> S * c * t" using pos by simp
  then have c: "c < 2 ^ 32" using b big by linarith
  ultimately have "unat thread * S < 2 ^ 32 \<and> unat thread * S * c < 2 ^ 32" using sum b big by linarith
  then have "unat (thread * nsockets T * (ncores T div nsockets T)) = unat thread * S * c"
    using pos c by (simp add: unat_word_ariths unat_div_distrib C flip: S)
  moreover have "unat socket * c < 2 ^ 32" using sum b big by linarith
  then have "unat (socket * ncores T div nsockets T) = unat socket * c"
    using assms(3) pos c by (simp add: unat_word_ariths unat_div_distrib C flip: S)
  ultimately have "unat (devidx T socket core thread) = unat thread * S * c + unat socket * c + unat core"
    using sum b by (simp add: devidx_def unat_word_ariths)
  then show "unat (devidx T socket core thread) =
    unat thread * unat (ncores T) + unat socket * (unat (ncores T) div unat (nsockets T)) + unat core"
    and "unat (devidx T socket core thread) < unat (nthreads T)"
    using sum pos by (simp_all add: C P mult.assoc flip: S)
qed

lemma two_level_unique:
  fixes a a' b b' c c' :: nat
  assumes "b * n + c = b' * n + c'" "c < n" "c' < n"
  shows "b = b' \<and> c = c'"
proof -
  have "(b * n + c) div n = b" "(b' * n + c') div n = b'" using assms(2,3) by simp_all
  with assms(1) show ?thesis by (metis add_left_cancel)
qed

lemma valid_coordI:
  assumes "unat (ncores T) = S * c" "unat (nthreads T) = S * c * t" "S = unat (nsockets T)"
    "0 < S" "0 < c" "0 < t"
  shows "valid_coord T socket core thread \<longleftrightarrow> unat socket < S \<and> unat core < c \<and> unat thread < t"
  using assms by (auto simp: valid_coord_def)

text \<open>The topologies on which no index computation overflows its 32 bits.\<close>

definition topo_fits :: "topo \<Rightarrow> bool" where
  "topo_fits T \<longleftrightarrow> topo_ok T \<and> unat (nsockets T) * unat (ncores T) < 2 ^ 32"

lemma devidx_value:
  assumes "topo_fits T" "valid_coord T s k h" "S = unat (nsockets T)" "unat (ncores T) = S * c" "0 < S" "0 < c"
  shows "unat (devidx T s k h) = (unat h * S + unat s) * c + unat k"
    and "unat (devidx T s k h) < unat (nthreads T)"
proof -
  have ok: "topo_ok T" and ov: "S * unat (ncores T) < 2 ^ 32"
    using assms(1,3) by (simp_all add: topo_fits_def)
  have "unat s < S" using assms(2,3) by (simp add: valid_coord_def)
  then have nov: "unat s * unat (ncores T) < 2 ^ 32"
    using ov mult_le_mono1 [of "unat s" S "unat (ncores T)"] by linarith
  show "unat (devidx T s k h) < unat (nthreads T)" by (rule unat_devidx(2) [OF ok assms(2) nov])
  show "unat (devidx T s k h) = (unat h * S + unat s) * c + unat k"
    using unat_devidx(1) [OF ok assms(2) nov] assms(4-6)
    by (simp add: distrib_right mult.assoc flip: assms(3))
qed

lemma devidx_inj:
  assumes "topo_fits T" "valid_coord T s k h" "valid_coord T s' k' h'"
    "devidx T s k h = devidx T s' k' h'"
  shows "s = s' \<and> k = k' \<and> h = h'"
proof -
  have ok: "topo_ok T" using assms(1) by (simp add: topo_fits_def)
  obtain S c t where S: "S = unat (nsockets T)" and C: "unat (ncores T) = S * c"
    and P: "unat (nthreads T) = S * c * t" and pos: "0 < S" "0 < c" "0 < t"
    by (rule topo_products [OF ok])
  note vc = valid_coordI [OF C P S pos] and val = devidx_value(1) [OF assms(1) _ S C pos(1,2)]
  have lt: "unat s < S" "unat s' < S" "unat k < c" "unat k' < c"
    using assms(2,3) by (simp_all only: vc)
  have e: "(unat h * S + unat s) * c + unat k = (unat h' * S + unat s') * c + unat k'"
    unfolding val [OF assms(2), symmetric] val [OF assms(3), symmetric] assms(4) ..
  note hs = two_level_unique [OF e lt(3,4)]
  note h = two_level_unique [OF conjunct1 [OF hs] lt(1,2)]
  from hs h show ?thesis by (intro conjI word_unat_eq_iff [THEN iffD2]) blast+
qed

lemma devidx_surj:
  assumes "topo_fits T" "i < unat (nthreads T)"
  obtains s k h where "valid_coord T s k h" "i = unat (devidx T s k h)"
proof -
  have ok: "topo_ok T" using assms(1) by (simp add: topo_fits_def)
  obtain S c t where S: "S = unat (nsockets T)" and C: "unat (ncores T) = S * c"
    and P: "unat (nthreads T) = S * c * t" and pos: "0 < S" "0 < c" "0 < t" and b: "S * c * t < 2 ^ 31"
    using topo_products [OF ok] by blast
  have i: "i < S * c * t" using assms(2) by (simp add: P)
  define s k h where "s = i div c mod S" and "k = i mod c" and "h = i div c div S"
  have lt: "s < S" "k < c" using pos by (simp_all add: s_def k_def)
  have "i div c < S * t" using i pos by (simp add: less_mult_imp_div_less mult.commute mult.left_commute)
  then have ht: "h < t" by (simp add: h_def less_mult_imp_div_less mult.commute)
  have bound: "S \<le> S * c * t" "c \<le> S * c * t" "t \<le> S * c * t" using pos by simp_all
  have "(2 :: nat) ^ 31 < 2 ^ 32" by simp
  with bound b lt ht have l32: "s < 2 ^ 32" "k < 2 ^ 32" "h < 2 ^ 32" by linarith+
  have r: "unat (of_nat s :: u32) = s" "unat (of_nat k :: u32) = k" "unat (of_nat h :: u32) = h"
    using l32 by (simp_all add: unat_of_nat)
  have v: "valid_coord T (of_nat s) (of_nat k) (of_nat h)"
    using lt ht by (simp only: valid_coordI [OF C P S pos] r)
  have "h * S + s = i div c" by (simp add: h_def s_def)
  then have "i = unat (devidx T (of_nat s) (of_nat k) (of_nat h))"
    unfolding devidx_value(1) [OF assms(1) v S C pos(1,2)] r by (simp add: k_def)
  with v show ?thesis by (rule that)
qed

lemma devidx_less:
  assumes "topo_fits T" "valid_coord T s k h"
  shows "unat (devidx T s k h) < unat (nthreads T)"
  using topo_products [of T] devidx_value(2) [OF assms] assms(1) by (metis topo_fits_def)

text \<open>
  Devidx is a bijection between the coordinates of the machine and the processor indices
  below nthreads, the domain of the descriptor array: no two coordinates share a device and
  no device is unreachable, unless the 32-bit product of sockets and cores overflows.
\<close>

theorem devidx_bijective:
  assumes "topo_fits T"
  shows "bij_betw (\<lambda>(socket, core, thread). unat (devidx T socket core thread))
    {(socket, core, thread). valid_coord T socket core thread} {..<unat (nthreads T)}"
proof (rule bij_betwI')
  fix x y
  assume "x \<in> {(s, k, h). valid_coord T s k h}" "y \<in> {(s, k, h). valid_coord T s k h}"
  then show "((\<lambda>(s, k, h). unat (devidx T s k h)) x = (\<lambda>(s, k, h). unat (devidx T s k h)) y) = (x = y)"
    by (clarsimp simp only: mem_Collect_eq split_beta word_unat_eq_iff [symmetric])
      (metis devidx_inj [OF assms] prod.collapse)
next
  fix x assume "x \<in> {(s, k, h). valid_coord T s k h}"
  then show "(\<lambda>(s, k, h). unat (devidx T s k h)) x \<in> {..<unat (nthreads T)}"
    by (auto intro: devidx_less [OF assms])
next
  fix i assume "i \<in> {..<unat (nthreads T)}"
  then obtain s k h where "valid_coord T s k h" "i = unat (devidx T s k h)"
    using devidx_surj [OF assms] by blast
  then show "\<exists>x\<in>{(s, k, h). valid_coord T s k h}. i = (\<lambda>(s, k, h). unat (devidx T s k h)) x"
    by (intro bexI [of _ "(s, k, h)"]) auto
qed

definition example_topo :: topo where
  "example_topo = \<lparr>nsockets = 2, ncores = 16, nthreads = 32\<rparr>"

lemma topo_ok_example: "topo_ok example_topo"
  by (simp add: topo_ok_def example_topo_def)

lemma topo_fits_example: "topo_fits example_topo"
  by (simp add: topo_fits_def topo_ok_example) (simp add: example_topo_def)

theorem devidx_bijective_witness:
  "bij_betw (\<lambda>(socket, core, thread). unat (devidx example_topo socket core thread))
    {(socket, core, thread). valid_coord example_topo socket core thread} {..<32} \<and>
   devidx example_topo 1 3 1 = 27"
  using devidx_bijective [OF topo_fits_example] by (simp add: example_topo_def devidx_def)

text \<open>
  The range checks are off by one. The first socket number past the end passes
  sockets_assert without a word, and its coordinate is not refused later either: it names the
  second hardware thread of the first core of socket 0.
\<close>

theorem sockets_assert_accepts_one_too_many:
  assumes "topo_fits T"
  shows "sockets_assert T (nsockets T) s = (0, s) \<and>
    devidx T (nsockets T) 0 0 = devidx T 0 0 1 \<and> unat (devidx T (nsockets T) 0 0) = unat (ncores T)"
proof -
  obtain S c t where S: "S = unat (nsockets T)" and C: "unat (ncores T) = S * c"
    and P: "unat (nthreads T) = S * c * t" and pos: "0 < S" "0 < c" "0 < t" and b: "S * c * t < 2 ^ 31"
    using topo_products [of T] assms by (auto simp: topo_fits_def)
  have le: "c \<le> S * c * t" "S * c \<le> S * c * t" using pos by simp_all
  have "(2 :: nat) ^ 31 < 2 ^ 32" by simp
  with le b have lt: "c < 2 ^ 32" "S * c < 2 ^ 32" by linarith+
  have "nsockets T * ncores T div nsockets T = ncores T"
    by (rule word_unat_eq_iff [THEN iffD2])
      (use assms pos lt in \<open>simp add: topo_fits_def unat_word_ariths unat_div_distrib C flip: S\<close>)
  moreover have "nsockets T * (ncores T div nsockets T) = ncores T"
    by (rule word_unat_eq_iff [THEN iffD2])
      (use pos lt in \<open>simp add: unat_word_ariths unat_div_distrib C flip: S\<close>)
  ultimately show ?thesis by (simp add: sockets_assert_def devidx_def)
qed

theorem sockets_assert_accepts_one_too_many_witness:
  "sockets_assert example_topo 2 tbase_init = (0, tbase_init) \<and>
   devidx example_topo 2 0 0 = devidx example_topo 0 0 1"
  using sockets_assert_accepts_one_too_many [OF topo_fits_example, of tbase_init]
  by (simp add: example_topo_def)

end
