(* ===== verification/Msr_Lifecycle.thy ===== *)
theory Msr_Lifecycle imports Msr_Device begin

text \<open>
  What init_msr, finalize_msr and the register accessors of msr_core.c guarantee: the state in
  which every processor has a descriptor open on its own device file, who establishes it, who
  tears it down, and reads and writes inside it.
\<close>

section \<open>Invariants\<close>

text \<open>The descriptor of processor i is open on a device file of processor i.\<close>

definition fd_on_cpu :: "'a msr_state_scheme \<Rightarrow> nat \<Rightarrow> bool" where
  "fd_on_cpu s i \<longleftrightarrow>
     (\<exists>fd p. file_descriptors s ! i = Some fd \<and> open_files s fd = Some p \<and> is_cpu_path p \<and>
        path_cpu p = int i)"

definition core_ok :: "topo \<Rightarrow> 'a msr_state_scheme \<Rightarrow> bool" where
  "core_ok T s \<longleftrightarrow>
     (init_core_fd s \<longrightarrow> core_nthreads s = nthreads T \<and> length (file_descriptors s) = unat (nthreads T))"

text \<open>The kernel hands out descriptors that are not in use.\<close>

definition fds_fresh :: "'a msr_state_scheme \<Rightarrow> bool" where
  "fds_fresh s \<longleftrightarrow> 0 \<le> next_fd s \<and> (\<forall>fd \<ge> next_fd s. open_files s fd = None)"

definition ready_upto :: "topo \<Rightarrow> nat \<Rightarrow> 'a msr_state_scheme \<Rightarrow> bool" where
  "ready_upto T n s \<longleftrightarrow> core_ok T s \<and> (0 < n \<longrightarrow> init_core_fd s) \<and> (\<forall>i < n. fd_on_cpu s i)"

definition msr_ready :: "topo \<Rightarrow> 'a msr_state_scheme \<Rightarrow> bool" where
  "msr_ready T s \<longleftrightarrow> init_core_fd s \<and> ready_upto T (unat (nthreads T)) s"

lemma elog_frame [simp, frame_simps]:
  "fd_on_cpu (variorum_error_handler e s) i = fd_on_cpu s i"
  "core_ok T (variorum_error_handler e s) = core_ok T s"
  "fds_fresh (variorum_error_handler e s) = fds_fresh s"
  "ready_upto T n (variorum_error_handler e s) = ready_upto T n s"
  "msr_ready T (variorum_error_handler e s) = msr_ready T s"
  by (simp_all add: variorum_error_handler_def fd_on_cpu_def core_ok_def fds_fresh_def ready_upto_def
      msr_ready_def)

lemma error_handler_fields [simp, frame_simps]:
  "init_core_fd (variorum_error_handler e s) = init_core_fd s"
  "file_descriptors (variorum_error_handler e s) = file_descriptors s"
  "core_nthreads (variorum_error_handler e s) = core_nthreads s"
  "open_files (variorum_error_handler e s) = open_files s"
  "next_fd (variorum_error_handler e s) = next_fd s"
  "registers (variorum_error_handler e s) = registers s"
  "msr_state.more (variorum_error_handler e s) = msr_state.more s"
  by (simp_all add: variorum_error_handler_def)

lemma sint_u32:
  assumes "unat (w :: u32) < 2 ^ 31"
  shows "sint w = int (unat w)"
proof -
  have "int (unat w) < int (2 ^ 31)" using assms by (rule of_nat_less_iff [THEN iffD2])
  then have u: "uint w < 2 ^ 31" "0 \<le> uint w" by simp_all
  have "signed_take_bit 31 (uint w) = uint w"
    by (rule signed_take_bit_int_eq_self) (use u in linarith)+
  then show ?thesis by (simp add: sint_uint)
qed

text \<open>core_fd on a state that is ready or about to become so.\<close>

definition core_init :: "topo \<Rightarrow> 'a msr_state_scheme \<Rightarrow> 'a msr_state_scheme" where
  "core_init T s =
    (if init_core_fd s then s
     else s\<lparr>init_core_fd := True, core_nthreads := nthreads T,
            file_descriptors := replicate (unat (nthreads T)) None\<rparr>)"

lemma core_fd_eq:
  assumes "core_ok T s"
  shows "core_fd T d s =
    (if d < nthreads T then (Some (unat d), core_init T s)
     else (None, variorum_error_handler VARIORUM_ERROR_ARRAY_BOUNDS (core_init T s)))"
  using assms by (auto simp: core_fd_def core_init_def core_ok_def Let_def)

lemma core_init_simps [simp]:
  "init_core_fd (core_init T s)" "open_files (core_init T s) = open_files s"
  "next_fd (core_init T s) = next_fd s" "registers (core_init T s) = registers s"
  "fds_fresh (core_init T s) = fds_fresh s" "init_core_fd s \<Longrightarrow> core_init T s = s"
  by (simp_all add: core_init_def fds_fresh_def)

lemma core_ok_core_init [simp]: "core_ok T s \<Longrightarrow> core_ok T (core_init T s)"
  by (simp add: core_ok_def core_init_def)

lemma length_fds_core_init: "core_ok T s \<Longrightarrow> length (file_descriptors (core_init T s)) = unat (nthreads T)"
  by (simp add: core_ok_def core_init_def)

lemma ready_upto_core_init [simp]: "ready_upto T n s \<Longrightarrow> ready_upto T n (core_init T s)"
  by (cases "init_core_fd s") (auto simp: ready_upto_def)

text \<open>The prefix that is ready survives a write to a later entry.\<close>

lemma ready_upto_set_fd: "ready_upto T n s \<Longrightarrow> ready_upto T n (set_fd n fd s)"
  by (simp add: ready_upto_def core_ok_def fd_on_cpu_def set_fd_def)

lemma ready_upto_open:
  assumes "ready_upto T n s" "init_core_fd s" "n < unat (nthreads T)" "fds_fresh s"
    "is_cpu_path p" "path_cpu p = int n" "os_can_open E p" "os_open E p s = (fd, s')"
  shows "ready_upto T (Suc n) (set_fd n fd s') \<and> fds_fresh (set_fd n fd s') \<and> fd \<noteq> -1 \<and>
    open_files (set_fd n fd s') = (open_files s)(fd \<mapsto> p) \<and>
    file_descriptors (set_fd n fd s') = (file_descriptors s)[n := Some fd] \<and>
    open_files s fd = None"
proof -
  have s': "fd = next_fd s" "s' = s\<lparr>open_files := (open_files s)(next_fd s \<mapsto> p), next_fd := next_fd s + 1\<rparr>"
    using assms(7,8) by (auto simp: os_open_def)
  have "fd_on_cpu (set_fd n fd s') i" if "i < Suc n" for i
  proof (cases "i = n")
    case True
    then show ?thesis using assms by (simp add: fd_on_cpu_def set_fd_def s' core_ok_def ready_upto_def)
  next
    case False
    with that assms(1) have "fd_on_cpu s i" by (simp add: ready_upto_def)
    moreover have "open_files s (next_fd s) = None" using assms(4) by (simp add: fds_fresh_def)
    ultimately show ?thesis using False
      by (fastforce simp: fd_on_cpu_def set_fd_def s')
  qed
  then show ?thesis using assms
    by (auto simp: ready_upto_def core_ok_def fds_fresh_def set_fd_def s')
qed

section \<open>Opening\<close>

lemma unsigned_of_int_less:
  "0 \<le> d \<Longrightarrow> nat d < unat (N :: u32) \<Longrightarrow> unsigned_of_int d < N \<and> unat (unsigned_of_int d) = nat d"
  using unat_u32 [of N] by (simp add: word_less_nat_alt unat_unsigned_of_int)

lemma below_sint:
  assumes "topo_ok T" "0 \<le> d" "nat d < unat (nthreads T)"
  shows "d < sint (nthreads T)"
proof -
  have "sint (nthreads T) = int (unat (nthreads T))"
    by (rule sint_u32) (use assms(1) in \<open>simp add: topo_ok_def\<close>)
  then show ?thesis using assms(2,3) by linarith
qed

lemma not_below_sint:
  assumes "topo_ok T" "unat (nthreads T) \<le> nat d"
  shows "\<not> d < sint (nthreads T)"
proof -
  have "sint (nthreads T) = int (unat (nthreads T))"
    by (rule sint_u32) (use assms(1) in \<open>simp add: topo_ok_def\<close>)
  moreover have "0 < unat (nthreads T)" using assms(1) by (simp add: topo_ok_def)
  ultimately show ?thesis using assms(2) by linarith
qed

text \<open>stat_module only reports: its state differs in the log.\<close>

lemma stat_module_log:
  "stat_module E p kt d s = Some (rc, kt', d', s') \<Longrightarrow> s' = s\<lparr>elog := elog s'\<rparr>"
  by (auto simp: stat_module_def variorum_error_handler_def Let_def split: option.splits if_splits)

lemma elog_update_frame [simp, frame_simps]:
  "ready_upto T n (s\<lparr>elog := es\<rparr>) = ready_upto T n s" "fds_fresh (s\<lparr>elog := es\<rparr>) = fds_fresh s"
  "core_ok T (s\<lparr>elog := es\<rparr>) = core_ok T s"
  by (simp_all add: ready_upto_def core_ok_def fd_on_cpu_def fds_fresh_def)

definition device_path :: "int \<Rightarrow> int \<Rightarrow> msr_path" where
  "device_path kt d = (if kt \<noteq> 0 then Stock_path d else Safe_path d)"

lemma device_path_simps [simp]:
  "is_cpu_path (device_path kt d)" "path_cpu (device_path kt d) = d"
  by (simp_all add: device_path_def)

lemma init_loop_fold:
  "(if kt \<noteq> (0::int) then Stock_path d else Safe_path d) = device_path kt d"
  by (simp add: device_path_def)

text \<open>One turn of the loop, for a device whose file is found and opened.\<close>

definition file_ok :: "os_env \<Rightarrow> msr_path \<Rightarrow> bool" where
  "file_ok E p \<longleftrightarrow> os_stat E p = Some (True, True) \<and> os_can_open E p"

lemma init_msr_loop_good:
  assumes "topo_ok T" "kt \<noteq> 3" "0 \<le> d" "nat d < unat (nthreads T)" "file_ok E (device_path kt d)"
    "ready_upto T (nat d) s" "fds_fresh s"
  obtains s' fd where "init_msr_loop E T kt d s = init_msr_loop E T kt (d + 1) s'"
    "ready_upto T (nat (d + 1)) s'" "fds_fresh s'"
    "open_files s' = (open_files s)(fd \<mapsto> device_path kt d)" "open_files s fd = None"
    "file_descriptors s' = (file_descriptors (core_init T s))[nat d := Some fd]"
    "elog s' = elog s"
proof -
  have N: "d < sint (nthreads T)" by (rule below_sint) fact+
  note u = unsigned_of_int_less [OF assms(3,4)]
  let ?s = "core_init T s" and ?p = "device_path kt d"
  obtain fd s1 where o: "os_open E ?p ?s = (fd, s1)" by fastforce
  have r: "ready_upto T (nat d) ?s" using assms(6) by simp
  have ok: "core_ok T s" using assms(6) by (simp add: ready_upto_def)
  have st: "ready_upto T (Suc (nat d)) (set_fd (nat d) fd s1) \<and> fds_fresh (set_fd (nat d) fd s1) \<and> fd \<noteq> -1 \<and>
      open_files (set_fd (nat d) fd s1) = (open_files ?s)(fd \<mapsto> ?p) \<and>
      file_descriptors (set_fd (nat d) fd s1) = (file_descriptors ?s)[nat d := Some fd] \<and>
      open_files ?s fd = None"
    by (rule ready_upto_open [OF r _ _ _ _ _ _ o]) (use assms in \<open>simp_all add: file_ok_def\<close>)
  have el: "elog (set_fd (nat d) fd s1) = elog s"
    using o by (auto simp: os_open_def set_fd_def core_init_def split: if_splits)
  have eq: "init_msr_loop E T kt d s = init_msr_loop E T kt (d + 1) (set_fd (nat d) fd s1)"
    by (subst init_msr_loop.simps)
      (use N assms(2,5) u st o ok in \<open>simp add: stat_module_def file_ok_def init_loop_fold core_fd_eq\<close>)
  show ?thesis
    by (rule that [OF eq]) (use st el assms(3) in \<open>simp_all add: nat_add_distrib\<close>)
qed

text \<open>From a device on, when all the files from there on are good.\<close>

definition opened_from :: "topo \<Rightarrow> int \<Rightarrow> nat \<Rightarrow> 'a msr_state_scheme \<Rightarrow> 'a msr_state_scheme \<Rightarrow> bool" where
  "opened_from T kt n s s' \<longleftrightarrow>
    ready_upto T (unat (nthreads T)) s' \<and> fds_fresh s' \<and> elog s' = elog s \<and>
    (\<forall>fd. open_files s fd \<noteq> None \<longrightarrow> open_files s' fd = open_files s fd) \<and>
    (\<forall>i < n. file_descriptors s' ! i = file_descriptors s ! i) \<and>
    (\<forall>i < unat (nthreads T). n \<le> i \<longrightarrow> (\<exists>fd. file_descriptors s' ! i = Some fd \<and>
       open_files s' fd = Some (device_path kt (int i)) \<and> open_files s fd = None)) \<and>
    (\<forall>fd. open_files s' fd \<noteq> open_files s fd \<longrightarrow>
       (\<exists>i < unat (nthreads T). n \<le> i \<and> file_descriptors s' ! i = Some fd))"

lemma opened_from_step:
  assumes "opened_from T kt (Suc n) s1 s'" "n < unat (nthreads T)"
    "open_files s1 = (open_files s)(fd \<mapsto> device_path kt (int n))" "open_files s fd = None"
    "file_descriptors s1 = (file_descriptors (core_init T s))[n := Some fd]" "elog s1 = elog s"
    "ready_upto T n s"
  shows "opened_from T kt n s s'"
proof -
  have pre: "\<forall>i < Suc n. file_descriptors s' ! i = file_descriptors s1 ! i"
    and keep: "\<forall>fd. open_files s1 fd \<noteq> None \<longrightarrow> open_files s' fd = open_files s1 fd"
    and post: "\<forall>i < unat (nthreads T). Suc n \<le> i \<longrightarrow> (\<exists>fd. file_descriptors s' ! i = Some fd \<and>
       open_files s' fd = Some (device_path kt (int i)) \<and> open_files s1 fd = None)"
    and diff: "\<forall>fd. open_files s' fd \<noteq> open_files s1 fd \<longrightarrow>
       (\<exists>i < unat (nthreads T). Suc n \<le> i \<and> file_descriptors s' ! i = Some fd)"
    using assms(1) unfolding opened_from_def by blast+
  have len: "length (file_descriptors (core_init T s)) = unat (nthreads T)"
    using assms(7) by (simp add: length_fds_core_init ready_upto_def)
  have old: "file_descriptors (core_init T s) ! i = file_descriptors s ! i" if "i < n" for i
    using that assms(7) by (simp add: ready_upto_def core_init_def)
  have d': "file_descriptors s' ! n = Some fd" using pre assms(2,5) len by simp
  have dd: "open_files s' fd = Some (device_path kt (int n))" using keep assms(3) by simp
  have "\<exists>fd. file_descriptors s' ! i = Some fd \<and> open_files s' fd = Some (device_path kt (int i)) \<and>
      open_files s fd = None" if i: "i < unat (nthreads T)" "n \<le> i" for i
  proof (cases "i = n")
    case True
    then show ?thesis using d' dd assms(4) by simp
  next
    case False
    then have "Suc n \<le> i" using i(2) by simp
    then obtain fd' where "file_descriptors s' ! i = Some fd'"
      "open_files s' fd' = Some (device_path kt (int i))" "open_files s1 fd' = None"
      using post i(1) by blast
    then show ?thesis using assms(3) by (auto split: if_splits)
  qed
  moreover have "\<exists>i < unat (nthreads T). n \<le> i \<and> file_descriptors s' ! i = Some fd'"
    if "open_files s' fd' \<noteq> open_files s fd'" for fd'
  proof (cases "fd' = fd")
    case True
    then show ?thesis using d' assms(2) by blast
  next
    case False
    then have "open_files s' fd' \<noteq> open_files s1 fd'" using that assms(3) by simp
    then show ?thesis using diff by (meson Suc_leD)
  qed
  moreover have "open_files s' fd' = open_files s fd'" if "open_files s fd' \<noteq> None" for fd'
    using that keep assms(3,4) by (metis fun_upd_apply)
  ultimately show ?thesis
    using assms(1,5,6) pre old unfolding opened_from_def by auto
qed

lemma init_msr_loop_all_good:
  assumes "topo_ok T" "kt \<noteq> 3" "n = unat (nthreads T) - nat d" "0 \<le> d" "nat d \<le> unat (nthreads T)"
    "\<forall>i < unat (nthreads T). nat d \<le> i \<longrightarrow> file_ok E (device_path kt (int i))"
    "ready_upto T (nat d) s" "fds_fresh s"
  shows "\<exists>s'. init_msr_loop E T kt d s = Some (0, s') \<and> opened_from T kt (nat d) s s'"
  using assms
proof (induction n arbitrary: d s)
  case 0
  then have nd: "nat d = unat (nthreads T)" by simp
  have "\<not> d < sint (nthreads T)" by (rule not_below_sint) (use 0 in simp_all)
  then have "init_msr_loop E T kt d s = Some (0, s)" by (simp add: init_msr_loop.simps [of E T kt d s])
  moreover have "opened_from T kt (nat d) s s" using 0(7,8) unfolding opened_from_def nd by simp
  ultimately show ?case by blast
next
  case (Suc n)
  have dN: "nat d < unat (nthreads T)" using Suc.prems(3) by simp
  have fo: "file_ok E (device_path kt d)"
    using Suc.prems(4) Suc.prems(6) [rule_format, OF dN] by simp
  obtain s1 fd where eq: "init_msr_loop E T kt d s = init_msr_loop E T kt (d + 1) s1"
    and r1: "ready_upto T (nat (d + 1)) s1" "fds_fresh s1"
    and op: "open_files s1 = (open_files s)(fd \<mapsto> device_path kt d)" "open_files s fd = None"
    and fs: "file_descriptors s1 = (file_descriptors (core_init T s))[nat d := Some fd]"
    and el: "elog s1 = elog s"
    by (rule init_msr_loop_good [OF Suc.prems(1,2,4) dN fo Suc.prems(7,8)])
  have nd: "nat (d + 1) = Suc (nat d)" "int (nat d) = d" using Suc.prems(4) by simp_all
  have nn: "n = unat (nthreads T) - Suc (nat d)" using Suc.prems(3) by simp
  obtain s' where s': "init_msr_loop E T kt (d + 1) s1 = Some (0, s')"
    "opened_from T kt (Suc (nat d)) s1 s'"
    using Suc.IH [OF Suc.prems(1,2), of "d + 1" s1, unfolded nd(1)] Suc.prems(4,6) nn dN r1 [unfolded nd(1)]
    by (auto simp: Suc_le_eq)
  then show ?case
    using opened_from_step [OF s'(2) dN _ op(2) fs el Suc.prems(7)] op(1) nd(2) eq by auto
qed

section \<open>What init\_msr does\<close>

text \<open>The module the allowlist decides for: 0 is msr-safe, 1 the stock module.\<close>

definition chosen_module :: "os_env \<Rightarrow> int" where
  "chosen_module E = (if os_stat E Allowlist_path = Some (True, True) then 0 else 1)"

lemma init_msr_eq: "init_msr E T s = init_msr_loop E T (chosen_module E) 0 s"
  by (auto simp: init_msr_def stat_module_def chosen_module_def split: option.split prod.split)

text \<open>The state before the first register access of the process.\<close>

definition msr_fresh :: "topo \<Rightarrow> 'a msr_state_scheme \<Rightarrow> bool" where
  "msr_fresh T s \<longleftrightarrow> core_ok T s \<and> fds_fresh s"

lemma ready_upto_0: "ready_upto T 0 s = core_ok T s"
  by (simp add: ready_upto_def)

lemma ready_upto_all: "topo_ok T \<Longrightarrow> ready_upto T (unat (nthreads T)) s \<Longrightarrow> msr_ready T s"
  by (simp add: msr_ready_def ready_upto_def topo_ok_def)

text \<open>
  When every processor's file of the module the allowlist decides for can be read, written
  and opened, init_msr opens them all: it returns 0 without a report, entry i of the table is a
  new descriptor open on the file of processor i, and nothing else was opened or closed.
\<close>

theorem init_msr_opens_all:
  assumes "topo_ok T" "msr_fresh T s"
    "\<forall>i < unat (nthreads T). file_ok E (device_path (chosen_module E) (int i))"
  shows "\<exists>s'. init_msr E T s = Some (0, s') \<and> msr_ready T s' \<and> elog s' = elog s \<and>
    (\<forall>i < unat (nthreads T). \<exists>fd. file_descriptors s' ! i = Some fd \<and> open_files s fd = None \<and>
       open_files s' fd = Some (device_path (chosen_module E) (int i))) \<and>
    (\<forall>fd. open_files s' fd \<noteq> open_files s fd \<longrightarrow>
       (\<exists>i < unat (nthreads T). file_descriptors s' ! i = Some fd))"
proof -
  have "chosen_module E \<noteq> 3" by (simp add: chosen_module_def)
  then obtain s' where s': "init_msr E T s = Some (0, s')" "opened_from T (chosen_module E) 0 s s'"
    using init_msr_loop_all_good [OF assms(1) _ refl, of "chosen_module E" 0 E s] assms(2,3)
    by (auto simp: init_msr_eq msr_fresh_def ready_upto_0)
  show ?thesis
    by (rule exI [of _ s']) (use s' ready_upto_all [OF assms(1), of s'] in \<open>auto simp: opened_from_def\<close>)
qed

text \<open>One turn of a loop that returns 0.\<close>

lemma init_msr_loop_turn:
  assumes "init_msr_loop E T kt d s = Some (0, s')" "d < sint (nthreads T)" "0 \<le> d"
    "nat d < unat (nthreads T)" "kt \<noteq> 3" "core_ok T s"
  obtains fd es s2 where "os_open E (device_path kt d) (core_init T (s\<lparr>elog := es\<rparr>)) = (fd, s2)"
    "fd \<noteq> -1" "init_msr_loop E T kt (d + 1) (set_fd (nat d) fd s2) = Some (0, s')"
  | fd es s2 where "os_open E (device_path kt d) (core_init T (s\<lparr>elog := es\<rparr>)) = (fd, s2)"
    "fd = -1" "kt = 0"
    "init_msr_loop E T 1 d (variorum_error_handler VARIORUM_ERROR_RAPL_INIT (set_fd (nat d) fd s2)) = Some (0, s')"
proof -
  let ?p = "device_path kt d"
  note u = unsigned_of_int_less [OF assms(3,4)]
  have ev: "(case stat_module E ?p kt (Some d) s of
         None \<Rightarrow> None
       | Some (rc, kerneltype', dev', s) \<Rightarrow>
           if rc < 0 then Some (-1, s)
           else
             case core_fd T (unsigned_of_int (the dev')) s of
               (None, s) \<Rightarrow> None
             | (Some i, s) \<Rightarrow>
                 let (fd, s) = os_open E ?p s; s = set_fd i fd s in
                 if fd = -1 then
                   let s = variorum_error_handler VARIORUM_ERROR_RAPL_INIT s in
                   if kerneltype' \<noteq> 0
                   then Some (err_code VARIORUM_ERROR_RAPL_INIT,
                              variorum_error_handler VARIORUM_ERROR_RAPL_INIT s)
                   else init_msr_loop E T 1 (the dev') s
                 else init_msr_loop E T kerneltype' (the dev' + 1) s) = Some (0, s')"
    using assms(1,2) unfolding init_msr_loop.simps [of E T kt d s] init_loop_fold Let_def by simp
  then obtain rc kt' d' s1 where st: "stat_module E ?p kt (Some d) s = Some (rc, kt', d', s1)"
    by (cases "stat_module E ?p kt (Some d) s") auto
  have rc: "\<not> rc < 0" using ev st by (auto split: if_splits)
  have s1: "s1 = s\<lparr>elog := elog s1\<rparr>" by (rule stat_module_log [OF st])
  have ok: "core_ok T s1" using assms(6) elog_update_frame(3) [of T "elog s1" s] s1 by simp
  obtain fd s2 where o: "os_open E ?p (core_init T s1) = (fd, s2)" by fastforce
  consider "d' = Some d" "kt' = kt" | "d' = Some (-1)"
    using stat_module_progress [OF st rc] assms(5) by auto
  then show ?thesis
  proof cases
    case 2
    then show ?thesis using ev st rc core_fd_minus_1 [of T s1]
      by (cases "core_fd T (unsigned_of_int (-1)) s1") auto
  next
    case 1
    with ev st rc u ok o have "(if fd = -1 then (if kt \<noteq> 0 then None
          else init_msr_loop E T 1 d (variorum_error_handler VARIORUM_ERROR_RAPL_INIT (set_fd (nat d) fd s2)))
        else init_msr_loop E T kt (d + 1) (set_fd (nat d) fd s2)) = Some (0, s')"
      by (auto simp: core_fd_eq Let_def split: if_splits)
    moreover have o': "os_open E ?p (core_init T (s\<lparr>elog := elog s1\<rparr>)) = (fd, s2)" using o s1 by simp
    ultimately show ?thesis using that(1) [OF o'] that(2) [OF o'] by (simp split: if_splits)
  qed
qed

text \<open>Whatever the files are like, the loop returns 0 only when every descriptor is in place.\<close>

lemma ready_upto_elog_core_init:
  "ready_upto T n s \<Longrightarrow> ready_upto T n (core_init T (s\<lparr>elog := es\<rparr>))"
  "fds_fresh s \<Longrightarrow> fds_fresh (core_init T (s\<lparr>elog := es\<rparr>))"
  by simp_all

lemma os_open_minus_1: "os_open E p s = (-1, s') \<Longrightarrow> fds_fresh s \<Longrightarrow> s' = s"
  by (auto simp: os_open_def fds_fresh_def split: if_splits)

lemma init_msr_loop_sound:
  assumes "m = 2 * (unat (nthreads T) - nat d) + (if kt = 0 then 1 else 0)"
    "init_msr_loop E T kt d s = Some (0, s')" "topo_ok T" "kt \<noteq> 3" "0 \<le> d"
    "ready_upto T (nat d) s" "fds_fresh s" "nat d \<le> unat (nthreads T)"
  shows "ready_upto T (unat (nthreads T)) s' \<and> fds_fresh s'"
  using assms
proof (induction m arbitrary: d kt s rule: less_induct)
  case (less m)
  show ?case
  proof (cases "nat d < unat (nthreads T)")
    case False
    then have "\<not> d < sint (nthreads T)" using less.prems(3) by (intro not_below_sint) auto
    then show ?thesis using less.prems False by (simp add: init_msr_loop.simps [of E T kt d s])
  next
    case N: True
    have dN: "d < sint (nthreads T)" by (rule below_sint) (use less.prems N in auto)
    have ok: "core_ok T s" using less.prems(6) by (simp add: ready_upto_def)
    show ?thesis
    proof (rule init_msr_loop_turn [OF less.prems(2) dN less.prems(5) N less.prems(4) ok])
      fix fd es s2
      assume o: "os_open E (device_path kt d) (core_init T (s\<lparr>elog := es\<rparr>)) = (fd, s2)" and "fd \<noteq> -1"
        and nx: "init_msr_loop E T kt (d + 1) (set_fd (nat d) fd s2) = Some (0, s')"
      then have op: "os_can_open E (device_path kt d)" by (auto simp: os_open_def split: if_splits)
      have "ready_upto T (Suc (nat d)) (set_fd (nat d) fd s2) \<and> fds_fresh (set_fd (nat d) fd s2)"
        using ready_upto_open [OF ready_upto_elog_core_init(1) [OF less.prems(6)] _ N
            ready_upto_elog_core_init(2) [OF less.prems(7)] _ _ op o] less.prems(5) by simp
      then show ?thesis
        by (intro less.IH [OF _ refl nx less.prems(3,4)])
          (use less.prems(1,5) N in \<open>auto simp: nat_add_distrib Suc_le_eq\<close>)
    next
      fix fd es s2
      assume o: "os_open E (device_path kt d) (core_init T (s\<lparr>elog := es\<rparr>)) = (fd, s2)" and m1: "fd = -1"
        and kt: "kt = 0"
        and nx: "init_msr_loop E T 1 d (variorum_error_handler VARIORUM_ERROR_RAPL_INIT
          (set_fd (nat d) fd s2)) = Some (0, s')"
      have "s2 = core_init T (s\<lparr>elog := es\<rparr>)"
        by (rule os_open_minus_1 [OF o [unfolded m1]]) (use less.prems(7) in simp)
      then have "ready_upto T (nat d) (set_fd (nat d) fd s2)" "fds_fresh (set_fd (nat d) fd s2)"
        using ready_upto_set_fd [OF ready_upto_elog_core_init(1) [OF less.prems(6)]]
          ready_upto_elog_core_init(2) [OF less.prems(7)]
        by (auto simp: fds_fresh_def set_fd_def)
      then show ?thesis
        by (intro less.IH [OF _ refl nx less.prems(3)]) (use less.prems(1,5,8) kt in auto)
    qed
  qed
qed

text \<open>
  C20: init_msr never reports success on a half-open table. Whatever files exist, whatever
  permissions they have and however often it switches modules on the way, a return of 0 means
  that each processor's entry holds a descriptor open on a device file of that processor.
\<close>

theorem init_msr_success_is_ready:
  assumes "topo_ok T" "msr_fresh T s" "init_msr E T s = Some (0, s')"
  shows "msr_ready T s' \<and> msr_fresh T s'"
proof -
  have "chosen_module E \<noteq> 3" by (simp add: chosen_module_def)
  then have "ready_upto T (unat (nthreads T)) s' \<and> fds_fresh s'"
    using init_msr_loop_sound [OF refl assms(3) [unfolded init_msr_eq] assms(1)] assms(2)
    by (simp add: msr_fresh_def ready_upto_0)
  then show ?thesis using ready_upto_all [OF assms(1), of s']
    by (auto simp: msr_fresh_def) (simp add: ready_upto_def)
qed

text \<open>A machine on which everything works, with 4 processors.\<close>

definition good_env :: os_env where
  "good_env = \<lparr>os_stat = (\<lambda>p. Some (True, True)), os_can_open = (\<lambda>p. p \<noteq> Batch_path),
     os_close_fails = (\<lambda>fd. False), drv_can_read = (\<lambda>p m. True),
     drv_read = (\<lambda>R p m. Some (R (path_cpu p) m)),
     drv_write = (\<lambda>R p m v. Some (set_reg (path_cpu p) m v R)),
     drv_ioctl = (\<lambda>R ops. (0, map (batch_read_op R) ops, R))\<rparr>"

definition small_topo :: topo where
  "small_topo = \<lparr>nsockets = 2, ncores = 4, nthreads = 4\<rparr>"

definition msr_init :: "regs \<Rightarrow> msr_state" where
  "msr_init R = \<lparr>elog = [], init_variorum_init_topology = False, g_platform = g_platform_init,
     init_core_fd = False, file_descriptors = [], core_nthreads = 0, open_files = (\<lambda>_. None),
     next_fd = 3, registers = R\<rparr>"

lemma small_topo_ok: "topo_fits small_topo" "topo_ok small_topo" "unat (nthreads small_topo) = 4"
  by (simp_all add: topo_fits_def topo_ok_def small_topo_def)

lemma msr_fresh_init: "msr_fresh T (msr_init R)"
  by (simp add: msr_fresh_def core_ok_def fds_fresh_def msr_init_def)

lemma good_env_files: "file_ok good_env (device_path (chosen_module good_env) i)"
  by (simp add: file_ok_def good_env_def chosen_module_def device_path_def)

theorem init_msr_opens_all_witness:
  "\<exists>s'. init_msr good_env small_topo (msr_init (\<lambda>_ _. 7)) = Some (0, s') \<and> msr_ready small_topo s'"
  using init_msr_opens_all [OF small_topo_ok(2) msr_fresh_init [of _ "\<lambda>_ _. 7"], of good_env]
    good_env_files
  by blast

lemma example_ready:
  obtains s' where "init_msr good_env small_topo (msr_init R) = Some (0, s')"
    "opened_from small_topo 0 0 (msr_init R) s'"
proof -
  have k: "chosen_module good_env = 0" by (simp add: chosen_module_def good_env_def)
  have f: "\<forall>i < unat (nthreads small_topo). file_ok good_env (device_path 0 (int i))"
    using good_env_files [unfolded k] by blast
  show ?thesis
    using init_msr_loop_all_good [OF small_topo_ok(2) _ refl, of 0 0 good_env "msr_init R"] f
      msr_fresh_init [of small_topo R] that
    by (auto simp: init_msr_eq k msr_fresh_def ready_upto_0)
qed

theorem init_msr_success_is_ready_witness:
  "\<exists>s'. init_msr good_env small_topo (msr_init (\<lambda>_ _. 0)) = Some (0, s') \<and> msr_ready small_topo s'"
proof -
  obtain s' where "init_msr good_env small_topo (msr_init (\<lambda>_ _. 0)) = Some (0, s')"
    using example_ready by blast
  then show ?thesis using init_msr_success_is_ready [OF small_topo_ok(2) msr_fresh_init] by blast
qed

lemma init_msr_loop_upto:
  assumes "topo_ok T" "msr_fresh T s" "kt \<noteq> 3" "k \<le> unat (nthreads T)" "\<forall>i < k. file_ok E (device_path kt (int i))"
  shows "\<exists>s'. init_msr_loop E T kt 0 s = init_msr_loop E T kt (int k) s' \<and> ready_upto T k s' \<and> fds_fresh s' \<and> elog s' = elog s \<and>
    finite {fd. open_files s fd = None \<and> open_files s' fd \<noteq> None} \<and> card {fd. open_files s fd = None \<and> open_files s' fd \<noteq> None} = k \<and>
    (\<forall>fd. open_files s fd \<noteq> None \<longrightarrow> open_files s' fd = open_files s fd)"
  using assms
proof (induction k)
  case 0
  have "{fd. open_files s fd = None \<and> open_files s fd \<noteq> None} = {}" by blast
  then have "finite {fd. open_files s fd = None \<and> open_files s fd \<noteq> None}" "card {fd. open_files s fd = None \<and> open_files s fd \<noteq> None} = 0"
    by (simp_all only: finite.emptyI card.empty)
  moreover have "ready_upto T 0 s" "fds_fresh s" using 0(2) by (simp_all add: msr_fresh_def ready_upto_0)
  moreover have "init_msr_loop E T kt 0 s = init_msr_loop E T kt (int 0) s" by simp
  ultimately show ?case by (intro exI [of _ s] conjI allI impI) (assumption | rule refl)+
next
  case (Suc k)
  let ?new = "\<lambda>s'. {fd. open_files s fd = None \<and> open_files s' fd \<noteq> None}"
  obtain s1 where s1: "init_msr_loop E T kt 0 s = init_msr_loop E T kt (int k) s1" "ready_upto T k s1" "fds_fresh s1" "elog s1 = elog s"
    "finite (?new s1)" "card (?new s1) = k" "\<forall>fd. open_files s fd \<noteq> None \<longrightarrow> open_files s1 fd = open_files s fd"
    using Suc by auto
  have f: "nat (int k) < unat (nthreads T)" "file_ok E (device_path kt (int k))" "ready_upto T (nat (int k)) s1"
    using Suc.prems(4,5) s1(2) by simp_all
  obtain s' fd where s': "init_msr_loop E T kt (int k) s1 = init_msr_loop E T kt (int k + 1) s'" "ready_upto T (nat (int k + 1)) s'"
    "fds_fresh s'" "open_files s' = (open_files s1)(fd \<mapsto> device_path kt (int k))" "open_files s1 fd = None" "elog s' = elog s1"
    using init_msr_loop_good [OF Suc.prems(1,3) _ f(1,2,3) s1(3)] by (metis of_nat_0_le_iff)
  have n: "int k + 1 = int (Suc k)" "nat (int k + 1) = Suc k" by simp_all
  have "open_files s fd = None" using s1(7) s'(5) by (cases "open_files s fd") auto
  then have new: "?new s' = insert fd (?new s1)" using s'(4) by auto
  have "fd \<notin> ?new s1" using s'(5) by simp
  then have "finite (?new s')" "card (?new s') = Suc k" unfolding new using s1(5,6) by simp_all
  moreover have "open_files s' fd' = open_files s fd'" if "open_files s fd' \<noteq> None" for fd'
    using that s1(7) s'(4) \<open>open_files s fd = None\<close> by (cases "fd' = fd") auto
  moreover have "init_msr_loop E T kt 0 s = init_msr_loop E T kt (int (Suc k)) s'" using s1(1) s'(1) unfolding n(1) by simp
  moreover have "ready_upto T (Suc k) s'" using s'(2) unfolding n(2) .
  moreover have "elog s' = elog s" using s1(4) s'(6) by simp
  ultimately show ?case using s'(3) by (intro exI [of _ s'] conjI allI impI) assumption+
qed

text \<open>
  C40: the switch to the stock module that stat_module announces does not work. Let the allowlist be
  readable and writable, so that init_msr starts with msr-safe, and let processor k be the first whose msr-safe file is not fine. When
  that file is missing, stat_module sets the device index to -1 and init_msr writes through the null pointer that core_fd gives for
  that index. When it lacks read or write permission, init_msr ends with -1 and two reports of the module, whatever the stock files
  are like, because the pointer to the module number is tested and not the number, and the k files opened so far stay
  open. Only a file that can be stat'ed with both permissions but not opened makes it fall back: if the stock files from k on are
  fine, init_msr returns 0 with the table ready.
\<close>

theorem init_msr_fallback_broken:
  assumes "topo_ok T" "msr_fresh T s" "os_stat E Allowlist_path = Some (True, True)" "k < unat (nthreads T)"
    "\<forall>i < k. file_ok E (Safe_path (int i))"
  shows "(os_stat E (Safe_path (int k)) = None \<longrightarrow> init_msr E T s = None) \<and>
    (\<forall>r w. os_stat E (Safe_path (int k)) = Some (r, w) \<longrightarrow> \<not> (r \<and> w) \<longrightarrow>
       (\<exists>s'. init_msr E T s = Some (-1, s') \<and> elog s' = elog s @ [VARIORUM_ERROR_MSR_MODULE, VARIORUM_ERROR_MSR_MODULE] \<and>
          card {fd. open_files s fd = None \<and> open_files s' fd \<noteq> None} = k)) \<and>
    (os_stat E (Safe_path (int k)) = Some (True, True) \<and> \<not> os_can_open E (Safe_path (int k)) \<and>
       (\<forall>i < unat (nthreads T). k \<le> i \<longrightarrow> file_ok E (Stock_path (int i))) \<longrightarrow>
       (\<exists>s'. init_msr E T s = Some (0, s') \<and> msr_ready T s'))"
proof -
  have N: "int k < sint (nthreads T)" by (rule below_sint [OF assms(1)]) (use assms(4) in simp_all)
  obtain t where t: "init_msr_loop E T 0 0 s = init_msr_loop E T 0 (int k) t" "ready_upto T k t" "fds_fresh t" "elog t = elog s"
    "card {fd. open_files s fd = None \<and> open_files t fd \<noteq> None} = k"
    using init_msr_loop_upto [OF assms(1,2), of 0 k E] assms(4,5) by (auto simp: device_path_def)
  have i: "init_msr E T s = init_msr_loop E T 0 (int k) t"
    using assms(3) t(1) by (simp add: init_msr_eq chosen_module_def)
  have fallback: "\<exists>s'. init_msr E T s = Some (0, s') \<and> msr_ready T s'"
    if p: "os_stat E (Safe_path (int k)) = Some (True, True)" "\<not> os_can_open E (Safe_path (int k))"
      "\<forall>i < unat (nthreads T). k \<le> i \<longrightarrow> file_ok E (Stock_path (int i))"
  proof -
    let ?u = "variorum_error_handler VARIORUM_ERROR_RAPL_INIT (set_fd k (-1) (core_init T t))"
    have ok: "core_ok T t" using t(2) by (simp add: ready_upto_def)
    note d = unsigned_of_int_less [of "int k" "nthreads T"]
    have "init_msr_loop E T 0 (int k) t = init_msr_loop E T 1 (int k) ?u"
      using N p(1,2) d assms(4) ok
      by (subst init_msr_loop.simps) (simp add: stat_module_def core_fd_eq os_open_def Let_def)
    moreover have "ready_upto T k ?u" "fds_fresh ?u"
      using ready_upto_set_fd [OF ready_upto_core_init [OF t(2)], of "-1"] t(3)
      by (simp_all add: variorum_error_handler_def) (simp add: fds_fresh_def set_fd_def)
    ultimately obtain s' where "init_msr E T s = Some (0, s')" "opened_from T 1 k ?u s'"
      using init_msr_loop_all_good [OF assms(1), of 1 _ "int k" E ?u] p(3) assms(4) i by (auto simp: device_path_def)
    then show ?thesis using ready_upto_all [OF assms(1), of s'] by (auto simp: opened_from_def)
  qed
  have "os_stat E (Safe_path (int k)) = None \<longrightarrow> init_msr E T s = None"
    using N core_fd_minus_1 [of T "variorum_error_handler VARIORUM_ERROR_MSR_MODULE t"]
    unfolding i init_msr_loop.simps [of E T 0 "int k" t] by (auto simp: stat_module_def Let_def split: prod.split)
  moreover have "\<exists>s'. init_msr E T s = Some (-1, s') \<and> elog s' = elog s @ [VARIORUM_ERROR_MSR_MODULE, VARIORUM_ERROR_MSR_MODULE] \<and>
      card {fd. open_files s fd = None \<and> open_files s' fd \<noteq> None} = k"
    if "os_stat E (Safe_path (int k)) = Some (r, w)" "\<not> (r \<and> w)" for r w
    using that N t(4,5) unfolding i init_msr_loop.simps [of E T 0 "int k" t]
    by (auto simp: stat_module_def Let_def variorum_error_handler_def)
  ultimately show ?thesis using fallback by blast
qed

text \<open>The msr-safe file of processor 2 cannot be written.\<close>

definition one_bad_env :: os_env where
  "one_bad_env = good_env\<lparr>os_stat := (\<lambda>p. if p = Safe_path 2 then Some (True, False) else Some (True, True))\<rparr>"

theorem init_msr_fallback_broken_witness:
  "\<exists>s'. init_msr one_bad_env small_topo (msr_init (\<lambda>_ _. 0)) = Some (-1, s') \<and>
     card {fd. open_files s' fd \<noteq> None} = 2"
  using init_msr_fallback_broken [OF small_topo_ok(2) msr_fresh_init [of _ "\<lambda>_ _. 0"], of one_bad_env 2]
  by (auto simp: one_bad_env_def small_topo_ok(3) file_ok_def good_env_def) (simp add: msr_init_def)

section \<open>Closing\<close>

text \<open>The table a successful init_msr leaves: entry i is the only one with its descriptor.\<close>

definition fd_table :: "topo \<Rightarrow> (nat \<Rightarrow> int) \<Rightarrow> 'a msr_state_scheme \<Rightarrow> bool" where
  "fd_table T f s \<longleftrightarrow> init_core_fd s \<and> core_ok T s \<and>
     (\<forall>i < unat (nthreads T). file_descriptors s ! i = Some (f i) \<and> open_files s (f i) \<noteq> None) \<and>
     inj_on f {..<unat (nthreads T)}"

lemma opened_fd_table:
  assumes "opened_from T kt 0 s s'" "topo_ok T"
  obtains f where "fd_table T f s'" "\<And>i. i < unat (nthreads T) \<Longrightarrow> open_files s (f i) = None"
    "\<And>fd. open_files s' fd \<noteq> open_files s fd \<Longrightarrow> fd \<in> f ` {..<unat (nthreads T)}"
proof -
  let ?N = "unat (nthreads T)"
  have ent: "\<exists>fd. file_descriptors s' ! i = Some fd \<and> open_files s' fd = Some (device_path kt (int i)) \<and>
      open_files s fd = None" if "i < ?N" for i
    using assms(1) that unfolding opened_from_def by simp
  define f where "f i = the (file_descriptors s' ! i)" for i
  have f: "file_descriptors s' ! i = Some (f i)" "open_files s' (f i) = Some (device_path kt (int i))"
    "open_files s (f i) = None" if "i < ?N" for i
    using ent [OF that] by (auto simp: f_def)
  have "inj_on f {..<?N}"
  proof (rule inj_onI)
    fix i j assume ij: "i \<in> {..<?N}" "j \<in> {..<?N}" "f i = f j"
    then have "device_path kt (int i) = device_path kt (int j)" using f(2) [of i] f(2) [of j] by simp
    then show "i = j" by (simp add: device_path_def split: if_splits)
  qed
  moreover have "msr_ready T s'" using assms by (auto simp: opened_from_def intro: ready_upto_all)
  ultimately have "fd_table T f s'" using f by (simp add: fd_table_def msr_ready_def ready_upto_def)
  moreover have "fd \<in> f ` {..<?N}" if ne: "open_files s' fd \<noteq> open_files s fd" for fd
  proof -
    obtain i where "i < ?N" "file_descriptors s' ! i = Some fd"
      using ne assms(1) unfolding opened_from_def by auto
    then show ?thesis using f(1) [of i] by auto
  qed
  ultimately show ?thesis using f(3) by (intro that [of f])
qed

lemma finalize_msr_loop_result:
  assumes "init_core_fd s" "core_ok T s" "distinct ds" "set ds \<subseteq> {..<unat (nthreads T)}"
    "inj_on f {..<unat (nthreads T)}"
    "\<forall>i \<in> set ds. file_descriptors s ! i = Some (f i) \<and> open_files s (f i) \<noteq> None"
  shows "\<exists>s'. finalize_msr_loop E T ret ds s =
      Some (if ds = [] then ret else if os_close_fails E (f (last ds)) then -1 else 0, s') \<and>
    elog s' = elog s @ replicate (length (filter (\<lambda>i. os_close_fails E (f i)) ds)) VARIORUM_ERROR_MSR_CLOSE \<and>
    open_files s' = (\<lambda>fd. if fd \<in> f ` set ds \<and> \<not> os_close_fails E fd then None else open_files s fd)"
  using assms
proof (induction ds arbitrary: s ret)
  case Nil
  then show ?case by simp
next
  case (Cons d ds)
  have d: "d < unat (nthreads T)" "d \<notin> set ds" using Cons.prems(3,4) by auto
  have "(of_nat d :: u32) < nthreads T" "unat (of_nat d :: u32) = d"
    using d(1) unat_u32 [of "nthreads T"] by (simp_all add: word_less_nat_alt unat_of_nat)
  with Cons.prems(1,2) have c: "core_fd T (of_nat d) s = (Some d, s)" by (simp add: core_fd_eq)
  have fd: "file_descriptors s ! d = Some (f d)" "open_files s (f d) \<noteq> None" using Cons.prems(6) by auto
  have ne: "f i \<noteq> f d" if "i \<in> set ds" for i
    using Cons.prems(4,5) d that by (auto dest: inj_onD)
  show ?case
  proof (cases "os_close_fails E (f d)")
    case True
    let ?s = "variorum_error_handler VARIORUM_ERROR_MSR_CLOSE s"
    have "finalize_msr_loop E T ret (d # ds) s = finalize_msr_loop E T (-1) ds ?s"
      using c fd True by (simp add: os_close_def)
    moreover obtain s' where "finalize_msr_loop E T (-1) ds ?s =
        Some (if ds = [] then -1 else if os_close_fails E (f (last ds)) then -1 else 0, s')"
      "elog s' = elog ?s @ replicate (length (filter (\<lambda>i. os_close_fails E (f i)) ds)) VARIORUM_ERROR_MSR_CLOSE"
      "open_files s' = (\<lambda>fd. if fd \<in> f ` set ds \<and> \<not> os_close_fails E fd then None else open_files ?s fd)"
      using Cons.IH [of ?s "-1"] Cons.prems by simp blast
    ultimately show ?thesis using True by auto
  next
    case False
    let ?s = "set_fd d 0 (s\<lparr>open_files := (open_files s)(f d := None)\<rparr>)"
    have len: "length (file_descriptors s) = unat (nthreads T)" using Cons.prems(1,2) by (simp add: core_ok_def)
    have "finalize_msr_loop E T ret (d # ds) s = finalize_msr_loop E T 0 ds ?s"
      using c fd False by (auto simp: os_close_def)
    moreover have "\<forall>i \<in> set ds. file_descriptors ?s ! i = Some (f i) \<and> open_files ?s (f i) \<noteq> None"
    proof
      fix i assume i: "i \<in> set ds"
      then have "i \<noteq> d" using d(2) by blast
      then show "file_descriptors ?s ! i = Some (f i) \<and> open_files ?s (f i) \<noteq> None"
        using Cons.prems(6) ne [OF i] i by (simp add: set_fd_def)
    qed
    moreover have "init_core_fd ?s" "core_ok T ?s" using Cons.prems(1,2) by (simp_all add: set_fd_def core_ok_def)
    moreover have "distinct ds" "set ds \<subseteq> {..<unat (nthreads T)}" using Cons.prems(3,4) by simp_all
    ultimately obtain s' where "finalize_msr_loop E T ret (d # ds) s =
        Some (if ds = [] then 0 else if os_close_fails E (f (last ds)) then -1 else 0, s')"
      "elog s' = elog ?s @ replicate (length (filter (\<lambda>i. os_close_fails E (f i)) ds)) VARIORUM_ERROR_MSR_CLOSE"
      "open_files s' = (\<lambda>fd. if fd \<in> f ` set ds \<and> \<not> os_close_fails E fd then None else open_files ?s fd)"
      using Cons.IH [of ?s 0] Cons.prems(5) by auto
    then show ?thesis using False by (auto simp: fun_eq_iff set_fd_def)
  qed
qed

lemma finalize_msr_result:
  assumes "fd_table T f s" "topo_ok T"
  shows "\<exists>s'. finalize_msr E T s =
      Some (if os_close_fails E (f (unat (nthreads T) - 1)) then -1 else 0, s') \<and>
    elog s' = elog s @ replicate (length (filter (\<lambda>i. os_close_fails E (f i)) [0..<unat (nthreads T)]))
      VARIORUM_ERROR_MSR_CLOSE \<and>
    open_files s' = (\<lambda>fd. if fd \<in> f ` {..<unat (nthreads T)} \<and> \<not> os_close_fails E fd
      then None else open_files s fd)"
proof -
  have "0 < unat (nthreads T)" using assms(2) by (simp add: topo_ok_def)
  moreover have "set [0..<unat (nthreads T)] = {..<unat (nthreads T)}" by auto
  ultimately show ?thesis
    using finalize_msr_loop_result [of s T "[0..<unat (nthreads T)]" f E 0] assms(1)
    by (simp add: fd_table_def finalize_msr_def)
qed

section \<open>What the descriptors do not touch\<close>

text \<open>The rest of the state, the log aside.\<close>

definition outer :: "'a msr_state_scheme \<Rightarrow> bool \<times> platform list \<times> regs \<times> 'a" where
  "outer s = (init_variorum_init_topology s, g_platform s, registers s, msr_state.more s)"

lemma outer_simps [simp]:
  "outer (variorum_error_handler e s) = outer s" "outer (s\<lparr>elog := es\<rparr>) = outer s"
  "outer (set_fd i fd s) = outer s" "outer (core_init T s) = outer s"
  "outer (s\<lparr>open_files := f\<rparr>) = outer s"
  by (simp_all add: outer_def variorum_error_handler_def set_fd_def core_init_def)

lemma outer_core_fd: "core_fd T d s = (r, s') \<Longrightarrow> outer s' = outer s"
  by (auto simp: core_fd_def Let_def outer_def variorum_error_handler_def split: if_splits)

lemma outer_os_open: "os_open E p s = (r, s') \<Longrightarrow> outer s' = outer s"
  by (auto simp: os_open_def outer_def split: if_splits)

lemma outer_os_close: "os_close E p s = (r, s') \<Longrightarrow> outer s' = outer s"
  by (auto simp: os_close_def outer_def split: if_splits)

lemma outer_stat_module: "stat_module E p kt d (s :: 'a msr_state_scheme) = Some (rc, kt', d', s') \<Longrightarrow> outer s' = outer s"
  using stat_module_log [of E p kt d s rc kt' d' s'] outer_simps(2) by metis

lemma outer_init_msr_loop: "init_msr_loop E T kt d s = Some (rc, s') \<Longrightarrow> outer s' = outer s"
proof (induction E T kt d s arbitrary: rc s' rule: init_msr_loop.induct)
  case (1 E T kt d s)
  let ?p = "if kt \<noteq> 0 then Stock_path d else Safe_path d"
  show ?case
  proof (cases "d < sint (nthreads T)")
    case N: True
    show ?thesis
    proof (cases "stat_module E ?p kt (Some d) s")
      case None
      then show ?thesis using 1(3) N by (simp add: init_msr_loop.simps [of E T kt d s])
    next
      case (Some r)
      then obtain rc0 kt' d' s1 where st: "stat_module E ?p kt (Some d) s = Some (rc0, kt', d', s1)"
        by (cases r) auto
      obtain c s2 where c: "core_fd T (unsigned_of_int (the d')) s1 = (c, s2)" by fastforce
      obtain fd s3 where o: "os_open E ?p s2 = (fd, s3)" by fastforce
      have fr: "outer s3 = outer s"
        using outer_stat_module [OF st] outer_core_fd [OF c] outer_os_open [OF o] by simp
      note ev = 1(3) [unfolded init_msr_loop.simps [of E T kt d s] Let_def]
      show ?thesis
      proof (cases "rc0 < 0 \<or> c = None \<or> fd = -1 \<and> kt' \<noteq> 0")
        case True
        then show ?thesis using ev N st c o fr outer_stat_module [OF st] by (auto split: if_splits option.splits)
      next
        case False
        then obtain i where i: "c = Some i" "\<not> rc0 < 0" by auto
        show ?thesis
        proof (cases "fd = -1")
          case True
          then have "init_msr_loop E T 1 (the d') (variorum_error_handler VARIORUM_ERROR_RAPL_INIT (set_fd i fd s3)) = Some (rc, s')"
            using ev N st c o i False by simp
          from 1(1) [OF N refl st refl refl refl i(2) c [symmetric] i(1) refl o [symmetric] refl True refl _ this]
          show ?thesis using False True fr by simp
        next
          case f: False
          then have "init_msr_loop E T kt' (the d' + 1) (set_fd i fd s3) = Some (rc, s')"
            using ev N st c o i by simp
          from 1(2) [OF N refl st refl refl refl i(2) c [symmetric] i(1) refl o [symmetric] refl f this]
          show ?thesis using fr by simp
        qed
      qed
    qed
  qed (use 1(3) in \<open>simp add: init_msr_loop.simps [of E T kt d s]\<close>)
qed

lemma outer_finalize_loop: "finalize_msr_loop E T ret ds s = Some (rc, s') \<Longrightarrow> outer s' = outer s"
proof (induction ds arbitrary: ret s)
  case (Cons d ds)
  obtain c s1 where c: "core_fd T (of_nat d) s = (c, s1)" by fastforce
  show ?case
  proof (cases c)
    case None
    then show ?thesis using Cons c outer_core_fd [OF c] by auto
  next
    case (Some i)
    obtain fd where fd: "file_descriptors s1 ! i = Some fd"
      using Cons.prems c Some by (cases "file_descriptors s1 ! i") auto
    obtain r s2 where o: "os_close E fd s1 = (r, s2)" by fastforce
    from fd o have "finalize_msr_loop E T r ds
        (if r \<noteq> 0 then variorum_error_handler VARIORUM_ERROR_MSR_CLOSE s2 else set_fd i 0 s2) = Some (rc, s')"
      using Cons.prems c Some by (simp split: if_splits)
    from Cons.IH [OF this] show ?thesis using outer_core_fd [OF c] outer_os_close [OF o] by (simp split: if_splits)
  qed
qed simp

lemma outer_init_msr: "init_msr E T s = Some (rc, s') \<Longrightarrow> outer s' = outer s"
  by (simp add: init_msr_eq outer_init_msr_loop)

lemma outer_finalize_msr: "finalize_msr E T s = Some (rc, s') \<Longrightarrow> outer s' = outer s"
  by (simp add: finalize_msr_def outer_finalize_loop)

lemma finalize_loop_keeps:
  "finalize_msr_loop E T ret ds s = Some (rc, s') \<Longrightarrow> init_core_fd s \<Longrightarrow> core_ok T s \<Longrightarrow>
    core_ok T s' \<and> init_core_fd s' \<and> next_fd s' = next_fd s"
proof (induction ds arbitrary: ret s)
  case (Cons d ds)
  obtain c s1 where c: "core_fd T (of_nat d) s = (c, s1)" by fastforce
  have s1: "core_ok T s1" "init_core_fd s1" "next_fd s1 = next_fd s"
    using c Cons.prems(2,3) by (auto simp: core_fd_eq split: if_splits)
  show ?case
  proof (cases c)
    case None
    then show ?thesis using Cons.IH [of ret s1] Cons.prems(1) c s1 by simp
  next
    case (Some i)
    obtain fd where fd: "file_descriptors s1 ! i = Some fd"
      using Cons.prems(1) c Some by (cases "file_descriptors s1 ! i") auto
    obtain r s2 where o: "os_close E fd s1 = (r, s2)" by fastforce
    have s2: "core_ok T s2" "init_core_fd s2" "next_fd s2 = next_fd s"
      using o s1 by (auto simp: os_close_def core_ok_def split: if_splits)
    let ?s = "if r \<noteq> 0 then variorum_error_handler VARIORUM_ERROR_MSR_CLOSE s2 else set_fd i 0 s2"
    have "finalize_msr_loop E T r ds ?s = Some (rc, s')"
      using Cons.prems(1) c Some fd o by (simp split: if_splits)
    moreover have "core_ok T ?s" "init_core_fd ?s" "next_fd ?s = next_fd s"
      using s2 by (simp_all add: set_fd_def core_ok_def)
    ultimately show ?thesis using Cons.IH [of r ?s] by simp
  qed
qed simp

text \<open>
  C25: opening and closing are inverse. When the files are good and no close fails,
  finalize_msr after init_msr returns 0 and leaves exactly the files open that were open before.
\<close>

theorem init_finalize_restores:
  assumes "topo_ok T" "msr_fresh T s"
    "\<forall>i < unat (nthreads T). file_ok E (device_path (chosen_module E) (int i))"
    "\<forall>fd. \<not> os_close_fails E fd"
  shows "\<exists>s1 s2. init_msr E T s = Some (0, s1) \<and> finalize_msr E T s1 = Some (0, s2) \<and>
    open_files s2 = open_files s \<and> elog s2 = elog s"
proof -
  have "chosen_module E \<noteq> 3" by (simp add: chosen_module_def)
  then obtain s1 where s1: "init_msr E T s = Some (0, s1)" "opened_from T (chosen_module E) 0 s s1"
    using init_msr_loop_all_good [OF assms(1) _ refl, of "chosen_module E" 0 E s] assms(2,3)
    by (auto simp: init_msr_eq msr_fresh_def ready_upto_0)
  obtain f where f: "fd_table T f s1" "\<And>i. i < unat (nthreads T) \<Longrightarrow> open_files s (f i) = None"
    "\<And>fd. open_files s1 fd \<noteq> open_files s fd \<Longrightarrow> fd \<in> f ` {..<unat (nthreads T)}"
    by (rule opened_fd_table [OF s1(2) assms(1)]) blast
  obtain s2 where s2: "finalize_msr E T s1 = Some (0, s2)" "elog s2 = elog s1"
    and o: "open_files s2 = (\<lambda>fd. if fd \<in> f ` {..<unat (nthreads T)} then None else open_files s1 fd)"
    using finalize_msr_result [OF f(1) assms(1), of E] assms(4) by auto
  have "open_files s2 fd = open_files s fd" for fd
    using f(2,3) unfolding o by fastforce
  then have "open_files s2 = open_files s" by blast
  then show ?thesis using s1 s2 by (auto simp: opened_from_def)
qed

theorem init_finalize_restores_witness:
  "\<exists>s1 s2. init_msr good_env small_topo (msr_init (\<lambda>_ _. 0)) = Some (0, s1) \<and>
     finalize_msr good_env small_topo s1 = Some (0, s2) \<and> open_files s2 = (\<lambda>_. None)"
  using init_finalize_restores [OF small_topo_ok(2) msr_fresh_init [of _ "\<lambda>_ _. 0"], of good_env]
    good_env_files by (auto simp: good_env_def msr_init_def)

text \<open>
  Finalize_msr tries to close every descriptor and reports each failure, but its result is
  that of the last processor alone: failures before it are lost to the caller, and the files
  whose close failed stay open.
\<close>

theorem finalize_msr_returns_last:
  assumes "fd_table T f s" "topo_ok T"
  shows "\<exists>s'. finalize_msr E T s =
      Some (if os_close_fails E (f (unat (nthreads T) - 1)) then -1 else 0, s') \<and>
    elog s' = elog s @ replicate (length (filter (\<lambda>i. os_close_fails E (f i)) [0..<unat (nthreads T)]))
      VARIORUM_ERROR_MSR_CLOSE \<and>
    open_files s' = (\<lambda>fd. if fd \<in> f ` {..<unat (nthreads T)} \<and> \<not> os_close_fails E fd
      then None else open_files s fd)"
  using assms by (rule finalize_msr_result)

definition ready_state :: msr_state where
  "ready_state = (msr_init (\<lambda>_ _. 0))\<lparr>init_core_fd := True, core_nthreads := 4,
     file_descriptors := [Some 3, Some 4, Some 5, Some 6],
     open_files := [3 \<mapsto> Safe_path 0, 4 \<mapsto> Safe_path 1, 5 \<mapsto> Safe_path 2, 6 \<mapsto> Safe_path 3],
     next_fd := 7\<rparr>"

lemma less_4_cases: "(i :: nat) < 4 \<longleftrightarrow> i = 0 \<or> i = 1 \<or> i = 2 \<or> i = 3"
  by auto

theorem finalize_msr_returns_last_witness:
  "\<exists>s'. finalize_msr (good_env\<lparr>os_close_fails := (\<lambda>fd. fd = 4)\<rparr>) small_topo ready_state = Some (0, s') \<and>
     elog s' = [VARIORUM_ERROR_MSR_CLOSE] \<and> open_files s' 4 = Some (Safe_path 1)"
proof -
  have "fd_table small_topo (\<lambda>i. int i + 3) ready_state"
    by (auto simp: fd_table_def small_topo_def ready_state_def core_ok_def less_4_cases inj_on_def)
  from finalize_msr_returns_last [OF this small_topo_ok(2), of "good_env\<lparr>os_close_fails := (\<lambda>fd. fd = 4)\<rparr>"]
  obtain s' where "finalize_msr (good_env\<lparr>os_close_fails := (\<lambda>fd. fd = 4)\<rparr>) small_topo ready_state = Some (0, s')"
    "elog s' = elog ready_state @ replicate (length (filter (\<lambda>i. int i + 3 = 4) [0..<4])) VARIORUM_ERROR_MSR_CLOSE"
    "open_files s' 4 = open_files ready_state 4"
    by (auto simp: small_topo_ok)
  moreover have "filter (\<lambda>i. int i + 3 = 4) [0..<4] = [1]" by (simp add: upt_rec)
  ultimately show ?thesis by (auto simp: ready_state_def msr_init_def)
qed

end
