(* ===== verification/Msr_Access.thy ===== *)
theory Msr_Access imports Msr_Lifecycle begin

text \<open>
  Register access as its users see it. The locale \<open>register_file\<close> states what a user of
  read_msr_by_coord and write_msr_by_coord relies on: a valid access never goes wrong, a
  successful read gives the register, a successful write has its effect on all registers, and a
  failed access changes nothing. Read-after-write, and the read-modify-write of a field, are
  proved once from these laws; the interpretation \<open>coord\<close> shows that msr_core.c provides them on a
  ready descriptor table.
\<close>

section \<open>The contract\<close>

locale register_file =
  fixes inv :: "'s \<Rightarrow> bool"
    and valid :: "'a \<Rightarrow> bool"
    and reg :: "'s \<Rightarrow> 'a \<Rightarrow> u64"
    and eff :: "'a \<Rightarrow> u64 \<Rightarrow> ('a \<Rightarrow> u64) \<Rightarrow> 'a \<Rightarrow> u64"
    and rd :: "'a \<Rightarrow> u64 \<Rightarrow> 's \<Rightarrow> (int \<times> u64 \<times> 's) option"
    and wr :: "'a \<Rightarrow> u64 \<Rightarrow> 's \<Rightarrow> (int \<times> 's) option"
  assumes rd_total: "inv s \<Longrightarrow> valid a \<Longrightarrow> \<exists>rc w s'. rd a v s = Some (rc, w, s')"
    and rd_step: "inv s \<Longrightarrow> valid a \<Longrightarrow> rd a v s = Some (rc, w, s') \<Longrightarrow>
      inv s' \<and> reg s' = reg s \<and> w = (if rc = 0 then reg s a else v)"
    and wr_total: "inv s \<Longrightarrow> valid a \<Longrightarrow> \<exists>rc s'. wr a v s = Some (rc, s')"
    and wr_step: "inv s \<Longrightarrow> valid a \<Longrightarrow> wr a v s = Some (rc, s') \<Longrightarrow>
      inv s' \<and> (\<forall>b. valid b \<longrightarrow> reg s' b = (if rc = 0 then eff a v (reg s) b else reg s b))"
begin

lemma read_after_write:
  assumes "inv s" "valid a" "valid b" "wr a v s = Some (0, s1)" "rd b u s1 = Some (0, w, s2)"
  shows "w = eff a v (reg s) b"
  using wr_step [OF assms(1,2,4)] rd_step [of s1 b u 0 w s2] assms(3,5) by auto

lemma failed_write_keeps:
  assumes "inv s" "valid a" "wr a v s = Some (rc, s1)" "rc \<noteq> 0" "valid b"
  shows "reg s1 b = reg s b"
  using wr_step [OF assms(1-3)] assms(4,5) by auto

text \<open>Read a register, change it with f, write it back: what every setter does.\<close>

definition modify :: "(u64 \<Rightarrow> u64) \<Rightarrow> 'a \<Rightarrow> u64 \<Rightarrow> 's \<Rightarrow> (int \<times> 's) option" where
  "modify f a v s = do {
     (rc, w, s) \<leftarrow> rd a v s;
     if rc \<noteq> 0 then Some (rc, s) else wr a (f w) s
   }"

lemma modify_step:
  assumes "inv s" "valid a" "modify f a v s = Some (rc, s')"
  shows "inv s' \<and> (\<forall>b. valid b \<longrightarrow> reg s' b = (if rc = 0 then eff a (f (reg s a)) (reg s) b else reg s b))"
proof -
  obtain rc1 w s1 where r: "rd a v s = Some (rc1, w, s1)" using rd_total [OF assms(1,2)] by blast
  note rs = rd_step [OF assms(1,2) r]
  show ?thesis
  proof (cases "rc1 = 0")
    case True
    then have "wr a (f w) s1 = Some (rc, s')" using assms(3) r by (simp add: modify_def)
    then show ?thesis using wr_step [of s1 a "f w" rc s'] rs assms(2) True by auto
  next
    case False
    then show ?thesis using assms(3) r rs by (auto simp: modify_def)
  qed
qed

end

section \<open>msr\_core.c provides it\<close>

type_synonym coord = "(u32 \<times> u32 \<times> u32) \<times> u64"

text \<open>The register of a coordinate, and the coordinates that exist.\<close>

definition reg_at :: "topo \<Rightarrow> 'a msr_state_scheme \<Rightarrow> coord \<Rightarrow> u64" where
  "reg_at T s = (\<lambda>((socket, core, thread), msr). registers s (int (unat (devidx T socket core thread))) msr)"

definition coord_cpu :: "topo \<Rightarrow> coord \<Rightarrow> int" where
  "coord_cpu T = (\<lambda>((socket, core, thread), msr). int (unat (devidx T socket core thread)))"

definition coord_valid :: "topo \<Rightarrow> coord \<Rightarrow> bool" where
  "coord_valid T = (\<lambda>((socket, core, thread), msr). valid_coord T socket core thread)"

text \<open>
  A driver for registers that processors share (each msr m of processor c belongs to one unit scope m c: a thread, a
  core, a package) and of which only the bits of a mask can be written, as msr-safe's allowlist has it: a write to one processor
  shows in all that share the register, bits outside of the mask keep their value, and no other register changes. What a
  write does is left open when it fails.
\<close>

definition driver_reads :: "os_env \<Rightarrow> bool" where
  "driver_reads E \<longleftrightarrow> (\<forall>R p m. drv_read E R p m = (if drv_can_read E p m then Some (R (path_cpu p) m) else None))"

definition write_scope :: "(u64 \<Rightarrow> int \<Rightarrow> int) \<Rightarrow> (u64 \<Rightarrow> u64) \<Rightarrow> int \<Rightarrow> u64 \<Rightarrow> u64 \<Rightarrow> regs \<Rightarrow> regs" where
  "write_scope scope wmask c m v R = (\<lambda>c' m'. if m' = m \<and> scope m c' = scope m c
     then (R c m AND NOT (wmask m)) OR (v AND wmask m) else R c' m')"

definition scoped_driver :: "os_env \<Rightarrow> (u64 \<Rightarrow> int \<Rightarrow> int) \<Rightarrow> (u64 \<Rightarrow> u64) \<Rightarrow> bool" where
  "scoped_driver E scope wmask \<longleftrightarrow> driver_reads E \<and>
     (\<forall>R p m v R'. drv_write E R p m v = Some R' \<longrightarrow> R' = write_scope scope wmask (path_cpu p) m v R)"

definition coord_inv :: "os_env \<Rightarrow> (u64 \<Rightarrow> int \<Rightarrow> int) \<Rightarrow> (u64 \<Rightarrow> u64) \<Rightarrow> topo \<Rightarrow> 'a msr_state_scheme \<Rightarrow> bool" where
  "coord_inv E scope wmask T s \<longleftrightarrow> scoped_driver E scope wmask \<and> topo_fits T \<and> msr_ready T s"

definition coord_eff :: "(u64 \<Rightarrow> int \<Rightarrow> int) \<Rightarrow> (u64 \<Rightarrow> u64) \<Rightarrow> topo \<Rightarrow> coord \<Rightarrow> u64 \<Rightarrow> (coord \<Rightarrow> u64) \<Rightarrow> coord \<Rightarrow> u64" where
  "coord_eff scope wmask T a v r b =
    (if snd b = snd a \<and> scope (snd a) (coord_cpu T b) = scope (snd a) (coord_cpu T a)
     then (r a AND NOT (wmask (snd a))) OR (v AND wmask (snd a)) else r b)"

definition coord_rd ::
  "os_env \<Rightarrow> topo \<Rightarrow> coord \<Rightarrow> u64 \<Rightarrow> 'a msr_state_scheme \<Rightarrow> (int \<times> u64 \<times> 'a msr_state_scheme) option" where
  "coord_rd E T = (\<lambda>((socket, core, thread), msr) v s.
     map_option (\<lambda>(rc, w, s). (rc, the w, s)) (read_msr_by_coord E T socket core thread msr (Some v) s))"

definition coord_wr ::
  "os_env \<Rightarrow> topo \<Rightarrow> coord \<Rightarrow> u64 \<Rightarrow> 'a msr_state_scheme \<Rightarrow> (int \<times> 'a msr_state_scheme) option" where
  "coord_wr E T = (\<lambda>((socket, core, thread), msr) v s. write_msr_by_coord E T socket core thread msr v s)"

lemma asserts_silent:
  assumes "topo_fits T" "valid_coord T socket core thread"
  shows "sockets_assert T socket s = (0, s)" "cores_assert T core s = (0, s)"
    "threads_assert T thread s = (0, s)"
proof -
  have "unat (ncores T) div unat (nsockets T) \<le> unat (ncores T)"
    "unat (nthreads T) div unat (ncores T) \<le> unat (nthreads T)" by simp_all
  then have "unat socket \<le> unat (nsockets T)" "unat core \<le> unat (ncores T)"
    "unat thread \<le> unat (nthreads T)"
    using assms(2) unfolding valid_coord_def by linarith+
  then show "sockets_assert T socket s = (0, s)" "cores_assert T core s = (0, s)"
    "threads_assert T thread s = (0, s)"
    by (simp_all add: sockets_assert_def cores_assert_def threads_assert_def word_less_nat_alt not_less)
qed

lemma ready_core_fd:
  assumes "msr_ready T s" "unat i < unat (nthreads T)"
  shows "core_fd T (ucast (i :: u64)) s = (Some (unat i), s)"
proof -
  have "unat (ucast i :: u32) = unat i"
    by (rule unat_ucast_small) (use assms(2) unat_u32 [of "nthreads T"] in simp)
  then show ?thesis using assms
    by (simp add: msr_ready_def ready_upto_def core_fd_eq word_less_nat_alt)
qed

lemma ready_fd:
  assumes "msr_ready T s" "i < unat (nthreads T)"
  obtains fd p where "file_descriptors s ! i = Some fd" "open_files s fd = Some p" "is_cpu_path p"
    "path_cpu p = int i"
  using assms by (auto simp: msr_ready_def ready_upto_def fd_on_cpu_def)

lemma msr_ready_registers [simp]: "msr_ready T (s\<lparr>registers := R\<rparr>) = msr_ready T s"
  by (simp add: msr_ready_def ready_upto_def core_ok_def fd_on_cpu_def)

text \<open>A register of its own for every processor, all of it writable, is a special case.\<close>

lemma driver_ok_scoped: "driver_ok E \<Longrightarrow> scoped_driver E (\<lambda>_ c. c) (\<lambda>_. - 1)"
proof -
  have "write_scope (\<lambda>_ c. c) (\<lambda>_. - 1) c m v R = set_reg c m v R" for c m v R
    by (simp add: write_scope_def set_reg_def fun_eq_iff)
  then show "driver_ok E \<Longrightarrow> scoped_driver E (\<lambda>_ c. c) (\<lambda>_. - 1)"
    by (simp add: driver_ok_def scoped_driver_def driver_reads_def)
qed

lemma driver_ok_reads: "driver_ok E \<Longrightarrow> driver_reads E"
  by (simp add: driver_ok_def driver_reads_def)

lemma drv_readD: "driver_ok E \<Longrightarrow>
    drv_read E R p m = (if drv_can_read E p m then Some (R (path_cpu p) m) else None)"
  and drv_writeD: "driver_ok E \<Longrightarrow> drv_write E R p m v = Some R' \<Longrightarrow> R' = set_reg (path_cpu p) m v R"
  unfolding driver_ok_def by blast+

text \<open>Whether a read of a coordinate succeeds depends on its open file alone.\<close>

definition coord_readable :: "os_env \<Rightarrow> topo \<Rightarrow> coord \<Rightarrow> 'a msr_state_scheme \<Rightarrow> bool" where
  "coord_readable E T = (\<lambda>((socket, core, thread), msr) s.
     case file_descriptors s ! unat (devidx T socket core thread) of None \<Rightarrow> False
     | Some fd \<Rightarrow> (case open_files s fd of None \<Rightarrow> False | Some p \<Rightarrow> drv_can_read E p msr))"

lemma read_msr_by_coord_reads:
  assumes "driver_reads E" "topo_fits T" "msr_ready T s" "valid_coord T socket core thread"
  shows "read_msr_by_coord E T socket core thread msr (Some v) s =
    Some (if coord_readable E T ((socket, core, thread), msr) s
          then (0, Some (reg_at T s ((socket, core, thread), msr)), s)
          else (err_code VARIORUM_ERROR_MSR_READ, Some v, variorum_error_handler VARIORUM_ERROR_MSR_READ s))"
proof -
  note a [simp] = asserts_silent [OF assms(2,4)]
  have i: "unat (devidx T socket core thread) < unat (nthreads T)" by (rule devidx_less [OF assms(2,4)])
  obtain fd p where fd: "file_descriptors s ! unat (devidx T socket core thread) = Some fd"
    "open_files s fd = Some p" "is_cpu_path p" "path_cpu p = int (unat (devidx T socket core thread))"
    by (rule ready_fd [OF assms(3) i])
  have "pread E fd msr s = (if drv_can_read E p msr then Some (reg_at T s ((socket, core, thread), msr)) else None)"
    using fd assms(1) by (simp add: pread_def driver_reads_def reg_at_def)
  then show ?thesis
    using ready_core_fd [OF assms(3) i] fd
    by (simp add: read_msr_by_coord_def read_msr_by_idx_def coord_readable_def)
qed

lemmas read_msr_by_coord_readable = read_msr_by_coord_reads [OF driver_ok_reads]

lemma coord_readable_simps [simp]:
  "coord_readable E T a (variorum_error_handler e s) = coord_readable E T a s"
  "coord_readable E T a (s\<lparr>registers := R\<rparr>) = coord_readable E T a s"
  by (auto simp: coord_readable_def split: prod.split option.split)

lemma read_msr_by_coord_ready:
  assumes "driver_ok E" "topo_fits T" "msr_ready T s" "valid_coord T socket core thread"
  shows "\<exists>ok. read_msr_by_coord E T socket core thread msr (Some v) s =
    Some (if ok then (0, Some (reg_at T s ((socket, core, thread), msr)), s)
          else (err_code VARIORUM_ERROR_MSR_READ, Some v, variorum_error_handler VARIORUM_ERROR_MSR_READ s))"
  using read_msr_by_coord_readable [OF assms] by blast

text \<open>Whether a write succeeds: the driver decides, by the file, the registers and the value.\<close>

definition coord_writable :: "os_env \<Rightarrow> topo \<Rightarrow> coord \<Rightarrow> u64 \<Rightarrow> 'a msr_state_scheme \<Rightarrow> bool" where
  "coord_writable E T = (\<lambda>((socket, core, thread), msr) v s.
     case file_descriptors s ! unat (devidx T socket core thread) of None \<Rightarrow> False
     | Some fd \<Rightarrow> (case open_files s fd of None \<Rightarrow> False | Some p \<Rightarrow> drv_write E (registers s) p msr v \<noteq> None))"

lemma coord_writable_handler [simp]:
  "coord_writable E T a v (variorum_error_handler e s) = coord_writable E T a v s"
  by (auto simp: coord_writable_def split: prod.split option.split)

lemma write_msr_by_coord_drv:
  assumes "topo_fits T" "msr_ready T s" "valid_coord T socket core thread"
  shows "\<exists>p. path_cpu p = int (unat (devidx T socket core thread)) \<and>
    (coord_writable E T ((socket, core, thread), msr) v s \<longleftrightarrow> drv_write E (registers s) p msr v \<noteq> None) \<and>
    write_msr_by_coord E T socket core thread msr v s =
      Some (case drv_write E (registers s) p msr v of
          None \<Rightarrow> (err_code VARIORUM_ERROR_MSR_WRITE, variorum_error_handler VARIORUM_ERROR_MSR_WRITE s)
        | Some R' \<Rightarrow> (0, s\<lparr>registers := R'\<rparr>))"
proof -
  note a [simp] = asserts_silent [OF assms(1,3)]
  let ?i = "devidx T socket core thread"
  have i: "unat ?i < unat (nthreads T)" by (rule devidx_less [OF assms(1,3)])
  obtain fd p where fd: "file_descriptors s ! unat ?i = Some fd"
    "open_files s fd = Some p" "is_cpu_path p" "path_cpu p = int (unat ?i)"
    by (rule ready_fd [OF assms(2) i])
  have "pwrite E fd msr v s = map_option (\<lambda>R'. s\<lparr>registers := R'\<rparr>) (drv_write E (registers s) p msr v)"
    using fd by (cases "drv_write E (registers s) p msr v") (simp_all add: pwrite_def)
  then show ?thesis
    using ready_core_fd [OF assms(2) i] fd
    by (intro exI [of _ p], cases "drv_write E (registers s) p msr v")
      (simp_all add: write_msr_by_coord_def write_msr_by_idx_def coord_writable_def)
qed

lemma write_msr_by_coord_writable:
  assumes "driver_ok E" "topo_fits T" "msr_ready T s" "valid_coord T socket core thread"
  shows "write_msr_by_coord E T socket core thread msr v s =
    Some (if coord_writable E T ((socket, core, thread), msr) v s
          then (0, s\<lparr>registers := set_reg (int (unat (devidx T socket core thread))) msr v (registers s)\<rparr>)
          else (err_code VARIORUM_ERROR_MSR_WRITE, variorum_error_handler VARIORUM_ERROR_MSR_WRITE s))"
proof -
  obtain p where p: "path_cpu p = int (unat (devidx T socket core thread))"
    "coord_writable E T ((socket, core, thread), msr) v s \<longleftrightarrow> drv_write E (registers s) p msr v \<noteq> None"
    "write_msr_by_coord E T socket core thread msr v s =
      Some (case drv_write E (registers s) p msr v of
          None \<Rightarrow> (err_code VARIORUM_ERROR_MSR_WRITE, variorum_error_handler VARIORUM_ERROR_MSR_WRITE s)
        | Some R' \<Rightarrow> (0, s\<lparr>registers := R'\<rparr>))"
    using write_msr_by_coord_drv [OF assms(2-4)] by blast
  show ?thesis unfolding p(2,3) using drv_writeD [OF assms(1), of "registers s" p msr v] p(1) by (auto split: option.split)
qed

lemma write_msr_by_coord_ready:
  assumes "driver_ok E" "topo_fits T" "msr_ready T s" "valid_coord T socket core thread"
  shows "\<exists>ok. write_msr_by_coord E T socket core thread msr v s =
    Some (if ok then (0, s\<lparr>registers := set_reg (int (unat (devidx T socket core thread))) msr v (registers s)\<rparr>)
          else (err_code VARIORUM_ERROR_MSR_WRITE, variorum_error_handler VARIORUM_ERROR_MSR_WRITE s))"
  using write_msr_by_coord_writable [OF assms] by blast

lemma coord_rd_eq:
  assumes "coord_inv E scope wmask T s" "coord_valid T a"
  shows "\<exists>ok. coord_rd E T a v s = Some (if ok then (0, reg_at T s a, s)
    else (err_code VARIORUM_ERROR_MSR_READ, v, variorum_error_handler VARIORUM_ERROR_MSR_READ s))"
proof -
  obtain so co th m where a: "a = ((so, co, th), m)" by (metis surj_pair)
  show ?thesis
    using read_msr_by_coord_reads [of E T s so co th m v] assms
    by (intro exI [of _ "coord_readable E T a s"]) (simp add: coord_inv_def scoped_driver_def coord_valid_def coord_rd_def a)
qed

lemma coord_wr_eq:
  assumes "coord_inv E scope wmask T s" "coord_valid T a"
  shows "\<exists>ok. coord_wr E T a v s = Some (if ok
    then (0, s\<lparr>registers := write_scope scope wmask (coord_cpu T a) (snd a) v (registers s)\<rparr>)
    else (err_code VARIORUM_ERROR_MSR_WRITE, variorum_error_handler VARIORUM_ERROR_MSR_WRITE s))"
proof -
  obtain so co th m where a: "a = ((so, co, th), m)" by (metis surj_pair)
  have f: "topo_fits T" "msr_ready T s" "valid_coord T so co th" using assms by (simp_all add: coord_inv_def coord_valid_def a)
  obtain p where p: "path_cpu p = coord_cpu T a"
    "write_msr_by_coord E T so co th m v s =
      Some (case drv_write E (registers s) p m v of
          None \<Rightarrow> (err_code VARIORUM_ERROR_MSR_WRITE, variorum_error_handler VARIORUM_ERROR_MSR_WRITE s)
        | Some R' \<Rightarrow> (0, s\<lparr>registers := R'\<rparr>))"
    using write_msr_by_coord_drv [OF f, of E m v] by (auto simp: a coord_cpu_def)
  have "R' = write_scope scope wmask (coord_cpu T a) (snd a) v (registers s)" if "drv_write E (registers s) p m v = Some R'" for R'
  proof -
    have "R' = write_scope scope wmask (path_cpu p) m v (registers s)"
      using assms(1) that unfolding coord_inv_def scoped_driver_def by blast
    then show ?thesis unfolding p(1) by (simp add: a)
  qed
  then show ?thesis
    by (intro exI [of _ "drv_write E (registers s) p m v \<noteq> None"]) (auto simp: coord_wr_def a p(2) split: option.split)
qed

lemma reg_at_write_scope:
  "reg_at T (s\<lparr>registers := write_scope scope wmask (coord_cpu T a) (snd a) v (registers s)\<rparr>) b = coord_eff scope wmask T a v (reg_at T s) b"
  by (auto simp: reg_at_def coord_eff_def coord_cpu_def write_scope_def split: prod.split)

lemma coord_inv_simps [simp]:
  "coord_inv E scope wmask T (s\<lparr>registers := R\<rparr>) = coord_inv E scope wmask T s"
  "coord_inv E scope wmask T (variorum_error_handler e s) = coord_inv E scope wmask T s"
  "reg_at T (variorum_error_handler e s) = reg_at T s"
  by (auto simp: coord_inv_def reg_at_def split: prod.split)

interpretation coord: register_file "coord_inv E scope wmask T" "coord_valid T" "reg_at T" "coord_eff scope wmask T" "coord_rd E T" "coord_wr E T"
  for E scope wmask T
proof unfold_locales
  fix s :: "'a msr_state_scheme" and a v
  assume i: "coord_inv E scope wmask T s" "coord_valid T a"
  obtain ok where r: "coord_rd E T a v s = Some (if ok then (0, reg_at T s a, s)
    else (err_code VARIORUM_ERROR_MSR_READ, v, variorum_error_handler VARIORUM_ERROR_MSR_READ s))"
    using coord_rd_eq [OF i] by blast
  obtain ok' where w: "coord_wr E T a v s = Some (if ok' then (0, s\<lparr>registers := write_scope scope wmask (coord_cpu T a) (snd a) v (registers s)\<rparr>)
    else (err_code VARIORUM_ERROR_MSR_WRITE, variorum_error_handler VARIORUM_ERROR_MSR_WRITE s))"
    using coord_wr_eq [OF i] by blast
  show "\<exists>rc w s'. coord_rd E T a v s = Some (rc, w, s')" using r by (cases ok) auto
  show "\<exists>rc s'. coord_wr E T a v s = Some (rc, s')" using w by (cases ok') auto
  show "coord_inv E scope wmask T s' \<and> reg_at T s' = reg_at T s \<and> u = (if rc = 0 then reg_at T s a else v)"
    if "coord_rd E T a v s = Some (rc, u, s')" for rc u s'
    using r i(1) that by (cases ok) auto
  show "coord_inv E scope wmask T s' \<and> (\<forall>b. coord_valid T b \<longrightarrow>
      reg_at T s' b = (if rc = 0 then coord_eff scope wmask T a v (reg_at T s) b else reg_at T s b))"
    if "coord_wr E T a v s = Some (rc, s')" for rc s'
    using w i(1) that by (cases ok') (auto simp: reg_at_write_scope simp del: split_paired_All)
qed

section \<open>Properties\<close>

text \<open>
  C9: once init_msr has succeeded, an access to an existing coordinate is never out of bounds
  and never undefined: it returns 0 with the register in \<open>*val\<close>, or the read error with
  \<open>*val\<close> untouched; a write sets that one register, or returns the write error and sets none;
  the table stays ready either way.
\<close>

theorem register_access_safe:
  assumes "driver_ok E" "topo_fits T" "msr_ready T s" "valid_coord T socket core thread"
  shows "(\<exists>rc w s1. read_msr_by_coord E T socket core thread msr (Some v) s = Some (rc, Some w, s1) \<and>
      msr_ready T s1 \<and> registers s1 = registers s \<and> rc \<in> {0, err_code VARIORUM_ERROR_MSR_READ} \<and>
      w = (if rc = 0 then registers s (int (unat (devidx T socket core thread))) msr else v)) \<and>
    (\<exists>rc s1. write_msr_by_coord E T socket core thread msr v s = Some (rc, s1) \<and>
      msr_ready T s1 \<and> rc \<in> {0, err_code VARIORUM_ERROR_MSR_WRITE} \<and>
      registers s1 = (if rc = 0
        then set_reg (int (unat (devidx T socket core thread))) msr v (registers s) else registers s))"
proof -
  obtain r where r: "read_msr_by_coord E T socket core thread msr (Some v) s =
    Some (if r then (0, Some (reg_at T s ((socket, core, thread), msr)), s)
          else (err_code VARIORUM_ERROR_MSR_READ, Some v, variorum_error_handler VARIORUM_ERROR_MSR_READ s))"
    using read_msr_by_coord_ready [OF assms] by blast
  obtain w where w: "write_msr_by_coord E T socket core thread msr v s =
    Some (if w then (0, s\<lparr>registers := set_reg (int (unat (devidx T socket core thread))) msr v (registers s)\<rparr>)
          else (err_code VARIORUM_ERROR_MSR_WRITE, variorum_error_handler VARIORUM_ERROR_MSR_WRITE s))"
    using write_msr_by_coord_ready [OF assms] by blast
  show ?thesis
    unfolding r w using assms(3) by (cases r; cases w) (simp_all add: reg_at_def)
qed

lemma driver_ok_good_env: "driver_ok good_env"
  by (simp add: driver_ok_def good_env_def)

lemma ready_state_ready: "msr_ready small_topo ready_state"
  by (auto simp: msr_ready_def ready_upto_def core_ok_def fd_on_cpu_def ready_state_def small_topo_def
      less_4_cases)

lemma small_coord: "valid_coord small_topo 1 1 0" "valid_coord small_topo 0 0 0"
  by (simp_all add: valid_coord_def small_topo_def)

theorem register_access_safe_witness:
  "\<exists>rc s1. write_msr_by_coord good_env small_topo 1 1 0 0x610 5 ready_state = Some (rc, s1) \<and>
     msr_ready small_topo s1"
  using register_access_safe [OF driver_ok_good_env small_topo_ok(1) ready_state_ready small_coord(1)]
  by blast

text \<open>
  C19: read after write. Let a driver share each register between the processors of its scope (a thread, a core or a package) and let it
  change the bits of the register's write mask only. When a write of v to a coordinate has returned 0 and then a
  read at a coordinate returns 0, the read gives, for the same register within the scope of the
  coordinate written, the old value with the masked bits taken from v, and so v itself when all bits can be written; for a
  coordinate outside that scope, or another register, it gives what was there before the write.
  (The descriptor table is ready, and both coordinates exist.)
\<close>

theorem read_after_write_coord:
  assumes "scoped_driver E scope wmask" "topo_fits T" "msr_ready T s" "valid_coord T so co th" "valid_coord T so' co' th'"
    "write_msr_by_coord E T so co th msr v s = Some (0, s1)"
    "read_msr_by_coord E T so' co' th' msr' (Some u) s1 = Some (0, w, s2)"
    "cpu = int (unat (devidx T so co th))" "cpu' = int (unat (devidx T so' co' th'))"
  shows "w = Some (if msr' = msr \<and> scope msr cpu' = scope msr cpu
    then (registers s cpu msr AND NOT (wmask msr)) OR (v AND wmask msr) else registers s cpu' msr')"
proof -
  have i: "coord_inv E scope wmask T s" using assms(1-3) by (simp add: coord_inv_def)
  have v: "coord_valid T ((so, co, th), msr)" "coord_valid T ((so', co', th'), msr')"
    using assms(4,5) by (simp_all add: coord_valid_def)
  have wr: "coord_wr E T ((so, co, th), msr) v s = Some (0, s1)" using assms(6) by (simp add: coord_wr_def)
  have rd: "coord_rd E T ((so', co', th'), msr') u s1 = Some (0, the w, s2)"
    using assms(7) by (simp add: coord_rd_def)
  have "w \<noteq> None"
    using assms(7) by (auto simp: read_msr_by_coord_def bind_Some_iff split: prod.splits)
  then show ?thesis
    using coord.read_after_write [OF i v wr rd] assms(8,9) by (auto simp: reg_at_def coord_eff_def coord_cpu_def)
qed

text \<open>Two packages of two cores that share the limit register, of which the low 24 bits can be written.\<close>

definition package_env :: os_env where
  "package_env = good_env\<lparr>drv_write := \<lambda>R p m v. Some (write_scope (\<lambda>_ c. c div 2) (\<lambda>_. 0xFFFFFF) (path_cpu p) m v R)\<rparr>"

lemma package_env_scoped: "scoped_driver package_env (\<lambda>_ c. c div 2) (\<lambda>_. 0xFFFFFF)"
  by (simp add: scoped_driver_def driver_reads_def package_env_def good_env_def)

theorem read_after_write_coord_witness:
  "\<exists>s1 s2 s3. write_msr_by_coord package_env small_topo 1 1 0 0x610 0x5001234567 ready_state = Some (0, s1) \<and>
     read_msr_by_coord package_env small_topo 1 0 0 0x610 (Some 9) s1 = Some (0, Some 0x234567, s2) \<and>
     read_msr_by_coord package_env small_topo 0 0 0 0x610 (Some 9) s1 = Some (0, Some 0, s3)"
proof -
  note d = package_env_scoped small_topo_ok(1) ready_state_ready
  have v: "valid_coord small_topo 1 0 0" by (simp add: valid_coord_def small_topo_def)
  have x: "devidx small_topo 1 1 0 = 3" "devidx small_topo 1 0 0 = 2" "devidx small_topo 0 0 0 = 0"
    by (simp_all add: devidx_def small_topo_def)
  have r: "registers ready_state = (\<lambda>_ _. 0)" by (simp add: ready_state_def msr_init_def)
  let ?s1 = "ready_state\<lparr>registers := write_scope (\<lambda>_ c. c div 2) (\<lambda>_. 0xFFFFFF) 3 0x610 0x5001234567 (registers ready_state)\<rparr>"
  note e = package_env_def good_env_def small_topo_def ready_state_def devidx_def core_fd_def sockets_assert_def cores_assert_def threads_assert_def
  have w: "write_msr_by_coord package_env small_topo 1 1 0 0x610 0x5001234567 ready_state = Some (0, ?s1)"
    by (simp add: write_msr_by_coord_def write_msr_by_idx_def pwrite_def e)
  obtain a s2 where a: "read_msr_by_coord package_env small_topo 1 0 0 0x610 (Some 9) ?s1 = Some (0, a, s2)"
    by (simp add: read_msr_by_coord_def read_msr_by_idx_def pread_def e)
  obtain b s3 where b: "read_msr_by_coord package_env small_topo 0 0 0 0x610 (Some 9) ?s1 = Some (0, b, s3)"
    by (simp add: read_msr_by_coord_def read_msr_by_idx_def pread_def e)
  have "a = Some 0x234567"
    using read_after_write_coord [OF d small_coord(1) v w a refl refl] by (simp add: x r)
  moreover have "b = Some 0"
    using read_after_write_coord [OF d small_coord(1,2) w b refl refl] by (simp add: x r)
  ultimately show ?thesis using w a b by blast
qed

end
