(* ===== verification/Msr_Batch.thy ===== *)
theory Msr_Batch imports Msr_Access begin

text \<open>
  The batch half of msr_core.c: an array of batches, each a growing list of register
  operations that one ioctl of msr-safe (or, without it, a loop of single accesses) carries
  out, and destination pointers into the operations through which the results are read.

  Memory is explicit: \<open>blocks\<close> holds what calloc returned, in the order of the calls, and a
  \<open>batch_ptr\<close> is the address of the msrdata field of one operation of one block. Blocks are never
  freed. The array of sizes has the length of the array of batches and is kept beside each
  batch. Memory is assumed not to run out.
\<close>

section \<open>State\<close>

type_synonym batch_ptr = "nat \<times> nat"

record batch_entry =
  be_numops :: u32
  be_ops :: "nat option"
  be_size :: u32

record batch_state = msr_state +
  batches :: "batch_entry list option" \<comment> \<open>None: not yet allocated\<close>
  blocks :: "msr_batch_op list list"
  batchfd :: int

definition zero_op :: msr_batch_op where
  "zero_op = \<lparr>op_cpu = 0, op_isrdmsr = 0, op_err = 0, op_msr = 0, op_msrdata = 0, op_wmask = 0\<rparr>"

definition empty_entry :: batch_entry where
  "empty_entry = \<lparr>be_numops = 0, be_ops = None, be_size = 0\<rparr>"

section \<open>Storage\<close>

text \<open>
  batch_storage makes the array long enough and hands out the entry; the entry's address is its
  index here. A negative number is outside the array, and the largest int overflows
  \<open>batchnum + 1\<close>.
\<close>

definition batch_storage :: "int \<Rightarrow> 'a batch_state_scheme \<Rightarrow> (nat \<times> 'a batch_state_scheme) option" where
  "batch_storage batchnum s =
    (if batchnum < 0 \<or> 2 ^ 31 - 1 \<le> batchnum then None else
     let n = nat (batchnum + 1) in
     case batches s of
       None \<Rightarrow> Some (nat batchnum, s\<lparr>batches := Some (replicate n empty_entry)\<rparr>)
     | Some bs \<Rightarrow>
         Some (nat batchnum,
           if length bs < n then s\<lparr>batches := Some (bs @ replicate (n - length bs) empty_entry)\<rparr> else s))"

definition get_entry :: "nat \<Rightarrow> 'a batch_state_scheme \<Rightarrow> batch_entry" where
  "get_entry b s = the (batches s) ! b"

definition put_entry :: "nat \<Rightarrow> batch_entry \<Rightarrow> 'a batch_state_scheme \<Rightarrow> 'a batch_state_scheme" where
  "put_entry b e s = s\<lparr>batches := Some ((the (batches s))[b := e])\<rparr>"

text \<open>calloc of n operations; the loop that clears their err fields finds them clear.\<close>

definition calloc_ops :: "nat \<Rightarrow> 'a batch_state_scheme \<Rightarrow> nat \<times> 'a batch_state_scheme" where
  "calloc_ops n s = (length (blocks s), s\<lparr>blocks := blocks s @ [replicate n zero_op]\<rparr>)"

definition allocate_batch :: "int \<Rightarrow> u64 \<Rightarrow> 'a batch_state_scheme \<Rightarrow> (int \<times> 'a batch_state_scheme) option" where
  "allocate_batch batchnum bsize s = do {
     (b, s) \<leftarrow> batch_storage batchnum s;
     let s = put_entry b ((get_entry b s)\<lparr>be_size := ucast bsize\<rparr>) s;
     let s = (if be_ops (get_entry b s) \<noteq> None
              then variorum_error_handler VARIORUM_ERROR_MSR_BATCH s else s);
     let (blk, s) = calloc_ops (unat (be_size (get_entry b s))) s;
     Some (0, put_entry b ((get_entry b s)\<lparr>be_ops := Some blk\<rparr>) s)
   }"

definition set_op :: "nat \<Rightarrow> nat \<Rightarrow> msr_batch_op \<Rightarrow> 'a batch_state_scheme \<Rightarrow> 'a batch_state_scheme" where
  "set_op blk i op s = s\<lparr>blocks := (blocks s)[blk := (blocks s ! blk)[i := op]]\<rparr>"

text \<open>
  The result has the value for \<open>*dest\<close>, None where it is not assigned. An operation past the end
  of the block is an access out of bounds.
\<close>

definition create_batch_op ::
  "u64 \<Rightarrow> u64 \<Rightarrow> int \<Rightarrow> 'a batch_state_scheme \<Rightarrow> (int \<times> batch_ptr option \<times> 'a batch_state_scheme) option" where
  "create_batch_op msr cpu batchnum s = do {
     (b, s) \<leftarrow> batch_storage batchnum s;
     if be_size (get_entry b s) < be_numops (get_entry b s)
     then Some (err_code VARIORUM_ERROR_MSR_BATCH, None, variorum_error_handler VARIORUM_ERROR_MSR_BATCH s)
     else do {
       let s = put_entry b ((get_entry b s)\<lparr>be_numops := be_numops (get_entry b s) + 1\<rparr>) s;
       let i = unat (be_numops (get_entry b s) - 1);
       blk \<leftarrow> be_ops (get_entry b s);
       if length (blocks s ! blk) \<le> i then None
       else Some (0, Some (blk, i),
              set_op blk i ((blocks s ! blk ! i)\<lparr>op_msr := ucast msr, op_cpu := ucast cpu,
                op_isrdmsr := 1, op_err := 0\<rparr>) s)
     }
   }"

section \<open>Loading\<close>

text \<open>An array of destination pointers; None is an entry not yet assigned.\<close>

type_synonym dests = "batch_ptr option list"

definition store_dest :: "nat \<Rightarrow> batch_ptr option \<Rightarrow> dests \<Rightarrow> dests option" where
  "store_dest i p val =
    (case p of None \<Rightarrow> Some val
     | Some q \<Rightarrow> if i < length val then Some (val[i := Some q]) else None)"

partial_function (option) load_socket_loop ::
  "topo \<Rightarrow> u64 \<Rightarrow> int \<Rightarrow> u32 \<Rightarrow> u32 \<Rightarrow> dests \<Rightarrow> 'a batch_state_scheme \<Rightarrow> (int \<times> dests \<times> 'a batch_state_scheme) option" where
  "load_socket_loop T msr batchnum dev_idx val_idx val s =
    (if dev_idx < ncores T then do {
       (_, p, s) \<leftarrow> create_batch_op msr (ucast dev_idx) batchnum s;
       val \<leftarrow> store_dest (unat (val_idx mod (nsockets T * (nthreads T div ncores T)))) p val;
       load_socket_loop T msr batchnum (dev_idx + ncores T div nsockets T) (val_idx + 1) val s
     } else Some (0, val, s))"

text \<open>None for \<open>val\<close> is the null pointer; no socket or core is a division by zero.\<close>

definition load_socket_batch ::
  "topo \<Rightarrow> u64 \<Rightarrow> dests option \<Rightarrow> int \<Rightarrow> 'a batch_state_scheme \<Rightarrow> (int \<times> dests option \<times> 'a batch_state_scheme) option" where
  "load_socket_batch T msr val batchnum s =
    (case val of
       None \<Rightarrow> Some (err_code VARIORUM_ERROR_MSR_BATCH, None,
                 variorum_error_handler VARIORUM_ERROR_MSR_BATCH s)
     | Some v \<Rightarrow>
         if nsockets T = 0 \<or> ncores T = 0 \<or> nsockets T * (nthreads T div ncores T) = 0 then None
         else do {
           (rc, v, s) \<leftarrow> load_socket_loop T msr batchnum 0 0 v s;
           Some (rc, Some v, s)
         })"

fun load_thread_loop ::
  "u64 \<Rightarrow> int \<Rightarrow> nat list \<Rightarrow> dests \<Rightarrow> 'a batch_state_scheme \<Rightarrow> (int \<times> dests \<times> 'a batch_state_scheme) option" where
  "load_thread_loop msr batchnum [] val s = Some (0, val, s)"
| "load_thread_loop msr batchnum (dev_idx # ds) val s = do {
     (_, p, s) \<leftarrow> create_batch_op msr (of_nat dev_idx) batchnum s;
     val \<leftarrow> store_dest dev_idx p val;
     load_thread_loop msr batchnum ds val s
   }"

definition load_thread_batch ::
  "topo \<Rightarrow> u64 \<Rightarrow> dests option \<Rightarrow> int \<Rightarrow> 'a batch_state_scheme \<Rightarrow> (int \<times> dests option \<times> 'a batch_state_scheme) option" where
  "load_thread_batch T msr val batchnum s =
    (case val of
       None \<Rightarrow> Some (err_code VARIORUM_ERROR_MSR_BATCH, None,
                 variorum_error_handler VARIORUM_ERROR_MSR_BATCH s)
     | Some v \<Rightarrow> do {
         (rc, v, s) \<leftarrow> load_thread_loop msr batchnum [0..<unat (nthreads T)] v s;
         Some (rc, Some v, s)
       })"

section \<open>Carrying a batch out\<close>

datatype batch_op_type = BATCH_LOAD | BATCH_WRITE | BATCH_READ

text \<open>Both loops run \<open>i < (int)batch->numops\<close>.\<close>

definition op_indices :: "u32 \<Rightarrow> nat list" where
  "op_indices n = [0..<nat (sint n)]"

text \<open>The single accesses; what they return is ignored, so a read that fails leaves old data.\<close>

fun compat_loop ::
  "os_env \<Rightarrow> topo \<Rightarrow> batch_op_type \<Rightarrow> nat option \<Rightarrow> nat list \<Rightarrow> 'a batch_state_scheme \<Rightarrow> 'a batch_state_scheme option" where
  "compat_loop E T type ptr [] s = Some s"
| "compat_loop E T type ptr (i # is) s = do {
     blk \<leftarrow> ptr;
     if length (blocks s ! blk) \<le> i then None
     else
       let op = blocks s ! blk ! i; cpu = int (unat (op_cpu op)); msr = ucast (op_msr op) in
       if type = BATCH_READ then do {
         (_, v, s) \<leftarrow> read_msr_by_idx E T cpu msr (op_msrdata op) s;
         compat_loop E T type ptr is (set_op blk i (op\<lparr>op_msrdata := v\<rparr>) s)
       } else do {
         (_, s) \<leftarrow> write_msr_by_idx E T cpu msr (op_msrdata op) s;
         compat_loop E T type ptr is s
       }
   }"

definition compatibility_batch ::
  "os_env \<Rightarrow> topo \<Rightarrow> int \<Rightarrow> batch_op_type \<Rightarrow> 'a batch_state_scheme \<Rightarrow> (int \<times> 'a batch_state_scheme) option" where
  "compatibility_batch E T batchnum type s = do {
     (b, s) \<leftarrow> batch_storage batchnum s;
     s \<leftarrow> compat_loop E T type (be_ops (get_entry b s)) (op_indices (be_numops (get_entry b s))) s;
     Some (0, s)
   }"

text \<open>The operations the kernel is given: the first numops of the block.\<close>

definition do_batch_op ::
  "os_env \<Rightarrow> topo \<Rightarrow> int \<Rightarrow> batch_op_type \<Rightarrow> 'a batch_state_scheme \<Rightarrow> (int \<times> 'a batch_state_scheme) option" where
  "do_batch_op E T batchnum type s =
    (let s = (if batchfd s = 0
              then let (fd, s) = os_open E Batch_path s in s\<lparr>batchfd := (if fd < 0 then -1 else fd)\<rparr>
              else s)
     in if batchfd s < 0 then compatibility_batch E T batchnum type s
     else do {
       (b, s) \<leftarrow> batch_storage batchnum s;
       let e = get_entry b s;
       if be_numops e = 0 then Some (-1, variorum_error_handler VARIORUM_ERROR_MSR_BATCH s)
       else do {
         blk \<leftarrow> be_ops e;
         let n = unat (be_numops e);
         if length (blocks s ! blk) < n then None
         else do {
           let first = blocks s ! blk ! 0;
           let block = (if type = BATCH_WRITE \<and> op_isrdmsr first \<noteq> 0 \<or>
                           type = BATCH_READ \<and> op_isrdmsr first = 0
                        then map (\<lambda>op. op\<lparr>op_isrdmsr := (if type = BATCH_READ then 1 else 0)\<rparr>)
                               (take (nat (sint (be_numops e))) (blocks s ! blk))
                             @ drop (nat (sint (be_numops e))) (blocks s ! blk)
                        else blocks s ! blk);
           let (res, ops', R) = drv_ioctl E (registers s) (take n block);
           let s = s\<lparr>blocks := (blocks s)[blk := ops' @ drop n block], registers := R\<rparr>;
           if res < 0 then Some (res, variorum_error_handler VARIORUM_ERROR_MSR_BATCH s)
           else Some (0, s)
         }
       }
     })"

definition read_batch ::
  "os_env \<Rightarrow> topo \<Rightarrow> int \<Rightarrow> 'a batch_state_scheme \<Rightarrow> (int \<times> 'a batch_state_scheme) option" where
  "read_batch E T batchnum s = do_batch_op E T batchnum BATCH_READ s"

definition write_batch ::
  "os_env \<Rightarrow> topo \<Rightarrow> int \<Rightarrow> 'a batch_state_scheme \<Rightarrow> (int \<times> 'a batch_state_scheme) option" where
  "write_batch E T batchnum s = do_batch_op E T batchnum BATCH_WRITE s"

text \<open>What a reader of the destination array sees.\<close>

definition deref_dest :: "'a batch_state_scheme \<Rightarrow> batch_ptr \<Rightarrow> u64" where
  "deref_dest s p = op_msrdata (blocks s ! fst p ! snd p)"

end
