(* ===== verification/Msr_Batch_Facts.thy ===== *)
theory Msr_Batch_Facts imports Msr_Batch begin

text \<open>
  Properties of the batches of msr_core.c: what loading appends, that reading a batch delivers
  the registers of the right processors through the destination pointers, that the kernel's
  batch and the compatibility loop agree, and where the bounds checks fall short.
\<close>

section \<open>A batch and its block\<close>

text \<open>Batch b has n operations, in block blk, whose length is the size asked for.\<close>

definition batch_at :: "nat \<Rightarrow> nat \<Rightarrow> nat \<Rightarrow> 'a batch_state_scheme \<Rightarrow> bool" where
  "batch_at b n blk s \<longleftrightarrow>
     batches s \<noteq> None \<and> b < length (the (batches s)) \<and> int b < 2 ^ 31 - 1 \<and>
     be_ops (get_entry b s) = Some blk \<and> unat (be_numops (get_entry b s)) = n \<and>
     blk < length (blocks s) \<and> length (blocks s ! blk) = unat (be_size (get_entry b s)) \<and>
     n \<le> length (blocks s ! blk)"

abbreviation block :: "nat \<Rightarrow> 'a batch_state_scheme \<Rightarrow> msr_batch_op list" where
  "block blk s \<equiv> blocks s ! blk"

text \<open>The part of the state below the batches is the same.\<close>

definition same_msr :: "'a batch_state_scheme \<Rightarrow> 'a batch_state_scheme \<Rightarrow> bool" where
  "same_msr s s' \<longleftrightarrow> msr_state.truncate s' = msr_state.truncate s \<and> batchfd s' = batchfd s \<and>
     batch_state.more s' = batch_state.more s"

lemma same_msr_refl [simp]: "same_msr s s"
  by (simp add: same_msr_def)

lemma same_msr_trans: "same_msr s s' \<Longrightarrow> same_msr s' s'' \<Longrightarrow> same_msr s s''"
  by (simp add: same_msr_def)

lemma same_msr_updates [simp]:
  "same_msr s (put_entry b e s)" "same_msr s (set_op k i op s)" "same_msr s (snd (calloc_ops m s))"
  by (simp_all add: same_msr_def put_entry_def set_op_def calloc_ops_def msr_state.defs)

lemma same_msr_fields:
  "same_msr s s' \<Longrightarrow> registers s' = registers s"
  "same_msr s s' \<Longrightarrow> msr_ready T s' = msr_ready T s"
  "same_msr s s' \<Longrightarrow> elog s' = elog s"
  "same_msr s s' \<Longrightarrow> open_files s' = open_files s"
  by (auto simp: same_msr_def msr_state.defs msr_ready_def ready_upto_def core_ok_def fd_on_cpu_def)

lemma same_msr_handler: "same_msr s s' \<Longrightarrow> same_msr (variorum_error_handler e s) (variorum_error_handler e s')"
  by (simp add: same_msr_def msr_state.defs variorum_error_handler_def)

lemma batch_storage_at: "batch_at b n blk s \<Longrightarrow> batch_storage (int b) s = Some (b, s)"
  by (auto simp: batch_storage_def batch_at_def Let_def split: option.split)

lemma get_put_entry [simp]:
  "batches s \<noteq> None \<Longrightarrow> b < length (the (batches s)) \<Longrightarrow> get_entry b (put_entry b e s) = e"
  "blocks (put_entry b e s) = blocks s"
  by (auto simp: get_entry_def put_entry_def)

lemma error_handler_batches [simp, frame_simps]:
  "batches (variorum_error_handler e s) = batches s" "blocks (variorum_error_handler e s) = blocks s"
  "get_entry b (variorum_error_handler e s) = get_entry b s"
  "batchfd (variorum_error_handler e s) = batchfd s"
  by (simp_all add: variorum_error_handler_def get_entry_def)

lemma put_entry_batches: "batches (put_entry b e s) = Some ((the (batches s))[b := e])"
  by (simp add: put_entry_def)

lemma get_entry_set_op [simp]:
  "get_entry b (set_op k i op s) = get_entry b s" "batches (set_op k i op s) = batches s"
  by (simp_all add: get_entry_def set_op_def)

section \<open>Creating an operation\<close>

definition new_op :: "u64 \<Rightarrow> u64 \<Rightarrow> msr_batch_op \<Rightarrow> msr_batch_op" where
  "new_op msr cpu op = op\<lparr>op_msr := ucast msr, op_cpu := ucast cpu, op_isrdmsr := 1, op_err := 0\<rparr>"

text \<open>Operations n, n+1, ... of the block have been made for the given cpus, and nothing else changed.\<close>

definition ops_added ::
  "nat \<Rightarrow> nat \<Rightarrow> nat \<Rightarrow> u64 \<Rightarrow> u64 list \<Rightarrow> 'a batch_state_scheme \<Rightarrow> 'a batch_state_scheme \<Rightarrow> bool" where
  "ops_added b n blk msr cpus s s' \<longleftrightarrow>
     batch_at b (n + length cpus) blk s' \<and> same_msr s s' \<and>
     length (blocks s') = length (blocks s) \<and> length (block blk s') = length (block blk s) \<and>
     (\<forall>k. k \<noteq> blk \<longrightarrow> blocks s' ! k = blocks s ! k) \<and>
     (\<forall>i. i < n \<or> n + length cpus \<le> i \<longrightarrow> block blk s' ! i = block blk s ! i) \<and>
     (\<forall>j < length cpus. block blk s' ! (n + j) = new_op msr (cpus ! j) (block blk s ! (n + j)))"

lemma ops_added_Nil: "batch_at b n blk s \<Longrightarrow> ops_added b n blk msr [] s s"
  by (simp add: ops_added_def)

lemma ops_added_Cons:
  assumes "ops_added b n blk msr [c] s s1" "ops_added b (Suc n) blk msr cs s1 s2"
  shows "ops_added b n blk msr (c # cs) s s2"
proof -
  have "block blk s2 ! (n + j) = new_op msr ((c # cs) ! j) (block blk s ! (n + j))"
    if "j < Suc (length cs)" for j
    using assms that by (cases j) (auto simp: ops_added_def)
  then show ?thesis using assms by (auto simp: ops_added_def intro: same_msr_trans)
qed

lemma create_batch_op_at:
  assumes "batch_at b n blk s" "n < length (block blk s)"
  shows "\<exists>s'. create_batch_op msr cpu (int b) s = Some (0, Some (blk, n), s') \<and>
    ops_added b n blk msr [cpu] s s'"
proof -
  let ?e = "get_entry b s" and ?s1 = "put_entry b ((get_entry b s)\<lparr>be_numops := be_numops (get_entry b s) + 1\<rparr>) s"
  let ?s2 = "set_op blk n (new_op msr cpu (block blk s ! n)) ?s1"
  have le: "\<not> be_size ?e < be_numops ?e" using assms by (auto simp: batch_at_def word_less_nat_alt)
  have nw: "unat (be_numops ?e + 1) = Suc n"
    using assms unat_u32 [of "be_size ?e"] by (auto simp: batch_at_def unat_word_ariths)
  have eq: "create_batch_op msr cpu (int b) s = Some (0, Some (blk, n), ?s2)"
    using assms le by (simp add: create_batch_op_def batch_storage_at [OF assms(1)] batch_at_def new_op_def Let_def)
  have "batch_at b (Suc n) blk ?s2"
    using assms nw by (simp add: batch_at_def) (simp add: put_entry_def set_op_def)
  moreover have "same_msr s ?s2" by (rule same_msr_trans [OF same_msr_updates(1,2)])
  ultimately have "ops_added b n blk msr [cpu] s ?s2"
    using assms by (auto simp: ops_added_def set_op_def batch_at_def nth_list_update)
  with eq show ?thesis by blast
qed

lemma create_batch_op_full:
  assumes "batch_at b n blk s" "n = length (block blk s)"
  shows "create_batch_op msr cpu (int b) s = None"
proof -
  let ?e = "get_entry b s"
  have le: "\<not> be_size ?e < be_numops ?e" using assms(1,2) by (auto simp: batch_at_def word_less_nat_alt)
  have nw: "length (block blk s) \<le> unat (be_numops ?e)" using assms(1,2) by (simp add: batch_at_def)
  then show ?thesis
    using assms(1) le by (simp add: create_batch_op_def batch_storage_at [OF assms(1)] batch_at_def Let_def)
qed

section \<open>Loading a register of every socket\<close>

text \<open>The processors load\_socket\_batch visits: the first core of each socket.\<close>

definition socket_cpus :: "topo \<Rightarrow> nat \<Rightarrow> u64 list" where
  "socket_cpus T i =
    map (\<lambda>j. of_nat (j * (unat (ncores T) div unat (nsockets T)))) [i..<unat (nsockets T)]"

definition socket_dests :: "topo \<Rightarrow> nat \<Rightarrow> nat \<Rightarrow> nat \<Rightarrow> dests \<Rightarrow> dests" where
  "socket_dests T blk n i val =
    take i val @ map (\<lambda>j. Some (blk, n + (j - i))) [i..<unat (nsockets T)] @ drop (unat (nsockets T)) val"

lemma unat_mult_small:
  assumes "unat (x :: u32) * unat y < 2 ^ 32"
  shows "unat (x * y) = unat x * unat y"
  using assms by (simp add: unat_word_ariths)

lemma topo_word_facts:
  assumes "topo_ok T" "S = unat (nsockets T)" "unat (ncores T) = S * c" "i \<le> S"
  shows "unat (of_nat (i * c) :: u32) = i * c" "unat (of_nat i :: u32) = i"
    "ncores T div nsockets T = of_nat c" "i < S \<Longrightarrow> 0 < c \<Longrightarrow>
      unat (of_nat i mod (nsockets T * (nthreads T div ncores T))) = i"
proof -
  obtain c' t where C: "unat (ncores T) = S * c'" and P: "unat (nthreads T) = S * c' * t"
    and pos: "0 < S" "0 < c'" "0 < t" and b: "S * c' * t < 2 ^ 31"
    using topo_products [OF assms(1)] assms(2) by metis
  have c: "c' = c" using C assms(3) pos(1) by simp
  have le: "S \<le> S * c * t" "S * c \<le> S * c * t" "S * t \<le> S * c * t" using pos c by simp_all
  have big: "(2 :: nat) ^ 31 < 2 ^ 32" by simp
  have ic: "i * c \<le> S * c" using assms(4) by simp
  have lt: "i * c < 2 ^ 32" "i < 2 ^ 32" "S * t < 2 ^ 32"
    using le ic b [unfolded c] big assms(4) by linarith+
  show "unat (of_nat (i * c) :: u32) = i * c" "unat (of_nat i :: u32) = i"
    by (rule unat_of_nat_small; use lt in simp)+
  have "unat (ncores T div nsockets T) = c"
    using pos assms(2,3) by (simp add: unat_div_distrib)
  then show "ncores T div nsockets T = of_nat c" by (metis of_nat_unat ucast_id)
  have "unat (nthreads T div ncores T) = t"
    using pos P C c by (simp add: unat_div_distrib)
  then have m: "unat (nsockets T * (nthreads T div ncores T)) = S * t"
    using lt(3) assms(2) by (simp add: unat_mult_small)
  show "unat (of_nat i mod (nsockets T * (nthreads T div ncores T))) = i" if "i < S" "0 < c"
  proof -
    have "i < S * t" using that(1) pos by (metis le_trans less_le_trans mult.right_neutral mult_le_mono2 Suc_leI One_nat_def)
    then show ?thesis using m lt(2) by (simp add: unat_mod_distrib unat_of_nat)
  qed
qed

lemma load_socket_loop_at:
  assumes "topo_ok T" "S = unat (nsockets T)" "unat (ncores T) = S * c"
    "k = S - i" "i \<le> S" "batch_at b n blk s" "n + (S - i) \<le> length (block blk s)" "S \<le> length val"
  shows "\<exists>s'. load_socket_loop T msr (int b) (of_nat (i * c)) (of_nat i) val s =
      Some (0, socket_dests T blk n i val, s') \<and> ops_added b n blk msr (socket_cpus T i) s s'"
  using assms
proof (induction k arbitrary: i n s val)
  case 0
  then have i: "i = S" by simp
  have "\<not> of_nat (i * c) < ncores T"
    using topo_word_facts(1) [OF 0(1,2,3,5)] 0(3) i by (simp add: word_less_nat_alt)
  then show ?case using 0 i
    by (subst load_socket_loop.simps) (simp add: socket_dests_def socket_cpus_def ops_added_Nil)
next
  case (Suc k)
  have iS: "i < S" using Suc.prems(4) by simp
  have "0 < unat (ncores T)" using Suc.prems(1) by (simp add: topo_ok_def)
  then have c: "0 < c" using Suc.prems(3) by (cases c) auto
  note w = topo_word_facts [OF Suc.prems(1,2,3,5)]
  have "i * c < S * c" using iS c by simp
  then have lt: "of_nat (i * c) < ncores T" using w(1) Suc.prems(3) by (simp add: word_less_nat_alt)
  have cpu: "ucast (of_nat (i * c) :: u32) = (of_nat (i * c) :: u64)"
    by (rule ucast_of_nat [OF w(1)])
  have room: "n < length (block blk s)" using Suc.prems(7) iS by simp
  obtain s1 where cr: "create_batch_op msr (of_nat (i * c)) (int b) s = Some (0, Some (blk, n), s1)"
    and a1: "ops_added b n blk msr [of_nat (i * c)] s s1"
    using create_batch_op_at [OF Suc.prems(6) room] by blast
  have kS: "k = S - Suc i" using Suc.prems(4) by simp
  let ?v = "val[i := Some (blk, n)]"
  have "batch_at b (Suc n) blk s1" "Suc n + (S - Suc i) \<le> length (block blk s1)"
    using a1 Suc.prems(7) iS by (simp_all add: ops_added_def)
  then obtain s' where r: "load_socket_loop T msr (int b) (of_nat (Suc i * c)) (of_nat (Suc i)) ?v s1 =
      Some (0, socket_dests T blk (Suc n) (Suc i) ?v, s')"
    and a2: "ops_added b (Suc n) blk msr (socket_cpus T (Suc i)) s1 s'"
    using Suc.IH [OF Suc.prems(1-3), of "Suc i" "Suc n" s1 ?v] kS Suc.prems(8) iS by auto
  have step: "of_nat (i * c) + ncores T div nsockets T = (of_nat (Suc i * c) :: u32)"
    "of_nat i + 1 = (of_nat (Suc i) :: u32)" by (simp_all add: w(3))
  have sd: "store_dest i (Some (blk, n)) val = Some ?v" using iS Suc.prems(8) by (simp add: store_dest_def)
  have "load_socket_loop T msr (int b) (of_nat (i * c)) (of_nat i) val s =
      Some (0, socket_dests T blk (Suc n) (Suc i) ?v, s')"
    by (subst load_socket_loop.simps) (simp only: lt if_True cpu cr w(4) [OF iS c] sd step r bind.bind_lunit split_conv)
  moreover have "socket_dests T blk (Suc n) (Suc i) ?v = socket_dests T blk n i val"
    using iS Suc.prems(2,8)
    by (simp add: socket_dests_def take_Suc_conv_app_nth upt_conv_Cons Suc_diff_Suc)
  moreover have "socket_cpus T i = of_nat (i * c) # socket_cpus T (Suc i)"
    using iS Suc.prems(2,3) c by (simp add: socket_cpus_def upt_conv_Cons)
  ultimately show ?case using ops_added_Cons [OF a1 a2] by auto
qed

lemma load_socket_batch_at:
  assumes "topo_ok T" "batch_at b n blk s" "n + unat (nsockets T) \<le> length (block blk s)"
    "unat (nsockets T) \<le> length val"
  shows "\<exists>s'. load_socket_batch T msr (Some val) (int b) s =
      Some (0, Some (socket_dests T blk n 0 val), s') \<and> ops_added b n blk msr (socket_cpus T 0) s s'"
proof -
  obtain c t where C: "unat (ncores T) = unat (nsockets T) * c" and P: "unat (nthreads T) = unat (nsockets T) * c * t"
    and pos: "0 < unat (nsockets T)" "0 < c" "0 < t" and b: "unat (nsockets T) * c * t < 2 ^ 31"
    using topo_products [OF assms(1)] by metis
  have z: "unat (0 mod (nsockets T * (nthreads T div ncores T))) = 0" by simp
  have "unat (nsockets T) * t \<le> unat (nsockets T) * c * t" using pos by simp
  then have "unat (nsockets T) * t < 2 ^ 32" using less_2_31_32 [OF b] by linarith
  moreover have "unat (nthreads T div ncores T) = t" using pos P C by (simp add: unat_div_distrib)
  ultimately have "unat (nsockets T * (nthreads T div ncores T)) = unat (nsockets T) * t"
    by (simp add: unat_mult_small)
  then have "nsockets T * (nthreads T div ncores T) \<noteq> 0" using pos by (metis mult_is_0 not_gr_zero unat_0)
  moreover have "nsockets T \<noteq> 0" "ncores T \<noteq> 0" using assms(1) by (auto simp: topo_ok_def)
  moreover obtain s' where "load_socket_loop T msr (int b) (of_nat (0 * c)) (of_nat 0) val s =
      Some (0, socket_dests T blk n 0 val, s')" "ops_added b n blk msr (socket_cpus T 0) s s'"
    using load_socket_loop_at [OF assms(1) refl C refl _ assms(2), of 0 val msr] assms(3,4) by auto
  ultimately show ?thesis by (simp add: load_socket_batch_def)
qed

section \<open>Allocating\<close>

text \<open>A batch number that has never been used.\<close>

definition batch_unused :: "nat \<Rightarrow> 'a batch_state_scheme \<Rightarrow> bool" where
  "batch_unused b s \<longleftrightarrow> int b < 2 ^ 31 - 1 \<and>
     (case batches s of None \<Rightarrow> True | Some bs \<Rightarrow> b < length bs \<longrightarrow> bs ! b = empty_entry)"

lemma allocate_batch_unused:
  assumes "batch_unused b s" "unat bsize < 2 ^ 32"
  shows "\<exists>s'. allocate_batch (int b) bsize s = Some (0, s') \<and> batch_at b 0 (length (blocks s)) s' \<and>
    same_msr s s' \<and> blocks s' = blocks s @ [replicate (unat bsize) zero_op]"
proof -
  obtain s1 where st: "batch_storage (int b) s = Some (b, s1)" and bs: "batches s1 \<noteq> None"
    "b < length (the (batches s1))" "get_entry b s1 = empty_entry" and f: "same_msr s s1" "blocks s1 = blocks s"
    using assms(1)
    by (fastforce simp: batch_unused_def batch_storage_def get_entry_def nth_append Let_def same_msr_def
        msr_state.defs split: option.splits if_splits)
  have sz: "unat (ucast bsize :: u32) = unat bsize" by (rule unat_ucast_small) (use assms(2) in simp)
  let ?e = "empty_entry\<lparr>be_size := ucast bsize\<rparr>"
  let ?s2 = "put_entry b ?e s1"
  let ?s3 = "snd (calloc_ops (unat bsize) ?s2)"
  let ?s4 = "put_entry b (?e\<lparr>be_ops := Some (length (blocks s))\<rparr>) ?s3"
  have bs2: "batches ?s2 \<noteq> None" "b < length (the (batches ?s2))" using bs by (simp_all add: put_entry_def)
  have g3: "get_entry b ?s3 = ?e" "batches ?s3 = batches ?s2"
    using get_put_entry(1) [OF bs(1,2), of ?e] by (simp_all add: get_entry_def calloc_ops_def)
  have "allocate_batch (int b) bsize s = Some (0, ?s4)"
    using st bs sz g3 f(2) by (simp add: allocate_batch_def calloc_ops_def empty_entry_def Let_def)
  moreover have "blocks ?s4 = blocks s @ [replicate (unat bsize) zero_op]" using f(2) by (simp add: calloc_ops_def)
  moreover have "same_msr s ?s4"
    by (rule same_msr_trans [OF f(1) same_msr_trans [OF same_msr_updates(1) same_msr_trans [OF same_msr_updates(3) same_msr_updates(1)]]])
  moreover have "batch_at b 0 (length (blocks s)) ?s4"
    using assms(1) bs2 g3 sz f(2)
    by (simp add: batch_at_def batch_unused_def) (simp add: put_entry_def calloc_ops_def empty_entry_def)
  ultimately show ?thesis by blast
qed

section \<open>Reading\<close>

text \<open>The batch's operations are reads, of processors that exist.\<close>

definition read_ops :: "topo \<Rightarrow> msr_batch_op list \<Rightarrow> bool" where
  "read_ops T ops \<longleftrightarrow> (\<forall>op \<in> set ops. op_isrdmsr op \<noteq> 0 \<and> unat (op_cpu op) < unat (nthreads T))"

lemma driver_batchD:
  assumes "driver_ok E" "drv_ioctl E R ops = (rc, ops', R')" "0 \<le> rc" "\<forall>op \<in> set ops. op_isrdmsr op \<noteq> 0"
  shows "ops' = map (batch_read_op R) ops \<and> R' = R"
  using assms unfolding driver_ok_def by blast

text \<open>The block after its first n operations have been read.\<close>

definition with_reads :: "nat \<Rightarrow> nat \<Rightarrow> 'a batch_state_scheme \<Rightarrow> msr_batch_op list list" where
  "with_reads blk n s =
    (blocks s)[blk := map (batch_read_op (registers s)) (take n (block blk s)) @ drop n (block blk s)]"

lemma read_batch_eq:
  assumes "batch_at b n blk s" "0 < n" "0 < batchfd s" "read_ops T (take n (block blk s))"
    "drv_ioctl E (registers s) (take n (block blk s)) = (rc, ops', R)"
  shows "read_batch E T (int b) s =
    (let s1 = s\<lparr>blocks := (blocks s)[blk := ops' @ drop n (block blk s)], registers := R\<rparr> in
      if rc < 0 then Some (rc, variorum_error_handler VARIORUM_ERROR_MSR_BATCH s1) else Some (0, s1))"
proof -
  have "take n (block blk s) ! 0 \<in> set (take n (block blk s))"
    using assms(1,2) by (intro nth_mem) (auto simp: batch_at_def)
  then have r0: "op_isrdmsr (block blk s ! 0) \<noteq> 0" using assms(2,4) by (auto simp: read_ops_def)
  have "be_numops (get_entry b s) \<noteq> 0" using assms(1,2) by (auto simp: batch_at_def)
  then show ?thesis
    using assms(1,3,5) r0
    by (auto simp: read_batch_def do_batch_op_def Let_def batch_storage_at [OF assms(1)] batch_at_def)
qed

lemma read_batch_kernel:
  assumes "driver_ok E" "batch_at b n blk s" "0 < n" "0 < batchfd s" "read_ops T (take n (block blk s))"
  shows "\<exists>rc s'. read_batch E T (int b) s = Some (rc, s') \<and> (rc = 0 \<longrightarrow>
    s' = s\<lparr>blocks := with_reads blk n s\<rparr>) \<and>
    (rc = 0 \<longleftrightarrow> 0 \<le> fst (drv_ioctl E (registers s) (take n (block blk s)))) \<and>
    (drv_ioctl E (registers s) (take n (block blk s)) = (-1, take n (block blk s), registers s) \<longrightarrow>
      s' = variorum_error_handler VARIORUM_ERROR_MSR_BATCH s)"
proof -
  obtain rc ops' R where io: "drv_ioctl E (registers s) (take n (block blk s)) = (rc, ops', R)"
    using prod_cases3 by blast
  note eq = read_batch_eq [OF assms(2-5) io]
  show ?thesis
  proof (cases "rc < 0")
    case True
    have "s\<lparr>blocks := blocks s, registers := registers s\<rparr> = s" by simp
    then show ?thesis using eq True io by (auto simp: Let_def)
  next
    case False
    have "ops' = map (batch_read_op (registers s)) (take n (block blk s)) \<and> R = registers s"
      by (rule driver_batchD [OF assms(1) io]) (use False assms(5) in \<open>auto simp: read_ops_def\<close>)
    then show ?thesis using eq False io by (simp add: Let_def with_reads_def)
  qed
qed

text \<open>The compatibility loop, when every read succeeds, does the same to the block.\<close>

lemma read_by_idx_ready:
  assumes "driver_ok E" "msr_ready T s" "c < unat (nthreads T)"
    "\<forall>p. path_cpu p = int c \<longrightarrow> drv_can_read E p m"
  shows "read_msr_by_idx E T (int c) m v s = Some (0, registers s (int c) m, s)"
proof -
  have ok: "core_ok T s" "init_core_fd s" using assms(2) by (simp_all add: msr_ready_def ready_upto_def)
  have u: "unsigned_of_int (int c) < nthreads T \<and> unat (unsigned_of_int (int c)) = c"
    using unsigned_of_int_less [of "int c" "nthreads T"] assms(3) by simp
  obtain fd p where fd: "file_descriptors s ! c = Some fd" "open_files s fd = Some p" "is_cpu_path p"
    "path_cpu p = int c"
    by (rule ready_fd [OF assms(2,3)])
  have "pread E fd m s = Some (registers s (int c) m)"
    using fd assms(4) by (simp add: pread_def drv_readD [OF assms(1)])
  then show ?thesis using u ok fd by (simp add: read_msr_by_idx_def core_fd_eq)
qed

definition can_read_ops :: "os_env \<Rightarrow> msr_batch_op list \<Rightarrow> bool" where
  "can_read_ops E ops \<longleftrightarrow>
     (\<forall>op \<in> set ops. \<forall>p. path_cpu p = int (unat (op_cpu op)) \<longrightarrow> drv_can_read E p (ucast (op_msr op)))"

definition read_range :: "regs \<Rightarrow> nat list \<Rightarrow> msr_batch_op list \<Rightarrow> msr_batch_op list" where
  "read_range R is blk = foldl (\<lambda>b i. b[i := batch_read_op R (b ! i)]) blk is"

lemma compat_loop_reads:
  assumes "driver_ok E" "msr_ready T s" "blk < length (blocks s)"
    "\<forall>i \<in> set is. i < length (block blk s) \<and> read_ops T [block blk s ! i] \<and> can_read_ops E [block blk s ! i]"
    "distinct is"
  shows "compat_loop E T BATCH_READ (Some blk) is s =
    Some (s\<lparr>blocks := (blocks s)[blk := read_range (registers s) is (block blk s)]\<rparr>)"
  using assms
proof (induction "is" arbitrary: s)
  case Nil
  then show ?case by (simp add: read_range_def)
next
  case (Cons i "is")
  let ?op = "block blk s ! i"
  have i: "i < length (block blk s)" "unat (op_cpu ?op) < unat (nthreads T)"
    "\<forall>p. path_cpu p = int (unat (op_cpu ?op)) \<longrightarrow> drv_can_read E p (ucast (op_msr ?op))"
    using Cons.prems(4) by (auto simp: read_ops_def can_read_ops_def)
  let ?s = "set_op blk i (batch_read_op (registers s) ?op) s"
  have rd: "read_msr_by_idx E T (int (unat (op_cpu ?op))) (ucast (op_msr ?op)) (op_msrdata ?op) s =
      Some (0, registers s (int (unat (op_cpu ?op))) (ucast (op_msr ?op)), s)"
    by (rule read_by_idx_ready [OF Cons.prems(1,2) i(2,3)])
  have "compat_loop E T BATCH_READ (Some blk) (i # is) s = compat_loop E T BATCH_READ (Some blk) is ?s"
    using i(1) rd by (simp add: Let_def batch_read_op_def)
  moreover have "block blk ?s ! j = block blk s ! j" if "j \<in> set is" for j
  proof -
    have "j \<noteq> i" using that Cons.prems(5) by auto
    then show ?thesis using Cons.prems(3) by (simp add: set_op_def)
  qed
  moreover have "msr_ready T ?s" "registers ?s = registers s"
    using same_msr_fields(1,2) [OF same_msr_updates(2) [of s blk i]] Cons.prems(2) by auto
  ultimately show ?case
    using Cons.IH [OF Cons.prems(1), of ?s] Cons.prems(3-5)
    by (simp add: read_range_def) (simp add: set_op_def)
qed

lemma read_range_upt:
  "n \<le> length blk \<Longrightarrow> read_range R [0..<n] blk = map (batch_read_op R) (take n blk) @ drop n blk"
proof (induction n)
  case 0
  then show ?case by (simp add: read_range_def)
next
  case (Suc n)
  then have n: "n < length blk" by simp
  have "read_range R [0..<Suc n] blk = (read_range R [0..<n] blk)[n := batch_read_op R (read_range R [0..<n] blk ! n)]"
    by (simp add: read_range_def)
  also have "\<dots> = map (batch_read_op R) (take (Suc n) blk) @ drop (Suc n) blk"
    using Suc n by (simp add: take_Suc_conv_app_nth list_update_append nth_append
        Cons_nth_drop_Suc [OF n, symmetric])
  finally show ?case .
qed

lemma read_batch_compat:
  assumes "driver_ok E" "msr_ready T s" "batch_at b n blk s" "batchfd s < 0"
    "read_ops T (take n (block blk s))" "can_read_ops E (take n (block blk s))" "n < 2 ^ 31"
  shows "read_batch E T (int b) s = Some (0, s\<lparr>blocks := with_reads blk n s\<rparr>)"
proof -
  have "sint (be_numops (get_entry b s)) = int n"
    using assms(3,7) sint_u32 by (auto simp: batch_at_def)
  then have ix: "op_indices (be_numops (get_entry b s)) = [0..<n]" by (simp add: op_indices_def)
  have n: "n \<le> length (block blk s)" "blk < length (blocks s)" "be_ops (get_entry b s) = Some blk"
    using assms(3) by (auto simp: batch_at_def)
  have each: "i < length (block blk s) \<and> read_ops T [block blk s ! i] \<and> can_read_ops E [block blk s ! i]"
    if "i < n" for i
  proof -
    have "block blk s ! i \<in> set (take n (block blk s))" using that n(1) by (auto simp: in_set_conv_nth)
    then show ?thesis using assms(5,6) that n(1) by (auto simp: read_ops_def can_read_ops_def)
  qed
  have "compat_loop E T BATCH_READ (Some blk) [0..<n] s =
    Some (s\<lparr>blocks := (blocks s)[blk := read_range (registers s) [0..<n] (block blk s)]\<rparr>)"
    by (rule compat_loop_reads [OF assms(1,2) n(2)]) (use each in auto)
  then show ?thesis
    using assms(4) n by (simp add: read_batch_def do_batch_op_def Let_def compatibility_batch_def
        batch_storage_at [OF assms(3)] ix read_range_upt with_reads_def)
qed

text \<open>The operations loaded for the sockets, and what reading them gives.\<close>

lemma socket_op_read:
  assumes "topo_fits T" "ops_added b n blk msr (socket_cpus T 0) s s'" "unat j < unat (nsockets T)"
    "unat (ncores T) \<le> 2 ^ 16" "unat msr < 2 ^ 32"
  shows "op_msrdata (batch_read_op R (block blk s' ! (n + unat j))) = R (int (unat (devidx T j 0 0))) msr"
    "op_isrdmsr (block blk s' ! (n + unat j)) = 1"
    "unat (op_cpu (block blk s' ! (n + unat j))) < unat (nthreads T)"
proof -
  have ok: "topo_ok T" using assms(1) by (simp add: topo_fits_def)
  obtain c t where C: "unat (ncores T) = unat (nsockets T) * c" and P: "unat (nthreads T) = unat (nsockets T) * c * t"
    and pos: "0 < unat (nsockets T)" "0 < c" "0 < t" and b: "unat (nsockets T) * c * t < 2 ^ 31"
    using topo_products [OF ok] by metis
  have v: "valid_coord T j 0 0" using assms(3) pos by (simp add: valid_coord_def C P)
  have dj: "unat (devidx T j 0 0) = unat j * c"
    using devidx_value(1) [OF assms(1) v refl C pos(1,2)] by simp
  have dl: "unat j * c < unat (nthreads T)"
    using devidx_less [OF assms(1) v] dj by simp
  have "unat j * c < unat (nsockets T) * c" using assms(3) pos by simp
  then have jc: "unat j * c < 2 ^ 16" using assms(4) C by linarith
  have "unat (of_nat (unat j * c) :: u64) = unat j * c" by (rule unat_of_nat_small) (use jc in simp)
  then have cpu: "unat (ucast (of_nat (unat j * c) :: u64) :: u16) = unat j * c"
    using unat_ucast_small [of "of_nat (unat j * c) :: u64", where 'b = 16] jc by simp
  have m: "ucast (ucast msr :: u32) = msr"
    by (rule word_unat_eq_iff [THEN iffD2])
      (use unat_ucast_small [of msr, where 'b = 32] assms(5) in simp)
  have f: "op_msrdata (batch_read_op R (new_op msr (of_nat (unat j * c)) op)) = R (int (unat j * c)) msr"
    "op_isrdmsr (new_op msr (of_nat (unat j * c)) op) = 1"
    "unat (op_cpu (new_op msr (of_nat (unat j * c)) op)) = unat j * c" for R op
  proof -
    define q :: u64 where "q = of_nat (unat j * c)"
    have "unat (ucast q :: u16) = unat j * c" unfolding q_def by (rule cpu)
    then have "op_msrdata (batch_read_op R (new_op msr q op)) = R (int (unat j * c)) msr"
      "op_isrdmsr (new_op msr q op) = 1" "unat (op_cpu (new_op msr q op)) = unat j * c"
      by (simp_all add: batch_read_op_def new_op_def m flip: \<open>unat (ucast q :: u16) = unat j * c\<close>)
    then show "op_msrdata (batch_read_op R (new_op msr (of_nat (unat j * c)) op)) = R (int (unat j * c)) msr"
      "op_isrdmsr (new_op msr (of_nat (unat j * c)) op) = 1"
      "unat (op_cpu (new_op msr (of_nat (unat j * c)) op)) = unat j * c"
      unfolding q_def by simp_all
  qed
  have len: "length (socket_cpus T 0) = unat (nsockets T)" by (simp add: socket_cpus_def)
  have "socket_cpus T 0 ! unat j = of_nat (unat j * c)"
    using assms(3) pos C by (simp add: socket_cpus_def)
  then have op: "block blk s' ! (n + unat j) = new_op msr (of_nat (unat j * c)) (block blk s ! (n + unat j))"
    using assms(2,3) len unfolding ops_added_def by metis
  show "op_msrdata (batch_read_op R (block blk s' ! (n + unat j))) = R (int (unat (devidx T j 0 0))) msr"
    unfolding op dj by (rule f(1))
  show "op_isrdmsr (block blk s' ! (n + unat j)) = 1"
    "unat (op_cpu (block blk s' ! (n + unat j))) < unat (nthreads T)"
    unfolding op f(2,3) using dl by simp_all
qed

section \<open>Properties\<close>

text \<open>
  C18: the two ways of reading a batch agree. Whenever the kernel carries the batch out, the
  fallback loop of single reads, on a ready table and with permission for each register,
  returns 0 too and leaves the same results in the same places.
\<close>

theorem batch_reads_agree:
  assumes "driver_ok E" "msr_ready T s" "batch_at b n blk s" "0 < n" "n < 2 ^ 31"
    "read_ops T (take n (block blk s))" "can_read_ops E (take n (block blk s))"
    "batchfd s < 0" "0 < fd" "read_batch E T (int b) (s\<lparr>batchfd := fd\<rparr>) = Some (0, s1)"
  shows "\<exists>s2. read_batch E T (int b) s = Some (0, s2) \<and> blocks s2 = blocks s1 \<and> registers s2 = registers s1"
proof -
  have at: "batch_at b n blk (s\<lparr>batchfd := fd\<rparr>)" using assms(3) by (simp add: batch_at_def get_entry_def)
  obtain rc s' where "read_batch E T (int b) (s\<lparr>batchfd := fd\<rparr>) = Some (rc, s')"
    "rc = 0 \<longrightarrow> s' = s\<lparr>batchfd := fd, blocks := with_reads blk n (s\<lparr>batchfd := fd\<rparr>)\<rparr>"
    using read_batch_kernel [OF assms(1) at assms(4), of T] assms(6,9) by auto
  then have "blocks s1 = with_reads blk n s" "registers s1 = registers s"
    using assms(10) by (auto simp: with_reads_def)
  then show ?thesis
    using read_batch_compat [OF assms(1,2,3,8,6,7,5)] by auto
qed

definition batch_init :: "int \<Rightarrow> batch_state" where
  "batch_init fd = msr_state.extend ready_state
     \<lparr>batches = None, blocks = [], batchfd = fd, \<dots> = ()\<rparr>"

text \<open>A batch of one read, of the energy status register of processor 2.\<close>

definition one_read :: msr_batch_op where
  "one_read = zero_op\<lparr>op_cpu := 2, op_isrdmsr := 1, op_msr := 0x611\<rparr>"

definition loaded_state :: "int \<Rightarrow> batch_state" where
  "loaded_state fd = (batch_init fd)\<lparr>batches := Some [\<lparr>be_numops = 1, be_ops = Some 0, be_size = 1\<rparr>],
     blocks := [[one_read]]\<rparr>"

lemma loaded_at: "batch_at 0 1 0 (loaded_state fd)"
  by (simp add: batch_at_def loaded_state_def get_entry_def)

lemma loaded_ready: "msr_ready small_topo (loaded_state fd)"
  using ready_state_ready
  by (simp add: loaded_state_def batch_init_def msr_ready_def ready_upto_def core_ok_def fd_on_cpu_def
      msr_state.defs)

theorem batch_reads_agree_witness:
  "\<exists>s1 s2. read_batch good_env small_topo 0 (loaded_state 7) = Some (0, s1) \<and>
     read_batch good_env small_topo 0 (loaded_state (-1)) = Some (0, s2) \<and> blocks s2 = blocks s1"
proof -
  have ops: "read_ops small_topo (take 1 (block 0 (loaded_state fd)))"
    "can_read_ops good_env (take 1 (block 0 (loaded_state fd)))" for fd
    by (simp_all add: loaded_state_def read_ops_def can_read_ops_def one_read_def small_topo_def good_env_def)
  have s7: "(loaded_state (-1))\<lparr>batchfd := 7\<rparr> = loaded_state 7"
    by (simp add: loaded_state_def batch_init_def msr_state.defs)
  obtain s1 where r: "read_batch good_env small_topo 0 (loaded_state 7) = Some (0, s1)"
    by (simp add: read_batch_def do_batch_op_def loaded_state_def batch_init_def batch_storage_def
        get_entry_def good_env_def msr_state.defs one_read_def)
  have bf: "batchfd (loaded_state (-1)) < 0" by (simp add: loaded_state_def batch_init_def msr_state.defs)
  have "\<exists>s2. read_batch good_env small_topo (int 0) (loaded_state (-1)) = Some (0, s2) \<and>
      blocks s2 = blocks s1 \<and> registers s2 = registers s1"
    by (rule batch_reads_agree [OF driver_ok_good_env loaded_ready loaded_at _ _ ops bf, of 7])
      (use r s7 in simp_all)
  with r show ?thesis by auto
qed

text \<open>
  The whole sequence: allocate, load for every socket, read. When the driver refuses the batch
  and leaves the operations alone, the destinations hold the zeros of calloc.
\<close>

lemma socket_batch_loaded:
  assumes "topo_fits T" "batch_unused b s"
    "unat bsize < 2 ^ 32" "unat (nsockets T) \<le> unat bsize" "unat (nsockets T) \<le> length val"
    "unat (ncores T) \<le> 2 ^ 16" "unat msr < 2 ^ 32" "blk = length (blocks s)"
  shows "\<exists>s1 s2. allocate_batch (int b) bsize s = Some (0, s1) \<and> same_msr s s1 \<and>
    blocks s1 = blocks s @ [replicate (unat bsize) zero_op] \<and>
    load_socket_batch T msr (Some val) (int b) s1 = Some (0, Some (socket_dests T blk 0 0 val), s2) \<and>
    ops_added b 0 blk msr (socket_cpus T 0) s1 s2 \<and> batch_at b (unat (nsockets T)) blk s2 \<and> same_msr s s2 \<and>
    read_ops T (take (unat (nsockets T)) (block blk s2))"
proof -
  have ok: "topo_ok T" using assms(1) by (simp add: topo_fits_def)
  let ?S = "unat (nsockets T)"
  obtain s1 where s1: "allocate_batch (int b) bsize s = Some (0, s1)" "batch_at b 0 blk s1"
    "same_msr s s1" "blocks s1 = blocks s @ [replicate (unat bsize) zero_op]"
    using allocate_batch_unused [OF assms(2,3)] assms(8) by blast
  obtain s2 where s2: "load_socket_batch T msr (Some val) (int b) s1 =
      Some (0, Some (socket_dests T blk 0 0 val), s2)" "ops_added b 0 blk msr (socket_cpus T 0) s1 s2"
    using load_socket_batch_at [OF ok s1(2), of val msr] s1(4) assms(4,5,8) by auto
  have at: "batch_at b ?S blk s2" and sm: "same_msr s s2"
    using s2(2) same_msr_trans [OF s1(3)] by (auto simp: ops_added_def socket_cpus_def)
  have len: "?S \<le> length (block blk s2)" using at by (simp add: batch_at_def)
  note op = socket_op_read [OF assms(1) s2(2) _ assms(6,7)]
  have "op_isrdmsr (block blk s2 ! i) \<noteq> 0 \<and> unat (op_cpu (block blk s2 ! i)) < unat (nthreads T)" if "i < ?S" for i
  proof -
    have "unat (of_nat i :: u32) = i"
      by (rule unat_of_nat_small) (use that unat_u32 [of "nsockets T"] in simp)
    then show ?thesis using op(2,3) [of "of_nat i"] that by simp
  qed
  then have "read_ops T (take ?S (block blk s2))" using len by (auto simp: read_ops_def in_set_conv_nth)
  then show ?thesis using s1 s2 at sm by blast
qed

text \<open>Once the block has been read, the destinations hold the registers.\<close>

lemma socket_dests_read:
  assumes "topo_fits T" "ops_added b 0 blk msr (socket_cpus T 0) s1 s2" "batch_at b (unat (nsockets T)) blk s2"
    "unat (nsockets T) \<le> length val" "unat (ncores T) \<le> 2 ^ 16" "unat msr < 2 ^ 32"
    "blocks s3 = with_reads blk (unat (nsockets T)) s2" "unat j < unat (nsockets T)"
  shows "\<exists>p. socket_dests T blk 0 0 val ! unat j = Some p \<and> fst p < length (blocks s3) \<and>
    snd p < length (block (fst p) s3) \<and> deref_dest s3 p = registers s2 (int (unat (devidx T j 0 0))) msr"
proof -
  have blk: "blk < length (blocks s2)" and len: "unat (nsockets T) \<le> length (block blk s2)"
    using assms(3) by (simp_all add: batch_at_def)
  have "block blk s3 ! unat j = batch_read_op (registers s2) (block blk s2 ! unat j)"
    using assms(7,8) blk len by (simp add: with_reads_def nth_append)
  then have "deref_dest s3 (blk, unat j) = registers s2 (int (unat (devidx T j 0 0))) msr"
    using socket_op_read(1) [OF assms(1,2,8,5,6), of "registers s2"] by (simp add: deref_dest_def)
  moreover have "blk < length (blocks s3)" "unat (nsockets T) \<le> length (block blk s3)"
    using assms(7) blk len by (simp_all add: with_reads_def)
  moreover have "socket_dests T blk 0 0 val ! unat j = Some (blk, unat j)"
    using assms(8) by (simp add: socket_dests_def nth_append)
  ultimately show ?thesis using assms(8) by (intro exI [of _ "(blk, unat j)"]) simp
qed

lemma socket_batch_read:
  assumes "topo_fits T" "driver_ok E" "batch_unused b s" "0 < batchfd s"
    "unat bsize < 2 ^ 32" "unat (nsockets T) \<le> unat bsize" "unat (nsockets T) \<le> length val"
    "unat (ncores T) \<le> 2 ^ 16" "unat msr < 2 ^ 32"
  shows "\<exists>s1 s2 val' rc s3. allocate_batch (int b) bsize s = Some (0, s1) \<and>
    load_socket_batch T msr (Some val) (int b) s1 = Some (0, Some val', s2) \<and>
    read_batch E T (int b) s2 = Some (rc, s3) \<and> same_msr s s1 \<and> same_msr s s2 \<and> length val' = length val \<and>
    batch_at b (unat (nsockets T)) (length (blocks s)) s2 \<and>
    read_ops T (take (unat (nsockets T)) (block (length (blocks s)) s2)) \<and>
    (rc = 0 \<longrightarrow> same_msr s s3 \<and>
      (\<forall>j. unat j < unat (nsockets T) \<longrightarrow> (\<exists>p. val' ! unat j = Some p \<and>
        fst p < length (blocks s3) \<and> snd p < length (block (fst p) s3) \<and>
        deref_dest s3 p = registers s (int (unat (devidx T j 0 0))) msr))) \<and>
    ((\<forall>R ops. 0 \<le> fst (drv_ioctl E R ops)) \<longrightarrow> rc = 0) \<and>
    ((\<forall>R ops. drv_ioctl E R ops = (-1, ops, R)) \<longrightarrow>
      same_msr (variorum_error_handler VARIORUM_ERROR_MSR_BATCH s) s3 \<and>
      (\<forall>j :: u32. unat j < unat (nsockets T) \<longrightarrow> (\<exists>p. val' ! unat j = Some p \<and>
        fst p < length (blocks s3) \<and> snd p < length (block (fst p) s3) \<and> deref_dest s3 p = 0)))"
proof -
  have S: "0 < unat (nsockets T)" using assms(1) by (simp add: topo_fits_def topo_ok_def)
  let ?S = "unat (nsockets T)" and ?blk = "length (blocks s)"
  obtain s1 s2 where s1: "allocate_batch (int b) bsize s = Some (0, s1)" "same_msr s s1"
    "blocks s1 = blocks s @ [replicate (unat bsize) zero_op]"
    and s2: "load_socket_batch T msr (Some val) (int b) s1 = Some (0, Some (socket_dests T ?blk 0 0 val), s2)"
      "ops_added b 0 ?blk msr (socket_cpus T 0) s1 s2"
    and at: "batch_at b ?S ?blk s2" and sm: "same_msr s s2" and ro: "read_ops T (take ?S (block ?blk s2))"
    using socket_batch_loaded [OF assms(1,3,5-9) refl] by blast
  have "0 < batchfd s2" using sm assms(4) by (simp add: same_msr_def)
  with ro obtain rc s3 where s3: "read_batch E T (int b) s2 = Some (rc, s3)"
    "rc = 0 \<longrightarrow> s3 = s2\<lparr>blocks := with_reads ?blk ?S s2\<rparr>"
    "rc = 0 \<longleftrightarrow> 0 \<le> fst (drv_ioctl E (registers s2) (take ?S (block ?blk s2)))"
    "drv_ioctl E (registers s2) (take ?S (block ?blk s2)) = (-1, take ?S (block ?blk s2), registers s2) \<longrightarrow>
      s3 = variorum_error_handler VARIORUM_ERROR_MSR_BATCH s2"
    using read_batch_kernel [OF assms(2) at S, of T] by auto
  have blk: "?blk < length (blocks s2)" and len: "?S \<le> length (block ?blk s2)" using at by (simp_all add: batch_at_def)
  have ss: "same_msr s s3" if "rc = 0"
    using s3(2) that sm by (simp add: same_msr_def msr_state.defs)
  have "\<exists>p. socket_dests T ?blk 0 0 val ! unat j = Some p \<and> fst p < length (blocks s3) \<and>
      snd p < length (block (fst p) s3) \<and> deref_dest s3 p = registers s (int (unat (devidx T j 0 0))) msr"
    if "rc = 0" "unat j < ?S" for j
    using socket_dests_read [OF assms(1) s2(2) at assms(7-9) _ that(2), of s3] s3(2) that(1) same_msr_fields(1) [OF sm] by simp
  moreover have "length (socket_dests T ?blk 0 0 val) = length val"
    using assms(7) by (simp add: socket_dests_def)
  moreover have "(\<forall>R ops. 0 \<le> fst (drv_ioctl E R ops)) \<longrightarrow> rc = 0" using s3(3) by blast
  moreover have "same_msr (variorum_error_handler VARIORUM_ERROR_MSR_BATCH s) s3 \<and>
      (\<forall>j :: u32. unat j < ?S \<longrightarrow> (\<exists>p. socket_dests T ?blk 0 0 val ! unat j = Some p \<and>
        fst p < length (blocks s3) \<and> snd p < length (block (fst p) s3) \<and> deref_dest s3 p = 0))"
    if f: "\<forall>R ops. drv_ioctl E R ops = (-1, ops, R)"
  proof -
    have eq: "s3 = variorum_error_handler VARIORUM_ERROR_MSR_BATCH s2" using s3(4) f by blast
    have "same_msr (variorum_error_handler VARIORUM_ERROR_MSR_BATCH s) s3"
      unfolding eq using sm by (rule same_msr_handler)
    moreover have "op_msrdata (block ?blk s2 ! unat j) = 0" if "unat j < ?S" for j :: u32
      using s2(2) s1(3) assms(6) that by (simp add: ops_added_def socket_cpus_def new_op_def zero_op_def)
    moreover have "\<exists>p. socket_dests T ?blk 0 0 val ! unat j = Some p \<and> fst p < length (blocks s3) \<and>
        snd p < length (block (fst p) s3) \<and> deref_dest s3 p = 0" if "unat j < ?S" for j :: u32
      using \<open>unat j < ?S \<Longrightarrow> op_msrdata (block ?blk s2 ! unat j) = 0\<close> that blk len
      by (intro exI [of _ "(?blk, unat j)"]) (simp add: eq deref_dest_def socket_dests_def nth_append)
    ultimately show ?thesis by blast
  qed
  ultimately show ?thesis using s1(1,2) s2(1) s3(1) sm ss at ro
    by (intro exI [of _ s1] exI [of _ s2] exI [of _ "socket_dests T ?blk 0 0 val"] exI [of _ rc] exI [of _ s3]) blast
qed

text \<open>The first use of the interface opens the batch device, or settles for the fallback.\<close>

definition batch_tried :: "os_env \<Rightarrow> 'a batch_state_scheme \<Rightarrow> 'a batch_state_scheme" where
  "batch_tried E s =
    (if batchfd s = 0 then let (fd, s) = os_open E Batch_path s in s\<lparr>batchfd := (if fd < 0 then -1 else fd)\<rparr> else s)"

lemma batch_tried_facts:
  assumes "0 < next_fd s"
  shows "read_batch E T b s = read_batch E T b (batch_tried E s)" "batchfd (batch_tried E s) \<noteq> 0"
    "registers (batch_tried E s) = registers s" "blocks (batch_tried E s) = blocks s"
    "batch_at b' n blk (batch_tried E s) = batch_at b' n blk s"
    "msr_ready T s \<Longrightarrow> fds_fresh s \<Longrightarrow> msr_ready T (batch_tried E s)"
proof -
  let ?t = "batch_tried E s"
  show nz: "batchfd ?t \<noteq> 0" using assms by (auto simp: batch_tried_def os_open_def Let_def)
  have "(if batchfd s = 0 then let (fd, s) = os_open E Batch_path s in s\<lparr>batchfd := (if fd < 0 then -1 else fd)\<rparr> else s) = ?t"
    by (simp only: batch_tried_def)
  then show "read_batch E T b s = read_batch E T b ?t"
    unfolding read_batch_def do_batch_op_def using nz by (simp only: if_False Let_def)
  show "registers ?t = registers s" "blocks ?t = blocks s" "batch_at b' n blk ?t = batch_at b' n blk s"
    by (simp_all add: batch_tried_def os_open_def Let_def batch_at_def get_entry_def)
  assume r: "msr_ready T s" "fds_fresh s"
  have "fd_on_cpu ?t i" if "fd_on_cpu s i" for i
  proof -
    obtain fd p where fd: "file_descriptors s ! i = Some fd" "open_files s fd = Some p" "is_cpu_path p" "path_cpu p = int i"
      using \<open>fd_on_cpu s i\<close> by (auto simp: fd_on_cpu_def)
    then have "fd \<noteq> next_fd s" using r(2) by (auto simp: fds_fresh_def)
    then show ?thesis unfolding fd_on_cpu_def
      by (intro exI [of _ fd] exI [of _ p]) (use fd in \<open>simp add: batch_tried_def os_open_def Let_def\<close>)
  qed
  then show "msr_ready T ?t"
    using r(1) by (auto simp: msr_ready_def ready_upto_def core_ok_def batch_tried_def os_open_def Let_def)
qed

text \<open>
  C21: a batch loaded for every socket delivers the right registers, through the batch device and through the fallback. For a batch
  number not used before and room for one operation per socket, allocating, loading and reading never go wrong, and when
  the read returns 0 destination j holds the register of the first hardware thread of the first core of socket j, and no register
  has changed. With the batch device open the read returns 0 exactly when the ioctl succeeds; without it, or
  before the first use of the interface, which tries to open it, this needs a ready descriptor table, the open-file table as the operating system
  keeps it, and permission to read the register, since the fallback returns 0 even when a
  read is refused. The processor numbers have to fit the 16 bits of an operation and the address its 32 bits.
\<close>

theorem socket_batch_delivers:
  assumes "topo_fits T" "driver_ok E" "batch_unused b s"
    "0 < batchfd s \<or> msr_ready T s \<and> fds_fresh s \<and> 0 < next_fd s \<and> (\<forall>p. drv_can_read E p msr)"
    "unat bsize < 2 ^ 32" "unat (nsockets T) \<le> unat bsize" "unat (nsockets T) \<le> length val"
    "unat (ncores T) \<le> 2 ^ 16" "unat msr < 2 ^ 32"
  shows "\<exists>s1 s2 val' rc s3. allocate_batch (int b) bsize s = Some (0, s1) \<and>
    load_socket_batch T msr (Some val) (int b) s1 = Some (0, Some val', s2) \<and>
    read_batch E T (int b) s2 = Some (rc, s3) \<and>
    (0 < batchfd s \<longrightarrow> (rc = 0 \<longleftrightarrow> 0 \<le> fst (drv_ioctl E (registers s) (take (unat (nsockets T)) (last (blocks s2)))))) \<and>
    (batchfd s < 0 \<longrightarrow> rc = 0) \<and>
    (rc = 0 \<longrightarrow> registers s3 = registers s \<and>
      (\<forall>j. unat j < unat (nsockets T) \<longrightarrow> (\<exists>p. val' ! unat j = Some p \<and>
        deref_dest s3 p = registers s (int (unat (devidx T j 0 0))) msr)))"
proof -
  have S: "0 < unat (nsockets T)" using assms(1) by (simp add: topo_fits_def topo_ok_def)
  let ?S = "unat (nsockets T)" and ?blk = "length (blocks s)"
  obtain s1 s2 where s1: "allocate_batch (int b) bsize s = Some (0, s1)" "blocks s1 = blocks s @ [replicate (unat bsize) zero_op]"
    and s2: "load_socket_batch T msr (Some val) (int b) s1 = Some (0, Some (socket_dests T ?blk 0 0 val), s2)"
      "ops_added b 0 ?blk msr (socket_cpus T 0) s1 s2"
    and at: "batch_at b ?S ?blk s2" and sm: "same_msr s s2" and ro: "read_ops T (take ?S (block ?blk s2))"
    using socket_batch_loaded [OF assms(1,3,5-9) refl] by blast
  have f: "batchfd s2 = batchfd s" "next_fd s2 = next_fd s" "fds_fresh s2 = fds_fresh s"
    using sm by (auto simp: same_msr_def msr_state.defs fds_fresh_def)
  obtain t where t: "read_batch E T (int b) s2 = read_batch E T (int b) t" "registers t = registers s2" "blocks t = blocks s2"
    "batch_at b ?S ?blk t" "0 < batchfd t \<or> batchfd t < 0 \<and> msr_ready T t \<and> (\<forall>p. drv_can_read E p msr)"
    "0 < batchfd s \<longrightarrow> t = s2" "batchfd s < 0 \<longrightarrow> batchfd t < 0"
  proof (cases "0 < batchfd s")
    case True
    then show ?thesis using that [of s2] at f(1) by simp
  next
    case False
    then have h: "msr_ready T s2" "fds_fresh s2" "0 < next_fd s2" "\<forall>p. drv_can_read E p msr"
      using assms(4) f same_msr_fields(2) [OF sm] by auto
    note b = batch_tried_facts [OF h(3)]
    have n: "batchfd s < 0 \<longrightarrow> batchfd (batch_tried E s2) < 0" using f(1) by (simp add: batch_tried_def)
    have r: "msr_ready T (batch_tried E s2)" using b(6) [OF h(1,2)] .
    have z: "0 < batchfd (batch_tried E s2) \<or> batchfd (batch_tried E s2) < 0" using b(2) [of E] by linarith
    show ?thesis
      by (rule that [of "batch_tried E s2"]) (use b(1,3,4,5) r h(4) at False n z in auto)
  qed
  have len: "?S \<le> length (block ?blk s2)" using at by (simp add: batch_at_def)
  have "length (blocks s2) = Suc ?blk" using s2(2) s1(2) by (simp add: ops_added_def)
  then have last: "last (blocks s2) = block ?blk s2" by (metis diff_Suc_1 last_conv_nth length_0_conv nat.distinct(1))
  have ro': "read_ops T (take ?S (block ?blk t))" using ro t(3) by simp
  have w: "with_reads ?blk ?S t = with_reads ?blk ?S s2" using t(2,3) by (simp add: with_reads_def)
  obtain rc s3 where s3: "read_batch E T (int b) s2 = Some (rc, s3)" "rc = 0 \<longrightarrow> s3 = t\<lparr>blocks := with_reads ?blk ?S t\<rparr>"
    "0 < batchfd t \<longrightarrow> (rc = 0 \<longleftrightarrow> 0 \<le> fst (drv_ioctl E (registers t) (take ?S (block ?blk t))))" "batchfd t < 0 \<longrightarrow> rc = 0"
  proof (cases "0 < batchfd t")
    case True
    obtain rc s3 where "read_batch E T (int b) t = Some (rc, s3)" "rc = 0 \<longrightarrow> s3 = t\<lparr>blocks := with_reads ?blk ?S t\<rparr>"
      "rc = 0 \<longleftrightarrow> 0 \<le> fst (drv_ioctl E (registers t) (take ?S (block ?blk t)))"
      using read_batch_kernel [OF assms(2) t(4) S True ro'] by blast
    then show ?thesis using that t(1) True by simp
  next
    case False
    then have h: "batchfd t < 0" "msr_ready T t" "\<forall>p. drv_can_read E p msr" using t(5) by auto
    have m: "ucast (ucast msr :: u32) = msr"
      by (rule word_unat_eq_iff [THEN iffD2])
        (use unat_ucast_small [of msr, where 'b = 32] assms(9) in simp)
    have "op_msr (block ?blk s2 ! i) = ucast msr" if "i < ?S" for i
      using s2(2) that by (simp add: ops_added_def socket_cpus_def new_op_def)
    then have "can_read_ops E (take ?S (block ?blk t))"
      using h(3) m t(3) by (auto simp: can_read_ops_def in_set_conv_nth)
    moreover have "?S < 2 ^ 31"
    proof -
      have ok: "topo_ok T" using assms(1) by (simp add: topo_fits_def)
      obtain c d where c: "?S * c * d < 2 ^ 31" "0 < c" "0 < d" using topo_products [OF ok] by metis
      then have "1 \<le> c * d" by (simp add: Suc_leI)
      then have "?S \<le> ?S * c * d" using mult_le_mono2 [of 1 "c * d" ?S] by (simp add: mult.assoc)
      then show ?thesis using c(1) by linarith
    qed
    ultimately show ?thesis
      using read_batch_compat [OF assms(2) h(2) t(4) h(1) ro'] that t(1) False by simp
  qed
  have "\<exists>p. socket_dests T ?blk 0 0 val ! unat j = Some p \<and>
      deref_dest s3 p = registers s (int (unat (devidx T j 0 0))) msr" if "rc = 0" "unat j < ?S" for j
    using socket_dests_read [OF assms(1) s2(2) at assms(7-9) _ that(2), of s3] s3(2) that(1) w same_msr_fields(1) [OF sm] by auto
  moreover have "registers s3 = registers s" if "rc = 0" using s3(2) that t(2) same_msr_fields(1) [OF sm] by simp
  moreover have "0 < batchfd s \<longrightarrow> (rc = 0 \<longleftrightarrow> 0 \<le> fst (drv_ioctl E (registers s) (take ?S (last (blocks s2)))))"
    using s3(3) t(6) f(1) same_msr_fields(1) [OF sm] last by auto
  moreover have "batchfd s < 0 \<longrightarrow> rc = 0" using s3(4) t(7) by simp
  ultimately show ?thesis using s1(1) s2(1) s3(1)
    by (intro exI [of _ s1] exI [of _ s2] exI [of _ "socket_dests T ?blk 0 0 val"] exI [of _ rc] exI [of _ s3]) blast
qed

text \<open>The fallback on two sockets whose processors hold different values.\<close>

theorem socket_batch_delivers_witness:
  "\<exists>s1 s2 val' s3 p. allocate_batch 0 2 ((batch_init (-1))\<lparr>registers := \<lambda>c m. if c = 2 then 77 else 5\<rparr>) = Some (0, s1) \<and>
    load_socket_batch small_topo 0x611 (Some [None, None]) 0 s1 = Some (0, Some val', s2) \<and>
    read_batch good_env small_topo 0 s2 = Some (0, s3) \<and> val' ! 1 = Some p \<and> deref_dest s3 p = 77"
proof -
  let ?s = "(batch_init (-1))\<lparr>registers := \<lambda>c m. if c = 2 then 77 else 5\<rparr>"
  have u: "batch_unused 0 ?s" "batchfd ?s < 0"
    by (simp_all add: batch_unused_def batch_init_def msr_state.defs)
  have "msr_ready small_topo ?s"
    using ready_state_ready by (simp add: batch_init_def msr_ready_def ready_upto_def core_ok_def fd_on_cpu_def msr_state.defs)
  moreover have "fds_fresh ?s" "0 < next_fd ?s"
    by (auto simp: fds_fresh_def batch_init_def msr_state.defs ready_state_def)
  moreover have "\<forall>p. drv_can_read good_env p 0x611" by (simp add: good_env_def)
  ultimately have m: "0 < batchfd ?s \<or> msr_ready small_topo ?s \<and> fds_fresh ?s \<and> 0 < next_fd ?s \<and> (\<forall>p. drv_can_read good_env p 0x611)"
    by blast
  have n: "unat (2 :: u64) < 2 ^ 32" "unat (nsockets small_topo) \<le> unat (2 :: u64)" "unat (nsockets small_topo) \<le> length [None, None :: batch_ptr option]"
    "unat (ncores small_topo) \<le> 2 ^ 16" "unat (0x611 :: u64) < 2 ^ 32" by (simp_all add: small_topo_def)
  from socket_batch_delivers [OF small_topo_ok(1) driver_ok_good_env u(1) m n] u(2)
  obtain s1 s2 val' s3 where r: "allocate_batch (int 0) 2 ?s = Some (0, s1)"
    "load_socket_batch small_topo 0x611 (Some [None, None]) (int 0) s1 = Some (0, Some val', s2)"
    "read_batch good_env small_topo (int 0) s2 = Some (0, s3)"
    "\<And>j. unat j < unat (nsockets small_topo) \<Longrightarrow> \<exists>p. val' ! unat j = Some p \<and>
      deref_dest s3 p = registers ?s (int (unat (devidx small_topo j 0 0))) 0x611" by blast
  have d: "devidx small_topo 1 0 0 = 2" by (simp add: devidx_def small_topo_def)
  obtain p where "val' ! 1 = Some p" "deref_dest s3 p = 77"
    using r(4) [of 1] d by (auto simp: small_topo_def)
  with r(1-3) show ?thesis by (intro exI [of _ s1] exI [of _ s2] exI [of _ val'] exI [of _ s3] exI [of _ p]) simp
qed

text \<open>
  C39: the test for a full batch is off by one. As long as there is room an operation is
  appended in bounds and the others keep their places; but when the batch is exactly full,
  create_batch_op does not report it and writes past the end of the block instead.
\<close>

theorem create_batch_op_bounds:
  assumes "batch_at b n blk s"
  shows "(n < length (block blk s) \<longrightarrow>
      (\<exists>s'. create_batch_op msr cpu (int b) s = Some (0, Some (blk, n), s') \<and>
         batch_at b (Suc n) blk s' \<and> block blk s' ! n = new_op msr cpu (block blk s ! n) \<and>
         (\<forall>i. i \<noteq> n \<longrightarrow> block blk s' ! i = block blk s ! i))) \<and>
    (n = length (block blk s) \<longrightarrow> create_batch_op msr cpu (int b) s = None)"
proof (intro conjI impI)
  assume "n < length (block blk s)"
  then obtain s' where "create_batch_op msr cpu (int b) s = Some (0, Some (blk, n), s')"
    "ops_added b n blk msr [cpu] s s'" using create_batch_op_at [OF assms] by blast
  then show "\<exists>s'. create_batch_op msr cpu (int b) s = Some (0, Some (blk, n), s') \<and>
      batch_at b (Suc n) blk s' \<and> block blk s' ! n = new_op msr cpu (block blk s ! n) \<and>
      (\<forall>i. i \<noteq> n \<longrightarrow> block blk s' ! i = block blk s ! i)"
    by (intro exI [of _ s']) (auto simp: ops_added_def nat_neq_iff Suc_le_eq)
next
  assume "n = length (block blk s)"
  then show "create_batch_op msr cpu (int b) s = None" by (rule create_batch_op_full [OF assms])
qed

theorem create_batch_op_bounds_witness:
  "create_batch_op 0x611 0 0 (loaded_state 7) = None"
  using create_batch_op_bounds [OF loaded_at, of 7 "0x611" 0] by (simp add: loaded_state_def)

text \<open>
  Allocating a batch that already has operations is not refused. The conflict is reported,
  yet allocate_batch returns 0 and installs a new block while the number of operations stays:
  the old destination pointers now point into a block nobody reads into any more, and when the
  new block is no longer than that number the next create_batch_op overruns it.
\<close>

theorem reallocate_keeps_numops:
  assumes "batch_at b n blk s" "unat bsize < 2 ^ 32"
  shows "\<exists>s'. allocate_batch (int b) bsize s = Some (0, s') \<and>
    elog s' = elog s @ [VARIORUM_ERROR_MSR_BATCH] \<and>
    unat (be_numops (get_entry b s')) = n \<and> be_ops (get_entry b s') = Some (length (blocks s)) \<and>
    blocks s' = blocks s @ [replicate (unat bsize) zero_op] \<and>
    (unat bsize = n \<longrightarrow> create_batch_op msr cpu (int b) s' = None)"
proof -
  have sz: "unat (ucast bsize :: u32) = unat bsize" by (rule unat_ucast_small) (use assms(2) in simp)
  let ?e = "(get_entry b s)\<lparr>be_size := ucast bsize\<rparr>"
  let ?s1 = "variorum_error_handler VARIORUM_ERROR_MSR_BATCH (put_entry b ?e s)"
  let ?s2 = "?s1\<lparr>blocks := blocks s @ [replicate (unat bsize) zero_op]\<rparr>"
  let ?s' = "put_entry b (?e\<lparr>be_ops := Some (length (blocks s))\<rparr>) ?s2"
  have b: "batches s \<noteq> None" "b < length (the (batches s))" "be_ops (get_entry b s) = Some blk"
    using assms(1) by (auto simp: batch_at_def)
  have bs: "batches ?s2 = Some ((the (batches s))[b := ?e])" by (simp add: put_entry_batches)
  then have g: "get_entry b ?s1 = ?e" "get_entry b ?s2 = ?e" using b by (simp_all add: get_entry_def)
  have eq: "allocate_batch (int b) bsize s = Some (0, ?s')"
    using b g(1) sz get_put_entry(1) [OF b(1,2), of ?e]
    by (simp add: allocate_batch_def batch_storage_at [OF assms(1)] calloc_ops_def Let_def)
      (simp add: put_entry_def get_entry_def variorum_error_handler_def)
  have g': "get_entry b ?s' = ?e\<lparr>be_ops := Some (length (blocks s))\<rparr>"
    by (rule get_put_entry(1)) (use bs b in simp_all)
  have "create_batch_op msr cpu (int b) ?s' = None" if "unat bsize = n"
  proof -
    have "batch_at b n (length (blocks s)) ?s'"
      using assms(1) that g' sz b by (simp add: batch_at_def put_entry_batches)
    then show ?thesis by (rule create_batch_op_full) (use that sz in simp_all)
  qed
  then show ?thesis using eq g' assms(1)
    by (auto simp: batch_at_def) (simp add: put_entry_def)
qed

theorem reallocate_keeps_numops_witness:
  "\<exists>s'. allocate_batch 0 1 (loaded_state 7) = Some (0, s') \<and> elog s' = [VARIORUM_ERROR_MSR_BATCH] \<and>
     create_batch_op 0x611 0 0 s' = None"
  using reallocate_keeps_numops [OF loaded_at, of 1 7 "0x611" 0]
  by (auto simp: loaded_state_def batch_init_def msr_state.defs ready_state_def msr_init_def)

end
