(* ===== verification/Vendor_Config.thy ===== *)
theory Vendor_Config imports Msr_Batch_Facts begin

text \<open>
  The vendors' configuration files (config_intel.c, config_ibm.c, config_amd.c, config_arm.c,
  config_nvidia.c, config_amd_gpu.c, config_intel_gpu.c): how each detects its architecture and
  which feature functions it installs, and the library sessions their set-up opens.

  What comes from outside the library is collected in \<open>sys_env\<close>: the operating system and the
  MSR drivers, hwloc, the cpuid instruction, the sysfs files with the ARM core ids, and the
  results of the NVML, E-SMI and APMIDG calls. Calls of those libraries that open or close a
  session are recorded in the order they are made (\<open>ext_calls\<close>).
\<close>

section \<open>The system\<close>

record sys_env =
  sys_os :: os_env
  sys_hw :: hwloc
  sys_log :: bool \<comment> \<open>VARIORUM_LOG is 1\<close>
  sys_cpuid_rax :: u64 \<comment> \<open>eax of cpuid leaf 1, as the 64-bit rax\<close>
  sys_midr :: "nat \<Rightarrow> string" \<comment> \<open>contents of midr_el1 of a core\<close>
  sys_esmi_init :: int
  sys_nvml_count :: u32
  sys_nvml_handle_ok :: "nat \<Rightarrow> bool"
  sys_apmidg_ndevs :: u32

datatype ext_call =
    Nvml_init | Nvml_shutdown | Esmi_init | Esmi_exit | Apmidg_init | Apmidg_finish

datatype heap_ptr = H_null | H_live | H_freed

record arch_state = batch_state +
  p_msr_core_idx :: nat \<comment> \<open>P_MSR_CORE_IDX\<close>
  ext_calls :: "ext_call list"
  nv_devices :: heap_ptr \<comment> \<open>m_unit_devices_file_desc of nvidia_gpu_power_features.c\<close>
  nv_total_unit_devices :: u32
  nv_gpus_per_socket :: u32
  ig_total_unit_devices :: u32
  ig_gpus_per_socket :: u32
  arm_num_package :: u32

definition ext :: "ext_call \<Rightarrow> 'a arch_state_scheme \<Rightarrow> 'a arch_state_scheme" where
  "ext c s = s\<lparr>ext_calls := ext_calls s @ [c]\<rparr>"

text \<open>A call of variorum_get_topology; None when it ends the process.\<close>

definition get_topo :: "hwloc \<Rightarrow> nat \<Rightarrow> 'a tbase_scheme \<Rightarrow> (topo \<times> 'a tbase_scheme) option" where
  "get_topo H idx s = (case variorum_get_topology H idx s of Some (Inr r) \<Rightarrow> Some r | _ \<Rightarrow> None)"

text \<open>\<open>*g_platform[idx].arch_id\<close>, and an update of \<open>g_platform[idx]\<close>.\<close>

definition platform_arch :: "nat \<Rightarrow> 'a tbase_scheme \<Rightarrow> u64 option" where
  "platform_arch idx s = (if idx < length (g_platform s) then deref_arch (arch_id (g_platform s ! idx)) else None)"

definition set_platform ::
  "nat \<Rightarrow> (platform \<Rightarrow> platform) \<Rightarrow> 'a tbase_scheme \<Rightarrow> 'a tbase_scheme option" where
  "set_platform idx f s = (if idx < length (g_platform s) then Some (upd_platform idx f s) else None)"

section \<open>Intel CPUs\<close>

definition detect_intel_arch :: "sys_env \<Rightarrow> arch_ptr" where
  "detect_intel_arch V =
    (let rax = sys_cpuid_rax V
     in Live ((drop_bit 12 rax AND 0xF0) OR (drop_bit 4 rax AND 0xF)))"

text \<open>The assignments of each branch of set_intel_func_ptrs.\<close>

definition ptrs_06_2a :: "(slot \<times> handler) list" where
  "ptrs_06_2a =
  [(Print_power_limit, intel_cpu_fm M_06_2A get_power_limits),
   (Cap_each_socket_power_limit, intel_cpu_fm M_06_2A cap_power_limits),
   (Print_features, intel_cpu_fm M_06_2A get_features),
   (Print_thermals, intel_cpu_fm M_06_2A get_thermals),
   (Print_counters, intel_cpu_fm M_06_2A get_counters),
   (Print_frequency, intel_cpu_fm M_06_2A get_clocks),
   (Print_power, intel_cpu_fm M_06_2A get_power),
   (Print_energy, intel_cpu_fm M_06_2A get_energy),
   (Print_turbo, intel_cpu_fm M_06_2A get_turbo_status),
   (Enable_turbo, intel_cpu_fm M_06_2A enable_turbo),
   (Disable_turbo, intel_cpu_fm M_06_2A disable_turbo),
   (Poll_power, intel_cpu_fm M_06_2A poll_power),
   (Monitoring, intel_cpu_fm M_06_2A monitoring),
   (Get_power_json, intel_cpu_fm M_06_2A get_power_json),
   (Get_node_power_domain_info_json, intel_cpu_fm M_06_2A get_node_power_domain_info_json),
   (Cap_best_effort_node_power_limit, intel_cpu_fm M_06_2A cap_best_effort_node_power_limit),
   (Print_available_frequencies, intel_cpu_fm M_06_2A get_frequencies),
   (Get_thermals_json, intel_cpu_fm M_06_2A get_thermals_json),
   (Get_frequency_json, intel_cpu_fm M_06_2A get_clocks_json)]"

definition ptrs_06_2d :: "(slot \<times> handler) list" where
  "ptrs_06_2d =
  [(Print_power_limit, intel_cpu_fm M_06_2D get_power_limits),
   (Cap_each_socket_power_limit, intel_cpu_fm M_06_2D cap_power_limits),
   (Print_features, intel_cpu_fm M_06_2D get_features),
   (Print_thermals, intel_cpu_fm M_06_2D get_thermals),
   (Print_counters, intel_cpu_fm M_06_2D get_counters),
   (Print_frequency, intel_cpu_fm M_06_2D get_clocks),
   (Print_power, intel_cpu_fm M_06_2D get_power),
   (Print_energy, intel_cpu_fm M_06_2D get_energy),
   (Print_turbo, intel_cpu_fm M_06_2D get_turbo_status),
   (Enable_turbo, intel_cpu_fm M_06_2D enable_turbo),
   (Disable_turbo, intel_cpu_fm M_06_2D disable_turbo),
   (Poll_power, intel_cpu_fm M_06_2D poll_power),
   (Monitoring, intel_cpu_fm M_06_2D monitoring),
   (Get_power_json, intel_cpu_fm M_06_2D get_power_json),
   (Get_node_power_domain_info_json, intel_cpu_fm M_06_2D get_node_power_domain_info_json),
   (Cap_best_effort_node_power_limit, intel_cpu_fm M_06_2D cap_best_effort_node_power_limit),
   (Print_available_frequencies, intel_cpu_fm M_06_2D get_frequencies),
   (Get_thermals_json, intel_cpu_fm M_06_2D get_thermals_json),
   (Get_frequency_json, intel_cpu_fm M_06_2D get_clocks_json)]"

definition ptrs_06_3e :: "(slot \<times> handler) list" where
  "ptrs_06_3e =
  [(Print_power_limit, intel_cpu_fm M_06_3E get_power_limits),
   (Cap_each_socket_power_limit, intel_cpu_fm M_06_3E cap_power_limits),
   (Print_features, intel_cpu_fm M_06_3E get_features),
   (Print_thermals, intel_cpu_fm M_06_3E get_thermals),
   (Print_counters, intel_cpu_fm M_06_3E get_counters),
   (Print_frequency, intel_cpu_fm M_06_3E get_clocks),
   (Print_power, intel_cpu_fm M_06_3E get_power),
   (Print_energy, intel_cpu_fm M_06_3E get_energy),
   (Print_turbo, intel_cpu_fm M_06_3E get_turbo_status),
   (Enable_turbo, intel_cpu_fm M_06_3E enable_turbo),
   (Disable_turbo, intel_cpu_fm M_06_3E disable_turbo),
   (Poll_power, intel_cpu_fm M_06_3E poll_power),
   (Monitoring, intel_cpu_fm M_06_3E monitoring),
   (Get_power_json, intel_cpu_fm M_06_3E get_power_json),
   (Get_node_power_domain_info_json, intel_cpu_fm M_06_3E get_node_power_domain_info_json),
   (Cap_best_effort_node_power_limit, intel_cpu_fm M_06_3E cap_best_effort_node_power_limit),
   (Print_available_frequencies, intel_cpu_fm M_06_3E get_frequencies),
   (Get_thermals_json, intel_cpu_fm M_06_3E get_thermals_json),
   (Get_frequency_json, intel_cpu_fm M_06_3E get_clocks_json)]"

definition ptrs_06_3f :: "(slot \<times> handler) list" where
  "ptrs_06_3f =
  [(Print_power_limit, intel_cpu_fm M_06_3F get_power_limits),
   (Cap_each_socket_power_limit, intel_cpu_fm M_06_3F cap_power_limits),
   (Print_features, intel_cpu_fm M_06_3F get_features),
   (Print_thermals, intel_cpu_fm M_06_3F get_thermals),
   (Print_counters, intel_cpu_fm M_06_3F get_counters),
   (Print_frequency, intel_cpu_fm M_06_3F get_clocks),
   (Print_power, intel_cpu_fm M_06_3F get_power),
   (Print_energy, intel_cpu_fm M_06_3F get_energy),
   (Print_turbo, intel_cpu_fm M_06_3F get_turbo_status),
   (Enable_turbo, intel_cpu_fm M_06_3F enable_turbo),
   (Disable_turbo, intel_cpu_fm M_06_3F disable_turbo),
   (Poll_power, intel_cpu_fm M_06_3F poll_power),
   (Monitoring, intel_cpu_fm M_06_3F monitoring),
   (Get_power_json, intel_cpu_fm M_06_3F get_power_json),
   (Get_node_power_domain_info_json, intel_cpu_fm M_06_3F get_node_power_domain_info_json),
   (Cap_best_effort_node_power_limit, intel_cpu_fm M_06_3F cap_best_effort_node_power_limit),
   (Print_available_frequencies, intel_cpu_fm M_06_3F get_frequencies),
   (Get_thermals_json, intel_cpu_fm M_06_3F get_thermals_json),
   (Get_energy_json, intel_cpu_fm M_06_3F get_energy_json)]"

definition ptrs_06_4f :: "(slot \<times> handler) list" where
  "ptrs_06_4f =
  [(Print_power_limit, intel_cpu_fm M_06_4F get_power_limits),
   (Cap_each_socket_power_limit, intel_cpu_fm M_06_4F cap_power_limits),
   (Print_features, intel_cpu_fm M_06_4F get_features),
   (Print_thermals, intel_cpu_fm M_06_4F get_thermals),
   (Print_counters, intel_cpu_fm M_06_4F get_counters),
   (Print_frequency, intel_cpu_fm M_06_4F get_clocks),
   (Print_power, intel_cpu_fm M_06_4F get_power),
   (Print_energy, intel_cpu_fm M_06_4F get_energy),
   (Print_turbo, intel_cpu_fm M_06_4F get_turbo_status),
   (Enable_turbo, intel_cpu_fm M_06_4F enable_turbo),
   (Disable_turbo, intel_cpu_fm M_06_4F disable_turbo),
   (Poll_power, intel_cpu_fm M_06_4F poll_power),
   (Monitoring, intel_cpu_fm M_06_4F monitoring),
   (Get_power_json, intel_cpu_fm M_06_4F get_power_json),
   (Get_node_power_domain_info_json, intel_cpu_fm M_06_4F get_node_power_domain_info_json),
   (Cap_best_effort_node_power_limit, intel_cpu_fm M_06_4F cap_best_effort_node_power_limit),
   (Print_available_frequencies, intel_cpu_fm M_06_4F get_frequencies),
   (Get_thermals_json, intel_cpu_fm M_06_4F get_thermals_json),
   (Get_frequency_json, intel_cpu_fm M_06_4F get_clocks_json),
   (Get_energy_json, intel_cpu_fm M_06_4F get_energy_json)]"

definition ptrs_06_55 :: "(slot \<times> handler) list" where
  "ptrs_06_55 =
  [(Print_power_limit, intel_cpu_fm M_06_55 get_power_limits),
   (Cap_each_socket_power_limit, intel_cpu_fm M_06_55 cap_power_limits),
   (Print_features, intel_cpu_fm M_06_55 get_features),
   (Print_thermals, intel_cpu_fm M_06_55 get_thermals),
   (Print_counters, intel_cpu_fm M_06_55 get_counters),
   (Print_frequency, intel_cpu_fm M_06_55 get_clocks),
   (Print_power, intel_cpu_fm M_06_55 get_power),
   (Print_energy, intel_cpu_fm M_06_55 get_energy),
   (Poll_power, intel_cpu_fm M_06_55 poll_power),
   (Monitoring, intel_cpu_fm M_06_55 monitoring),
   (Get_power_json, intel_cpu_fm M_06_55 get_power_json),
   (Get_node_power_domain_info_json, intel_cpu_fm M_06_55 get_node_power_domain_info_json),
   (Cap_best_effort_node_power_limit, intel_cpu_fm M_06_55 cap_best_effort_node_power_limit),
   (Cap_each_core_frequency_limit, intel_cpu_fm M_06_55 cap_frequency),
   (Print_available_frequencies, intel_cpu_fm M_06_55 get_frequencies),
   (Get_thermals_json, intel_cpu_fm M_06_55 get_thermals_json),
   (Get_frequency_json, intel_cpu_fm M_06_55 get_clocks_json),
   (Get_energy_json, intel_cpu_fm M_06_55 get_energy_json)]"

definition ptrs_06_9e :: "(slot \<times> handler) list" where
  "ptrs_06_9e =
  [(Print_power_limit, intel_cpu_fm M_06_9E get_power_limits),
   (Cap_each_socket_power_limit, intel_cpu_fm M_06_9E cap_power_limits),
   (Print_features, intel_cpu_fm M_06_9E get_features),
   (Print_thermals, intel_cpu_fm M_06_9E get_thermals),
   (Print_counters, intel_cpu_fm M_06_9E get_counters),
   (Print_frequency, intel_cpu_fm M_06_9E get_clocks),
   (Print_power, intel_cpu_fm M_06_9E get_power),
   (Print_energy, intel_cpu_fm M_06_9E get_energy),
   (Poll_power, intel_cpu_fm M_06_9E poll_power),
   (Monitoring, intel_cpu_fm M_06_9E monitoring),
   (Get_power_json, intel_cpu_fm M_06_9E get_power_json),
   (Get_node_power_domain_info_json, intel_cpu_fm M_06_9E get_node_power_domain_info_json),
   (Cap_best_effort_node_power_limit, intel_cpu_fm M_06_9E cap_best_effort_node_power_limit),
   (Print_available_frequencies, intel_cpu_fm M_06_9E get_frequencies),
   (Get_thermals_json, intel_cpu_fm M_06_9E get_thermals_json),
   (Get_frequency_json, intel_cpu_fm M_06_9E get_clocks_json)]"

definition ptrs_06_6a :: "(slot \<times> handler) list" where
  "ptrs_06_6a =
  [(Print_power_limit, intel_cpu_fm M_06_6A get_power_limits),
   (Print_features, intel_cpu_fm M_06_6A get_features),
   (Print_power, intel_cpu_fm M_06_6A get_power),
   (Print_energy, intel_cpu_fm M_06_6A get_energy)]"

definition ptrs_06_8f :: "(slot \<times> handler) list" where
  "ptrs_06_8f =
  [(Print_power_limit, intel_cpu_fm M_06_8F get_power_limits),
   (Print_features, intel_cpu_fm M_06_8F get_features),
   (Print_power, intel_cpu_fm M_06_8F get_power),
   (Print_energy, intel_cpu_fm M_06_8F get_energy),
   (Get_power_json, intel_cpu_fm M_06_8F get_power_json),
   (Get_node_power_domain_info_json, intel_cpu_fm M_06_8F get_node_power_domain_info_json),
   (Monitoring, intel_cpu_fm M_06_8F monitoring)]"

text \<open>enum intel\_arch\_e, of the models that have a branch\<close>

fun FM :: "intel_model \<Rightarrow> u64" where
  "FM M_06_2A = 42"
| "FM M_06_2D = 45"
| "FM M_06_3E = 62"
| "FM M_06_3F = 63"
| "FM M_06_4F = 79"
| "FM M_06_55 = 85"
| "FM M_06_9E = 158"
| "FM M_06_6A = 106"
| "FM M_06_8F = 143"

definition set_intel_func_ptrs :: "nat \<Rightarrow> 'a tbase_scheme \<Rightarrow> (int \<times> 'a tbase_scheme) option" where
  "set_intel_func_ptrs idx s = do {
     s \<leftarrow> set_platform idx (install [(Cap_gpu_power_ratio, gpu_power_ratio_unimplemented)]) s;
     m \<leftarrow> platform_arch idx s;
     let put = (\<lambda>hs. map_option (Pair 0) (set_platform idx (install hs) s));
     if m = FM M_06_2A then put ptrs_06_2a
     else if m = FM M_06_2D then put ptrs_06_2d
     else if m = FM M_06_3E then put ptrs_06_3e
     else if m = FM M_06_3F then put ptrs_06_3f
     else if m = FM M_06_4F then put ptrs_06_4f
     else if m = FM M_06_55 then put ptrs_06_55
     else if m = FM M_06_9E then put ptrs_06_9e
     else if m = FM M_06_6A then put ptrs_06_6a
     else if m = FM M_06_8F then put ptrs_06_8f
     else Some (err_code VARIORUM_ERROR_UNSUPPORTED_PLATFORM, s)
   }"

text \<open>gpu\_power\_ratio\_unimplemented, the handler of this file itself.\<close>

definition run_gpu_power_ratio_unimplemented :: "int \<Rightarrow> 'a vbase_scheme \<Rightarrow> int \<times> 'a vbase_scheme" where
  "run_gpu_power_ratio_unimplemented long_ver s =
    (0, if long_ver = 0 \<or> long_ver = 1
        then variorum_error_handler VARIORUM_ERROR_FEATURE_NOT_AVAILABLE s else s)"

section \<open>IBM CPUs\<close>

definition POWER9 :: u64 where "POWER9 = 9"

definition detect_ibm_arch :: arch_ptr where
  "detect_ibm_arch = Live 9"

definition set_ibm_func_ptrs :: "nat \<Rightarrow> 'a tbase_scheme \<Rightarrow> (int \<times> 'a tbase_scheme) option" where
  "set_ibm_func_ptrs idx s = do {
     m \<leftarrow> platform_arch idx s;
     if m = POWER9 then map_option (Pair 0) (set_platform idx (install
       [(Print_power, ibm_cpu_p9 get_power),
        (Print_power_limit, ibm_cpu_p9 get_power_limits),
        (Cap_best_effort_node_power_limit, ibm_cpu_p9 cap_and_verify_node_power_limit),
        (Cap_each_socket_power_limit, ibm_cpu_p9 cap_socket_power_limit),
        (Cap_gpu_power_ratio, ibm_cpu_p9 cap_gpu_power_ratio),
        (Monitoring, ibm_cpu_p9 monitoring),
        (Get_power_json, ibm_cpu_p9 get_power_json),
        (Get_node_power_domain_info_json, ibm_cpu_p9 get_node_power_domain_info_json),
        (Print_energy, ibm_cpu_p9 get_energy),
        (Get_thermals_json, ibm_cpu_p9 get_node_thermal_json),
        (Get_frequency_json, ibm_cpu_p9 get_node_frequency_json),
        (Get_energy_json, ibm_cpu_p9 get_node_energy_json)]) s)
     else Some (err_code VARIORUM_ERROR_UNSUPPORTED_PLATFORM, s)
   }"

section \<open>AMD CPUs\<close>

definition detect_amd_arch :: "sys_env \<Rightarrow> arch_ptr" where
  "detect_amd_arch V =
    (let rax = sys_cpuid_rax V
     in Live ((push_bit 8 ((drop_bit 8 rax AND 0xf) + (drop_bit 20 rax AND 0xff))
          OR ((drop_bit 16 rax AND 0xf) * 0x10 + (drop_bit 4 rax AND 0xf))) AND 0xFFFF))"

definition set_amd_func_ptrs :: "sys_env \<Rightarrow> nat \<Rightarrow> 'a arch_state_scheme \<Rightarrow> (int \<times> 'a arch_state_scheme) option" where
  "set_amd_func_ptrs V idx s = do {
     m \<leftarrow> platform_arch idx s;
     let family = (ucast (drop_bit 8 m AND 0xFF) :: u8);
     let model = (ucast (m AND 0xFF) :: u8);
     if family = 0x19 \<and> (model \<le> 0xF \<or> 0x30 \<le> model \<and> model \<le> 0x3F) then
       let s = ext Esmi_init s in
       if sys_esmi_init V = 0 then map_option (Pair 0) (set_platform idx (install
         [(Print_power, amd_cpu_epyc get_power),
          (Print_power_limit, amd_cpu_epyc get_power_limits),
          (Cap_each_socket_power_limit, amd_cpu_epyc set_socket_power_limit),
          (Cap_best_effort_node_power_limit, amd_cpu_epyc set_and_verify_best_effort_node_power_limit),
          (Print_energy, amd_cpu_epyc print_energy),
          (Print_frequency, amd_cpu_epyc print_boostlimit),
          (Cap_each_core_frequency_limit, amd_cpu_epyc set_each_core_boostlimit),
          (Cap_socket_frequency_limit, amd_cpu_epyc set_socket_boostlimit),
          (Get_power_json, amd_cpu_epyc get_power_json),
          (Get_node_power_domain_info_json, amd_cpu_epyc get_node_power_domain_info_json),
          (Get_frequency_json, amd_cpu_epyc get_json_boostlimit)]) s)
       else map_option (Pair 0) (set_platform idx (install [(Print_energy, amd_cpu_epyc print_energy)]) s)
     else Some (err_code VARIORUM_ERROR_UNSUPPORTED_PLATFORM, s)
   }"

section \<open>Nvidia, AMD and Intel GPUs\<close>

definition VOLTA :: u64 where "VOLTA = 1"

definition detect_gpu_arch :: arch_ptr where
  "detect_gpu_arch = Live 1"

text \<open>
  initNVML of nvidia\_gpu\_power\_features.c. Its malloc is assumed to succeed; each device whose
  handle is not obtained is reported.
\<close>

definition initNVML :: "sys_env \<Rightarrow> nat \<Rightarrow> 'a arch_state_scheme \<Rightarrow> 'a arch_state_scheme option" where
  "initNVML V idx s = do {
     let s = ext Nvml_init s;
     let n = sys_nvml_count V;
     let s = s\<lparr>nv_total_unit_devices := n, nv_devices := H_live\<rparr>;
     let s = foldl (\<lambda>s d. if sys_nvml_handle_ok V d then s
       else variorum_error_handler VARIORUM_ERROR_PLATFORM_ENV s) s [0..<unat n];
     (T, s) \<leftarrow> get_topo (sys_hw V) idx s;
     Some (s\<lparr>nv_gpus_per_socket := n div nsockets T\<rparr>)
   }"

definition shutdownNVML :: "'a arch_state_scheme \<Rightarrow> 'a arch_state_scheme option" where
  "shutdownNVML s =
    (case nv_devices s of
       H_null \<Rightarrow> Some (ext Nvml_shutdown s)
     | H_live \<Rightarrow> Some (ext Nvml_shutdown (s\<lparr>nv_devices := H_freed\<rparr>))
     | H_freed \<Rightarrow> None)"

definition set_nvidia_func_ptrs :: "sys_env \<Rightarrow> nat \<Rightarrow> 'a arch_state_scheme \<Rightarrow> (int \<times> 'a arch_state_scheme) option" where
  "set_nvidia_func_ptrs V idx s = do {
     m \<leftarrow> platform_arch idx s;
     (err, s) \<leftarrow>
       (if m = VOLTA then map_option (Pair 0) (set_platform idx (install
         [(Print_power, volta get_power),
          (Print_thermals, volta get_thermals),
          (Print_frequency, volta get_clocks),
          (Print_power_limit, volta get_power_limits),
          (Print_gpu_utilization, volta get_gpu_utilization),
          (Get_thermals_json, volta get_thermals_json),
          (Get_frequency_json, volta get_clocks_json),
          (Get_utilization_json, volta get_gpu_utilization_json),
          (Cap_each_gpu_power_limit, volta cap_each_gpu_power_limit),
          (Get_power_json, volta get_power_json)]) s)
        else Some (err_code VARIORUM_ERROR_UNSUPPORTED_PLATFORM, s));
     s \<leftarrow> initNVML V idx s;
     Some (err, s)
   }"

definition AMD_INSTINCT :: u64 where "AMD_INSTINCT = 1"

definition detect_amd_gpu_arch :: arch_ptr where
  "detect_amd_gpu_arch = Live 1"

definition set_amd_gpu_func_ptrs :: "nat \<Rightarrow> 'a tbase_scheme \<Rightarrow> (int \<times> 'a tbase_scheme) option" where
  "set_amd_gpu_func_ptrs idx s = do {
     m \<leftarrow> platform_arch idx s;
     if m = AMD_INSTINCT then map_option (Pair 0) (set_platform idx (install
       [(Print_power, amd_gpu_instinct get_power),
        (Print_thermals, amd_gpu_instinct get_thermals),
        (Print_frequency, amd_gpu_instinct get_clocks),
        (Print_power_limit, amd_gpu_instinct get_power_limit),
        (Print_gpu_utilization, amd_gpu_instinct get_gpu_utilization),
        (Get_thermals_json, amd_gpu_instinct get_thermals_json),
        (Get_frequency_json, amd_gpu_instinct get_clocks_json),
        (Get_utilization_json, amd_gpu_instinct get_gpu_utilization_json),
        (Cap_each_gpu_power_limit, amd_gpu_instinct cap_each_gpu_power_limit),
        (Get_power_json, amd_gpu_instinct get_power_json)]) s)
     else Some (err_code VARIORUM_ERROR_UNSUPPORTED_PLATFORM, s)
   }"

definition detect_intel_gpu_arch :: arch_ptr where
  "detect_intel_gpu_arch = Live 1"

text \<open>initAPMIDG of intel\_gpu\_power\_features.c\<close>

definition initAPMIDG :: "sys_env \<Rightarrow> nat \<Rightarrow> 'a arch_state_scheme \<Rightarrow> 'a arch_state_scheme option" where
  "initAPMIDG V idx s = do {
     let s = ext Apmidg_init s;
     let n = sys_apmidg_ndevs V;
     (T, s) \<leftarrow> get_topo (sys_hw V) idx (s\<lparr>ig_total_unit_devices := n\<rparr>);
     Some (s\<lparr>ig_gpus_per_socket := n div nsockets T\<rparr>)
   }"

definition shutdownAPMIDG :: "'a arch_state_scheme \<Rightarrow> 'a arch_state_scheme" where
  "shutdownAPMIDG s = ext Apmidg_finish s"

definition set_intel_gpu_func_ptrs :: "sys_env \<Rightarrow> nat \<Rightarrow> 'a arch_state_scheme \<Rightarrow> (int \<times> 'a arch_state_scheme) option" where
  "set_intel_gpu_func_ptrs V idx s = do {
     m \<leftarrow> platform_arch idx s;
     (err, s) \<leftarrow>
       (if m = 1 then map_option (Pair 0) (set_platform idx (install
         [(Print_power, intel_gpu get_power),
          (Print_thermals, intel_gpu get_thermals),
          (Print_frequency, intel_gpu get_clocks),
          (Cap_each_gpu_power_limit, intel_gpu cap_each_gpu_power_limit),
          (Print_power_limit, intel_gpu get_power_limit)]) s)
        else Some (err_code VARIORUM_ERROR_UNSUPPORTED_PLATFORM, s));
     s \<leftarrow> initAPMIDG V idx s;
     Some (err, s)
   }"

section \<open>ARM CPUs\<close>

text \<open>
  \<open>strtol(buf, NULL, 16)\<close> on a buffer of which only the bytes read are initialised: blanks, a
  sign, an optional 0x, and the longest run of hexadecimal digits, cut to the range of long.
  None: the scan runs past the bytes that were read.
\<close>

definition hex_digit :: "char \<Rightarrow> int option" where
  "hex_digit c =
    (let n = of_char c :: int in
     if 48 \<le> n \<and> n \<le> 57 then Some (n - 48)
     else if 97 \<le> n \<and> n \<le> 102 then Some (n - 87)
     else if 65 \<le> n \<and> n \<le> 70 then Some (n - 55) else None)"

definition is_space :: "char \<Rightarrow> bool" where
  "is_space c \<longleftrightarrow> c = CHR '' '' \<or> (let n = of_char c :: int in 9 \<le> n \<and> n \<le> 13)"

fun hex_run :: "int \<Rightarrow> string \<Rightarrow> int option" where
  "hex_run acc [] = None"
| "hex_run acc (c # cs) = (case hex_digit c of None \<Rightarrow> Some acc | Some d \<Rightarrow> hex_run (acc * 16 + d) cs)"

definition hex_unsigned :: "string \<Rightarrow> int option" where
  "hex_unsigned cs =
    (case cs of
       z # x # d # _ \<Rightarrow>
         if z = CHR ''0'' \<and> (x = CHR ''x'' \<or> x = CHR ''X'') \<and> hex_digit d \<noteq> None
         then hex_run 0 (drop 2 cs) else hex_run 0 cs
     | _ \<Rightarrow> hex_run 0 cs)"

definition strtol16 :: "string \<Rightarrow> int option" where
  "strtol16 buf =
    (case dropWhile is_space buf of
       [] \<Rightarrow> None
     | c # cs \<Rightarrow> do {
         v \<leftarrow> (if c = CHR ''-'' then map_option uminus (hex_unsigned cs)
              else if c = CHR ''+'' then hex_unsigned cs else hex_unsigned (c # cs));
         Some (max (- (2 ^ 63)) (min (2 ^ 63 - 1) v))
       })"

definition CPU_ID_SIZE :: nat where "CPU_ID_SIZE = 64"

text \<open>read() into a buffer of 64 bytes: its result and the bytes, none for a bad descriptor.\<close>

definition read_midr :: "sys_env \<Rightarrow> nat \<Rightarrow> int \<Rightarrow> int \<times> string" where
  "read_midr V cpu fd =
    (if fd < 0 then (-1, []) else let bs = take CPU_ID_SIZE (sys_midr V cpu) in (int (length bs), bs))"

text \<open>The descriptors are tested for 0, not for -1.\<close>

definition detect_arm_arch :: "sys_env \<Rightarrow> 'a msr_state_scheme \<Rightarrow> (arch_ptr \<times> 'a msr_state_scheme) option" where
  "detect_arm_arch V s =
    (let (fd0, s) = os_open (sys_os V) (Midr_path 0) s;
         (fd1, s) = os_open (sys_os V) (Midr_path 1) s
     in if fd0 = 0 \<or> fd1 = 0 then Some (Null, variorum_error_handler VARIORUM_ERROR_INVAL s)
     else
       let (n0, b0) = read_midr V 0 fd0; (n1, b1) = read_midr V 1 fd1 in
       if n0 = 0 \<or> n1 = 0 then Some (Null, variorum_error_handler VARIORUM_ERROR_INVAL s)
       else do {
         v0 \<leftarrow> strtol16 b0;
         v1 \<leftarrow> strtol16 b1;
         let model = push_bit 8 (word_of_int v0 AND 0xfff0) OR drop_bit 4 (word_of_int v1 AND 0xfff0);
         let (_, s) = os_close (sys_os V) fd0 s;
         let (_, s) = os_close (sys_os V) fd1 s;
         Some (Live model, s)
       })"

definition ARM_CORTEX_A72 :: u64 where "ARM_CORTEX_A72 = 0xd08"
definition ARM_CORTEX_A53 :: u64 where "ARM_CORTEX_A53 = 0xd03"
definition ARM_NEOVERSE_N1 :: u64 where "ARM_NEOVERSE_N1 = 0xd0c"

text \<open>init\_arm of arm\_util.c\<close>

definition init_arm :: "sys_env \<Rightarrow> nat \<Rightarrow> 'a arch_state_scheme \<Rightarrow> 'a arch_state_scheme option" where
  "init_arm V idx s = do {
     (T, s) \<leftarrow> get_topo (sys_hw V) idx s;
     Some (s\<lparr>arm_num_package := nsockets T\<rparr>)
   }"

definition set_arm_func_ptrs :: "sys_env \<Rightarrow> nat \<Rightarrow> 'a arch_state_scheme \<Rightarrow> (int \<times> 'a arch_state_scheme) option" where
  "set_arm_func_ptrs V idx s = do {
     m \<leftarrow> platform_arch idx s;
     (err, s) \<leftarrow>
       (if m = push_bit 12 ARM_CORTEX_A53 OR ARM_CORTEX_A72 then map_option (Pair 0) (set_platform idx (install
         [(Print_power, arm_juno_r2 get_power),
          (Print_thermals, arm_juno_r2 get_thermals),
          (Print_frequency, arm_juno_r2 get_clocks),
          (Print_available_frequencies, arm_juno_r2 get_frequencies),
          (Cap_socket_frequency_limit, arm_juno_r2 cap_socket_frequency),
          (Get_power_json, arm_juno_r2 get_power_json),
          (Get_node_power_domain_info_json, arm_juno_r2 get_power_domain_info_json)]) s)
        else if m = push_bit 12 ARM_NEOVERSE_N1 OR ARM_NEOVERSE_N1 then map_option (Pair 0) (set_platform idx (install
         [(Print_power, arm_neoverse_n1 get_power),
          (Print_thermals, arm_neoverse_n1 get_thermals),
          (Print_frequency, arm_neoverse_n1 get_clocks),
          (Cap_socket_frequency_limit, arm_neoverse_n1 cap_socket_frequency),
          (Get_power_json, arm_neoverse_n1 get_power_json),
          (Get_node_power_domain_info_json, arm_neoverse_n1 get_power_domain_info_json)]) s)
        else Some (err_code VARIORUM_ERROR_UNSUPPORTED_PLATFORM, s));
     s \<leftarrow> init_arm V idx s;
     Some (err, s)
   }"

end
