(* ===== verification/Arch.thy ===== *)
theory Arch imports Vendor_Config begin

text \<open>
  variorum_enter and variorum_exit of config_architecture.c, which every API function calls first
  and last: clear the feature table, check the topology of every platform, detect the
  architectures, install the feature functions and open the devices; close them and free the
  model numbers again.
\<close>

section \<open>Detection\<close>

definition set_arch ::
  "build \<Rightarrow> platform_kind \<Rightarrow> arch_ptr \<Rightarrow> 'a tbase_scheme \<Rightarrow> 'a tbase_scheme option" where
  "set_arch b k a s = set_platform (P_IDX b k) (\<lambda>p. p\<lparr>arch_id := a\<rparr>) s"

text \<open>The printf calls of the log dereference the pointers.\<close>

definition log_arch :: "build \<Rightarrow> 'a tbase_scheme \<Rightarrow> 'a tbase_scheme option" where
  "log_arch b s =
    (if \<forall>k \<in> {INTEL_CPU, IBM_CPU, AMD_CPU, AMD_GPU}. b k \<longrightarrow> platform_arch (P_IDX b k) s \<noteq> None
     then Some s else None)"

fun arch_missing :: "nat list \<Rightarrow> 'a tbase_scheme \<Rightarrow> bool option" where
  "arch_missing [] s = Some False"
| "arch_missing (i # is) s =
    (if length (g_platform s) \<le> i then None
     else if arch_id (g_platform s ! i) = Null then Some True else arch_missing is s)"

definition variorum_detect_arch ::
  "build \<Rightarrow> sys_env \<Rightarrow> 'a arch_state_scheme \<Rightarrow> (int \<times> 'a arch_state_scheme) option" where
  "variorum_detect_arch b V s = do {
     s \<leftarrow> (if b INTEL_CPU then map_option (p_msr_core_idx_update (\<lambda>_. P_IDX b INTEL_CPU))
            (set_arch b INTEL_CPU (detect_intel_arch V) s) else Some s);
     s \<leftarrow> (if b INTEL_GPU then set_arch b INTEL_GPU detect_intel_gpu_arch s else Some s);
     s \<leftarrow> (if b IBM_CPU then set_arch b IBM_CPU detect_ibm_arch s else Some s);
     s \<leftarrow> (if b NVIDIA_GPU then set_arch b NVIDIA_GPU detect_gpu_arch s else Some s);
     s \<leftarrow> (if b ARM_CPU then do {
              (a, s) \<leftarrow> detect_arm_arch V s;
              set_arch b ARM_CPU a s
            } else Some s);
     s \<leftarrow> (if b AMD_CPU then map_option (p_msr_core_idx_update (\<lambda>_. P_IDX b AMD_CPU))
            (set_arch b AMD_CPU (detect_amd_arch V) s) else Some s);
     s \<leftarrow> (if b AMD_GPU then set_arch b AMD_GPU detect_amd_gpu_arch s else Some s);
     s \<leftarrow> (if sys_log V then log_arch b s else Some s);
     missing \<leftarrow> arch_missing [0..<P_NUM_PLATFORMS b] s;
     if missing
     then Some (err_code VARIORUM_ERROR_UNSUPPORTED_ARCH, variorum_error_handler VARIORUM_ERROR_RUNTIME s)
     else Some (0, s)
   }"

section \<open>Installation\<close>

text \<open>init_msr with the topology of the platform P\_MSR\_CORE\_IDX names, as it asks for it.\<close>

definition call_init_msr :: "sys_env \<Rightarrow> 'a arch_state_scheme \<Rightarrow> (int \<times> 'a arch_state_scheme) option" where
  "call_init_msr V s = do {
     (T, s) \<leftarrow> get_topo (sys_hw V) (p_msr_core_idx s) s;
     init_msr (sys_os V) T s
   }"

definition call_finalize_msr :: "sys_env \<Rightarrow> 'a arch_state_scheme \<Rightarrow> (int \<times> 'a arch_state_scheme) option" where
  "call_finalize_msr V s = do {
     (T, s) \<leftarrow> get_topo (sys_hw V) (p_msr_core_idx s) s;
     finalize_msr (sys_os V) T s
   }"

text \<open>The assignments to \<open>err\<close> follow one another; only the first has an early return.\<close>

definition variorum_set_func_ptrs ::
  "build \<Rightarrow> sys_env \<Rightarrow> 'a arch_state_scheme \<Rightarrow> (int \<times> 'a arch_state_scheme) option" where
  "variorum_set_func_ptrs b V s = do {
     (err, s) \<leftarrow> (if b INTEL_CPU then set_intel_func_ptrs (P_IDX b INTEL_CPU) s else Some (0, s));
     if err \<noteq> 0 then Some (err, s)
     else do {
       (err, s) \<leftarrow> (if b INTEL_CPU then call_init_msr V s else Some (err, s));
       (err, s) \<leftarrow> (if b INTEL_GPU then set_intel_gpu_func_ptrs V (P_IDX b INTEL_GPU) s else Some (err, s));
       (err, s) \<leftarrow> (if b IBM_CPU then set_ibm_func_ptrs (P_IDX b IBM_CPU) s else Some (err, s));
       (err, s) \<leftarrow> (if b NVIDIA_GPU then set_nvidia_func_ptrs V (P_IDX b NVIDIA_GPU) s else Some (err, s));
       (err, s) \<leftarrow> (if b ARM_CPU then set_arm_func_ptrs V (P_IDX b ARM_CPU) s else Some (err, s));
       (err, s) \<leftarrow> (if b AMD_CPU then set_amd_func_ptrs V (P_IDX b AMD_CPU) s else Some (err, s));
       if b AMD_GPU then set_amd_gpu_func_ptrs (P_IDX b AMD_GPU) s else Some (err, s)
     }
   }"

section \<open>Enter and exit\<close>

text \<open>A report whose code is an int: the enumerator with that code.\<close>

definition all_errors :: "variorum_error_e list" where
  "all_errors =
    [VARIORUM_ERROR_RUNTIME, VARIORUM_ERROR_RAPL_INIT, VARIORUM_ERROR_MSR_CLOSE,
     VARIORUM_ERROR_MSR_READ, VARIORUM_ERROR_ARRAY_BOUNDS, VARIORUM_ERROR_PLATFORM_ENV,
     VARIORUM_ERROR_MSR_MODULE, VARIORUM_ERROR_MSR_WRITE, VARIORUM_ERROR_MSR_BATCH,
     VARIORUM_ERROR_INVAL, VARIORUM_ERROR_UNSUPPORTED_PLATFORM, VARIORUM_ERROR_UNSUPPORTED_ARCH,
     VARIORUM_ERROR_FEATURE_NOT_IMPLEMENTED, VARIORUM_ERROR_FEATURE_NOT_AVAILABLE,
     VARIORUM_ERROR_FUNCTION]"

definition report_code :: "int \<Rightarrow> 'a vbase_scheme \<Rightarrow> 'a vbase_scheme" where
  "report_code err s =
    (case find (\<lambda>e. err_code e = err) all_errors of
       None \<Rightarrow> s | Some e \<Rightarrow> variorum_error_handler e s)"

fun topology_loop :: "hwloc \<Rightarrow> nat list \<Rightarrow> 'a tbase_scheme \<Rightarrow> 'a tbase_scheme option" where
  "topology_loop H [] s = Some s"
| "topology_loop H (i # is) s = do {
     (_, s) \<leftarrow> get_topo H i s;
     topology_loop H is s
   }"

definition variorum_enter ::
  "build \<Rightarrow> sys_env \<Rightarrow> 'a arch_state_scheme \<Rightarrow> (int \<times> 'a arch_state_scheme) option" where
  "variorum_enter b V s = do {
     ps \<leftarrow> variorum_init_func_ptrs b (g_platform s);
     s \<leftarrow> topology_loop (sys_hw V) [0..<P_NUM_PLATFORMS b] (s\<lparr>g_platform := ps\<rparr>);
     (err, s) \<leftarrow> variorum_detect_arch b V s;
     if err \<noteq> 0 then Some (err, report_code err s)
     else do {
       (err, s) \<leftarrow> variorum_set_func_ptrs b V s;
       if err \<noteq> 0 then Some (err, report_code err s) else Some (err, s)
     }
   }"

text \<open>free() of a pointer: NULL is left alone, a second free is undefined.\<close>

fun free_arch :: "arch_ptr \<Rightarrow> arch_ptr option" where
  "free_arch Null = Some Null"
| "free_arch (Live m) = Some Freed"
| "free_arch Freed = None"

fun free_loop :: "nat list \<Rightarrow> 'a tbase_scheme \<Rightarrow> 'a tbase_scheme option" where
  "free_loop [] s = Some s"
| "free_loop (i # is) s =
    (if length (g_platform s) \<le> i then None
     else do {
       a \<leftarrow> free_arch (arch_id (g_platform s ! i));
       free_loop is (upd_platform i (\<lambda>p. p\<lparr>arch_id := a\<rparr>) s)
     })"

definition variorum_exit ::
  "build \<Rightarrow> sys_env \<Rightarrow> 'a arch_state_scheme \<Rightarrow> (int \<times> 'a arch_state_scheme) option" where
  "variorum_exit b V s = do {
     (err, s) \<leftarrow> (if b INTEL_CPU then call_finalize_msr V s else Some (0, s));
     if err \<noteq> 0 then Some (err, s)
     else do {
       let s = (if b AMD_CPU then ext Esmi_exit s else s);
       s \<leftarrow> (if b NVIDIA_GPU then shutdownNVML s else Some s);
       let s = (if b INTEL_GPU then shutdownAPMIDG s else s);
       s \<leftarrow> free_loop [0..<P_NUM_PLATFORMS b] s;
       Some (err, s)
     }
   }"

end
