(* ===== verification/CDouble.thy ===== *)
theory CDouble imports Complex_Main Prelude "HOL-Library.Log_Nat" begin

text \<open>
  C's double, for the RAPL code, which converts register fields to watts, joules and seconds and
  back. A finite double is its exact rational value, and an operation computes the exact result
  and rounds it to the nearest representable number, ties to even. -0.0 is not told apart
  from 0.0: nothing in the modelled code divides by a value that could be a zero. What carries
  the proofs is that a representable number is its own rounding.
\<close>

datatype double = Fin rat | PInf | NInf | NaN

section \<open>Rounding\<close>

text \<open>The exponent of the largest power of two that is not above a positive number.\<close>

definition ilog2 :: "rat \<Rightarrow> int" where
  "ilog2 x = (if 1 \<le> x then int (floorlog 2 (nat \<lfloor>x\<rfloor>)) - 1 else - int (floorlog 2 (nat (\<lceil>1 / x\<rceil> - 1))))"

definition round_half_even :: "rat \<Rightarrow> int" where
  "round_half_even x =
    (let n = \<lfloor>x\<rfloor>; f = x - of_int n in if f < 1 / 2 \<or> f = 1 / 2 \<and> even n then n else n + 1)"

definition fl :: "rat \<Rightarrow> double" where
  "fl x = (if x = 0 then Fin 0 else
     let e = max (-1074) (ilog2 \<bar>x\<bar> - 52);
         r = of_int (round_half_even (x / 2 powi e)) * 2 powi e
     in if 2 powi 1024 \<le> \<bar>r\<bar> then (if 0 < x then PInf else NInf) else Fin r)"

lemma ilog2_bounds:
  assumes "0 < x"
  shows "2 powi ilog2 x \<le> x" "x < 2 powi (ilog2 x + 1)"
proof -
  have "2 powi ilog2 x \<le> x \<and> x < 2 powi (ilog2 x + 1)"
  proof (cases "1 \<le> x")
    case True
    let ?n = "nat \<lfloor>x\<rfloor>"
    have n: "0 < ?n" using True by (simp add: le_floor_iff)
    have l: "0 < floorlog 2 ?n" using n by (simp add: floorlog_def)
    have b: "2 ^ (floorlog 2 ?n - 1) \<le> ?n" "?n < 2 ^ floorlog 2 ?n"
      using floorlog_bounds [of ?n 2] n by simp_all
    have "of_nat (2 ^ (floorlog 2 ?n - 1)) \<le> (of_nat ?n :: rat)" using b(1) by (rule of_nat_mono)
    then have "2 ^ (floorlog 2 ?n - 1) \<le> (of_int \<lfloor>x\<rfloor> :: rat)" using True by simp
    then have 1: "2 ^ (floorlog 2 ?n - 1) \<le> x" by (rule order_trans) simp
    have "int ?n < 2 ^ floorlog 2 ?n" using b(2) by (metis of_nat_less_numeral_power_cancel_iff)
    then have "\<lfloor>x\<rfloor> + 1 \<le> 2 ^ floorlog 2 ?n" using True by simp
    then have "of_int (\<lfloor>x\<rfloor> + 1) \<le> (of_int (2 ^ floorlog 2 ?n) :: rat)" by (rule of_int_le_iff [THEN iffD2])
    then have 2: "x < 2 ^ floorlog 2 ?n" using floor_correct [of x] by simp
    have e: "ilog2 x = int (floorlog 2 ?n - 1)" "ilog2 x + 1 = int (floorlog 2 ?n)"
      using True l by (simp_all add: ilog2_def of_nat_diff)
    have i: "(2 :: rat) powi ilog2 x = 2 ^ (floorlog 2 ?n - 1)" "(2 :: rat) powi (ilog2 x + 1) = 2 ^ floorlog 2 ?n"
      by (simp only: e(1) power_int_of_nat, simp only: e(2) power_int_of_nat)
    show ?thesis unfolding i using 1 2 by simp
  next
    case False
    let ?m = "nat (\<lceil>1 / x\<rceil> - 1)"
    have x1: "1 < 1 / x" using assms False by (simp add: field_simps)
    have c: "1 < \<lceil>1 / x\<rceil>" using x1 by (simp add: less_ceiling_iff)
    have m: "0 < ?m" using c by simp
    have l: "0 < floorlog 2 ?m" using m by (simp add: floorlog_def)
    have b: "2 ^ (floorlog 2 ?m - 1) \<le> ?m" "?m < 2 ^ floorlog 2 ?m"
      using floorlog_bounds [of ?m 2] m by simp_all
    have "int ?m < 2 ^ floorlog 2 ?m" using b(2) by (metis of_nat_less_numeral_power_cancel_iff)
    then have "\<lceil>1 / x\<rceil> \<le> 2 ^ floorlog 2 ?m" using c assms by simp
    then have "1 / x \<le> of_int (2 ^ floorlog 2 ?m)" by (simp only: ceiling_le_iff)
    then have u: "1 / x \<le> 2 ^ floorlog 2 ?m" by simp
    have "2 ^ (floorlog 2 ?m - 1) \<le> int ?m" using b(1) by (metis of_nat_le_iff of_nat_numeral of_nat_power)
    then have "2 ^ (floorlog 2 ?m - 1) < \<lceil>1 / x\<rceil>" using c assms by simp
    then have "of_int (2 ^ (floorlog 2 ?m - 1)) < 1 / x" by (simp only: less_ceiling_iff)
    then have v: "2 ^ (floorlog 2 ?m - 1) < 1 / x" by simp
    have e: "ilog2 x = - int (floorlog 2 ?m)" "ilog2 x + 1 = - int (floorlog 2 ?m - 1)"
      using False l by (simp_all add: ilog2_def of_nat_diff)
    have i: "(2 :: rat) powi ilog2 x = inverse (2 ^ floorlog 2 ?m)"
      "(2 :: rat) powi (ilog2 x + 1) = inverse (2 ^ (floorlog 2 ?m - 1))"
      by (simp only: e(1) power_int_minus power_int_of_nat, simp only: e(2) power_int_minus power_int_of_nat)
    show ?thesis unfolding i using u v assms by (simp add: field_simps)
  qed
  then show "2 powi ilog2 x \<le> x" "x < 2 powi (ilog2 x + 1)" by simp_all
qed

lemma round_half_even_int [simp]: "round_half_even (of_int n) = n"
  by (simp add: round_half_even_def)

text \<open>A number with a 53-bit mantissa and an exponent in range.\<close>

definition representable :: "rat \<Rightarrow> bool" where
  "representable x \<longleftrightarrow> (\<exists>m e. x = of_int m * 2 powi e \<and> \<bar>m\<bar> < 2 ^ 53 \<and> -1074 \<le> e \<and> e \<le> 900)"

lemma powi_less_cancel: "(2 :: rat) powi a < 2 powi b \<Longrightarrow> a < b"
  by (metis power_int_increasing not_less one_le_numeral)

lemma fl_representable:
  assumes "representable x"
  shows "fl x = Fin x"
proof (cases "x = 0")
  case False
  obtain m e where x: "x = of_int m * 2 powi e" and m: "\<bar>m\<bar> < 2 ^ 53" and e: "-1074 \<le> e" "e \<le> 900"
    using assms by (auto simp: representable_def)
  let ?E = "max (-1074) (ilog2 \<bar>x\<bar> - 52)"
  have ax: "\<bar>x\<bar> = of_int \<bar>m\<bar> * 2 powi e" by (simp add: x abs_mult)
  have "(of_int \<bar>m\<bar> :: rat) < of_int (2 ^ 53)" using m by (rule of_int_less_iff [THEN iffD2])
  then have mr: "(of_int \<bar>m\<bar> :: rat) < 2 powi 53" by simp
  then have "\<bar>x\<bar> < 2 powi 53 * 2 powi e" unfolding ax by (intro mult_strict_right_mono) simp_all
  also have "\<dots> = 2 powi (53 + e)" by (simp only: power_int_add numeral_neq_zero simp_thms)
  finally have bx: "\<bar>x\<bar> < 2 powi (53 + e)" .
  have "2 powi ilog2 \<bar>x\<bar> < (2 :: rat) powi (53 + e)"
    using ilog2_bounds(1) [of "\<bar>x\<bar>"] False bx by simp
  then have "ilog2 \<bar>x\<bar> < 53 + e" by (rule powi_less_cancel)
  then have le: "?E \<le> e" using e by simp
  have "2 powi e = (2 :: rat) powi (e - ?E) * 2 powi ?E"
    using power_int_add [of "2 :: rat" "e - ?E" ?E] by simp
  also have "(2 :: rat) powi (e - ?E) = 2 ^ nat (e - ?E)" using le by (simp add: power_int_def)
  finally have pe: "2 powi e = (2 :: rat) ^ nat (e - ?E) * 2 powi ?E" .
  have "x = of_int m * (2 ^ nat (e - ?E) * 2 powi ?E)" unfolding pe [symmetric] by (rule x)
  then have "x / 2 powi ?E = of_int (m * 2 ^ nat (e - ?E))"
    by (metis (no_types, lifting) mult.assoc nonzero_mult_div_cancel_right of_int_mult of_int_numeral of_int_power
        power_int_not_zero zero_neq_numeral)
  then have r: "of_int (round_half_even (x / 2 powi ?E)) * 2 powi ?E = x" by (metis nonzero_eq_divide_eq
        power_int_not_zero round_half_even_int zero_neq_numeral)
  have "(2 :: rat) powi (53 + e) \<le> 2 powi 1024" by (rule power_int_increasing) (use e in simp_all)
  then have "\<not> 2 powi 1024 \<le> \<bar>x\<bar>" using bx by simp
  then show ?thesis using False r by (simp add: fl_def Let_def)
qed (simp add: fl_def)

section \<open>The operations of the code\<close>

fun d_add :: "double \<Rightarrow> double \<Rightarrow> double" where
  "d_add (Fin a) (Fin b) = fl (a + b)"
| "d_add NaN y = NaN"
| "d_add x NaN = NaN"
| "d_add PInf NInf = NaN"
| "d_add NInf PInf = NaN"
| "d_add PInf y = PInf"
| "d_add NInf y = NInf"
| "d_add x PInf = PInf"
| "d_add x NInf = NInf"

fun d_neg :: "double \<Rightarrow> double" where
  "d_neg (Fin a) = Fin (- a)"
| "d_neg PInf = NInf"
| "d_neg NInf = PInf"
| "d_neg NaN = NaN"

definition d_sub :: "double \<Rightarrow> double \<Rightarrow> double" where
  "d_sub x y = d_add x (d_neg y)"

fun d_sgn :: "double \<Rightarrow> rat" where
  "d_sgn (Fin a) = sgn a"
| "d_sgn PInf = 1"
| "d_sgn NInf = -1"
| "d_sgn NaN = 0"

definition d_inf :: "rat \<Rightarrow> double" where
  "d_inf s = (if s = 0 then NaN else if 0 < s then PInf else NInf)"

definition d_mul :: "double \<Rightarrow> double \<Rightarrow> double" where
  "d_mul x y = (case (x, y) of
     (Fin a, Fin b) \<Rightarrow> fl (a * b)
   | _ \<Rightarrow> if x = NaN \<or> y = NaN then NaN else d_inf (d_sgn x * d_sgn y))"

definition d_div :: "double \<Rightarrow> double \<Rightarrow> double" where
  "d_div x y = (case (x, y) of
     (Fin a, Fin b) \<Rightarrow> if b = 0 then d_inf (sgn a) else fl (a / b)
   | (Fin a, z) \<Rightarrow> if z = NaN then NaN else Fin 0
   | (z, Fin b) \<Rightarrow> if z = NaN then NaN else d_inf (d_sgn z * (if b = 0 then 1 else sgn b))
   | _ \<Rightarrow> NaN)"

fun d_less :: "double \<Rightarrow> double \<Rightarrow> bool" where
  "d_less (Fin a) (Fin b) \<longleftrightarrow> a < b"
| "d_less NaN y \<longleftrightarrow> False"
| "d_less x NaN \<longleftrightarrow> False"
| "d_less NInf y \<longleftrightarrow> y \<noteq> NInf"
| "d_less PInf y \<longleftrightarrow> False"
| "d_less x PInf \<longleftrightarrow> True"
| "d_less x NInf \<longleftrightarrow> False"

text \<open>The conversions: an integer is rounded, a double truncated, outside the range undefined.\<close>

definition d_of_int :: "int \<Rightarrow> double" where
  "d_of_int n = fl (of_int n)"

definition u64_of_d :: "double \<Rightarrow> u64 option" where
  "u64_of_d x = (case x of
     Fin a \<Rightarrow> if -1 < a \<and> a < 2 ^ 64 then Some (word_of_int (if 0 \<le> a then \<lfloor>a\<rfloor> else 0)) else None
   | _ \<Rightarrow> None)"

abbreviation d_of_u64 :: "u64 \<Rightarrow> double" where
  "d_of_u64 w \<equiv> d_of_int (uint w)"

section \<open>Exact results\<close>

lemma representable_dyadic:
  "\<bar>m\<bar> < 2 ^ 53 \<Longrightarrow> -1074 \<le> e \<Longrightarrow> e \<le> 900 \<Longrightarrow> representable (of_int m * 2 powi e)"
  by (auto simp: representable_def)

lemma representable_int: "\<bar>m\<bar> < 2 ^ 53 \<Longrightarrow> representable (of_int m)"
  using representable_dyadic [of m 0] by simp

lemma d_of_int_exact: "\<bar>m\<bar> < 2 ^ 53 \<Longrightarrow> d_of_int m = Fin (of_int m)"
  by (simp add: d_of_int_def fl_representable representable_int)

lemma representable_scaled:
  "\<bar>m\<bar> < 2 ^ 53 \<Longrightarrow> k \<le> 900 \<Longrightarrow> representable (of_int m * 2 ^ k)"
  "\<bar>m\<bar> < 2 ^ 53 \<Longrightarrow> k \<le> 900 \<Longrightarrow> representable (of_int m / 2 ^ k)"
  using representable_dyadic [of m "int k"] representable_dyadic [of m "- int k"]
  by (simp_all add: power_int_minus divide_inverse)

text \<open>Multiplying and dividing an integer of 53 bits by a power of two.\<close>

lemma d_scale:
  assumes "\<bar>m\<bar> < 2 ^ 53" "k \<le> 900"
  shows "d_mul (Fin (of_int m)) (Fin (2 ^ k)) = Fin (of_int m * 2 ^ k)"
    "d_mul (Fin (of_int m)) (Fin (1 / 2 ^ k)) = Fin (of_int m / 2 ^ k)"
    "d_div (Fin (of_int m)) (Fin (2 ^ k)) = Fin (of_int m / 2 ^ k)"
    "d_div (Fin (of_int m)) (Fin (1 / 2 ^ k)) = Fin (of_int m * 2 ^ k)"
  using fl_representable [OF representable_scaled(1) [OF assms]]
    fl_representable [OF representable_scaled(2) [OF assms]]
  by (simp_all add: d_mul_def d_div_def)

lemma u64_of_d_nat: "0 \<le> n \<Longrightarrow> n < 2 ^ 64 \<Longrightarrow> u64_of_d (Fin (of_int n)) = Some (word_of_int n)"
proof -
  assume n: "0 \<le> n" "n < 2 ^ 64"
  then have "(of_int n :: rat) < of_int (2 ^ 64)" by (simp only: of_int_less_iff)
  then show ?thesis using n by (simp add: u64_of_d_def)
qed

end
