(* ===== verification/Rapl.thy ===== *)
theory Rapl imports Arch CDouble begin

text \<open>
  The RAPL part of intel_power_features.c that converts and caps: the units of a socket, the
  translation between register fields and watts, joules and seconds, and reading and setting
  the package's power limit. Static variables are fields of the state. log2 and pow are the
  C library's, parameters of the model; \<open>libm_ok\<close> says that they are exact where their
  result is.
\<close>

section \<open>State\<close>

datatype variorum_unit_conversions_e =
    BITS_TO_WATTS | WATTS_TO_BITS | BITS_TO_JOULES | JOULES_TO_BITS | BITS_TO_SECONDS_STD
  | SECONDS_TO_BITS_STD | BITS_TO_JOULES_DRAM

record rapl_units =
  ru_msr_rapl_power_unit :: u64
  ru_joules :: double
  ru_seconds :: double
  ru_watts :: double

record rapl_limit =
  lim_bits :: u64
  lim_watts :: double
  lim_seconds :: double
  lim_translate_bits :: int

record power_info =
  pi_msr :: u64
  pi_max_power :: double
  pi_min_power :: double
  pi_max_window :: double
  pi_therm_power :: double

record domain_data =
  dd_bits :: dests
  dd_old_bits :: "u64 list"
  dd_joules :: "double list"
  dd_old_joules :: "double list"
  dd_delta_joules :: "double list"
  dd_delta_bits :: "u64 list"
  dd_watts :: "double list"

record rapl_data =
  rd_now :: "int \<times> int"
  rd_old_now :: "int \<times> int"
  rd_elapsed :: double
  rd_pkg :: domain_data
  rd_dram :: domain_data

text \<open>The environment: the system, libm, the readings of gettimeofday and clock\_gettime, stack garbage.\<close>

text \<open>A line of output: the arguments of its fprintf.\<close>

datatype field = FS string | FI int | FX u64 | FF double

type_synonym line = "field list"

text \<open>
  jansson's objects as the calls that fill them: an object is the path that leads to it from the object
  the caller handed in, and each json\_object\_set\_new appends an entry.
\<close>

datatype json_value = J_real double | J_int u64 | J_string string | J_object | J_array "string list"

text \<open>The functions with a static flag of their own: the first call of each prints its header.\<close>

datatype static_fn =
    Print_package_power_info | Print_dram_power_info | Print_package_power_limit | Print_dram_power_limit
  | Print_power_data | Print_verbose_power_data | Get_all_power_data | Print_energy_data
  | Print_verbose_energy_data | Print_power_sensors | Print_all_sensors | Ibm_get_energy

record power_env =
  pe_sys :: sys_env
  pe_host :: string
  libm_log2 :: "double \<Rightarrow> double"
  libm_pow :: "double \<Rightarrow> double \<Rightarrow> double"
  pe_tod :: "nat \<Rightarrow> int \<times> int"
  pe_clock :: "nat \<Rightarrow> int \<times> int"
  pe_junk :: u64

definition libm_ok :: "power_env \<Rightarrow> bool" where
  "libm_ok P \<longleftrightarrow> (\<forall>n \<le> 31. libm_log2 P (Fin (2 ^ n)) = Fin (of_nat n) \<and> libm_pow P (Fin 2) (Fin (of_nat n)) = Fin (2 ^ n))"

text \<open>
  \<open>translate_ru\<close>: ru of translate; \<open>unit_val\<close>: val of get_rapl_power_unit; \<open>rapl_init\<close>: rapl_storage
  has allocated; \<open>rapl\<close>: the contents, once they are set up; \<open>read_init\<close>, \<open>delta_init\<close>: the flags
  of read_rapl_data and delta_rapl_data; \<open>inited\<close>, \<open>start_at\<close>: the flags and start times of the printing
  functions; \<open>all_limits\<close>: rlim of get_all_power_data.
\<close>

record rapl_state = arch_state +
  translate_ru :: "rapl_units list option"
  unit_val :: "dests option"
  rapl_init :: bool
  rapl :: "rapl_data option"
  read_init :: bool
  delta_init :: bool
  tod_calls :: nat
  printed :: "line list"
  inited :: "static_fn set"
  start_at :: "static_fn \<Rightarrow> int \<times> int"
  all_limits :: "rapl_limit list"
  json_sets :: "(string list \<times> json_value) list"

text \<open>P\_INTEL\_CPU\_IDX is the first enumerator whenever it exists.\<close>

definition P_INTEL_CPU_IDX :: nat where "P_INTEL_CPU_IDX = 0"

lemma P_INTEL_CPU_IDX_eq: "P_IDX b INTEL_CPU = P_INTEL_CPU_IDX"
  by (simp add: P_IDX_def platform_enum_def P_INTEL_CPU_IDX_def)

abbreviation pe_os :: "power_env \<Rightarrow> os_env" where "pe_os P \<equiv> sys_os (pe_sys P)"
abbreviation pe_hw :: "power_env \<Rightarrow> hwloc" where "pe_hw P \<equiv> sys_hw (pe_sys P)"

section \<open>Calls of the MSR layer\<close>

text \<open>Each of them asks for the topology of P\_MSR\_CORE\_IDX first.\<close>

definition call_read_coord ::
  "power_env \<Rightarrow> u32 \<Rightarrow> u64 \<Rightarrow> u64 \<Rightarrow> 'a arch_state_scheme \<Rightarrow> (int \<times> u64 \<times> 'a arch_state_scheme) option" where
  "call_read_coord P socket msr v s = do {
     (T, s) \<leftarrow> get_topo (pe_hw P) (p_msr_core_idx s) s;
     (rc, v, s) \<leftarrow> read_msr_by_coord (pe_os P) T socket 0 0 msr (Some v) s;
     v \<leftarrow> v;
     Some (rc, v, s)
   }"

definition call_write_coord ::
  "power_env \<Rightarrow> u32 \<Rightarrow> u64 \<Rightarrow> u64 \<Rightarrow> 'a arch_state_scheme \<Rightarrow> (int \<times> 'a arch_state_scheme) option" where
  "call_write_coord P socket msr v s = do {
     (T, s) \<leftarrow> get_topo (pe_hw P) (p_msr_core_idx s) s;
     write_msr_by_coord (pe_os P) T socket 0 0 msr v s
   }"

definition call_sockets_assert :: "power_env \<Rightarrow> u32 \<Rightarrow> 'a arch_state_scheme \<Rightarrow> 'a arch_state_scheme option" where
  "call_sockets_assert P socket s = do {
     (T, s) \<leftarrow> get_topo (pe_hw P) (p_msr_core_idx s) s;
     Some (snd (sockets_assert T socket s))
   }"

definition call_load_socket_batch ::
  "power_env \<Rightarrow> u64 \<Rightarrow> dests \<Rightarrow> int \<Rightarrow> 'a arch_state_scheme \<Rightarrow> (dests \<times> 'a arch_state_scheme) option" where
  "call_load_socket_batch P msr val batchnum s = do {
     (T, s) \<leftarrow> get_topo (pe_hw P) (p_msr_core_idx s) s;
     (_, val, s) \<leftarrow> load_socket_batch T msr (Some val) batchnum s;
     val \<leftarrow> val;
     Some (val, s)
   }"

definition call_read_batch :: "power_env \<Rightarrow> int \<Rightarrow> 'a arch_state_scheme \<Rightarrow> (int \<times> 'a arch_state_scheme) option" where
  "call_read_batch P batchnum s = do {
     (T, s) \<leftarrow> get_topo (pe_hw P) (p_msr_core_idx s) s;
     read_batch (pe_os P) T batchnum s
   }"

text \<open>\<open>*val[i]\<close> of an array of destinations.\<close>

definition deref_at :: "dests \<Rightarrow> nat \<Rightarrow> 'a batch_state_scheme \<Rightarrow> u64 option" where
  "deref_at val i s =
    (if i < length val then
       case val ! i of
         None \<Rightarrow> None
       | Some p \<Rightarrow> if fst p < length (blocks s) \<and> snd p < length (blocks s ! fst p) then Some (deref_dest s p) else None
     else None)"

section \<open>Units\<close>

text \<open>\<open>1 << n\<close> of an int: shifting into or past the sign bit is undefined.\<close>

definition shift_one :: "u64 \<Rightarrow> double option" where
  "shift_one n = (if unat n < 31 then Some (d_of_int (2 ^ unat n)) else None)"

definition units_of :: "u64 \<Rightarrow> rapl_units option" where
  "units_of w = do {
     sec \<leftarrow> shift_one (MASK_VAL w 19 16);
     jou \<leftarrow> shift_one (MASK_VAL w 12 8);
     wat \<leftarrow> shift_one (MASK_VAL w 3 0);
     Some \<lparr>ru_msr_rapl_power_unit = w, ru_joules = jou, ru_seconds = sec, ru_watts = d_div (Fin 1) wat\<rparr>
   }"

fun units_loop :: "dests \<Rightarrow> nat list \<Rightarrow> 'a batch_state_scheme \<Rightarrow> rapl_units list option" where
  "units_loop val [] s = Some []"
| "units_loop val (i # is) s = do {
     w \<leftarrow> deref_at val i s;
     u \<leftarrow> units_of w;
     us \<leftarrow> units_loop val is s;
     Some (u # us)
   }"

text \<open>Batch numbers of enum variorum\_data\_type\_e.\<close>

definition RAPL_DATA :: int where "RAPL_DATA = 0"
definition RAPL_UNIT :: int where "RAPL_UNIT = 1"

text \<open>The address is used by the first call only, which loads the batch.\<close>

definition get_rapl_power_unit ::
  "power_env \<Rightarrow> u64 \<Rightarrow> 'a rapl_state_scheme \<Rightarrow> (rapl_units list \<times> 'a rapl_state_scheme) option" where
  "get_rapl_power_unit P msr s = do {
     (T, s) \<leftarrow> get_topo (pe_hw P) P_INTEL_CPU_IDX s;
     (val, s) \<leftarrow> (case unit_val s of
         Some val \<Rightarrow> Some (val, s)
       | None \<Rightarrow> do {
           (_, s) \<leftarrow> allocate_batch RAPL_UNIT (ucast (nsockets T)) s;
           (val, s) \<leftarrow> call_load_socket_batch P msr (replicate (unat (nsockets T)) None) RAPL_UNIT s;
           Some (val, s\<lparr>unit_val := Some val\<rparr>)
         });
     (_, s) \<leftarrow> call_read_batch P RAPL_UNIT s;
     us \<leftarrow> units_loop val [0..<unat (nsockets T)] s;
     Some (us, s)
   }"

section \<open>Translation\<close>

definition STD_ENERGY_UNIT :: double where "STD_ENERGY_UNIT = Fin 65536"

text \<open>
  The conversions by the units of a socket: the new \<open>*bits\<close> and \<open>*units\<close>. None: a double that does
  not fit an unsigned 64-bit integer.
\<close>

definition seconds_field :: "power_env \<Rightarrow> double \<Rightarrow> u64 option" where
  "seconds_field P x = do {
     let l = libm_log2 P x;
     y \<leftarrow> u64_of_d l;
     let r = d_sub l (d_of_u64 y);
     let z = (if d_less (fl (15 / 100)) r \<and> \<not> d_less (fl (45 / 100)) r then 1
              else if d_less (fl (45 / 100)) r \<and> \<not> d_less (fl (7 / 10)) r then 2
              else if d_less (fl (7 / 10)) r then 3 else 0 :: u64);
     Some (y OR push_bit 5 z)
   }"

definition seconds_value :: "power_env \<Rightarrow> u64 \<Rightarrow> double \<Rightarrow> double" where
  "seconds_value P bits sec =
    (let y = bits AND 0x1F; z = drop_bit 5 (bits AND 0x60)
     in d_div (d_mul (d_add (Fin 1) (d_mul (Fin (1 / 4)) (d_of_u64 z))) (libm_pow P (Fin 2) (d_of_u64 y))) sec)"

definition convert ::
  "power_env \<Rightarrow> rapl_units \<Rightarrow> variorum_unit_conversions_e \<Rightarrow> u64 \<Rightarrow> double \<Rightarrow> (u64 \<times> double) option" where
  "convert P ru type bits units =
    (case type of
       BITS_TO_WATTS \<Rightarrow> Some (bits, d_mul (d_of_u64 bits) (ru_watts ru))
     | BITS_TO_JOULES_DRAM \<Rightarrow> Some (bits, d_div (d_of_u64 bits) (ru_joules ru))
     | BITS_TO_JOULES \<Rightarrow> Some (bits, d_div (d_of_u64 bits) (ru_joules ru))
     | WATTS_TO_BITS \<Rightarrow> map_option (\<lambda>b. (b, units)) (u64_of_d (d_div units (ru_watts ru)))
     | JOULES_TO_BITS \<Rightarrow> map_option (\<lambda>b. (b, units)) (u64_of_d (d_mul units (ru_joules ru)))
     | BITS_TO_SECONDS_STD \<Rightarrow> Some (bits, seconds_value P bits (ru_seconds ru))
     | SECONDS_TO_BITS_STD \<Rightarrow> map_option (\<lambda>b. (b, units)) (seconds_field P (d_mul units (ru_seconds ru))))"

text \<open>
  The units are read once, by the first call, with the address that call was given. Only the
  DRAM conversion looks at the model number: Haswell (63) and Broadwell (79) have a fixed unit.
\<close>

definition translate ::
  "power_env \<Rightarrow> u32 \<Rightarrow> u64 \<Rightarrow> double \<Rightarrow> variorum_unit_conversions_e \<Rightarrow> u64 \<Rightarrow> nat \<Rightarrow> 'a rapl_state_scheme \<Rightarrow>
    (u64 \<times> double \<times> 'a rapl_state_scheme) option" where
  "translate P socket bits units type msr idx s = do {
     (us, s) \<leftarrow> (case translate_ru s of
         Some us \<Rightarrow> Some (us, s)
       | None \<Rightarrow> do {
           (_, s) \<leftarrow> get_topo (pe_hw P) P_INTEL_CPU_IDX s;
           (us, s) \<leftarrow> get_rapl_power_unit P msr s;
           Some (us, s\<lparr>translate_ru := Some us\<rparr>)
         });
     arch \<leftarrow> (if type = BITS_TO_JOULES_DRAM then platform_arch idx s else Some 0);
     if arch = 63 \<or> arch = 79 then Some (bits, d_div (d_of_u64 bits) STD_ENERGY_UNIT, s)
     else if unat socket < length us then do {
       (bits, units) \<leftarrow> convert P (us ! unat socket) type bits units;
       Some (bits, units, s)
     } else None
   }"

section \<open>Limits\<close>

definition calc_rapl_bits ::
  "power_env \<Rightarrow> u32 \<Rightarrow> rapl_limit \<Rightarrow> nat \<Rightarrow> u64 \<Rightarrow> 'a rapl_state_scheme \<Rightarrow> (int \<times> rapl_limit \<times> 'a rapl_state_scheme) option" where
  "calc_rapl_bits P socket limit offset msr s = do {
     let watts_bits = MASK_VAL (lim_bits limit) (14 + offset) (0 + offset);
     let seconds_bits = MASK_VAL (lim_bits limit) (23 + offset) (17 + offset);
     (seconds_bits, sec, s) \<leftarrow> translate P socket seconds_bits (lim_seconds limit) SECONDS_TO_BITS_STD msr P_INTEL_CPU_IDX s;
     (watts_bits, wat, s) \<leftarrow> translate P socket watts_bits (lim_watts limit) WATTS_TO_BITS msr P_INTEL_CPU_IDX s;
     let limit = limit\<lparr>lim_watts := wat, lim_seconds := sec\<rparr>;
     if d_less (d_sub (libm_pow P (Fin 2) (Fin 15)) (Fin 1)) (d_of_u64 watts_bits)
     then Some (-1, limit, variorum_error_handler VARIORUM_ERROR_INVAL s)
     else
       let b = lim_bits limit OR push_bit (0 + offset) watts_bits OR push_bit (17 + offset) seconds_bits
       in Some (0, limit\<lparr>lim_bits := b\<rparr>, s)
   }"

text \<open>translate returns 0, so the check of its results never fires.\<close>

definition calc_rapl_from_bits ::
  "power_env \<Rightarrow> u32 \<Rightarrow> rapl_limit \<Rightarrow> nat \<Rightarrow> u64 \<Rightarrow> 'a rapl_state_scheme \<Rightarrow> (int \<times> rapl_limit \<times> 'a rapl_state_scheme) option" where
  "calc_rapl_from_bits P socket limit offset msr s = do {
     s \<leftarrow> call_sockets_assert P socket s;
     let watts_bits = MASK_VAL (lim_bits limit) (14 + offset) (0 + offset);
     let seconds_bits = MASK_VAL (lim_bits limit) (23 + offset) (17 + offset);
     (_, wat, s) \<leftarrow> translate P socket watts_bits (lim_watts limit) BITS_TO_WATTS msr P_INTEL_CPU_IDX s;
     (_, sec, s) \<leftarrow> translate P socket seconds_bits (lim_seconds limit) BITS_TO_SECONDS_STD msr P_INTEL_CPU_IDX s;
     Some (0, limit\<lparr>lim_watts := wat, lim_seconds := sec\<rparr>, s)
   }"

definition calc_limit ::
  "power_env \<Rightarrow> u32 \<Rightarrow> rapl_limit option \<Rightarrow> nat \<Rightarrow> u64 \<Rightarrow> 'a rapl_state_scheme \<Rightarrow>
    (int \<times> rapl_limit option \<times> 'a rapl_state_scheme) option" where
  "calc_limit P socket limit offset msr s =
    (case limit of
       None \<Rightarrow> Some (0, None, s)
     | Some l \<Rightarrow>
         if lim_translate_bits l = 1 then map_option (\<lambda>(rc, l, s). (rc, Some l, s)) (calc_rapl_from_bits P socket l offset msr s)
         else if lim_translate_bits l = 0 then map_option (\<lambda>(rc, l, s). (rc, Some l, s)) (calc_rapl_bits P socket l offset msr s)
         else Some (0, Some l, s))"

definition calc_package_rapl_limit ::
  "power_env \<Rightarrow> u32 \<Rightarrow> rapl_limit option \<Rightarrow> rapl_limit option \<Rightarrow> u64 \<Rightarrow> 'a rapl_state_scheme \<Rightarrow>
    (int \<times> rapl_limit option \<times> rapl_limit option \<times> 'a rapl_state_scheme) option" where
  "calc_package_rapl_limit P socket limit1 limit2 msr s = do {
     (rc, limit1, s) \<leftarrow> calc_limit P socket limit1 0 msr s;
     if rc \<noteq> 0 then Some (-1, limit1, limit2, s)
     else do {
       (rc, limit2, s) \<leftarrow> calc_limit P socket limit2 32 msr s;
       Some (if rc \<noteq> 0 then -1 else 0, limit1, limit2, s)
     }
   }"

definition calc_dram_rapl_limit ::
  "power_env \<Rightarrow> u32 \<Rightarrow> rapl_limit option \<Rightarrow> u64 \<Rightarrow> 'a rapl_state_scheme \<Rightarrow>
    (int \<times> rapl_limit option \<times> 'a rapl_state_scheme) option" where
  "calc_dram_rapl_limit P socket limit msr s = do {
     (rc, limit, s) \<leftarrow> calc_limit P socket limit 0 msr s;
     Some (if rc \<noteq> 0 then -1 else 0, limit, s)
   }"

text \<open>Reading the limits; what read\_msr\_by\_coord returns is not looked at.\<close>

definition read_limit ::
  "power_env \<Rightarrow> u32 \<Rightarrow> rapl_limit option \<Rightarrow> u64 \<Rightarrow> 'a rapl_state_scheme \<Rightarrow>
    (rapl_limit option \<times> 'a rapl_state_scheme) option" where
  "read_limit P socket limit msr_power_limit s =
    (case limit of
       None \<Rightarrow> Some (None, s)
     | Some l \<Rightarrow> do {
         (_, v, s) \<leftarrow> call_read_coord P socket msr_power_limit (lim_bits l) s;
         Some (Some (l\<lparr>lim_bits := v, lim_translate_bits := 1\<rparr>), s)
       })"

definition get_package_rapl_limit ::
  "power_env \<Rightarrow> u32 \<Rightarrow> rapl_limit option \<Rightarrow> rapl_limit option \<Rightarrow> u64 \<Rightarrow> u64 \<Rightarrow> 'a rapl_state_scheme \<Rightarrow>
    (int \<times> rapl_limit option \<times> rapl_limit option \<times> 'a rapl_state_scheme) option" where
  "get_package_rapl_limit P socket limit1 limit2 msr_power_limit msr_rapl_unit s = do {
     (limit1, s) \<leftarrow> read_limit P socket limit1 msr_power_limit s;
     (limit2, s) \<leftarrow> read_limit P socket limit2 msr_power_limit s;
     (_, limit1, limit2, s) \<leftarrow> calc_package_rapl_limit P socket limit1 limit2 msr_rapl_unit s;
     Some (0 :: int, limit1, limit2, s)
   }"

definition get_dram_rapl_limit ::
  "power_env \<Rightarrow> u32 \<Rightarrow> rapl_limit option \<Rightarrow> u64 \<Rightarrow> u64 \<Rightarrow> 'a rapl_state_scheme \<Rightarrow>
    (int \<times> rapl_limit option \<times> 'a rapl_state_scheme) option" where
  "get_dram_rapl_limit P socket limit msr_power_limit msr_rapl_unit s = do {
     (limit, s) \<leftarrow> read_limit P socket limit msr_power_limit s;
     (_, limit, s) \<leftarrow> calc_dram_rapl_limit P socket limit msr_rapl_unit s;
     Some (0 :: int, limit, s)
   }"

text \<open>
  limit1 is allocated, limit2 is NULL: the upper 32 bits of the register are kept, and the
  lower ones composed anew with the enable and clamping bits 15 and 16.
\<close>

definition cap_package_power_limit ::
  "power_env \<Rightarrow> u32 \<Rightarrow> int \<Rightarrow> u64 \<Rightarrow> u64 \<Rightarrow> 'a rapl_state_scheme \<Rightarrow> (int \<times> 'a rapl_state_scheme) option" where
  "cap_package_power_limit P socket package_power_limit msr_power_limit msr_rapl_unit s = do {
     let limit1 = \<lparr>lim_bits = 0, lim_watts = d_of_int package_power_limit, lim_seconds = Fin 1, lim_translate_bits = 0\<rparr>;
     s \<leftarrow> call_sockets_assert P socket s;
     (ret, currentval, s) \<leftarrow> call_read_coord P socket msr_power_limit 0 s;
     let val = currentval AND 0xFFFFFFFF00000000;
     (rc, limit1, _, s) \<leftarrow> calc_package_rapl_limit P socket (Some limit1) None msr_rapl_unit s;
     if rc \<noteq> 0 then Some (-1, s)
     else do {
       l1 \<leftarrow> limit1;
       let val = val OR (lim_bits l1 OR push_bit 15 1 OR push_bit 16 1);
       (rc, s) \<leftarrow> call_write_coord P socket msr_power_limit val s;
       Some (ret + rc, s)
     }
   }"

section \<open>Power information\<close>

text \<open>The package and the DRAM function differ in the names of their fields only.\<close>

definition power_info_of ::
  "power_env \<Rightarrow> u32 \<Rightarrow> u64 \<Rightarrow> u64 \<Rightarrow> 'a rapl_state_scheme \<Rightarrow> (int \<times> power_info \<times> 'a rapl_state_scheme) option" where
  "power_info_of P socket junk msr s = do {
     s \<leftarrow> call_sockets_assert P socket s;
     (_, w, s) \<leftarrow> call_read_coord P socket msr junk s;
     (_, win, s) \<leftarrow> translate P socket (MASK_VAL w 54 48) (Fin 0) BITS_TO_SECONDS_STD msr P_INTEL_CPU_IDX s;
     (_, mx, s) \<leftarrow> translate P socket (MASK_VAL w 46 32) (Fin 0) BITS_TO_WATTS msr P_INTEL_CPU_IDX s;
     (_, mn, s) \<leftarrow> translate P socket (MASK_VAL w 30 16) (Fin 0) BITS_TO_WATTS msr P_INTEL_CPU_IDX s;
     (_, th, s) \<leftarrow> translate P socket (MASK_VAL w 14 0) (Fin 0) BITS_TO_WATTS msr P_INTEL_CPU_IDX s;
     Some (0 :: int, \<lparr>pi_msr = w, pi_max_power = mx, pi_min_power = mn, pi_max_window = win, pi_therm_power = th\<rparr>, s)
   }"

definition get_rapl_pkg_power_info ::
  "power_env \<Rightarrow> u32 \<Rightarrow> u64 \<Rightarrow> 'a rapl_state_scheme \<Rightarrow> (int \<times> power_info \<times> 'a rapl_state_scheme) option" where
  "get_rapl_pkg_power_info P socket msr s = power_info_of P socket (pe_junk P) msr s"

definition get_rapl_dram_power_info ::
  "power_env \<Rightarrow> u32 \<Rightarrow> u64 \<Rightarrow> 'a rapl_state_scheme \<Rightarrow> (int \<times> power_info \<times> 'a rapl_state_scheme) option" where
  "get_rapl_dram_power_info P socket msr s = power_info_of P socket (pe_junk P) msr s"

end
