(* ===== verification/Rapl_Energy.thy ===== *)
theory Rapl_Energy imports Rapl begin

text \<open>
  The energy half of intel_power_features.c: the storage all callers share, the batch that reads
  the energy counters of every socket, the differences between two samples, and power. The
  arrays of struct rapl_data for the package and for DRAM are two records of the same type.
\<close>

section \<open>Storage\<close>

definition rapl_storage :: "power_env \<Rightarrow> 'a rapl_state_scheme \<Rightarrow> (int \<times> 'a rapl_state_scheme) option" where
  "rapl_storage P s =
    (if rapl_init s then Some (0, s)
     else do {
       (_, s) \<leftarrow> get_topo (pe_hw P) P_INTEL_CPU_IDX s;
       Some (0, s\<lparr>rapl_init := True\<rparr>)
     })"

text \<open>The arrays calloc returns, of n zeros each.\<close>

definition new_domain :: "nat \<Rightarrow> dests \<Rightarrow> domain_data" where
  "new_domain n bits = \<lparr>dd_bits = bits, dd_old_bits = replicate n 0, dd_joules = replicate n (Fin 0),
     dd_old_joules = replicate n (Fin 0), dd_delta_joules = replicate n (Fin 0), dd_delta_bits = replicate n 0,
     dd_watts = replicate n (Fin 0)\<rparr>"

definition create_rapl_data_batch ::
  "power_env \<Rightarrow> u64 \<Rightarrow> u64 \<Rightarrow> 'a rapl_state_scheme \<Rightarrow> (domain_data \<times> domain_data \<times> 'a rapl_state_scheme) option" where
  "create_rapl_data_batch P msr_pkg_energy_status msr_dram_energy_status s = do {
     (T, s) \<leftarrow> get_topo (pe_hw P) P_INTEL_CPU_IDX s;
     let n = unat (nsockets T);
     (_, s) \<leftarrow> allocate_batch RAPL_DATA (2 * ucast (nsockets T)) s;
     (pkg_bits, s) \<leftarrow> call_load_socket_batch P msr_pkg_energy_status (replicate n None) RAPL_DATA s;
     (dram_bits, s) \<leftarrow> call_load_socket_batch P msr_dram_energy_status (replicate n None) RAPL_DATA s;
     Some (new_domain n pkg_bits, new_domain n dram_bits, s)
   }"

section \<open>Reading\<close>

definition gettimeofday :: "power_env \<Rightarrow> 'a rapl_state_scheme \<Rightarrow> (int \<times> int) \<times> 'a rapl_state_scheme" where
  "gettimeofday P s = (pe_tod P (tod_calls s), s\<lparr>tod_calls := tod_calls s + 1\<rparr>)"

text \<open>Seconds between two readings; the differences are integers, the division by 1000000.0 is not.\<close>

definition tv_diff :: "int \<times> int \<Rightarrow> int \<times> int \<Rightarrow> double" where
  "tv_diff now old = d_add (d_of_int (fst now - fst old)) (d_div (d_of_int (snd now - snd old)) (Fin 1000000))"

text \<open>What was current becomes old.\<close>

fun old_bits_loop :: "dests \<Rightarrow> nat list \<Rightarrow> 'a batch_state_scheme \<Rightarrow> u64 list option" where
  "old_bits_loop val [] s = Some []"
| "old_bits_loop val (i # is) s = do {
     w \<leftarrow> deref_at val i s;
     ws \<leftarrow> old_bits_loop val is s;
     Some (w # ws)
   }"

definition age_domain :: "domain_data \<Rightarrow> 'a batch_state_scheme \<Rightarrow> domain_data option" where
  "age_domain d s = do {
     ws \<leftarrow> old_bits_loop (dd_bits d) [0..<length (dd_joules d)] s;
     Some (d\<lparr>dd_old_bits := ws, dd_old_joules := dd_joules d\<rparr>)
   }"

text \<open>The counters of the sockets in joules.\<close>

fun joules_loop ::
  "power_env \<Rightarrow> u64 \<Rightarrow> nat list \<Rightarrow> rapl_data \<Rightarrow> 'a rapl_state_scheme \<Rightarrow> (rapl_data \<times> 'a rapl_state_scheme) option" where
  "joules_loop P msr_rapl_unit [] r s = Some (r, s)"
| "joules_loop P msr_rapl_unit (i # is) r s = do {
     w \<leftarrow> deref_at (dd_bits (rd_pkg r)) i s;
     (_, j, s) \<leftarrow> translate P (of_nat i) w (dd_joules (rd_pkg r) ! i) BITS_TO_JOULES msr_rapl_unit P_INTEL_CPU_IDX s;
     let r = r\<lparr>rd_pkg := (rd_pkg r)\<lparr>dd_joules := (dd_joules (rd_pkg r))[i := j]\<rparr>\<rparr>;
     w \<leftarrow> deref_at (dd_bits (rd_dram r)) i s;
     (_, j, s) \<leftarrow> translate P (of_nat i) w (dd_joules (rd_dram r) ! i) BITS_TO_JOULES_DRAM msr_rapl_unit P_INTEL_CPU_IDX s;
     let r = r\<lparr>rd_dram := (rd_dram r)\<lparr>dd_joules := (dd_joules (rd_dram r))[i := j]\<rparr>\<rparr>;
     joules_loop P msr_rapl_unit is r s
   }"

text \<open>
  The first call sets the storage up, with no time elapsed; the later ones age the data first.
  What read\_batch returns is not looked at.
\<close>

definition first_rapl_data ::
  "power_env \<Rightarrow> u64 \<Rightarrow> u64 \<Rightarrow> 'a rapl_state_scheme \<Rightarrow> (rapl_data \<times> 'a rapl_state_scheme) option" where
  "first_rapl_data P msr_pkg_energy_status msr_dram_energy_status s = do {
     (_, s) \<leftarrow> get_topo (pe_hw P) P_INTEL_CPU_IDX s;
     (_, s) \<leftarrow> rapl_storage P s;
     (pkg, dram, s) \<leftarrow> create_rapl_data_batch P msr_pkg_energy_status msr_dram_energy_status s;
     Some (\<lparr>rd_now = (0, 0), rd_old_now = (0, 0), rd_elapsed = Fin 0, rd_pkg = pkg, rd_dram = dram\<rparr>, s)
   }"

definition read_rapl_data ::
  "power_env \<Rightarrow> u64 \<Rightarrow> u64 \<Rightarrow> u64 \<Rightarrow> 'a rapl_state_scheme \<Rightarrow> (int \<times> 'a rapl_state_scheme) option" where
  "read_rapl_data P msr_rapl_unit msr_pkg_energy_status msr_dram_energy_status s = do {
     let init = read_init s;
     (r, s) \<leftarrow> (if \<not> init then first_rapl_data P msr_pkg_energy_status msr_dram_energy_status s
               else do { r \<leftarrow> rapl s; Some (r, s) });
     let (now, s) = gettimeofday P s;
     let r = r\<lparr>rd_now := now, rd_old_now := rd_now r\<rparr>;
     (r, s) \<leftarrow> (if init then do {
         let r = r\<lparr>rd_elapsed := tv_diff (rd_now r) (rd_old_now r)\<rparr>;
         let s = (if d_less (rd_elapsed r) (Fin 0) then variorum_error_handler VARIORUM_ERROR_INVAL s else s);
         pkg \<leftarrow> age_domain (rd_pkg r) s;
         dram \<leftarrow> age_domain (rd_dram r) s;
         Some (r\<lparr>rd_pkg := pkg, rd_dram := dram\<rparr>, s)
       } else Some (r, s));
     (_, s) \<leftarrow> call_read_batch P RAPL_DATA s;
     (r, s) \<leftarrow> joules_loop P msr_rapl_unit [0..<length (dd_joules (rd_pkg r))] r s;
     Some (0, s\<lparr>rapl := Some r, read_init := True\<rparr>)
   }"

section \<open>Differences and power\<close>

definition UINT_MAX :: u64 where "UINT_MAX = 4294967295"

text \<open>
  One domain of one socket. A counter that is below its old value is taken to have wrapped around;
  both domains convert that difference with BITS\_TO\_JOULES.
\<close>

definition delta_domain ::
  "power_env \<Rightarrow> u64 \<Rightarrow> nat \<Rightarrow> domain_data \<Rightarrow> 'a rapl_state_scheme \<Rightarrow> (domain_data \<times> 'a rapl_state_scheme) option" where
  "delta_domain P msr_rapl_unit i d s = do {
     new \<leftarrow> deref_at (dd_bits d) i s;
     let old = dd_old_bits d ! i;
     (d, s) \<leftarrow> (if d_less (d_sub (d_of_u64 new) (d_of_u64 old)) (Fin 0) then do {
         let db = (new + UINT_MAX) - old;
         (db, j, s) \<leftarrow> translate P (of_nat i) db (dd_delta_joules d ! i) BITS_TO_JOULES msr_rapl_unit P_INTEL_CPU_IDX s;
         Some (d\<lparr>dd_delta_bits := (dd_delta_bits d)[i := db], dd_delta_joules := (dd_delta_joules d)[i := j]\<rparr>, s)
       } else Some (d\<lparr>dd_delta_joules := (dd_delta_joules d)[i := d_sub (dd_joules d ! i) (dd_old_joules d ! i)]\<rparr>, s));
     Some (d, if d_less (dd_delta_joules d ! i) (Fin 0) then variorum_error_handler VARIORUM_ERROR_INVAL s else s)
   }"

definition set_watts :: "double \<Rightarrow> nat \<Rightarrow> domain_data \<Rightarrow> domain_data" where
  "set_watts elapsed i d =
     d\<lparr>dd_watts := (dd_watts d)[i := (if d_less (Fin 0) elapsed then d_div (dd_delta_joules d ! i) elapsed else Fin 0)]\<rparr>"

fun delta_loop ::
  "power_env \<Rightarrow> u64 \<Rightarrow> nat list \<Rightarrow> rapl_data \<Rightarrow> 'a rapl_state_scheme \<Rightarrow> (rapl_data \<times> 'a rapl_state_scheme) option" where
  "delta_loop P msr_rapl_unit [] r s = Some (r, s)"
| "delta_loop P msr_rapl_unit (i # is) r s = do {
     (pkg, s) \<leftarrow> delta_domain P msr_rapl_unit i (rd_pkg r) s;
     (dram, s) \<leftarrow> delta_domain P msr_rapl_unit i (rd_dram r) s;
     delta_loop P msr_rapl_unit is
       (r\<lparr>rd_pkg := set_watts (rd_elapsed r) i pkg, rd_dram := set_watts (rd_elapsed r) i dram\<rparr>) s
   }"

definition zero_watts :: "domain_data \<Rightarrow> domain_data" where
  "zero_watts d = d\<lparr>dd_watts := map (\<lambda>_. Fin 0) (dd_watts d)\<rparr>"

definition delta_rapl_data :: "power_env \<Rightarrow> u64 \<Rightarrow> 'a rapl_state_scheme \<Rightarrow> (int \<times> 'a rapl_state_scheme) option" where
  "delta_rapl_data P msr_rapl_unit s =
    (if \<not> delta_init s then do {
       (_, s) \<leftarrow> get_topo (pe_hw P) P_INTEL_CPU_IDX s;
       (_, s) \<leftarrow> rapl_storage P s;
       r \<leftarrow> rapl s;
       let r = r\<lparr>rd_elapsed := Fin 0, rd_pkg := zero_watts (rd_pkg r), rd_dram := zero_watts (rd_dram r)\<rparr>;
       Some (0, s\<lparr>rapl := Some r, delta_init := True\<rparr>)
     } else do {
       r \<leftarrow> rapl s;
       (r, s) \<leftarrow> delta_loop P msr_rapl_unit [0..<length (dd_joules (rd_pkg r))] r s;
       Some (0, s\<lparr>rapl := Some r\<rparr>)
     })"

text \<open>get\_power of the C file; malloc does not fail here, so that its check for NULL never fires.\<close>

definition rapl_get_power ::
  "power_env \<Rightarrow> u64 \<Rightarrow> u64 \<Rightarrow> u64 \<Rightarrow> 'a rapl_state_scheme \<Rightarrow> (int \<times> 'a rapl_state_scheme) option" where
  "rapl_get_power P msr_rapl_unit msr_pkg_energy_status msr_dram_energy_status s = do {
     (_, s) \<leftarrow> get_topo (pe_hw P) P_INTEL_CPU_IDX s;
     (_, s) \<leftarrow> rapl_storage P s;
     (_, s) \<leftarrow> read_rapl_data P msr_rapl_unit msr_pkg_energy_status msr_dram_energy_status s;
     (_, s) \<leftarrow> delta_rapl_data P msr_rapl_unit s;
     Some (0, s)
   }"

end
