(* ===== verification/Arch_Facts.thy ===== *)
theory Arch_Facts imports Arch begin

text \<open>
  Properties of detection, installation, variorum_enter and variorum_exit: the installed functions
  belong to the detected model, an Intel build is ready for register access after a
  successful enter, enter and exit undo each other, and where errors get lost.
\<close>

section \<open>Topology calls that succeed\<close>

definition hwloc_good :: "hwloc \<Rightarrow> bool" where
  "hwloc_good H \<longleftrightarrow> hwloc_counts H \<and> hwloc_topology_init H = 0 \<and> hwloc_topology_load H = 0 \<and>
     topology_accepted H"

definition machine_topo :: "hwloc \<Rightarrow> topo" where
  "machine_topo H = topo_of (fill_platform H zero_platform)"

lemma topo_of_fill [simp]: "topo_of (fill_platform H p) = machine_topo H"
  by (simp add: machine_topo_def topo_of_def fill_platform_def)

lemma machine_topo_ok: "hwloc_good H \<Longrightarrow> topo_ok (machine_topo H)"
  using topo_ok_fill [of H zero_platform] by (simp add: hwloc_good_def)

lemma fill_platform_idem [simp]: "fill_platform H (fill_platform H p) = fill_platform H p"
  by (simp add: fill_platform_def)

lemma get_topo_good:
  assumes "hwloc_good H" "idx < length (g_platform s)"
  shows "get_topo H idx s = Some (machine_topo H,
    (upd_platform idx (fill_platform H) s)\<lparr>init_variorum_init_topology := True\<rparr>)"
  using get_topology_cases [OF assms(2)] assms(1) by (simp add: get_topo_def hwloc_good_def)

section \<open>What set\_intel\_func\_ptrs installs\<close>

fun intel_ptrs :: "intel_model \<Rightarrow> (slot \<times> handler) list" where
  "intel_ptrs M_06_2A = ptrs_06_2a"
| "intel_ptrs M_06_2D = ptrs_06_2d"
| "intel_ptrs M_06_3E = ptrs_06_3e"
| "intel_ptrs M_06_3F = ptrs_06_3f"
| "intel_ptrs M_06_4F = ptrs_06_4f"
| "intel_ptrs M_06_55 = ptrs_06_55"
| "intel_ptrs M_06_9E = ptrs_06_9e"
| "intel_ptrs M_06_6A = ptrs_06_6a"
| "intel_ptrs M_06_8F = ptrs_06_8f"

lemma FM_inj [simp]: "FM M = FM N \<longleftrightarrow> M = N"
  by (cases M; cases N) simp_all

definition gpu_stub :: "platform \<Rightarrow> platform" where
  "gpu_stub = install [(Cap_gpu_power_ratio, gpu_power_ratio_unimplemented)]"

lemma set_platform_Some: "idx < length (g_platform s) \<Longrightarrow> set_platform idx f s = Some (upd_platform idx f s)"
  by (simp add: set_platform_def)

lemma set_intel_func_ptrs_known:
  assumes "idx < length (g_platform s)" "arch_id (g_platform s ! idx) = Live (FM M)"
  shows "set_intel_func_ptrs idx s = Some (0, upd_platform idx (install (intel_ptrs M) \<circ> gpu_stub) s)"
  using assms
  by (cases M) (simp_all add: set_intel_func_ptrs_def set_platform_Some platform_arch_def Let_def gpu_stub_def)

lemma set_intel_func_ptrs_unknown:
  assumes "idx < length (g_platform s)" "arch_id (g_platform s ! idx) = Live m" "m \<notin> range FM"
  shows "set_intel_func_ptrs idx s =
    Some (err_code VARIORUM_ERROR_UNSUPPORTED_PLATFORM, upd_platform idx gpu_stub s)"
proof -
  have "m \<noteq> FM M" for M using assms(3) by auto
  note ne = this [of M_06_2A] this [of M_06_2D] this [of M_06_3E] this [of M_06_3F] this [of M_06_4F]
    this [of M_06_55] this [of M_06_9E] this [of M_06_6A] this [of M_06_8F]
  show ?thesis using assms(1,2) ne
    by (simp add: set_intel_func_ptrs_def set_platform_Some platform_arch_def Let_def gpu_stub_def)
qed

text \<open>Every entry of a table names a function of its own model.\<close>

lemma intel_ptrs_own:
  "list_all (\<lambda>(sl, h). case h of intel_cpu_fm N o' \<Rightarrow> N = M | _ \<Rightarrow> False) (intel_ptrs M)"
  by (cases M) (simp_all add: ptrs_06_2a_def ptrs_06_2d_def ptrs_06_3e_def ptrs_06_3f_def ptrs_06_4f_def
      ptrs_06_55_def ptrs_06_9e_def ptrs_06_6a_def ptrs_06_8f_def)

lemma intel_ptrs_basic:
  "\<exists>o1 o2 o3 o4. {(Print_power, intel_cpu_fm M o1), (Print_power_limit, intel_cpu_fm M o2),
     (Print_features, intel_cpu_fm M o3), (Print_energy, intel_cpu_fm M o4)} \<subseteq> set (intel_ptrs M)"
  by (rule exI [of _ get_power], rule exI [of _ get_power_limits], rule exI [of _ get_features],
      rule exI [of _ get_energy], cases M)
    (simp_all add: ptrs_06_2a_def ptrs_06_2d_def ptrs_06_3e_def ptrs_06_3f_def ptrs_06_4f_def
      ptrs_06_55_def ptrs_06_9e_def ptrs_06_6a_def ptrs_06_8f_def)

lemma install_other: "sl \<notin> fst ` set hs \<Longrightarrow> fptr (install hs p) sl = fptr p sl"
  by (auto simp: fptr_install map_of_eq_None_iff split: option.split dest!: map_of_SomeD intro: rev_image_eqI)

lemma install_mem: "fptr (install hs p) sl = Some h \<Longrightarrow> (sl, h) \<in> set hs \<or> fptr p sl = Some h"
  by (auto simp: fptr_install split: option.splits dest!: map_of_SomeD)

lemma install_in_dom: "(sl, h) \<in> set hs \<Longrightarrow> fptr (install hs p) sl \<noteq> None"
  by (auto simp: fptr_install map_of_eq_None_iff split: option.split) (metis fst_conv image_eqI set_rev)

text \<open>What lies beyond the MSR layer's part of the state.\<close>

lemma more_arch:
  assumes "msr_state.more (s :: 'a arch_state_scheme) = msr_state.more t"
  shows "p_msr_core_idx s = p_msr_core_idx t" "ext_calls s = ext_calls t" "nv_devices s = nv_devices t"
    "batches s = batches t" "blocks s = blocks t" "batchfd s = batchfd t"
    "arch_state.more s = arch_state.more t"
  using assms by (cases s, cases t, simp)+

section \<open>Entering an Intel build\<close>

definition intel_build :: build where
  "intel_build = (\<lambda>k. k = INTEL_CPU)"

lemma intel_build_simps [simp]:
  "intel_build INTEL_CPU" "\<not> intel_build INTEL_GPU" "\<not> intel_build IBM_CPU" "\<not> intel_build NVIDIA_GPU"
  "\<not> intel_build ARM_CPU" "\<not> intel_build AMD_CPU" "\<not> intel_build AMD_GPU"
  "P_NUM_PLATFORMS intel_build = 1" "P_IDX intel_build INTEL_CPU = 0"
  by (simp_all add: intel_build_def P_NUM_PLATFORMS_def platforms_def platform_enum_def P_IDX_def)

text \<open>The entry of the Intel platform after detection and installation.\<close>

definition intel_entry :: "hwloc \<Rightarrow> intel_model \<Rightarrow> platform \<Rightarrow> platform" where
  "intel_entry H M p = fill_platform H (install (intel_ptrs M) (gpu_stub
     ((fill_platform H (clear_func_ptrs p))\<lparr>arch_id := Live (FM M)\<rparr>)))"

definition entered :: "sys_env \<Rightarrow> intel_model \<Rightarrow> 'a arch_state_scheme \<Rightarrow> 'a arch_state_scheme" where
  "entered V M s = s\<lparr>p_msr_core_idx := 0,
     g_platform := [intel_entry (sys_hw V) M (g_platform s ! 0), g_platform s ! 1],
     init_variorum_init_topology := True\<rparr>"

lemma enter_intel_eq:
  assumes "hwloc_good (sys_hw V)" "detect_intel_arch V = Live (FM M)" "length (g_platform s) = 2"
  shows "variorum_enter intel_build V s =
    (case init_msr (sys_os V) (machine_topo (sys_hw V)) (entered V M s) of
       None \<Rightarrow> None
     | Some (err, s') \<Rightarrow> Some (err, if err \<noteq> 0 then report_code err s' else s'))"
proof -
  obtain p0 p1 where g: "g_platform s = [p0, p1]"
    using assms(3) by (auto simp: numeral_2_eq_2 length_Suc_conv)
  let ?H = "sys_hw V"
  let ?s1 = "s\<lparr>g_platform := [fill_platform ?H (clear_func_ptrs p0), p1], init_variorum_init_topology := True\<rparr>"
  let ?s2 = "s\<lparr>g_platform := [(fill_platform ?H (clear_func_ptrs p0))\<lparr>arch_id := Live (FM M)\<rparr>, p1],
    init_variorum_init_topology := True, p_msr_core_idx := 0\<rparr>"
  let ?s3 = "s\<lparr>g_platform := [install (intel_ptrs M) (gpu_stub ((fill_platform ?H (clear_func_ptrs p0))\<lparr>arch_id := Live (FM M)\<rparr>)), p1],
    init_variorum_init_topology := True, p_msr_core_idx := 0\<rparr>"
  have 1: "variorum_init_func_ptrs intel_build (g_platform s) = Some [clear_func_ptrs p0, p1]"
    by (simp add: variorum_init_func_ptrs_def g)
  have 2: "topology_loop ?H [0] (s\<lparr>g_platform := [clear_func_ptrs p0, p1]\<rparr>) = Some ?s1"
    using assms(1) by (simp add: get_topo_good upd_platform_def)
  have 3: "variorum_detect_arch intel_build V ?s1 = Some (0, ?s2)"
    using assms(2) by (simp add: variorum_detect_arch_def set_arch_def set_platform_Some upd_platform_def
        log_arch_def platform_arch_def)
  have 4: "set_intel_func_ptrs 0 ?s2 = Some (0, ?s3)"
    by (subst set_intel_func_ptrs_known [where M = M]) (simp_all add: upd_platform_def)
  have 5: "call_init_msr V ?s3 = init_msr (sys_os V) (machine_topo ?H) (entered V M s)"
    using assms(1) by (simp add: call_init_msr_def get_topo_good upd_platform_def entered_def intel_entry_def g)
  show ?thesis
    using 1 2 3 4 5
    by (auto simp: variorum_enter_def variorum_set_func_ptrs_def simp del: topology_loop.simps split: option.split)
qed

lemma entered_msr [simp]:
  "msr_fresh T (entered V M s) = msr_fresh T s" "open_files (entered V M s) = open_files s"
  "elog (entered V M s) = elog s" "registers (entered V M s) = registers s" "next_fd (entered V M s) = next_fd s"
  "g_platform (entered V M s) = [intel_entry (sys_hw V) M (g_platform s ! 0), g_platform s ! 1]"
  by (simp_all add: entered_def msr_fresh_def core_ok_def fds_fresh_def)

lemma fptr_intel_entry:
  "fptr (intel_entry H M p) sl = fptr (install (intel_ptrs M) (gpu_stub (clear_func_ptrs p))) sl"
  by (auto simp: intel_entry_def fill_platform_def gpu_stub_def fptr_install split: option.split)

lemma intel_entry_arch [simp]: "arch_id (intel_entry H M p) = Live (FM M)"
  by (simp add: intel_entry_def fill_platform_def gpu_stub_def)

lemma intel_table_pure:
  assumes "fptr (install (intel_ptrs M) (gpu_stub p)) sl = Some h" "\<forall>sl. fptr p sl = None"
  shows "h = gpu_power_ratio_unimplemented \<and> sl = Cap_gpu_power_ratio \<or> (\<exists>o'. h = intel_cpu_fm M o')"
proof -
  have "(sl, h) \<in> set (intel_ptrs M) \<or> fptr (gpu_stub p) sl = Some h" by (rule install_mem [OF assms(1)])
  then show ?thesis
  proof
    assume "(sl, h) \<in> set (intel_ptrs M)"
    then have "case h of intel_cpu_fm N o' \<Rightarrow> N = M | _ \<Rightarrow> False"
      using intel_ptrs_own [of M] by (auto simp: list_all_iff)
    then show ?thesis by (cases h) auto
  next
    assume "fptr (gpu_stub p) sl = Some h"
    then show ?thesis using assms(2) by (auto simp: gpu_stub_def fptr_install split: if_splits)
  qed
qed

lemma intel_table_basic:
  assumes "sl \<in> {Print_power, Print_power_limit, Print_features, Print_energy}"
  shows "fptr (install (intel_ptrs M) p) sl \<noteq> None"
  using intel_ptrs_basic [of M] assms install_in_dom [of sl _ "intel_ptrs M" p] by auto

section \<open>Properties\<close>

text \<open>
  C34: dispatch never mixes models. set_intel_func_ptrs succeeds on exactly the nine models of
  its branches; starting from a cleared table, each pointer it leaves is a function of the
  detected model or the common stub for the GPU power ratio; printing power, limits, features
  and energy is available on all nine; other platforms' entries are untouched.
\<close>

theorem intel_dispatch_pure:
  assumes "idx < length (g_platform s)" "arch_id (g_platform s ! idx) = Live m"
    "\<forall>sl. fptr (g_platform s ! idx) sl = None" "set_intel_func_ptrs idx s = Some (rc, s')"
  shows "(rc = 0 \<longleftrightarrow> m \<in> range FM) \<and> rc \<in> {0, err_code VARIORUM_ERROR_UNSUPPORTED_PLATFORM} \<and>
    (\<forall>sl h. fptr (g_platform s' ! idx) sl = Some h \<longrightarrow>
       h = gpu_power_ratio_unimplemented \<and> sl = Cap_gpu_power_ratio \<or>
       (\<exists>M o'. h = intel_cpu_fm M o' \<and> FM M = m)) \<and>
    (rc = 0 \<longrightarrow> (\<forall>sl \<in> {Print_power, Print_power_limit, Print_features, Print_energy}.
       fptr (g_platform s' ! idx) sl \<noteq> None)) \<and>
    (\<forall>j. j \<noteq> idx \<longrightarrow> g_platform s' ! j = g_platform s ! j)"
proof (cases "m \<in> range FM")
  case True
  then obtain M where M: "m = FM M" by auto
  have r: "rc = 0" "s' = upd_platform idx (install (intel_ptrs M) \<circ> gpu_stub) s"
    using set_intel_func_ptrs_known [OF assms(1) assms(2) [unfolded M]] assms(4) by simp_all
  show ?thesis
    using intel_table_pure [of M "g_platform s ! idx"] assms(1,3) M intel_table_basic [of _ M] True
    by (auto simp: r upd_platform_def)
next
  case False
  have r: "rc = err_code VARIORUM_ERROR_UNSUPPORTED_PLATFORM" "s' = upd_platform idx gpu_stub s"
    using set_intel_func_ptrs_unknown [OF assms(1,2) False] assms(4) by simp_all
  show ?thesis using False assms(1,3)
    by (auto simp: r(2) upd_platform_def gpu_stub_def fptr_install split: if_splits) (simp_all add: r(1))
qed

definition example_sys :: sys_env where
  "example_sys = \<lparr>sys_os = good_env, sys_hw = two_socket_machine, sys_log = True, sys_cpuid_rax = 0x406F1,
     sys_midr = (\<lambda>_. ''0x00000000410fd0c1'' @ [CHR 0x0A]), sys_esmi_init = 0, sys_nvml_count = 4,
     sys_nvml_handle_ok = (\<lambda>_. True), sys_apmidg_ndevs = 0\<rparr>"

definition arch_init :: arch_state where
  "arch_init = batch_state.extend (msr_state.extend (msr_init (\<lambda>_ _. 0))
       \<lparr>batches = None, blocks = [], batchfd = 0, \<dots> = ()\<rparr>)
     \<lparr>p_msr_core_idx = 0, ext_calls = [], nv_devices = H_null, nv_total_unit_devices = 0,
      nv_gpus_per_socket = 0, ig_total_unit_devices = 0, ig_gpus_per_socket = 0, arm_num_package = 0\<rparr>"

lemma arch_init_simps [simp]:
  "g_platform arch_init = g_platform_init" "open_files arch_init = (\<lambda>_. None)" "elog arch_init = []"
  "registers arch_init = (\<lambda>_ _. 0)" "p_msr_core_idx arch_init = 0"
  by (simp_all add: arch_init_def batch_state.defs msr_state.defs msr_init_def)

lemma arch_init_fresh: "msr_fresh T arch_init"
  by (simp add: msr_fresh_def core_ok_def fds_fresh_def arch_init_def batch_state.defs msr_state.defs msr_init_def)

theorem intel_dispatch_pure_witness:
  "\<exists>s'. set_intel_func_ptrs 0 (arch_init\<lparr>g_platform := [zero_platform\<lparr>arch_id := Live 79\<rparr>, zero_platform]\<rparr>)
       = Some (0, s') \<and>
     (\<forall>sl h. fptr (g_platform s' ! 0) sl = Some h \<longrightarrow>
       h = gpu_power_ratio_unimplemented \<and> sl = Cap_gpu_power_ratio \<or>
       (\<exists>M o'. h = intel_cpu_fm M o' \<and> FM M = 79))"
proof -
  let ?s = "arch_init\<lparr>g_platform := [zero_platform\<lparr>arch_id := Live 79\<rparr>, zero_platform]\<rparr>"
  have l: "0 < length (g_platform ?s)" and a: "arch_id (g_platform ?s ! 0) = Live 79"
    and f: "\<forall>sl. fptr (g_platform ?s ! 0) sl = None" by (simp_all add: zero_platform_def)
  obtain rc s' where r: "set_intel_func_ptrs 0 ?s = Some (rc, s')"
    by (auto simp: set_intel_func_ptrs_def set_platform_def platform_arch_def upd_platform_def gpu_stub_def Let_def)
  have "(79 :: u64) \<in> range FM" by (rule range_eqI [of _ _ M_06_4F]) simp
  then show ?thesis using intel_dispatch_pure [OF l a f r] r by auto
qed

lemma enter_intel_facts:
  assumes "hwloc_good (sys_hw V)" "detect_intel_arch V = Live (FM M)" "length (g_platform s) = MAX_PLATFORMS"
    "msr_fresh (machine_topo (sys_hw V)) s" "variorum_enter intel_build V s = Some (0, s')"
  shows "outer s' = outer (entered V M s)"
    "init_variorum_init_topology s'"
    "fill_platform (sys_hw V) (g_platform s' ! 0) = g_platform s' ! 0"
    "msr_ready (machine_topo (sys_hw V)) s' \<and> p_msr_core_idx s' = 0 \<and>
    length (g_platform s') = MAX_PLATFORMS \<and>
    topo_of (g_platform s' ! 0) = machine_topo (sys_hw V) \<and> arch_id (g_platform s' ! 0) = Live (FM M) \<and>
    fptr (g_platform s' ! 0) = fptr (install (intel_ptrs M) (gpu_stub zero_platform)) \<and>
    registers s' = registers s"
proof -
  let ?T = "machine_topo (sys_hw V)"
  have len: "length (g_platform s) = 2" using assms(3) by (simp add: MAX_PLATFORMS_def)
  have i: "init_msr (sys_os V) ?T (entered V M s) = Some (0, s')"
    using assms(5) unfolding enter_intel_eq [OF assms(1,2) len] by (auto split: option.splits if_splits)
  have fr: "outer s' = outer (entered V M s)" by (rule outer_init_msr [OF i])
  then have g: "g_platform s' = [intel_entry (sys_hw V) M (g_platform s ! 0), g_platform s ! 1]"
    "registers s' = registers s" by (simp_all add: outer_def)
  have "p_msr_core_idx s' = p_msr_core_idx (entered V M s)"
    by (rule more_arch(1)) (use fr in \<open>simp add: outer_def\<close>)
  then have ix: "p_msr_core_idx s' = 0" by (simp add: entered_def)
  have fresh0: "ready_upto ?T (nat 0) (entered V M s)" "fds_fresh (entered V M s)"
    using assms(4) entered_msr(1) [of ?T V M s] by (simp_all add: msr_fresh_def ready_upto_0)
  have "ready_upto ?T (unat (nthreads ?T)) s' \<and> fds_fresh s'"
    by (rule init_msr_loop_sound [OF refl i [unfolded init_msr_eq] machine_topo_ok [OF assms(1)] _ _ fresh0])
      (simp_all add: chosen_module_def)
  then have rd: "msr_ready ?T s'" using ready_upto_all [OF machine_topo_ok [OF assms(1)]] by blast
  have "fptr (intel_entry (sys_hw V) M (g_platform s ! 0)) = fptr (install (intel_ptrs M) (gpu_stub zero_platform))"
    by (rule ext) (auto simp: fptr_intel_entry fptr_install gpu_stub_def zero_platform_def split: option.split)
  moreover have "topo_of (intel_entry (sys_hw V) M (g_platform s ! 0)) = machine_topo (sys_hw V)"
    by (simp add: intel_entry_def)
  ultimately show "msr_ready ?T s' \<and> p_msr_core_idx s' = 0 \<and> length (g_platform s') = MAX_PLATFORMS \<and>
      topo_of (g_platform s' ! 0) = ?T \<and> arch_id (g_platform s' ! 0) = Live (FM M) \<and>
      fptr (g_platform s' ! 0) = fptr (install (intel_ptrs M) (gpu_stub zero_platform)) \<and> registers s' = registers s"
    using rd g ix by (simp add: MAX_PLATFORMS_def)
  show "outer s' = outer (entered V M s)" by (rule fr)
  show "init_variorum_init_topology s'" using fr by (simp add: outer_def entered_def)
  show "fill_platform (sys_hw V) (g_platform s' ! 0) = g_platform s' ! 0" using g by (simp add: intel_entry_def)
qed

text \<open>
  C1: after variorum_enter has returned 0 on an Intel build, the library is usable. The
  descriptor table is ready for every processor of the machine, the topology in the platform's
  entry is hwloc's, the model number is live, and the functions installed are those of the
  processor's model, whatever an earlier call had left in the table.
\<close>

theorem enter_intel_ready:
  assumes "hwloc_good (sys_hw V)" "detect_intel_arch V = Live (FM M)" "length (g_platform s) = MAX_PLATFORMS"
    "msr_fresh (machine_topo (sys_hw V)) s" "variorum_enter intel_build V s = Some (0, s')"
  shows "msr_ready (machine_topo (sys_hw V)) s' \<and> p_msr_core_idx s' = 0 \<and>
    length (g_platform s') = MAX_PLATFORMS \<and>
    topo_of (g_platform s' ! 0) = machine_topo (sys_hw V) \<and> arch_id (g_platform s' ! 0) = Live (FM M) \<and>
    fptr (g_platform s' ! 0) = fptr (install (intel_ptrs M) (gpu_stub zero_platform)) \<and>
    registers s' = registers s"
  using enter_intel_facts(4) [OF assms] .

text \<open>A machine on which an Intel build works.\<close>

definition intel_machine :: "sys_env \<Rightarrow> intel_model \<Rightarrow> bool" where
  "intel_machine V M \<longleftrightarrow> hwloc_good (sys_hw V) \<and> detect_intel_arch V = Live (FM M) \<and>
     (\<forall>i < unat (nthreads (machine_topo (sys_hw V))).
        file_ok (sys_os V) (device_path (chosen_module (sys_os V)) (int i)))"

lemma chosen_module_neq_3 [simp]: "chosen_module E \<noteq> 3"
  by (simp add: chosen_module_def)

lemma enter_intel_good:
  assumes "intel_machine V M" "length (g_platform s) = 2" "msr_fresh (machine_topo (sys_hw V)) s"
  shows "\<exists>s'. variorum_enter intel_build V s = Some (0, s') \<and>
    opened_from (machine_topo (sys_hw V)) (chosen_module (sys_os V)) 0 (entered V M s) s' \<and>
    outer s' = outer (entered V M s)"
proof -
  let ?T = "machine_topo (sys_hw V)"
  have h: "hwloc_good (sys_hw V)" "detect_intel_arch V = Live (FM M)" using assms(1) by (simp_all add: intel_machine_def)
  have fresh0: "ready_upto ?T (nat 0) (entered V M s)" "fds_fresh (entered V M s)"
    using assms(3) entered_msr(1) [of ?T V M s] by (simp_all add: msr_fresh_def ready_upto_0)
  obtain s' where s': "init_msr_loop (sys_os V) ?T (chosen_module (sys_os V)) 0 (entered V M s) = Some (0, s')"
    "opened_from ?T (chosen_module (sys_os V)) (nat 0) (entered V M s) s'"
    using init_msr_loop_all_good [OF machine_topo_ok [OF h(1)] _ refl _ _ _ fresh0, of "chosen_module (sys_os V)" "sys_os V"] assms(1)
    by (auto simp: intel_machine_def)
  then have "variorum_enter intel_build V s = Some (0, s')"
    unfolding enter_intel_eq [OF h assms(2)] init_msr_eq by simp
  then show ?thesis using s' outer_init_msr_loop [OF s'(1)] by auto
qed

lemma fd_table_platform [simp]:
  "fd_table T f (s\<lparr>g_platform := g, init_variorum_init_topology := b\<rparr>) = fd_table T f s"
  by (simp add: fd_table_def core_ok_def)

lemma exit_intel:
  assumes "hwloc_good (sys_hw V)" "length (g_platform s) = 2" "p_msr_core_idx s = 0"
    "arch_id (g_platform s ! 0) = Live m" "fd_table (machine_topo (sys_hw V)) f s"
    "\<forall>fd. \<not> os_close_fails (sys_os V) fd"
  shows "\<exists>s'. variorum_exit intel_build V s = Some (0, s') \<and> elog s' = elog s \<and>
    open_files s' = (\<lambda>fd. if fd \<in> f ` {..<unat (nthreads (machine_topo (sys_hw V)))} then None else open_files s fd) \<and>
    core_ok (machine_topo (sys_hw V)) s' \<and> next_fd s' = next_fd s \<and> registers s' = registers s \<and>
    length (g_platform s') = 2 \<and> arch_id (g_platform s' ! 0) = Freed \<and> p_msr_core_idx s' = 0 \<and>
    arch_state.more s' = arch_state.more s"
proof -
  let ?T = "machine_topo (sys_hw V)"
  obtain p0 p1 where g: "g_platform s = [p0, p1]"
    using assms(2) by (auto simp: numeral_2_eq_2 length_Suc_conv)
  let ?s1 = "s\<lparr>g_platform := [fill_platform (sys_hw V) p0, p1], init_variorum_init_topology := True\<rparr>"
  have t: "get_topo (sys_hw V) 0 s = Some (?T, ?s1)"
    using assms(1) by (simp add: get_topo_good upd_platform_def g)
  have ft: "fd_table ?T f ?s1" using assms(5) by simp
  obtain s2 where s2: "finalize_msr (sys_os V) ?T ?s1 = Some (0, s2)" "elog s2 = elog s"
    "open_files s2 = (\<lambda>fd. if fd \<in> f ` {..<unat (nthreads ?T)} then None else open_files s fd)"
    using finalize_msr_result [OF ft machine_topo_ok [OF assms(1)], of "sys_os V"] assms(6)
    by (auto cong: if_cong)
  have ot: "outer s2 = outer ?s1" by (rule outer_finalize_msr [OF s2(1)])
  have k: "core_ok ?T s2 \<and> init_core_fd s2 \<and> next_fd s2 = next_fd ?s1"
    by (rule finalize_loop_keeps [OF s2(1) [unfolded finalize_msr_def]])
      (use ft in \<open>simp_all add: fd_table_def\<close>)
  have "p_msr_core_idx s2 = p_msr_core_idx ?s1" by (rule more_arch(1)) (use ot in \<open>simp add: outer_def\<close>)
  then have ix: "p_msr_core_idx s2 = 0" using assms(3) by simp
  have "arch_state.more s2 = arch_state.more ?s1" by (rule more_arch(7)) (use ot in \<open>simp add: outer_def\<close>)
  then have mo: "arch_state.more s2 = arch_state.more s" by simp
  have g2: "g_platform s2 = [fill_platform (sys_hw V) p0, p1]" "registers s2 = registers s"
    using ot by (simp_all add: outer_def)
  have a: "arch_id (fill_platform (sys_hw V) p0) = Live m" using assms(4) g by (simp add: fill_platform_def)
  let ?s3 = "upd_platform 0 (\<lambda>p. p\<lparr>arch_id := Freed\<rparr>) s2"
  have "call_finalize_msr V s = Some (0, s2)" using t s2(1) assms(3) by (simp add: call_finalize_msr_def)
  then have "variorum_exit intel_build V s = Some (0, ?s3)"
    using a by (simp add: variorum_exit_def g2)
  moreover have "core_ok ?T ?s3" using k by (simp add: core_ok_def upd_platform_def)
  ultimately show ?thesis
    using s2 k g2 ix mo by (simp add: upd_platform_def)
qed

lemma enter_exit_intel:
  assumes "intel_machine V M" "length (g_platform s) = 2" "msr_fresh (machine_topo (sys_hw V)) s"
    "\<forall>fd. \<not> os_close_fails (sys_os V) fd"
  shows "\<exists>s1 s2. variorum_enter intel_build V s = Some (0, s1) \<and> variorum_exit intel_build V s1 = Some (0, s2) \<and>
    open_files s2 = open_files s \<and> elog s2 = elog s \<and> registers s2 = registers s \<and>
    length (g_platform s2) = 2 \<and> msr_fresh (machine_topo (sys_hw V)) s2"
proof -
  let ?T = "machine_topo (sys_hw V)"
  have h: "hwloc_good (sys_hw V)" using assms(1) by (simp add: intel_machine_def)
  obtain s1 where s1: "variorum_enter intel_build V s = Some (0, s1)"
    "opened_from ?T (chosen_module (sys_os V)) 0 (entered V M s) s1" "outer s1 = outer (entered V M s)"
    using enter_intel_good [OF assms(1-3)] by blast
  obtain f where f: "fd_table ?T f s1" "\<And>i. i < unat (nthreads ?T) \<Longrightarrow> open_files (entered V M s) (f i) = None"
    "\<And>fd. open_files s1 fd \<noteq> open_files (entered V M s) fd \<Longrightarrow> fd \<in> f ` {..<unat (nthreads ?T)}"
    by (rule opened_fd_table [OF s1(2) machine_topo_ok [OF h]]) blast
  have "p_msr_core_idx s1 = p_msr_core_idx (entered V M s)"
    by (rule more_arch(1)) (use s1(3) in \<open>simp add: outer_def\<close>)
  then have ix: "p_msr_core_idx s1 = 0" by (simp add: entered_def)
  have g: "length (g_platform s1) = 2" "arch_id (g_platform s1 ! 0) = Live (FM M)" "registers s1 = registers s"
    using s1(3) by (simp_all add: outer_def)
  obtain s2 where s2: "variorum_exit intel_build V s1 = Some (0, s2)" "elog s2 = elog s1"
    "open_files s2 = (\<lambda>fd. if fd \<in> f ` {..<unat (nthreads ?T)} then None else open_files s1 fd)"
    "core_ok ?T s2" "next_fd s2 = next_fd s1" "registers s2 = registers s1" "length (g_platform s2) = 2"
    using exit_intel [OF h g(1) ix g(2) f(1) assms(4)] by blast
  have "open_files s2 fd = open_files s fd" for fd using f(2,3) unfolding s2(3) by fastforce
  then have of: "open_files s2 = open_files s" by blast
  have "fds_fresh s1" using s1(2) by (simp add: opened_from_def)
  then have "fds_fresh s2" using s2(3,5) by (simp add: fds_fresh_def)
  moreover have "elog s1 = elog s" using s1(2) by (simp add: opened_from_def)
  ultimately show ?thesis using s1(1) s2 of g(3) by (auto simp: msr_fresh_def)
qed

lemma example_machine: "intel_machine example_sys M_06_4F"
  by (simp add: intel_machine_def example_sys_def hwloc_good_def hwloc_counts_def two_socket_machine_def
      topology_accepted_def detect_intel_arch_def good_env_files)

lemma example_close: "\<forall>fd. \<not> os_close_fails (sys_os example_sys) fd"
  by (simp add: example_sys_def good_env_def)

theorem enter_intel_ready_witness:
  "\<exists>s'. variorum_enter intel_build example_sys arch_init = Some (0, s') \<and>
     msr_ready (machine_topo two_socket_machine) s' \<and>
     fptr (g_platform s' ! 0) Get_energy_json = Some (intel_cpu_fm M_06_4F get_energy_json)"
proof -
  have m: "hwloc_good (sys_hw example_sys)" "detect_intel_arch example_sys = Live (FM M_06_4F)"
    using example_machine by (simp_all add: intel_machine_def)
  have l: "length (g_platform arch_init) = MAX_PLATFORMS" by simp
  obtain s' where s': "variorum_enter intel_build example_sys arch_init = Some (0, s')"
    using enter_intel_good [OF example_machine _ arch_init_fresh] by (auto simp: MAX_PLATFORMS_def)
  have "msr_ready (machine_topo (sys_hw example_sys)) s'"
    "fptr (g_platform s' ! 0) = fptr (install (intel_ptrs M_06_4F) (gpu_stub zero_platform))"
    using enter_intel_ready [OF m l arch_init_fresh s'] by blast+
  then show ?thesis using s' by (simp add: example_sys_def fptr_install ptrs_06_4f_def)
qed

definition intel_nvidia :: build where
  "intel_nvidia = (\<lambda>k. k = INTEL_CPU \<or> k = NVIDIA_GPU)"

lemma intel_nvidia_simps [simp]:
  "intel_nvidia INTEL_CPU" "\<not> intel_nvidia INTEL_GPU" "\<not> intel_nvidia IBM_CPU" "intel_nvidia NVIDIA_GPU"
  "\<not> intel_nvidia ARM_CPU" "\<not> intel_nvidia AMD_CPU" "\<not> intel_nvidia AMD_GPU"
  "P_NUM_PLATFORMS intel_nvidia = 2" "P_IDX intel_nvidia INTEL_CPU = 0" "P_IDX intel_nvidia NVIDIA_GPU = 1"
  by (simp_all add: intel_nvidia_def P_NUM_PLATFORMS_def platforms_def platform_enum_def P_IDX_def)

lemma fold_report_platforms [simp]:
  "g_platform (foldl (\<lambda>s d. if P d then s else variorum_error_handler e s) s ds) = g_platform s"
  by (induction ds arbitrary: s) (auto simp: variorum_error_handler_def)

text \<open>
  An error of init_msr is lost on builds with a second platform. variorum_set_func_ptrs
  assigns the result of the next vendor's set-up over it, so that on an Intel and Nvidia build
  the call reports success even when the MSR devices could not be opened.
\<close>

theorem init_msr_error_lost:
  assumes "hwloc_good (sys_hw V)" "length (g_platform s) = 2"
    "arch_id (g_platform s ! 0) = Live (FM M)" "arch_id (g_platform s ! 1) = Live VOLTA" "p_msr_core_idx s = 0"
    "variorum_set_func_ptrs intel_nvidia V s = Some (err, s')"
  shows "err = 0"
proof -
  let ?s1 = "upd_platform 0 (install (intel_ptrs M) \<circ> gpu_stub) s"
  have 1: "set_intel_func_ptrs 0 s = Some (0, ?s1)" by (rule set_intel_func_ptrs_known) (use assms(2,3) in simp_all)
  have ev: "do {
      (e, t) \<leftarrow> call_init_msr V ?s1;
      (e, t) \<leftarrow> set_nvidia_func_ptrs V 1 t;
      Some (e, t)
    } = Some (err, s')"
    using assms(6) 1 by (simp add: variorum_set_func_ptrs_def split_def)
  then obtain e t where t: "call_init_msr V ?s1 = Some (e, t)" "set_nvidia_func_ptrs V 1 t = Some (err, s')"
    by (auto simp: bind_Some_iff)
  obtain T u where u: "get_topo (sys_hw V) (p_msr_core_idx ?s1) ?s1 = Some (T, u)" "init_msr (sys_os V) T u = Some (e, t)"
    using t(1) by (auto simp: call_init_msr_def bind_Some_iff)
  have ix: "p_msr_core_idx ?s1 = 0" using assms(5) by (simp add: upd_platform_def)
  have gu: "g_platform u ! 1 = g_platform s ! 1" "length (g_platform u) = 2"
    using u(1) assms(1,2) unfolding ix by (auto simp: get_topo_good upd_platform_def)
  have "g_platform t = g_platform u" using outer_init_msr [OF u(2)] by (simp add: outer_def)
  then have "platform_arch 1 t = Some VOLTA" "1 < length (g_platform t)"
    using gu assms(4) by (simp_all add: platform_arch_def)
  then show ?thesis using t(2)
    by (auto simp: set_nvidia_func_ptrs_def set_platform_def bind_Some_iff)
qed

definition no_permission_sys :: sys_env where
  "no_permission_sys = example_sys\<lparr>sys_os := good_env\<lparr>os_stat :=
     (\<lambda>p. if p = Allowlist_path then Some (True, True) else Some (True, False))\<rparr>\<rparr>"

theorem init_msr_error_lost_witness:
  "\<exists>t s'. call_init_msr no_permission_sys (arch_init\<lparr>g_platform :=
        [zero_platform\<lparr>arch_id := Live 79\<rparr>, zero_platform\<lparr>arch_id := Live 1\<rparr>]\<rparr>) = Some (-1, t) \<and>
     variorum_set_func_ptrs intel_nvidia no_permission_sys (arch_init\<lparr>g_platform :=
        [zero_platform\<lparr>arch_id := Live 79\<rparr>, zero_platform\<lparr>arch_id := Live 1\<rparr>]\<rparr>) = Some (0, s')"
proof -
  let ?V = no_permission_sys
  let ?s = "arch_init\<lparr>g_platform := [zero_platform\<lparr>arch_id := Live 79\<rparr>, zero_platform\<lparr>arch_id := Live 1\<rparr>]\<rparr>"
  have H: "sys_hw ?V = two_socket_machine" "hwloc_good two_socket_machine"
    using example_machine by (simp_all add: no_permission_sys_def example_sys_def intel_machine_def)
  have N: "sint (nthreads (machine_topo two_socket_machine)) = 32"
    by (simp add: machine_topo_def topo_of_def fill_platform_def two_socket_machine_def unsigned_of_int_def)
  have fails: "\<exists>t. init_msr (sys_os ?V) (machine_topo two_socket_machine) (u :: arch_state) = Some (-1, t) \<and> g_platform t = g_platform u"
    for u
    using N by (simp add: init_msr_eq chosen_module_def no_permission_sys_def
        init_msr_loop.simps [of _ _ _ 0 u] stat_module_def variorum_error_handler_def)
  have ci: "\<exists>t. call_init_msr ?V u = Some (-1, t) \<and> length (g_platform t) = 2 \<and>
      arch_id (g_platform t ! 1) = arch_id (g_platform u ! 1)"
    if "length (g_platform u) = 2" "p_msr_core_idx u = 0" for u :: arch_state
  proof -
    let ?u = "(upd_platform 0 (fill_platform two_socket_machine) u)\<lparr>init_variorum_init_topology := True\<rparr>"
    obtain t where "init_msr (sys_os ?V) (machine_topo two_socket_machine) ?u = Some (-1, t)"
      "g_platform t = g_platform ?u" using fails by blast
    then show ?thesis using that H by (simp add: call_init_msr_def get_topo_good upd_platform_def)
  qed
  obtain t where t: "call_init_msr ?V ?s = Some (-1, t)" using ci [of ?s] by auto
  let ?s1 = "upd_platform 0 (install (intel_ptrs M_06_4F) \<circ> gpu_stub) ?s"
  have 1: "set_intel_func_ptrs 0 ?s = Some (0, ?s1)" by (rule set_intel_func_ptrs_known) simp_all
  obtain t1 where t1: "call_init_msr ?V ?s1 = Some (-1, t1)" "length (g_platform t1) = 2"
    "arch_id (g_platform t1 ! 1) = Live 1"
    using ci [of ?s1] by (auto simp: upd_platform_def)
  have "\<exists>s'. set_nvidia_func_ptrs ?V 1 t1 = Some (0, s')"
    using t1(2,3) H
    by (simp add: set_nvidia_func_ptrs_def platform_arch_def set_platform_Some VOLTA_def initNVML_def Let_def
        get_topo_good ext_def fold_report_platforms)
  then obtain s' where s': "set_nvidia_func_ptrs ?V 1 t1 = Some (0, s')" by blast
  have sf: "\<exists>err s'. variorum_set_func_ptrs intel_nvidia ?V ?s = Some (err, s')"
    using 1 t1(1) s' by (simp add: variorum_set_func_ptrs_def)
  have h: "hwloc_good (sys_hw ?V)" using H by simp
  obtain err s'' where r: "variorum_set_func_ptrs intel_nvidia ?V ?s = Some (err, s'')" using sf by blast
  have "err = 0"
    by (rule init_msr_error_lost [OF h _ _ _ _ r, of M_06_4F]) (simp_all add: VOLTA_def)
  then show ?thesis using t r by blast
qed

lemma amd_fields:
  fixes f mdl :: u64
  assumes "unat mdl < 256"
  shows "((push_bit 8 f OR mdl) AND 0xFFFF) AND 0xFF = mdl"
    and "drop_bit 8 ((push_bit 8 f OR mdl) AND 0xFFFF) AND 0xFF = f AND 0xFF"
proof -
  have m: "(0xFFFF :: u64) = mask 16" "(0xFF :: u64) = mask 8" by (simp_all add: mask_eq_exp_minus_1)
  have t: "take_bit 8 mdl = mdl"
    by (rule word_unat_eq_iff [THEN iffD2])
      (use assms in \<open>simp add: unsigned_take_bit_eq take_bit_nat_eq_self_iff\<close>)
  then have b: "bit mdl n \<Longrightarrow> n < 8" for n by (metis bit_take_bit_iff)
  then have b': "bit mdl n \<Longrightarrow> n < 16" for n by fastforce
  show "((push_bit 8 f OR mdl) AND 0xFFFF) AND 0xFF = mdl"
    unfolding m using b b' by (auto simp: bit_eq_iff bit_simps)
  show "drop_bit 8 ((push_bit 8 f OR mdl) AND 0xFFFF) AND 0xFF = f AND 0xFF"
    unfolding m using b b' by (auto simp: bit_eq_iff bit_simps)
qed

lemma set_amd_outcome:
  assumes "idx < length (g_platform s)" "arch_id (g_platform s ! idx) = Live m"
  shows "\<exists>s'. set_amd_func_ptrs V idx s =
      Some (if drop_bit 8 m AND 0xFF = 0x19 \<and> (m AND 0xFF \<le> 0xF \<or> 0x30 \<le> m AND 0xFF \<and> m AND 0xFF \<le> 0x3F)
            then 0 else err_code VARIORUM_ERROR_UNSUPPORTED_PLATFORM, s') \<and>
    (drop_bit 8 m AND 0xFF = 0x19 \<and> (m AND 0xFF \<le> 0xF \<or> 0x30 \<le> m AND 0xFF \<and> m AND 0xFF \<le> 0x3F) \<or> s' = s)"
proof -
  have "unat (w AND 0xFF) < 2 ^ 8" for w :: u64
  proof -
    have "w AND 0xFF = take_bit 8 w" by (simp add: take_bit_eq_mask mask_eq_exp_minus_1)
    then show ?thesis using take_bit_nat_less_exp [of 8 "unat w"] by (simp add: unsigned_take_bit_eq)
  qed
  then have u: "unat (ucast (w AND 0xFF) :: u8) = unat (w AND 0xFF)" for w :: u64
    by (intro unat_ucast_small) simp
  have "(ucast (drop_bit 8 m AND 0xFF) :: u8) = 0x19 \<longleftrightarrow> drop_bit 8 m AND 0xFF = 0x19"
    "(ucast (m AND 0xFF) :: u8) \<le> 0xF \<longleftrightarrow> m AND 0xFF \<le> 0xF"
    "(0x30 :: u8) \<le> ucast (m AND 0xFF) \<longleftrightarrow> 0x30 \<le> m AND 0xFF"
    "(ucast (m AND 0xFF) :: u8) \<le> 0x3F \<longleftrightarrow> m AND 0xFF \<le> 0x3F"
    by (simp_all only: word_unat_eq_iff word_le_nat_alt u) simp_all
  then show ?thesis using assms
    by (auto simp: set_amd_func_ptrs_def platform_arch_def set_platform_def Let_def ext_def)
qed

text \<open>
  An AMD build accepts exactly family 19h, models 00h-0Fh and 30h-3Fh, by the processor's
  cpuid fields (family = base + extended, model = 16 * extended + base), although family and
  model travel packed in 16 bits of the model number; unsupported processors leave the table
  and the E-SMI library alone.
\<close>

theorem amd_support:
  assumes "idx < length (g_platform s)"
    "detect_amd_arch V = Live m" "arch_id (g_platform s ! idx) = Live m"
    "base_family = unat (drop_bit 8 (sys_cpuid_rax V) AND 0xF)" "ext_family = unat (drop_bit 20 (sys_cpuid_rax V) AND 0xFF)"
    "base_model = unat (drop_bit 4 (sys_cpuid_rax V) AND 0xF)" "ext_model = unat (drop_bit 16 (sys_cpuid_rax V) AND 0xF)"
    "model = 16 * ext_model + base_model"
  shows "\<exists>rc s'. set_amd_func_ptrs V idx s = Some (rc, s') \<and>
    (rc = 0 \<longleftrightarrow> base_family + ext_family = 0x19 \<and> (model \<le> 0xF \<or> 0x30 \<le> model \<and> model \<le> 0x3F)) \<and>
    (rc \<noteq> 0 \<longrightarrow> rc = err_code VARIORUM_ERROR_UNSUPPORTED_PLATFORM \<and> s' = s)"
proof -
  let ?rax = "sys_cpuid_rax V"
  let ?f = "(drop_bit 8 ?rax AND 0xF) + (drop_bit 20 ?rax AND 0xFF)"
  let ?m = "(drop_bit 16 ?rax AND 0xF) * 0x10 + (drop_bit 4 ?rax AND 0xF)"
  have lt4: "unat (w AND 0xF) < 16" and lt8: "unat (w AND 0xFF) < 256" for w :: u64
  proof -
    have "w AND 0xF = take_bit 4 w" "w AND 0xFF = take_bit 8 w" by (simp_all add: take_bit_eq_mask mask_eq_exp_minus_1)
    then show "unat (w AND 0xF) < 16" "unat (w AND 0xFF) < 256"
      using take_bit_nat_less_exp [of 4 "unat w"] take_bit_nat_less_exp [of 8 "unat w"]
      by (simp_all add: unsigned_take_bit_eq)
  qed
  note l = lt4 [of "drop_bit 8 ?rax"] lt8 [of "drop_bit 20 ?rax"] lt4 [of "drop_bit 16 ?rax"] lt4 [of "drop_bit 4 ?rax"]
  have um: "unat ?m = model" and uf: "unat ?f = base_family + ext_family"
    using l by (simp_all add: unat_word_ariths assms(4-8))
  have bounds: "model < 256" "base_family + ext_family < 0x10F" using l by (simp_all add: assms(4-8))
  have mm: "m = (push_bit 8 ?f OR ?m) AND 0xFFFF" using assms(2) by (simp add: detect_amd_arch_def Let_def)
  have fld: "m AND 0xFF = ?m" "drop_bit 8 m AND 0xFF = ?f AND 0xFF"
    unfolding mm by (rule amd_fields; use um bounds in simp)+
  have "w AND 0xFF = take_bit 8 w" for w :: u64 by (simp add: take_bit_eq_mask mask_eq_exp_minus_1)
  then have "unat (w AND 0xFF) = take_bit 8 (unat w)" for w :: u64
    by (simp only: unsigned_take_bit_eq)
  from this [of ?f] have f8: "unat (?f AND 0xFF) = (base_family + ext_family) mod 2 ^ 8"
    by (simp only: take_bit_eq_mod uf)
  have "unat (0x19 :: u64) = 25" by simp
  then have "drop_bit 8 m AND 0xFF = 0x19 \<longleftrightarrow> (base_family + ext_family) mod 2 ^ 8 = 25"
    by (simp only: fld(2) word_unat_eq_iff f8)
  moreover have "(base_family + ext_family) mod 2 ^ 8 = 25 \<longleftrightarrow> base_family + ext_family = 25"
    using bounds(2) by (simp add: mod_if) arith
  ultimately have fam: "drop_bit 8 m AND 0xFF = 0x19 \<longleftrightarrow> base_family + ext_family = 0x19"
    by simp
  have mod': "m AND 0xFF \<le> 0xF \<longleftrightarrow> model \<le> 0xF" "0x30 \<le> m AND 0xFF \<longleftrightarrow> 0x30 \<le> model"
    "m AND 0xFF \<le> 0x3F \<longleftrightarrow> model \<le> 0x3F"
    by (simp_all only: fld(1) word_le_nat_alt um) simp_all
  show ?thesis using set_amd_outcome [OF assms(1,3), of V] unfolding fam mod' by auto
qed

theorem amd_support_witness:
  "\<exists>s'. set_amd_func_ptrs (example_sys\<lparr>sys_cpuid_rax := 0xA00F11\<rparr>) 0
     (arch_init\<lparr>g_platform := [zero_platform\<lparr>arch_id := Live 0x1901\<rparr>, zero_platform]\<rparr>) = Some (0, s')"
proof -
  let ?s = "arch_init\<lparr>g_platform := [zero_platform\<lparr>arch_id := Live 0x1901\<rparr>, zero_platform]\<rparr>"
  let ?V = "example_sys\<lparr>sys_cpuid_rax := 0xA00F11\<rparr>"
  have "detect_amd_arch ?V = Live 0x1901" by (simp add: detect_amd_arch_def)
  from amd_support [OF _ this _ refl refl refl refl refl, of 0 ?s] show ?thesis by simp
qed

end
