(* ===== verification/Rapl_Facts.thy ===== *)
theory Rapl_Facts imports Rapl Arch_Facts Msr_Access Msr_Batch_Facts begin

text \<open>
  Properties of the RAPL limits: what a cap writes, that reading it back gives the watts that
  were asked for, and which requests are refused. The arithmetic is exact here, because the
  units are powers of two and the fields short; CDouble proves it so.
\<close>

section \<open>States in which registers can be accessed\<close>

abbreviation pe_topo :: "power_env \<Rightarrow> topo" where "pe_topo P \<equiv> machine_topo (pe_hw P)"

definition rapl_ready :: "power_env \<Rightarrow> 'a rapl_state_scheme \<Rightarrow> bool" where
  "rapl_ready P s \<longleftrightarrow> hwloc_good (pe_hw P) \<and> topo_fits (pe_topo P) \<and> driver_ok (pe_os P) \<and>
     msr_ready (pe_topo P) s \<and> init_variorum_init_topology s \<and> p_msr_core_idx s = 0 \<and>
     0 < length (g_platform s) \<and> fill_platform (pe_hw P) (g_platform s ! 0) = g_platform s ! 0"

lemma rapl_ready_simps [simp]:
  "rapl_ready P (variorum_error_handler e s) = rapl_ready P s"
  "rapl_ready P (s\<lparr>registers := R\<rparr>) = rapl_ready P s"
  "rapl_ready P (s\<lparr>translate_ru := us\<rparr>) = rapl_ready P s"
  by (simp_all add: rapl_ready_def variorum_error_handler_def msr_ready_def ready_upto_def core_ok_def fd_on_cpu_def)

lemma get_topo_ready [simp]: "rapl_ready P s \<Longrightarrow> get_topo (pe_hw P) 0 s = Some (pe_topo P, s)"
  by (simp add: rapl_ready_def get_topo_good upd_platform_def list_update_id)

lemma rapl_ready_idx [simp]: "rapl_ready P s \<Longrightarrow> p_msr_core_idx s = 0"
  by (simp add: rapl_ready_def)

text \<open>A socket's number, and its registers: those of the first thread of its first core.\<close>

definition socket_ok :: "power_env \<Rightarrow> u32 \<Rightarrow> bool" where
  "socket_ok P socket \<longleftrightarrow> unat socket < unat (nsockets (pe_topo P))"

definition socket_reg :: "power_env \<Rightarrow> 'a msr_state_scheme \<Rightarrow> u32 \<Rightarrow> u64 \<Rightarrow> u64" where
  "socket_reg P s socket msr = registers s (int (unat (devidx (pe_topo P) socket 0 0))) msr"

definition socket_readable :: "power_env \<Rightarrow> 'a msr_state_scheme \<Rightarrow> u32 \<Rightarrow> u64 \<Rightarrow> bool" where
  "socket_readable P s socket msr = coord_readable (pe_os P) (pe_topo P) ((socket, 0, 0), msr) s"

lemma socket_readable_simps [simp]:
  "socket_readable P (variorum_error_handler e s) = socket_readable P s"
  "socket_readable P (s\<lparr>registers := R\<rparr>) = socket_readable P s"
  by (auto simp: socket_readable_def fun_eq_iff)

lemma socket_coord:
  assumes "topo_fits T" "unat socket < unat (nsockets T)"
  shows "valid_coord T socket 0 0"
proof -
  have ok: "topo_ok T" using assms(1) by (simp add: topo_fits_def)
  have "unat (nsockets T) \<le> unat (ncores T)" "unat (ncores T) \<le> unat (nthreads T)"
    using ok by (auto simp: topo_ok_def intro: dvd_imp_le)
  then show ?thesis using assms(2) ok by (simp add: valid_coord_def topo_ok_def div_greater_zero_iff)
qed

lemma call_sockets_assert_ready [simp]:
  assumes "rapl_ready P s" "socket_ok P socket"
  shows "call_sockets_assert P socket s = Some s"
proof -
  have f: "topo_fits (pe_topo P)" using assms(1) by (simp add: rapl_ready_def)
  show ?thesis using assms asserts_silent(1) [OF f socket_coord [OF f], of socket s]
    by (simp add: call_sockets_assert_def socket_ok_def)
qed

lemma call_read_coord_ready:
  assumes "rapl_ready P s" "socket_ok P socket"
  shows "call_read_coord P socket msr v s = Some (if socket_readable P s socket msr
    then (0, socket_reg P s socket msr, s)
    else (err_code VARIORUM_ERROR_MSR_READ, v, variorum_error_handler VARIORUM_ERROR_MSR_READ s))"
proof -
  have f: "driver_ok (pe_os P)" "topo_fits (pe_topo P)" "msr_ready (pe_topo P) s"
    using assms(1) by (simp_all add: rapl_ready_def)
  show ?thesis
    using read_msr_by_coord_readable [OF f socket_coord [OF f(2)], of socket msr v] assms
    by (simp add: call_read_coord_def socket_ok_def socket_readable_def socket_reg_def reg_at_def)
qed

definition socket_set :: "power_env \<Rightarrow> u32 \<Rightarrow> u64 \<Rightarrow> u64 \<Rightarrow> 'a msr_state_scheme \<Rightarrow> 'a msr_state_scheme" where
  "socket_set P socket msr v s =
     s\<lparr>registers := set_reg (int (unat (devidx (pe_topo P) socket 0 0))) msr v (registers s)\<rparr>"

definition socket_writable :: "power_env \<Rightarrow> 'a msr_state_scheme \<Rightarrow> u32 \<Rightarrow> u64 \<Rightarrow> u64 \<Rightarrow> bool" where
  "socket_writable P s socket msr v = coord_writable (pe_os P) (pe_topo P) ((socket, 0, 0), msr) v s"

lemma socket_writable_handler [simp]:
  "socket_writable P (variorum_error_handler e s) = socket_writable P s"
  by (auto simp: socket_writable_def fun_eq_iff)

lemma call_write_coord_ready:
  assumes "rapl_ready P s" "socket_ok P socket"
  shows "call_write_coord P socket msr v s = Some (if socket_writable P s socket msr v
    then (0, socket_set P socket msr v s)
    else (err_code VARIORUM_ERROR_MSR_WRITE, variorum_error_handler VARIORUM_ERROR_MSR_WRITE s))"
proof -
  have f: "driver_ok (pe_os P)" "topo_fits (pe_topo P)" "msr_ready (pe_topo P) s"
    using assms(1) by (simp_all add: rapl_ready_def)
  show ?thesis
    using write_msr_by_coord_writable [OF f socket_coord [OF f(2)], of socket msr v] assms
    by (simp add: call_write_coord_def socket_ok_def socket_writable_def socket_set_def)
qed

text \<open>A driver that gives everyone the same answer.\<close>

lemma driver_answers:
  assumes "rapl_ready P s" "socket_ok P socket"
  shows "(\<And>p. drv_can_read (pe_os P) p msr = b) \<Longrightarrow> socket_readable P s socket msr = b"
    and "(\<And>p. drv_write (pe_os P) (registers s) p msr v \<noteq> None) \<Longrightarrow> socket_writable P s socket msr v"
proof -
  have f: "topo_fits (pe_topo P)" "msr_ready (pe_topo P) s" using assms(1) by (simp_all add: rapl_ready_def)
  have c: "valid_coord (pe_topo P) socket 0 0" by (rule socket_coord [OF f(1)]) (use assms(2) in \<open>simp add: socket_ok_def\<close>)
  obtain fd p where "file_descriptors s ! unat (devidx (pe_topo P) socket 0 0) = Some fd" "open_files s fd = Some p"
    by (rule ready_fd [OF f(2) devidx_less [OF f(1) c]])
  then show "(\<And>p. drv_can_read (pe_os P) p msr = b) \<Longrightarrow> socket_readable P s socket msr = b"
    "(\<And>p. drv_write (pe_os P) (registers s) p msr v \<noteq> None) \<Longrightarrow> socket_writable P s socket msr v"
    by (simp_all add: socket_readable_def coord_readable_def socket_writable_def coord_writable_def)
qed

lemma socket_set_simps [simp]:
  "rapl_ready P (socket_set P so m v s) = rapl_ready P s"
  "socket_readable P (socket_set P so m v s) = socket_readable P s"
  "translate_ru (socket_set P so m v s) = translate_ru s"
  "elog (socket_set P so m v s) = elog s"
  "socket_reg P (socket_set P so m v s) so m = v"
  by (simp_all add: socket_set_def socket_reg_def set_reg_def)

section \<open>Exact units\<close>

text \<open>The units a power unit register with fields pu, eu and tu stands for.\<close>

definition exact_units :: "u64 \<Rightarrow> nat \<Rightarrow> nat \<Rightarrow> nat \<Rightarrow> rapl_units" where
  "exact_units w pu eu tu = \<lparr>ru_msr_rapl_power_unit = w, ru_joules = Fin (2 ^ eu), ru_seconds = Fin (2 ^ tu),
     ru_watts = Fin (1 / 2 ^ pu)\<rparr>"

lemma shift_one_exact:
  assumes "unat n < 31"
  shows "shift_one n = Some (Fin (2 ^ unat n))"
proof -
  have "(2 :: int) ^ unat n < 2 ^ 31" using assms by (intro power_strict_increasing) simp_all
  then have "\<bar>2 ^ unat n :: int\<bar> < 2 ^ 53" by simp
  then have "d_of_int (2 ^ unat n) = Fin (of_int (2 ^ unat n))" by (rule d_of_int_exact)
  then show ?thesis using assms by (simp add: shift_one_def)
qed

lemma d_div_one: "k \<le> 900 \<Longrightarrow> d_div (Fin 1) (Fin (2 ^ k)) = Fin (1 / 2 ^ k)"
  using d_scale(3) [of 1 k] by simp

lemma units_of_exact:
  assumes "unat (MASK_VAL w 12 8) < 31"
  shows "units_of w = Some (exact_units w (unat (MASK_VAL w 3 0)) (unat (MASK_VAL w 12 8)) (unat (MASK_VAL w 19 16)))"
proof -
  have "unat (MASK_VAL w 3 0) < 2 ^ (3 - 0 + 1)" "unat (MASK_VAL w 19 16) < 2 ^ (19 - 16 + 1)"
    by (rule MASK_VAL_less; simp)+
  then have l: "unat (MASK_VAL w 3 0) < 16" "unat (MASK_VAL w 19 16) < 16" by simp_all
  have p: "shift_one (MASK_VAL w 3 0) = Some (Fin (2 ^ unat (MASK_VAL w 3 0)))"
    "shift_one (MASK_VAL w 19 16) = Some (Fin (2 ^ unat (MASK_VAL w 19 16)))"
    by (rule shift_one_exact; use l in simp)+
  have d: "d_div (Fin 1) (Fin (2 ^ unat (MASK_VAL w 3 0))) = Fin (1 / 2 ^ unat (MASK_VAL w 3 0))"
    by (rule d_div_one) (use l in simp)
  show ?thesis by (simp only: units_of_def exact_units_def p d shift_one_exact [OF assms] Option.bind_lunit)
qed

section \<open>Translation with known units\<close>

text \<open>The units of a socket are known, as powers of two.\<close>

definition socket_units :: "u32 \<Rightarrow> nat \<Rightarrow> nat \<Rightarrow> nat \<Rightarrow> 'a rapl_state_scheme \<Rightarrow> bool" where
  "socket_units socket pu eu tu s \<longleftrightarrow> pu < 16 \<and> eu < 31 \<and> tu < 16 \<and>
     (\<exists>us w. translate_ru s = Some us \<and> unat socket < length us \<and> us ! unat socket = exact_units w pu eu tu)"

lemma socket_units_simps [simp]:
  "socket_units so pu eu tu (variorum_error_handler e s) = socket_units so pu eu tu s"
  "socket_units so pu eu tu (socket_set P so' m v s) = socket_units so pu eu tu s"
  by (simp_all add: socket_units_def variorum_error_handler_def)

lemma translate_known:
  assumes "socket_units socket pu eu tu s" "type \<noteq> BITS_TO_JOULES_DRAM"
  shows "\<exists>w. translate P socket bits units type msr idx s =
    map_option (\<lambda>(b, u). (b, u, s)) (convert P (exact_units w pu eu tu) type bits units)"
proof -
  obtain us w where u: "translate_ru s = Some us" "unat socket < length us" "us ! unat socket = exact_units w pu eu tu"
    using assms(1) by (auto simp: socket_units_def)
  have "translate P socket bits units type msr idx s =
      map_option (\<lambda>(b, u). (b, u, s)) (convert P (exact_units w pu eu tu) type bits units)"
    using u assms(2) by (simp add: translate_def map_option_case split: option.split)
  then show ?thesis ..
qed

lemma d_of_u64_exact: "unat b < 2 ^ 53 \<Longrightarrow> d_of_u64 b = Fin (of_nat (unat b))"
proof -
  assume "unat b < 2 ^ 53"
  then have "int (unat b) < int (2 ^ 53)" by (rule of_nat_less_iff [THEN iffD2])
  then have "\<bar>uint b\<bar> < 2 ^ 53" by simp
  then show ?thesis using d_of_int_exact [of "uint b"] by simp
qed

lemma fl_nonneg_not_below: "0 < x \<Longrightarrow> \<not> d_less (fl x) (Fin 0)"
proof -
  assume x: "0 < x"
  have "0 \<le> x / 2 powi e" for e using x by simp
  then have "0 \<le> \<lfloor>x / 2 powi e\<rfloor>" for e by simp
  then have "0 \<le> round_half_even (x / 2 powi e)" for e
    by (simp add: round_half_even_def Let_def add_nonneg_nonneg)
  then have "0 \<le> of_int (round_half_even (x / 2 powi e)) * (2 :: rat) powi e" for e
    by (intro mult_nonneg_nonneg) simp_all
  then show ?thesis using x by (simp add: fl_def Let_def not_less)
qed

lemma d_sub_self: "d_sub (Fin x) (Fin x) = Fin 0"
  by (simp add: d_sub_def fl_def)

lemma seconds_field_one:
  assumes "libm_ok P" "tu < 16"
  shows "seconds_field P (d_mul (Fin 1) (Fin (2 ^ tu))) = Some (of_nat tu)"
proof -
  have m: "d_mul (Fin 1) (Fin (2 ^ tu)) = Fin (2 ^ tu)" using d_scale(1) [of 1 tu] assms(2) by simp
  have l: "libm_log2 P (Fin (2 ^ tu)) = Fin (of_nat tu)" using assms by (simp add: libm_ok_def)
  have n: "int tu < 2 ^ 64" using assms(2) by simp
  have u: "u64_of_d (Fin (of_nat tu)) = Some (of_nat tu)" using u64_of_d_nat [of "int tu"] n by simp
  have t: "unat (of_nat tu :: u64) = tu" by (rule unat_of_nat_small) (use assms(2) in simp)
  have v: "d_of_u64 (of_nat tu) = Fin (of_nat tu)"
    using d_of_u64_exact [of "of_nat tu"] t assms(2) by simp
  have c: "\<not> d_less (fl (15 / 100)) (Fin 0)" "\<not> d_less (fl (45 / 100)) (Fin 0)" "\<not> d_less (fl (7 / 10)) (Fin 0)"
    by (rule fl_nonneg_not_below; simp)+
  show ?thesis unfolding seconds_field_def m l Let_def u Option.bind_lunit v d_sub_self using c by simp
qed

lemma watts_field:
  assumes "\<bar>L\<bar> < 2 ^ 31" "pu < 16"
  shows "d_div (d_of_int L) (Fin (1 / 2 ^ pu)) = Fin (of_int (L * 2 ^ pu))"
proof -
  have b: "\<bar>L\<bar> < 2 ^ 53" using assms(1) by simp
  have "d_of_int L = Fin (of_int L)" by (rule d_of_int_exact [OF b])
  then show ?thesis using d_scale(4) [OF b, of pu] assms(2) by simp
qed

lemma scaled_bound:
  assumes "\<bar>L :: int\<bar> < 2 ^ 31" "pu < 16"
  shows "\<bar>L * 2 ^ pu\<bar> < 2 ^ 46"
proof -
  have "(2 :: int) ^ pu \<le> 2 ^ 15" using assms(2) by (intro power_increasing) simp_all
  then have "\<bar>L\<bar> * 2 ^ pu \<le> 2 ^ 31 * 2 ^ 15 - 1 \<or> \<bar>L\<bar> * 2 ^ pu = 0"
  proof -
    have "\<bar>L\<bar> * 2 ^ pu \<le> (2 ^ 31 - 1) * 2 ^ 15" using assms(1) \<open>2 ^ pu \<le> 2 ^ 15\<close> by (intro mult_mono) simp_all
    then show ?thesis by simp
  qed
  then show ?thesis by (auto simp: abs_mult)
qed

lemma uint_word_of_int_u64: "0 \<le> n \<Longrightarrow> n < 2 ^ 64 \<Longrightarrow> uint (word_of_int n :: u64) = n"
  by (simp add: uint_word_of_int take_bit_int_eq_self)

text \<open>What calc\_rapl\_bits composes for the request of L watts over one second.\<close>

definition cap_request :: "int \<Rightarrow> rapl_limit" where
  "cap_request L = \<lparr>lim_bits = 0, lim_watts = d_of_int L, lim_seconds = Fin 1, lim_translate_bits = 0\<rparr>"

lemma calc_rapl_bits_request:
  assumes "socket_units socket pu eu tu s" "libm_ok P" "\<bar>L\<bar> < 2 ^ 31"
  shows "calc_rapl_bits P socket (cap_request L) 0 msr s =
    (if L < 0 then None
     else if 2 ^ 15 \<le> L * 2 ^ pu then Some (-1, cap_request L, variorum_error_handler VARIORUM_ERROR_INVAL s)
     else Some (0, (cap_request L)\<lparr>lim_bits := word_of_int (L * 2 ^ pu) OR push_bit 17 (of_nat tu)\<rparr>, s))"
proof -
  have k: "pu < 16" "tu < 16" using assms(1) by (simp_all add: socket_units_def)
  obtain w1 where t1: "translate P socket 0 (Fin 1) SECONDS_TO_BITS_STD msr P_INTEL_CPU_IDX s =
      map_option (\<lambda>(b, u). (b, u, s)) (convert P (exact_units w1 pu eu tu) SECONDS_TO_BITS_STD 0 (Fin 1))"
    using translate_known [OF assms(1), of SECONDS_TO_BITS_STD] by blast
  obtain w2 where t2: "translate P socket 0 (d_of_int L) WATTS_TO_BITS msr P_INTEL_CPU_IDX s =
      map_option (\<lambda>(b, u). (b, u, s)) (convert P (exact_units w2 pu eu tu) WATTS_TO_BITS 0 (d_of_int L))"
    using translate_known [OF assms(1), of WATTS_TO_BITS] by blast
  have s1: "translate P socket 0 (Fin 1) SECONDS_TO_BITS_STD msr P_INTEL_CPU_IDX s = Some (of_nat tu, Fin 1, s)"
    unfolding t1 using seconds_field_one [OF assms(2) k(2)] by (simp add: convert_def exact_units_def)
  have s2: "translate P socket 0 (d_of_int L) WATTS_TO_BITS msr P_INTEL_CPU_IDX s =
      map_option (\<lambda>b. (b, d_of_int L, s)) (u64_of_d (Fin (of_int (L * 2 ^ pu))))"
    unfolding t2 using watts_field [OF assms(3) k(1)] by (simp add: convert_def exact_units_def option.map_comp o_def)
  have b: "\<bar>L * 2 ^ pu\<bar> < 2 ^ 46" by (rule scaled_bound [OF assms(3) k(1)])
  have m: "MASK_VAL 0 i j = 0" for i j by (simp add: MASK_VAL_def)
  have lim: "d_sub (libm_pow P (Fin 2) (Fin 15)) (Fin 1) = Fin 32767"
  proof -
    have "libm_pow P (Fin 2) (Fin 15) = Fin 32768"
      using assms(2) [unfolded libm_ok_def, rule_format, of 15] by simp
    moreover have "fl (of_int 32767) = Fin (of_int 32767)" by (rule fl_representable, rule representable_int) simp
    ultimately show ?thesis by (simp add: d_sub_def)
  qed
  show ?thesis
  proof (cases "L < 0")
    case True
    have "1 \<le> (2 :: int) ^ pu" by simp
    then have "L * 2 ^ pu \<le> L * 1" using True by (intro mult_left_mono_neg) simp_all
    then have "L * 2 ^ pu \<le> -1" using True unfolding mult_1_right by linarith
    then have "(of_int (L * 2 ^ pu) :: rat) \<le> of_int (-1)" by (simp only: of_int_le_iff)
    then have "u64_of_d (Fin (of_int (L * 2 ^ pu))) = None" by (simp add: u64_of_d_def)
    then show ?thesis using True s1 s2 by (simp add: calc_rapl_bits_def cap_request_def m)
  next
    case False
    define x where "x = L * 2 ^ pu"
    have n: "0 \<le> x" "x < 2 ^ 64" using b False by (simp_all add: x_def)
    have "d_of_u64 (word_of_int x) = Fin (of_int x)"
      unfolding uint_word_of_int_u64 [OF n] by (rule d_of_int_exact) (use b in \<open>simp add: x_def\<close>)
    then have "d_less (Fin 32767) (d_of_u64 (word_of_int x)) \<longleftrightarrow> (of_int 32767 :: rat) < of_int x"
      by simp
    then have d: "d_less (Fin 32767) (d_of_u64 (word_of_int x)) \<longleftrightarrow> 2 ^ 15 \<le> x"
      unfolding of_int_less_iff by auto
    have "translate P socket 0 (d_of_int L) WATTS_TO_BITS msr P_INTEL_CPU_IDX s = Some (word_of_int x, d_of_int L, s)"
      using s2 u64_of_d_nat [OF n] unfolding x_def [symmetric] by simp
    then show ?thesis using False unfolding x_def [symmetric]
      by (simp add: calc_rapl_bits_def cap_request_def m s1 lim d)
  qed
qed

section \<open>The register a cap writes\<close>

definition cap_value :: "u64 \<Rightarrow> nat \<Rightarrow> u64 \<Rightarrow> u64" where
  "cap_value x tu cur = (cur AND 0xFFFFFFFF00000000) OR
     ((x OR push_bit 17 (of_nat tu)) OR push_bit 15 1 OR push_bit 16 1)"

lemma upper_mask: "(0xFFFFFFFF00000000 :: u64) = push_bit 32 (mask 32)"
  by (simp add: mask_eq_exp_minus_1 push_bit_eq_mult)

lemma take_bit_small: "unat (x :: u64) < 2 ^ n \<Longrightarrow> take_bit n x = x"
  by (rule word_unat_eq_iff [THEN iffD2]) (simp add: unsigned_take_bit_eq take_bit_nat_eq_self_iff)

lemma small_bits: "unat (x :: u64) < 2 ^ n \<Longrightarrow> bit x k \<Longrightarrow> k < n"
  by (metis bit_take_bit_iff take_bit_small)

lemma cap_value_fields:
  assumes "unat x < 2 ^ 15" "tu < 16"
  shows "MASK_VAL (cap_value x tu cur) 14 0 = x" "MASK_VAL (cap_value x tu cur) 23 17 = of_nat tu"
    "drop_bit 32 (cap_value x tu cur) = drop_bit 32 cur" "bit (cap_value x tu cur) 15" "bit (cap_value x tu cur) 16"
proof -
  have "unat (of_nat tu :: u64) = tu" by (rule unat_of_nat_small) (use assms(2) in simp)
  then have t: "unat (of_nat tu :: u64) < 2 ^ 4" using assms(2) by simp
  have "take_bit 4 tu = tu" by (rule take_bit_nat_eq_self) (use assms(2) in simp)
  then have tn: "bit tu n \<Longrightarrow> n < 4" for n by (metis bit_take_bit_iff)
  note b = small_bits [OF assms(1)] tn
  have one: "bit (1 :: u64) n \<longleftrightarrow> n = 0" for n by (simp add: bit_1_iff)
  show "MASK_VAL (cap_value x tu cur) 14 0 = x"
    by (simp add: MASK_VAL_take_drop cap_value_def upper_mask) (auto simp: bit_eq_iff bit_simps one dest: b)
  show "MASK_VAL (cap_value x tu cur) 23 17 = of_nat tu"
    by (simp add: MASK_VAL_take_drop cap_value_def upper_mask) (auto simp: bit_eq_iff bit_simps one dest: b)
  have k: "n < 32" if "bit cur (32 + n)" for n
    using bit_imp_le_length [OF that] by simp
  show "drop_bit 32 (cap_value x tu cur) = drop_bit 32 cur"
    by (simp add: cap_value_def upper_mask) (auto simp: bit_eq_iff bit_simps one dest: b k)
  show "bit (cap_value x tu cur) 15" "bit (cap_value x tu cur) 16"
    by (simp_all add: cap_value_def bit_simps one)
qed

text \<open>The current limit as cap\_package\_power\_limit sees it: 0 when it cannot be read.\<close>

definition current_limit :: "power_env \<Rightarrow> 'a rapl_state_scheme \<Rightarrow> u32 \<Rightarrow> u64 \<Rightarrow> u64" where
  "current_limit P s socket msr = (if socket_readable P s socket msr then socket_reg P s socket msr else 0)"

lemma handler_registers:
  "registers (variorum_error_handler e s) = registers s"
  "translate_ru (variorum_error_handler e s) = translate_ru s"
  "registers r = registers s \<Longrightarrow> registers (socket_set P so m v r) = registers (socket_set P so m v s)"
  by (simp_all add: variorum_error_handler_def socket_set_def)

lemma cap_package_eq:
  assumes "rapl_ready P s" "socket_ok P socket" "socket_units socket pu eu tu s" "libm_ok P" "\<bar>L\<bar> < 2 ^ 31"
  shows "L < 0 \<Longrightarrow> cap_package_power_limit P socket L msr mu s = None"
    and "2 ^ 15 \<le> L * 2 ^ pu \<Longrightarrow> \<exists>s'. cap_package_power_limit P socket L msr mu s = Some (-1, s') \<and>
      registers s' = registers s \<and> rapl_ready P s' \<and> translate_ru s' = translate_ru s \<and>
      VARIORUM_ERROR_INVAL \<in> set (elog s')"
    and "0 \<le> L \<Longrightarrow> L * 2 ^ pu < 2 ^ 15 \<Longrightarrow> v = cap_value (word_of_int (L * 2 ^ pu)) tu (current_limit P s socket msr) \<Longrightarrow>
      \<exists>s'. cap_package_power_limit P socket L msr mu s =
        Some ((if socket_readable P s socket msr then 0 else err_code VARIORUM_ERROR_MSR_READ) +
              (if socket_writable P s socket msr v then 0 else err_code VARIORUM_ERROR_MSR_WRITE), s') \<and>
      registers s' = (if socket_writable P s socket msr v then registers (socket_set P socket msr v s) else registers s) \<and>
      rapl_ready P s' \<and> translate_ru s' = translate_ru s \<and> socket_readable P s' = socket_readable P s"
    and "0 \<le> L \<Longrightarrow> L * 2 ^ pu < 2 ^ 15 \<Longrightarrow> v = cap_value (word_of_int (L * 2 ^ pu)) tu (socket_reg P s socket msr) \<Longrightarrow>
      socket_readable P s socket msr \<Longrightarrow> socket_writable P s socket msr v \<Longrightarrow>
      cap_package_power_limit P socket L msr mu s = Some (0, socket_set P socket msr v s)"
proof -
  define r where "r = (if socket_readable P s socket msr then s else variorum_error_handler VARIORUM_ERROR_MSR_READ s)"
  have rd: "call_read_coord P socket msr 0 s =
      Some (if socket_readable P s socket msr then 0 else err_code VARIORUM_ERROR_MSR_READ, current_limit P s socket msr, r)"
    by (simp add: call_read_coord_ready [OF assms(1,2)] r_def current_limit_def)
  have r': "rapl_ready P r" "socket_units socket pu eu tu r" "registers r = registers s"
    "translate_ru r = translate_ru s" "socket_readable P r = socket_readable P s"
    using assms(1,3) by (simp_all add: r_def) (simp_all add: variorum_error_handler_def)
  note cb = calc_rapl_bits_request [OF r'(2) assms(4,5), of mu]
  note d = cap_package_power_limit_def calc_package_rapl_limit_def calc_limit_def
  have ca: "call_sockets_assert P socket s = Some s" by (rule call_sockets_assert_ready [OF assms(1,2)])
  have b: "L * 2 ^ pu < 0" if "L < 0" using that by (simp add: mult_less_0_iff)
  show "cap_package_power_limit P socket L msr mu s = None" if "L < 0"
    using cb that by (simp add: d ca rd cap_request_def)
  show "\<exists>s'. cap_package_power_limit P socket L msr mu s = Some (-1, s') \<and>
      registers s' = registers s \<and> rapl_ready P s' \<and> translate_ru s' = translate_ru s \<and>
      VARIORUM_ERROR_INVAL \<in> set (elog s')" if "2 ^ 15 \<le> L * 2 ^ pu"
  proof -
    have "\<not> L < 0" using b that by fastforce
    then show ?thesis using cb that r'(1,3,4)
      by (intro exI [of _ "variorum_error_handler VARIORUM_ERROR_INVAL r"]) (simp add: d ca rd cap_request_def, simp add: variorum_error_handler_def)
  qed
  have main: "cap_package_power_limit P socket L msr mu s =
        Some ((if socket_readable P s socket msr then 0 else err_code VARIORUM_ERROR_MSR_READ) +
              (if socket_writable P s socket msr v then 0 else err_code VARIORUM_ERROR_MSR_WRITE),
          if socket_writable P s socket msr v then socket_set P socket msr v r else variorum_error_handler VARIORUM_ERROR_MSR_WRITE r)"
    if L: "0 \<le> L" "L * 2 ^ pu < 2 ^ 15" and v: "v = cap_value (word_of_int (L * 2 ^ pu)) tu (current_limit P s socket msr)" for v
  proof -
    let ?ok = "socket_writable P s socket msr v"
    have "socket_writable P r socket msr v = ?ok" by (simp add: r_def)
    then have w: "call_write_coord P socket msr v r = Some (if ?ok then (0, socket_set P socket msr v r)
        else (err_code VARIORUM_ERROR_MSR_WRITE, variorum_error_handler VARIORUM_ERROR_MSR_WRITE r))"
      by (simp add: call_write_coord_ready [OF r'(1) assms(2)])
    have "cap_package_power_limit P socket L msr mu s = do {
        (rc, s1) \<leftarrow> call_write_coord P socket msr v r;
        Some ((if socket_readable P s socket msr then 0 else err_code VARIORUM_ERROR_MSR_READ) + rc, s1)
      }"
    proof -
      have "\<not> L < 0" "\<not> 2 ^ 15 \<le> L * 2 ^ pu" using L by simp_all
      then show ?thesis using cb w
        by (cases ?ok) (simp_all add: d ca rd cap_request_def cap_value_def r'(5) v)
    qed
    then show ?thesis
      unfolding w by (cases ?ok) (simp_all only: if_True if_False prod.case Option.bind_lunit)
  qed
  show "cap_package_power_limit P socket L msr mu s = Some (0, socket_set P socket msr v s)"
    if "0 \<le> L" "L * 2 ^ pu < 2 ^ 15" "v = cap_value (word_of_int (L * 2 ^ pu)) tu (socket_reg P s socket msr)"
      "socket_readable P s socket msr" "socket_writable P s socket msr v"
    using main [of v] that by (simp add: current_limit_def r_def)
  assume L: "0 \<le> L" "L * 2 ^ pu < 2 ^ 15" and v: "v = cap_value (word_of_int (L * 2 ^ pu)) tu (current_limit P s socket msr)"
  let ?ok = "socket_writable P s socket msr v"
  note c = main [OF L v]
  have rs: "registers (socket_set P socket msr v r) = registers (socket_set P socket msr v s)"
    by (rule handler_registers(3) [OF r'(3)])
  show "\<exists>s'. cap_package_power_limit P socket L msr mu s =
        Some ((if socket_readable P s socket msr then 0 else err_code VARIORUM_ERROR_MSR_READ) +
              (if ?ok then 0 else err_code VARIORUM_ERROR_MSR_WRITE), s') \<and>
      registers s' = (if ?ok then registers (socket_set P socket msr v s) else registers s) \<and>
      rapl_ready P s' \<and> translate_ru s' = translate_ru s \<and> socket_readable P s' = socket_readable P s"
    by (rule exI, rule conjI [OF c])
      (simp only: if_split_eq1 rs handler_registers(1,2) rapl_ready_simps socket_set_simps r' socket_readable_simps if_cancel
        split: if_split; simp)
qed


section \<open>The limits a register stands for\<close>

text \<open>
  The watts and the seconds of the limit at an offset of the register, by the manual: the power
  field in units of 1/2^pu watts, and the window (1 + z/4) 2^y in units of 1/2^tu seconds, where
  y is the lower part of its field, of 5 bits, and z the upper one, of 2 bits.
\<close>

definition field_watts :: "u64 \<Rightarrow> nat \<Rightarrow> nat \<Rightarrow> double" where
  "field_watts w off pu = Fin (of_nat (unat (MASK_VAL w (14 + off) (0 + off))) / 2 ^ pu)"

definition field_seconds :: "u64 \<Rightarrow> nat \<Rightarrow> nat \<Rightarrow> double" where
  "field_seconds w off tu = (let t = unat (MASK_VAL w (23 + off) (17 + off))
     in Fin (of_nat (4 + t div 32 mod 4) * 2 ^ (t mod 32) / (4 * 2 ^ tu)))"

lemma fl_dyadic:
  assumes "n < 2 ^ 53" "a \<le> 900" "b \<le> 900"
  shows "fl (of_nat n * 2 ^ a / 2 ^ b) = Fin (of_nat n * 2 ^ a / 2 ^ b)"
proof -
  have "int n < int (2 ^ 53)" using assms(1) by (rule of_nat_less_iff [THEN iffD2])
  then have n: "\<bar>int n\<bar> < 2 ^ 53" by simp
  have "representable (of_int (int n) * 2 powi (int a - int b))"
    by (rule representable_dyadic [OF n]) (use assms in simp_all)
  moreover have "of_int (int n) * (2 :: rat) powi (int a - int b) = of_nat n * 2 ^ a / 2 ^ b"
    by (simp add: power_int_diff)
  ultimately show ?thesis using fl_representable by simp
qed

lemma window_parts:
  assumes "unat (b :: u64) < 2 ^ 7"
  shows "unat (b AND 0x1F) = unat b mod 32" "unat (drop_bit 5 (b AND 0x60)) = unat b div 32 mod 4"
proof -
  have "b AND 0x1F = MASK_VAL b 4 0" "drop_bit 5 (b AND 0x60) = MASK_VAL b 6 5"
    by (simp_all add: MASK_VAL_def MASK_RANGE_def)
  then show "unat (b AND 0x1F) = unat b mod 32" "unat (drop_bit 5 (b AND 0x60)) = unat b div 32 mod 4"
    by (simp_all add: unat_MASK_VAL)
qed

lemma seconds_value_exact:
  assumes "libm_ok P" "unat b < 2 ^ 7" "tu < 16"
  shows "seconds_value P b (Fin (2 ^ tu)) =
    Fin (of_nat (4 + unat b div 32 mod 4) * 2 ^ (unat b mod 32) / (4 * 2 ^ tu))"
proof -
  define y where "y = unat b mod 32"
  define z where "z = unat b div 32 mod 4"
  have l: "y \<le> 31" "z < 4" by (simp_all add: y_def z_def)
  have u: "unat (b AND 0x1F) = y" "unat (drop_bit 5 (b AND 0x60)) = z"
    using window_parts [OF assms(2)] by (simp_all add: y_def z_def)
  have v: "d_of_u64 (b AND 0x1F) = Fin (of_nat y)" "d_of_u64 (drop_bit 5 (b AND 0x60)) = Fin (of_nat z)"
    using d_of_u64_exact [of "b AND 0x1F"] d_of_u64_exact [of "drop_bit 5 (b AND 0x60)"] l
    unfolding u by simp_all
  have p: "libm_pow P (Fin 2) (Fin (of_nat y)) = Fin (2 ^ y)" using assms(1) l(1) by (simp add: libm_ok_def)
  have "d_mul (Fin (1 / 4)) (Fin (of_nat z)) = Fin (of_nat z / 4)"
    using fl_dyadic [of z 0 2] l by (simp add: d_mul_def)
  moreover have "d_add (Fin 1) (Fin (of_nat z / 4)) = Fin (of_nat (4 + z) / 4)"
    using fl_dyadic [of "4 + z" 0 2] l by (simp add: add_divide_distrib)
  moreover have "d_mul (Fin (of_nat (4 + z) / 4)) (Fin (2 ^ y)) = Fin (of_nat (4 + z) * 2 ^ y / 4)"
    using fl_dyadic [of "4 + z" y 2] l by (simp add: d_mul_def)
  moreover have "d_div (Fin (of_nat (4 + z) * 2 ^ y / 4)) (Fin (2 ^ tu)) = Fin (of_nat (4 + z) * 2 ^ y / (4 * 2 ^ tu))"
    using fl_dyadic [of "4 + z" y "tu + 2"] l assms(3) by (simp add: d_div_def power_add mult.commute)
  ultimately show ?thesis
    by (simp only: seconds_value_def Let_def v p y_def [symmetric] z_def [symmetric])
qed

lemma calc_from_bits_known:
  assumes "rapl_ready P s" "socket_ok P socket" "socket_units socket pu eu tu s" "libm_ok P" "off \<le> 32"
  shows "calc_rapl_from_bits P socket l off msr s =
    Some (0, l\<lparr>lim_watts := field_watts (lim_bits l) off pu, lim_seconds := field_seconds (lim_bits l) off tu\<rparr>, s)"
proof -
  have k: "pu < 16" "tu < 16" using assms(3) by (simp_all add: socket_units_def)
  let ?w = "MASK_VAL (lim_bits l) (14 + off) (0 + off)" and ?t = "MASK_VAL (lim_bits l) (23 + off) (17 + off)"
  have "unat ?w < 2 ^ (14 + off - (0 + off) + 1)" "unat ?t < 2 ^ (23 + off - (17 + off) + 1)"
    by (rule MASK_VAL_less; use assms(5) in simp)+
  then have b: "unat ?w < 2 ^ 15" "unat ?t < 2 ^ 7" by simp_all
  have w: "d_mul (d_of_u64 ?w) (Fin (1 / 2 ^ pu)) = field_watts (lim_bits l) off pu"
    using d_of_u64_exact [of ?w] fl_dyadic [of "unat ?w" 0 pu] b(1) k(1)
    by (simp add: d_mul_def field_watts_def)
  have t: "seconds_value P ?t (Fin (2 ^ tu)) = field_seconds (lim_bits l) off tu"
    unfolding seconds_value_exact [OF assms(4) b(2) k(2)] field_seconds_def Let_def ..
  obtain w1 where t1: "translate P socket ?w (lim_watts l) BITS_TO_WATTS msr P_INTEL_CPU_IDX s =
      map_option (\<lambda>(b, u). (b, u, s)) (convert P (exact_units w1 pu eu tu) BITS_TO_WATTS ?w (lim_watts l))"
    using translate_known [OF assms(3), of BITS_TO_WATTS] by blast
  obtain w2 where t2: "translate P socket ?t (lim_seconds l) BITS_TO_SECONDS_STD msr P_INTEL_CPU_IDX s =
      map_option (\<lambda>(b, u). (b, u, s)) (convert P (exact_units w2 pu eu tu) BITS_TO_SECONDS_STD ?t (lim_seconds l))"
    using translate_known [OF assms(3), of BITS_TO_SECONDS_STD] by blast
  have "translate P socket ?w (lim_watts l) BITS_TO_WATTS msr P_INTEL_CPU_IDX s = Some (?w, field_watts (lim_bits l) off pu, s)"
    "translate P socket ?t (lim_seconds l) BITS_TO_SECONDS_STD msr P_INTEL_CPU_IDX s = Some (?t, field_seconds (lim_bits l) off tu, s)"
    unfolding t1 t2 using w t by (simp_all add: convert_def exact_units_def)
  then show ?thesis using call_sockets_assert_ready [OF assms(1,2)]
    by (simp only: calc_rapl_from_bits_def Let_def Option.bind_lunit prod.case)
qed

text \<open>get\_package\_rapl\_limit where the register can be read.\<close>

definition known_limit :: "u64 \<Rightarrow> nat \<Rightarrow> nat \<Rightarrow> nat \<Rightarrow> rapl_limit" where
  "known_limit w off pu tu = \<lparr>lim_bits = w, lim_watts = field_watts w off pu,
     lim_seconds = field_seconds w off tu, lim_translate_bits = 1\<rparr>"

lemma get_package_known:
  assumes "rapl_ready P s" "socket_ok P socket" "socket_units socket pu eu tu s" "libm_ok P"
    "socket_readable P s socket msr"
  shows "get_package_rapl_limit P socket (Some l1) (Some l2) msr mu s =
    Some (0, Some (known_limit (socket_reg P s socket msr) 0 pu tu),
      Some (known_limit (socket_reg P s socket msr) 32 pu tu), s)"
proof -
  have rd: "read_limit P socket (Some l) msr s =
      Some (Some (l\<lparr>lim_bits := socket_reg P s socket msr, lim_translate_bits := 1\<rparr>), s)" for l
    using assms(5) by (simp add: read_limit_def call_read_coord_ready [OF assms(1,2)])
  have cb: "calc_rapl_from_bits P socket (l\<lparr>lim_bits := w, lim_translate_bits := 1\<rparr>) off mu s =
      Some (0, known_limit w off pu tu, s)" if "off \<le> 32" for l w off
    unfolding calc_from_bits_known [OF assms(1-4) that] by (simp add: known_limit_def)
  show ?thesis
    by (simp add: get_package_rapl_limit_def rd calc_package_rapl_limit_def calc_limit_def cb)
qed


section \<open>Reading the units\<close>

definition reg_units :: "u64 \<Rightarrow> rapl_units" where
  "reg_units w = exact_units w (unat (MASK_VAL w 3 0)) (unat (MASK_VAL w 12 8)) (unat (MASK_VAL w 19 16))"

lemma same_msr_more:
  assumes "same_msr (s :: 'a rapl_state_scheme) s'"
  shows "p_msr_core_idx s' = p_msr_core_idx s" "translate_ru s' = translate_ru s" "unit_val s' = unit_val s"
    "g_platform s' = g_platform s" "init_variorum_init_topology s' = init_variorum_init_topology s"
  using assms by (cases s, cases s', simp add: same_msr_def msr_state.defs)+

lemma rapl_ready_same: "same_msr s s' \<Longrightarrow> rapl_ready P s' = rapl_ready P s"
  by (simp add: rapl_ready_def same_msr_more same_msr_fields(2))

lemma units_loop_exact:
  assumes "\<forall>i \<in> set is. i < length val \<and> (\<exists>p. val ! i = Some p \<and> fst p < length (blocks s) \<and>
      snd p < length (block (fst p) s) \<and> deref_dest s p = w i) \<and> unat (MASK_VAL (w i) 12 8) < 31"
  shows "units_loop val is s = Some (map (\<lambda>i. reg_units (w i)) is)"
  using assms
proof (induction "is")
  case (Cons i "is")
  then have "deref_at val i s = Some (w i)" by (auto simp: deref_at_def)
  moreover have "units_of (w i) = Some (reg_units (w i))"
    unfolding reg_units_def by (rule units_of_exact) (use Cons.prems in simp)
  ultimately show ?case using Cons by simp
qed simp

lemma unit_val_frame [simp]:
  "blocks (s\<lparr>unit_val := v\<rparr>) = blocks s" "deref_dest (s\<lparr>unit_val := v\<rparr>) p = deref_dest s p"
  "rapl_ready P (s\<lparr>unit_val := v\<rparr>) = rapl_ready P s" "registers (s\<lparr>unit_val := v\<rparr>) = registers s"
  by (simp_all add: deref_dest_def rapl_ready_def msr_ready_def ready_upto_def core_ok_def fd_on_cpu_def)

text \<open>do\_batch\_op does not touch what lies beyond the batches.\<close>

lemma read_batch_unit_val:
  assumes "read_batch E T (int b) s = Some (rc, s')" "batch_at b n blk s" "0 < n" "0 < batchfd s"
    "read_ops T (take n (block blk s))"
  shows "read_batch E T (int b) (s\<lparr>unit_val := v\<rparr>) = Some (rc, s'\<lparr>unit_val := v\<rparr>)"
proof -
  obtain rc1 ops' R where io: "drv_ioctl E (registers s) (take n (block blk s)) = (rc1, ops', R)"
    using prod_cases3 by blast
  have at: "batch_at b n blk (s\<lparr>unit_val := v\<rparr>)" using assms(2) by (simp add: batch_at_def get_entry_def)
  have "read_batch E T (int b) (s\<lparr>unit_val := v\<rparr>) =
    (let s1 = (s\<lparr>unit_val := v\<rparr>)\<lparr>blocks := (blocks s)[blk := ops' @ drop n (block blk s)], registers := R\<rparr> in
      if rc1 < 0 then Some (rc1, variorum_error_handler VARIORUM_ERROR_MSR_BATCH s1) else Some (0, s1))"
    using read_batch_eq [OF at assms(3)] assms(4,5) io by simp
  then show ?thesis using assms(1) read_batch_eq [OF assms(2-5) io]
    by (auto simp: Let_def variorum_error_handler_def split: if_splits)
qed


text \<open>The same files are open, so that the same accesses succeed.\<close>

definition same_access :: "'a msr_state_scheme \<Rightarrow> 'a msr_state_scheme \<Rightarrow> bool" where
  "same_access s s' \<longleftrightarrow> file_descriptors s' = file_descriptors s \<and> open_files s' = open_files s \<and> registers s' = registers s"

lemma same_access_msr: "same_msr s s' \<Longrightarrow> same_access s s'"
  by (simp add: same_access_def same_msr_def msr_state.defs)

lemma same_accessD:
  "same_access s s' \<Longrightarrow> socket_readable P s' so m = socket_readable P s so m"
  "same_access s s' \<Longrightarrow> socket_writable P s' so m v = socket_writable P s so m v"
  "same_access s s' \<Longrightarrow> socket_reg P s' so m = socket_reg P s so m"
  by (simp_all add: same_access_def socket_readable_def socket_writable_def coord_readable_def coord_writable_def
      socket_reg_def cong: option.case_cong)

lemma same_access_simps [simp]:
  "same_access (variorum_error_handler e s) s' = same_access s s'"
  "same_access s (s'\<lparr>unit_val := v\<rparr>) = same_access s s'"
  "same_access s (s'\<lparr>translate_ru := us\<rparr>) = same_access s s'"
  by (simp_all add: same_access_def variorum_error_handler_def)

text \<open>The first call: it allocates, loads and reads the batch of the unit registers.\<close>

lemma first_units:
  assumes "rapl_ready P s" "unit_val s = None" "batch_unused 1 s" "0 < batchfd s"
    "unat (ncores (pe_topo P)) \<le> 2 ^ 16" "unat msr < 2 ^ 32"
  shows "(\<forall>R ops. 0 \<le> fst (drv_ioctl (pe_os P) R ops)) \<Longrightarrow>
      \<forall>so. socket_ok P so \<longrightarrow> unat (MASK_VAL (socket_reg P s so msr) 12 8) < 31 \<Longrightarrow>
      \<exists>s'. get_rapl_power_unit P msr s =
        Some (map (\<lambda>i. reg_units (socket_reg P s (of_nat i) msr)) [0..<unat (nsockets (pe_topo P))], s') \<and>
        rapl_ready P s' \<and> registers s' = registers s \<and> elog s' = elog s \<and> same_access s s'"
    and "(\<forall>R ops. drv_ioctl (pe_os P) R ops = (-1, ops, R)) \<Longrightarrow>
      \<exists>s'. get_rapl_power_unit P msr s = Some (replicate (unat (nsockets (pe_topo P))) (reg_units 0), s') \<and>
        rapl_ready P s' \<and> registers s' = registers s \<and> elog s' = elog s @ [VARIORUM_ERROR_MSR_BATCH] \<and>
        same_access s s'"
proof -
  let ?T = "pe_topo P" and ?S = "unat (nsockets (pe_topo P))"
  have f: "topo_fits ?T" "driver_ok (pe_os P)" using assms(1) by (simp_all add: rapl_ready_def)
  have S: "0 < ?S" using f(1) by (simp add: topo_fits_def topo_ok_def)
  have bs: "unat (ucast (nsockets ?T) :: u64) < 2 ^ 32" "?S \<le> unat (ucast (nsockets ?T) :: u64)"
    "?S \<le> length (replicate ?S (None :: batch_ptr option))"
    using unat_u32 [of "nsockets ?T"] by simp_all
  obtain s1 s2 val rc s3 where r: "allocate_batch (int 1) (ucast (nsockets ?T)) s = Some (0, s1)"
    "load_socket_batch ?T msr (Some (replicate ?S None)) (int 1) s1 = Some (0, Some val, s2)"
    "read_batch (pe_os P) ?T (int 1) s2 = Some (rc, s3)" "same_msr s s1" "same_msr s s2" "length val = ?S"
    "batch_at 1 ?S (length (blocks s)) s2" "read_ops ?T (take ?S (block (length (blocks s)) s2))"
    and ok: "(rc = 0 \<longrightarrow> same_msr s s3 \<and> (\<forall>j. unat j < ?S \<longrightarrow> (\<exists>p. val ! unat j = Some p \<and>
        fst p < length (blocks s3) \<and> snd p < length (block (fst p) s3) \<and>
        deref_dest s3 p = registers s (int (unat (devidx ?T j 0 0))) msr)))"
      "(\<forall>R ops. 0 \<le> fst (drv_ioctl (pe_os P) R ops)) \<longrightarrow> rc = 0"
    and bad: "(\<forall>R ops. drv_ioctl (pe_os P) R ops = (-1, ops, R)) \<longrightarrow>
      same_msr (variorum_error_handler VARIORUM_ERROR_MSR_BATCH s) s3 \<and>
      (\<forall>j :: u32. unat j < ?S \<longrightarrow> (\<exists>p. val ! unat j = Some p \<and>
        fst p < length (blocks s3) \<and> snd p < length (block (fst p) s3) \<and> deref_dest s3 p = 0))"
    using socket_batch_read [OF f(1,2) assms(3,4) bs assms(5,6)] unfolding length_replicate by blast
  have rd: "rapl_ready P s1" "rapl_ready P s2" using assms(1) r(4,5) by (simp_all add: rapl_ready_same)
  have b2: "0 < batchfd s2" using r(5) assms(4) by (simp add: same_msr_def)
  let ?s4 = "s3\<lparr>unit_val := Some val\<rparr>"
  have "read_batch (pe_os P) ?T (int 1) (s2\<lparr>unit_val := Some val\<rparr>) = Some (rc, ?s4)"
    by (rule read_batch_unit_val [OF r(3,7) S b2 r(8)])
  then have eq: "get_rapl_power_unit P msr s = do {
      us \<leftarrow> units_loop val [0..<?S] ?s4;
      Some (us, ?s4)
    }"
    using assms(1,2) r(1,2) rd
    by (simp add: get_rapl_power_unit_def P_INTEL_CPU_IDX_def RAPL_UNIT_def call_load_socket_batch_def call_read_batch_def)
  have u: "unat (of_nat i :: u32) = i" if "i < ?S" for i
    by (rule unat_of_nat_small) (use that unat_u32 [of "nsockets ?T"] in simp)
  show "\<exists>s'. get_rapl_power_unit P msr s =
        Some (map (\<lambda>i. reg_units (socket_reg P s (of_nat i) msr)) [0..<?S], s') \<and>
        rapl_ready P s' \<and> registers s' = registers s \<and> elog s' = elog s \<and> same_access s s'"
    if io: "\<forall>R ops. 0 \<le> fst (drv_ioctl (pe_os P) R ops)"
      and w: "\<forall>so. socket_ok P so \<longrightarrow> unat (MASK_VAL (socket_reg P s so msr) 12 8) < 31"
  proof -
    have s3: "same_msr s s3" using ok io by blast
    have "i < length val \<and> (\<exists>p. val ! i = Some p \<and> fst p < length (blocks ?s4) \<and>
        snd p < length (block (fst p) ?s4) \<and> deref_dest ?s4 p = socket_reg P s (of_nat i) msr) \<and>
      unat (MASK_VAL (socket_reg P s (of_nat i) msr) 12 8) < 31" if "i < ?S" for i
      using ok io w that u [OF that] r(6) unfolding socket_reg_def socket_ok_def by (metis unit_val_frame(1,2))
    then have "units_loop val [0..<?S] ?s4 = Some (map (\<lambda>i. reg_units (socket_reg P s (of_nat i) msr)) [0..<?S])"
      by (intro units_loop_exact) simp
    then show ?thesis unfolding eq using s3 assms(1)
      by (simp add: rapl_ready_same same_msr_fields(1,3) same_access_msr)
  qed
  show "\<exists>s'. get_rapl_power_unit P msr s = Some (replicate ?S (reg_units 0), s') \<and>
        rapl_ready P s' \<and> registers s' = registers s \<and> elog s' = elog s @ [VARIORUM_ERROR_MSR_BATCH] \<and>
        same_access s s'"
    if io: "\<forall>R ops. drv_ioctl (pe_os P) R ops = (-1, ops, R)"
  proof -
    have s3: "same_msr (variorum_error_handler VARIORUM_ERROR_MSR_BATCH s) s3" using bad io by blast
    have z: "unat (MASK_VAL 0 12 8) < 31" by (simp add: MASK_VAL_def)
    have "i < length val \<and> (\<exists>p. val ! i = Some p \<and> fst p < length (blocks ?s4) \<and>
        snd p < length (block (fst p) ?s4) \<and> deref_dest ?s4 p = 0) \<and> unat (MASK_VAL 0 12 8) < 31" if "i < ?S" for i
    proof -
      have "\<forall>j :: u32. unat j < ?S \<longrightarrow> (\<exists>p. val ! unat j = Some p \<and>
          fst p < length (blocks s3) \<and> snd p < length (block (fst p) s3) \<and> deref_dest s3 p = 0)"
        using bad io by blast
      from this [rule_format, of "of_nat i"] show ?thesis using that u [OF that] r(6) z by simp
    qed
    then have "units_loop val [0..<?S] ?s4 = Some (map (\<lambda>i. reg_units 0) [0..<?S])"
      by (intro units_loop_exact) simp
    then show ?thesis unfolding eq using s3 assms(1) same_access_msr [OF s3]
      by (simp add: rapl_ready_same same_msr_fields(1,3) handler_registers(1) map_replicate_const)
  qed
qed


text \<open>The first conversion reads the units; from then on it is as if they had been known before.\<close>

lemma translate_first:
  assumes "rapl_ready P s" "translate_ru s = None" "get_rapl_power_unit P msr s = Some (us, s')"
  shows "translate P socket bits units type msr idx s = translate P socket bits units type msr idx (s'\<lparr>translate_ru := Some us\<rparr>)"
  using assms by (simp add: translate_def P_INTEL_CPU_IDX_def)

lemma cap_first:
  assumes "rapl_ready P s" "socket_ok P socket" "translate_ru s = None" "get_rapl_power_unit P mu s = Some (us, s')"
    "rapl_ready P s'" "same_access s s'" "socket_readable P s socket msr"
  shows "cap_package_power_limit P socket L msr mu s =
    cap_package_power_limit P socket L msr mu (s'\<lparr>translate_ru := Some us\<rparr>)"
proof -
  let ?s = "s'\<lparr>translate_ru := Some us\<rparr>"
  note t = translate_first [OF assms(1,3,4)]
  have c: "calc_rapl_bits P socket l 0 mu s = calc_rapl_bits P socket l 0 mu ?s" for l
    by (simp add: calc_rapl_bits_def t)
  have r: "rapl_ready P ?s" "socket_readable P ?s socket msr" "socket_reg P ?s socket msr = socket_reg P s socket msr"
    using assms(5,7) same_accessD [of s ?s] assms(6) by simp_all
  show ?thesis
    using call_read_coord_ready [OF assms(1,2), of msr 0] call_read_coord_ready [OF r(1) assms(2), of msr 0] r assms(7)
      call_sockets_assert_ready [OF assms(1,2)] call_sockets_assert_ready [OF r(1) assms(2)]
    by (simp add: cap_package_power_limit_def calc_package_rapl_limit_def calc_limit_def c)
qed

end
