(* ===== verification/Rapl_Limits.thy ===== *)
theory Rapl_Limits imports Rapl_Facts begin

text \<open>
  What RAPL promises about power limits: a limit that was set is read back, limits that do not
  fit are refused, the units are those of the unit register, and what becomes of the
  second limit when the register cannot be read.
\<close>

section \<open>An example machine\<close>

definition rapl_start :: "rapl_state" where
  "rapl_start = arch_state.extend arch_init \<lparr>translate_ru = None, unit_val = None, rapl_init = False, rapl = None,
     read_init = False, delta_init = False, tod_calls = 0, printed = [], inited = {}, start_at = (\<lambda>_. (0, 0)),
     all_limits = [], json_sets = []\<rparr>"

definition example_power :: "sys_env \<Rightarrow> power_env" where
  "example_power V = \<lparr>pe_sys = V, pe_host = ''node1'',
     libm_log2 = (\<lambda>x. case x of Fin a \<Rightarrow> Fin (of_int (ilog2 a)) | y \<Rightarrow> y),
     libm_pow = (\<lambda>x y. case (x, y) of (Fin a, Fin b) \<Rightarrow> Fin (a powi \<lfloor>b\<rfloor>) | _ \<Rightarrow> NaN),
     pe_tod = (\<lambda>n. (int n, 0)), pe_clock = (\<lambda>n. (int n, 0)), pe_junk = 0\<rparr>"

lemma ilog2_power: "ilog2 (2 ^ n) = int n"
proof -
  have b: "2 powi ilog2 (2 ^ n) \<le> (2 :: rat) ^ n" "(2 :: rat) ^ n < 2 powi (ilog2 (2 ^ n) + 1)"
    by (rule ilog2_bounds; simp)+
  have p: "(2 :: rat) powi int n = 2 ^ n" by simp
  have "int n < ilog2 (2 ^ n) + 1" by (rule powi_less_cancel) (use b(2) p in simp)
  moreover have "\<not> int n < ilog2 (2 ^ n)"
  proof
    assume "int n < ilog2 (2 ^ n)"
    then have "(2 :: rat) powi int n < 2 powi ilog2 (2 ^ n)" by (rule power_int_strict_increasing) simp
    then show False using b(1) p by simp
  qed
  ultimately show ?thesis by simp
qed

lemma example_libm: "libm_ok (example_power V)"
  by (simp add: libm_ok_def example_power_def ilog2_power)

lemma enter_rapl_ready:
  assumes "hwloc_good (sys_hw (pe_sys P))" "detect_intel_arch (pe_sys P) = Live (FM M)" "length (g_platform s) = MAX_PLATFORMS"
    "msr_fresh (pe_topo P) s" "topo_fits (pe_topo P)" "driver_ok (pe_os P)"
    "variorum_enter intel_build (pe_sys P) s = Some (0, s')"
  shows "rapl_ready P s'"
  using enter_intel_facts [OF assms(1-4,7)] assms(1,5,6)
  by (simp add: rapl_ready_def MAX_PLATFORMS_def)

text \<open>A state after entering, with the units of sockets 0 and 1 known: 1/8 watt, 1/1024 second.\<close>

definition known_units :: "rapl_state \<Rightarrow> rapl_state" where
  "known_units s = s\<lparr>translate_ru := Some [exact_units 0xA0E03 3 14 10, exact_units 0xA0E03 3 14 10]\<rparr>"

lemma start_fields [simp]:
  "g_platform rapl_start = g_platform arch_init" "length (g_platform rapl_start) = MAX_PLATFORMS"
  "msr_fresh T rapl_start" "registers rapl_start = (\<lambda>_ _. 0)"
  using arch_init_fresh [of T]
  by (simp_all add: rapl_start_def msr_fresh_def core_ok_def fds_fresh_def arch_state.defs arch_init_def
      batch_state.defs msr_state.defs msr_init_def MAX_PLATFORMS_def)

lemma example_entered:
  assumes "intel_machine V M" "sys_hw V = two_socket_machine" "driver_ok (sys_os V)"
  shows "\<exists>s. rapl_ready (example_power V) s \<and> registers s = (\<lambda>_ _. 0) \<and> batches s = None \<and>
    arch_state.more s = arch_state.more rapl_start \<and> platform_arch 0 s = Some (FM M)"
proof -
  let ?P = "example_power V"
  have V: "pe_sys ?P = V" by (simp add: example_power_def)
  obtain s where s: "variorum_enter intel_build V rapl_start = Some (0, s)"
    "opened_from (machine_topo (sys_hw V)) (chosen_module (sys_os V)) 0 (entered V M rapl_start) s"
    "outer s = outer (entered V M rapl_start)"
    using enter_intel_good [OF assms(1), of rapl_start] by (auto simp: MAX_PLATFORMS_def)
  have m: "hwloc_good (sys_hw V)" "detect_intel_arch V = Live (FM M)" using assms(1) by (simp_all add: intel_machine_def)
  have f: "topo_fits (machine_topo two_socket_machine)"
    by (simp add: topo_fits_def topo_ok_def machine_topo_def topo_of_def fill_platform_def two_socket_machine_def
        unsigned_of_int_def)
  have "rapl_ready ?P s"
    by (rule enter_rapl_ready [where M = M and s = rapl_start]) (use m s(1) f assms(2,3) V in simp_all)
  moreover have "registers s = (\<lambda>_ _. 0)" using s(3) by (simp add: outer_def)
  moreover have "platform_arch 0 s = Some (FM M)" using s(3) by (simp add: outer_def platform_arch_def)
  moreover have mo: "msr_state.more s = msr_state.more (entered V M rapl_start)" using s(3) by (simp add: outer_def)
  have "batches s = None" "arch_state.more s = arch_state.more rapl_start"
    using more_arch(4,7) [OF mo] by (simp_all add: entered_def rapl_start_def arch_state.defs arch_init_def
      batch_state.defs msr_state.defs)
  ultimately show ?thesis by blast
qed

lemma example_known:
  assumes "intel_machine V M" "sys_hw V = two_socket_machine" "driver_ok (sys_os V)"
  shows "\<exists>s. rapl_ready (example_power V) (known_units s) \<and> registers (known_units s) = (\<lambda>_ _. 0)"
  using example_entered [OF assms] by (auto simp: known_units_def)

text \<open>A state before any conversion; all registers hold the same value.\<close>

definition fresh_units :: "u64 \<Rightarrow> rapl_state \<Rightarrow> rapl_state" where
  "fresh_units w s = s\<lparr>batchfd := 7, registers := (\<lambda>_ _. w)\<rparr>"

lemma example_fresh:
  assumes "intel_machine V M" "sys_hw V = two_socket_machine" "driver_ok (sys_os V)"
  shows "\<exists>s. rapl_ready (example_power V) (fresh_units w s) \<and> translate_ru (fresh_units w s) = None \<and>
    unit_val (fresh_units w s) = None \<and> batch_unused 1 (fresh_units w s) \<and> 0 < batchfd (fresh_units w s)"
proof -
  obtain s where s: "rapl_ready (example_power V) s" "batches s = None"
    "arch_state.more s = arch_state.more rapl_start"
    using example_entered [OF assms] by blast
  have "translate_ru s = None" "unit_val s = None"
    using s(3) by (cases s, simp add: rapl_start_def arch_state.defs)+
  moreover have "rapl_ready (example_power V) (fresh_units w s)"
    using s(1) by (simp add: fresh_units_def rapl_ready_def msr_ready_def ready_upto_def core_ok_def fd_on_cpu_def)
  ultimately show ?thesis using s(2) by (intro exI [of _ s]) (simp add: fresh_units_def batch_unused_def)
qed

lemma example_units:
  assumes "sys_hw V = two_socket_machine"
  shows "socket_units 1 3 14 10 (known_units s)" "socket_ok (example_power V) 1" "socket_ok (example_power V) 0"
  using assms by (auto simp: socket_units_def known_units_def socket_ok_def example_power_def machine_topo_def
      topo_of_def fill_platform_def two_socket_machine_def unsigned_of_int_def)

lemma unat_word_of_int_less:
  assumes "0 \<le> x" "x < 2 ^ 15"
  shows "unat (word_of_int x :: u64) < 2 ^ 15"
proof -
  have "uint (word_of_int x :: u64) = x" by (rule uint_word_of_int_u64) (use assms in simp_all)
  then have "int (unat (word_of_int x :: u64)) < int (2 ^ 15)" using assms(2) by simp
  then show ?thesis by (simp only: of_nat_less_iff)
qed

lemma MASK_VAL_upper:
  assumes "drop_bit 32 v = drop_bit 32 w" "32 \<le> n" "n \<le> m" "m < 64"
  shows "MASK_VAL v m n = MASK_VAL w m n"
proof -
  have "drop_bit n x = drop_bit (n - 32) (drop_bit 32 x)" for x :: u64 using assms(2) by simp
  then show ?thesis using assms by (metis MASK_VAL_take_drop)
qed

text \<open>The limits that the register of a cap stands for: L watts over one second, and the second limit it had.\<close>

lemma cap_value_limits:
  assumes "0 \<le> L" "L * 2 ^ pu < 2 ^ 15" "pu < 16" "tu < 16" "w = cap_value (word_of_int (L * 2 ^ pu)) tu cur"
  shows "known_limit w 0 pu tu = \<lparr>lim_bits = w, lim_watts = Fin (of_int L), lim_seconds = Fin 1, lim_translate_bits = 1\<rparr>"
    "known_limit w 32 pu tu = (known_limit cur 32 pu tu)\<lparr>lim_bits := w\<rparr>" "bit w 15" "bit w 16"
proof -
  have n: "0 \<le> L * 2 ^ pu" using assms(1) by simp
  have x: "uint (word_of_int (L * 2 ^ pu) :: u64) = L * 2 ^ pu"
    by (rule uint_word_of_int_u64 [OF n]) (use assms(2) in simp)
  have xl: "unat (word_of_int (L * 2 ^ pu) :: u64) < 2 ^ 15" by (rule unat_word_of_int_less [OF n assms(2)])
  note f = cap_value_fields [OF xl assms(4), of cur, folded assms(5)]
  have "of_nat (unat (word_of_int (L * 2 ^ pu) :: u64)) = (of_int (L * 2 ^ pu) :: rat)"
    by (metis of_int_of_nat_eq uint_nat x)
  then have w1: "field_watts w 0 pu = Fin (of_int L)" using f(1) by (simp add: field_watts_def)
  have "unat (of_nat tu :: u64) = tu" by (rule unat_of_nat_small) (use assms(4) in simp)
  then have t1: "field_seconds w 0 tu = Fin 1" using f(2) assms(4) by (simp add: field_seconds_def Let_def)
  have up: "MASK_VAL w m n = MASK_VAL cur m n" if "32 \<le> n" "n \<le> m" "m < 64" for m n
    using f(3) that by (rule MASK_VAL_upper)
  show "known_limit w 0 pu tu = \<lparr>lim_bits = w, lim_watts = Fin (of_int L), lim_seconds = Fin 1, lim_translate_bits = 1\<rparr>"
    by (simp add: known_limit_def w1 t1)
  show "known_limit w 32 pu tu = (known_limit cur 32 pu tu)\<lparr>lim_bits := w\<rparr>"
    using up [of 32 46] up [of 49 55] by (simp add: known_limit_def field_watts_def field_seconds_def)
  show "bit w 15" "bit w 16" using f(4,5) by simp_all
qed

section \<open>Properties\<close>

text \<open>
  C6: a package limit that was set is read back. If capping a socket to L watts returns 0 then
  get_package_rapl_limit gives exactly L watts over a window of exactly one second as the
  first limit, the second limit is what it was before, both enabling and clamping are on, and no other
  register of the machine has changed.
\<close>

theorem cap_then_read:
  assumes "rapl_ready P s" "socket_ok P socket" "socket_units socket pu eu tu s" "libm_ok P" "\<bar>L\<bar> < 2 ^ 31"
    "socket_readable P s socket msr" "cap_package_power_limit P socket L msr mu s = Some (0, s')"
  shows "\<exists>w. get_package_rapl_limit P socket (Some l1) (Some l2) msr mu s' =
      Some (0, Some \<lparr>lim_bits = w, lim_watts = Fin (of_int L), lim_seconds = Fin 1, lim_translate_bits = 1\<rparr>,
        Some ((known_limit (socket_reg P s socket msr) 32 pu tu)\<lparr>lim_bits := w\<rparr>), s') \<and>
    bit w 15 \<and> bit w 16 \<and> registers s' = registers (socket_set P socket msr w s)"
proof -
  note c = cap_package_eq [OF assms(1-5), where msr = msr and mu = mu]
  have k: "pu < 16" "tu < 16" using assms(3) by (simp_all add: socket_units_def)
  have L: "0 \<le> L" using c(1) assms(7) by fastforce
  have b: "L * 2 ^ pu < 2 ^ 15" using c(2) assms(7) by fastforce
  define w where "w = cap_value (word_of_int (L * 2 ^ pu)) tu (current_limit P s socket msr)"
  obtain s1 where s1: "cap_package_power_limit P socket L msr mu s =
      Some (0 + (if socket_writable P s socket msr w then 0 else err_code VARIORUM_ERROR_MSR_WRITE), s1)"
    "registers s1 = (if socket_writable P s socket msr w then registers (socket_set P socket msr w s) else registers s)"
    "rapl_ready P s1" "translate_ru s1 = translate_ru s" "socket_readable P s1 = socket_readable P s"
    using c(3) [OF L b w_def] assms(6) by auto
  have eq: "s1 = s'" and ok: "socket_writable P s socket msr w" using s1(1) assms(7) by (auto split: if_splits)
  have r: "socket_reg P s' socket msr = w" using s1(2) ok eq by (simp add: socket_reg_def socket_set_def set_reg_def)
  have u: "socket_units socket pu eu tu s'" using assms(3) s1(4) eq by (simp add: socket_units_def)
  have "current_limit P s socket msr = socket_reg P s socket msr" using assms(6) by (simp add: current_limit_def)
  note l = cap_value_limits [OF L b k w_def, unfolded this]
  have rd: "rapl_ready P s'" "socket_readable P s' socket msr" using s1(3,5) eq assms(6) by simp_all
  have g: "get_package_rapl_limit P socket (Some l1) (Some l2) msr mu s' =
      Some (0, Some (known_limit w 0 pu tu), Some (known_limit w 32 pu tu), s')"
    using get_package_known [OF rd(1) assms(2) u assms(4) rd(2)] r by simp
  have reg: "registers s' = registers (socket_set P socket msr w s)" using s1(2) ok eq by (simp only: if_True)
  show ?thesis
    by (rule exI [of _ w], intro conjI, rule g [unfolded l(1,2)], rule l(3), rule l(4), rule reg)
qed

text \<open>An example: socket 1 of a two-socket Broadwell, whose limit register is at 0x610.\<close>

definition unreadable_sys :: sys_env where
  "unreadable_sys = example_sys\<lparr>sys_os := good_env\<lparr>drv_can_read := (\<lambda>_ _. False), drv_read := (\<lambda>_ _ _. None)\<rparr>\<rparr>"

lemma example_systems:
  "V \<in> {example_sys, unreadable_sys} \<Longrightarrow> intel_machine V M_06_4F \<and> sys_hw V = two_socket_machine \<and> driver_ok (sys_os V)"
  using example_machine good_env_files driver_ok_good_env
  by (auto simp: unreadable_sys_def example_sys_def intel_machine_def driver_ok_def good_env_def
      detect_intel_arch_def file_ok_def chosen_module_def device_path_def)

lemma example_state:
  assumes "V \<in> {example_sys, unreadable_sys}"
  obtains s where "rapl_ready (example_power V) (known_units s)" "registers (known_units s) = (\<lambda>_ _. 0)"
    "socket_units 1 3 14 10 (known_units s)" "socket_ok (example_power V) 1"
    "socket_readable (example_power V) (known_units s) 1 0x610 \<longleftrightarrow> V = example_sys"
    "\<And>v. socket_writable (example_power V) (known_units s) 1 0x610 v"
proof -
  note v = example_systems [OF assms]
  obtain s where s: "rapl_ready (example_power V) (known_units s)" "registers (known_units s) = (\<lambda>_ _. 0)"
    using example_known v by blast
  have hw: "sys_hw V = two_socket_machine" using v by simp
  note u = example_units(1) [OF hw] and sok = example_units(2) [OF hw]
  have ne: "unreadable_sys \<noteq> example_sys"
  proof
    assume "unreadable_sys = example_sys"
    then have "drv_can_read (sys_os unreadable_sys) p m = drv_can_read (sys_os example_sys) p m" for p m by simp
    then show False by (simp add: unreadable_sys_def example_sys_def good_env_def)
  qed
  have "drv_can_read (pe_os (example_power V)) p m = (V = example_sys)" for p m
    using assms ne by (auto simp: example_power_def unreadable_sys_def example_sys_def good_env_def)
  then have "socket_readable (example_power V) (known_units s) 1 0x610 \<longleftrightarrow> V = example_sys"
    by (rule driver_answers(1) [OF s(1) sok])
  moreover have "drv_write (pe_os (example_power V)) R p m v \<noteq> None" for R p m v
    using assms by (auto simp: example_power_def unreadable_sys_def example_sys_def good_env_def)
  then have "socket_writable (example_power V) (known_units s) 1 0x610 v" for v
    by (rule driver_answers(2) [OF s(1) sok])
  ultimately show thesis using that [OF s u sok] by blast
qed

theorem cap_then_read_witness:
  "\<exists>P (s :: rapl_state) s' l l2. cap_package_power_limit P 1 100 0x610 0x606 s = Some (0, s') \<and>
     get_package_rapl_limit P 1 (Some (cap_request 0)) (Some (cap_request 0)) 0x610 0x606 s' = Some (0, Some l, Some l2, s') \<and>
     lim_watts l = Fin 100 \<and> lim_seconds l = Fin 1 \<and> bit (lim_bits l) 15"
proof -
  let ?P = "example_power example_sys"
  obtain s where s: "rapl_ready ?P (known_units s)" "socket_units 1 3 14 10 (known_units s)" "socket_ok ?P 1"
    "socket_readable ?P (known_units s) 1 0x610" "\<And>v. socket_writable ?P (known_units s) 1 0x610 v"
    using example_state [of example_sys] by blast
  have L: "\<bar>100 :: int\<bar> < 2 ^ 31" "(0 :: int) \<le> 100" "(100 :: int) * 2 ^ 3 < 2 ^ 15" by simp_all
  obtain s' where c: "cap_package_power_limit ?P 1 100 0x610 0x606 (known_units s) = Some (0, s')"
    using cap_package_eq(3) [OF s(1,3,2) example_libm L refl, of "0x610" "0x606"] s(4,5) by auto
  from cap_then_read [OF s(1,3,2) example_libm L(1) s(4) c, of "cap_request 0" "cap_request 0"]
  obtain w where w: "get_package_rapl_limit ?P 1 (Some (cap_request 0)) (Some (cap_request 0)) 0x610 0x606 s' =
      Some (0, Some \<lparr>lim_bits = w, lim_watts = Fin (of_int 100), lim_seconds = Fin 1, lim_translate_bits = 1\<rparr>,
        Some ((known_limit (socket_reg ?P (known_units s) 1 0x610) 32 3 10)\<lparr>lim_bits := w\<rparr>), s')" "bit w 15"
    by blast
  have "\<exists>l l2. Some (0 :: int, Some \<lparr>lim_bits = w, lim_watts = Fin (of_int 100), lim_seconds = Fin 1, lim_translate_bits = 1\<rparr>,
        Some ((known_limit (socket_reg ?P (known_units s) 1 0x610) 32 3 10)\<lparr>lim_bits := w\<rparr>), s') = Some (0, Some l, Some l2, s') \<and>
      lim_watts l = Fin 100 \<and> lim_seconds l = Fin 1 \<and> bit (lim_bits l) 15"
    using w(2) by simp
  then show ?thesis using c unfolding w(1) [symmetric] by blast
qed

text \<open>
  C22: the outcomes of a cap, by the limit asked for. A negative one is converted to an unsigned
  integer, which is undefined. One that does not fit the 15 bits of its field, in the units of the
  socket, is refused: -1, an argument error in the log and no register changed. Every other one
  is written, enable and clamping bits included, unless the driver refuses the write, which is
  reported and changes nothing.
\<close>

theorem cap_outcomes:
  assumes "rapl_ready P s" "socket_ok P socket" "socket_units socket pu eu tu s" "libm_ok P" "\<bar>L\<bar> < 2 ^ 31"
    "w = cap_value (word_of_int (L * 2 ^ pu)) tu (current_limit P s socket msr)"
  shows "case cap_package_power_limit P socket L msr mu s of
      None \<Rightarrow> L < 0
    | Some (rc, s') \<Rightarrow> 0 \<le> L \<and> rapl_ready P s' \<and>
        (if 2 ^ 15 \<le> L * 2 ^ pu then rc = -1 \<and> registers s' = registers s \<and> VARIORUM_ERROR_INVAL \<in> set (elog s')
         else (rc = 0 \<longleftrightarrow> socket_readable P s socket msr \<and> socket_writable P s socket msr w) \<and>
           registers s' = (if socket_writable P s socket msr w then registers (socket_set P socket msr w s) else registers s))"
proof -
  note c = cap_package_eq [OF assms(1-5), where msr = msr and mu = mu]
  consider "L < 0" | "2 ^ 15 \<le> L * 2 ^ pu" "0 \<le> L" | "0 \<le> L" "L * 2 ^ pu < 2 ^ 15" by linarith
  then show ?thesis
  proof cases
    case 1
    then show ?thesis using c(1) by simp
  next
    case 2
    then show ?thesis using c(2) by auto
  next
    case 3
    obtain s' where s': "cap_package_power_limit P socket L msr mu s =
        Some ((if socket_readable P s socket msr then 0 else err_code VARIORUM_ERROR_MSR_READ) +
              (if socket_writable P s socket msr w then 0 else err_code VARIORUM_ERROR_MSR_WRITE), s')"
      "registers s' = (if socket_writable P s socket msr w then registers (socket_set P socket msr w s) else registers s)"
      "rapl_ready P s'"
      using c(3) [OF 3 assms(6)] by blast
    have "(if socket_readable P s socket msr then 0 else err_code VARIORUM_ERROR_MSR_READ) +
        (if socket_writable P s socket msr w then 0 else err_code VARIORUM_ERROR_MSR_WRITE) = 0 \<longleftrightarrow>
        socket_readable P s socket msr \<and> socket_writable P s socket msr w"
      by simp
    then show ?thesis using 3 s'(2,3) unfolding s'(1) by simp
  qed
qed


theorem cap_outcomes_witness:
  "\<exists>P (s :: rapl_state) s'. cap_package_power_limit P 1 5000 0x610 0x606 s = Some (-1, s') \<and> registers s' = registers s \<and>
     cap_package_power_limit P 1 (-1) 0x610 0x606 s = None"
proof -
  let ?P = "example_power example_sys"
  obtain s where s: "rapl_ready ?P (known_units s)" "socket_units 1 3 14 10 (known_units s)" "socket_ok ?P 1"
    using example_state [of example_sys] by blast
  have "\<bar>5000 :: int\<bar> < 2 ^ 31" "\<bar>-1 :: int\<bar> < 2 ^ 31" by simp_all
  note o = cap_outcomes [OF s(1,3,2) example_libm _ refl, of _ "0x610" "0x606"]
  obtain s' where "cap_package_power_limit ?P 1 5000 0x610 0x606 (known_units s) = Some (-1, s')"
    "registers s' = registers (known_units s)"
    using o [of 5000] by (auto split: option.splits)
  moreover have "cap_package_power_limit ?P 1 (-1) 0x610 0x606 (known_units s) = None"
    using o [of "-1"] by (auto split: option.splits)
  ultimately show ?thesis by blast
qed

text \<open>
  The second limit is lost when the register cannot be read. The result of the read is looked
  at only when everything is done, so that the register is composed from a zero: the first limit
  is set although the call reports an error, and the upper half, with the second limit in it, is cleared.
\<close>

theorem cap_without_read:
  assumes "rapl_ready P s" "socket_ok P socket" "socket_units socket pu eu tu s" "libm_ok P"
    "0 \<le> L" "L * 2 ^ pu < 2 ^ 15" "\<not> socket_readable P s socket msr"
    "\<forall>v. socket_writable P s socket msr v"
  shows "\<exists>s'. cap_package_power_limit P socket L msr mu s = Some (err_code VARIORUM_ERROR_MSR_READ, s') \<and>
    drop_bit 32 (socket_reg P s' socket msr) = 0 \<and>
    MASK_VAL (socket_reg P s' socket msr) 14 0 = word_of_int (L * 2 ^ pu)"
proof -
  have k: "pu < 16" "tu < 16" using assms(3) by (simp_all add: socket_units_def)
  have "L * 1 \<le> L * 2 ^ pu" using assms(5) by (intro mult_left_mono) simp_all
  then have L: "\<bar>L\<bar> < 2 ^ 31" using assms(5,6) by simp
  define w where "w = cap_value (word_of_int (L * 2 ^ pu)) tu (current_limit P s socket msr)"
  obtain s' where s': "cap_package_power_limit P socket L msr mu s = Some (err_code VARIORUM_ERROR_MSR_READ, s')"
    "registers s' = registers (socket_set P socket msr w s)"
    using cap_package_eq(3) [OF assms(1-4) L assms(5,6) w_def, of mu] assms(7,8) by auto
  have r: "socket_reg P s' socket msr = w" using s'(2) by (simp add: socket_reg_def socket_set_def set_reg_def)
  have xl: "unat (word_of_int (L * 2 ^ pu) :: u64) < 2 ^ 15" by (rule unat_word_of_int_less) (use assms(5,6) in simp_all)
  have "current_limit P s socket msr = 0" using assms(7) by (simp add: current_limit_def)
  note f = cap_value_fields [OF xl k(2), of "current_limit P s socket msr", folded w_def]
  have "drop_bit 32 w = 0" using f(3) \<open>current_limit P s socket msr = 0\<close> by (simp only: drop_bit_of_0)
  then show ?thesis using s'(1) f(1) unfolding r [symmetric] by blast
qed

theorem cap_without_read_witness:
  "\<exists>P (s :: rapl_state) s'. cap_package_power_limit P 1 100 0x610 0x606 s = Some (err_code VARIORUM_ERROR_MSR_READ, s') \<and>
     drop_bit 32 (socket_reg P s' 1 0x610) = 0"
proof -
  let ?P = "example_power unreadable_sys"
  have ne: "drv_can_read (sys_os unreadable_sys) \<noteq> drv_can_read (sys_os example_sys)"
    by (simp add: unreadable_sys_def example_sys_def good_env_def fun_eq_iff)
  obtain s where s: "rapl_ready ?P (known_units s)" "socket_units 1 3 14 10 (known_units s)" "socket_ok ?P 1"
    "socket_readable ?P (known_units s) 1 0x610 \<longleftrightarrow> unreadable_sys = example_sys" "\<And>v. socket_writable ?P (known_units s) 1 0x610 v"
    using example_state [of unreadable_sys] by blast
  have "\<not> socket_readable ?P (known_units s) 1 0x610" using s(4) ne by metis
  then show ?thesis
    using cap_without_read [OF s(1,3,2) example_libm, of 100 "0x610" "0x606"] s(5) by auto
qed

text \<open>
  C24: the units are the processor's. When the batch device is open and its ioctl carries the batch out, the first call of
  get_rapl_power_unit, with its batch not used before, returns, for every socket, the powers of two that the fields of that
  socket's unit register stand for; registers, open files and the log are as before. (The exponent of the energy
  unit must be below 31, the width of the shifted int, and the number of cores and the address must fit the
  fields of an operation. When the ioctl fails, zeros are taken for the register, and each unit is one.)
\<close>

theorem units_from_registers:
  assumes "rapl_ready P s" "unit_val s = None" "batch_unused 1 s" "0 < batchfd s"
    "unat (ncores (pe_topo P)) \<le> 2 ^ 16" "unat msr < 2 ^ 32" "\<forall>R ops. 0 \<le> fst (drv_ioctl (pe_os P) R ops)"
    "\<forall>so. socket_ok P so \<longrightarrow> unat (MASK_VAL (socket_reg P s so msr) 12 8) < 31"
  shows "\<exists>us s'. get_rapl_power_unit P msr s = Some (us, s') \<and> length us = unat (nsockets (pe_topo P)) \<and>
    (\<forall>so. socket_ok P so \<longrightarrow> us ! unat so = \<lparr>ru_msr_rapl_power_unit = socket_reg P s so msr,
       ru_joules = Fin (2 ^ unat (MASK_VAL (socket_reg P s so msr) 12 8)),
       ru_seconds = Fin (2 ^ unat (MASK_VAL (socket_reg P s so msr) 19 16)),
       ru_watts = Fin (1 / 2 ^ unat (MASK_VAL (socket_reg P s so msr) 3 0))\<rparr>) \<and>
    rapl_ready P s' \<and> registers s' = registers s \<and> elog s' = elog s \<and> open_files s' = open_files s"
proof -
  obtain s' where s': "get_rapl_power_unit P msr s =
      Some (map (\<lambda>i. reg_units (socket_reg P s (of_nat i) msr)) [0..<unat (nsockets (pe_topo P))], s')"
    "rapl_ready P s'" "registers s' = registers s" "elog s' = elog s" "same_access s s'"
    using first_units(1) [OF assms] by blast
  have "map (\<lambda>i. reg_units (socket_reg P s (of_nat i) msr)) [0..<unat (nsockets (pe_topo P))] ! unat so =
      reg_units (socket_reg P s so msr)" if "socket_ok P so" for so
    using that by (simp add: socket_ok_def)
  then show ?thesis using s' by (simp add: reg_units_def exact_units_def same_access_def)
qed

theorem units_from_registers_witness:
  "\<exists>P (s :: rapl_state) us s'. get_rapl_power_unit P 0x606 s = Some (us, s') \<and> ru_watts (us ! 1) = Fin (1 / 8)"
proof -
  let ?P = "example_power example_sys"
  have v: "intel_machine example_sys M_06_4F" "sys_hw example_sys = two_socket_machine" "driver_ok (sys_os example_sys)"
    using example_systems [of example_sys] by simp_all
  obtain s where s: "rapl_ready ?P (fresh_units 0xA0E03 s)" "unit_val (fresh_units 0xA0E03 s) = None"
    "batch_unused 1 (fresh_units 0xA0E03 s)" "0 < batchfd (fresh_units 0xA0E03 s)"
    using example_fresh [OF v] by blast
  have r: "socket_reg ?P (fresh_units 0xA0E03 s) so m = 0xA0E03" for so m
    by (simp add: socket_reg_def fresh_units_def)
  have c: "unat (ncores (pe_topo ?P)) \<le> 2 ^ 16"
    by (simp add: example_power_def example_sys_def machine_topo_def topo_of_def fill_platform_def two_socket_machine_def
        unsigned_of_int_def)
  have io: "\<forall>R ops. 0 \<le> fst (drv_ioctl (pe_os ?P) R ops)" by (simp add: example_power_def example_sys_def good_env_def)
  have m: "unat (MASK_VAL 0xA0E03 12 8) < 31" "unat (MASK_VAL 0xA0E03 3 0) = 3" by (simp_all add: MASK_VAL_def MASK_RANGE_def)
  obtain us s' where u: "get_rapl_power_unit ?P 0x606 (fresh_units 0xA0E03 s) = Some (us, s')"
    "\<forall>so. socket_ok ?P so \<longrightarrow> us ! unat so = reg_units 0xA0E03"
    using units_from_registers [OF s c _ io, of "0x606"] m(1) unfolding r reg_units_def exact_units_def by auto
  have "us ! 1 = reg_units 0xA0E03" using u(2) example_units(2) [OF v(2)] by (metis unat_1)
  then have "ru_watts (us ! 1) = Fin (1 / 8)" using m(2) by (simp add: reg_units_def exact_units_def)
  with u(1) show ?thesis by blast
qed

text \<open>A client that caps sockets, one after another; the results.\<close>

fun cap_calls ::
  "power_env \<Rightarrow> u64 \<Rightarrow> u64 \<Rightarrow> (u32 \<times> int) list \<Rightarrow> 'a rapl_state_scheme \<Rightarrow> (int list \<times> 'a rapl_state_scheme) option" where
  "cap_calls P msr mu [] s = Some ([], s)"
| "cap_calls P msr mu ((socket, L) # cs) s = do {
     (rc, s) \<leftarrow> cap_package_power_limit P socket L msr mu s;
     (rcs, s) \<leftarrow> cap_calls P msr mu cs s;
     Some (rc # rcs, s)
   }"

text \<open>A cap in units of one watt.\<close>

definition watt_cap :: "power_env \<Rightarrow> u64 \<Rightarrow> u32 \<times> int \<Rightarrow> 'a rapl_state_scheme \<Rightarrow> 'a rapl_state_scheme" where
  "watt_cap P msr c s = socket_set P (fst c) msr (cap_value (word_of_int (snd c)) 0 (socket_reg P s (fst c) msr)) s"

lemma watt_cap_simps [simp]:
  "rapl_ready P (watt_cap P msr c s) = rapl_ready P s" "elog (watt_cap P msr c s) = elog s"
  "socket_units so pu eu tu (watt_cap P msr c s) = socket_units so pu eu tu s"
  by (simp_all add: watt_cap_def)

lemma cap_calls_steady:
  assumes "rapl_ready P s" "libm_ok P" "\<forall>p. drv_can_read (pe_os P) p msr" "\<forall>R p v. drv_write (pe_os P) R p msr v \<noteq> None"
    "\<forall>(socket, L) \<in> set cs. socket_ok P socket \<and> socket_units socket 0 0 0 s \<and> 0 \<le> L \<and> L < 2 ^ 15"
  shows "cap_calls P msr mu cs s = Some (replicate (length cs) 0, fold (watt_cap P msr) cs s)"
  using assms
proof (induction cs arbitrary: s)
  case (Cons c cs)
  obtain so L where c: "c = (so, L)" by (metis surj_pair)
  have f: "socket_ok P so" "socket_units so 0 0 0 s" "0 \<le> L" "L < 2 ^ 15" using Cons.prems(5) by (simp_all add: c)
  have io: "drv_can_read (pe_os P) p msr = True" "drv_write (pe_os P) R p msr v \<noteq> None" for p R v
    using Cons.prems(3,4) by blast+
  have rd: "socket_readable P s so msr" using driver_answers(1) [OF Cons.prems(1) f(1) io(1)] by simp
  have wr: "socket_writable P s so msr v" for v by (rule driver_answers(2) [OF Cons.prems(1) f(1) io(2)])
  have "cap_package_power_limit P so L msr mu s = Some (0, watt_cap P msr (so, L) s)"
    unfolding watt_cap_def using cap_package_eq(4) [OF Cons.prems(1) f(1,2) Cons.prems(2) _ f(3) _ _ rd wr, of _ mu] f(3,4) by simp
  moreover have "cap_calls P msr mu cs (watt_cap P msr (so, L) s) =
      Some (replicate (length cs) 0, fold (watt_cap P msr) cs (watt_cap P msr (so, L) s))"
    by (rule Cons.IH) (use Cons.prems in auto)
  ultimately show ?case by (simp add: c)
qed simp

text \<open>
  C36: a unit register that cannot be read makes every later cap wrong. Take a client that caps sockets, one call after another, on
  a machine where the units have not been read, the batch device is open but its driver refuses every batch, and the
  limit register itself can be read and written. The first call reports the failed batch, once, and nothing after that is
  reported; the result of read_batch is not looked at, and the zeros in the batch are taken for a unit of one
  watt and kept. Every call returns 0, and a cap to L watts leaves the number L itself in the power
  field of the socket, which the processor reads in its own unit (1/8 watt on most models).
\<close>

theorem unread_units_miscap:
  assumes "rapl_ready P s" "translate_ru s = None" "unit_val s = None" "batch_unused 1 s" "0 < batchfd s"
    "unat (ncores (pe_topo P)) \<le> 2 ^ 16" "unat mu < 2 ^ 32" "\<forall>R ops. drv_ioctl (pe_os P) R ops = (-1, ops, R)"
    "libm_ok P" "\<forall>p. drv_can_read (pe_os P) p msr" "\<forall>R p v. drv_write (pe_os P) R p msr v \<noteq> None"
    "\<forall>(socket, L) \<in> set (cs @ [(socket, L)]). socket_ok P socket \<and> 0 \<le> L \<and> L < 2 ^ 15"
  shows "\<exists>s'. cap_calls P msr mu (cs @ [(socket, L)]) s = Some (replicate (Suc (length cs)) 0, s') \<and>
    MASK_VAL (socket_reg P s' socket msr) 14 0 = word_of_int L \<and> elog s' = elog s @ [VARIORUM_ERROR_MSR_BATCH]"
proof -
  let ?us = "replicate (unat (nsockets (pe_topo P))) (reg_units 0)"
  obtain s1 where s1: "get_rapl_power_unit P mu s = Some (?us, s1)" "rapl_ready P s1" "same_access s s1"
    "elog s1 = elog s @ [VARIORUM_ERROR_MSR_BATCH]"
    using first_units(2) [OF assms(1,3-8)] by blast
  let ?s = "s1\<lparr>translate_ru := Some ?us\<rparr>"
  have z: "unat (MASK_VAL 0 i j) = 0" for i j by (simp add: MASK_VAL_def)
  have u: "socket_units so 0 0 0 ?s" if "socket_ok P so" for so
    using that by (auto simp: socket_units_def socket_ok_def reg_units_def z)
  have r: "rapl_ready P ?s" using s1(2) by simp
  let ?cs = "cs @ [(socket, L)]"
  have "\<forall>(so, l) \<in> set ?cs. socket_ok P so \<and> socket_units so 0 0 0 ?s \<and> 0 \<le> l \<and> l < 2 ^ 15"
    using assms(12) u by fastforce
  from cap_calls_steady [OF r assms(9-11) this, of mu]
  have c: "cap_calls P msr mu ?cs ?s = Some (replicate (Suc (length cs)) 0, fold (watt_cap P msr) ?cs ?s)" by simp
  obtain so l cs' where cs: "?cs = (so, l) # cs'" by (metis append_is_Nil_conv list.distinct(1) neq_Nil_conv surj_pair)
  have so: "socket_ok P so" using assms(12) unfolding cs by simp
  have io: "drv_can_read (pe_os P) p msr = True" for p using assms(10) by blast
  have rd: "socket_readable P s so msr" using driver_answers(1) [OF assms(1) so io] by simp
  have "cap_calls P msr mu ?cs s = cap_calls P msr mu ?cs ?s"
    unfolding cs using cap_first [OF assms(1) so assms(2) s1(1-3) rd, of l] by simp
  moreover have "MASK_VAL (socket_reg P (fold (watt_cap P msr) ?cs ?s) socket msr) 14 0 = word_of_int L"
  proof -
    have "unat (word_of_int L :: u64) < 2 ^ 15" by (rule unat_word_of_int_less) (use assms(12) in simp_all)
    then show ?thesis by (simp add: watt_cap_def cap_value_fields(1))
  qed
  moreover have "elog (fold (watt_cap P msr) ds t) = elog t" for ds and t :: "'a rapl_state_scheme"
    by (induction ds arbitrary: t) simp_all
  then have "elog (fold (watt_cap P msr) ?cs ?s) = elog s @ [VARIORUM_ERROR_MSR_BATCH]" using s1(4) by simp
  ultimately show ?thesis using c by metis
qed

text \<open>A machine whose batch device accepts the open but fails each request.\<close>

definition no_batch_sys :: sys_env where
  "no_batch_sys = example_sys\<lparr>sys_os := good_env\<lparr>drv_ioctl := (\<lambda>R ops. (-1, ops, R))\<rparr>\<rparr>"

theorem unread_units_miscap_witness:
  "\<exists>P (s :: rapl_state) s'. cap_calls P 0x610 0x606 [(0, 90), (1, 80), (1, 100)] s = Some ([0, 0, 0], s') \<and>
     MASK_VAL (socket_reg P s 1 0x606) 3 0 = 3 \<and> MASK_VAL (socket_reg P s' 1 0x610) 14 0 = 100"
proof -
  let ?P = "example_power no_batch_sys"
  have v: "intel_machine no_batch_sys M_06_4F" "sys_hw no_batch_sys = two_socket_machine" "driver_ok (sys_os no_batch_sys)"
    using example_systems [of example_sys]
    by (auto simp: no_batch_sys_def example_sys_def intel_machine_def driver_ok_def good_env_def
      detect_intel_arch_def file_ok_def chosen_module_def device_path_def)
  obtain s where s: "rapl_ready ?P (fresh_units 0xA0E03 s)" "translate_ru (fresh_units 0xA0E03 s) = None"
    "unit_val (fresh_units 0xA0E03 s) = None" "batch_unused 1 (fresh_units 0xA0E03 s)" "0 < batchfd (fresh_units 0xA0E03 s)"
    using example_fresh [OF v] by blast
  note so = example_units(2,3) [OF v(2)]
  have c: "unat (ncores (pe_topo ?P)) \<le> 2 ^ 16"
    by (simp add: example_power_def no_batch_sys_def example_sys_def machine_topo_def topo_of_def fill_platform_def
        two_socket_machine_def unsigned_of_int_def)
  have io: "\<forall>R ops. drv_ioctl (pe_os ?P) R ops = (-1, ops, R)"
    "\<forall>p. drv_can_read (pe_os ?P) p 0x610" "\<forall>R p w. drv_write (pe_os ?P) R p 0x610 w \<noteq> None"
    by (simp_all add: example_power_def no_batch_sys_def example_sys_def good_env_def)
  have "MASK_VAL (socket_reg ?P (fresh_units 0xA0E03 s) 1 0x606) 3 0 = 3"
    by (simp add: socket_reg_def fresh_units_def MASK_VAL_def MASK_RANGE_def)
  then show ?thesis
    using unread_units_miscap [OF s c _ io(1) example_libm io(2,3), of "0x606" "[(0, 90), (1, 80)]" 1 100] so by auto
qed

end
