(* ===== verification/Rapl_Energy_Facts.thy ===== *)
theory Rapl_Energy_Facts imports Rapl_Energy Rapl_Limits begin

text \<open>
  Properties of the energy counters: the difference of two samples is exact as long as the
  counter has not wrapped, one unit short when it has, and in the wrong unit for DRAM on the
  models with a fixed DRAM unit; and what two calls of get_power compute.
\<close>

section \<open>Exact differences\<close>

text \<open>A counter in joules, where the unit is 1/2^k joules.\<close>

definition counter_joules :: "nat \<Rightarrow> u64 \<Rightarrow> double" where
  "counter_joules k w = Fin (of_int (uint w) / 2 ^ k)"

lemma d_sub_scaled:
  assumes "\<bar>a - b\<bar> < 2 ^ 53" "k \<le> 900"
  shows "d_sub (Fin (of_int a / 2 ^ k)) (Fin (of_int b / 2 ^ k)) = Fin (of_int (a - b) / 2 ^ k)"
proof -
  have "fl (of_int (a - b) / 2 ^ k) = Fin (of_int (a - b) / 2 ^ k)"
    by (rule fl_representable, rule representable_scaled) (use assms in simp_all)
  then show ?thesis by (simp add: d_sub_def diff_divide_distrib)
qed

lemma uint_small: "unat (w :: u64) < 2 ^ n \<Longrightarrow> uint w < 2 ^ n"
proof -
  assume "unat w < 2 ^ n"
  then have "int (unat w) < int (2 ^ n)" by (simp only: of_nat_less_iff)
  then show ?thesis by simp
qed

lemma sub_counters:
  assumes "unat (a :: u64) < 2 ^ 32" "unat (b :: u64) < 2 ^ 32" "k < 31"
  shows "d_sub (counter_joules k a) (counter_joules k b) = Fin (of_int (uint a - uint b) / 2 ^ k)"
    "d_sub (d_of_u64 a) (d_of_u64 b) = Fin (of_int (uint a - uint b))"
proof -
  have u: "0 \<le> uint a" "uint a < 2 ^ 32" "0 \<le> uint b" "uint b < 2 ^ 32"
    using uint_small [OF assms(1)] uint_small [OF assms(2)] by simp_all
  have "\<bar>uint a - uint b\<bar> < 2 ^ 32" unfolding abs_less_iff using u by linarith
  then have d: "\<bar>uint a - uint b\<bar> < 2 ^ 53" "\<bar>uint a\<bar> < 2 ^ 53" "\<bar>uint b\<bar> < 2 ^ 53" using u by simp_all
  show "d_sub (counter_joules k a) (counter_joules k b) = Fin (of_int (uint a - uint b) / 2 ^ k)"
    unfolding counter_joules_def by (rule d_sub_scaled) (use d assms(3) in simp_all)
  show "d_sub (d_of_u64 a) (d_of_u64 b) = Fin (of_int (uint a - uint b))"
    using d_sub_scaled [OF d(1), of 0] d_of_int_exact [OF d(2)] d_of_int_exact [OF d(3)] by simp
qed

lemma counter_exact:
  assumes "unat w < 2 ^ 53" "k \<le> 900"
  shows "d_div (d_of_u64 w) (Fin (2 ^ k)) = counter_joules k w"
proof -
  have u: "\<bar>uint w\<bar> < 2 ^ 53" using uint_small [OF assms(1)] by simp
  then show ?thesis using d_scale(3) [OF u assms(2)] d_of_int_exact [OF u] by (simp add: counter_joules_def)
qed

lemma translate_joules:
  assumes "socket_units socket pu eu tu s" "unat w < 2 ^ 53"
  shows "translate P socket w x BITS_TO_JOULES msr idx s = Some (w, counter_joules eu w, s)"
proof -
  have eu: "eu \<le> 900" using assms(1) by (simp add: socket_units_def)
  obtain q where "translate P socket w x BITS_TO_JOULES msr idx s =
      map_option (\<lambda>(b, u). (b, u, s)) (convert P (exact_units q pu eu tu) BITS_TO_JOULES w x)"
    using translate_known [OF assms(1), of BITS_TO_JOULES] by blast
  then show ?thesis using counter_exact [OF assms(2) eu] by (simp add: convert_def exact_units_def)
qed

lemma wrapped_value:
  assumes "unat (new :: u64) < unat old" "unat old < 2 ^ 32"
  shows "uint ((new + UINT_MAX) - old) = uint new + (2 ^ 32 - 1) - uint old"
    "unat ((new + UINT_MAX) - old) < 2 ^ 32"
proof -
  have l: "unat new + 4294967295 < 2 ^ 64" "unat old \<le> unat new + 4294967295" using assms by simp_all
  have a: "unat (new + UINT_MAX) = unat new + 4294967295"
    using l(1) by (simp add: UINT_MAX_def unat_word_ariths)
  have s: "unat ((new + UINT_MAX) - old) = unat new + 4294967295 - unat old"
    using l(2) a by (simp add: unat_sub word_le_nat_alt)
  then show "unat ((new + UINT_MAX) - old) < 2 ^ 32" using assms by simp
  have "int (unat ((new + UINT_MAX) - old)) = int (unat new) + 4294967295 - int (unat old)"
    unfolding s using l(2) by (simp add: of_nat_diff)
  then show "uint ((new + UINT_MAX) - old) = uint new + (2 ^ 32 - 1) - uint old" by simp
qed

text \<open>The energy between two samples of a counter, as the code computes it.\<close>

definition delta_joules :: "nat \<Rightarrow> nat \<Rightarrow> u64 \<Rightarrow> u64 \<Rightarrow> double" where
  "delta_joules k eu old new =
    (if unat new < unat old then Fin (of_int (uint new + (2 ^ 32 - 1) - uint old) / 2 ^ eu)
     else Fin (of_int (uint new - uint old) / 2 ^ k))"

lemma delta_domain_known:
  assumes "socket_units (of_nat i) pu eu tu s" "deref_at (dd_bits d) i s = Some new" "k < 31"
    "unat new < 2 ^ 32" "unat (dd_old_bits d ! i) < 2 ^ 32" "i < length (dd_delta_joules d)"
    "dd_joules d ! i = counter_joules k new" "dd_old_joules d ! i = counter_joules k (dd_old_bits d ! i)"
  shows "\<exists>db. delta_domain P msr i d s = Some (d\<lparr>dd_delta_bits := db,
    dd_delta_joules := (dd_delta_joules d)[i := delta_joules k eu (dd_old_bits d ! i) new]\<rparr>, s)"
proof -
  let ?old = "dd_old_bits d ! i"
  have lt: "uint new < uint ?old \<longleftrightarrow> unat new < unat ?old" by (simp only: word_less_def [symmetric] word_less_nat_alt)
  have c: "d_less (d_sub (d_of_u64 new) (d_of_u64 ?old)) (Fin 0) \<longleftrightarrow> unat new < unat ?old"
  proof -
    have "d_less (d_sub (d_of_u64 new) (d_of_u64 ?old)) (Fin 0) \<longleftrightarrow> (of_int (uint new - uint ?old) :: rat) < 0"
      by (simp only: sub_counters(2) [OF assms(4,5,3)] d_less.simps)
    also have "\<dots> \<longleftrightarrow> uint new < uint ?old" unfolding of_int_less_0_iff by (rule diff_less_0_iff_less)
    finally show ?thesis unfolding lt .
  qed
  have nn: "\<not> d_less (delta_joules k eu ?old new) (Fin 0)"
  proof (cases "unat new < unat ?old")
    case True
    have "uint ?old \<le> uint new + (2 ^ 32 - 1)"
      by (rule order_trans [of _ "2 ^ 32 - 1"]) (use uint_small [OF assms(5)] in simp_all)
    then have "0 \<le> uint new + (2 ^ 32 - 1) - uint ?old" by simp
    then have "(0 :: rat) \<le> of_int (uint new + (2 ^ 32 - 1) - uint ?old)" by (simp only: of_int_0_le_iff)
    then show ?thesis using True by (simp only: delta_joules_def if_True d_less.simps not_less divide_nonneg_pos zero_less_power zero_less_numeral)
  next
    case False
    then have "0 \<le> uint new - uint ?old" using lt by simp
    then have "(0 :: rat) \<le> of_int (uint new - uint ?old)" by (simp only: of_int_0_le_iff)
    then show ?thesis by (simp only: delta_joules_def False if_False d_less.simps not_less divide_nonneg_pos zero_less_power zero_less_numeral)
  qed
  show ?thesis
  proof (cases "unat new < unat ?old")
    case True
    note w = wrapped_value [OF True assms(5)]
    have b: "unat (new + UINT_MAX - ?old) < 2 ^ 53" using w(2) by simp
    have "counter_joules eu (new + UINT_MAX - ?old) = delta_joules k eu ?old new"
      using True by (simp add: counter_joules_def w(1) delta_joules_def)
    then show ?thesis using True c nn assms(2,6) translate_joules [OF assms(1) b]
      by (intro exI [of _ "(dd_delta_bits d)[i := new + UINT_MAX - ?old]"]) (simp add: delta_domain_def Let_def)
  next
    case False
    have "d_sub (dd_joules d ! i) (dd_old_joules d ! i) = delta_joules k eu ?old new"
      using False sub_counters(1) [OF assms(4,5,3)] by (simp add: assms(7,8) delta_joules_def)
    then show ?thesis using False c nn assms(2,6)
      by (intro exI [of _ "dd_delta_bits d"]) (simp add: delta_domain_def Let_def)
  qed
qed

section \<open>Loops over the sockets\<close>

lemma take_update: "i < length xs \<Longrightarrow> take (Suc i) (xs[i := v]) = take i xs @ [v]"
  by (simp add: take_Suc_conv_app_nth)

lemma upt_first: "i < n \<Longrightarrow> [i..<n] = i # [Suc i..<n]"
  by (rule upt_conv_Cons)

text \<open>Power over a time: nothing when no time has passed.\<close>

definition power_of :: "double \<Rightarrow> double \<Rightarrow> double" where
  "power_of elapsed dj = (if d_less (Fin 0) elapsed then d_div dj elapsed else Fin 0)"

text \<open>A sample of a domain: the counters w and their joules, beside older ones.\<close>

definition sampled :: "nat \<Rightarrow> (nat \<Rightarrow> nat) \<Rightarrow> (nat \<Rightarrow> u64) \<Rightarrow> domain_data \<Rightarrow> 'a batch_state_scheme \<Rightarrow> bool" where
  "sampled n k w d s \<longleftrightarrow> length (dd_joules d) = n \<and> length (dd_old_bits d) = n \<and> length (dd_old_joules d) = n \<and>
     length (dd_delta_joules d) = n \<and> length (dd_watts d) = n \<and>
     (\<forall>i < n. k i < 31 \<and> deref_at (dd_bits d) i s = Some (w i) \<and> unat (w i) < 2 ^ 32 \<and> unat (dd_old_bits d ! i) < 2 ^ 32 \<and>
        dd_joules d ! i = counter_joules (k i) (w i) \<and> dd_old_joules d ! i = counter_joules (k i) (dd_old_bits d ! i))"

definition units_known :: "nat \<Rightarrow> (nat \<Rightarrow> nat) \<Rightarrow> 'a rapl_state_scheme \<Rightarrow> bool" where
  "units_known n eu s \<longleftrightarrow> (\<forall>i < n. \<exists>pu tu. socket_units (of_nat i) pu (eu i) tu s)"

text \<open>One socket's step of a domain.\<close>

lemma domain_step:
  assumes "sampled n k w d s" "units_known n eu s" "i < n"
  shows "\<exists>d1. delta_domain P msr i d s = Some (d1, s) \<and> sampled n k w (set_watts el i d1) s \<and>
    dd_bits (set_watts el i d1) = dd_bits d \<and> dd_old_bits (set_watts el i d1) = dd_old_bits d \<and>
    dd_joules (set_watts el i d1) = dd_joules d \<and>
    dd_delta_joules (set_watts el i d1) = (dd_delta_joules d)[i := delta_joules (k i) (eu i) (dd_old_bits d ! i) (w i)] \<and>
    dd_watts (set_watts el i d1) = (dd_watts d)[i := power_of el (delta_joules (k i) (eu i) (dd_old_bits d ! i) (w i))]"
proof -
  obtain pu tu where u: "socket_units (of_nat i) pu (eu i) tu s" using assms(2,3) by (auto simp: units_known_def)
  have a: "deref_at (dd_bits d) i s = Some (w i)" "k i < 31" "unat (w i) < 2 ^ 32" "unat (dd_old_bits d ! i) < 2 ^ 32"
    "i < length (dd_delta_joules d)" "dd_joules d ! i = counter_joules (k i) (w i)"
    "dd_old_joules d ! i = counter_joules (k i) (dd_old_bits d ! i)"
    using assms(1,3) by (simp_all add: sampled_def)
  obtain db where "delta_domain P msr i d s = Some (d\<lparr>dd_delta_bits := db,
      dd_delta_joules := (dd_delta_joules d)[i := delta_joules (k i) (eu i) (dd_old_bits d ! i) (w i)]\<rparr>, s)"
    using delta_domain_known [OF u a] by blast
  then show ?thesis using assms(1) a(5)
    by (intro exI conjI) (assumption, simp_all add: set_watts_def sampled_def power_of_def)
qed

lemma delta_loop_known:
  assumes "sampled n k w (rd_pkg r) s" "sampled n kd wd (rd_dram r) s" "units_known n eu s" "m = n - i" "i \<le> n"
  shows "\<exists>r'. delta_loop P msr [i..<n] r s = Some (r', s) \<and>
    sampled n k w (rd_pkg r') s \<and> sampled n kd wd (rd_dram r') s \<and>
    dd_bits (rd_pkg r') = dd_bits (rd_pkg r) \<and> dd_bits (rd_dram r') = dd_bits (rd_dram r) \<and>
    rd_elapsed r' = rd_elapsed r \<and> rd_now r' = rd_now r \<and>
    dd_old_bits (rd_pkg r') = dd_old_bits (rd_pkg r) \<and> dd_old_bits (rd_dram r') = dd_old_bits (rd_dram r) \<and>
    dd_joules (rd_pkg r') = dd_joules (rd_pkg r) \<and> dd_joules (rd_dram r') = dd_joules (rd_dram r) \<and>
    dd_delta_joules (rd_pkg r') = take i (dd_delta_joules (rd_pkg r)) @
      map (\<lambda>i. delta_joules (k i) (eu i) (dd_old_bits (rd_pkg r) ! i) (w i)) [i..<n] \<and>
    dd_delta_joules (rd_dram r') = take i (dd_delta_joules (rd_dram r)) @
      map (\<lambda>i. delta_joules (kd i) (eu i) (dd_old_bits (rd_dram r) ! i) (wd i)) [i..<n] \<and>
    dd_watts (rd_pkg r') = take i (dd_watts (rd_pkg r)) @
      map (\<lambda>i. power_of (rd_elapsed r) (delta_joules (k i) (eu i) (dd_old_bits (rd_pkg r) ! i) (w i))) [i..<n] \<and>
    dd_watts (rd_dram r') = take i (dd_watts (rd_dram r)) @
      map (\<lambda>i. power_of (rd_elapsed r) (delta_joules (kd i) (eu i) (dd_old_bits (rd_dram r) ! i) (wd i))) [i..<n]"
  using assms
proof (induction m arbitrary: i r)
  case 0
  then have "i = n" by simp
  then show ?case using "0.prems"(1,2) by (simp add: sampled_def)
next
  case (Suc m)
  then have i: "i < n" "m = n - Suc i" "Suc i \<le> n" by simp_all
  let ?el = "rd_elapsed r"
  obtain p where p: "delta_domain P msr i (rd_pkg r) s = Some (p, s)" "sampled n k w (set_watts ?el i p) s"
    "dd_bits (set_watts ?el i p) = dd_bits (rd_pkg r)" "dd_old_bits (set_watts ?el i p) = dd_old_bits (rd_pkg r)"
    "dd_joules (set_watts ?el i p) = dd_joules (rd_pkg r)"
    "dd_delta_joules (set_watts ?el i p) = (dd_delta_joules (rd_pkg r))[i := delta_joules (k i) (eu i) (dd_old_bits (rd_pkg r) ! i) (w i)]"
    "dd_watts (set_watts ?el i p) = (dd_watts (rd_pkg r))[i := power_of ?el (delta_joules (k i) (eu i) (dd_old_bits (rd_pkg r) ! i) (w i))]"
    using domain_step [OF Suc.prems(1,3) i(1)] by blast
  obtain q where q: "delta_domain P msr i (rd_dram r) s = Some (q, s)" "sampled n kd wd (set_watts ?el i q) s"
    "dd_bits (set_watts ?el i q) = dd_bits (rd_dram r)" "dd_old_bits (set_watts ?el i q) = dd_old_bits (rd_dram r)"
    "dd_joules (set_watts ?el i q) = dd_joules (rd_dram r)"
    "dd_delta_joules (set_watts ?el i q) = (dd_delta_joules (rd_dram r))[i := delta_joules (kd i) (eu i) (dd_old_bits (rd_dram r) ! i) (wd i)]"
    "dd_watts (set_watts ?el i q) = (dd_watts (rd_dram r))[i := power_of ?el (delta_joules (kd i) (eu i) (dd_old_bits (rd_dram r) ! i) (wd i))]"
    using domain_step [OF Suc.prems(2,3) i(1)] by blast
  have len: "i < length (dd_delta_joules (rd_pkg r))" "i < length (dd_delta_joules (rd_dram r))"
    "i < length (dd_watts (rd_pkg r))" "i < length (dd_watts (rd_dram r))"
    using Suc.prems(1,2) i(1) by (simp_all add: sampled_def)
  let ?r = "r\<lparr>rd_pkg := set_watts ?el i p, rd_dram := set_watts ?el i q\<rparr>"
  have st: "delta_loop P msr [i..<n] r s = delta_loop P msr [Suc i..<n] ?r s"
    using p(1) q(1) by (simp add: upt_first [OF i(1)])
  have "sampled n k w (rd_pkg ?r) s" "sampled n kd wd (rd_dram ?r) s" using p(2) q(2) by simp_all
  from Suc.IH [OF this Suc.prems(3) i(2,3)]
  show ?case unfolding st upt_first [OF i(1)]
    by (simp add: p(1,3-7) q(1,3-7) take_update len)
qed

text \<open>Converting the counters, with the DRAM unit of models 63 and 79.\<close>

definition dram_unit :: "'a tbase_scheme \<Rightarrow> nat \<Rightarrow> nat" where
  "dram_unit s eu = (if platform_arch 0 s = Some 63 \<or> platform_arch 0 s = Some 79 then 16 else eu)"

lemma translate_dram:
  assumes "socket_units socket pu eu tu s" "unat w < 2 ^ 53" "platform_arch 0 s = Some a"
  shows "translate P socket w x BITS_TO_JOULES_DRAM msr 0 s = Some (w, counter_joules (dram_unit s eu) w, s)"
proof -
  have eu: "eu \<le> 900" using assms(1) by (simp add: socket_units_def)
  obtain us q where u: "translate_ru s = Some us" "unat socket < length us" "us ! unat socket = exact_units q pu eu tu"
    using assms(1) by (auto simp: socket_units_def)
  have "STD_ENERGY_UNIT = Fin (2 ^ 16)" by (simp add: STD_ENERGY_UNIT_def)
  then have std: "d_div (d_of_u64 w) STD_ENERGY_UNIT = counter_joules 16 w"
    using counter_exact [OF assms(2), of 16] by simp
  then show ?thesis using u assms(3) counter_exact [OF assms(2) eu]
    by (simp add: translate_def convert_def exact_units_def dram_unit_def)
qed

lemma joules_loop_known:
  assumes "\<forall>i < n. deref_at (dd_bits (rd_pkg r)) i s = Some (w i) \<and> unat (w i) < 2 ^ 53"
    "\<forall>i < n. deref_at (dd_bits (rd_dram r)) i s = Some (wd i) \<and> unat (wd i) < 2 ^ 53"
    "units_known n eu s" "platform_arch 0 s = Some a" "length (dd_joules (rd_pkg r)) = n" "length (dd_joules (rd_dram r)) = n"
    "m = n - i" "i \<le> n"
  shows "joules_loop P msr [i..<n] r s = Some (r\<lparr>
      rd_pkg := (rd_pkg r)\<lparr>dd_joules := take i (dd_joules (rd_pkg r)) @ map (\<lambda>i. counter_joules (eu i) (w i)) [i..<n]\<rparr>,
      rd_dram := (rd_dram r)\<lparr>dd_joules := take i (dd_joules (rd_dram r)) @ map (\<lambda>i. counter_joules (dram_unit s (eu i)) (wd i)) [i..<n]\<rparr>\<rparr>, s)"
  using assms
proof (induction m arbitrary: i r)
  case 0
  then have "i = n" by simp
  then show ?case using "0.prems"(5,6) by simp
next
  case (Suc m)
  then have i: "i < n" "m = n - Suc i" "Suc i \<le> n" by simp_all
  obtain pu tu where u: "socket_units (of_nat i) pu (eu i) tu s" using Suc.prems(3) i(1) by (auto simp: units_known_def)
  have t: "deref_at (dd_bits (rd_pkg r)) i s = Some (w i)" "unat (w i) < 2 ^ 53"
    "deref_at (dd_bits (rd_dram r)) i s = Some (wd i)" "unat (wd i) < 2 ^ 53"
    using Suc.prems(1,2) i(1) by simp_all
  let ?r = "r\<lparr>rd_pkg := (rd_pkg r)\<lparr>dd_joules := (dd_joules (rd_pkg r))[i := counter_joules (eu i) (w i)]\<rparr>,
    rd_dram := (rd_dram r)\<lparr>dd_joules := (dd_joules (rd_dram r))[i := counter_joules (dram_unit s (eu i)) (wd i)]\<rparr>\<rparr>"
  have st: "joules_loop P msr [i..<n] r s = joules_loop P msr [Suc i..<n] ?r s"
    using t translate_joules [OF u t(2)] translate_dram [OF u t(4) Suc.prems(4)]
    by (simp add: upt_first [OF i(1)] P_INTEL_CPU_IDX_def)
  show ?case unfolding st using Suc.prems i
    by (subst Suc.IH) (simp_all add: upt_first take_update)
qed

section \<open>Sampling in the steady state\<close>

text \<open>The batch reads the two energy counters of every socket into the places the arrays point to.\<close>

abbreviation pe_sockets :: "power_env \<Rightarrow> nat" where "pe_sockets P \<equiv> unat (nsockets (pe_topo P))"

definition reads_reg :: "power_env \<Rightarrow> msr_batch_op \<Rightarrow> nat \<Rightarrow> u64 \<Rightarrow> bool" where
  "reads_reg P op i msr \<longleftrightarrow> (\<forall>R. op_msrdata (batch_read_op R op) = R (int (unat (devidx (pe_topo P) (of_nat i) 0 0))) msr)"

definition energy_batch :: "power_env \<Rightarrow> u64 \<Rightarrow> u64 \<Rightarrow> nat \<Rightarrow> rapl_data \<Rightarrow> 'a batch_state_scheme \<Rightarrow> bool" where
  "energy_batch P pkg dram blk r s \<longleftrightarrow> batch_at 0 (2 * pe_sockets P) blk s \<and>
     read_ops (pe_topo P) (take (2 * pe_sockets P) (block blk s)) \<and>
     length (dd_bits (rd_pkg r)) = pe_sockets P \<and> length (dd_bits (rd_dram r)) = pe_sockets P \<and>
     (\<forall>i < pe_sockets P. dd_bits (rd_pkg r) ! i = Some (blk, i) \<and> dd_bits (rd_dram r) ! i = Some (blk, pe_sockets P + i) \<and>
        reads_reg P (block blk s ! i) i pkg \<and> reads_reg P (block blk s ! (pe_sockets P + i)) i dram)"

text \<open>Everything has been set up: what holds between two calls of get\_power.\<close>

definition energy_ready :: "power_env \<Rightarrow> (nat \<Rightarrow> nat) \<Rightarrow> u64 \<Rightarrow> u64 \<Rightarrow> 'a rapl_state_scheme \<Rightarrow> bool" where
  "energy_ready P eu pkg dram s \<longleftrightarrow> rapl_ready P s \<and> rapl_init s \<and> read_init s \<and> delta_init s \<and> 0 < batchfd s \<and>
     units_known (pe_sockets P) eu s \<and> platform_arch 0 s \<noteq> None \<and>
     (\<exists>r blk w wd. rapl s = Some r \<and> energy_batch P pkg dram blk r s \<and> sampled (pe_sockets P) eu w (rd_pkg r) s \<and>
        sampled (pe_sockets P) (\<lambda>i. dram_unit s (eu i)) wd (rd_dram r) s)"

text \<open>The counter of socket i that a sample holds.\<close>

definition sample_of :: "domain_data \<Rightarrow> nat \<Rightarrow> 'a batch_state_scheme \<Rightarrow> u64" where
  "sample_of d i s = the (deref_at (dd_bits d) i s)"

lemma energy_frame [simp]:
  "rapl_ready P (s\<lparr>tod_calls := n\<rparr>) = rapl_ready P s" "rapl_ready P (s\<lparr>rapl := r, read_init := b\<rparr>) = rapl_ready P s"
  "rapl_ready P (s\<lparr>rapl := r\<rparr>) = rapl_ready P s" "rapl_ready P (s\<lparr>blocks := bl\<rparr>) = rapl_ready P s"
  "deref_at d i (s\<lparr>tod_calls := n\<rparr>) = deref_at d i s" "deref_at d i (s\<lparr>rapl := r, read_init := b\<rparr>) = deref_at d i s"
  "deref_at d i (s\<lparr>rapl := r\<rparr>) = deref_at d i s" "deref_at d i (variorum_error_handler e s) = deref_at d i s"
  by (simp_all add: rapl_ready_def msr_ready_def ready_upto_def core_ok_def fd_on_cpu_def deref_at_def
      variorum_error_handler_def) (simp_all add: deref_dest_def split: option.split)

lemma units_frame [simp]:
  "units_known n eu (s\<lparr>tod_calls := m\<rparr>) = units_known n eu s" "units_known n eu (s\<lparr>rapl := r, read_init := b\<rparr>) = units_known n eu s"
  "units_known n eu (s\<lparr>rapl := r\<rparr>) = units_known n eu s" "units_known n eu (s\<lparr>blocks := bl\<rparr>) = units_known n eu s"
  "units_known n eu (variorum_error_handler e s) = units_known n eu s"
  by (simp_all add: units_known_def) (simp_all add: socket_units_def)

lemma platform_frame [simp]:
  "platform_arch i (s\<lparr>tod_calls := m\<rparr>) = platform_arch i s" "platform_arch i (s\<lparr>rapl := r, read_init := b\<rparr>) = platform_arch i s"
  "platform_arch i (s\<lparr>rapl := r\<rparr>) = platform_arch i s" "platform_arch i (s\<lparr>blocks := bl\<rparr>) = platform_arch i s"
  "platform_arch i (variorum_error_handler e s) = platform_arch i s"
  by (simp_all add: platform_arch_def variorum_error_handler_def)

lemma old_bits_known:
  "\<forall>i \<in> set is. deref_at val i s = Some (w i) \<Longrightarrow> old_bits_loop val is s = Some (map w is)"
  by (induction "is") simp_all

lemma age_known:
  assumes "sampled n k w d s"
  shows "age_domain d s = Some (d\<lparr>dd_old_bits := map w [0..<n], dd_old_joules := dd_joules d\<rparr>)"
  using assms old_bits_known [of "[0..<n]" "dd_bits d" s w] by (simp add: age_domain_def sampled_def)

text \<open>After the batch has been read.\<close>

lemma read_sampled:
  assumes "energy_batch P pkg dram blk r s" "s' = s\<lparr>blocks := with_reads blk (2 * pe_sockets P) s\<rparr>" "i < pe_sockets P"
  shows "deref_at (dd_bits (rd_pkg r)) i s' = Some (socket_reg P s (of_nat i) pkg)"
    "deref_at (dd_bits (rd_dram r)) i s' = Some (socket_reg P s (of_nat i) dram)"
    "energy_batch P pkg dram blk r s'"
proof -
  let ?S = "pe_sockets P"
  have b: "batch_at 0 (2 * ?S) blk s" "length (dd_bits (rd_pkg r)) = ?S" "length (dd_bits (rd_dram r)) = ?S"
    and ro: "read_ops (pe_topo P) (take (2 * ?S) (block blk s))"
    and e: "\<And>i. i < ?S \<Longrightarrow> dd_bits (rd_pkg r) ! i = Some (blk, i) \<and> dd_bits (rd_dram r) ! i = Some (blk, ?S + i) \<and>
        reads_reg P (block blk s ! i) i pkg \<and> reads_reg P (block blk s ! (?S + i)) i dram"
    using assms(1) by (simp_all add: energy_batch_def)
  have l: "blk < length (blocks s)" "2 * ?S \<le> length (block blk s)" using b(1) by (simp_all add: batch_at_def)
  have bs: "blocks s' ! blk = map (batch_read_op (registers s)) (take (2 * ?S) (block blk s)) @ drop (2 * ?S) (block blk s)"
    using l by (simp add: assms(2) with_reads_def)
  have at: "block blk s' ! i = batch_read_op (registers s) (block blk s ! i)" if "i < 2 * ?S" for i
    using that l by (simp add: bs nth_append)
  have len: "length (blocks s') = length (blocks s)" "length (block blk s') = length (block blk s)"
    using l by (simp_all add: assms(2) with_reads_def)
  show "deref_at (dd_bits (rd_pkg r)) i s' = Some (socket_reg P s (of_nat i) pkg)"
    "deref_at (dd_bits (rd_dram r)) i s' = Some (socket_reg P s (of_nat i) dram)"
    using e [OF assms(3)] assms(3) b(2,3) l len at
    by (simp_all add: deref_at_def deref_dest_def reads_reg_def socket_reg_def)
  have same: "op_isrdmsr (batch_read_op R op) = op_isrdmsr op" "op_cpu (batch_read_op R op) = op_cpu op"
    "batch_read_op R' (batch_read_op R op) = batch_read_op R' op" for R R' op
    by (simp_all add: batch_read_op_def)
  have "reads_reg P (block blk s' ! i) i pkg" "reads_reg P (block blk s' ! (?S + i)) i dram" if "i < ?S" for i
    using e [OF that] that at by (simp_all add: reads_reg_def same)
  moreover have "read_ops (pe_topo P) (take (2 * ?S) (block blk s'))"
    using ro l by (auto simp: bs read_ops_def same)
  moreover have "batch_at 0 (2 * ?S) blk s'"
    using b(1) len by (simp add: batch_at_def assms(2) get_entry_def)
  ultimately show "energy_batch P pkg dram blk r s'"
    using b(2,3) e by (simp add: energy_batch_def)
qed

lemma batch_frame [simp]:
  "batch_at b n blk (s\<lparr>tod_calls := m\<rparr>) = batch_at b n blk s" "batch_at b n blk (s\<lparr>rapl := q, read_init := c\<rparr>) = batch_at b n blk s"
  "batch_at b n blk (s\<lparr>rapl := q\<rparr>) = batch_at b n blk s" "batch_at b n blk (variorum_error_handler e s) = batch_at b n blk s"
  by (simp_all add: batch_at_def get_entry_def)

lemma energy_batch_frame [simp]:
  "energy_batch P pkg dram blk r (s\<lparr>tod_calls := m\<rparr>) = energy_batch P pkg dram blk r s"
  "energy_batch P pkg dram blk r (s\<lparr>rapl := q, read_init := c\<rparr>) = energy_batch P pkg dram blk r s"
  "energy_batch P pkg dram blk r (s\<lparr>rapl := q\<rparr>) = energy_batch P pkg dram blk r s"
  "energy_batch P pkg dram blk r (variorum_error_handler e s) = energy_batch P pkg dram blk r s"
  by (simp_all add: energy_batch_def)

lemma energy_batch_bits:
  "dd_bits (rd_pkg r') = dd_bits (rd_pkg r) \<Longrightarrow> dd_bits (rd_dram r') = dd_bits (rd_dram r) \<Longrightarrow>
    energy_batch P pkg dram blk r' s = energy_batch P pkg dram blk r s"
  by (simp add: energy_batch_def)

text \<open>What read\_rapl\_data does once it has been initialised.\<close>

definition sampled_data :: "nat \<Rightarrow> int \<times> int \<Rightarrow> (nat \<Rightarrow> u64) \<Rightarrow> (nat \<Rightarrow> u64) \<Rightarrow> (nat \<Rightarrow> double) \<Rightarrow> (nat \<Rightarrow> double) \<Rightarrow> rapl_data \<Rightarrow> rapl_data" where
  "sampled_data n now w wd j jd r = r\<lparr>rd_now := now, rd_old_now := rd_now r, rd_elapsed := tv_diff now (rd_now r),
     rd_pkg := (rd_pkg r)\<lparr>dd_old_bits := map w [0..<n], dd_joules := map j [0..<n], dd_old_joules := dd_joules (rd_pkg r)\<rparr>,
     rd_dram := (rd_dram r)\<lparr>dd_old_bits := map wd [0..<n], dd_joules := map jd [0..<n], dd_old_joules := dd_joules (rd_dram r)\<rparr>\<rparr>"

lemma read_steady:
  assumes "rapl_ready P s" "read_init s" "0 < batchfd s" "units_known (pe_sockets P) eu s" "platform_arch 0 s = Some a"
    "rapl s = Some r" "energy_batch P pkg dram blk r s" "sampled (pe_sockets P) eu w (rd_pkg r) s"
    "sampled (pe_sockets P) kd wd (rd_dram r) s" "\<forall>R ops. 0 \<le> fst (drv_ioctl (pe_os P) R ops)"
    "\<forall>i < pe_sockets P. unat (socket_reg P s (of_nat i) pkg) < 2 ^ 32 \<and> unat (socket_reg P s (of_nat i) dram) < 2 ^ 32"
    "now = pe_tod P (tod_calls s)" "s1 = s\<lparr>tod_calls := tod_calls s + 1\<rparr>"
    "s2 = (if d_less (tv_diff now (rd_now r)) (Fin 0) then variorum_error_handler VARIORUM_ERROR_INVAL s1 else s1)"
    "s3 = s2\<lparr>blocks := with_reads blk (2 * pe_sockets P) s2\<rparr>"
  shows "read_rapl_data P msr pkg dram s = Some (0, s3\<lparr>rapl := Some (sampled_data (pe_sockets P) now w wd
      (\<lambda>i. counter_joules (eu i) (socket_reg P s (of_nat i) pkg))
      (\<lambda>i. counter_joules (dram_unit s (eu i)) (socket_reg P s (of_nat i) dram)) r), read_init := True\<rparr>)"
proof -
  let ?S = "pe_sockets P"
  have S: "0 < ?S" using assms(1) by (simp add: rapl_ready_def topo_fits_def topo_ok_def)
  have s2: "rapl_ready P s2" "0 < batchfd s2" "units_known ?S eu s2" "platform_arch 0 s2 = Some a" "registers s2 = registers s"
    "energy_batch P pkg dram blk r s2" "\<And>d i. deref_at d i s2 = deref_at d i s" "dram_unit s2 = dram_unit s"
    using assms(1-7) by (simp_all add: assms(13,14) handler_registers(1) dram_unit_def fun_eq_iff)
  let ?p = "(rd_pkg r)\<lparr>dd_old_bits := map w [0..<?S], dd_old_joules := dd_joules (rd_pkg r)\<rparr>"
  let ?d = "(rd_dram r)\<lparr>dd_old_bits := map wd [0..<?S], dd_old_joules := dd_joules (rd_dram r)\<rparr>"
  have "sampled ?S eu w (rd_pkg r) s2" "sampled ?S kd wd (rd_dram r) s2"
    using assms(8,9) by (simp_all add: sampled_def s2(7))
  then have age: "age_domain (rd_pkg r) s2 = Some ?p" "age_domain (rd_dram r) s2 = Some ?d"
    using age_known by blast+
  have len: "length (dd_joules (rd_pkg r)) = ?S" "length (dd_joules (rd_dram r)) = ?S"
    using assms(8,9) by (simp_all add: sampled_def)
  have at: "batch_at 0 (2 * ?S) blk s2" "read_ops (pe_topo P) (take (2 * ?S) (block blk s2))"
    using s2(6) by (simp_all add: energy_batch_def)
  have dr: "driver_ok (pe_os P)" using assms(1) by (simp add: rapl_ready_def)
  obtain rc t where "read_batch (pe_os P) (pe_topo P) (int 0) s2 = Some (rc, t)" "rc = 0 \<longrightarrow> t = s3"
    "rc = 0 \<longleftrightarrow> 0 \<le> fst (drv_ioctl (pe_os P) (registers s2) (take (2 * ?S) (block blk s2)))"
    using read_batch_kernel [OF dr at(1) _ s2(2) at(2)] S unfolding assms(15) by auto
  then have rb: "call_read_batch P RAPL_DATA s2 = Some (0, s3)"
    using assms(10) s2(1) by (simp add: call_read_batch_def RAPL_DATA_def)
  let ?r = "r\<lparr>rd_now := now, rd_old_now := rd_now r, rd_elapsed := tv_diff now (rd_now r), rd_pkg := ?p, rd_dram := ?d\<rparr>"
  have reg: "socket_reg P s2 so m = socket_reg P s so m" for so m by (simp add: socket_reg_def s2(5))
  note rs = read_sampled [OF s2(6) assms(15)]
  have "joules_loop P msr [0..<?S] ?r s3 = Some (?r\<lparr>
      rd_pkg := (rd_pkg ?r)\<lparr>dd_joules := take 0 (dd_joules (rd_pkg ?r)) @ map (\<lambda>i. counter_joules (eu i) (socket_reg P s (of_nat i) pkg)) [0..<?S]\<rparr>,
      rd_dram := (rd_dram ?r)\<lparr>dd_joules := take 0 (dd_joules (rd_dram ?r)) @ map (\<lambda>i. counter_joules (dram_unit s3 (eu i)) (socket_reg P s (of_nat i) dram)) [0..<?S]\<rparr>\<rparr>, s3)"
  proof (rule joules_loop_known)
    show "\<forall>i < ?S. deref_at (dd_bits (rd_pkg ?r)) i s3 = Some (socket_reg P s (of_nat i) pkg) \<and> unat (socket_reg P s (of_nat i) pkg) < 2 ^ 53"
      "\<forall>i < ?S. deref_at (dd_bits (rd_dram ?r)) i s3 = Some (socket_reg P s (of_nat i) dram) \<and> unat (socket_reg P s (of_nat i) dram) < 2 ^ 53"
      using rs(1,2) assms(11) by (auto simp: reg intro: less_trans)
    show "units_known ?S eu s3" "platform_arch 0 s3 = Some a" using s2(3,4) by (simp_all add: assms(15))
  qed (use len in simp_all)
  moreover have "dram_unit s3 = dram_unit s" using s2(8) by (simp add: assms(15) dram_unit_def fun_eq_iff)
  ultimately have jl: "joules_loop P msr [0..<?S] ?r s3 = Some (sampled_data ?S now w wd
      (\<lambda>i. counter_joules (eu i) (socket_reg P s (of_nat i) pkg))
      (\<lambda>i. counter_joules (dram_unit s (eu i)) (socket_reg P s (of_nat i) dram)) r, s3)"
    by (simp add: sampled_data_def)
  have gt: "gettimeofday P s = (now, s1)" by (simp add: gettimeofday_def assms(12,13))
  show ?thesis
    using assms(2,6) age rb jl len
    by (simp add: read_rapl_data_def gt assms(14) Let_def)
qed

lemma sample_of_sampled: "sampled n k w d s \<Longrightarrow> i < n \<Longrightarrow> sample_of d i s = w i"
  by (simp add: sampled_def sample_of_def)

lemma get_power_steady:
  assumes "energy_ready P eu pkg dram s" "rapl s = Some r" "\<forall>R ops. 0 \<le> fst (drv_ioctl (pe_os P) R ops)"
    "\<forall>i < pe_sockets P. unat (socket_reg P s (of_nat i) pkg) < 2 ^ 32 \<and> unat (socket_reg P s (of_nat i) dram) < 2 ^ 32"
  shows "\<exists>s' r'. rapl_get_power P msr pkg dram s = Some (0, s') \<and> energy_ready P eu pkg dram s' \<and> rapl s' = Some r' \<and>
    registers s' = registers s \<and> rd_now r' = pe_tod P (tod_calls s) \<and> rd_elapsed r' = tv_diff (rd_now r') (rd_now r) \<and>
    (\<forall>i < pe_sockets P. sample_of (rd_pkg r') i s' = socket_reg P s (of_nat i) pkg \<and>
      dd_joules (rd_pkg r') ! i = counter_joules (eu i) (socket_reg P s (of_nat i) pkg) \<and>
      dd_delta_joules (rd_pkg r') ! i = delta_joules (eu i) (eu i) (sample_of (rd_pkg r) i s) (socket_reg P s (of_nat i) pkg) \<and>
      dd_watts (rd_pkg r') ! i = power_of (rd_elapsed r') (dd_delta_joules (rd_pkg r') ! i) \<and>
      sample_of (rd_dram r') i s' = socket_reg P s (of_nat i) dram \<and>
      dd_joules (rd_dram r') ! i = counter_joules (dram_unit s (eu i)) (socket_reg P s (of_nat i) dram) \<and>
      dd_delta_joules (rd_dram r') ! i =
        delta_joules (dram_unit s (eu i)) (eu i) (sample_of (rd_dram r) i s) (socket_reg P s (of_nat i) dram) \<and>
      dd_watts (rd_dram r') ! i = power_of (rd_elapsed r') (dd_delta_joules (rd_dram r') ! i))"
proof -
  let ?S = "pe_sockets P" and ?kd = "\<lambda>i. dram_unit s (eu i)"
  let ?E = "\<lambda>i. socket_reg P s (of_nat i) pkg" and ?D = "\<lambda>i. socket_reg P s (of_nat i) dram"
  have e: "rapl_ready P s" "rapl_init s" "read_init s" "delta_init s" "0 < batchfd s" "units_known ?S eu s"
    using assms(1) by (simp_all add: energy_ready_def)
  obtain a blk w wd where a: "platform_arch 0 s = Some a" and b: "energy_batch P pkg dram blk r s"
    "sampled ?S eu w (rd_pkg r) s" "sampled ?S ?kd wd (rd_dram r) s"
    using assms(1,2) by (auto simp: energy_ready_def)
  define now where "now = pe_tod P (tod_calls s)"
  define s1 where "s1 = s\<lparr>tod_calls := tod_calls s + 1\<rparr>"
  define s2 where "s2 = (if d_less (tv_diff now (rd_now r)) (Fin 0) then variorum_error_handler VARIORUM_ERROR_INVAL s1 else s1)"
  define s3 where "s3 = s2\<lparr>blocks := with_reads blk (2 * ?S) s2\<rparr>"
  define r3 where "r3 = sampled_data ?S now w wd (\<lambda>i. counter_joules (eu i) (?E i)) (\<lambda>i. counter_joules (?kd i) (?D i)) r"
  define s4 where "s4 = s3\<lparr>rapl := Some r3, read_init := True\<rparr>"
  have rd: "read_rapl_data P msr pkg dram s = Some (0, s4)"
    unfolding s4_def r3_def by (rule read_steady [OF e(1,3,5,6) a assms(2) b assms(3,4) now_def s1_def s2_def s3_def])
  have s2: "energy_batch P pkg dram blk r s2" "registers s2 = registers s" "rapl_ready P s2" "units_known ?S eu s2"
    "platform_arch 0 s2 = Some a" "batchfd s2 = batchfd s" "delta_init s2" "rapl_init s2"
    using b(1) e a by (simp_all add: s1_def s2_def handler_registers(1)) (simp_all add: variorum_error_handler_def)
  have regs: "socket_reg P s2 so m = socket_reg P s so m" for so m by (simp add: socket_reg_def s2(2))
  have s4: "rapl_ready P s4" "units_known ?S eu s4" "platform_arch 0 s4 = Some a" "batchfd s4 = batchfd s" "delta_init s4"
    "rapl_init s4" "registers s4 = registers s" "rapl s4 = Some r3" "read_init s4"
    using s2 by (simp_all add: s4_def s3_def)

  have bits: "dd_bits (rd_pkg r3) = dd_bits (rd_pkg r)" "dd_bits (rd_dram r3) = dd_bits (rd_dram r)"
    by (simp_all add: r3_def sampled_data_def)
  note rs = read_sampled [OF s2(1) s3_def, unfolded regs]
  have eb: "energy_batch P pkg dram blk r3 s4"
  proof -
    have "0 < ?S" using e(1) by (simp add: rapl_ready_def topo_fits_def topo_ok_def)
    then have "energy_batch P pkg dram blk r s3" by (rule rs(3))
    then show ?thesis by (simp add: s4_def energy_batch_bits [OF bits])
  qed
  have sp: "sampled ?S eu ?E (rd_pkg r3) s4"
    using b(2) rs(1) assms(4) by (simp add: sampled_def r3_def sampled_data_def s4_def)
  have sd: "sampled ?S ?kd ?D (rd_dram r3) s4"
    using b(3) rs(2) assms(4) by (simp add: sampled_def r3_def sampled_data_def s4_def)
  obtain r4 where r4: "delta_loop P msr [0..<?S] r3 s4 = Some (r4, s4)"
    "sampled ?S eu ?E (rd_pkg r4) s4" "sampled ?S ?kd ?D (rd_dram r4) s4"
    "dd_bits (rd_pkg r4) = dd_bits (rd_pkg r3)" "dd_bits (rd_dram r4) = dd_bits (rd_dram r3)"
    "rd_elapsed r4 = rd_elapsed r3" "rd_now r4 = rd_now r3"
    "dd_joules (rd_pkg r4) = dd_joules (rd_pkg r3)" "dd_joules (rd_dram r4) = dd_joules (rd_dram r3)"
    "dd_delta_joules (rd_pkg r4) = map (\<lambda>i. delta_joules (eu i) (eu i) (dd_old_bits (rd_pkg r3) ! i) (?E i)) [0..<?S]"
    "dd_delta_joules (rd_dram r4) = map (\<lambda>i. delta_joules (?kd i) (eu i) (dd_old_bits (rd_dram r3) ! i) (?D i)) [0..<?S]"
    "dd_watts (rd_pkg r4) = map (\<lambda>i. power_of (rd_elapsed r3) (delta_joules (eu i) (eu i) (dd_old_bits (rd_pkg r3) ! i) (?E i))) [0..<?S]"
    "dd_watts (rd_dram r4) = map (\<lambda>i. power_of (rd_elapsed r3) (delta_joules (?kd i) (eu i) (dd_old_bits (rd_dram r3) ! i) (?D i))) [0..<?S]"
    using delta_loop_known [OF sp sd s4(2) refl, where P = P and msr = msr and i = 0] by auto
  let ?s = "s4\<lparr>rapl := Some r4\<rparr>"
  have len: "length (dd_joules (rd_pkg r3)) = ?S" by (simp add: r3_def sampled_data_def)
  have gp: "rapl_get_power P msr pkg dram s = Some (0, ?s)"
    using e(1,2) rd s4(5,8) r4(1) len by (simp add: rapl_get_power_def rapl_storage_def delta_rapl_data_def P_INTEL_CPU_IDX_def)
  have "dram_unit ?s = dram_unit s" using s4(3) a by (simp add: dram_unit_def fun_eq_iff)
  then have "sampled ?S eu ?E (rd_pkg r4) ?s" "sampled ?S (\<lambda>i. dram_unit ?s (eu i)) ?D (rd_dram r4) ?s"
    using r4(2,3) by (simp_all add: sampled_def)
  then have er: "energy_ready P eu pkg dram ?s"
    using s4 e(5) eb energy_batch_bits [OF r4(4,5), of P pkg dram blk s4]
    unfolding energy_ready_def by auto
  have fs: "sample_of d i ?s = sample_of d i s4" for d i by (simp add: sample_of_def)
  have sm: "sample_of (rd_pkg r4) i ?s = ?E i" "sample_of (rd_dram r4) i ?s = ?D i" if "i < ?S" for i
    unfolding fs by (rule sample_of_sampled [OF r4(2) that], rule sample_of_sampled [OF r4(3) that])
  have old: "dd_old_bits (rd_pkg r3) ! i = sample_of (rd_pkg r) i s" "dd_old_bits (rd_dram r3) ! i = sample_of (rd_dram r) i s"
    if "i < ?S" for i
    unfolding sample_of_sampled [OF b(2) that] sample_of_sampled [OF b(3) that] using that
    by (simp_all add: r3_def sampled_data_def)
  have fin: "rapl ?s = Some r4" "registers ?s = registers s" "rd_now r4 = pe_tod P (tod_calls s)"
    "rd_elapsed r4 = tv_diff (rd_now r4) (rd_now r)"
    using s4(7) r4(6,7) by (simp_all add: r3_def sampled_data_def now_def)
  have j3: "dd_joules (rd_pkg r3) ! i = counter_joules (eu i) (?E i)" "dd_joules (rd_dram r3) ! i = counter_joules (?kd i) (?D i)"
    if "i < ?S" for i using that by (simp_all add: r3_def sampled_data_def)
  have per: "dd_joules (rd_pkg r4) ! i = counter_joules (eu i) (?E i)"
    "dd_joules (rd_dram r4) ! i = counter_joules (?kd i) (?D i)"
    "dd_delta_joules (rd_pkg r4) ! i = delta_joules (eu i) (eu i) (sample_of (rd_pkg r) i s) (?E i)"
    "dd_delta_joules (rd_dram r4) ! i = delta_joules (?kd i) (eu i) (sample_of (rd_dram r) i s) (?D i)"
    "dd_watts (rd_pkg r4) ! i = power_of (rd_elapsed r4) (delta_joules (eu i) (eu i) (sample_of (rd_pkg r) i s) (?E i))"
    "dd_watts (rd_dram r4) ! i = power_of (rd_elapsed r4) (delta_joules (?kd i) (eu i) (sample_of (rd_dram r) i s) (?D i))"
    if "i < ?S" for i
    using that old [OF that] j3 [OF that] by (simp_all add: r4(6,8-13))
  show ?thesis
    by (rule exI [of _ ?s], rule exI [of _ r4], intro conjI allI impI, rule gp, rule er, (rule fin)+)
      (simp_all only: sm(1,2) per)
qed

section \<open>An example\<close>

definition energy_op :: "u16 \<Rightarrow> u32 \<Rightarrow> u64 \<Rightarrow> msr_batch_op" where
  "energy_op cpu m v = zero_op\<lparr>op_cpu := cpu, op_isrdmsr := 1, op_msr := m, op_msrdata := v\<rparr>"

definition example_domain :: "nat \<Rightarrow> nat \<Rightarrow> u64 \<Rightarrow> domain_data" where
  "example_domain k i old = \<lparr>dd_bits = [Some (0, i), Some (0, i + 1)], dd_old_bits = [0, 0],
     dd_joules = [counter_joules k old, counter_joules k old], dd_old_joules = [counter_joules k 0, counter_joules k 0],
     dd_delta_joules = [Fin 0, Fin 0], dd_delta_bits = [0, 0], dd_watts = [Fin 0, Fin 0]\<rparr>"

text \<open>A second after a sample in which both counters of both sockets had the value old.\<close>

definition energy_example :: "u64 \<Rightarrow> u64 \<Rightarrow> rapl_state \<Rightarrow> rapl_state" where
  "energy_example old new s = (known_units s)\<lparr>batchfd := 7, registers := (\<lambda>_ _. new),
     batches := Some [\<lparr>be_numops = 4, be_ops = Some 0, be_size = 4\<rparr>],
     blocks := [[energy_op 0 0x611 old, energy_op 8 0x611 old, energy_op 0 0x619 old, energy_op 8 0x619 old]],
     rapl_init := True, read_init := True, delta_init := True, tod_calls := 1,
     rapl := Some \<lparr>rd_now = (0, 0), rd_old_now = (0, 0), rd_elapsed = Fin 0,
       rd_pkg = example_domain 14 0 old, rd_dram = example_domain 16 2 old\<rparr>\<rparr>"

lemma less_2_cases: "(i :: nat) < 2 \<longleftrightarrow> i = 0 \<or> i = 1"
  by auto

lemma energy_example_ready:
  assumes "unat old < 2 ^ 32"
  shows "\<exists>s. energy_ready (example_power example_sys) (\<lambda>_. 14) 0x611 0x619 (energy_example old new s) \<and>
    platform_arch 0 (energy_example old new s) = Some 79"
proof -
  let ?P = "example_power example_sys"
  have v: "intel_machine example_sys M_06_4F" "sys_hw example_sys = two_socket_machine" "driver_ok (sys_os example_sys)"
    using example_systems [of example_sys] by simp_all
  obtain s :: rapl_state where s: "rapl_ready ?P s" "platform_arch 0 s = Some (FM M_06_4F)" using example_entered [OF v] by blast
  let ?s = "energy_example old new s"
  have T: "pe_topo ?P = \<lparr>nsockets = 2, ncores = 16, nthreads = 32\<rparr>"
    by (simp add: example_power_def example_sys_def machine_topo_def topo_of_def fill_platform_def two_socket_machine_def
        unsigned_of_int_def)
  have "rapl_ready ?P ?s"
    using s(1) by (simp add: energy_example_def known_units_def rapl_ready_def msr_ready_def ready_upto_def core_ok_def fd_on_cpu_def)
  moreover have arch: "platform_arch 0 ?s = Some 79"
    using s(2) by (simp add: energy_example_def known_units_def platform_arch_def split: if_splits)
  moreover have "units_known (pe_sockets ?P) (\<lambda>_. 14) ?s"
  proof -
    have "socket_units (of_nat i) 3 14 10 ?s" if "i < 2" for i
      using that by (auto simp: socket_units_def energy_example_def known_units_def less_2_cases)
    then show ?thesis unfolding units_known_def T by auto
  qed
  moreover have "energy_batch ?P 0x611 0x619 0 (the (rapl ?s)) ?s"
    by (auto simp: energy_batch_def T energy_example_def batch_at_def get_entry_def read_ops_def energy_op_def zero_op_def
        example_domain_def less_2_cases reads_reg_def batch_read_op_def devidx_def)
  moreover have "sampled (pe_sockets ?P) (\<lambda>_. 14) (\<lambda>_. old) (rd_pkg (the (rapl ?s))) ?s"
    "sampled (pe_sockets ?P) (\<lambda>i. dram_unit ?s 14) (\<lambda>_. old) (rd_dram (the (rapl ?s))) ?s"
    using assms arch by (auto simp: sampled_def T energy_example_def example_domain_def less_2_cases deref_at_def deref_dest_def
        energy_op_def zero_op_def dram_unit_def)
  moreover have "rapl_init ?s" "read_init ?s" "delta_init ?s" "0 < batchfd ?s" "rapl ?s = Some (the (rapl ?s))"
    by (simp_all add: energy_example_def)
  ultimately show ?thesis unfolding energy_ready_def by blast
qed

end
