(* ===== verification/Rapl_Energy_Props.thy ===== *)
theory Rapl_Energy_Props imports Rapl_Energy_Facts begin

text \<open>
  The properties of the energy measurement, over the steady state of Rapl_Energy_Facts: what a
  sample reports, that the reported differences add up to the energy used, and what happens when
  a 32-bit counter wraps around.
\<close>

lemma energy_registers [simp]:
  assumes "energy_ready P eu pkg dram s"
  shows "energy_ready P eu pkg dram (s\<lparr>registers := R\<rparr>)"
proof -
  let ?s = "s\<lparr>registers := R\<rparr>"
  have d: "deref_at d i ?s = deref_at d i s" for d i
    by (simp add: deref_at_def) (simp add: deref_dest_def split: option.split)
  have u: "units_known n eu ?s = units_known n eu s" for n by (simp add: units_known_def) (simp add: socket_units_def)
  have p: "platform_arch i ?s = platform_arch i s" "dram_unit ?s = dram_unit s" for i
    by (simp_all add: platform_arch_def dram_unit_def fun_eq_iff)
  have b: "energy_batch P pkg dram blk r ?s = energy_batch P pkg dram blk r s" for blk r
    by (simp add: energy_batch_def batch_at_def get_entry_def)
  have "sampled n k w dom ?s = sampled n k w dom s" for n k w dom by (simp add: sampled_def d)
  then show ?thesis using assms by (simp add: energy_ready_def u p b)
qed

lemma sample_of_registers [simp]: "sample_of d i (s\<lparr>registers := R\<rparr>) = sample_of d i s"
  by (simp add: sample_of_def deref_at_def) (simp add: deref_dest_def split: option.split)

lemma example_batch_works: "\<forall>R ops. 0 \<le> fst (drv_ioctl (pe_os (example_power example_sys)) R ops)"
  by (simp add: example_power_def example_sys_def good_env_def)

lemma example_registers: "socket_reg (example_power example_sys) (energy_example old new s) so m = new"
  by (simp add: socket_reg_def energy_example_def)

lemma example_sockets: "pe_sockets (example_power example_sys) = 2"
  by (simp add: example_power_def example_sys_def machine_topo_def topo_of_def fill_platform_def two_socket_machine_def
      unsigned_of_int_def)

lemma example_rapl: "rapl (energy_example old new s) = Some \<lparr>rd_now = (0, 0), rd_old_now = (0, 0), rd_elapsed = Fin 0,
     rd_pkg = example_domain 14 0 old, rd_dram = example_domain 16 2 old\<rparr>"
  by (simp add: energy_example_def)

lemma example_sample:
  "i < 2 \<Longrightarrow> sample_of (example_domain 14 0 old) i (energy_example old new s) = old"
  "i < 2 \<Longrightarrow> sample_of (example_domain 16 2 old) i (energy_example old new s) = old"
  by (auto simp: sample_of_def less_2_cases example_domain_def energy_example_def deref_at_def deref_dest_def energy_op_def zero_op_def)

lemma example_elapsed: "tv_diff (pe_tod (example_power V) (tod_calls (energy_example old new s))) (0, 0) = Fin 1"
proof -
  have "fl (of_int 1) = Fin (of_int 1)" by (rule fl_representable, rule representable_int) simp
  then have f: "fl 1 = Fin 1" "fl 0 = Fin 0" by (simp_all add: fl_def [of 0])
  show ?thesis by (simp add: tv_diff_def example_power_def energy_example_def d_of_int_def f d_div_def)
qed

section \<open>Properties\<close>

text \<open>
  C7: what a measurement reports. Once everything is set up, get_power returns 0 and stays
  set up; every socket's energy is its current counter in the processor's unit (for DRAM the
  fixed unit on models 63 and 79), and, as long as the counters have not wrapped around, the power is
  the exact difference of the two counters in joules, divided by the time since the previous
  call.
\<close>

theorem get_power_measures:
  assumes "energy_ready P eu pkg dram s" "rapl s = Some r" "\<forall>R ops. 0 \<le> fst (drv_ioctl (pe_os P) R ops)"
    "\<forall>i < pe_sockets P. unat (socket_reg P s (of_nat i) pkg) < 2 ^ 32 \<and> unat (socket_reg P s (of_nat i) dram) < 2 ^ 32"
    "\<forall>i < pe_sockets P. sample_of (rd_pkg r) i s \<le> socket_reg P s (of_nat i) pkg \<and>
       sample_of (rd_dram r) i s \<le> socket_reg P s (of_nat i) dram"
    "d_less (Fin 0) (tv_diff (pe_tod P (tod_calls s)) (rd_now r))"
  shows "\<exists>s' r'. rapl_get_power P msr pkg dram s = Some (0, s') \<and> energy_ready P eu pkg dram s' \<and> rapl s' = Some r' \<and>
    (\<forall>i < pe_sockets P.
      dd_joules (rd_pkg r') ! i = Fin (of_int (uint (socket_reg P s (of_nat i) pkg)) / 2 ^ eu i) \<and>
      dd_watts (rd_pkg r') ! i =
        d_div (Fin (of_int (uint (socket_reg P s (of_nat i) pkg) - uint (sample_of (rd_pkg r) i s)) / 2 ^ eu i))
          (tv_diff (pe_tod P (tod_calls s)) (rd_now r)) \<and>
      dd_joules (rd_dram r') ! i = Fin (of_int (uint (socket_reg P s (of_nat i) dram)) / 2 ^ dram_unit s (eu i)) \<and>
      dd_watts (rd_dram r') ! i =
        d_div (Fin (of_int (uint (socket_reg P s (of_nat i) dram) - uint (sample_of (rd_dram r) i s)) / 2 ^ dram_unit s (eu i)))
          (tv_diff (pe_tod P (tod_calls s)) (rd_now r)))"
proof -
  have d: "delta_joules k e old new = Fin (of_int (uint new - uint old) / 2 ^ k)" if "old \<le> new" for k e old new
    using that by (simp add: delta_joules_def word_le_nat_alt)
  obtain s' r' where s': "rapl_get_power P msr pkg dram s = Some (0, s')" "energy_ready P eu pkg dram s'" "rapl s' = Some r'"
    "rd_now r' = pe_tod P (tod_calls s)" "rd_elapsed r' = tv_diff (rd_now r') (rd_now r)"
    and v: "\<forall>i < pe_sockets P. dd_joules (rd_pkg r') ! i = counter_joules (eu i) (socket_reg P s (of_nat i) pkg) \<and>
      dd_delta_joules (rd_pkg r') ! i = delta_joules (eu i) (eu i) (sample_of (rd_pkg r) i s) (socket_reg P s (of_nat i) pkg) \<and>
      dd_watts (rd_pkg r') ! i = power_of (rd_elapsed r') (dd_delta_joules (rd_pkg r') ! i) \<and>
      dd_joules (rd_dram r') ! i = counter_joules (dram_unit s (eu i)) (socket_reg P s (of_nat i) dram) \<and>
      dd_delta_joules (rd_dram r') ! i =
        delta_joules (dram_unit s (eu i)) (eu i) (sample_of (rd_dram r) i s) (socket_reg P s (of_nat i) dram) \<and>
      dd_watts (rd_dram r') ! i = power_of (rd_elapsed r') (dd_delta_joules (rd_dram r') ! i)"
    using get_power_steady [OF assms(1-4), of msr] by blast
  have "power_of (rd_elapsed r') x = d_div x (tv_diff (pe_tod P (tod_calls s)) (rd_now r))" for x
    using assms(6) s'(4,5) by (simp add: power_of_def)
  then show ?thesis using s'(1-3) v assms(5) d
    by (intro exI [of _ s'] exI [of _ r']) (simp add: counter_joules_def)
qed

theorem get_power_measures_witness:
  "\<exists>P (s :: rapl_state) s' r'. rapl_get_power P 0x606 0x611 0x619 s = Some (0, s') \<and> rapl s' = Some r' \<and>
     dd_joules (rd_pkg r') ! 1 = Fin 3 \<and> dd_watts (rd_pkg r') ! 1 = d_div (Fin 2) (Fin 1)"
proof -
  let ?P = "example_power example_sys" and ?old = "16384 :: u64" and ?new = "49152 :: u64"
  obtain s where s: "energy_ready ?P (\<lambda>_. 14) 0x611 0x619 (energy_example ?old ?new s)"
    using energy_example_ready [of ?old ?new] by auto
  from get_power_measures [OF s example_rapl example_batch_works, of "0x606"]
  obtain s' r' where "rapl_get_power ?P 0x606 0x611 0x619 (energy_example ?old ?new s) = Some (0, s')" "rapl s' = Some r'"
    "dd_joules (rd_pkg r') ! 1 = Fin (of_int (uint ?new) / 2 ^ 14)"
    "dd_watts (rd_pkg r') ! 1 = d_div (Fin (of_int (uint ?new - uint ?old) / 2 ^ 14)) (Fin 1)"
    by (auto simp: example_registers example_sockets example_sample example_elapsed)
  then show ?thesis by auto
qed

text \<open>
  C35: in a measurement after set-up, for every socket and for the package and the DRAM counter each on its own: a counter
  that is below its last sample, and so has wrapped around, loses a unit. The reported difference is one unit smaller
  than the energy that was used, since the code adds UINT_MAX for the 2^32 units of a round; and for DRAM it is
  in the package's unit, although the DRAM energy itself, and the difference when nothing wrapped, are in the DRAM unit, which is another one on the models
  with a fixed DRAM unit. A counter that has not wrapped gives the exact difference whatever the other one did. (The counters are 32 bits wide
  and the batch ioctl works; a counter that wraps past its last sample within one interval is not noticed by the code.)
\<close>

theorem wrapped_difference:
  assumes "energy_ready P eu pkg dram s" "rapl s = Some r" "\<forall>R ops. 0 \<le> fst (drv_ioctl (pe_os P) R ops)"
    "\<forall>i < pe_sockets P. unat (socket_reg P s (of_nat i) pkg) < 2 ^ 32 \<and> unat (socket_reg P s (of_nat i) dram) < 2 ^ 32"
  shows "\<exists>s' r'. rapl_get_power P msr pkg dram s = Some (0, s') \<and> rapl s' = Some r' \<and>
    (\<forall>i < pe_sockets P.
      let new = socket_reg P s (of_nat i) pkg; old = sample_of (rd_pkg r) i s;
        dram_new = socket_reg P s (of_nat i) dram; dram_old = sample_of (rd_dram r) i s
      in (new < old \<longrightarrow> dd_delta_joules (rd_pkg r') ! i = Fin (of_int (uint new + 2 ^ 32 - uint old - 1) / 2 ^ eu i)) \<and>
        (old \<le> new \<longrightarrow> dd_delta_joules (rd_pkg r') ! i = Fin (of_int (uint new - uint old) / 2 ^ eu i)) \<and>
        dd_joules (rd_dram r') ! i = Fin (of_int (uint dram_new) / 2 ^ dram_unit s (eu i)) \<and>
        (dram_new < dram_old \<longrightarrow> dd_delta_joules (rd_dram r') ! i = Fin (of_int (uint dram_new + 2 ^ 32 - uint dram_old - 1) / 2 ^ eu i)) \<and>
        (dram_old \<le> dram_new \<longrightarrow> dd_delta_joules (rd_dram r') ! i = Fin (of_int (uint dram_new - uint dram_old) / 2 ^ dram_unit s (eu i))))"
proof -
  have w: "delta_joules k e old new = Fin (of_int (uint new + 2 ^ 32 - uint old - 1) / 2 ^ e)" if "new < old" for k e old new
    using that by (simp add: delta_joules_def word_less_nat_alt algebra_simps)
  have d: "delta_joules k e old new = Fin (of_int (uint new - uint old) / 2 ^ k)" if "old \<le> new" for k e old new
    using that by (simp add: delta_joules_def word_le_nat_alt)
  obtain s' r' where s': "rapl_get_power P msr pkg dram s = Some (0, s')" "rapl s' = Some r'"
    and v: "\<forall>i < pe_sockets P. dd_joules (rd_dram r') ! i = counter_joules (dram_unit s (eu i)) (socket_reg P s (of_nat i) dram) \<and>
      dd_delta_joules (rd_pkg r') ! i = delta_joules (eu i) (eu i) (sample_of (rd_pkg r) i s) (socket_reg P s (of_nat i) pkg) \<and>
      dd_delta_joules (rd_dram r') ! i =
        delta_joules (dram_unit s (eu i)) (eu i) (sample_of (rd_dram r) i s) (socket_reg P s (of_nat i) dram)"
    using get_power_steady [OF assms, of msr] by blast
  then show ?thesis unfolding Let_def by (intro exI [of _ s'] exI [of _ r']) (simp add: w d counter_joules_def)
qed

text \<open>Only the package counter wraps.\<close>

theorem wrapped_difference_witness:
  "\<exists>P (s :: rapl_state) s' r'. rapl_get_power P 0x606 0x611 0x619 s = Some (0, s') \<and> rapl s' = Some r' \<and>
     dd_delta_joules (rd_pkg r') ! 1 = Fin (31 / 2 ^ 14) \<and> dd_delta_joules (rd_dram r') ! 1 = Fin (8 / 2 ^ 16)"
proof -
  let ?P = "example_power example_sys" and ?old = "0xFFFFFFF0 :: u64" and ?new = "0x10 :: u64"
  obtain s where s: "energy_ready ?P (\<lambda>_. 14) 0x611 0x619 (energy_example ?old ?new s)" "platform_arch 0 (energy_example ?old ?new s) = Some 79"
    using energy_example_ready [of ?old ?new] by auto
  let ?s = "(energy_example ?old ?new s)\<lparr>registers := \<lambda>_ m. if m = 0x611 then ?new else 0xFFFFFFF8\<rparr>"
  have f: "energy_ready ?P (\<lambda>_. 14) 0x611 0x619 ?s" "rapl ?s = rapl (energy_example ?old ?new s)" using s(1) by simp_all
  have u: "dram_unit ?s 14 = 16" using s(2) by (auto simp: dram_unit_def platform_arch_def split: if_splits)
  have r: "\<forall>i < pe_sockets ?P. unat (socket_reg ?P ?s (of_nat i) 0x611) < 2 ^ 32 \<and> unat (socket_reg ?P ?s (of_nat i) 0x619) < 2 ^ 32"
    by (simp add: socket_reg_def)
  have old: "sample_of d i ?s = sample_of d i (energy_example ?old ?new s)" for d i by (simp add: Rapl_Energy_Facts.sample_of_def deref_at_def deref_dest_def cong: option.case_cong if_cong)
  from wrapped_difference [OF f(1) _ example_batch_works r, of _ "0x606", unfolded f(2), OF example_rapl]
  obtain s' r' where "rapl_get_power ?P 0x606 0x611 0x619 ?s = Some (0, s')" "rapl s' = Some r'"
    "dd_delta_joules (rd_pkg r') ! 1 = Fin (of_int (uint ?new + 2 ^ 32 - uint ?old - 1) / 2 ^ 14)"
    "dd_delta_joules (rd_dram r') ! 1 = Fin (of_int (uint (0xFFFFFFF8 :: u64) - uint ?old) / 2 ^ 16)"
    by (auto simp: socket_reg_def example_sockets example_sample u old Let_def)
  then show ?thesis by (intro exI [of _ ?P] exI [of _ ?s] exI [of _ s'] exI [of _ r']) simp
qed

text \<open>A run: before every call the hardware has moved the counters on.\<close>

fun sample_run ::
  "power_env \<Rightarrow> u64 \<Rightarrow> u64 \<Rightarrow> u64 \<Rightarrow> regs list \<Rightarrow> 'a rapl_state_scheme \<Rightarrow> (rapl_data list \<times> 'a rapl_state_scheme) option" where
  "sample_run P msr pkg dram [] s = Some ([], s)"
| "sample_run P msr pkg dram (R # Rs) s = do {
     (_, s) \<leftarrow> rapl_get_power P msr pkg dram (s\<lparr>registers := R\<rparr>);
     r \<leftarrow> rapl s;
     (rs, s) \<leftarrow> sample_run P msr pkg dram Rs s;
     Some (r # rs, s)
   }"

definition counter_of :: "power_env \<Rightarrow> nat \<Rightarrow> u64 \<Rightarrow> regs \<Rightarrow> u64" where
  "counter_of P i msr R = R (int (unat (devidx (pe_topo P) (of_nat i) 0 0))) msr"

fun joules_of :: "double \<Rightarrow> rat" where
  "joules_of (Fin x) = x"
| "joules_of x = 0"

lemma sample_run_sum:
  assumes "energy_ready P eu pkg dram s" "rapl s = Some r" "\<forall>R ops. 0 \<le> fst (drv_ioctl (pe_os P) R ops)"
    "\<forall>R \<in> set Rs. \<forall>i < pe_sockets P. unat (counter_of P i pkg R) < 2 ^ 32 \<and> unat (counter_of P i dram R) < 2 ^ 32"
    "\<forall>i < pe_sockets P. sorted (sample_of (rd_pkg r) i s # map (counter_of P i pkg) Rs)"
  shows "\<exists>rs s'. sample_run P msr pkg dram Rs s = Some (rs, s') \<and> energy_ready P eu pkg dram s' \<and> length rs = length Rs \<and>
    (\<forall>i < pe_sockets P. (\<Sum>r \<leftarrow> rs. joules_of (dd_delta_joules (rd_pkg r) ! i)) =
      of_int (uint (last (sample_of (rd_pkg r) i s # map (counter_of P i pkg) Rs)) - uint (sample_of (rd_pkg r) i s)) / 2 ^ eu i)"
  using assms
proof (induction Rs arbitrary: s r)
  case (Cons R Rs)
  let ?s = "s\<lparr>registers := R\<rparr>"
  have c: "socket_reg P ?s (of_nat i) m = counter_of P i m R" for i m by (simp add: socket_reg_def counter_of_def)
  have e: "energy_ready P eu pkg dram ?s" "rapl ?s = Some r" using Cons.prems(1,2) by simp_all
  have b: "\<forall>i < pe_sockets P. unat (socket_reg P ?s (of_nat i) pkg) < 2 ^ 32 \<and> unat (socket_reg P ?s (of_nat i) dram) < 2 ^ 32"
    using Cons.prems(4) by (simp add: c)
  obtain s1 r1 where s1: "rapl_get_power P msr pkg dram ?s = Some (0, s1)" "energy_ready P eu pkg dram s1" "rapl s1 = Some r1"
    and v: "\<forall>i < pe_sockets P. sample_of (rd_pkg r1) i s1 = socket_reg P ?s (of_nat i) pkg \<and>
      dd_delta_joules (rd_pkg r1) ! i = delta_joules (eu i) (eu i) (sample_of (rd_pkg r) i ?s) (socket_reg P ?s (of_nat i) pkg)"
    using get_power_steady [OF e Cons.prems(3) b, of msr] by blast
  have v1: "sample_of (rd_pkg r1) i s1 = counter_of P i pkg R"
    "joules_of (dd_delta_joules (rd_pkg r1) ! i) = of_int (uint (counter_of P i pkg R) - uint (sample_of (rd_pkg r) i s)) / 2 ^ eu i"
    if "i < pe_sockets P" for i
    using v that Cons.prems(5) by (auto simp: c delta_joules_def word_le_nat_alt)
  have "\<forall>i < pe_sockets P. sorted (sample_of (rd_pkg r1) i s1 # map (counter_of P i pkg) Rs)"
    using Cons.prems(5) v1(1) by simp
  then obtain rs s' where rs: "sample_run P msr pkg dram Rs s1 = Some (rs, s')" "energy_ready P eu pkg dram s'" "length rs = length Rs"
    "\<forall>i < pe_sockets P. (\<Sum>r \<leftarrow> rs. joules_of (dd_delta_joules (rd_pkg r) ! i)) =
      of_int (uint (last (sample_of (rd_pkg r1) i s1 # map (counter_of P i pkg) Rs)) - uint (sample_of (rd_pkg r1) i s1)) / 2 ^ eu i"
    using Cons.IH [OF s1(2,3) Cons.prems(3)] Cons.prems(4) by auto
  have "(\<Sum>r \<leftarrow> r1 # rs. joules_of (dd_delta_joules (rd_pkg r) ! i)) =
      of_int (uint (last (sample_of (rd_pkg r) i s # map (counter_of P i pkg) (R # Rs))) - uint (sample_of (rd_pkg r) i s)) / 2 ^ eu i"
    if "i < pe_sockets P" for i
    using rs(4) that v1 [OF that] by (simp add: diff_divide_distrib)
  then show ?case using s1(1,3) rs(1-3)
    by (intro exI [of _ "r1 # rs"] exI [of _ s']) simp
qed simp

text \<open>
  C2: the reported energies add up. Over any run of measurements between which the counters only
  grow, none of the calls goes wrong and the sum of the differences the calls report for a
  socket is exactly the energy used from the first sample to the last: no unit is lost or counted
  twice, however the run is cut into calls.
\<close>

theorem energy_adds_up:
  assumes "energy_ready P eu pkg dram s" "rapl s = Some r" "\<forall>R ops. 0 \<le> fst (drv_ioctl (pe_os P) R ops)"
    "\<forall>R \<in> set Rs. \<forall>i < pe_sockets P. unat (counter_of P i pkg R) < 2 ^ 32 \<and> unat (counter_of P i dram R) < 2 ^ 32"
    "\<forall>i < pe_sockets P. sorted (sample_of (rd_pkg r) i s # map (counter_of P i pkg) Rs)" "Rs \<noteq> []"
  shows "\<exists>rs s'. sample_run P msr pkg dram Rs s = Some (rs, s') \<and> length rs = length Rs \<and>
    (\<forall>i < pe_sockets P. (\<Sum>r \<leftarrow> rs. joules_of (dd_delta_joules (rd_pkg r) ! i)) =
      of_int (uint (counter_of P i pkg (last Rs)) - uint (sample_of (rd_pkg r) i s)) / 2 ^ eu i)"
proof -
  have "last (x # map (counter_of P i pkg) Rs) = counter_of P i pkg (last Rs)" for x i
    using assms(6) by (simp add: last_map)
  then show ?thesis using sample_run_sum [OF assms(1-5), of msr] by auto
qed

theorem energy_adds_up_witness:
  "\<exists>P (s :: rapl_state) rs s'. sample_run P 0x606 0x611 0x619 [\<lambda>_ _. 40000, \<lambda>_ _. 65536] s = Some (rs, s') \<and>
     (\<Sum>r \<leftarrow> rs. joules_of (dd_delta_joules (rd_pkg r) ! 1)) = 3"
proof -
  let ?P = "example_power example_sys" and ?old = "16384 :: u64" and ?Rs = "[\<lambda>_ _. 40000, \<lambda>_ _. 65536] :: regs list"
  obtain s where s: "energy_ready ?P (\<lambda>_. 14) 0x611 0x619 (energy_example ?old 0 s)"
    using energy_example_ready [of ?old 0] by auto
  have c: "\<forall>R \<in> set ?Rs. \<forall>i < pe_sockets ?P. unat (counter_of ?P i 0x611 R) < 2 ^ 32 \<and> unat (counter_of ?P i 0x619 R) < 2 ^ 32"
    by (simp add: counter_of_def)
  have o: "\<forall>i < pe_sockets ?P. sorted (sample_of (example_domain 14 0 ?old) i (energy_example ?old 0 s) # map (counter_of ?P i 0x611) ?Rs)"
    by (simp add: counter_of_def example_sockets example_sample)
  have ne: "?Rs \<noteq> []" by simp
  obtain rs s' where rs: "sample_run ?P 0x606 0x611 0x619 ?Rs (energy_example ?old 0 s) = Some (rs, s')"
    and sum: "\<forall>i < pe_sockets ?P. (\<Sum>r \<leftarrow> rs. joules_of (dd_delta_joules (rd_pkg r) ! i)) =
      of_int (uint (counter_of ?P i 0x611 (last ?Rs)) - uint (sample_of (example_domain 14 0 ?old) i (energy_example ?old 0 s))) / 2 ^ 14"
    using energy_adds_up [OF s example_rapl example_batch_works c _ ne, of "0x606"] o by auto
  have "(\<Sum>r \<leftarrow> rs. joules_of (dd_delta_joules (rd_pkg r) ! 1)) = 3"
    using sum [rule_format, of 1] by (simp add: example_sockets example_sample counter_of_def)
  then show ?thesis using rs by blast
qed

end
