(* ===== verification/Rapl_Print.thy ===== *)
theory Rapl_Print imports Rapl_Energy Timers begin

text \<open>
  The functions of intel_power_features.c that report: tables on a stream and JSON. A line is
  the list of the arguments of its fprintf, for the long versions after the text of the format; the
  build without libjustify is modelled. Each short version prints its header in its first call
  only.
\<close>

section \<open>Output\<close>

definition say :: "line \<Rightarrow> 'a rapl_state_scheme \<Rightarrow> 'a rapl_state_scheme" where
  "say l s = s\<lparr>printed := printed s @ [l]\<rparr>"

text \<open>The header of a table, unless the function's flag says that it has been printed.\<close>

definition header_once :: "static_fn \<Rightarrow> string list \<Rightarrow> 'a rapl_state_scheme \<Rightarrow> 'a rapl_state_scheme" where
  "header_once f names s = (if f \<in> inited s then s else say (map FS names) (s\<lparr>inited := insert f (inited s)\<rparr>))"

fun for_sockets :: "(nat \<Rightarrow> 's \<Rightarrow> 's option) \<Rightarrow> nat list \<Rightarrow> 's \<Rightarrow> 's option" where
  "for_sockets body [] s = Some s"
| "for_sockets body (i # is) s = do {
     s \<leftarrow> body i s;
     for_sockets body is s
   }"

section \<open>Units, information, limits\<close>

definition unit_line :: "power_env \<Rightarrow> string \<Rightarrow> u64 \<Rightarrow> nat \<Rightarrow> rapl_units \<Rightarrow> line" where
  "unit_line P name msr i u = [FS name, FX msr, FS (pe_host P), FI (int i), FX (ru_msr_rapl_power_unit u), FF (ru_watts u),
     FF (d_div (Fin 1) (ru_joules u)), FF (d_div (Fin 1) (ru_seconds u))]"

definition print_rapl_power_unit :: "power_env \<Rightarrow> u64 \<Rightarrow> 'a rapl_state_scheme \<Rightarrow> 'a rapl_state_scheme option" where
  "print_rapl_power_unit P msr s = do {
     (T, s) \<leftarrow> get_topo (pe_hw P) P_INTEL_CPU_IDX s;
     (us, s) \<leftarrow> get_rapl_power_unit P msr s;
     let s = say (map FS [''_RAPL_POWER_UNITS'', ''Offset'', ''Host'', ''Socket'', ''Bits'', ''PowerUnit_W'', ''EnergyUnit_J'', ''TimeUnit_sec'']) s;
     for_sockets (\<lambda>i s. Some (say (unit_line P ''_RAPL_POWER_UNITS'' msr i (us ! i)) s)) [0..<unat (nsockets T)] s
   }"

definition print_verbose_rapl_power_unit :: "power_env \<Rightarrow> u64 \<Rightarrow> 'a rapl_state_scheme \<Rightarrow> 'a rapl_state_scheme option" where
  "print_verbose_rapl_power_unit P msr s = do {
     (T, s) \<leftarrow> get_topo (pe_hw P) P_INTEL_CPU_IDX s;
     (us, s) \<leftarrow> get_rapl_power_unit P msr s;
     for_sockets (\<lambda>i s. Some (say (unit_line P ''_RAPL_POWER_UNITS Offset, Host, Socket, Bits, PowerUnit, EnergyUnit, TimeUnit'' msr i (us ! i)) s))
       [0..<unat (nsockets T)] s
   }"

definition info_line :: "power_env \<Rightarrow> string \<Rightarrow> u64 \<Rightarrow> nat \<Rightarrow> power_info \<Rightarrow> line" where
  "info_line P name msr i q = [FS name, FX msr, FS (pe_host P), FI (int i), FX (pi_msr q), FF (pi_max_power q), FF (pi_min_power q),
     FF (pi_max_window q), FF (pi_therm_power q)]"

definition print_package_power_info :: "power_env \<Rightarrow> u64 \<Rightarrow> nat \<Rightarrow> 'a rapl_state_scheme \<Rightarrow> 'a rapl_state_scheme option" where
  "print_package_power_info P msr socket s = do {
     let s = header_once Print_package_power_info
       [''_PACKAGE_POWER_INFO'', ''Offset'', ''Host'', ''Socket'', ''Bits'', ''MaxPower_W'', ''MinPower_W'', ''MaxTimeWindow_sec'', ''ThermPower_W''] s;
     (rc, info, s) \<leftarrow> get_rapl_pkg_power_info P (of_nat socket) msr s;
     Some (if rc = 0 then say (info_line P ''_PACKAGE_POWER_INFO'' msr socket info) s else s)
   }"

definition print_verbose_package_power_info :: "power_env \<Rightarrow> u64 \<Rightarrow> nat \<Rightarrow> 'a rapl_state_scheme \<Rightarrow> 'a rapl_state_scheme option" where
  "print_verbose_package_power_info P msr socket s = do {
     (rc, info, s) \<leftarrow> get_rapl_pkg_power_info P (of_nat socket) msr s;
     Some (if rc = 0 then say (info_line P ''_PACKAGE_POWER_INFO Offset, Host, Socket, Bits, MaxPower, MinPower, MaxTimeWindow, ThermPower'' msr socket info) s else s)
   }"

definition print_dram_power_info :: "power_env \<Rightarrow> u64 \<Rightarrow> nat \<Rightarrow> 'a rapl_state_scheme \<Rightarrow> 'a rapl_state_scheme option" where
  "print_dram_power_info P msr socket s = do {
     let s = header_once Print_dram_power_info
       [''_DRAM_POWER_INFO'', ''Offset'', ''Host'', ''Socket'', ''Bits'', ''MaxPower_W'', ''MinPower_W'', ''MaxTimeWindow_sec'', ''ThermPower_W''] s;
     (rc, info, s) \<leftarrow> get_rapl_dram_power_info P (of_nat socket) msr s;
     Some (if rc = 0 then say (info_line P ''_DRAM_POWER_INFO'' msr socket info) s else s)
   }"

definition print_verbose_dram_power_info :: "power_env \<Rightarrow> u64 \<Rightarrow> nat \<Rightarrow> 'a rapl_state_scheme \<Rightarrow> 'a rapl_state_scheme option" where
  "print_verbose_dram_power_info P msr socket s = do {
     (rc, info, s) \<leftarrow> get_rapl_dram_power_info P (of_nat socket) msr s;
     Some (if rc = 0 then say (info_line P ''_DRAM_POWER_INFO Offset, Host, Socket, Bits, MaxPower, MinPower, MaxTimeWindow, ThermPower'' msr socket info) s else s)
   }"

text \<open>The limits are variables on the stack, without a value at first.\<close>

definition junk_limit :: "power_env \<Rightarrow> rapl_limit" where
  "junk_limit P = \<lparr>lim_bits = pe_junk P, lim_watts = Fin 0, lim_seconds = Fin 0, lim_translate_bits = 0\<rparr>"

definition package_limit_line :: "power_env \<Rightarrow> string \<Rightarrow> u64 \<Rightarrow> nat \<Rightarrow> rapl_limit \<Rightarrow> rapl_limit \<Rightarrow> line" where
  "package_limit_line P name msr i l1 l2 = [FS name, FX msr, FS (pe_host P), FI (int i), FX (lim_bits l1), FF (lim_watts l1),
     FF (lim_seconds l1), FF (lim_watts l2), FF (lim_seconds l2)]"

definition print_package_power_limit :: "power_env \<Rightarrow> u64 \<Rightarrow> u64 \<Rightarrow> nat \<Rightarrow> 'a rapl_state_scheme \<Rightarrow> 'a rapl_state_scheme option" where
  "print_package_power_limit P msr_power_limit msr_rapl_unit socket s = do {
     (_, s) \<leftarrow> get_topo (pe_hw P) P_INTEL_CPU_IDX s;
     let s = header_once Print_package_power_limit
       [''_PACKAGE_POWER_LIMIT'', ''Offset'', ''Host'', ''Socket'', ''Bits'', ''PowerLimit1_W'', ''TimeWindow1_sec'', ''PowerLimit2_W'', ''TimeWindow2_sec''] s;
     (rc, l1, l2, s) \<leftarrow> get_package_rapl_limit P (of_nat socket) (Some (junk_limit P)) (Some (junk_limit P)) msr_power_limit msr_rapl_unit s;
     l1 \<leftarrow> l1;
     l2 \<leftarrow> l2;
     Some (if rc = 0 then say (package_limit_line P ''_PACKAGE_POWER_LIMIT'' msr_power_limit socket l1 l2) s else s)
   }"

definition print_verbose_package_power_limit :: "power_env \<Rightarrow> u64 \<Rightarrow> u64 \<Rightarrow> nat \<Rightarrow> 'a rapl_state_scheme \<Rightarrow> 'a rapl_state_scheme option" where
  "print_verbose_package_power_limit P msr_power_limit msr_rapl_unit socket s = do {
     (rc, l1, l2, s) \<leftarrow> get_package_rapl_limit P (of_nat socket) (Some (junk_limit P)) (Some (junk_limit P)) msr_power_limit msr_rapl_unit s;
     l1 \<leftarrow> l1;
     l2 \<leftarrow> l2;
     Some (if rc = 0 then say (package_limit_line P ''_PACKAGE_POWER_LIMIT Offset, Host, Socket, Bits, PowerLimit1, TimeWindow1, PowerLimit2, TimeWindow2''
       msr_power_limit socket l1 l2) s else s)
   }"

definition dram_limit_line :: "power_env \<Rightarrow> string \<Rightarrow> u64 \<Rightarrow> nat \<Rightarrow> rapl_limit \<Rightarrow> line" where
  "dram_limit_line P name msr i l = [FS name, FX msr, FS (pe_host P), FI (int i), FX (lim_bits l), FF (lim_watts l), FF (lim_seconds l)]"

definition print_dram_power_limit :: "power_env \<Rightarrow> u64 \<Rightarrow> u64 \<Rightarrow> nat \<Rightarrow> 'a rapl_state_scheme \<Rightarrow> 'a rapl_state_scheme option" where
  "print_dram_power_limit P msr_power_limit msr_rapl_unit socket s = do {
     (_, s) \<leftarrow> get_topo (pe_hw P) P_INTEL_CPU_IDX s;
     let s = header_once Print_dram_power_limit
       [''_DRAM_POWER_LIMIT'', ''Offset'', ''Host'', ''Socket'', ''Bits'', ''PowerLimit_W'', ''TimeWindow_sec''] s;
     (rc, l, s) \<leftarrow> get_dram_rapl_limit P (of_nat socket) (Some (junk_limit P)) msr_power_limit msr_rapl_unit s;
     l \<leftarrow> l;
     Some (if rc = 0 then say (dram_limit_line P ''_DRAM_POWER_LIMIT'' msr_power_limit socket l) s else s)
   }"

definition print_verbose_dram_power_limit :: "power_env \<Rightarrow> u64 \<Rightarrow> u64 \<Rightarrow> nat \<Rightarrow> 'a rapl_state_scheme \<Rightarrow> 'a rapl_state_scheme option" where
  "print_verbose_dram_power_limit P msr_power_limit msr_rapl_unit socket s = do {
     (rc, l, s) \<leftarrow> get_dram_rapl_limit P (of_nat socket) (Some (junk_limit P)) msr_power_limit msr_rapl_unit s;
     l \<leftarrow> l;
     Some (if rc = 0 then say (dram_limit_line P ''_DRAM_POWER_LIMIT Offset, Host, Socket, Bits, PowerLimit, TimeWindow'' msr_power_limit socket l) s else s)
   }"

section \<open>Power and energy\<close>

text \<open>A line of the tables of counters; the long versions have all columns, each one after its label.\<close>

definition counter_line :: "power_env \<Rightarrow> string \<Rightarrow> u64 \<Rightarrow> nat \<Rightarrow> domain_data \<Rightarrow> line \<Rightarrow> 'a rapl_state_scheme \<Rightarrow> line option" where
  "counter_line P name msr i d rest s = do {
     w \<leftarrow> deref_at (dd_bits d) i s;
     Some ([FS name, FX msr, FS (pe_host P), FI (int i), FX w, FF (dd_joules d ! i)] @ rest)
   }"

definition say_counter :: "power_env \<Rightarrow> string \<Rightarrow> u64 \<Rightarrow> nat \<Rightarrow> domain_data \<Rightarrow> line \<Rightarrow> 'a rapl_state_scheme \<Rightarrow> 'a rapl_state_scheme option" where
  "say_counter P name msr i d rest s = map_option (\<lambda>l. say l s) (counter_line P name msr i d rest s)"

definition power_columns :: "rapl_data \<Rightarrow> domain_data \<Rightarrow> nat \<Rightarrow> double \<Rightarrow> line" where
  "power_columns r d i stamp = [FF (dd_watts d ! i), FF (rd_elapsed r), FF stamp]"

text \<open>The start time is taken in the first call.\<close>

definition start_once :: "power_env \<Rightarrow> static_fn \<Rightarrow> 'a rapl_state_scheme \<Rightarrow> 'a rapl_state_scheme" where
  "start_once P f s =
    (if f \<in> inited s then s
     else let (t, s) = gettimeofday P s in s\<lparr>start_at := (start_at s)(f := t)\<rparr>)"

definition set_inited :: "static_fn \<Rightarrow> 'a rapl_state_scheme \<Rightarrow> 'a rapl_state_scheme" where
  "set_inited f s = s\<lparr>inited := insert f (inited s)\<rparr>"

definition print_verbose_power_data ::
  "power_env \<Rightarrow> u64 \<Rightarrow> u64 \<Rightarrow> u64 \<Rightarrow> 'a rapl_state_scheme \<Rightarrow> 'a rapl_state_scheme option" where
  "print_verbose_power_data P msr_rapl_unit msr_pkg_energy_status msr_dram_energy_status s = do {
     (T, s) \<leftarrow> get_topo (pe_hw P) P_INTEL_CPU_IDX s;
     (_, s) \<leftarrow> rapl_get_power P msr_rapl_unit msr_pkg_energy_status msr_dram_energy_status s;
     let s = set_inited Print_verbose_power_data (start_once P Print_verbose_power_data s);
     let (now, s) = gettimeofday P s;
     let stamp = tv_diff now (start_at s Print_verbose_power_data);
     r \<leftarrow> rapl s;
     for_sockets (\<lambda>i s. do {
       s \<leftarrow> say_counter P ''_PACKAGE_ENERGY_STATUS Offset, Host, Socket, Bits, Energy, Power, Elapsed, Timestamp''
              msr_pkg_energy_status i (rd_pkg r) (power_columns r (rd_pkg r) i stamp) s;
       say_counter P ''_DRAM_ENERGY_STATUS Offset, Host, Socket, Bits, Energy, Power, Elapsed, Timestamp''
         msr_dram_energy_status i (rd_dram r) (power_columns r (rd_dram r) i stamp) s
     }) [0..<unat (nsockets T)] s
   }"

definition power_header :: "string \<Rightarrow> string list" where
  "power_header name = [name, ''Offset'', ''Host'', ''Socket'', ''Bits'', ''Energy_J'', ''Power_W'', ''Elapsed_sec'', ''Timestamp_sec'']"

definition print_power_data ::
  "power_env \<Rightarrow> u64 \<Rightarrow> u64 \<Rightarrow> u64 \<Rightarrow> 'a rapl_state_scheme \<Rightarrow> 'a rapl_state_scheme option" where
  "print_power_data P msr_rapl_unit msr_pkg_energy_status msr_dram_energy_status s = do {
     (T, s) \<leftarrow> get_topo (pe_hw P) P_INTEL_CPU_IDX s;
     (_, s) \<leftarrow> rapl_get_power P msr_rapl_unit msr_pkg_energy_status msr_dram_energy_status s;
     let first = (Print_power_data \<notin> inited s);
     let s = (if first then say (map FS (power_header ''_PACKAGE_ENERGY_STATUS'')) (start_once P Print_power_data s) else s);
     let (now, s) = gettimeofday P s;
     let stamp = tv_diff now (start_at s Print_power_data);
     r \<leftarrow> rapl s;
     s \<leftarrow> for_sockets (\<lambda>i. say_counter P ''_PACKAGE_ENERGY_STATUS'' msr_pkg_energy_status i (rd_pkg r)
            (power_columns r (rd_pkg r) i stamp)) [0..<unat (nsockets T)] s;
     let s = (if first then set_inited Print_power_data (say (map FS (power_header ''_DRAM_ENERGY_STATUS'')) s) else s);
     for_sockets (\<lambda>i. say_counter P ''_DRAM_ENERGY_STATUS'' msr_dram_energy_status i (rd_dram r)
       (power_columns r (rd_dram r) i stamp)) [0..<unat (nsockets T)] s
   }"

text \<open>print\_energy\_data takes both times but prints neither.\<close>

definition print_energy_data ::
  "power_env \<Rightarrow> u64 \<Rightarrow> u64 \<Rightarrow> u64 \<Rightarrow> 'a rapl_state_scheme \<Rightarrow> 'a rapl_state_scheme option" where
  "print_energy_data P msr_rapl_unit msr_pkg_energy_status msr_dram_energy_status s = do {
     (T, s) \<leftarrow> get_topo (pe_hw P) P_INTEL_CPU_IDX s;
     (_, s) \<leftarrow> rapl_get_power P msr_rapl_unit msr_pkg_energy_status msr_dram_energy_status s;
     let first = (Print_energy_data \<notin> inited s);
     let s = (if first then say [FS ''_PACKAGE_ENERGY_STATUS Offset Host Socket Bits Energy_J''] (start_once P Print_energy_data s) else s);
     let (now, s) = gettimeofday P s;
     r \<leftarrow> rapl s;
     s \<leftarrow> for_sockets (\<lambda>i. say_counter P ''_PACKAGE_ENERGY_STATUS'' msr_pkg_energy_status i (rd_pkg r) []) [0..<unat (nsockets T)] s;
     let s = (if first then set_inited Print_energy_data (say [FS ''_DRAM_ENERGY_STATUS Offset Host Socket Bits Energy_J''] s) else s);
     for_sockets (\<lambda>i. say_counter P ''_DRAM_ENERGY_STATUS'' msr_dram_energy_status i (rd_dram r) []) [0..<unat (nsockets T)] s
   }"

definition print_verbose_energy_data ::
  "power_env \<Rightarrow> u64 \<Rightarrow> u64 \<Rightarrow> u64 \<Rightarrow> 'a rapl_state_scheme \<Rightarrow> 'a rapl_state_scheme option" where
  "print_verbose_energy_data P msr_rapl_unit msr_pkg_energy_status msr_dram_energy_status s = do {
     (T, s) \<leftarrow> get_topo (pe_hw P) P_INTEL_CPU_IDX s;
     (_, s) \<leftarrow> rapl_get_power P msr_rapl_unit msr_pkg_energy_status msr_dram_energy_status s;
     let s = set_inited Print_verbose_energy_data (start_once P Print_verbose_energy_data s);
     let (now, s) = gettimeofday P s;
     let stamp = tv_diff now (start_at s Print_verbose_energy_data);
     r \<leftarrow> rapl s;
     for_sockets (\<lambda>i s. do {
       s \<leftarrow> say_counter P ''_PACKAGE_ENERGY_STATUS Offset, Host, Socket, Bits, Energy, Timestamp''
              msr_pkg_energy_status i (rd_pkg r) [FF stamp] s;
       say_counter P ''_DRAM_ENERGY_STATUS Offset, Host, Socket, Bits, Energy, Timestamp''
         msr_dram_energy_status i (rd_dram r) [FF stamp] s
     }) [0..<unat (nsockets T)] s
   }"

section \<open>JSON\<close>

fun dec :: "nat \<Rightarrow> string" where
  "dec n = (if n < 10 then [char_of (48 + n)] else dec (n div 10) @ [char_of (48 + n mod 10)])"

declare dec.simps [simp del]

text \<open>snprintf into 12 bytes.\<close>

definition socketid :: "nat \<Rightarrow> string" where
  "socketid i = take 11 (''socket_'' @ dec i)"

definition json_set :: "string list \<Rightarrow> json_value \<Rightarrow> 'a rapl_state_scheme \<Rightarrow> 'a rapl_state_scheme" where
  "json_set path v s = s\<lparr>json_sets := json_sets s @ [(path, v)]\<rparr>"

text \<open>The loop threads the sum for the node through.\<close>

fun json_power_loop :: "power_env \<Rightarrow> u64 \<Rightarrow> u64 \<Rightarrow> rapl_data \<Rightarrow> nat list \<Rightarrow> double \<Rightarrow> 'a rapl_state_scheme \<Rightarrow>
    (double \<times> 'a rapl_state_scheme) option" where
  "json_power_loop P msr_power_limit msr_rapl_unit r [] node_power s = Some (node_power, s)"
| "json_power_loop P msr_power_limit msr_rapl_unit r (i # is) node_power s = do {
     let s = json_set [socketid i] J_object s;
     (_, _, _, s) \<leftarrow> get_package_rapl_limit P (of_nat i) (Some (junk_limit P)) (Some (junk_limit P)) msr_power_limit msr_rapl_unit s;
     let s = json_set [socketid i, ''power_cpu_watts''] (J_real (dd_watts (rd_pkg r) ! i)) s;
     let s = json_set [socketid i, ''power_mem_watts''] (J_real (dd_watts (rd_dram r) ! i)) s;
     json_power_loop P msr_power_limit msr_rapl_unit r is
       (d_add node_power (d_add (dd_watts (rd_pkg r) ! i) (dd_watts (rd_dram r) ! i))) s
   }"

definition json_get_power_data ::
  "power_env \<Rightarrow> u64 \<Rightarrow> u64 \<Rightarrow> u64 \<Rightarrow> u64 \<Rightarrow> 'a rapl_state_scheme \<Rightarrow> 'a rapl_state_scheme option" where
  "json_get_power_data P msr_power_limit msr_rapl_unit msr_pkg_energy_status msr_dram_energy_status s = do {
     (T, s) \<leftarrow> get_topo (pe_hw P) P_INTEL_CPU_IDX s;
     (_, s) \<leftarrow> rapl_get_power P msr_rapl_unit msr_pkg_energy_status msr_dram_energy_status s;
     (_, s) \<leftarrow> rapl_storage P s;
     r \<leftarrow> rapl s;
     (node_power, s) \<leftarrow> json_power_loop P msr_power_limit msr_rapl_unit r [0..<unat (nsockets T)] (Fin 0) s;
     Some (json_set [''power_node_watts''] (J_real node_power) s)
   }"

fun json_energy_loop :: "rapl_data \<Rightarrow> nat list \<Rightarrow> double \<Rightarrow> 'a rapl_state_scheme \<Rightarrow> double \<times> 'a rapl_state_scheme" where
  "json_energy_loop r [] node_energy s = (node_energy, s)"
| "json_energy_loop r (i # is) node_energy s =
    json_energy_loop r is (d_add node_energy (d_add (dd_joules (rd_pkg r) ! i) (dd_joules (rd_dram r) ! i)))
      (json_set [socketid i, ''energy_mem_joules''] (J_real (dd_joules (rd_dram r) ! i))
        (json_set [socketid i, ''energy_cpu_joules''] (J_real (dd_joules (rd_pkg r) ! i))
          (json_set [socketid i] J_object s)))"

definition json_get_energy_data ::
  "power_env \<Rightarrow> u64 \<Rightarrow> u64 \<Rightarrow> u64 \<Rightarrow> 'a rapl_state_scheme \<Rightarrow> 'a rapl_state_scheme option" where
  "json_get_energy_data P msr_rapl_unit msr_pkg_energy_status msr_dram_energy_status s = do {
     (T, s) \<leftarrow> get_topo (pe_hw P) P_INTEL_CPU_IDX s;
     (_, s) \<leftarrow> rapl_get_power P msr_rapl_unit msr_pkg_energy_status msr_dram_energy_status s;
     (_, s) \<leftarrow> rapl_storage P s;
     r \<leftarrow> rapl s;
     let (node_energy, s) = json_energy_loop r [0..<unat (nsockets T)] (Fin 0) s;
     Some (json_set [''energy_node_joules''] (J_real node_energy) s)
   }"

text \<open>The first call of get\_package\_rapl\_limit, without limits, does nothing.\<close>

definition json_get_power_domain_info ::
  "power_env \<Rightarrow> u64 \<Rightarrow> u64 \<Rightarrow> u64 \<Rightarrow> u64 \<Rightarrow> 'a rapl_state_scheme \<Rightarrow> 'a rapl_state_scheme option" where
  "json_get_power_domain_info P msr_pkg_power_info msr_dram_power_info msr_rapl_unit msr_power_limit s = do {
     (_, _, _, s) \<leftarrow> get_package_rapl_limit P 0 None None 0 msr_rapl_unit s;
     (_, _, _, s) \<leftarrow> get_package_rapl_limit P 0 (Some (junk_limit P)) (Some (junk_limit P)) msr_power_limit msr_rapl_unit s;
     (_, pkg_info, s) \<leftarrow> get_rapl_pkg_power_info P 0 msr_pkg_power_info s;
     (_, dram_info, s) \<leftarrow> get_rapl_dram_power_info P 0 msr_dram_power_info s;
     let (tv, s) = gettimeofday P s;
     let ts = (word_of_int (fst tv) * 1000000 + word_of_int (snd tv) :: u64);
     let h = pe_host P;
     Some (fold (\<lambda>(path, v). json_set path v)
       [([h], J_object), ([h, ''timestamp''], J_int ts), ([h, ''control''], J_object),
        ([h, ''control'', ''power_cpu''], J_object),
        ([h, ''control'', ''power_cpu'', ''min''], J_real (pi_min_power pkg_info)),
        ([h, ''control'', ''power_cpu'', ''max''], J_real (pi_max_power pkg_info)),
        ([h, ''control'', ''power_cpu'', ''units''], J_string ''Watts''),
        ([h, ''control'', ''power_mem''], J_object),
        ([h, ''control'', ''power_mem'', ''min''], J_real (pi_min_power dram_info)),
        ([h, ''control'', ''power_mem'', ''max''], J_real (pi_max_power dram_info)),
        ([h, ''control'', ''power_mem'', ''units''], J_string ''Watts''),
        ([h, ''unsupported''], J_array [''power_node'']),
        ([h, ''measurement''], J_object),
        ([h, ''measurement'', ''power_cpu''], J_object),
        ([h, ''measurement'', ''power_cpu'', ''units''], J_string ''Watts''),
        ([h, ''measurement'', ''power_mem''], J_object),
        ([h, ''measurement'', ''power_mem'', ''units''], J_string ''Watts'')] s)
   }"

section \<open>Polling\<close>

text \<open>
  The first call reads the limits of every socket, keeps them, prints the labels and the
  time in front of its values; the later calls print the values alone.
\<close>

definition poll_labels :: "nat \<Rightarrow> line" where
  "poll_labels i = [FS (''pkg'' @ dec i @ ''_joules''), FS (''pkg'' @ dec i @ ''_lim1watts''), FS (''pkg'' @ dec i @ ''_lim2watts''),
     FS (''dram'' @ dec i @ ''_joules''), FS (''dram'' @ dec i @ ''_limwatts'')]"

fun poll_limits :: "power_env \<Rightarrow> u64 \<Rightarrow> u64 \<Rightarrow> u64 \<Rightarrow> nat list \<Rightarrow> 'a rapl_state_scheme \<Rightarrow>
    (rapl_limit list \<times> 'a rapl_state_scheme) option" where
  "poll_limits P msr_pkg_power_limit msr_dram_power_limit msr_rapl_unit [] s = Some ([], s)"
| "poll_limits P msr_pkg_power_limit msr_dram_power_limit msr_rapl_unit (i # is) s = do {
     (_, l1, l2, s) \<leftarrow> get_package_rapl_limit P (of_nat i) (Some (junk_limit P)) (Some (junk_limit P)) msr_pkg_power_limit msr_rapl_unit s;
     (_, l3, s) \<leftarrow> get_dram_rapl_limit P (of_nat i) (Some (junk_limit P)) msr_dram_power_limit msr_rapl_unit s;
     l1 \<leftarrow> l1;
     l2 \<leftarrow> l2;
     l3 \<leftarrow> l3;
     (ls, s) \<leftarrow> poll_limits P msr_pkg_power_limit msr_dram_power_limit msr_rapl_unit is s;
     Some ([l1, l2, l3] @ ls, s)
   }"

definition poll_values :: "rapl_data \<Rightarrow> rapl_limit list \<Rightarrow> nat \<Rightarrow> line" where
  "poll_values r rlim i = [FF (dd_delta_joules (rd_pkg r) ! i), FF (lim_watts (rlim ! (3 * i))), FF (lim_watts (rlim ! (3 * i + 1))),
     FF (dd_delta_joules (rd_dram r) ! i), FF (lim_watts (rlim ! (3 * i + 2)))]"

definition get_all_power_data ::
  "power_env \<Rightarrow> u64 \<Rightarrow> u64 \<Rightarrow> u64 \<Rightarrow> u64 \<Rightarrow> u64 \<Rightarrow> 'a rapl_state_scheme \<Rightarrow> 'a rapl_state_scheme option" where
  "get_all_power_data P msr_pkg_power_limit msr_dram_power_limit msr_rapl_unit msr_package_energy_status msr_dram_energy_status s = do {
     (T, s) \<leftarrow> get_topo (pe_hw P) P_INTEL_CPU_IDX s;
     (_, s) \<leftarrow> rapl_get_power P msr_rapl_unit msr_package_energy_status msr_dram_energy_status s;
     let n = unat (nsockets T);
     (prefix, s) \<leftarrow> (if Get_all_power_data \<in> inited s then Some ([], s)
       else do {
         (_, s) \<leftarrow> rapl_storage P (set_inited Get_all_power_data s);
         (ls, s) \<leftarrow> poll_limits P msr_pkg_power_limit msr_dram_power_limit msr_rapl_unit [0..<n] s;
         let s = say ([FS ''_VAR_MONITOR time''] @ concat (map poll_labels [0..<n])) (s\<lparr>all_limits := ls\<rparr>);
         let (sec, nsec) = pe_clock P (tod_calls s);
         Some ([FS ''_VAR_MONITOR'', FX (now_ms sec nsec)], s)
       });
     r \<leftarrow> rapl s;
     Some (say (prefix @ concat (map (poll_values r (all_limits s)) [0..<n])) s)
   }"

end
