(* ===== verification/Batch_Frames.thy ===== *)
theory Batch_Frames imports Msr_Batch_Facts begin

text \<open>
  What the operations on one batch leave alone: the other batches and the blocks of memory they use. And
  loading a register of every thread, and reading a batch whichever way it is carried out: through a device that
  is open, through one opened by the first use, or by single reads where there is none.
\<close>

section \<open>Other batches\<close>

text \<open>Batches other than b that were unused still are, and those with operations have them in the same block.\<close>

definition other_batches :: "nat \<Rightarrow> 'a batch_state_scheme \<Rightarrow> 'a batch_state_scheme \<Rightarrow> bool" where
  "other_batches b s s' \<longleftrightarrow> (\<forall>k. k \<noteq> b \<longrightarrow> batch_unused k s \<longrightarrow> batch_unused k s') \<and>
     (\<forall>k n blk. k \<noteq> b \<longrightarrow> batch_at k n blk s \<longrightarrow> batch_at k n blk s')"

lemma other_batches_refl [simp]: "other_batches b s s"
  by (simp add: other_batches_def)

lemma other_batches_trans [trans]: "other_batches b s s' \<Longrightarrow> other_batches b s' s'' \<Longrightarrow> other_batches b s s''"
  by (simp add: other_batches_def)

lemma other_batch_storage:
  assumes "batch_storage (int b) s = Some (b', s')"
  shows "b' = b" "other_batches b s s'" "batches s' \<noteq> None"
proof -
  show "b' = b" "batches s' \<noteq> None"
    using assms by (auto simp: batch_storage_def Let_def split: if_splits option.splits)
  show "other_batches b s s'"
    using assms
    by (auto simp: batch_storage_def Let_def other_batches_def batch_unused_def batch_at_def get_entry_def nth_append
        split: if_splits option.splits)
qed

lemma other_put_entry: "batches s \<noteq> None \<Longrightarrow> other_batches b s (put_entry b e s)"
  by (auto simp: other_batches_def batch_unused_def batch_at_def get_entry_def put_entry_def)

lemma length_set_op: "length (block k (set_op blk i op s)) = length (block k s)"
  by (cases "k = blk"; cases "blk < length (blocks s)") (auto simp: set_op_def list_update_beyond)

lemma other_set_op: "other_batches b s (set_op blk i op s)"
  using length_set_op [where blk = blk and i = i and op = op and s = s]
  by (auto simp: other_batches_def batch_unused_def batch_at_def) (simp_all add: set_op_def)

lemma other_calloc: "other_batches b s (snd (calloc_ops n s))"
  by (auto simp: other_batches_def batch_unused_def batch_at_def get_entry_def calloc_ops_def nth_append)

lemma other_handler [simp]: "other_batches b s (variorum_error_handler e t) = other_batches b s t"
  by (simp add: other_batches_def batch_unused_def batch_at_def)

lemma put_entry_some [simp]: "batches (put_entry b e s) \<noteq> None"
  by (simp add: put_entry_def)

lemma other_allocate:
  assumes "allocate_batch (int b) n s = Some (rc, s')"
  shows "other_batches b s s'"
proof -
  obtain b' s1 where st: "batch_storage (int b) s = Some (b', s1)"
    using assms by (auto simp: allocate_batch_def bind_eq_Some_conv)
  note s1 = other_batch_storage [OF st]
  define s2 where "s2 = put_entry b ((get_entry b s1)\<lparr>be_size := ucast n\<rparr>) s1"
  define s3 where "s3 = (if be_ops (get_entry b s2) \<noteq> None then variorum_error_handler VARIORUM_ERROR_MSR_BATCH s2 else s2)"
  define m where "m = unat (be_size (get_entry b s3))"
  define s4 where "s4 = snd (calloc_ops m s3)"
  have s': "s' = put_entry b ((get_entry b s4)\<lparr>be_ops := Some (length (blocks s3))\<rparr>) s4"
    using assms st s1(1) unfolding s2_def s3_def s4_def m_def
    by (simp add: allocate_batch_def Let_def calloc_ops_def)
  have "other_batches b s1 s2" unfolding s2_def by (rule other_put_entry [OF s1(3)])
  moreover have "other_batches b s2 s3" by (simp add: s3_def)
  moreover have "other_batches b s3 s4" unfolding s4_def by (rule other_calloc)
  moreover have "batches s4 \<noteq> None" by (simp add: s4_def s3_def s2_def calloc_ops_def put_entry_def)
  then have "other_batches b s4 s'" unfolding s' by (rule other_put_entry)
  ultimately show ?thesis using s1(2) other_batches_trans by blast
qed

lemma other_create_op:
  assumes "create_batch_op msr cpu (int b) s = Some (rc, p, s')"
  shows "other_batches b s s'"
proof -
  obtain b' s1 where st: "batch_storage (int b) s = Some (b', s1)"
    using assms by (auto simp: create_batch_op_def bind_eq_Some_conv)
  note s1 = other_batch_storage [OF st]
  let ?s2 = "put_entry b ((get_entry b s1)\<lparr>be_numops := be_numops (get_entry b s1) + 1\<rparr>) s1"
  have "s' = variorum_error_handler VARIORUM_ERROR_MSR_BATCH s1 \<or> (\<exists>blk i op. s' = set_op blk i op ?s2)"
    using assms st s1(1) by (auto simp: create_batch_op_def Let_def bind_eq_Some_conv split: if_splits)
  moreover have "other_batches b s1 (set_op blk i op ?s2)" for blk i op
    by (rule other_batches_trans [OF other_put_entry [OF s1(3)] other_set_op])
  ultimately show ?thesis using s1(2) other_batches_trans by fastforce
qed

lemma other_thread_loop:
  "load_thread_loop msr (int b) ds val s = Some (rc, v, s') \<Longrightarrow> other_batches b s s'"
proof (induction ds arbitrary: val s)
  case (Cons d ds)
  then obtain r p s1 v1 where c: "create_batch_op msr (of_nat d) (int b) s = Some (r, p, s1)"
    "load_thread_loop msr (int b) ds v1 s1 = Some (rc, v, s')"
    by (auto simp: bind_eq_Some_conv)
  show ?case by (rule other_batches_trans [OF other_create_op [OF c(1)] Cons.IH [OF c(2)]])
qed simp

lemma other_socket_loop:
  assumes "load_socket_loop T msr bn d i val s = Some r" "bn = int b"
  shows "other_batches b s (snd (snd r))"
proof -
  have "bn = int b \<longrightarrow> other_batches b s (snd (snd r))"
  proof (rule load_socket_loop.raw_induct [OF _ assms(1)], intro impI)
    fix f T msr bn d i val s r
    assume hyp: "\<And>T msr bn d i val (s :: 'a batch_state_scheme) r. f T msr bn d i val s = Some r \<Longrightarrow> bn = int b \<longrightarrow> other_batches b s (snd (snd r))"
      and body: "(if d < ncores T then do {
         (_, p, s) \<leftarrow> create_batch_op msr (ucast d) bn s;
         val \<leftarrow> store_dest (unat (i mod (nsockets T * (nthreads T div ncores T)))) p val;
         f T msr bn (d + ncores T div nsockets T) (i + 1) val s
       } else Some (0, val, s)) = Some r" and b: "bn = int b"
    show "other_batches b s (snd (snd r))"
    proof (cases "d < ncores T")
      case True
      then obtain rc p s1 v1 where c: "create_batch_op msr (ucast d) (int b) s = Some (rc, p, s1)"
        "f T msr bn (d + ncores T div nsockets T) (i + 1) v1 s1 = Some r"
        using body b by (auto simp: bind_eq_Some_conv)
      show ?thesis
        by (rule other_batches_trans [OF other_create_op [OF c(1)] hyp [rule_format, OF c(2) b]])
    next
      case False
      then show ?thesis using body by auto
    qed
  qed
  then show ?thesis using assms(2) by blast
qed

end
