(* ===== verification/Features.thy ===== *)
theory Features imports Rapl_Print begin

text \<open>
  What thermal_features.c, clocks_features.c, misc_features.c and counters_features.c share: static arrays of
  pointers into batches, which the first call of a function allocates and loads, static flags, and
  C's float, which some of them use for averages. Text written to stderr without
  variorum\_error\_handler is left out.
\<close>

section \<open>State\<close>

text \<open>The static arrays, named after the function or the structure they belong to.\<close>

datatype static_array =
    Temp_target_val | Therm_stat_val | Pkg_therm_stat_val
  | Clocks_aperf | Clocks_mperf | Clocks_tsc | Perf_status | Perf_ctl
  | Non_turbo_val | Efficiency_val | Operating_val
  | Turbo_limit_val | Turbo_limits_val | Turbo_limits_val2 | Turbo_skx_val | Turbo_skx_val2
  | Config_tdp_val | Avx_val
  | Fixed_ctr nat | Perf_global_ctrl | Fixed_ctr_ctrl
  | Pmc nat | Evtsel nat | Unc_evtsel nat | Unc_count nat

text \<open>Static flags that are not told from an array.\<close>

datatype feat_fn =
    Print_clocks_data | Perf_storage_temp | Print_fixed_counter_data | Print_perfmon_counter_data
  | Print_verbose_perfmon_counter_data | Print_unc_counter_data | Get_all_power_data_fixed
  | Fixed_counter_storage | Perfevtsel_storage | Pmc_storage

text \<open>The fields of struct fixed_counter that are written, of one thread.\<close>

record fixed_fields =
  fc_enable :: u64
  fc_ring_level :: u64
  fc_anyThread :: u64
  fc_pmi :: u64

record feat_state = rapl_state +
  arrays :: "static_array \<Rightarrow> dests option"
  feat_inited :: "feat_fn set"
  fixed_counters :: "fixed_fields list list"
  fixed_limits :: "rapl_limit list"

definition set_feat :: "feat_fn \<Rightarrow> 'a feat_state_scheme \<Rightarrow> 'a feat_state_scheme" where
  "set_feat f s = s\<lparr>feat_inited := insert f (feat_inited s)\<rparr>"

section \<open>Arrays of destinations\<close>

text \<open>An element of an array of structures that malloc returned.\<close>

definition elem :: "'x list \<Rightarrow> nat \<Rightarrow> 'x option" where
  "elem xs i = (if i < length xs then Some (xs ! i) else None)"

definition call_load_thread_batch ::
  "power_env \<Rightarrow> u64 \<Rightarrow> dests \<Rightarrow> int \<Rightarrow> 'a arch_state_scheme \<Rightarrow> (dests \<times> 'a arch_state_scheme) option" where
  "call_load_thread_batch P msr val batchnum s = do {
     (T, s) \<leftarrow> get_topo (pe_hw P) (p_msr_core_idx s) s;
     (_, val, s) \<leftarrow> load_thread_batch T msr (Some val) batchnum s;
     val \<leftarrow> val;
     Some (val, s)
   }"

definition call_write_batch :: "power_env \<Rightarrow> int \<Rightarrow> 'a arch_state_scheme \<Rightarrow> (int \<times> 'a arch_state_scheme) option" where
  "call_write_batch P batchnum s = do {
     (T, s) \<leftarrow> get_topo (pe_hw P) (p_msr_core_idx s) s;
     write_batch (pe_os P) T batchnum s
   }"

text \<open>malloc of n pointers and the batch that fills them in; a pointer not yet assigned is None.\<close>

definition load_socket_array ::
  "power_env \<Rightarrow> static_array \<Rightarrow> nat \<Rightarrow> u64 \<Rightarrow> int \<Rightarrow> 'a feat_state_scheme \<Rightarrow> 'a feat_state_scheme option" where
  "load_socket_array P v n msr batchnum s = do {
     (val, s) \<leftarrow> call_load_socket_batch P msr (replicate n None) batchnum s;
     Some (s\<lparr>arrays := (arrays s)(v \<mapsto> val)\<rparr>)
   }"

definition load_thread_array ::
  "power_env \<Rightarrow> static_array \<Rightarrow> nat \<Rightarrow> u64 \<Rightarrow> int \<Rightarrow> 'a feat_state_scheme \<Rightarrow> 'a feat_state_scheme option" where
  "load_thread_array P v n msr batchnum s = do {
     (val, s) \<leftarrow> call_load_thread_batch P msr (replicate n None) batchnum s;
     Some (s\<lparr>arrays := (arrays s)(v \<mapsto> val)\<rparr>)
   }"

text \<open>A batch of one register of every socket, set up by the first call.\<close>

definition once_socket ::
  "power_env \<Rightarrow> static_array \<Rightarrow> u32 \<Rightarrow> u64 \<Rightarrow> int \<Rightarrow> 'a feat_state_scheme \<Rightarrow> 'a feat_state_scheme option" where
  "once_socket P v n msr batchnum s =
    (if arrays s v \<noteq> None then Some s
     else do {
       (_, s) \<leftarrow> allocate_batch batchnum (ucast n) s;
       load_socket_array P v (unat n) msr batchnum s
     })"

text \<open>\<open>*val[i]\<close> of a static array, as a value and as the target of an assignment.\<close>

definition read_at :: "static_array \<Rightarrow> nat \<Rightarrow> 'a feat_state_scheme \<Rightarrow> u64 option" where
  "read_at v i s = do { val \<leftarrow> arrays s v; deref_at val i s }"

definition write_at :: "static_array \<Rightarrow> nat \<Rightarrow> u64 \<Rightarrow> 'a feat_state_scheme \<Rightarrow> 'a feat_state_scheme option" where
  "write_at v i w s = do {
     val \<leftarrow> arrays s v;
     p \<leftarrow> (if i < length val then val ! i else None);
     if fst p < length (blocks s) \<and> snd p < length (blocks s ! fst p)
     then Some (set_op (fst p) (snd p) ((blocks s ! fst p ! snd p)\<lparr>op_msrdata := w\<rparr>) s) else None
   }"

definition read_all :: "static_array \<Rightarrow> nat \<Rightarrow> 'a feat_state_scheme \<Rightarrow> u64 list option" where
  "read_all v n s = those (map (\<lambda>i. read_at v i s) [0..<n])"

section \<open>The hardware threads\<close>

text \<open>
  The loops over sockets, the cores of a socket and the threads of a core, and the index
  of a thread, computed in unsigned arithmetic.
\<close>

definition grid :: "topo \<Rightarrow> (nat \<times> nat \<times> nat) list" where
  "grid T = [(i, j, k). i \<leftarrow> [0..<unat (nsockets T)], j \<leftarrow> [0..<unat (ncores T div nsockets T)],
     k \<leftarrow> [0..<unat (nthreads T div ncores T)]]"

definition thread_idx :: "topo \<Rightarrow> nat \<Rightarrow> nat \<Rightarrow> nat \<Rightarrow> nat" where
  "thread_idx T i j k =
     unat (of_nat k * nsockets T * (ncores T div nsockets T) + of_nat i * (ncores T div nsockets T) + of_nat j)"

section \<open>float\<close>

text \<open>A float is a double with a 24-bit mantissa; an operation of two floats rounds its exact result once.\<close>

definition fl32 :: "rat \<Rightarrow> double" where
  "fl32 x = (if x = 0 then Fin 0 else
     let e = max (-149) (ilog2 \<bar>x\<bar> - 23);
         r = of_int (round_half_even (x / 2 powi e)) * 2 powi e
     in if 2 powi 128 \<le> \<bar>r\<bar> then (if 0 < x then PInf else NInf) else Fin r)"

definition to_float :: "double \<Rightarrow> double" where
  "to_float x = (case x of Fin a \<Rightarrow> fl32 a | _ \<Rightarrow> x)"

definition f_of_int :: "int \<Rightarrow> double" where
  "f_of_int n = fl32 (of_int n)"

definition f_add :: "double \<Rightarrow> double \<Rightarrow> double" where
  "f_add x y = (case (x, y) of (Fin a, Fin b) \<Rightarrow> fl32 (a + b) | _ \<Rightarrow> d_add x y)"

definition f_div :: "double \<Rightarrow> double \<Rightarrow> double" where
  "f_div x y = (case (x, y) of (Fin a, Fin b) \<Rightarrow> if b = 0 then d_inf (sgn a) else fl32 (a / b) | _ \<Rightarrow> d_div x y)"

section \<open>JSON objects\<close>

text \<open>json\_object\_get: does the object the caller handed in have an object at this path?\<close>

definition json_has :: "string list \<Rightarrow> 'a rapl_state_scheme \<Rightarrow> bool" where
  "json_has path s \<longleftrightarrow> path \<in> set (map fst (json_sets s))"

text \<open>snprintf into n bytes.\<close>

definition snprintf :: "nat \<Rightarrow> string \<Rightarrow> string" where
  "snprintf n text = take (n - 1) text"

definition get_or_make :: "string list \<Rightarrow> 'a rapl_state_scheme \<Rightarrow> 'a rapl_state_scheme" where
  "get_or_make path s = (if json_has path s then s else json_set path J_object s)"

end
