(* ===== verification/Thermal.thy ===== *)
theory Thermal imports Features begin

text \<open>
  thermal_features.c: the temperature target of each socket, the thermal status of each
  package and of each thread, and the three reports made of them. A temperature is the target less
  a readout, both fields of registers.
\<close>

record msr_temp_target =
  tt_raw :: u64
  tt_temp_target :: u64

record therm_stat =
  ts_raw :: u64
  ts_status :: int
  ts_status_log :: int
  ts_PROCHOT_or_FORCEPR_event :: int
  ts_PROCHOT_or_FORCEPR_log :: int
  ts_crit_temp_status :: int
  ts_crit_temp_log :: int
  ts_therm_thresh1_status :: int
  ts_therm_thresh1_log :: int
  ts_therm_thresh2_status :: int
  ts_therm_thresh2_log :: int
  ts_power_limit_status :: int
  ts_power_notification_log :: int
  ts_readout :: int
  ts_resolution_deg_celsius :: int
  ts_readout_valid :: int

record pkg_therm_stat =
  pt_raw :: u64
  pt_status :: int
  pt_status_log :: int
  pt_PROCHOT_event :: int
  pt_PROCHOT_log :: int
  pt_crit_temp_status :: int
  pt_crit_temp_log :: int
  pt_therm_thresh1_status :: int
  pt_therm_thresh1_log :: int
  pt_therm_thresh2_status :: int
  pt_therm_thresh2_log :: int
  pt_power_limit_status :: int
  pt_power_notification_log :: int
  pt_readout :: int

text \<open>A field assigned to an int.\<close>

definition field :: "u64 \<Rightarrow> nat \<Rightarrow> nat \<Rightarrow> int" where
  "field w m n = int_of_u64 (MASK_VAL w m n)"

definition THERM_STAT :: int where "THERM_STAT = 8"
definition PKG_THERM_STAT :: int where "PKG_THERM_STAT = 10"
definition TEMP_TARGET :: int where "TEMP_TARGET = 12"

section \<open>Reading\<close>

definition temp_target_of :: "u64 \<Rightarrow> msr_temp_target" where
  "temp_target_of w = \<lparr>tt_raw = w, tt_temp_target = MASK_VAL w 23 16\<rparr>"

definition get_temp_target ::
  "power_env \<Rightarrow> u64 \<Rightarrow> 'a feat_state_scheme \<Rightarrow> (msr_temp_target list \<times> 'a feat_state_scheme) option" where
  "get_temp_target P msr s = do {
     (T, s) \<leftarrow> get_topo (pe_hw P) P_INTEL_CPU_IDX s;
     s \<leftarrow> once_socket P Temp_target_val (nsockets T) msr TEMP_TARGET s;
     (_, s) \<leftarrow> call_read_batch P TEMP_TARGET s;
     ws \<leftarrow> read_all Temp_target_val (unat (nsockets T)) s;
     Some (map temp_target_of ws, s)
   }"

definition therm_stat_of :: "u64 \<Rightarrow> therm_stat" where
  "therm_stat_of w = \<lparr>ts_raw = w, ts_status = field w 0 0, ts_status_log = field w 1 1,
     ts_PROCHOT_or_FORCEPR_event = field w 2 2, ts_PROCHOT_or_FORCEPR_log = field w 3 3,
     ts_crit_temp_status = field w 4 4, ts_crit_temp_log = field w 5 5,
     ts_therm_thresh1_status = field w 6 6, ts_therm_thresh1_log = field w 7 7,
     ts_therm_thresh2_status = field w 8 8, ts_therm_thresh2_log = field w 9 9,
     ts_power_limit_status = field w 10 10, ts_power_notification_log = field w 11 11,
     ts_readout = field w 22 16, ts_resolution_deg_celsius = field w 30 27, ts_readout_valid = field w 31 31\<rparr>"

definition get_therm_stat ::
  "power_env \<Rightarrow> u64 \<Rightarrow> 'a feat_state_scheme \<Rightarrow> (therm_stat list \<times> 'a feat_state_scheme) option" where
  "get_therm_stat P msr s = do {
     (T, s) \<leftarrow> get_topo (pe_hw P) P_INTEL_CPU_IDX s;
     s \<leftarrow> (if arrays s Therm_stat_val \<noteq> None then Some s
       else do {
         (_, s) \<leftarrow> allocate_batch THERM_STAT (ucast (nthreads T)) s;
         load_thread_array P Therm_stat_val (unat (nthreads T)) msr THERM_STAT s
       });
     (_, s) \<leftarrow> call_read_batch P THERM_STAT s;
     ws \<leftarrow> read_all Therm_stat_val (unat (nthreads T)) s;
     Some (map therm_stat_of ws, s)
   }"

definition pkg_therm_stat_of :: "u64 \<Rightarrow> pkg_therm_stat" where
  "pkg_therm_stat_of w = \<lparr>pt_raw = w, pt_status = field w 0 0, pt_status_log = field w 1 1,
     pt_PROCHOT_event = field w 2 2, pt_PROCHOT_log = field w 3 3,
     pt_crit_temp_status = field w 4 4, pt_crit_temp_log = field w 5 5,
     pt_therm_thresh1_status = field w 6 6, pt_therm_thresh1_log = field w 7 7,
     pt_therm_thresh2_status = field w 8 8, pt_therm_thresh2_log = field w 9 9,
     pt_power_limit_status = field w 10 10, pt_power_notification_log = field w 11 11,
     pt_readout = field w 22 16\<rparr>"

definition get_pkg_therm_stat ::
  "power_env \<Rightarrow> u64 \<Rightarrow> 'a feat_state_scheme \<Rightarrow> (pkg_therm_stat list \<times> 'a feat_state_scheme) option" where
  "get_pkg_therm_stat P msr s = do {
     (T, s) \<leftarrow> get_topo (pe_hw P) P_INTEL_CPU_IDX s;
     s \<leftarrow> once_socket P Pkg_therm_stat_val (nsockets T) msr PKG_THERM_STAT s;
     (_, s) \<leftarrow> call_read_batch P PKG_THERM_STAT s;
     ws \<leftarrow> read_all Pkg_therm_stat_val (unat (nsockets T)) s;
     Some (map pkg_therm_stat_of ws, s)
   }"

section \<open>Reports\<close>

text \<open>\<open>(int)target - readout\<close>.\<close>

definition actual_temp :: "msr_temp_target \<Rightarrow> int \<Rightarrow> int" where
  "actual_temp t readout = int_of_u64 (tt_temp_target t) - readout"

definition thermal_line ::
  "string \<Rightarrow> topo \<Rightarrow> msr_temp_target list \<Rightarrow> pkg_therm_stat list \<Rightarrow> therm_stat list \<Rightarrow> nat \<times> nat \<times> nat \<Rightarrow> line option" where
  "thermal_line label T tt pt ts = (\<lambda>(i, j, k). do {
     let idx = thread_idx T i j k;
     target \<leftarrow> elem tt i;
     pkg \<leftarrow> elem pt i;
     thr \<leftarrow> elem ts idx;
     Some [FS label, FI (int i), FI (int j), FI (int idx), FI (int_of_u64 (tt_temp_target target)), FI (pt_readout pkg),
       FI (actual_temp target (pt_readout pkg)), FI (ts_readout thr), FI (actual_temp target (ts_readout thr)),
       FI (ts_readout_valid thr)]
   })"

definition print_verbose_therm_temp_reading ::
  "power_env \<Rightarrow> u64 \<Rightarrow> u64 \<Rightarrow> u64 \<Rightarrow> 'a feat_state_scheme \<Rightarrow> (int \<times> 'a feat_state_scheme) option" where
  "print_verbose_therm_temp_reading P msr_therm_stat msr_pkg_therm_stat msr_temp_target s = do {
     (T, s) \<leftarrow> get_topo (pe_hw P) P_INTEL_CPU_IDX s;
     (pt, s) \<leftarrow> get_pkg_therm_stat P msr_pkg_therm_stat s;
     (tt, s) \<leftarrow> get_temp_target P msr_temp_target s;
     (ts, s) \<leftarrow> get_therm_stat P msr_therm_stat s;
     ls \<leftarrow> those (map (thermal_line ''_THERMALS Socket, PhysicalCore, LogicalThread, TCC, Pkg_Reading, Pkg_Actual, Thread_Reading, Thread_Actual, Thread_DigitalReadingValid''
       T tt pt ts) (grid T));
     Some (0, fold say ls s)
   }"

definition print_therm_temp_reading ::
  "power_env \<Rightarrow> u64 \<Rightarrow> u64 \<Rightarrow> u64 \<Rightarrow> 'a feat_state_scheme \<Rightarrow> (int \<times> 'a feat_state_scheme) option" where
  "print_therm_temp_reading P msr_therm_stat msr_pkg_therm_stat msr_temp_target s = do {
     (T, s) \<leftarrow> get_topo (pe_hw P) P_INTEL_CPU_IDX s;
     (pt, s) \<leftarrow> get_pkg_therm_stat P msr_pkg_therm_stat s;
     (tt, s) \<leftarrow> get_temp_target P msr_temp_target s;
     (ts, s) \<leftarrow> get_therm_stat P msr_therm_stat s;
     let s = say (map FS [''_THERMALS'', ''Socket'', ''PhysicalCore'', ''LogicalThread'', ''TCC_C'', ''Pkg_Reading_C'',
       ''Pkg_Actual_C'', ''Thread_Reading_C'', ''Thread_Actual_C'', ''Thread_DigitalReadingValid'']) s;
     ls \<leftarrow> those (map (thermal_line ''_THERMALS'' T tt pt ts) (grid T));
     Some (0, fold say ls s)
   }"

text \<open>The average of a core over its threads, a float.\<close>

definition core_temp :: "topo \<Rightarrow> msr_temp_target \<Rightarrow> therm_stat list \<Rightarrow> nat \<Rightarrow> nat \<Rightarrow> double option" where
  "core_temp T target ts i j = do {
     readings \<leftarrow> those (map (\<lambda>k. elem ts (thread_idx T i j k)) [0..<unat (nthreads T div ncores T)]);
     let total = foldl (\<lambda>acc thr. f_add acc (f_of_int (actual_temp target (ts_readout thr)))) (Fin 0) readings;
     Some (f_div total (f_of_int (uint (nthreads T div ncores T))))
   }"

definition thermal_json_socket ::
  "topo \<Rightarrow> msr_temp_target list \<Rightarrow> pkg_therm_stat list \<Rightarrow> therm_stat list \<Rightarrow> nat \<Rightarrow> 'a rapl_state_scheme \<Rightarrow> 'a rapl_state_scheme option" where
  "thermal_json_socket T tt pt ts i s = do {
     let socket_id = snprintf 12 (''socket_'' @ dec i);
     target \<leftarrow> elem tt i;
     pkg \<leftarrow> elem pt i;
     let s = get_or_make [socket_id] s;
     let s = json_set [socket_id, ''CPU''] J_object s;
     let s = json_set [socket_id, ''CPU'', ''PKG_Actual''] (J_int (word_of_int (actual_temp target (pt_readout pkg)))) s;
     let s = json_set [socket_id, ''CPU'', ''Core''] J_object s;
     for_sockets (\<lambda>j s. do {
       t \<leftarrow> core_temp T target ts i j;
       Some (json_set [socket_id, ''CPU'', ''Core'', snprintf 32 (''temp_celsius_core_'' @ dec j)] (J_real t) s)
     }) [0..<unat (ncores T div nsockets T)] s
   }"

definition get_therm_temp_reading_json ::
  "power_env \<Rightarrow> u64 \<Rightarrow> u64 \<Rightarrow> u64 \<Rightarrow> 'a feat_state_scheme \<Rightarrow> (int \<times> 'a feat_state_scheme) option" where
  "get_therm_temp_reading_json P msr_therm_stat msr_pkg_therm_stat msr_temp_target s = do {
     (T, s) \<leftarrow> get_topo (pe_hw P) P_INTEL_CPU_IDX s;
     (pt, s) \<leftarrow> get_pkg_therm_stat P msr_pkg_therm_stat s;
     (tt, s) \<leftarrow> get_temp_target P msr_temp_target s;
     (ts, s) \<leftarrow> get_therm_stat P msr_therm_stat s;
     s \<leftarrow> for_sockets (thermal_json_socket T tt pt ts) [0..<unat (nsockets T)] s;
     Some (0, s)
   }"

end
