(* ===== verification/Misc_Features.thy ===== *)
theory Misc_Features imports Features begin

text \<open>
  misc_features.c: ratios of the platform information register, the turbo schedules, and switching
  turbo mode on and off. Registers are read from every socket, and the first two sockets have to agree.
\<close>

definition PLATFORM_INFO :: int where "PLATFORM_INFO = 29"
definition MIN_OPERATING_RATIO :: int where "MIN_OPERATING_RATIO = 30"
definition MAX_EFFICIENCY :: int where "MAX_EFFICIENCY = 31"
definition TURBO_RATIO_LIMIT :: int where "TURBO_RATIO_LIMIT = 32"
definition TURBO_RATIO_LIMIT1 :: int where "TURBO_RATIO_LIMIT1 = 33"
definition TURBO_RATIO_LIMIT_CORES :: int where "TURBO_RATIO_LIMIT_CORES = 34"
definition TDP_DEFS :: int where "TDP_DEFS = 35"
definition TDP_CONFIG :: int where "TDP_CONFIG = 36"

section \<open>Ratios\<close>

text \<open>
  The three functions differ in their batch and in their field. The result has the value for \<open>*val\<close>, in MHz,
  or None where it is not assigned. With one socket there is nothing to compare.
\<close>

definition get_ratio ::
  "power_env \<Rightarrow> static_array \<Rightarrow> int \<Rightarrow> nat \<Rightarrow> nat \<Rightarrow> u64 \<Rightarrow> 'a feat_state_scheme \<Rightarrow> (int \<times> int option \<times> 'a feat_state_scheme) option" where
  "get_ratio P v batchnum m n msr_platform_info s = do {
     (T, s) \<leftarrow> get_topo (pe_hw P) P_INTEL_CPU_IDX s;
     s \<leftarrow> once_socket P v (nsockets T) msr_platform_info batchnum s;
     (err, s) \<leftarrow> call_read_batch P batchnum s;
     if err \<noteq> 0 then Some (-1, None, variorum_error_handler VARIORUM_ERROR_MSR_BATCH s)
     else do {
       w0 \<leftarrow> read_at v 0 s;
       let ratio = int_of_u64 (MASK_VAL w0 m n);
       if nsockets T \<noteq> 1 then do {
         w1 \<leftarrow> read_at v 1 s;
         if ratio \<noteq> int_of_u64 (MASK_VAL w1 m n) then Some (err_code VARIORUM_ERROR_INVAL, None, s)
         else Some (0, Some (ratio * 100), s)
       } else Some (0, Some (ratio * 100), s)
     }
   }"

definition get_max_non_turbo_ratio ::
  "power_env \<Rightarrow> u64 \<Rightarrow> 'a feat_state_scheme \<Rightarrow> (int \<times> int option \<times> 'a feat_state_scheme) option" where
  "get_max_non_turbo_ratio P msr_platform_info s = get_ratio P Non_turbo_val PLATFORM_INFO 15 8 msr_platform_info s"

definition get_max_efficiency_ratio ::
  "power_env \<Rightarrow> u64 \<Rightarrow> 'a feat_state_scheme \<Rightarrow> (int \<times> int option \<times> 'a feat_state_scheme) option" where
  "get_max_efficiency_ratio P msr_platform_info s = get_ratio P Efficiency_val MAX_EFFICIENCY 47 40 msr_platform_info s"

definition get_min_operating_ratio ::
  "power_env \<Rightarrow> u64 \<Rightarrow> 'a feat_state_scheme \<Rightarrow> (int \<times> int option \<times> 'a feat_state_scheme) option" where
  "get_min_operating_ratio P msr_platform_info s = get_ratio P Operating_val MIN_OPERATING_RATIO 55 48 msr_platform_info s"

section \<open>Turbo schedules\<close>

text \<open>
  The lines of one register, a byte for each number of cores; \<open>stop\<close> is the test after the
  number has been increased. The number goes on in the next register.
\<close>

definition turbo_line :: "u32 \<Rightarrow> u64 \<Rightarrow> nat \<Rightarrow> line" where
  "turbo_line core w nbits = [FI (uint core), FI (int_of_u64 (MASK_VAL w (nbits + 7) nbits) * 100)]"

definition nbits_range :: "nat list" where
  "nbits_range = [0, 8, 16, 24, 32, 40, 48, 56]"

fun turbo_loop :: "(u32 \<Rightarrow> bool) \<Rightarrow> u64 \<Rightarrow> nat list \<Rightarrow> u32 \<Rightarrow> line list \<times> u32" where
  "turbo_loop stop w [] core = ([], core)"
| "turbo_loop stop w (nbits # ns) core =
    (let l = turbo_line core w nbits; core = core + 1 in
     if stop core then ([l], core) else let (ls, core) = turbo_loop stop w ns core in (l # ls, core))"

definition get_turbo_ratio_limit :: "power_env \<Rightarrow> u64 \<Rightarrow> 'a feat_state_scheme \<Rightarrow> (int \<times> 'a feat_state_scheme) option" where
  "get_turbo_ratio_limit P msr_turbo_ratio_limit s = do {
     (T, s) \<leftarrow> get_topo (pe_hw P) P_INTEL_CPU_IDX s;
     s \<leftarrow> once_socket P Turbo_limit_val (nsockets T) msr_turbo_ratio_limit TURBO_RATIO_LIMIT s;
     (_, s) \<leftarrow> call_read_batch P TURBO_RATIO_LIMIT s;
     w0 \<leftarrow> read_at Turbo_limit_val 0 s;
     w1 \<leftarrow> (if nsockets T \<noteq> 1 then read_at Turbo_limit_val 1 s else Some w0);
     if w0 \<noteq> w1 then Some (err_code VARIORUM_ERROR_INVAL, s)
     else Some (0, fold say (fst (turbo_loop (\<lambda>core. ncores T < core) w0 nbits_range 1)) s)
   }"

text \<open>Two registers of each socket, in two batches.\<close>

definition once_two ::
  "power_env \<Rightarrow> static_array \<Rightarrow> static_array \<Rightarrow> u32 \<Rightarrow> u64 \<Rightarrow> u64 \<Rightarrow> int \<Rightarrow> int \<Rightarrow> 'a feat_state_scheme \<Rightarrow> 'a feat_state_scheme option" where
  "once_two P v v2 n msr msr2 batchnum batchnum2 s =
    (if arrays s v \<noteq> None then Some s
     else do {
       (_, s) \<leftarrow> allocate_batch batchnum (ucast n) s;
       (_, s) \<leftarrow> allocate_batch batchnum2 (ucast n) s;
       s \<leftarrow> load_socket_array P v (unat n) msr batchnum s;
       load_socket_array P v2 (unat n) msr2 batchnum2 s
     })"

definition get_turbo_ratio_limits :: "power_env \<Rightarrow> u64 \<Rightarrow> u64 \<Rightarrow> 'a feat_state_scheme \<Rightarrow> (int \<times> 'a feat_state_scheme) option" where
  "get_turbo_ratio_limits P msr_turbo_ratio_limit msr_turbo_ratio_limit1 s = do {
     (T, s) \<leftarrow> get_topo (pe_hw P) P_INTEL_CPU_IDX s;
     s \<leftarrow> once_two P Turbo_limits_val Turbo_limits_val2 (nsockets T) msr_turbo_ratio_limit msr_turbo_ratio_limit1
           TURBO_RATIO_LIMIT TURBO_RATIO_LIMIT1 s;
     (_, s) \<leftarrow> call_read_batch P TURBO_RATIO_LIMIT s;
     (_, s) \<leftarrow> call_read_batch P TURBO_RATIO_LIMIT1 s;
     w0 \<leftarrow> read_at Turbo_limits_val 0 s;
     w1 \<leftarrow> (if nsockets T \<noteq> 1 then read_at Turbo_limits_val 1 s else Some w0);
     x0 \<leftarrow> read_at Turbo_limits_val2 0 s;
     x1 \<leftarrow> (if nsockets T \<noteq> 1 then read_at Turbo_limits_val2 1 s else Some x0);
     if w0 \<noteq> w1 \<or> x0 \<noteq> x1 then Some (err_code VARIORUM_ERROR_INVAL, s)
     else do {
       let (ls, core) = turbo_loop (\<lambda>core. ncores T < core) w0 nbits_range 1;
       let (ls2, core) = turbo_loop (\<lambda>core. ncores T \<le> core) x0 nbits_range core;
       Some (0, fold say (ls @ ls2) s)
     }
   }"

text \<open>Skylake has the numbers of cores in a register of their own.\<close>

fun turbo_skx_loop :: "u32 \<Rightarrow> u64 \<Rightarrow> u64 \<Rightarrow> nat list \<Rightarrow> line list" where
  "turbo_skx_loop ncores_all w cs [] = []"
| "turbo_skx_loop ncores_all w cs (nbits # ns) =
    (let core = unsigned_of_int (int_of_u64 (MASK_VAL cs (nbits + 7) nbits)) in
     if ncores_all < core then [] else turbo_line core w nbits # turbo_skx_loop ncores_all w cs ns)"

definition get_turbo_ratio_limits_skx :: "power_env \<Rightarrow> u64 \<Rightarrow> u64 \<Rightarrow> 'a feat_state_scheme \<Rightarrow> (int \<times> 'a feat_state_scheme) option" where
  "get_turbo_ratio_limits_skx P msr_turbo_ratio_limit msr_turbo_ratio_limit_cores s = do {
     (T, s) \<leftarrow> get_topo (pe_hw P) P_INTEL_CPU_IDX s;
     s \<leftarrow> once_two P Turbo_skx_val Turbo_skx_val2 (nsockets T) msr_turbo_ratio_limit msr_turbo_ratio_limit_cores
           TURBO_RATIO_LIMIT TURBO_RATIO_LIMIT_CORES s;
     (_, s) \<leftarrow> call_read_batch P TURBO_RATIO_LIMIT s;
     (_, s) \<leftarrow> call_read_batch P TURBO_RATIO_LIMIT_CORES s;
     w0 \<leftarrow> read_at Turbo_skx_val 0 s;
     w1 \<leftarrow> (if nsockets T \<noteq> 1 then read_at Turbo_skx_val 1 s else Some w0);
     x0 \<leftarrow> read_at Turbo_skx_val2 0 s;
     x1 \<leftarrow> (if nsockets T \<noteq> 1 then read_at Turbo_skx_val2 1 s else Some x0);
     if w0 \<noteq> w1 \<or> x0 \<noteq> x1 then Some (err_code VARIORUM_ERROR_INVAL, s)
     else Some (0, fold say (turbo_skx_loop (ncores T) w0 x0 nbits_range) s)
   }"

section \<open>TDP levels\<close>

text \<open>The first call decides which register both levels read.\<close>

definition config_tdp :: "power_env \<Rightarrow> int \<Rightarrow> u64 \<Rightarrow> 'a feat_state_scheme \<Rightarrow> (int \<times> 'a feat_state_scheme) option" where
  "config_tdp P nlevels msr_config_tdp_level s = do {
     (rc, level, s) \<leftarrow> get_ratio P Config_tdp_val TDP_CONFIG 23 16 msr_config_tdp_level s;
     case level of
       None \<Rightarrow> Some (rc, s)
     | Some mhz \<Rightarrow> Some (0,
         if nlevels = 2 then say [FS ''AVX512'', FI mhz] s
         else if nlevels = 1 then say [FS ''AVX'', FI mhz] s else s)
   }"

text \<open>The addresses of the levels are handed over as pointers; None is NULL.\<close>

definition get_avx_limits :: "power_env \<Rightarrow> u64 \<Rightarrow> u64 option \<Rightarrow> u64 option \<Rightarrow> 'a feat_state_scheme \<Rightarrow> (int \<times> 'a feat_state_scheme) option" where
  "get_avx_limits P msr_platform_info msr_config_tdp_l1 msr_config_tdp_l2 s = do {
     (T, s) \<leftarrow> get_topo (pe_hw P) P_INTEL_CPU_IDX s;
     s \<leftarrow> once_socket P Avx_val (nsockets T) msr_platform_info TDP_DEFS s;
     (err, s) \<leftarrow> call_read_batch P TDP_DEFS s;
     if err \<noteq> 0 then Some (-1, variorum_error_handler VARIORUM_ERROR_MSR_BATCH s)
     else do {
       w0 \<leftarrow> read_at Avx_val 0 s;
       let nvalues = int_of_u64 (MASK_VAL w0 34 33);
       s \<leftarrow> (if nvalues = 2 then do { l2 \<leftarrow> msr_config_tdp_l2; map_option snd (config_tdp P 2 l2 s) }
             else if nvalues = 1 then do { l1 \<leftarrow> msr_config_tdp_l1; map_option snd (config_tdp P 1 l1 s) }
             else if nvalues = 0 then do {
               (_, ratio, s) \<leftarrow> get_max_non_turbo_ratio P msr_platform_info s;
               Some (case ratio of None \<Rightarrow> s | Some mhz \<Rightarrow> say [FS ''Non-AVX'', FI mhz] s)
             } else Some s);
       Some (0, s)
     }
   }"

section \<open>Turbo mode\<close>

text \<open>Shifting 1 into or past the sign bit is undefined.\<close>

definition turbo_mask :: "nat \<Rightarrow> u64 option" where
  "turbo_mask turbo_mode_disable_bit = (if turbo_mode_disable_bit < 63 then Some (push_bit turbo_mode_disable_bit 1) else None)"

text \<open>
  The loop over the sockets, which the first error ends; \<open>new\<close> is the value to be written, None
  when the bit is as wanted already.
\<close>

fun turbo_sockets ::
  "power_env \<Rightarrow> u64 \<Rightarrow> (u64 \<Rightarrow> u64 option) \<Rightarrow> string \<Rightarrow> nat list \<Rightarrow> 'a rapl_state_scheme \<Rightarrow> (int \<times> 'a rapl_state_scheme) option" where
  "turbo_sockets P msr_misc_enable new said [] s = Some (0, s)"
| "turbo_sockets P msr_misc_enable new said (socket # is) s = do {
     (ret, msr_val, s) \<leftarrow> call_read_coord P (of_nat socket) msr_misc_enable 0 s;
     if ret \<noteq> 0 then Some (ret, variorum_error_handler VARIORUM_ERROR_MSR_READ s)
     else do {
       (ret, s) \<leftarrow> (case new msr_val of
           None \<Rightarrow> Some (0, s)
         | Some write_val \<Rightarrow> call_write_coord P (of_nat socket) msr_misc_enable write_val s);
       if ret \<noteq> 0 then Some (ret, variorum_error_handler VARIORUM_ERROR_MSR_WRITE s)
       else turbo_sockets P msr_misc_enable new said is (say [FS said, FI (int socket)] s)
     }
   }"

definition clear_mask :: "u64 \<Rightarrow> u64 \<Rightarrow> u64 option" where
  "clear_mask m msr_val = (if msr_val = msr_val OR m then Some (msr_val AND NOT m) else None)"

definition set_mask :: "u64 \<Rightarrow> u64 \<Rightarrow> u64 option" where
  "set_mask m msr_val = (if msr_val \<noteq> msr_val OR m then Some (msr_val OR m) else None)"

definition set_turbo_on :: "power_env \<Rightarrow> u64 \<Rightarrow> nat \<Rightarrow> 'a rapl_state_scheme \<Rightarrow> (int \<times> 'a rapl_state_scheme) option" where
  "set_turbo_on P msr_misc_enable turbo_mode_disable_bit s = do {
     (T, s) \<leftarrow> get_topo (pe_hw P) P_INTEL_CPU_IDX s;
     mask \<leftarrow> turbo_mask turbo_mode_disable_bit;
     turbo_sockets P msr_misc_enable (clear_mask mask) ''Turbo enabled on socket'' [0..<unat (nsockets T)] s
   }"

definition set_turbo_off :: "power_env \<Rightarrow> u64 \<Rightarrow> nat \<Rightarrow> 'a rapl_state_scheme \<Rightarrow> (int \<times> 'a rapl_state_scheme) option" where
  "set_turbo_off P msr_misc_enable turbo_mode_disable_bit s = do {
     (T, s) \<leftarrow> get_topo (pe_hw P) P_INTEL_CPU_IDX s;
     mask \<leftarrow> turbo_mask turbo_mode_disable_bit;
     turbo_sockets P msr_misc_enable (set_mask mask) ''Turbo disabled on socket'' [0..<unat (nsockets T)] s
   }"

fun turbo_status_loop ::
  "power_env \<Rightarrow> u64 \<Rightarrow> u64 \<Rightarrow> nat list \<Rightarrow> 'a rapl_state_scheme \<Rightarrow> (int \<times> 'a rapl_state_scheme) option" where
  "turbo_status_loop P msr_misc_enable m [] s = Some (0, s)"
| "turbo_status_loop P msr_misc_enable m (socket # is) s = do {
     (ret, msr_val, s) \<leftarrow> call_read_coord P (of_nat socket) msr_misc_enable 0 s;
     if ret \<noteq> 0 then Some (ret, variorum_error_handler VARIORUM_ERROR_MSR_READ s)
     else turbo_status_loop P msr_misc_enable m is
       (say [FS (if msr_val = msr_val OR m then ''Turbo disabled on socket'' else ''Turbo enabled on socket''), FI (int socket)] s)
   }"

definition print_turbo_status :: "power_env \<Rightarrow> u64 \<Rightarrow> nat \<Rightarrow> 'a rapl_state_scheme \<Rightarrow> (int \<times> 'a rapl_state_scheme) option" where
  "print_turbo_status P msr_misc_enable turbo_mode_disable_bit s = do {
     (T, s) \<leftarrow> get_topo (pe_hw P) P_INTEL_CPU_IDX s;
     mask \<leftarrow> turbo_mask turbo_mode_disable_bit;
     turbo_status_loop P msr_misc_enable mask [0..<unat (nsockets T)] s
   }"

end
