(* ===== verification/Clocks_Features.thy ===== *)
theory Clocks_Features imports Misc_Features begin

text \<open>
  clocks_features.c: the clock counters of the threads and the frequencies made of them, the
  request for a frequency, and the table of available frequencies.
\<close>

datatype ctl_domains_e = THREAD | CORE | SOCKET | NODE | TILE | UNIQUE | SHARED

definition CLOCKS_DATA :: int where "CLOCKS_DATA = 6"
definition PERF_DATA :: int where "PERF_DATA = 7"
definition PERF_CTRL :: int where "PERF_CTRL = 13"

section \<open>Storage\<close>

definition clocks_storage :: "power_env \<Rightarrow> u64 \<Rightarrow> u64 \<Rightarrow> u64 \<Rightarrow> 'a feat_state_scheme \<Rightarrow> 'a feat_state_scheme option" where
  "clocks_storage P msr_aperf msr_mperf msr_tsc s =
    (if arrays s Clocks_tsc \<noteq> None then Some s
     else do {
       (T, s) \<leftarrow> get_topo (pe_hw P) P_INTEL_CPU_IDX s;
       let n = unat (nthreads T);
       (_, s) \<leftarrow> allocate_batch CLOCKS_DATA (3 * ucast (nthreads T)) s;
       s \<leftarrow> load_thread_array P Clocks_aperf n msr_aperf CLOCKS_DATA s;
       s \<leftarrow> load_thread_array P Clocks_mperf n msr_mperf CLOCKS_DATA s;
       load_thread_array P Clocks_tsc n msr_tsc CLOCKS_DATA s
     })"

text \<open>The domain of the first call decides for which processors the control registers are loaded.\<close>

definition perf_storage_temp ::
  "power_env \<Rightarrow> u64 \<Rightarrow> ctl_domains_e \<Rightarrow> 'a feat_state_scheme \<Rightarrow> 'a feat_state_scheme option" where
  "perf_storage_temp P msr_perf_ctl control_domains s = do {
     (T, s) \<leftarrow> get_topo (pe_hw P) P_INTEL_CPU_IDX s;
     if Perf_storage_temp \<in> feat_inited s then Some s
     else do {
       let s = set_feat Perf_storage_temp s;
       (case control_domains of
          SOCKET \<Rightarrow> do {
            (_, s) \<leftarrow> allocate_batch PERF_CTRL (2 * ucast (nsockets T)) s;
            load_socket_array P Perf_ctl (unat (nsockets T)) msr_perf_ctl PERF_CTRL s
          }
        | CORE \<Rightarrow> do {
            (_, s) \<leftarrow> allocate_batch PERF_CTRL (2 * ucast (nthreads T)) s;
            load_thread_array P Perf_ctl (unat (nthreads T)) msr_perf_ctl PERF_CTRL s
          }
        | _ \<Rightarrow> Some s)
     }
   }"

definition perf_storage :: "power_env \<Rightarrow> u64 \<Rightarrow> 'a feat_state_scheme \<Rightarrow> 'a feat_state_scheme option" where
  "perf_storage P msr_perf_status s =
    (if arrays s Perf_status \<noteq> None then Some s
     else do {
       (T, s) \<leftarrow> get_topo (pe_hw P) P_INTEL_CPU_IDX s;
       (_, s) \<leftarrow> allocate_batch PERF_DATA (2 * ucast (nsockets T)) s;
       load_socket_array P Perf_status (unat (nsockets T)) msr_perf_status PERF_DATA s
     })"

section \<open>Reporting frequencies\<close>

text \<open>The first thread of each socket; the loops over its cores and threads make one step.\<close>

definition socket_grid :: "topo \<Rightarrow> (nat \<times> nat \<times> nat) list" where
  "socket_grid T = [(i, j, k) \<leftarrow> grid T. j = 0 \<and> k = 0]"

definition avg_freq :: "int \<Rightarrow> u64 \<Rightarrow> u64 \<Rightarrow> double" where
  "avg_freq max_non_turbo_ratio aperf mperf = d_mul (d_of_int max_non_turbo_ratio) (d_div (d_of_u64 aperf) (d_of_u64 mperf))"

definition clocks_columns :: "topo \<Rightarrow> int \<Rightarrow> nat \<times> nat \<times> nat \<Rightarrow> 'a feat_state_scheme \<Rightarrow> line option" where
  "clocks_columns T ratio = (\<lambda>(i, j, k) s. do {
     let idx = thread_idx T i j k;
     aperf \<leftarrow> read_at Clocks_aperf idx s;
     mperf \<leftarrow> read_at Clocks_mperf idx s;
     tsc \<leftarrow> read_at Clocks_tsc idx s;
     perf \<leftarrow> read_at Perf_status i s;
     Some [FX aperf, FX mperf, FX tsc, FX (MASK_VAL perf 15 8 * 100), FF (avg_freq ratio aperf mperf)]
   })"

definition clocks_lines ::
  "power_env \<Rightarrow> topo \<Rightarrow> string \<Rightarrow> string \<Rightarrow> int \<Rightarrow> ctl_domains_e \<Rightarrow> 'a feat_state_scheme \<Rightarrow> line list option" where
  "clocks_lines P T socket_label core_label ratio control_domains s =
    (case control_domains of
       SOCKET \<Rightarrow> those (map (\<lambda>(i, j, k). map_option (\<lambda>cs. [FS socket_label, FS (pe_host P), FI (int i)] @ cs)
                  (clocks_columns T ratio (i, j, k) s)) (socket_grid T))
     | CORE \<Rightarrow> those (map (\<lambda>(i, j, k). map_option (\<lambda>cs. [FS core_label, FS (pe_host P), FI (int i), FI (int j), FI (int k),
                  FI (int (thread_idx T i j k))] @ cs) (clocks_columns T ratio (i, j, k) s)) (grid T))
     | _ \<Rightarrow> Some [])"

definition clocks_header :: "ctl_domains_e \<Rightarrow> line list" where
  "clocks_header control_domains =
    (case control_domains of
       SOCKET \<Rightarrow> [map FS [''_CLOCKS_DATA'', ''Host'', ''Socket'', ''APERF'', ''MPERF'', ''TSC'', ''CurrFreq_MHz'', ''AvgFreq_MHz'']]
     | CORE \<Rightarrow> [map FS [''_CLOCKS_DATA'', ''Host'', ''Socket'', ''Core'', ''PhysicalThread'', ''LogicalThread'',
         ''APERF'', ''MPERF'', ''TSC'', ''CurrFreq_MHz'', ''AvgFreq_MHz'']]
     | _ \<Rightarrow> [])"

definition print_clocks_data ::
  "power_env \<Rightarrow> u64 \<Rightarrow> u64 \<Rightarrow> u64 \<Rightarrow> u64 \<Rightarrow> u64 \<Rightarrow> ctl_domains_e \<Rightarrow> 'a feat_state_scheme \<Rightarrow> (int \<times> 'a feat_state_scheme) option" where
  "print_clocks_data P msr_aperf msr_mperf msr_tsc msr_perf_status msr_platform_info control_domains s = do {
     (err, ratio, s) \<leftarrow> get_max_non_turbo_ratio P msr_platform_info s;
     if err \<noteq> 0 then Some (-1, variorum_error_handler VARIORUM_ERROR_FUNCTION s)
     else do {
       ratio \<leftarrow> ratio;
       (T, s) \<leftarrow> get_topo (pe_hw P) P_INTEL_CPU_IDX s;
       s \<leftarrow> (if Print_clocks_data \<in> feat_inited s then Some s
             else do {
               s \<leftarrow> clocks_storage P msr_aperf msr_mperf msr_tsc s;
               s \<leftarrow> perf_storage P msr_perf_status s;
               Some (set_feat Print_clocks_data (fold say (clocks_header control_domains) s))
             });
       (_, s) \<leftarrow> call_read_batch P CLOCKS_DATA s;
       (_, s) \<leftarrow> call_read_batch P PERF_DATA s;
       ls \<leftarrow> clocks_lines P T ''_CLOCKS_DATA'' ''_CLOCKS_DATA'' ratio control_domains s;
       Some (0, fold say ls s)
     }
   }"

definition print_verbose_clocks_data ::
  "power_env \<Rightarrow> u64 \<Rightarrow> u64 \<Rightarrow> u64 \<Rightarrow> u64 \<Rightarrow> u64 \<Rightarrow> ctl_domains_e \<Rightarrow> 'a feat_state_scheme \<Rightarrow> (int \<times> 'a feat_state_scheme) option" where
  "print_verbose_clocks_data P msr_aperf msr_mperf msr_tsc msr_perf_status msr_platform_info control_domains s = do {
     (err, ratio, s) \<leftarrow> get_max_non_turbo_ratio P msr_platform_info s;
     if err \<noteq> 0 then Some (-1, variorum_error_handler VARIORUM_ERROR_FUNCTION s)
     else do {
       ratio \<leftarrow> ratio;
       (T, s) \<leftarrow> get_topo (pe_hw P) P_INTEL_CPU_IDX s;
       s \<leftarrow> clocks_storage P msr_aperf msr_mperf msr_tsc s;
       s \<leftarrow> perf_storage P msr_perf_status s;
       (_, s) \<leftarrow> call_read_batch P CLOCKS_DATA s;
       (_, s) \<leftarrow> call_read_batch P PERF_DATA s;
       ls \<leftarrow> clocks_lines P T ''_CLOCKS_DATA Host, Socket, APERF, MPERF, TSC, CurrFreq, AvgFreq''
         ''_CLOCKS_DATA Host, Socket, Core, PhysicalThread, LogicalThread, APERF, MPERF, TSC, CurrFreq, AvgFreq''
         ratio control_domains s;
       Some (0, fold say ls s)
     }
   }"

section \<open>JSON\<close>

definition make_socket_obj :: "nat \<Rightarrow> 'a rapl_state_scheme \<Rightarrow> string \<times> 'a rapl_state_scheme" where
  "make_socket_obj socket_index s =
    (let socket_name = snprintf 16 (''socket_'' @ dec socket_index) in (socket_name, get_or_make [socket_name] s))"

text \<open>The sum over the threads of a core is divided by 2, whatever their number.\<close>

definition core_frequency :: "topo \<Rightarrow> int \<Rightarrow> nat \<Rightarrow> nat \<Rightarrow> 'a feat_state_scheme \<Rightarrow> double option" where
  "core_frequency T ratio i j s = do {
     fs \<leftarrow> those (map (\<lambda>k. do {
         aperf \<leftarrow> read_at Clocks_aperf (thread_idx T i j k) s;
         mperf \<leftarrow> read_at Clocks_mperf (thread_idx T i j k) s;
         Some (avg_freq ratio aperf mperf)
       }) [0..<unat (nthreads T div ncores T)]);
     Some (d_div (foldl d_add (Fin 0) fs) (Fin 2))
   }"

fun clocks_json_cores ::
  "topo \<Rightarrow> int \<Rightarrow> string \<Rightarrow> nat \<Rightarrow> nat list \<Rightarrow> double \<Rightarrow> 'a feat_state_scheme \<Rightarrow> (double \<times> 'a feat_state_scheme) option" where
  "clocks_json_cores T ratio name i [] avg s = Some (avg, s)"
| "clocks_json_cores T ratio name i (j # js) avg s = do {
     f \<leftarrow> core_frequency T ratio i j s;
     clocks_json_cores T ratio name i js (to_float (d_add avg f))
       (json_set [name, ''CPU'', ''core'', snprintf 24 (''core_'' @ dec j @ ''_avg_freq_mhz'')] (J_real f) s)
   }"

definition clocks_json_socket :: "topo \<Rightarrow> int \<Rightarrow> nat \<Rightarrow> 'a feat_state_scheme \<Rightarrow> 'a feat_state_scheme option" where
  "clocks_json_socket T ratio i s = do {
     let (name, s) = make_socket_obj i s;
     let s = json_set [name, ''CPU''] J_object s;
     let s = json_set [name, ''CPU'', ''core''] J_object s;
     (avg, s) \<leftarrow> clocks_json_cores T ratio name i [0..<unat (ncores T div nsockets T)] (Fin 0) s;
     Some (json_set [name, ''CPU'', ''cpu_avg_freq_mhz''] (J_real (f_div avg (f_of_int (uint (ncores T div nsockets T))))) s)
   }"

definition get_clocks_data_json ::
  "power_env \<Rightarrow> u64 \<Rightarrow> u64 \<Rightarrow> u64 \<Rightarrow> u64 \<Rightarrow> u64 \<Rightarrow> ctl_domains_e \<Rightarrow> 'a feat_state_scheme \<Rightarrow> (int \<times> 'a feat_state_scheme) option" where
  "get_clocks_data_json P msr_aperf msr_mperf msr_tsc msr_perf_status msr_platform_info control_domains s = do {
     (err, ratio, s) \<leftarrow> get_max_non_turbo_ratio P msr_platform_info s;
     if err \<noteq> 0 then Some (-1, variorum_error_handler VARIORUM_ERROR_FUNCTION s)
     else do {
       ratio \<leftarrow> ratio;
       (T, s) \<leftarrow> get_topo (pe_hw P) P_INTEL_CPU_IDX s;
       s \<leftarrow> clocks_storage P msr_aperf msr_mperf msr_tsc s;
       s \<leftarrow> perf_storage P msr_perf_status s;
       (_, s) \<leftarrow> call_read_batch P CLOCKS_DATA s;
       (_, s) \<leftarrow> call_read_batch P PERF_DATA s;
       if control_domains = CORE then do {
         s \<leftarrow> for_sockets (clocks_json_socket T ratio) [0..<unat (nsockets T)] s;
         Some (0, s)
       } else Some (0, s)
     }
   }"

section \<open>Setting a frequency\<close>

text \<open>\<open>cpu_freq_mhz / 100 * 256\<close> of an int, converted to 64 bits; its overflow is undefined.\<close>

definition perf_ctl_value :: "int \<Rightarrow> u64 option" where
  "perf_ctl_value cpu_freq_mhz =
    (let v = (cpu_freq_mhz sdiv 100) * 256 in if - (2 ^ 31) \<le> v \<and> v < 2 ^ 31 then Some (word_of_int v) else None)"

definition cap_p_state ::
  "power_env \<Rightarrow> int \<Rightarrow> ctl_domains_e \<Rightarrow> u64 \<Rightarrow> 'a feat_state_scheme \<Rightarrow> 'a feat_state_scheme option" where
  "cap_p_state P cpu_freq_mhz domain msr_perf_status s = do {
     (T, s) \<leftarrow> get_topo (pe_hw P) P_INTEL_CPU_IDX s;
     s \<leftarrow> perf_storage_temp P msr_perf_status domain s;
     (case domain of
        SOCKET \<Rightarrow> do {
          let s = say [FS ''Cap frequencies per socket''] s;
          v \<leftarrow> perf_ctl_value cpu_freq_mhz;
          s \<leftarrow> for_sockets (\<lambda>i. write_at Perf_ctl i v) [0..<unat (nsockets T)] s;
          map_option snd (call_write_batch P PERF_CTRL s)
        }
      | CORE \<Rightarrow> do {
          let s = say [FS ''Cap frequencies per core''] s;
          v \<leftarrow> perf_ctl_value cpu_freq_mhz;
          s \<leftarrow> for_sockets (\<lambda>i. write_at Perf_ctl i v) [0..<unat (nthreads T)] s;
          (_, s) \<leftarrow> call_write_batch P PERF_CTRL s;
          map_option snd (call_read_batch P PERF_CTRL s)
        }
      | _ \<Rightarrow> Some s)
   }"

section \<open>Available frequencies\<close>

text \<open>
  The table at the end of both functions. The code prints the maximum non-turbo ratio after the
  label of the efficiency ratio and the other way round.
\<close>

definition p_state_table :: "power_env \<Rightarrow> u64 \<Rightarrow> 'a feat_state_scheme \<Rightarrow> 'a feat_state_scheme option" where
  "p_state_table P msr_platform_info s = do {
     let s = say [FS ''=== P-State Table ===''] s;
     (_, r, s) \<leftarrow> get_max_non_turbo_ratio P msr_platform_info s;
     let s = (case r of None \<Rightarrow> s | Some mhz \<Rightarrow> say [FS ''Max Efficiency Ratio'', FI mhz] s);
     (_, r, s) \<leftarrow> get_max_efficiency_ratio P msr_platform_info s;
     let s = (case r of None \<Rightarrow> s | Some mhz \<Rightarrow> say [FS ''Max Non-Turbo Ratio'', FI mhz] s);
     (_, r, s) \<leftarrow> get_min_operating_ratio P msr_platform_info s;
     Some (case r of None \<Rightarrow> s | Some mhz \<Rightarrow> say [FS ''Min Operating Ratio'', FI mhz] s)
   }"

text \<open>The arguments are pointers to addresses; a NULL among them is dereferenced where the address is needed.\<close>

definition get_available_frequencies_skx ::
  "power_env \<Rightarrow> u64 \<Rightarrow> u64 \<Rightarrow> u64 option \<Rightarrow> u64 option \<Rightarrow> u64 option \<Rightarrow> 'a feat_state_scheme \<Rightarrow> 'a feat_state_scheme option" where
  "get_available_frequencies_skx P msr_platform_info msr_turbo_ratio_limit msr_turbo_ratio_limit_cores
       msr_config_tdp_l1 msr_config_tdp_l2 s = do {
     let s = say [FS ''=== Turbo Schedule ===''] s;
     cores \<leftarrow> msr_turbo_ratio_limit_cores;
     (rc, s) \<leftarrow> get_turbo_ratio_limits_skx P msr_turbo_ratio_limit cores s;
     let s = (if rc \<noteq> 0 then variorum_error_handler VARIORUM_ERROR_INVAL s else s);
     let s = say [FS ''=== AVX Schedule ===''] s;
     (_, s) \<leftarrow> get_avx_limits P msr_platform_info msr_config_tdp_l1 msr_config_tdp_l2 s;
     p_state_table P msr_platform_info s
   }"

definition get_available_frequencies ::
  "power_env \<Rightarrow> u64 \<Rightarrow> u64 \<Rightarrow> u64 option \<Rightarrow> u64 option \<Rightarrow> u64 option \<Rightarrow> 'a feat_state_scheme \<Rightarrow> 'a feat_state_scheme option" where
  "get_available_frequencies P msr_platform_info msr_turbo_ratio_limit msr_turbo_ratio_limit1
       msr_config_tdp_l1 msr_config_tdp_l2 s = do {
     let s = say [FS ''=== Turbo Schedule ===''] s;
     limit1 \<leftarrow> msr_turbo_ratio_limit1;
     (rc, s) \<leftarrow> get_turbo_ratio_limits P msr_turbo_ratio_limit limit1 s;
     let s = (if rc \<noteq> 0 then variorum_error_handler VARIORUM_ERROR_INVAL s else s);
     let s = say [FS ''=== AVX Schedule ===''] s;
     (_, s) \<leftarrow> get_avx_limits P msr_platform_info msr_config_tdp_l1 msr_config_tdp_l2 s;
     p_state_table P msr_platform_info s
   }"

end
