(* ===== verification/Counters_Features.thy ===== *)
theory Counters_Features imports Clocks_Features begin

text \<open>
  counters_features.c: the fixed counters, the programmable counters and their event selectors, the
  counters of the uncore, and the monitoring line that has all of them beside energy and limits.
  The number of programmable counters comes from the cpuid instruction, a parameter: what it leaves
  in rax for a leaf.
\<close>

definition FIXED_COUNTERS_DATA :: int where "FIXED_COUNTERS_DATA = 2"
definition FIXED_COUNTERS_CTRL_DATA :: int where "FIXED_COUNTERS_CTRL_DATA = 3"
definition COUNTERS_DATA :: int where "COUNTERS_DATA = 4"
definition COUNTERS_CTRL :: int where "COUNTERS_CTRL = 5"
definition UNCORE_EVTSEL :: int where "UNCORE_EVTSEL = 16"
definition UNCORE_COUNT :: int where "UNCORE_COUNT = 17"

type_synonym cpuid = "int \<Rightarrow> u64"

definition cpuid_num_pmc :: "cpuid \<Rightarrow> int" where
  "cpuid_num_pmc rax = int_of_u64 (MASK_VAL (rax 10) 15 8)"

section \<open>Fixed counters\<close>

text \<open>malloc does not clear the arrays of a counter's fields.\<close>

definition init_fixed_counter :: "power_env \<Rightarrow> nat \<Rightarrow> fixed_fields list" where
  "init_fixed_counter P n =
     replicate n \<lparr>fc_enable = pe_junk P, fc_ring_level = pe_junk P, fc_anyThread = pe_junk P, fc_pmi = pe_junk P\<rparr>"

definition fixed_counter_storage :: "power_env \<Rightarrow> u64 list \<Rightarrow> 'a feat_state_scheme \<Rightarrow> 'a feat_state_scheme option" where
  "fixed_counter_storage P msrs_fixed_ctrs s =
    (if Fixed_counter_storage \<in> feat_inited s then Some s
     else do {
       (T, s) \<leftarrow> get_topo (pe_hw P) P_INTEL_CPU_IDX (set_feat Fixed_counter_storage s);
       let n = unat (nthreads T);
       let s = s\<lparr>fixed_counters := replicate 3 (init_fixed_counter P n)\<rparr>;
       (_, s) \<leftarrow> allocate_batch FIXED_COUNTERS_DATA (3 * ucast (nthreads T)) s;
       s \<leftarrow> load_thread_array P (Fixed_ctr 0) n (msrs_fixed_ctrs ! 0) FIXED_COUNTERS_DATA s;
       s \<leftarrow> load_thread_array P (Fixed_ctr 1) n (msrs_fixed_ctrs ! 1) FIXED_COUNTERS_DATA s;
       load_thread_array P (Fixed_ctr 2) n (msrs_fixed_ctrs ! 2) FIXED_COUNTERS_DATA s
     })"

definition fixed_counter_ctrl_storage :: "power_env \<Rightarrow> u64 \<Rightarrow> u64 \<Rightarrow> 'a feat_state_scheme \<Rightarrow> 'a feat_state_scheme option" where
  "fixed_counter_ctrl_storage P msr_perf_global_ctrl msr_fixed_counter_ctrl s =
    (if arrays s Fixed_ctr_ctrl \<noteq> None then Some s
     else do {
       (T, s) \<leftarrow> get_topo (pe_hw P) P_INTEL_CPU_IDX s;
       let n = unat (nthreads T);
       (_, s) \<leftarrow> allocate_batch FIXED_COUNTERS_CTRL_DATA (2 * ucast (nthreads T)) s;
       s \<leftarrow> load_thread_array P Perf_global_ctrl n msr_perf_global_ctrl FIXED_COUNTERS_CTRL_DATA s;
       load_thread_array P Fixed_ctr_ctrl n msr_fixed_counter_ctrl FIXED_COUNTERS_CTRL_DATA s
     })"

text \<open>\<open>(w & ~(m << n)) | (v << n)\<close>: the value is not masked.\<close>

definition put_bits :: "u64 \<Rightarrow> nat \<Rightarrow> u64 \<Rightarrow> u64 \<Rightarrow> u64" where
  "put_bits m n v w = (w AND NOT (push_bit n m)) OR push_bit n v"

definition perf_global_value :: "fixed_fields \<Rightarrow> fixed_fields \<Rightarrow> fixed_fields \<Rightarrow> u64 \<Rightarrow> u64" where
  "perf_global_value c0 c1 c2 w =
     put_bits 1 34 (fc_enable c2) (put_bits 1 33 (fc_enable c1) (put_bits 1 32 (fc_enable c0) w))"

definition fixed_ctrl_value :: "fixed_fields \<Rightarrow> fixed_fields \<Rightarrow> fixed_fields \<Rightarrow> u64 \<Rightarrow> u64" where
  "fixed_ctrl_value c0 c1 c2 w =
     put_bits 1 11 (fc_pmi c2) (put_bits 1 10 (fc_anyThread c2) (put_bits 3 8 (fc_ring_level c2)
    (put_bits 1 7 (fc_pmi c1) (put_bits 1 6 (fc_anyThread c1) (put_bits 3 4 (fc_ring_level c1)
    (put_bits 1 3 (fc_pmi c0) (put_bits 1 2 (fc_anyThread c0) (put_bits 3 0 (fc_ring_level c0) w))))))))"

definition fixed_ctrl_thread :: "nat \<Rightarrow> 'a feat_state_scheme \<Rightarrow> 'a feat_state_scheme option" where
  "fixed_ctrl_thread i s = do {
     s \<leftarrow> write_at (Fixed_ctr 0) i 0 s;
     s \<leftarrow> write_at (Fixed_ctr 1) i 0 s;
     s \<leftarrow> write_at (Fixed_ctr 2) i 0 s;
     c0 \<leftarrow> elem (fixed_counters s ! 0) i;
     c1 \<leftarrow> elem (fixed_counters s ! 1) i;
     c2 \<leftarrow> elem (fixed_counters s ! 2) i;
     g \<leftarrow> read_at Perf_global_ctrl i s;
     s \<leftarrow> write_at Perf_global_ctrl i (perf_global_value c0 c1 c2 g) s;
     f \<leftarrow> read_at Fixed_ctr_ctrl i s;
     write_at Fixed_ctr_ctrl i (fixed_ctrl_value c0 c1 c2 f) s
   }"

definition set_fixed_counter_ctrl :: "power_env \<Rightarrow> u64 \<Rightarrow> u64 \<Rightarrow> 'a feat_state_scheme \<Rightarrow> 'a feat_state_scheme option" where
  "set_fixed_counter_ctrl P msr1 msr2 s = do {
     s \<leftarrow> fixed_counter_ctrl_storage P msr1 msr2 s;
     (T, s) \<leftarrow> get_topo (pe_hw P) P_INTEL_CPU_IDX s;
     (_, s) \<leftarrow> call_read_batch P FIXED_COUNTERS_CTRL_DATA s;
     s \<leftarrow> for_sockets fixed_ctrl_thread [0..<unat (nthreads T)] s;
     map_option snd (call_write_batch P FIXED_COUNTERS_CTRL_DATA s)
   }"

text \<open>Both functions assign the same fields of the first n threads; ring level 3 is user and system.\<close>

definition assign_fixed :: "u64 \<Rightarrow> nat \<Rightarrow> fixed_fields list \<Rightarrow> fixed_fields list" where
  "assign_fixed enable n cs = map (\<lambda>c. \<lparr>fc_enable = enable, fc_ring_level = 3, fc_anyThread = 1, fc_pmi = 0\<rparr>) (take n cs) @ drop n cs"

definition enable_fixed_counters :: "power_env \<Rightarrow> u64 list \<Rightarrow> u64 \<Rightarrow> u64 \<Rightarrow> 'a feat_state_scheme \<Rightarrow> 'a feat_state_scheme option" where
  "enable_fixed_counters P msrs_fixed_ctrs msr1 msr2 s = do {
     (T, s) \<leftarrow> get_topo (pe_hw P) P_INTEL_CPU_IDX s;
     s \<leftarrow> fixed_counter_storage P msrs_fixed_ctrs s;
     set_fixed_counter_ctrl P msr1 msr2 (s\<lparr>fixed_counters := map (assign_fixed 1 (unat (nthreads T))) (fixed_counters s)\<rparr>)
   }"

definition disable_fixed_counters :: "power_env \<Rightarrow> u64 list \<Rightarrow> u64 \<Rightarrow> u64 \<Rightarrow> 'a feat_state_scheme \<Rightarrow> 'a feat_state_scheme option" where
  "disable_fixed_counters P msrs_fixed_ctrs msr1 msr2 s = do {
     (T, s) \<leftarrow> get_topo (pe_hw P) P_INTEL_CPU_IDX s;
     s \<leftarrow> fixed_counter_storage P msrs_fixed_ctrs s;
     set_fixed_counter_ctrl P msr1 msr2 (s\<lparr>fixed_counters := map (assign_fixed 0 (unat (nthreads T))) (fixed_counters s)\<rparr>)
   }"

text \<open>A line of the values of several arrays at one index.\<close>

definition values_at :: "static_array list \<Rightarrow> nat \<Rightarrow> 'a feat_state_scheme \<Rightarrow> line option" where
  "values_at vs i s = those (map (\<lambda>v. map_option FX (read_at v i s)) vs)"

definition value_lines ::
  "power_env \<Rightarrow> string \<Rightarrow> static_array list \<Rightarrow> nat \<Rightarrow> 'a feat_state_scheme \<Rightarrow> line list option" where
  "value_lines P label vs n s = those (map (\<lambda>i. map_option (\<lambda>l. [FS label, FS (pe_host P), FI (int i)] @ l) (values_at vs i s)) [0..<n])"

definition fixed_arrays :: "static_array list" where
  "fixed_arrays = [Fixed_ctr 0, Fixed_ctr 1, Fixed_ctr 2]"

definition print_fixed_counter_data :: "power_env \<Rightarrow> u64 list \<Rightarrow> 'a feat_state_scheme \<Rightarrow> 'a feat_state_scheme option" where
  "print_fixed_counter_data P msrs_fixed_ctrs s = do {
     let s = (if Print_fixed_counter_data \<in> feat_inited s then s
              else set_feat Print_fixed_counter_data (say (map FS [''_FIXED_COUNTERS'', ''Host'', ''Thread'', ''InstRet'',
                ''UnhaltClkCycles'', ''UnhaltRefCycles'']) s));
     (T, s) \<leftarrow> get_topo (pe_hw P) P_INTEL_CPU_IDX s;
     s \<leftarrow> fixed_counter_storage P msrs_fixed_ctrs s;
     (_, s) \<leftarrow> call_read_batch P FIXED_COUNTERS_DATA s;
     ls \<leftarrow> value_lines P ''_FIXED_COUNTERS'' fixed_arrays (unat (nthreads T)) s;
     Some (fold say ls s)
   }"

definition print_verbose_fixed_counter_data :: "power_env \<Rightarrow> u64 list \<Rightarrow> 'a feat_state_scheme \<Rightarrow> 'a feat_state_scheme option" where
  "print_verbose_fixed_counter_data P msrs_fixed_ctrs s = do {
     (T, s) \<leftarrow> get_topo (pe_hw P) P_INTEL_CPU_IDX s;
     s \<leftarrow> fixed_counter_storage P msrs_fixed_ctrs s;
     (_, s) \<leftarrow> call_read_batch P FIXED_COUNTERS_DATA s;
     ls \<leftarrow> value_lines P ''_FIXED_COUNTERS Host, Thread, InstRet, UnhaltClkCycles, UnhaltRefCycles'' fixed_arrays
       (unat (nthreads T)) s;
     Some (fold say ls s)
   }"

section \<open>Programmable counters\<close>

text \<open>The cases of the switches over the number of counters, in the order of the code: 8 at most.\<close>

definition pmcs :: "int \<Rightarrow> nat list" where
  "pmcs avail = (if 1 \<le> avail \<and> avail \<le> 8 then rev [0..<nat avail] else [])"

fun load_arrays ::
  "power_env \<Rightarrow> (nat \<Rightarrow> static_array) \<Rightarrow> nat \<Rightarrow> u64 list \<Rightarrow> int \<Rightarrow> nat list \<Rightarrow> 'a feat_state_scheme \<Rightarrow> 'a feat_state_scheme option" where
  "load_arrays P v n msrs batchnum [] s = Some s"
| "load_arrays P v n msrs batchnum (c # cs) s = do {
     s \<leftarrow> load_thread_array P (v c) n (msrs ! c) batchnum s;
     load_arrays P v n msrs batchnum cs s
   }"

definition init_thread_arrays ::
  "power_env \<Rightarrow> cpuid \<Rightarrow> (nat \<Rightarrow> static_array) \<Rightarrow> u64 list \<Rightarrow> int \<Rightarrow> 'a feat_state_scheme \<Rightarrow> (int \<times> 'a feat_state_scheme) option" where
  "init_thread_arrays P rax v msrs batchnum s = do {
     let avail = cpuid_num_pmc rax;
     (T, s) \<leftarrow> get_topo (pe_hw P) P_INTEL_CPU_IDX s;
     if avail < 1 then Some (-1, s)
     else do {
       (_, s) \<leftarrow> allocate_batch batchnum (ucast (word_of_int avail * nthreads T)) s;
       s \<leftarrow> load_arrays P v (unat (nthreads T)) msrs batchnum (pmcs avail) s;
       Some (0, s)
     }
   }"

definition init_pmc :: "power_env \<Rightarrow> cpuid \<Rightarrow> u64 list \<Rightarrow> 'a feat_state_scheme \<Rightarrow> (int \<times> 'a feat_state_scheme) option" where
  "init_pmc P rax msrs_perfmon_ctrs s = init_thread_arrays P rax Pmc msrs_perfmon_ctrs COUNTERS_DATA s"

definition init_perfevtsel :: "power_env \<Rightarrow> cpuid \<Rightarrow> u64 list \<Rightarrow> 'a feat_state_scheme \<Rightarrow> (int \<times> 'a feat_state_scheme) option" where
  "init_perfevtsel P rax msrs_perfevtsel_ctrs s = init_thread_arrays P rax Evtsel msrs_perfevtsel_ctrs COUNTERS_CTRL s"

text \<open>What the initialisation returns is not looked at.\<close>

definition perfevtsel_storage :: "power_env \<Rightarrow> cpuid \<Rightarrow> u64 list \<Rightarrow> 'a feat_state_scheme \<Rightarrow> 'a feat_state_scheme option" where
  "perfevtsel_storage P rax msrs_perfevtsel_ctrs s =
    (if Perfevtsel_storage \<in> feat_inited s then Some s
     else map_option (\<lambda>(_, s). set_feat Perfevtsel_storage s) (init_perfevtsel P rax msrs_perfevtsel_ctrs s))"

definition pmc_storage :: "power_env \<Rightarrow> cpuid \<Rightarrow> u64 list \<Rightarrow> 'a feat_state_scheme \<Rightarrow> 'a feat_state_scheme option" where
  "pmc_storage P rax msrs_perfmon_ctrs s =
    (if Pmc_storage \<in> feat_inited s then Some s
     else map_option (\<lambda>(_, s). set_feat Pmc_storage s) (init_pmc P rax msrs_perfmon_ctrs s))"

definition evtsel_value :: "u64 \<Rightarrow> u64 \<Rightarrow> u64 \<Rightarrow> u64 \<Rightarrow> u64" where
  "evtsel_value cmask flags umask eventsel = push_bit 24 cmask OR push_bit 16 flags OR push_bit 8 umask OR eventsel"

definition set_pmc_ctrl_flags ::
  "power_env \<Rightarrow> cpuid \<Rightarrow> u64 \<Rightarrow> u64 \<Rightarrow> u64 \<Rightarrow> u64 \<Rightarrow> nat \<Rightarrow> nat \<Rightarrow> u64 list \<Rightarrow> 'a feat_state_scheme \<Rightarrow> 'a feat_state_scheme option" where
  "set_pmc_ctrl_flags P rax cmask flags umask eventsel pmcnum thread msrs_perfevtsel_ctrs s = do {
     s \<leftarrow> perfevtsel_storage P rax msrs_perfevtsel_ctrs s;
     if 1 \<le> pmcnum \<and> pmcnum \<le> 8
     then write_at (Evtsel (pmcnum - 1)) thread (evtsel_value cmask flags umask eventsel) s else Some s
   }"

definition set_all_pmc_ctrl ::
  "power_env \<Rightarrow> cpuid \<Rightarrow> u64 \<Rightarrow> u64 \<Rightarrow> u64 \<Rightarrow> u64 \<Rightarrow> nat \<Rightarrow> u64 list \<Rightarrow> 'a feat_state_scheme \<Rightarrow> 'a feat_state_scheme option" where
  "set_all_pmc_ctrl P rax cmask flags umask eventsel pmcnum msrs_perfevtsel_ctrs s = do {
     (T, s) \<leftarrow> get_topo (pe_hw P) P_INTEL_CPU_IDX s;
     for_sockets (\<lambda>i. set_pmc_ctrl_flags P rax cmask flags umask eventsel pmcnum i msrs_perfevtsel_ctrs) [0..<unat (nthreads T)] s
   }"

text \<open>The counters of a thread, in the order of the switch.\<close>

fun zero_at :: "static_array list \<Rightarrow> nat \<Rightarrow> 'a feat_state_scheme \<Rightarrow> 'a feat_state_scheme option" where
  "zero_at [] i s = Some s"
| "zero_at (v # vs) i s = do {
     s \<leftarrow> write_at v i 0 s;
     zero_at vs i s
   }"

definition clear_all_pmc :: "power_env \<Rightarrow> cpuid \<Rightarrow> u64 list \<Rightarrow> 'a feat_state_scheme \<Rightarrow> 'a feat_state_scheme option" where
  "clear_all_pmc P rax msrs_perfmon_ctrs s = do {
     (T, s) \<leftarrow> get_topo (pe_hw P) P_INTEL_CPU_IDX s;
     s \<leftarrow> pmc_storage P rax msrs_perfmon_ctrs s;
     s \<leftarrow> for_sockets (zero_at (map Pmc (pmcs (cpuid_num_pmc rax)))) [0..<unat (nthreads T)] s;
     map_option snd (call_write_batch P COUNTERS_DATA s)
   }"

definition enable_pmc :: "power_env \<Rightarrow> cpuid \<Rightarrow> u64 list \<Rightarrow> u64 list \<Rightarrow> 'a feat_state_scheme \<Rightarrow> (int \<times> 'a feat_state_scheme) option" where
  "enable_pmc P rax msrs_perfevtsel_ctrs msrs_perfmon_ctrs s =
    (if cpuid_num_pmc rax = 0 then Some (-1, s)
     else do {
       s \<leftarrow> perfevtsel_storage P rax msrs_perfevtsel_ctrs s;
       (_, s) \<leftarrow> call_write_batch P COUNTERS_CTRL s;
       s \<leftarrow> clear_all_pmc P rax msrs_perfmon_ctrs s;
       Some (0, s)
     })"

text \<open>The set-up of the first call: two counters are given the event 0xC4, branches retired.\<close>

definition setup_pmc :: "power_env \<Rightarrow> cpuid \<Rightarrow> u64 list \<Rightarrow> u64 list \<Rightarrow> 'a feat_state_scheme \<Rightarrow> 'a feat_state_scheme option" where
  "setup_pmc P rax msrs_perfevtsel_ctrs msrs_perfmon_ctrs s = do {
     s \<leftarrow> set_all_pmc_ctrl P rax 0 0x67 0 0xC4 1 msrs_perfevtsel_ctrs s;
     s \<leftarrow> set_all_pmc_ctrl P rax 0 0x67 0 0xC4 2 msrs_perfevtsel_ctrs s;
     (_, s) \<leftarrow> enable_pmc P rax msrs_perfevtsel_ctrs msrs_perfmon_ctrs s;
     pmc_storage P rax msrs_perfmon_ctrs s
   }"

definition pmc_header :: "int \<Rightarrow> line list" where
  "pmc_header avail = (if pmcs avail = [] then []
     else [map FS ([''_PERFORMANCE_MONITORING_COUNTERS'', ''Host'', ''Thread''] @ map (\<lambda>c. ''PMC'' @ dec c) (rev (pmcs avail)))])"

text \<open>No case of the switch applies to a number of counters outside 1 to 8; then nothing is printed.\<close>

definition pmc_lines :: "power_env \<Rightarrow> string \<Rightarrow> int \<Rightarrow> nat \<Rightarrow> 'a feat_state_scheme \<Rightarrow> line list option" where
  "pmc_lines P label avail n s = (if pmcs avail = [] then Some [] else value_lines P label (map Pmc (rev (pmcs avail))) n s)"

definition print_perfmon_counter_data ::
  "power_env \<Rightarrow> cpuid \<Rightarrow> u64 list \<Rightarrow> u64 list \<Rightarrow> 'a feat_state_scheme \<Rightarrow> 'a feat_state_scheme option" where
  "print_perfmon_counter_data P rax msrs_perfevtsel_ctrs msrs_perfmon_ctrs s = do {
     let avail = cpuid_num_pmc rax;
     (T, s) \<leftarrow> get_topo (pe_hw P) P_INTEL_CPU_IDX s;
     s \<leftarrow> (if Print_perfmon_counter_data \<in> feat_inited s then Some s
           else map_option (set_feat Print_perfmon_counter_data)
             (setup_pmc P rax msrs_perfevtsel_ctrs msrs_perfmon_ctrs (fold say (pmc_header avail) s)));
     (_, s) \<leftarrow> call_read_batch P COUNTERS_DATA s;
     ls \<leftarrow> pmc_lines P ''_PERFORMANCE_MONITORING_COUNTERS'' avail (unat (nthreads T)) s;
     Some (fold say ls s)
   }"

definition print_verbose_perfmon_counter_data ::
  "power_env \<Rightarrow> cpuid \<Rightarrow> u64 list \<Rightarrow> u64 list \<Rightarrow> 'a feat_state_scheme \<Rightarrow> 'a feat_state_scheme option" where
  "print_verbose_perfmon_counter_data P rax msrs_perfevtsel_ctrs msrs_perfmon_ctrs s = do {
     let avail = cpuid_num_pmc rax;
     (T, s) \<leftarrow> get_topo (pe_hw P) P_INTEL_CPU_IDX s;
     s \<leftarrow> (if Print_verbose_perfmon_counter_data \<in> feat_inited s then Some s
           else map_option (set_feat Print_verbose_perfmon_counter_data)
             (setup_pmc P rax msrs_perfevtsel_ctrs msrs_perfmon_ctrs s));
     (_, s) \<leftarrow> call_read_batch P COUNTERS_DATA s;
     ls \<leftarrow> pmc_lines P ''_PERFORMANCE_MONITORING_COUNTERS Host, Thread, PMC0, ...'' avail (unat (nthreads T)) s;
     Some (fold say ls s)
   }"

section \<open>Uncore\<close>

fun load_unc :: "power_env \<Rightarrow> (nat \<Rightarrow> static_array) \<Rightarrow> nat \<Rightarrow> u64 list \<Rightarrow> int \<Rightarrow> nat list \<Rightarrow> 'a feat_state_scheme \<Rightarrow> 'a feat_state_scheme option" where
  "load_unc P v n msrs batchnum [] s = Some s"
| "load_unc P v n msrs batchnum (c # cs) s = do {
     s \<leftarrow> load_socket_array P (v c) n (msrs ! c) batchnum s;
     load_unc P v n msrs batchnum cs s
   }"

definition init_unc_perfevtsel :: "power_env \<Rightarrow> u64 list \<Rightarrow> 'a feat_state_scheme \<Rightarrow> 'a feat_state_scheme option" where
  "init_unc_perfevtsel P msrs_pcu_pmon_evtsel s = do {
     (T, s) \<leftarrow> get_topo (pe_hw P) P_INTEL_CPU_IDX s;
     (_, s) \<leftarrow> allocate_batch UNCORE_EVTSEL (ucast (4 * nsockets T)) s;
     load_unc P Unc_evtsel (unat (nsockets T)) msrs_pcu_pmon_evtsel UNCORE_EVTSEL [0, 1, 2, 3] s
   }"

definition init_unc_counters :: "power_env \<Rightarrow> u64 list \<Rightarrow> 'a feat_state_scheme \<Rightarrow> 'a feat_state_scheme option" where
  "init_unc_counters P msrs_pcu_pmon_ctrs s = do {
     (T, s) \<leftarrow> get_topo (pe_hw P) P_INTEL_CPU_IDX s;
     (_, s) \<leftarrow> allocate_batch UNCORE_COUNT (ucast (4 * nsockets T)) s;
     load_unc P Unc_count (unat (nsockets T)) msrs_pcu_pmon_ctrs UNCORE_COUNT [0, 1, 2, 3] s
   }"

definition unc_perfevtsel_storage :: "power_env \<Rightarrow> u64 list \<Rightarrow> 'a feat_state_scheme \<Rightarrow> 'a feat_state_scheme option" where
  "unc_perfevtsel_storage P msrs_pcu_pmon_evtsel s =
    (if arrays s (Unc_evtsel 3) \<noteq> None then Some s else init_unc_perfevtsel P msrs_pcu_pmon_evtsel s)"

definition unc_counters_storage :: "power_env \<Rightarrow> u64 list \<Rightarrow> 'a feat_state_scheme \<Rightarrow> 'a feat_state_scheme option" where
  "unc_counters_storage P msrs_pcu_pmon_ctrs s =
    (if arrays s (Unc_count 3) \<noteq> None then Some s else init_unc_counters P msrs_pcu_pmon_ctrs s)"

definition unc_arrays :: "static_array list" where
  "unc_arrays = [Unc_count 0, Unc_count 1, Unc_count 2, Unc_count 3]"

definition clear_all_pcu :: "power_env \<Rightarrow> u64 list \<Rightarrow> 'a feat_state_scheme \<Rightarrow> 'a feat_state_scheme option" where
  "clear_all_pcu P msrs_pcu_pmon_ctrs s = do {
     (T, s) \<leftarrow> get_topo (pe_hw P) P_INTEL_CPU_IDX s;
     s \<leftarrow> unc_counters_storage P msrs_pcu_pmon_ctrs s;
     s \<leftarrow> for_sockets (zero_at unc_arrays) [0..<unat (nsockets T)] s;
     map_option snd (call_write_batch P UNCORE_COUNT s)
   }"

definition enable_pcu :: "power_env \<Rightarrow> u64 list \<Rightarrow> u64 list \<Rightarrow> 'a feat_state_scheme \<Rightarrow> 'a feat_state_scheme option" where
  "enable_pcu P msrs_pcu_pmon_evtsel msrs_pcu_pmon_ctrs s = do {
     s \<leftarrow> unc_perfevtsel_storage P msrs_pcu_pmon_evtsel s;
     (_, s) \<leftarrow> call_write_batch P UNCORE_EVTSEL s;
     clear_all_pcu P msrs_pcu_pmon_ctrs s
   }"

text \<open>The batch of the counters is written, and never read.\<close>

definition print_unc_counter_data ::
  "power_env \<Rightarrow> u64 list \<Rightarrow> u64 list \<Rightarrow> 'a feat_state_scheme \<Rightarrow> 'a feat_state_scheme option" where
  "print_unc_counter_data P msrs_pcu_pmon_evtsel msrs_pcu_pmon_ctrs s = do {
     (T, s) \<leftarrow> get_topo (pe_hw P) P_INTEL_CPU_IDX s;
     s \<leftarrow> unc_counters_storage P msrs_pcu_pmon_ctrs s;
     s \<leftarrow> (if Print_unc_counter_data \<in> feat_inited s then Some s
           else map_option (set_feat Print_unc_counter_data)
             (enable_pcu P msrs_pcu_pmon_evtsel msrs_pcu_pmon_ctrs
               (say (map FS [''_UNCORE_COUNTERS'', ''Host'', ''Socket'', ''c0'', ''c1'', ''c2'', ''c3'']) s)));
     ls \<leftarrow> value_lines P ''_UNCORE_COUNTERS'' unc_arrays (unat (nsockets T)) s;
     Some (fold say ls s)
   }"

definition print_verbose_unc_counter_data ::
  "power_env \<Rightarrow> u64 list \<Rightarrow> u64 list \<Rightarrow> 'a feat_state_scheme \<Rightarrow> 'a feat_state_scheme option" where
  "print_verbose_unc_counter_data P msrs_pcu_pmon_evtsel msrs_pcu_pmon_ctrs s = do {
     (T, s) \<leftarrow> get_topo (pe_hw P) P_INTEL_CPU_IDX s;
     s \<leftarrow> unc_counters_storage P msrs_pcu_pmon_ctrs s;
     s \<leftarrow> enable_pcu P msrs_pcu_pmon_evtsel msrs_pcu_pmon_ctrs s;
     ls \<leftarrow> value_lines P ''_UNCORE_COUNTERS Host, Socket, c0, c1, c2, c3'' unc_arrays (unat (nsockets T)) s;
     Some (fold say ls s)
   }"

section \<open>All of them\<close>

definition print_all_counter_data ::
  "power_env \<Rightarrow> cpuid \<Rightarrow> u64 list \<Rightarrow> u64 list \<Rightarrow> u64 list \<Rightarrow> u64 list \<Rightarrow> u64 list \<Rightarrow> 'a feat_state_scheme \<Rightarrow> 'a feat_state_scheme option" where
  "print_all_counter_data P rax msrs_fixed_ctrs msrs_perfevtsel_ctrs msrs_perfmon_ctrs msrs_pcu_pmon_evtsel msrs_pcu_pmon_ctrs s = do {
     s \<leftarrow> print_fixed_counter_data P msrs_fixed_ctrs s;
     s \<leftarrow> print_perfmon_counter_data P rax msrs_perfevtsel_ctrs msrs_perfmon_ctrs s;
     print_unc_counter_data P msrs_pcu_pmon_evtsel msrs_pcu_pmon_ctrs s
   }"

definition print_verbose_all_counter_data ::
  "power_env \<Rightarrow> cpuid \<Rightarrow> u64 list \<Rightarrow> u64 list \<Rightarrow> u64 list \<Rightarrow> u64 list \<Rightarrow> u64 list \<Rightarrow> 'a feat_state_scheme \<Rightarrow> 'a feat_state_scheme option" where
  "print_verbose_all_counter_data P rax msrs_fixed_ctrs msrs_perfevtsel_ctrs msrs_perfmon_ctrs msrs_pcu_pmon_evtsel msrs_pcu_pmon_ctrs s = do {
     s \<leftarrow> print_verbose_fixed_counter_data P msrs_fixed_ctrs s;
     s \<leftarrow> print_verbose_perfmon_counter_data P rax msrs_perfevtsel_ctrs msrs_perfmon_ctrs s;
     print_verbose_unc_counter_data P msrs_pcu_pmon_evtsel msrs_pcu_pmon_ctrs s
   }"

section \<open>The monitoring line\<close>

text \<open>
  The limits of the sockets, three of each, are read over the old ones, so that a register that cannot be
  read leaves the bits of the previous time. Unlike get\_all\_power\_data every line has its label and time.
\<close>

fun update_limits ::
  "power_env \<Rightarrow> u64 \<Rightarrow> u64 \<Rightarrow> u64 \<Rightarrow> nat list \<Rightarrow> rapl_limit list \<Rightarrow> 'a rapl_state_scheme \<Rightarrow> (rapl_limit list \<times> 'a rapl_state_scheme) option" where
  "update_limits P msr_pkg_power_limit msr_dram_power_limit msr_rapl_unit [] rlim s = Some (rlim, s)"
| "update_limits P msr_pkg_power_limit msr_dram_power_limit msr_rapl_unit (i # is) rlim s = do {
     l1 \<leftarrow> elem rlim (3 * i);
     l2 \<leftarrow> elem rlim (3 * i + 1);
     l3 \<leftarrow> elem rlim (3 * i + 2);
     (_, l1, l2, s) \<leftarrow> get_package_rapl_limit P (of_nat i) (Some l1) (Some l2) msr_pkg_power_limit msr_rapl_unit s;
     (_, l3, s) \<leftarrow> get_dram_rapl_limit P (of_nat i) (Some l3) msr_dram_power_limit msr_rapl_unit s;
     l1 \<leftarrow> l1;
     l2 \<leftarrow> l2;
     l3 \<leftarrow> l3;
     update_limits P msr_pkg_power_limit msr_dram_power_limit msr_rapl_unit is
       (rlim[3 * i := l1, 3 * i + 1 := l2, 3 * i + 2 := l3]) s
   }"

definition thread_labels :: "nat \<Rightarrow> line" where
  "thread_labels i = [FS (''InstRet'' @ dec i), FS (''UnhaltClkCycles'' @ dec i), FS (''UnhaltRefCycles'' @ dec i),
     FS (''APERF'' @ dec i), FS (''MPERF'' @ dec i), FS (''TSC'' @ dec i)]"

definition get_all_power_data_fixed ::
  "power_env \<Rightarrow> u64 \<Rightarrow> u64 \<Rightarrow> u64 \<Rightarrow> u64 \<Rightarrow> u64 \<Rightarrow> u64 list \<Rightarrow> u64 \<Rightarrow> u64 \<Rightarrow> u64 \<Rightarrow> u64 \<Rightarrow> u64 \<Rightarrow> 'a feat_state_scheme \<Rightarrow>
    'a feat_state_scheme option" where
  "get_all_power_data_fixed P msr_pkg_power_limit msr_dram_power_limit msr_rapl_unit msr_package_energy_status
       msr_dram_energy_status msrs_fixed_ctrs msr_perf_global_ctrl msr_fixed_counter_ctrl msr_aperf msr_mperf msr_tsc s = do {
     (T, s) \<leftarrow> get_topo (pe_hw P) P_INTEL_CPU_IDX s;
     let n = unat (nsockets T);
     let threads = unat (nthreads T);
     (_, s) \<leftarrow> rapl_get_power P msr_rapl_unit msr_package_energy_status msr_dram_energy_status s;
     s \<leftarrow> (if Get_all_power_data_fixed \<in> feat_inited s then Some s
       else do {
         (_, s) \<leftarrow> rapl_storage P (set_feat Get_all_power_data_fixed s);
         s \<leftarrow> fixed_counter_storage P msrs_fixed_ctrs s;
         s \<leftarrow> enable_fixed_counters P msrs_fixed_ctrs msr_perf_global_ctrl msr_fixed_counter_ctrl s;
         s \<leftarrow> clocks_storage P msr_aperf msr_mperf msr_tsc s;
         (ls, s) \<leftarrow> update_limits P msr_pkg_power_limit msr_dram_power_limit msr_rapl_unit [0..<n] (replicate (3 * n) (junk_limit P)) s;
         Some (say ([FS ''_VAR_MONITOR time''] @ concat (map poll_labels [0..<n]) @ concat (map thread_labels [0..<threads]))
           (s\<lparr>fixed_limits := ls\<rparr>))
       });
     (_, s) \<leftarrow> call_read_batch P FIXED_COUNTERS_DATA s;
     (_, s) \<leftarrow> call_read_batch P CLOCKS_DATA s;
     (ls, s) \<leftarrow> update_limits P msr_pkg_power_limit msr_dram_power_limit msr_rapl_unit [0..<n] (fixed_limits s) s;
     let s = s\<lparr>fixed_limits := ls\<rparr>;
     let (sec, nsec) = pe_clock P (tod_calls s);
     r \<leftarrow> rapl s;
     cs \<leftarrow> those (map (\<lambda>i. values_at (fixed_arrays @ [Clocks_aperf, Clocks_mperf, Clocks_tsc]) i s) [0..<threads]);
     Some (say ([FS ''_VAR_MONITOR'', FX (now_ms sec nsec)] @ concat (map (poll_values r ls) [0..<n]) @ concat cs) s)
   }"

end
