(* ===== verification/Intel_Handlers.thy ===== *)
theory Intel_Handlers imports Thermal Counters_Features begin

text \<open>
  What the handlers of the Intel_06_XX.c files do with the register addresses of a model. The files repeat
  the same functions with other tables, so that each function is modelled once here, with the table as an argument;
  Intel_Models gives every file's own functions. The line that VARIORUM_LOG asks for is left out. What the feature
  functions return is not looked at by any handler: they return 0.
\<close>

section \<open>Register addresses\<close>

text \<open>The offsets of all models: the union of the struct types; a field that a model does not set is 0 in C.\<close>

record msr_offsets =
  msr_platform_info :: u64
  ia32_time_stamp_counter :: u64
  ia32_perf_ctl :: u64
  ia32_perf_status :: u64
  ia32_therm_interrupt :: u64
  ia32_therm_status :: u64
  ia32_misc_enable :: u64
  msr_temperature_target :: u64
  msr_turbo_ratio_limit :: u64
  ia32_package_therm_status :: u64
  ia32_package_therm_interrupt :: u64
  ia32_fixed_ctr_ctrl :: u64
  ia32_perf_global_status :: u64
  ia32_perf_global_ctrl :: u64
  ia32_perf_global_ovf_ctrl :: u64
  msr_rapl_power_unit :: u64
  msr_pkg_power_limit :: u64
  msr_pkg_energy_status :: u64
  msr_pkg_power_info :: u64
  msr_dram_power_info :: u64
  ia32_mperf :: u64
  ia32_aperf :: u64
  msr_turbo_ratio_limit1 :: u64
  msr_therm2_ctl :: u64
  msr_pkg_perf_status :: u64
  msr_dram_power_limit :: u64
  msr_dram_energy_status :: u64
  msr_dram_perf_status :: u64
  msr_turbo_activation_ratio :: u64
  msr_config_tdp_level1 :: u64
  msr_config_tdp_level2 :: u64
  msr_config_tdp_nominal :: u64
  msr_turbo_ratio_limit_cores :: u64
  ia32_fixed_counters :: "u64 list"
  ia32_perfmon_counters :: "u64 list"
  ia32_perfevtsel_counters :: "u64 list"
  msrs_pcu_pmon_evtsel :: "u64 list"

definition no_offsets :: msr_offsets where
  "no_offsets = \<lparr>msr_platform_info = 0, ia32_time_stamp_counter = 0, ia32_perf_ctl = 0, ia32_perf_status = 0, ia32_therm_interrupt = 0, ia32_therm_status = 0, ia32_misc_enable = 0, msr_temperature_target = 0, msr_turbo_ratio_limit = 0, ia32_package_therm_status = 0, ia32_package_therm_interrupt = 0, ia32_fixed_ctr_ctrl = 0, ia32_perf_global_status = 0, ia32_perf_global_ctrl = 0, ia32_perf_global_ovf_ctrl = 0, msr_rapl_power_unit = 0, msr_pkg_power_limit = 0, msr_pkg_energy_status = 0, msr_pkg_power_info = 0, msr_dram_power_info = 0, ia32_mperf = 0, ia32_aperf = 0, msr_turbo_ratio_limit1 = 0, msr_therm2_ctl = 0, msr_pkg_perf_status = 0, msr_dram_power_limit = 0, msr_dram_energy_status = 0, msr_dram_perf_status = 0, msr_turbo_activation_ratio = 0, msr_config_tdp_level1 = 0, msr_config_tdp_level2 = 0, msr_config_tdp_nominal = 0, msr_turbo_ratio_limit_cores = 0, ia32_fixed_counters = replicate 3 0, ia32_perfmon_counters = replicate 8 0, ia32_perfevtsel_counters = replicate 8 0, msrs_pcu_pmon_evtsel = replicate 4 0\<rparr>"

definition msrs_06_2a :: msr_offsets where
  "msrs_06_2a = no_offsets\<lparr>
    msr_platform_info := 0xCE, ia32_time_stamp_counter := 0x10, ia32_perf_ctl := 0x199, ia32_perf_status := 0x198,
    ia32_therm_interrupt := 0x19B, ia32_therm_status := 0x19C, ia32_misc_enable := 0x1A0, msr_temperature_target := 0x1A2,
    msr_turbo_ratio_limit := 0x1AD, ia32_package_therm_status := 0x1B1, ia32_package_therm_interrupt := 0x1B2,
    ia32_fixed_ctr_ctrl := 0x38D, ia32_perf_global_status := 0x38E, ia32_perf_global_ctrl := 0x38F,
    ia32_perf_global_ovf_ctrl := 0x390, msr_rapl_power_unit := 0x606, msr_pkg_power_limit := 0x610,
    msr_pkg_energy_status := 0x611, msr_pkg_power_info := 0x614, msr_dram_power_info := 0x61C, ia32_mperf := 0xE7,
    ia32_aperf := 0xE8, ia32_fixed_counters := [0x309, 0x30A, 0x30B],
    ia32_perfmon_counters := [0xC1, 0xC2, 0xC3, 0xC4, 0xC5, 0xC6, 0xC7, 0xC8],
    ia32_perfevtsel_counters := [0x186, 0x187, 0x188, 0x189, 0x18A, 0x18B, 0x18C, 0x18D]\<rparr>"

definition msrs_06_2d :: msr_offsets where
  "msrs_06_2d = no_offsets\<lparr>
    msr_platform_info := 0xCE, ia32_time_stamp_counter := 0x10, ia32_perf_ctl := 0x199, ia32_perf_status := 0x198,
    ia32_therm_interrupt := 0x19B, ia32_therm_status := 0x19C, ia32_misc_enable := 0x1A0, msr_temperature_target := 0x1A2,
    msr_turbo_ratio_limit := 0x1AD, msr_turbo_ratio_limit1 := 0x1AE, ia32_package_therm_status := 0x1B1,
    ia32_package_therm_interrupt := 0x1B2, ia32_fixed_ctr_ctrl := 0x38D, ia32_perf_global_status := 0x38E,
    ia32_perf_global_ctrl := 0x38F, ia32_perf_global_ovf_ctrl := 0x390, msr_rapl_power_unit := 0x606,
    msr_pkg_power_limit := 0x610, msr_pkg_energy_status := 0x611, msr_pkg_power_info := 0x614, msr_dram_power_info := 0x61C,
    ia32_mperf := 0xE7, ia32_aperf := 0xE8, ia32_fixed_counters := [0x309, 0x30A, 0x30B],
    ia32_perfmon_counters := [0xC1, 0xC2, 0xC3, 0xC4, 0xC5, 0xC6, 0xC7, 0xC8],
    ia32_perfevtsel_counters := [0x186, 0x187, 0x188, 0x189, 0x18A, 0x18B, 0x18C, 0x18D]\<rparr>"

definition msrs_06_3e :: msr_offsets where
  "msrs_06_3e = no_offsets\<lparr>
    msr_platform_info := 0xCE, ia32_time_stamp_counter := 0x10, ia32_perf_ctl := 0x199, ia32_perf_status := 0x198,
    ia32_therm_interrupt := 0x19B, ia32_therm_status := 0x19C, msr_therm2_ctl := 0x19D, ia32_misc_enable := 0x1A0,
    msr_temperature_target := 0x1A2, msr_turbo_ratio_limit := 0x1AD, msr_turbo_ratio_limit1 := 0x1AE,
    ia32_package_therm_status := 0x1B1, ia32_package_therm_interrupt := 0x1B2, ia32_fixed_ctr_ctrl := 0x38D,
    ia32_perf_global_status := 0x38E, ia32_perf_global_ctrl := 0x38F, ia32_perf_global_ovf_ctrl := 0x390,
    msr_rapl_power_unit := 0x606, msr_pkg_power_limit := 0x610, msr_pkg_energy_status := 0x611, msr_pkg_perf_status := 0x613,
    msr_pkg_power_info := 0x614, msr_dram_power_limit := 0x618, msr_dram_energy_status := 0x619, msr_dram_perf_status := 0x61B,
    msr_dram_power_info := 0x61C, msr_turbo_activation_ratio := 0x64C, ia32_mperf := 0xE7, ia32_aperf := 0xE8,
    ia32_fixed_counters := [0x309, 0x30A, 0x30B], ia32_perfmon_counters := [0xC1, 0xC2, 0xC3, 0xC4, 0xC5, 0xC6, 0xC7, 0xC8],
    ia32_perfevtsel_counters := [0x186, 0x187, 0x188, 0x189, 0x18A, 0x18B, 0x18C, 0x18D],
    msrs_pcu_pmon_evtsel := [0xC30, 0xC31, 0xC32, 0xC33]\<rparr>"

definition msrs_06_3f :: msr_offsets where
  "msrs_06_3f = no_offsets\<lparr>
    msr_platform_info := 0xCE, ia32_time_stamp_counter := 0x10, ia32_perf_ctl := 0x199, ia32_perf_status := 0x198,
    ia32_therm_interrupt := 0x19B, ia32_therm_status := 0x19C, ia32_misc_enable := 0x1A0, msr_temperature_target := 0x1A2,
    msr_turbo_ratio_limit := 0x1AD, msr_turbo_ratio_limit1 := 0x1AE, msr_config_tdp_level1 := 0x649,
    msr_config_tdp_level2 := 0x64A, msr_config_tdp_nominal := 0x648, ia32_package_therm_status := 0x1B1,
    ia32_package_therm_interrupt := 0x1B2, ia32_fixed_ctr_ctrl := 0x38D, ia32_perf_global_status := 0x38E,
    ia32_perf_global_ctrl := 0x38F, ia32_perf_global_ovf_ctrl := 0x390, msr_rapl_power_unit := 0x606,
    msr_pkg_power_limit := 0x610, msr_pkg_energy_status := 0x611, msr_pkg_perf_status := 0x613, msr_pkg_power_info := 0x614,
    msr_dram_power_limit := 0x618, msr_dram_energy_status := 0x619, msr_dram_perf_status := 0x61B, msr_dram_power_info := 0x61C,
    msr_turbo_activation_ratio := 0x64C, ia32_mperf := 0xE7, ia32_aperf := 0xE8, ia32_fixed_counters := [0x309, 0x30A, 0x30B],
    ia32_perfmon_counters := [0xC1, 0xC2, 0xC3, 0xC4, 0xC5, 0xC6, 0xC7, 0xC8],
    ia32_perfevtsel_counters := [0x186, 0x187, 0x188, 0x189, 0x18A, 0x18B, 0x18C, 0x18D]\<rparr>"

definition msrs_06_4f :: msr_offsets where
  "msrs_06_4f = no_offsets\<lparr>
    msr_platform_info := 0xCE, ia32_time_stamp_counter := 0x10, ia32_perf_ctl := 0x199, ia32_perf_status := 0x198,
    ia32_therm_interrupt := 0x19B, ia32_therm_status := 0x19C, msr_therm2_ctl := 0x19D, ia32_misc_enable := 0x1A0,
    msr_temperature_target := 0x1A2, msr_turbo_ratio_limit := 0x1AD, msr_turbo_ratio_limit1 := 0x1AE,
    msr_config_tdp_level1 := 0x649, msr_config_tdp_level2 := 0x64A, msr_config_tdp_nominal := 0x648,
    ia32_package_therm_status := 0x1B1, ia32_package_therm_interrupt := 0x1B2, ia32_fixed_ctr_ctrl := 0x38D,
    ia32_perf_global_status := 0x38E, ia32_perf_global_ctrl := 0x38F, ia32_perf_global_ovf_ctrl := 0x390,
    msr_rapl_power_unit := 0x606, msr_pkg_power_limit := 0x610, msr_pkg_energy_status := 0x611, msr_pkg_perf_status := 0x613,
    msr_pkg_power_info := 0x614, msr_dram_power_limit := 0x618, msr_dram_energy_status := 0x619, msr_dram_perf_status := 0x61B,
    msr_dram_power_info := 0x61C, msr_turbo_activation_ratio := 0x64C, ia32_mperf := 0xE7, ia32_aperf := 0xE8,
    ia32_fixed_counters := [0x309, 0x30A, 0x30B], ia32_perfmon_counters := [0xC1, 0xC2, 0xC3, 0xC4, 0xC5, 0xC6, 0xC7, 0xC8],
    ia32_perfevtsel_counters := [0x186, 0x187, 0x188, 0x189, 0x18A, 0x18B, 0x18C, 0x18D],
    msrs_pcu_pmon_evtsel := [0xC30, 0xC31, 0xC32, 0xC33]\<rparr>"

definition msrs_06_55 :: msr_offsets where
  "msrs_06_55 = no_offsets\<lparr>
    msr_platform_info := 0xCE, ia32_time_stamp_counter := 0x10, ia32_perf_ctl := 0x199, ia32_perf_status := 0x198,
    ia32_therm_interrupt := 0x19B, ia32_therm_status := 0x19C, ia32_misc_enable := 0x1A0, msr_temperature_target := 0x1A2,
    msr_turbo_ratio_limit := 0x1AD, msr_turbo_ratio_limit_cores := 0x1AE, msr_config_tdp_level1 := 0x649,
    msr_config_tdp_level2 := 0x64A, msr_config_tdp_nominal := 0x648, ia32_package_therm_status := 0x1B1,
    ia32_package_therm_interrupt := 0x1B2, ia32_fixed_ctr_ctrl := 0x38D, ia32_perf_global_status := 0x38E,
    ia32_perf_global_ctrl := 0x38F, ia32_perf_global_ovf_ctrl := 0x390, msr_rapl_power_unit := 0x606,
    msr_pkg_power_limit := 0x610, msr_pkg_energy_status := 0x611, msr_pkg_perf_status := 0x613, msr_pkg_power_info := 0x614,
    msr_dram_power_limit := 0x618, msr_dram_energy_status := 0x619, msr_dram_perf_status := 0x61B, msr_dram_power_info := 0x61C,
    msr_turbo_activation_ratio := 0x64C, ia32_mperf := 0xE7, ia32_aperf := 0xE8, ia32_fixed_counters := [0x309, 0x30A, 0x30B],
    ia32_perfmon_counters := [0xC1, 0xC2, 0xC3, 0xC4, 0xC5, 0xC6, 0xC7, 0xC8],
    ia32_perfevtsel_counters := [0x186, 0x187, 0x188, 0x189, 0x18A, 0x18B, 0x18C, 0x18D]\<rparr>"

definition msrs_06_9e :: msr_offsets where
  "msrs_06_9e = no_offsets\<lparr>
    msr_platform_info := 0xCE, ia32_time_stamp_counter := 0x10, ia32_perf_ctl := 0x199, ia32_perf_status := 0x198,
    ia32_therm_interrupt := 0x19B, ia32_therm_status := 0x19C, msr_therm2_ctl := 0x19D, ia32_misc_enable := 0x1A0,
    msr_temperature_target := 0x1A2, msr_turbo_ratio_limit := 0x1AD, msr_turbo_ratio_limit_cores := 0x1AE,
    msr_config_tdp_level1 := 0x649, msr_config_tdp_level2 := 0x64A, msr_config_tdp_nominal := 0x648,
    ia32_package_therm_status := 0x1B1, ia32_package_therm_interrupt := 0x1B2, ia32_fixed_ctr_ctrl := 0x38D,
    ia32_perf_global_status := 0x38E, ia32_perf_global_ctrl := 0x38F, ia32_perf_global_ovf_ctrl := 0x390,
    msr_rapl_power_unit := 0x606, msr_pkg_power_limit := 0x610, msr_pkg_energy_status := 0x611, msr_pkg_perf_status := 0x613,
    msr_pkg_power_info := 0x614, msr_dram_power_limit := 0x618, msr_dram_energy_status := 0x619, msr_dram_perf_status := 0x61B,
    msr_dram_power_info := 0x61C, msr_turbo_activation_ratio := 0x64C, ia32_mperf := 0xE7, ia32_aperf := 0xE8,
    ia32_fixed_counters := [0x309, 0x30A, 0x30B], ia32_perfmon_counters := [0xC1, 0xC2, 0xC3, 0xC4, 0xC5, 0xC6, 0xC7, 0xC8],
    ia32_perfevtsel_counters := [0x186, 0x187, 0x188, 0x189, 0x18A, 0x18B, 0x18C, 0x18D]\<rparr>"

definition msrs_06_6a :: msr_offsets where
  "msrs_06_6a = no_offsets\<lparr>
    msr_platform_info := 0xCE, ia32_time_stamp_counter := 0x10, msr_rapl_power_unit := 0x606, msr_pkg_power_limit := 0x610,
    msr_pkg_energy_status := 0x611, msr_pkg_power_info := 0x614, msr_dram_power_limit := 0x618, msr_dram_energy_status := 0x619,
    msr_dram_power_info := 0x61C\<rparr>"

definition msrs_06_8f :: msr_offsets where
  "msrs_06_8f = no_offsets\<lparr>
    msr_platform_info := 0xCE, ia32_time_stamp_counter := 0x10, msr_rapl_power_unit := 0x606, msr_pkg_power_limit := 0x610,
    msr_pkg_energy_status := 0x611, msr_pkg_power_info := 0x614, msr_dram_power_limit := 0x618, msr_dram_energy_status := 0x619,
    msr_dram_power_info := 0x61C, ia32_fixed_ctr_ctrl := 0x38D, ia32_perf_global_status := 0x38E, ia32_perf_global_ctrl := 0x38F,
    ia32_mperf := 0xE7, ia32_aperf := 0xE8, ia32_fixed_counters := [0x309, 0x30A, 0x30B]\<rparr>"
section \<open>Handlers\<close>

text \<open>\<open>long_ver\<close> chooses between two reports; another value chooses none.\<close>

definition by_length :: "int \<Rightarrow> ('s \<Rightarrow> 's option) \<Rightarrow> ('s \<Rightarrow> 's option) \<Rightarrow> 's \<Rightarrow> 's option" where
  "by_length long_ver short verbose s = (if long_ver = 0 then short s else if long_ver = 1 then verbose s else Some s)"

text \<open>A handler returns 0, whatever it calls.\<close>

definition done_0 :: "'s option \<Rightarrow> (int \<times> 's) option" where
  "done_0 r = map_option (Pair 0) r"

definition print_offsets :: "(string \<times> u64) list \<Rightarrow> 'a rapl_state_scheme \<Rightarrow> (int \<times> 'a rapl_state_scheme) option" where
  "print_offsets vs s = Some (0, fold say (map (\<lambda>(name, v). [FS name, FX v]) vs) s)"

text \<open>The flags say which of the DRAM tables the file prints.\<close>

definition model_get_power_limits ::
  "power_env \<Rightarrow> msr_offsets \<Rightarrow> bool \<Rightarrow> bool \<Rightarrow> int \<Rightarrow> 'a feat_state_scheme \<Rightarrow> (int \<times> 'a feat_state_scheme) option" where
  "model_get_power_limits P M dram_limit dram_info long_ver s = do {
     (T, s) \<leftarrow> get_topo (pe_hw P) P_INTEL_CPU_IDX s;
     let sockets = [0..<unat (nsockets T)];
     s \<leftarrow> for_sockets (\<lambda>i. by_length long_ver
           (print_package_power_limit P (msr_pkg_power_limit M) (msr_rapl_power_unit M) i)
           (print_verbose_package_power_limit P (msr_pkg_power_limit M) (msr_rapl_power_unit M) i)) sockets s;
     s \<leftarrow> (if dram_limit then for_sockets (\<lambda>i. by_length long_ver
           (print_dram_power_limit P (msr_dram_power_limit M) (msr_rapl_power_unit M) i)
           (print_verbose_dram_power_limit P (msr_dram_power_limit M) (msr_rapl_power_unit M) i)) sockets s else Some s);
     s \<leftarrow> for_sockets (\<lambda>i. by_length long_ver
           (print_package_power_info P (msr_pkg_power_info M) i)
           (print_verbose_package_power_info P (msr_pkg_power_info M) i)) sockets s;
     s \<leftarrow> (if dram_info then for_sockets (\<lambda>i. by_length long_ver
           (print_dram_power_info P (msr_dram_power_info M) i)
           (print_verbose_dram_power_info P (msr_dram_power_info M) i)) sockets s else Some s);
     done_0 (by_length long_ver (print_rapl_power_unit P (msr_rapl_power_unit M))
       (print_verbose_rapl_power_unit P (msr_rapl_power_unit M)) s)
   }"

definition model_cap_power_limits ::
  "power_env \<Rightarrow> msr_offsets \<Rightarrow> int \<Rightarrow> 'a feat_state_scheme \<Rightarrow> (int \<times> 'a feat_state_scheme) option" where
  "model_cap_power_limits P M package_power_limit s = do {
     (T, s) \<leftarrow> get_topo (pe_hw P) P_INTEL_CPU_IDX s;
     done_0 (for_sockets (\<lambda>i s. map_option snd
       (cap_package_power_limit P (of_nat i) package_power_limit (msr_pkg_power_limit M) (msr_rapl_power_unit M) s))
       [0..<unat (nsockets T)] s)
   }"

text \<open>
  \<open>node_limit % nsockets\<close> and \<open>node_limit / nsockets\<close> convert the limit to unsigned; the subtraction in
  between is one of ints.
\<close>

definition even_share :: "u32 \<Rightarrow> int \<Rightarrow> int option" where
  "even_share n node_limit =
    (if n = 0 then None
     else
       let remainder = sint ((word_of_int node_limit :: u32) mod n);
           node_limit = (if remainder = 0 then node_limit else node_limit - remainder)
       in if node_limit < - (2 ^ 31) \<or> 2 ^ 31 \<le> node_limit then None
          else Some (sint ((word_of_int node_limit :: u32) div n)))"

definition model_cap_best_effort ::
  "power_env \<Rightarrow> msr_offsets \<Rightarrow> int \<Rightarrow> 'a feat_state_scheme \<Rightarrow> (int \<times> 'a feat_state_scheme) option" where
  "model_cap_best_effort P M node_limit s = do {
     (T, s) \<leftarrow> get_topo (pe_hw P) P_INTEL_CPU_IDX s;
     pkg_limit \<leftarrow> even_share (nsockets T) node_limit;
     (_, s) \<leftarrow> model_cap_power_limits P M pkg_limit s;
     Some (0, s)
   }"

definition model_get_thermals ::
  "power_env \<Rightarrow> msr_offsets \<Rightarrow> int \<Rightarrow> 'a feat_state_scheme \<Rightarrow> (int \<times> 'a feat_state_scheme) option" where
  "model_get_thermals P M long_ver s = done_0 (by_length long_ver
     (\<lambda>s. map_option snd (print_therm_temp_reading P (ia32_therm_status M) (ia32_package_therm_status M) (msr_temperature_target M) s))
     (\<lambda>s. map_option snd (print_verbose_therm_temp_reading P (ia32_therm_status M) (ia32_package_therm_status M) (msr_temperature_target M) s)) s)"

text \<open>The last argument of both calls is the table of the event selectors, for lack of one of the uncore counters.\<close>

definition model_get_counters ::
  "power_env \<Rightarrow> cpuid \<Rightarrow> msr_offsets \<Rightarrow> int \<Rightarrow> 'a feat_state_scheme \<Rightarrow> (int \<times> 'a feat_state_scheme) option" where
  "model_get_counters P rax M long_ver s = done_0 (by_length long_ver
     (print_all_counter_data P rax (ia32_fixed_counters M) (ia32_perfevtsel_counters M) (ia32_perfmon_counters M)
       (msrs_pcu_pmon_evtsel M) (ia32_perfevtsel_counters M))
     (print_verbose_all_counter_data P rax (ia32_fixed_counters M) (ia32_perfevtsel_counters M) (ia32_perfmon_counters M)
       (msrs_pcu_pmon_evtsel M) (ia32_perfevtsel_counters M)) s)"

definition model_get_clocks ::
  "power_env \<Rightarrow> msr_offsets \<Rightarrow> ctl_domains_e \<Rightarrow> int \<Rightarrow> 'a feat_state_scheme \<Rightarrow> (int \<times> 'a feat_state_scheme) option" where
  "model_get_clocks P M domains long_ver s = done_0 (by_length long_ver
     (\<lambda>s. map_option snd (print_clocks_data P (ia32_aperf M) (ia32_mperf M) (ia32_time_stamp_counter M)
       (ia32_perf_status M) (msr_platform_info M) domains s))
     (\<lambda>s. map_option snd (print_verbose_clocks_data P (ia32_aperf M) (ia32_mperf M) (ia32_time_stamp_counter M)
       (ia32_perf_status M) (msr_platform_info M) domains s)) s)"

definition model_get_clocks_json :: "power_env \<Rightarrow> msr_offsets \<Rightarrow> 'a feat_state_scheme \<Rightarrow> (int \<times> 'a feat_state_scheme) option" where
  "model_get_clocks_json P M s = done_0 (map_option snd (get_clocks_data_json P (ia32_aperf M) (ia32_mperf M)
     (ia32_time_stamp_counter M) (ia32_perf_status M) (msr_platform_info M) CORE s))"

definition model_get_power ::
  "power_env \<Rightarrow> msr_offsets \<Rightarrow> int \<Rightarrow> 'a feat_state_scheme \<Rightarrow> (int \<times> 'a feat_state_scheme) option" where
  "model_get_power P M long_ver s = done_0 (by_length long_ver
     (print_power_data P (msr_rapl_power_unit M) (msr_pkg_energy_status M) (msr_dram_energy_status M))
     (print_verbose_power_data P (msr_rapl_power_unit M) (msr_pkg_energy_status M) (msr_dram_energy_status M)) s)"

definition model_get_energy ::
  "power_env \<Rightarrow> msr_offsets \<Rightarrow> int \<Rightarrow> 'a feat_state_scheme \<Rightarrow> (int \<times> 'a feat_state_scheme) option" where
  "model_get_energy P M long_ver s = done_0 (by_length long_ver
     (print_energy_data P (msr_rapl_power_unit M) (msr_pkg_energy_status M) (msr_dram_energy_status M))
     (print_verbose_energy_data P (msr_rapl_power_unit M) (msr_pkg_energy_status M) (msr_dram_energy_status M)) s)"

definition turbo_mode_disable_bit :: nat where "turbo_mode_disable_bit = 38"

definition model_enable_turbo :: "power_env \<Rightarrow> msr_offsets \<Rightarrow> 'a feat_state_scheme \<Rightarrow> (int \<times> 'a feat_state_scheme) option" where
  "model_enable_turbo P M s = done_0 (map_option snd (set_turbo_on P (ia32_misc_enable M) turbo_mode_disable_bit s))"

definition model_disable_turbo :: "power_env \<Rightarrow> msr_offsets \<Rightarrow> 'a feat_state_scheme \<Rightarrow> (int \<times> 'a feat_state_scheme) option" where
  "model_disable_turbo P M s = done_0 (map_option snd (set_turbo_off P (ia32_misc_enable M) turbo_mode_disable_bit s))"

definition model_get_turbo_status :: "power_env \<Rightarrow> msr_offsets \<Rightarrow> 'a feat_state_scheme \<Rightarrow> (int \<times> 'a feat_state_scheme) option" where
  "model_get_turbo_status P M s = done_0 (map_option snd (print_turbo_status P (ia32_misc_enable M) turbo_mode_disable_bit s))"

definition model_poll_power :: "power_env \<Rightarrow> msr_offsets \<Rightarrow> 'a feat_state_scheme \<Rightarrow> (int \<times> 'a feat_state_scheme) option" where
  "model_poll_power P M s = done_0 (get_all_power_data P (msr_pkg_power_limit M) (msr_dram_power_limit M)
     (msr_rapl_power_unit M) (msr_pkg_energy_status M) (msr_dram_energy_status M) s)"

definition model_monitoring :: "power_env \<Rightarrow> msr_offsets \<Rightarrow> 'a feat_state_scheme \<Rightarrow> (int \<times> 'a feat_state_scheme) option" where
  "model_monitoring P M s = done_0 (get_all_power_data_fixed P (msr_pkg_power_limit M) (msr_dram_power_limit M)
     (msr_rapl_power_unit M) (msr_pkg_energy_status M) (msr_dram_energy_status M) (ia32_fixed_counters M)
     (ia32_perf_global_ctrl M) (ia32_fixed_ctr_ctrl M) (ia32_aperf M) (ia32_mperf M) (ia32_time_stamp_counter M) s)"

definition model_get_power_json :: "power_env \<Rightarrow> msr_offsets \<Rightarrow> 'a feat_state_scheme \<Rightarrow> (int \<times> 'a feat_state_scheme) option" where
  "model_get_power_json P M s = done_0 (json_get_power_data P (msr_pkg_power_limit M) (msr_rapl_power_unit M)
     (msr_pkg_energy_status M) (msr_dram_energy_status M) s)"

definition model_get_energy_json :: "power_env \<Rightarrow> msr_offsets \<Rightarrow> 'a feat_state_scheme \<Rightarrow> (int \<times> 'a feat_state_scheme) option" where
  "model_get_energy_json P M s = done_0 (json_get_energy_data P (msr_rapl_power_unit M) (msr_pkg_energy_status M) (msr_dram_energy_status M) s)"

definition model_get_thermals_json :: "power_env \<Rightarrow> msr_offsets \<Rightarrow> 'a feat_state_scheme \<Rightarrow> (int \<times> 'a feat_state_scheme) option" where
  "model_get_thermals_json P M s = done_0 (map_option snd (get_therm_temp_reading_json P (ia32_therm_status M)
     (ia32_package_therm_status M) (msr_temperature_target M) s))"

text \<open>The object is a new one, and what it has in the end is printed into a string by jansson.\<close>

definition model_get_node_power_domain_info_json ::
  "power_env \<Rightarrow> msr_offsets \<Rightarrow> 'a feat_state_scheme \<Rightarrow> (int \<times> (string list \<times> json_value) list \<times> 'a feat_state_scheme) option" where
  "model_get_node_power_domain_info_json P M s = do {
     let old = json_sets s;
     s \<leftarrow> json_get_power_domain_info P (msr_pkg_power_info M) (msr_dram_power_info M) (msr_rapl_power_unit M)
           (msr_pkg_power_limit M) (s\<lparr>json_sets := []\<rparr>);
     Some (0, json_sets s, s\<lparr>json_sets := old\<rparr>)
   }"

end
