(* ===== verification/Intel_Models.thy ===== *)
theory Intel_Models imports Intel_Handlers begin

text \<open>
  The functions of the Intel_06_XX.c files, one by one: each calls the handler of Intel_Handlers with the register
  table of its file. The reports of the features list the table.
\<close>

section \<open>Intel\_06\_2A.c\<close>

definition intel_cpu_fm_06_2a_get_power_limits :: "power_env \<Rightarrow> int \<Rightarrow> 'a feat_state_scheme \<Rightarrow> (int \<times> 'a feat_state_scheme) option" where
  "intel_cpu_fm_06_2a_get_power_limits P long_ver s = model_get_power_limits P msrs_06_2a True True long_ver s"

definition intel_cpu_fm_06_2a_cap_power_limits :: "power_env \<Rightarrow> int \<Rightarrow> 'a feat_state_scheme \<Rightarrow> (int \<times> 'a feat_state_scheme) option" where
  "intel_cpu_fm_06_2a_cap_power_limits P package_power_limit s = model_cap_power_limits P msrs_06_2a package_power_limit s"

definition intel_cpu_fm_06_2a_get_features :: "'a feat_state_scheme \<Rightarrow> (int \<times> 'a feat_state_scheme) option" where
  "intel_cpu_fm_06_2a_get_features s = (let M = msrs_06_2a in print_offsets [
    (''msr_platform_info'', msr_platform_info M), (''ia32_time_stamp_counter'', ia32_time_stamp_counter M),
    (''ia32_perf_ctl'', ia32_perf_ctl M), (''ia32_perf_status'', ia32_perf_status M),
    (''ia32_therm_interrupt'', ia32_therm_interrupt M), (''ia32_therm_status'', ia32_therm_status M),
    (''ia32_misc_enable'', ia32_misc_enable M), (''msr_temperature_target'', msr_temperature_target M),
    (''msr_turbo_ratio_limit'', msr_turbo_ratio_limit M), (''ia32_package_therm_status'', ia32_package_therm_status M),
    (''ia32_package_therm_interrupt'', ia32_package_therm_interrupt M), (''ia32_fixed_counters[0]'', ia32_fixed_counters M ! 0),
    (''ia32_fixed_counters[1]'', ia32_fixed_counters M ! 1), (''ia32_fixed_counters[2]'', ia32_fixed_counters M ! 2),
    (''ia32_fixed_ctr_ctrl'', ia32_fixed_ctr_ctrl M), (''ia32_perf_global_status'', ia32_perf_global_status M),
    (''ia32_perf_global_ctrl'', ia32_perf_global_ctrl M), (''ia32_perf_global_ovf_ctrl'', ia32_perf_global_ovf_ctrl M),
    (''msr_rapl_power_unit'', msr_rapl_power_unit M), (''msr_pkg_power_limit'', msr_pkg_power_limit M),
    (''msr_pkg_energy_status'', msr_pkg_energy_status M), (''msr_pkg_power_info'', msr_pkg_power_info M),
    (''msr_dram_power_info'', msr_dram_power_info M), (''ia32_mperf'', ia32_mperf M), (''ia32_aperf'', ia32_aperf M),
    (''ia32_perfmon_counters[0]'', ia32_perfmon_counters M ! 0), (''ia32_perfmon_counters[1]'', ia32_perfmon_counters M ! 1),
    (''ia32_perfmon_counters[2]'', ia32_perfmon_counters M ! 2), (''ia32_perfmon_counters[3]'', ia32_perfmon_counters M ! 3),
    (''ia32_perfmon_counters[4]'', ia32_perfmon_counters M ! 4), (''ia32_perfmon_counters[5]'', ia32_perfmon_counters M ! 5),
    (''ia32_perfmon_counters[6]'', ia32_perfmon_counters M ! 6), (''ia32_perfmon_counters[7]'', ia32_perfmon_counters M ! 7),
    (''ia32_perfevtsel_counters[0]'', ia32_perfevtsel_counters M ! 0),
    (''ia32_perfevtsel_counters[1]'', ia32_perfevtsel_counters M ! 1),
    (''ia32_perfevtsel_counters[2]'', ia32_perfevtsel_counters M ! 2),
    (''ia32_perfevtsel_counters[3]'', ia32_perfevtsel_counters M ! 3),
    (''ia32_perfevtsel_counters[4]'', ia32_perfevtsel_counters M ! 4),
    (''ia32_perfevtsel_counters[5]'', ia32_perfevtsel_counters M ! 5),
    (''ia32_perfevtsel_counters[6]'', ia32_perfevtsel_counters M ! 6),
    (''ia32_perfevtsel_counters[7]'', ia32_perfevtsel_counters M ! 7)] s)"

definition intel_cpu_fm_06_2a_get_thermals :: "power_env \<Rightarrow> int \<Rightarrow> 'a feat_state_scheme \<Rightarrow> (int \<times> 'a feat_state_scheme) option" where
  "intel_cpu_fm_06_2a_get_thermals P long_ver s = model_get_thermals P msrs_06_2a long_ver s"

definition intel_cpu_fm_06_2a_get_counters :: "power_env \<Rightarrow> cpuid \<Rightarrow> int \<Rightarrow> 'a feat_state_scheme \<Rightarrow> (int \<times> 'a feat_state_scheme) option" where
  "intel_cpu_fm_06_2a_get_counters P rax long_ver s = model_get_counters P rax msrs_06_2a long_ver s"

definition intel_cpu_fm_06_2a_get_clocks :: "power_env \<Rightarrow> int \<Rightarrow> 'a feat_state_scheme \<Rightarrow> (int \<times> 'a feat_state_scheme) option" where
  "intel_cpu_fm_06_2a_get_clocks P long_ver s = model_get_clocks P msrs_06_2a SOCKET long_ver s"

definition intel_cpu_fm_06_2a_get_clocks_json :: "power_env \<Rightarrow> 'a feat_state_scheme \<Rightarrow> (int \<times> 'a feat_state_scheme) option" where
  "intel_cpu_fm_06_2a_get_clocks_json P s = model_get_clocks_json P msrs_06_2a s"

definition intel_cpu_fm_06_2a_get_power :: "power_env \<Rightarrow> int \<Rightarrow> 'a feat_state_scheme \<Rightarrow> (int \<times> 'a feat_state_scheme) option" where
  "intel_cpu_fm_06_2a_get_power P long_ver s = model_get_power P msrs_06_2a long_ver s"

definition intel_cpu_fm_06_2a_enable_turbo :: "power_env \<Rightarrow> 'a feat_state_scheme \<Rightarrow> (int \<times> 'a feat_state_scheme) option" where
  "intel_cpu_fm_06_2a_enable_turbo P s = model_enable_turbo P msrs_06_2a s"

definition intel_cpu_fm_06_2a_disable_turbo :: "power_env \<Rightarrow> 'a feat_state_scheme \<Rightarrow> (int \<times> 'a feat_state_scheme) option" where
  "intel_cpu_fm_06_2a_disable_turbo P s = model_disable_turbo P msrs_06_2a s"

definition intel_cpu_fm_06_2a_get_turbo_status :: "power_env \<Rightarrow> 'a feat_state_scheme \<Rightarrow> (int \<times> 'a feat_state_scheme) option" where
  "intel_cpu_fm_06_2a_get_turbo_status P s = model_get_turbo_status P msrs_06_2a s"

definition intel_cpu_fm_06_2a_poll_power :: "power_env \<Rightarrow> 'a feat_state_scheme \<Rightarrow> (int \<times> 'a feat_state_scheme) option" where
  "intel_cpu_fm_06_2a_poll_power P s = model_poll_power P msrs_06_2a s"

definition intel_cpu_fm_06_2a_monitoring :: "power_env \<Rightarrow> 'a feat_state_scheme \<Rightarrow> (int \<times> 'a feat_state_scheme) option" where
  "intel_cpu_fm_06_2a_monitoring P s = model_monitoring P msrs_06_2a s"

definition intel_cpu_fm_06_2a_get_power_json :: "power_env \<Rightarrow> 'a feat_state_scheme \<Rightarrow> (int \<times> 'a feat_state_scheme) option" where
  "intel_cpu_fm_06_2a_get_power_json P s = model_get_power_json P msrs_06_2a s"

definition intel_cpu_fm_06_2a_get_node_power_domain_info_json :: "power_env \<Rightarrow> 'a feat_state_scheme \<Rightarrow> (int \<times> (string list \<times> json_value) list \<times> 'a feat_state_scheme) option" where
  "intel_cpu_fm_06_2a_get_node_power_domain_info_json P s = model_get_node_power_domain_info_json P msrs_06_2a s"

definition intel_cpu_fm_06_2a_get_thermals_json :: "power_env \<Rightarrow> 'a feat_state_scheme \<Rightarrow> (int \<times> 'a feat_state_scheme) option" where
  "intel_cpu_fm_06_2a_get_thermals_json P s = model_get_thermals_json P msrs_06_2a s"

definition intel_cpu_fm_06_2a_cap_best_effort_node_power_limit :: "power_env \<Rightarrow> int \<Rightarrow> 'a feat_state_scheme \<Rightarrow> (int \<times> 'a feat_state_scheme) option" where
  "intel_cpu_fm_06_2a_cap_best_effort_node_power_limit P node_limit s = model_cap_best_effort P msrs_06_2a node_limit s"

definition intel_cpu_fm_06_2a_get_frequencies :: "power_env \<Rightarrow> 'a feat_state_scheme \<Rightarrow> (int \<times> 'a feat_state_scheme) option" where
  "intel_cpu_fm_06_2a_get_frequencies P s = map_option (Pair 0)
    (get_available_frequencies P (msr_platform_info msrs_06_2a) (msr_turbo_ratio_limit msrs_06_2a) None None None s)"

definition intel_cpu_fm_06_2a_get_energy :: "power_env \<Rightarrow> int \<Rightarrow> 'a feat_state_scheme \<Rightarrow> (int \<times> 'a feat_state_scheme) option" where
  "intel_cpu_fm_06_2a_get_energy P long_ver s = model_get_energy P msrs_06_2a long_ver s"

definition intel_cpu_fm_06_2a_get_energy_json :: "power_env \<Rightarrow> 'a feat_state_scheme \<Rightarrow> (int \<times> 'a feat_state_scheme) option" where
  "intel_cpu_fm_06_2a_get_energy_json P s = model_get_energy_json P msrs_06_2a s"

section \<open>Intel\_06\_2D.c\<close>

definition intel_cpu_fm_06_2d_get_power_limits :: "power_env \<Rightarrow> int \<Rightarrow> 'a feat_state_scheme \<Rightarrow> (int \<times> 'a feat_state_scheme) option" where
  "intel_cpu_fm_06_2d_get_power_limits P long_ver s = model_get_power_limits P msrs_06_2d True True long_ver s"

definition intel_cpu_fm_06_2d_cap_power_limits :: "power_env \<Rightarrow> int \<Rightarrow> 'a feat_state_scheme \<Rightarrow> (int \<times> 'a feat_state_scheme) option" where
  "intel_cpu_fm_06_2d_cap_power_limits P package_power_limit s = model_cap_power_limits P msrs_06_2d package_power_limit s"

definition intel_cpu_fm_06_2d_get_features :: "'a feat_state_scheme \<Rightarrow> (int \<times> 'a feat_state_scheme) option" where
  "intel_cpu_fm_06_2d_get_features s = (let M = msrs_06_2d in print_offsets [
    (''msr_platform_info'', msr_platform_info M), (''ia32_time_stamp_counter'', ia32_time_stamp_counter M),
    (''ia32_perf_ctl'', ia32_perf_ctl M), (''ia32_perf_status'', ia32_perf_status M),
    (''ia32_therm_interrupt'', ia32_therm_interrupt M), (''ia32_therm_status'', ia32_therm_status M),
    (''ia32_misc_enable'', ia32_misc_enable M), (''msr_temperature_target'', msr_temperature_target M),
    (''msr_turbo_ratio_limit'', msr_turbo_ratio_limit M), (''msr_turbo_ratio_limit1'', msr_turbo_ratio_limit1 M),
    (''ia32_package_therm_status'', ia32_package_therm_status M),
    (''ia32_package_therm_interrupt'', ia32_package_therm_interrupt M), (''ia32_fixed_counters[0]'', ia32_fixed_counters M ! 0),
    (''ia32_fixed_counters[1]'', ia32_fixed_counters M ! 1), (''ia32_fixed_counters[2]'', ia32_fixed_counters M ! 2),
    (''ia32_fixed_ctr_ctrl'', ia32_fixed_ctr_ctrl M), (''ia32_perf_global_status'', ia32_perf_global_status M),
    (''ia32_perf_global_ctrl'', ia32_perf_global_ctrl M), (''ia32_perf_global_ovf_ctrl'', ia32_perf_global_ovf_ctrl M),
    (''msr_rapl_power_unit'', msr_rapl_power_unit M), (''msr_pkg_power_limit'', msr_pkg_power_limit M),
    (''msr_pkg_energy_status'', msr_pkg_energy_status M), (''msr_pkg_power_info'', msr_pkg_power_info M),
    (''msr_dram_power_info'', msr_dram_power_info M), (''ia32_mperf'', ia32_mperf M), (''ia32_aperf'', ia32_aperf M),
    (''ia32_perfmon_counters[0]'', ia32_perfmon_counters M ! 0), (''ia32_perfmon_counters[1]'', ia32_perfmon_counters M ! 1),
    (''ia32_perfmon_counters[2]'', ia32_perfmon_counters M ! 2), (''ia32_perfmon_counters[3]'', ia32_perfmon_counters M ! 3),
    (''ia32_perfmon_counters[4]'', ia32_perfmon_counters M ! 4), (''ia32_perfmon_counters[5]'', ia32_perfmon_counters M ! 5),
    (''ia32_perfmon_counters[6]'', ia32_perfmon_counters M ! 6), (''ia32_perfmon_counters[7]'', ia32_perfmon_counters M ! 7),
    (''ia32_perfevtsel_counters[0]'', ia32_perfevtsel_counters M ! 0),
    (''ia32_perfevtsel_counters[1]'', ia32_perfevtsel_counters M ! 1),
    (''ia32_perfevtsel_counters[2]'', ia32_perfevtsel_counters M ! 2),
    (''ia32_perfevtsel_counters[3]'', ia32_perfevtsel_counters M ! 3),
    (''ia32_perfevtsel_counters[4]'', ia32_perfevtsel_counters M ! 4),
    (''ia32_perfevtsel_counters[5]'', ia32_perfevtsel_counters M ! 5),
    (''ia32_perfevtsel_counters[6]'', ia32_perfevtsel_counters M ! 6),
    (''ia32_perfevtsel_counters[7]'', ia32_perfevtsel_counters M ! 7)] s)"

definition intel_cpu_fm_06_2d_get_thermals :: "power_env \<Rightarrow> int \<Rightarrow> 'a feat_state_scheme \<Rightarrow> (int \<times> 'a feat_state_scheme) option" where
  "intel_cpu_fm_06_2d_get_thermals P long_ver s = model_get_thermals P msrs_06_2d long_ver s"

definition intel_cpu_fm_06_2d_get_counters :: "power_env \<Rightarrow> cpuid \<Rightarrow> int \<Rightarrow> 'a feat_state_scheme \<Rightarrow> (int \<times> 'a feat_state_scheme) option" where
  "intel_cpu_fm_06_2d_get_counters P rax long_ver s = model_get_counters P rax msrs_06_2d long_ver s"

definition intel_cpu_fm_06_2d_get_clocks :: "power_env \<Rightarrow> int \<Rightarrow> 'a feat_state_scheme \<Rightarrow> (int \<times> 'a feat_state_scheme) option" where
  "intel_cpu_fm_06_2d_get_clocks P long_ver s = model_get_clocks P msrs_06_2d SOCKET long_ver s"

definition intel_cpu_fm_06_2d_get_clocks_json :: "power_env \<Rightarrow> 'a feat_state_scheme \<Rightarrow> (int \<times> 'a feat_state_scheme) option" where
  "intel_cpu_fm_06_2d_get_clocks_json P s = model_get_clocks_json P msrs_06_2d s"

definition intel_cpu_fm_06_2d_get_power :: "power_env \<Rightarrow> int \<Rightarrow> 'a feat_state_scheme \<Rightarrow> (int \<times> 'a feat_state_scheme) option" where
  "intel_cpu_fm_06_2d_get_power P long_ver s = model_get_power P msrs_06_2d long_ver s"

definition intel_cpu_fm_06_2d_enable_turbo :: "power_env \<Rightarrow> 'a feat_state_scheme \<Rightarrow> (int \<times> 'a feat_state_scheme) option" where
  "intel_cpu_fm_06_2d_enable_turbo P s = model_enable_turbo P msrs_06_2d s"

definition intel_cpu_fm_06_2d_disable_turbo :: "power_env \<Rightarrow> 'a feat_state_scheme \<Rightarrow> (int \<times> 'a feat_state_scheme) option" where
  "intel_cpu_fm_06_2d_disable_turbo P s = model_disable_turbo P msrs_06_2d s"

definition intel_cpu_fm_06_2d_get_turbo_status :: "power_env \<Rightarrow> 'a feat_state_scheme \<Rightarrow> (int \<times> 'a feat_state_scheme) option" where
  "intel_cpu_fm_06_2d_get_turbo_status P s = model_get_turbo_status P msrs_06_2d s"

definition intel_cpu_fm_06_2d_poll_power :: "power_env \<Rightarrow> 'a feat_state_scheme \<Rightarrow> (int \<times> 'a feat_state_scheme) option" where
  "intel_cpu_fm_06_2d_poll_power P s = model_poll_power P msrs_06_2d s"

definition intel_cpu_fm_06_2d_monitoring :: "power_env \<Rightarrow> 'a feat_state_scheme \<Rightarrow> (int \<times> 'a feat_state_scheme) option" where
  "intel_cpu_fm_06_2d_monitoring P s = model_monitoring P msrs_06_2d s"

definition intel_cpu_fm_06_2d_get_power_json :: "power_env \<Rightarrow> 'a feat_state_scheme \<Rightarrow> (int \<times> 'a feat_state_scheme) option" where
  "intel_cpu_fm_06_2d_get_power_json P s = model_get_power_json P msrs_06_2d s"

definition intel_cpu_fm_06_2d_get_node_power_domain_info_json :: "power_env \<Rightarrow> 'a feat_state_scheme \<Rightarrow> (int \<times> (string list \<times> json_value) list \<times> 'a feat_state_scheme) option" where
  "intel_cpu_fm_06_2d_get_node_power_domain_info_json P s = model_get_node_power_domain_info_json P msrs_06_2d s"

definition intel_cpu_fm_06_2d_get_thermals_json :: "power_env \<Rightarrow> 'a feat_state_scheme \<Rightarrow> (int \<times> 'a feat_state_scheme) option" where
  "intel_cpu_fm_06_2d_get_thermals_json P s = model_get_thermals_json P msrs_06_2d s"

definition intel_cpu_fm_06_2d_cap_best_effort_node_power_limit :: "power_env \<Rightarrow> int \<Rightarrow> 'a feat_state_scheme \<Rightarrow> (int \<times> 'a feat_state_scheme) option" where
  "intel_cpu_fm_06_2d_cap_best_effort_node_power_limit P node_limit s = model_cap_best_effort P msrs_06_2d node_limit s"

definition intel_cpu_fm_06_2d_get_frequencies :: "power_env \<Rightarrow> 'a feat_state_scheme \<Rightarrow> (int \<times> 'a feat_state_scheme) option" where
  "intel_cpu_fm_06_2d_get_frequencies P s = map_option (Pair 0)
    (get_available_frequencies P (msr_platform_info msrs_06_2d) (msr_turbo_ratio_limit msrs_06_2d) None None None s)"

definition intel_cpu_fm_06_2d_get_energy :: "power_env \<Rightarrow> int \<Rightarrow> 'a feat_state_scheme \<Rightarrow> (int \<times> 'a feat_state_scheme) option" where
  "intel_cpu_fm_06_2d_get_energy P long_ver s = model_get_energy P msrs_06_2d long_ver s"

definition intel_cpu_fm_06_2d_get_energy_json :: "power_env \<Rightarrow> 'a feat_state_scheme \<Rightarrow> (int \<times> 'a feat_state_scheme) option" where
  "intel_cpu_fm_06_2d_get_energy_json P s = model_get_energy_json P msrs_06_2d s"

section \<open>Intel\_06\_3E.c\<close>

definition intel_cpu_fm_06_3e_get_power_limits :: "power_env \<Rightarrow> int \<Rightarrow> 'a feat_state_scheme \<Rightarrow> (int \<times> 'a feat_state_scheme) option" where
  "intel_cpu_fm_06_3e_get_power_limits P long_ver s = model_get_power_limits P msrs_06_3e True True long_ver s"

definition intel_cpu_fm_06_3e_cap_power_limits :: "power_env \<Rightarrow> int \<Rightarrow> 'a feat_state_scheme \<Rightarrow> (int \<times> 'a feat_state_scheme) option" where
  "intel_cpu_fm_06_3e_cap_power_limits P package_power_limit s = model_cap_power_limits P msrs_06_3e package_power_limit s"

definition intel_cpu_fm_06_3e_get_features :: "'a feat_state_scheme \<Rightarrow> (int \<times> 'a feat_state_scheme) option" where
  "intel_cpu_fm_06_3e_get_features s = (let M = msrs_06_3e in print_offsets [
    (''msr_platform_info'', msr_platform_info M), (''ia32_time_stamp_counter'', ia32_time_stamp_counter M),
    (''ia32_perf_ctl'', ia32_perf_ctl M), (''ia32_perf_status'', ia32_perf_status M),
    (''ia32_therm_interrupt'', ia32_therm_interrupt M), (''ia32_therm_status'', ia32_therm_status M),
    (''msr_therm2_ctl'', msr_therm2_ctl M), (''ia32_misc_enable'', ia32_misc_enable M),
    (''msr_temperature_target'', msr_temperature_target M), (''msr_turbo_ratio_limit'', msr_turbo_ratio_limit M),
    (''msr_turbo_ratio_limit1'', msr_turbo_ratio_limit1 M), (''ia32_package_therm_status'', ia32_package_therm_status M),
    (''ia32_package_therm_interrupt'', ia32_package_therm_interrupt M), (''ia32_fixed_counters[0]'', ia32_fixed_counters M ! 0),
    (''ia32_fixed_counters[1]'', ia32_fixed_counters M ! 1), (''ia32_fixed_counters[2]'', ia32_fixed_counters M ! 2),
    (''ia32_fixed_ctr_ctrl'', ia32_fixed_ctr_ctrl M), (''ia32_perf_global_status'', ia32_perf_global_status M),
    (''ia32_perf_global_ctrl'', ia32_perf_global_ctrl M), (''ia32_perf_global_ovf_ctrl'', ia32_perf_global_ovf_ctrl M),
    (''msr_rapl_power_unit'', msr_rapl_power_unit M), (''msr_pkg_power_limit'', msr_pkg_power_limit M),
    (''msr_pkg_energy_status'', msr_pkg_energy_status M), (''msr_pkg_perf_status'', msr_pkg_perf_status M),
    (''msr_pkg_power_info'', msr_pkg_power_info M), (''msr_dram_power_limit'', msr_dram_power_limit M),
    (''msr_dram_energy_status'', msr_dram_energy_status M), (''msr_dram_perf_status'', msr_dram_perf_status M),
    (''msr_dram_power_info'', msr_dram_power_info M), (''msr_turbo_activation_ratio'', msr_turbo_activation_ratio M),
    (''ia32_mperf'', ia32_mperf M), (''ia32_aperf'', ia32_aperf M), (''ia32_perfmon_counters[0]'', ia32_perfmon_counters M ! 0),
    (''ia32_perfmon_counters[1]'', ia32_perfmon_counters M ! 1), (''ia32_perfmon_counters[2]'', ia32_perfmon_counters M ! 2),
    (''ia32_perfmon_counters[3]'', ia32_perfmon_counters M ! 3), (''ia32_perfmon_counters[4]'', ia32_perfmon_counters M ! 4),
    (''ia32_perfmon_counters[5]'', ia32_perfmon_counters M ! 5), (''ia32_perfmon_counters[6]'', ia32_perfmon_counters M ! 6),
    (''ia32_perfmon_counters[7]'', ia32_perfmon_counters M ! 7),
    (''ia32_perfevtsel_counters[0]'', ia32_perfevtsel_counters M ! 0),
    (''ia32_perfevtsel_counters[1]'', ia32_perfevtsel_counters M ! 1),
    (''ia32_perfevtsel_counters[2]'', ia32_perfevtsel_counters M ! 2),
    (''ia32_perfevtsel_counters[3]'', ia32_perfevtsel_counters M ! 3),
    (''ia32_perfevtsel_counters[4]'', ia32_perfevtsel_counters M ! 4),
    (''ia32_perfevtsel_counters[5]'', ia32_perfevtsel_counters M ! 5),
    (''ia32_perfevtsel_counters[6]'', ia32_perfevtsel_counters M ! 6),
    (''ia32_perfevtsel_counters[7]'', ia32_perfevtsel_counters M ! 7), (''msrs_pcu_pmon_evtsel[0]'', msrs_pcu_pmon_evtsel M ! 0),
    (''msrs_pcu_pmon_evtsel[1]'', msrs_pcu_pmon_evtsel M ! 1), (''msrs_pcu_pmon_evtsel[2]'', msrs_pcu_pmon_evtsel M ! 2),
    (''msrs_pcu_pmon_evtsel[3]'', msrs_pcu_pmon_evtsel M ! 3)] s)"

definition intel_cpu_fm_06_3e_get_thermals :: "power_env \<Rightarrow> int \<Rightarrow> 'a feat_state_scheme \<Rightarrow> (int \<times> 'a feat_state_scheme) option" where
  "intel_cpu_fm_06_3e_get_thermals P long_ver s = model_get_thermals P msrs_06_3e long_ver s"

definition intel_cpu_fm_06_3e_get_counters :: "power_env \<Rightarrow> cpuid \<Rightarrow> int \<Rightarrow> 'a feat_state_scheme \<Rightarrow> (int \<times> 'a feat_state_scheme) option" where
  "intel_cpu_fm_06_3e_get_counters P rax long_ver s = model_get_counters P rax msrs_06_3e long_ver s"

definition intel_cpu_fm_06_3e_get_clocks :: "power_env \<Rightarrow> int \<Rightarrow> 'a feat_state_scheme \<Rightarrow> (int \<times> 'a feat_state_scheme) option" where
  "intel_cpu_fm_06_3e_get_clocks P long_ver s = model_get_clocks P msrs_06_3e SOCKET long_ver s"

definition intel_cpu_fm_06_3e_get_clocks_json :: "power_env \<Rightarrow> 'a feat_state_scheme \<Rightarrow> (int \<times> 'a feat_state_scheme) option" where
  "intel_cpu_fm_06_3e_get_clocks_json P s = model_get_clocks_json P msrs_06_3e s"

definition intel_cpu_fm_06_3e_get_power :: "power_env \<Rightarrow> int \<Rightarrow> 'a feat_state_scheme \<Rightarrow> (int \<times> 'a feat_state_scheme) option" where
  "intel_cpu_fm_06_3e_get_power P long_ver s = model_get_power P msrs_06_3e long_ver s"

definition intel_cpu_fm_06_3e_enable_turbo :: "power_env \<Rightarrow> 'a feat_state_scheme \<Rightarrow> (int \<times> 'a feat_state_scheme) option" where
  "intel_cpu_fm_06_3e_enable_turbo P s = model_enable_turbo P msrs_06_3e s"

definition intel_cpu_fm_06_3e_disable_turbo :: "power_env \<Rightarrow> 'a feat_state_scheme \<Rightarrow> (int \<times> 'a feat_state_scheme) option" where
  "intel_cpu_fm_06_3e_disable_turbo P s = model_disable_turbo P msrs_06_3e s"

definition intel_cpu_fm_06_3e_get_turbo_status :: "power_env \<Rightarrow> 'a feat_state_scheme \<Rightarrow> (int \<times> 'a feat_state_scheme) option" where
  "intel_cpu_fm_06_3e_get_turbo_status P s = model_get_turbo_status P msrs_06_3e s"

definition intel_cpu_fm_06_3e_poll_power :: "power_env \<Rightarrow> 'a feat_state_scheme \<Rightarrow> (int \<times> 'a feat_state_scheme) option" where
  "intel_cpu_fm_06_3e_poll_power P s = model_poll_power P msrs_06_3e s"

definition intel_cpu_fm_06_3e_monitoring :: "power_env \<Rightarrow> 'a feat_state_scheme \<Rightarrow> (int \<times> 'a feat_state_scheme) option" where
  "intel_cpu_fm_06_3e_monitoring P s = model_monitoring P msrs_06_3e s"

definition intel_cpu_fm_06_3e_get_power_json :: "power_env \<Rightarrow> 'a feat_state_scheme \<Rightarrow> (int \<times> 'a feat_state_scheme) option" where
  "intel_cpu_fm_06_3e_get_power_json P s = model_get_power_json P msrs_06_3e s"

definition intel_cpu_fm_06_3e_get_node_power_domain_info_json :: "power_env \<Rightarrow> 'a feat_state_scheme \<Rightarrow> (int \<times> (string list \<times> json_value) list \<times> 'a feat_state_scheme) option" where
  "intel_cpu_fm_06_3e_get_node_power_domain_info_json P s = model_get_node_power_domain_info_json P msrs_06_3e s"

definition intel_cpu_fm_06_3e_get_thermals_json :: "power_env \<Rightarrow> 'a feat_state_scheme \<Rightarrow> (int \<times> 'a feat_state_scheme) option" where
  "intel_cpu_fm_06_3e_get_thermals_json P s = model_get_thermals_json P msrs_06_3e s"

definition intel_cpu_fm_06_3e_cap_best_effort_node_power_limit :: "power_env \<Rightarrow> int \<Rightarrow> 'a feat_state_scheme \<Rightarrow> (int \<times> 'a feat_state_scheme) option" where
  "intel_cpu_fm_06_3e_cap_best_effort_node_power_limit P node_limit s = model_cap_best_effort P msrs_06_3e node_limit s"

definition intel_cpu_fm_06_3e_get_frequencies :: "power_env \<Rightarrow> 'a feat_state_scheme \<Rightarrow> (int \<times> 'a feat_state_scheme) option" where
  "intel_cpu_fm_06_3e_get_frequencies P s = map_option (Pair 0)
    (get_available_frequencies P (msr_platform_info msrs_06_3e) (msr_turbo_ratio_limit msrs_06_3e) (Some (msr_turbo_ratio_limit1 msrs_06_3e)) None None s)"

definition intel_cpu_fm_06_3e_get_energy :: "power_env \<Rightarrow> int \<Rightarrow> 'a feat_state_scheme \<Rightarrow> (int \<times> 'a feat_state_scheme) option" where
  "intel_cpu_fm_06_3e_get_energy P long_ver s = model_get_energy P msrs_06_3e long_ver s"

definition intel_cpu_fm_06_3e_get_energy_json :: "power_env \<Rightarrow> 'a feat_state_scheme \<Rightarrow> (int \<times> 'a feat_state_scheme) option" where
  "intel_cpu_fm_06_3e_get_energy_json P s = model_get_energy_json P msrs_06_3e s"

section \<open>Intel\_06\_3F.c\<close>

definition intel_cpu_fm_06_3f_get_power_limits :: "power_env \<Rightarrow> int \<Rightarrow> 'a feat_state_scheme \<Rightarrow> (int \<times> 'a feat_state_scheme) option" where
  "intel_cpu_fm_06_3f_get_power_limits P long_ver s = model_get_power_limits P msrs_06_3f True True long_ver s"

definition intel_cpu_fm_06_3f_cap_power_limits :: "power_env \<Rightarrow> int \<Rightarrow> 'a feat_state_scheme \<Rightarrow> (int \<times> 'a feat_state_scheme) option" where
  "intel_cpu_fm_06_3f_cap_power_limits P package_power_limit s = model_cap_power_limits P msrs_06_3f package_power_limit s"

definition intel_cpu_fm_06_3f_get_features :: "'a feat_state_scheme \<Rightarrow> (int \<times> 'a feat_state_scheme) option" where
  "intel_cpu_fm_06_3f_get_features s = (let M = msrs_06_3f in print_offsets [
    (''msr_platform_info'', msr_platform_info M), (''ia32_time_stamp_counter'', ia32_time_stamp_counter M),
    (''ia32_perf_ctl'', ia32_perf_ctl M), (''ia32_perf_status'', ia32_perf_status M),
    (''ia32_therm_interrupt'', ia32_therm_interrupt M), (''ia32_therm_status'', ia32_therm_status M),
    (''ia32_misc_enable'', ia32_misc_enable M), (''msr_temperature_target'', msr_temperature_target M),
    (''msr_turbo_ratio_limit'', msr_turbo_ratio_limit M), (''msr_turbo_ratio_limit1'', msr_turbo_ratio_limit1 M),
    (''ia32_package_therm_status'', ia32_package_therm_status M),
    (''ia32_package_therm_interrupt'', ia32_package_therm_interrupt M), (''ia32_fixed_counters[0]'', ia32_fixed_counters M ! 0),
    (''ia32_fixed_counters[1]'', ia32_fixed_counters M ! 1), (''ia32_fixed_counters[2]'', ia32_fixed_counters M ! 2),
    (''ia32_fixed_ctr_ctrl'', ia32_fixed_ctr_ctrl M), (''ia32_perf_global_status'', ia32_perf_global_status M),
    (''ia32_perf_global_ctrl'', ia32_perf_global_ctrl M), (''ia32_perf_global_ovf_ctrl'', ia32_perf_global_ovf_ctrl M),
    (''msr_rapl_power_unit'', msr_rapl_power_unit M), (''msr_pkg_power_limit'', msr_pkg_power_limit M),
    (''msr_pkg_energy_status'', msr_pkg_energy_status M), (''msr_pkg_perf_status'', msr_pkg_perf_status M),
    (''msr_pkg_power_info'', msr_pkg_power_info M), (''msr_dram_power_limit'', msr_dram_power_limit M),
    (''msr_dram_energy_status'', msr_dram_energy_status M), (''msr_dram_perf_status'', msr_dram_perf_status M),
    (''msr_dram_power_info'', msr_dram_power_info M), (''msr_turbo_activation_ratio'', msr_turbo_activation_ratio M),
    (''ia32_mperf'', ia32_mperf M), (''ia32_aperf'', ia32_aperf M), (''ia32_perfmon_counters[0]'', ia32_perfmon_counters M ! 0),
    (''ia32_perfmon_counters[1]'', ia32_perfmon_counters M ! 1), (''ia32_perfmon_counters[2]'', ia32_perfmon_counters M ! 2),
    (''ia32_perfmon_counters[3]'', ia32_perfmon_counters M ! 3), (''ia32_perfmon_counters[4]'', ia32_perfmon_counters M ! 4),
    (''ia32_perfmon_counters[5]'', ia32_perfmon_counters M ! 5), (''ia32_perfmon_counters[6]'', ia32_perfmon_counters M ! 6),
    (''ia32_perfmon_counters[7]'', ia32_perfmon_counters M ! 7),
    (''ia32_perfevtsel_counters[0]'', ia32_perfevtsel_counters M ! 0),
    (''ia32_perfevtsel_counters[1]'', ia32_perfevtsel_counters M ! 1),
    (''ia32_perfevtsel_counters[2]'', ia32_perfevtsel_counters M ! 2),
    (''ia32_perfevtsel_counters[3]'', ia32_perfevtsel_counters M ! 3),
    (''ia32_perfevtsel_counters[4]'', ia32_perfevtsel_counters M ! 4),
    (''ia32_perfevtsel_counters[5]'', ia32_perfevtsel_counters M ! 5),
    (''ia32_perfevtsel_counters[6]'', ia32_perfevtsel_counters M ! 6),
    (''ia32_perfevtsel_counters[7]'', ia32_perfevtsel_counters M ! 7)] s)"

definition intel_cpu_fm_06_3f_get_thermals :: "power_env \<Rightarrow> int \<Rightarrow> 'a feat_state_scheme \<Rightarrow> (int \<times> 'a feat_state_scheme) option" where
  "intel_cpu_fm_06_3f_get_thermals P long_ver s = model_get_thermals P msrs_06_3f long_ver s"

definition intel_cpu_fm_06_3f_get_counters :: "power_env \<Rightarrow> cpuid \<Rightarrow> int \<Rightarrow> 'a feat_state_scheme \<Rightarrow> (int \<times> 'a feat_state_scheme) option" where
  "intel_cpu_fm_06_3f_get_counters P rax long_ver s = model_get_counters P rax msrs_06_3f long_ver s"

definition intel_cpu_fm_06_3f_get_clocks :: "power_env \<Rightarrow> int \<Rightarrow> 'a feat_state_scheme \<Rightarrow> (int \<times> 'a feat_state_scheme) option" where
  "intel_cpu_fm_06_3f_get_clocks P long_ver s = model_get_clocks P msrs_06_3f CORE long_ver s"

definition intel_cpu_fm_06_3f_get_clocks_json :: "power_env \<Rightarrow> 'a feat_state_scheme \<Rightarrow> (int \<times> 'a feat_state_scheme) option" where
  "intel_cpu_fm_06_3f_get_clocks_json P s = model_get_clocks_json P msrs_06_3f s"

definition intel_cpu_fm_06_3f_get_power :: "power_env \<Rightarrow> int \<Rightarrow> 'a feat_state_scheme \<Rightarrow> (int \<times> 'a feat_state_scheme) option" where
  "intel_cpu_fm_06_3f_get_power P long_ver s = model_get_power P msrs_06_3f long_ver s"

definition intel_cpu_fm_06_3f_enable_turbo :: "power_env \<Rightarrow> 'a feat_state_scheme \<Rightarrow> (int \<times> 'a feat_state_scheme) option" where
  "intel_cpu_fm_06_3f_enable_turbo P s = model_enable_turbo P msrs_06_3f s"

definition intel_cpu_fm_06_3f_disable_turbo :: "power_env \<Rightarrow> 'a feat_state_scheme \<Rightarrow> (int \<times> 'a feat_state_scheme) option" where
  "intel_cpu_fm_06_3f_disable_turbo P s = model_disable_turbo P msrs_06_3f s"

definition intel_cpu_fm_06_3f_get_turbo_status :: "power_env \<Rightarrow> 'a feat_state_scheme \<Rightarrow> (int \<times> 'a feat_state_scheme) option" where
  "intel_cpu_fm_06_3f_get_turbo_status P s = model_get_turbo_status P msrs_06_3f s"

definition intel_cpu_fm_06_3f_poll_power :: "power_env \<Rightarrow> 'a feat_state_scheme \<Rightarrow> (int \<times> 'a feat_state_scheme) option" where
  "intel_cpu_fm_06_3f_poll_power P s = model_poll_power P msrs_06_3f s"

definition intel_cpu_fm_06_3f_monitoring :: "power_env \<Rightarrow> 'a feat_state_scheme \<Rightarrow> (int \<times> 'a feat_state_scheme) option" where
  "intel_cpu_fm_06_3f_monitoring P s = model_monitoring P msrs_06_3f s"

definition intel_cpu_fm_06_3f_get_power_json :: "power_env \<Rightarrow> 'a feat_state_scheme \<Rightarrow> (int \<times> 'a feat_state_scheme) option" where
  "intel_cpu_fm_06_3f_get_power_json P s = model_get_power_json P msrs_06_3f s"

definition intel_cpu_fm_06_3f_get_node_power_domain_info_json :: "power_env \<Rightarrow> 'a feat_state_scheme \<Rightarrow> (int \<times> (string list \<times> json_value) list \<times> 'a feat_state_scheme) option" where
  "intel_cpu_fm_06_3f_get_node_power_domain_info_json P s = model_get_node_power_domain_info_json P msrs_06_3f s"

definition intel_cpu_fm_06_3f_get_thermals_json :: "power_env \<Rightarrow> 'a feat_state_scheme \<Rightarrow> (int \<times> 'a feat_state_scheme) option" where
  "intel_cpu_fm_06_3f_get_thermals_json P s = model_get_thermals_json P msrs_06_3f s"

definition intel_cpu_fm_06_3f_cap_best_effort_node_power_limit :: "power_env \<Rightarrow> int \<Rightarrow> 'a feat_state_scheme \<Rightarrow> (int \<times> 'a feat_state_scheme) option" where
  "intel_cpu_fm_06_3f_cap_best_effort_node_power_limit P node_limit s = model_cap_best_effort P msrs_06_3f node_limit s"

definition intel_cpu_fm_06_3f_get_frequencies :: "power_env \<Rightarrow> 'a feat_state_scheme \<Rightarrow> (int \<times> 'a feat_state_scheme) option" where
  "intel_cpu_fm_06_3f_get_frequencies P s = map_option (Pair 0)
    (get_available_frequencies P (msr_platform_info msrs_06_3f) (msr_turbo_ratio_limit msrs_06_3f) (Some (msr_turbo_ratio_limit1 msrs_06_3f)) (Some (msr_config_tdp_level1 msrs_06_3f)) (Some (msr_config_tdp_level2 msrs_06_3f)) s)"

definition intel_cpu_fm_06_3f_get_energy :: "power_env \<Rightarrow> int \<Rightarrow> 'a feat_state_scheme \<Rightarrow> (int \<times> 'a feat_state_scheme) option" where
  "intel_cpu_fm_06_3f_get_energy P long_ver s = model_get_energy P msrs_06_3f long_ver s"

definition intel_cpu_fm_06_3f_get_energy_json :: "power_env \<Rightarrow> 'a feat_state_scheme \<Rightarrow> (int \<times> 'a feat_state_scheme) option" where
  "intel_cpu_fm_06_3f_get_energy_json P s = model_get_energy_json P msrs_06_3f s"

section \<open>Intel\_06\_4F.c\<close>

definition intel_cpu_fm_06_4f_get_power_limits :: "power_env \<Rightarrow> int \<Rightarrow> 'a feat_state_scheme \<Rightarrow> (int \<times> 'a feat_state_scheme) option" where
  "intel_cpu_fm_06_4f_get_power_limits P long_ver s = model_get_power_limits P msrs_06_4f True True long_ver s"

definition intel_cpu_fm_06_4f_cap_power_limits :: "power_env \<Rightarrow> int \<Rightarrow> 'a feat_state_scheme \<Rightarrow> (int \<times> 'a feat_state_scheme) option" where
  "intel_cpu_fm_06_4f_cap_power_limits P package_power_limit s = model_cap_power_limits P msrs_06_4f package_power_limit s"

definition intel_cpu_fm_06_4f_get_features :: "'a feat_state_scheme \<Rightarrow> (int \<times> 'a feat_state_scheme) option" where
  "intel_cpu_fm_06_4f_get_features s = (let M = msrs_06_4f in print_offsets [
    (''msr_platform_info'', msr_platform_info M), (''ia32_time_stamp_counter'', ia32_time_stamp_counter M),
    (''ia32_perf_ctl'', ia32_perf_ctl M), (''ia32_perf_status'', ia32_perf_status M),
    (''ia32_therm_interrupt'', ia32_therm_interrupt M), (''ia32_therm_status'', ia32_therm_status M),
    (''msr_therm2_ctl'', msr_therm2_ctl M), (''ia32_misc_enable'', ia32_misc_enable M),
    (''msr_temperature_target'', msr_temperature_target M), (''msr_turbo_ratio_limit'', msr_turbo_ratio_limit M),
    (''msr_turbo_ratio_limit1'', msr_turbo_ratio_limit1 M), (''ia32_package_therm_status'', ia32_package_therm_status M),
    (''ia32_package_therm_interrupt'', ia32_package_therm_interrupt M), (''ia32_fixed_counters[0]'', ia32_fixed_counters M ! 0),
    (''ia32_fixed_counters[1]'', ia32_fixed_counters M ! 1), (''ia32_fixed_counters[2]'', ia32_fixed_counters M ! 2),
    (''ia32_fixed_ctr_ctrl'', ia32_fixed_ctr_ctrl M), (''ia32_perf_global_status'', ia32_perf_global_status M),
    (''ia32_perf_global_ctrl'', ia32_perf_global_ctrl M), (''ia32_perf_global_ovf_ctrl'', ia32_perf_global_ovf_ctrl M),
    (''msr_rapl_power_unit'', msr_rapl_power_unit M), (''msr_pkg_power_limit'', msr_pkg_power_limit M),
    (''msr_pkg_energy_status'', msr_pkg_energy_status M), (''msr_pkg_perf_status'', msr_pkg_perf_status M),
    (''msr_pkg_power_info'', msr_pkg_power_info M), (''msr_dram_power_limit'', msr_dram_power_limit M),
    (''msr_dram_energy_status'', msr_dram_energy_status M), (''msr_dram_perf_status'', msr_dram_perf_status M),
    (''msr_dram_power_info'', msr_dram_power_info M), (''msr_turbo_activation_ratio'', msr_turbo_activation_ratio M),
    (''ia32_mperf'', ia32_mperf M), (''ia32_aperf'', ia32_aperf M), (''ia32_perfmon_counters[0]'', ia32_perfmon_counters M ! 0),
    (''ia32_perfmon_counters[1]'', ia32_perfmon_counters M ! 1), (''ia32_perfmon_counters[2]'', ia32_perfmon_counters M ! 2),
    (''ia32_perfmon_counters[3]'', ia32_perfmon_counters M ! 3), (''ia32_perfmon_counters[4]'', ia32_perfmon_counters M ! 4),
    (''ia32_perfmon_counters[5]'', ia32_perfmon_counters M ! 5), (''ia32_perfmon_counters[6]'', ia32_perfmon_counters M ! 6),
    (''ia32_perfmon_counters[7]'', ia32_perfmon_counters M ! 7),
    (''ia32_perfevtsel_counters[0]'', ia32_perfevtsel_counters M ! 0),
    (''ia32_perfevtsel_counters[1]'', ia32_perfevtsel_counters M ! 1),
    (''ia32_perfevtsel_counters[2]'', ia32_perfevtsel_counters M ! 2),
    (''ia32_perfevtsel_counters[3]'', ia32_perfevtsel_counters M ! 3),
    (''ia32_perfevtsel_counters[4]'', ia32_perfevtsel_counters M ! 4),
    (''ia32_perfevtsel_counters[5]'', ia32_perfevtsel_counters M ! 5),
    (''ia32_perfevtsel_counters[6]'', ia32_perfevtsel_counters M ! 6),
    (''ia32_perfevtsel_counters[7]'', ia32_perfevtsel_counters M ! 7), (''msrs_pcu_pmon_evtsel[0]'', msrs_pcu_pmon_evtsel M ! 0),
    (''msrs_pcu_pmon_evtsel[1]'', msrs_pcu_pmon_evtsel M ! 1), (''msrs_pcu_pmon_evtsel[2]'', msrs_pcu_pmon_evtsel M ! 2),
    (''msrs_pcu_pmon_evtsel[3]'', msrs_pcu_pmon_evtsel M ! 3)] s)"

definition intel_cpu_fm_06_4f_get_thermals :: "power_env \<Rightarrow> int \<Rightarrow> 'a feat_state_scheme \<Rightarrow> (int \<times> 'a feat_state_scheme) option" where
  "intel_cpu_fm_06_4f_get_thermals P long_ver s = model_get_thermals P msrs_06_4f long_ver s"

definition intel_cpu_fm_06_4f_get_counters :: "power_env \<Rightarrow> cpuid \<Rightarrow> int \<Rightarrow> 'a feat_state_scheme \<Rightarrow> (int \<times> 'a feat_state_scheme) option" where
  "intel_cpu_fm_06_4f_get_counters P rax long_ver s = model_get_counters P rax msrs_06_4f long_ver s"

definition intel_cpu_fm_06_4f_get_clocks :: "power_env \<Rightarrow> int \<Rightarrow> 'a feat_state_scheme \<Rightarrow> (int \<times> 'a feat_state_scheme) option" where
  "intel_cpu_fm_06_4f_get_clocks P long_ver s = model_get_clocks P msrs_06_4f CORE long_ver s"

definition intel_cpu_fm_06_4f_get_clocks_json :: "power_env \<Rightarrow> 'a feat_state_scheme \<Rightarrow> (int \<times> 'a feat_state_scheme) option" where
  "intel_cpu_fm_06_4f_get_clocks_json P s = model_get_clocks_json P msrs_06_4f s"

definition intel_cpu_fm_06_4f_get_power :: "power_env \<Rightarrow> int \<Rightarrow> 'a feat_state_scheme \<Rightarrow> (int \<times> 'a feat_state_scheme) option" where
  "intel_cpu_fm_06_4f_get_power P long_ver s = model_get_power P msrs_06_4f long_ver s"

definition intel_cpu_fm_06_4f_enable_turbo :: "power_env \<Rightarrow> 'a feat_state_scheme \<Rightarrow> (int \<times> 'a feat_state_scheme) option" where
  "intel_cpu_fm_06_4f_enable_turbo P s = model_enable_turbo P msrs_06_4f s"

definition intel_cpu_fm_06_4f_disable_turbo :: "power_env \<Rightarrow> 'a feat_state_scheme \<Rightarrow> (int \<times> 'a feat_state_scheme) option" where
  "intel_cpu_fm_06_4f_disable_turbo P s = model_disable_turbo P msrs_06_4f s"

definition intel_cpu_fm_06_4f_get_turbo_status :: "power_env \<Rightarrow> 'a feat_state_scheme \<Rightarrow> (int \<times> 'a feat_state_scheme) option" where
  "intel_cpu_fm_06_4f_get_turbo_status P s = model_get_turbo_status P msrs_06_4f s"

definition intel_cpu_fm_06_4f_poll_power :: "power_env \<Rightarrow> 'a feat_state_scheme \<Rightarrow> (int \<times> 'a feat_state_scheme) option" where
  "intel_cpu_fm_06_4f_poll_power P s = model_poll_power P msrs_06_4f s"

definition intel_cpu_fm_06_4f_monitoring :: "power_env \<Rightarrow> 'a feat_state_scheme \<Rightarrow> (int \<times> 'a feat_state_scheme) option" where
  "intel_cpu_fm_06_4f_monitoring P s = model_monitoring P msrs_06_4f s"

definition intel_cpu_fm_06_4f_get_power_json :: "power_env \<Rightarrow> 'a feat_state_scheme \<Rightarrow> (int \<times> 'a feat_state_scheme) option" where
  "intel_cpu_fm_06_4f_get_power_json P s = model_get_power_json P msrs_06_4f s"

definition intel_cpu_fm_06_4f_get_node_power_domain_info_json :: "power_env \<Rightarrow> 'a feat_state_scheme \<Rightarrow> (int \<times> (string list \<times> json_value) list \<times> 'a feat_state_scheme) option" where
  "intel_cpu_fm_06_4f_get_node_power_domain_info_json P s = model_get_node_power_domain_info_json P msrs_06_4f s"

definition intel_cpu_fm_06_4f_get_thermals_json :: "power_env \<Rightarrow> 'a feat_state_scheme \<Rightarrow> (int \<times> 'a feat_state_scheme) option" where
  "intel_cpu_fm_06_4f_get_thermals_json P s = model_get_thermals_json P msrs_06_4f s"

definition intel_cpu_fm_06_4f_cap_best_effort_node_power_limit :: "power_env \<Rightarrow> int \<Rightarrow> 'a feat_state_scheme \<Rightarrow> (int \<times> 'a feat_state_scheme) option" where
  "intel_cpu_fm_06_4f_cap_best_effort_node_power_limit P node_limit s = model_cap_best_effort P msrs_06_4f node_limit s"

definition intel_cpu_fm_06_4f_get_frequencies :: "power_env \<Rightarrow> 'a feat_state_scheme \<Rightarrow> (int \<times> 'a feat_state_scheme) option" where
  "intel_cpu_fm_06_4f_get_frequencies P s = map_option (Pair 0)
    (get_available_frequencies P (msr_platform_info msrs_06_4f) (msr_turbo_ratio_limit msrs_06_4f) (Some (msr_turbo_ratio_limit1 msrs_06_4f)) (Some (msr_config_tdp_level1 msrs_06_4f)) (Some (msr_config_tdp_level2 msrs_06_4f)) s)"

definition intel_cpu_fm_06_4f_get_energy :: "power_env \<Rightarrow> int \<Rightarrow> 'a feat_state_scheme \<Rightarrow> (int \<times> 'a feat_state_scheme) option" where
  "intel_cpu_fm_06_4f_get_energy P long_ver s = model_get_energy P msrs_06_4f long_ver s"

definition intel_cpu_fm_06_4f_get_energy_json :: "power_env \<Rightarrow> 'a feat_state_scheme \<Rightarrow> (int \<times> 'a feat_state_scheme) option" where
  "intel_cpu_fm_06_4f_get_energy_json P s = model_get_energy_json P msrs_06_4f s"

section \<open>Intel\_06\_55.c\<close>

definition intel_cpu_fm_06_55_get_power_limits :: "power_env \<Rightarrow> int \<Rightarrow> 'a feat_state_scheme \<Rightarrow> (int \<times> 'a feat_state_scheme) option" where
  "intel_cpu_fm_06_55_get_power_limits P long_ver s = model_get_power_limits P msrs_06_55 False True long_ver s"

definition intel_cpu_fm_06_55_cap_power_limits :: "power_env \<Rightarrow> int \<Rightarrow> 'a feat_state_scheme \<Rightarrow> (int \<times> 'a feat_state_scheme) option" where
  "intel_cpu_fm_06_55_cap_power_limits P package_power_limit s = model_cap_power_limits P msrs_06_55 package_power_limit s"

definition intel_cpu_fm_06_55_get_features :: "'a feat_state_scheme \<Rightarrow> (int \<times> 'a feat_state_scheme) option" where
  "intel_cpu_fm_06_55_get_features s = (let M = msrs_06_55 in print_offsets [
    (''msr_platform_info'', msr_platform_info M), (''ia32_time_stamp_counter'', ia32_time_stamp_counter M),
    (''ia32_perf_ctl'', ia32_perf_ctl M), (''ia32_perf_status'', ia32_perf_status M),
    (''ia32_therm_interrupt'', ia32_therm_interrupt M), (''ia32_therm_status'', ia32_therm_status M),
    (''ia32_misc_enable'', ia32_misc_enable M), (''msr_temperature_target'', msr_temperature_target M),
    (''msr_turbo_ratio_limit'', msr_turbo_ratio_limit M), (''msr_turbo_ratio_limit_cores'', msr_turbo_ratio_limit_cores M),
    (''ia32_package_therm_status'', ia32_package_therm_status M),
    (''ia32_package_therm_interrupt'', ia32_package_therm_interrupt M), (''ia32_fixed_counters[0]'', ia32_fixed_counters M ! 0),
    (''ia32_fixed_counters[1]'', ia32_fixed_counters M ! 1), (''ia32_fixed_counters[2]'', ia32_fixed_counters M ! 2),
    (''ia32_fixed_ctr_ctrl'', ia32_fixed_ctr_ctrl M), (''ia32_perf_global_status'', ia32_perf_global_status M),
    (''ia32_perf_global_ctrl'', ia32_perf_global_ctrl M), (''ia32_perf_global_ovf_ctrl'', ia32_perf_global_ovf_ctrl M),
    (''msr_rapl_power_unit'', msr_rapl_power_unit M), (''msr_pkg_power_limit'', msr_pkg_power_limit M),
    (''msr_pkg_energy_status'', msr_pkg_energy_status M), (''msr_pkg_perf_status'', msr_pkg_perf_status M),
    (''msr_pkg_power_info'', msr_pkg_power_info M), (''msr_dram_power_limit'', msr_dram_power_limit M),
    (''msr_dram_energy_status'', msr_dram_energy_status M), (''msr_dram_perf_status'', msr_dram_perf_status M),
    (''msr_dram_power_info'', msr_dram_power_info M), (''msr_turbo_activation_ratio'', msr_turbo_activation_ratio M),
    (''ia32_mperf'', ia32_mperf M), (''ia32_aperf'', ia32_aperf M), (''ia32_perfmon_counters[0]'', ia32_perfmon_counters M ! 0),
    (''ia32_perfmon_counters[1]'', ia32_perfmon_counters M ! 1), (''ia32_perfmon_counters[2]'', ia32_perfmon_counters M ! 2),
    (''ia32_perfmon_counters[3]'', ia32_perfmon_counters M ! 3), (''ia32_perfmon_counters[4]'', ia32_perfmon_counters M ! 4),
    (''ia32_perfmon_counters[5]'', ia32_perfmon_counters M ! 5), (''ia32_perfmon_counters[6]'', ia32_perfmon_counters M ! 6),
    (''ia32_perfmon_counters[7]'', ia32_perfmon_counters M ! 7),
    (''ia32_perfevtsel_counters[0]'', ia32_perfevtsel_counters M ! 0),
    (''ia32_perfevtsel_counters[1]'', ia32_perfevtsel_counters M ! 1),
    (''ia32_perfevtsel_counters[2]'', ia32_perfevtsel_counters M ! 2),
    (''ia32_perfevtsel_counters[3]'', ia32_perfevtsel_counters M ! 3),
    (''ia32_perfevtsel_counters[4]'', ia32_perfevtsel_counters M ! 4),
    (''ia32_perfevtsel_counters[5]'', ia32_perfevtsel_counters M ! 5),
    (''ia32_perfevtsel_counters[6]'', ia32_perfevtsel_counters M ! 6),
    (''ia32_perfevtsel_counters[7]'', ia32_perfevtsel_counters M ! 7)] s)"

definition intel_cpu_fm_06_55_get_thermals :: "power_env \<Rightarrow> int \<Rightarrow> 'a feat_state_scheme \<Rightarrow> (int \<times> 'a feat_state_scheme) option" where
  "intel_cpu_fm_06_55_get_thermals P long_ver s = model_get_thermals P msrs_06_55 long_ver s"

definition intel_cpu_fm_06_55_get_counters :: "power_env \<Rightarrow> cpuid \<Rightarrow> int \<Rightarrow> 'a feat_state_scheme \<Rightarrow> (int \<times> 'a feat_state_scheme) option" where
  "intel_cpu_fm_06_55_get_counters P rax long_ver s = model_get_counters P rax msrs_06_55 long_ver s"

definition intel_cpu_fm_06_55_get_clocks :: "power_env \<Rightarrow> int \<Rightarrow> 'a feat_state_scheme \<Rightarrow> (int \<times> 'a feat_state_scheme) option" where
  "intel_cpu_fm_06_55_get_clocks P long_ver s = model_get_clocks P msrs_06_55 CORE long_ver s"

definition intel_cpu_fm_06_55_get_clocks_json :: "power_env \<Rightarrow> 'a feat_state_scheme \<Rightarrow> (int \<times> 'a feat_state_scheme) option" where
  "intel_cpu_fm_06_55_get_clocks_json P s = model_get_clocks_json P msrs_06_55 s"

definition intel_cpu_fm_06_55_get_power :: "power_env \<Rightarrow> int \<Rightarrow> 'a feat_state_scheme \<Rightarrow> (int \<times> 'a feat_state_scheme) option" where
  "intel_cpu_fm_06_55_get_power P long_ver s = model_get_power P msrs_06_55 long_ver s"

definition intel_cpu_fm_06_55_poll_power :: "power_env \<Rightarrow> 'a feat_state_scheme \<Rightarrow> (int \<times> 'a feat_state_scheme) option" where
  "intel_cpu_fm_06_55_poll_power P s = model_poll_power P msrs_06_55 s"

definition intel_cpu_fm_06_55_monitoring :: "power_env \<Rightarrow> 'a feat_state_scheme \<Rightarrow> (int \<times> 'a feat_state_scheme) option" where
  "intel_cpu_fm_06_55_monitoring P s = model_monitoring P msrs_06_55 s"

definition intel_cpu_fm_06_55_get_power_json :: "power_env \<Rightarrow> 'a feat_state_scheme \<Rightarrow> (int \<times> 'a feat_state_scheme) option" where
  "intel_cpu_fm_06_55_get_power_json P s = model_get_power_json P msrs_06_55 s"

definition intel_cpu_fm_06_55_get_node_power_domain_info_json :: "power_env \<Rightarrow> 'a feat_state_scheme \<Rightarrow> (int \<times> (string list \<times> json_value) list \<times> 'a feat_state_scheme) option" where
  "intel_cpu_fm_06_55_get_node_power_domain_info_json P s = model_get_node_power_domain_info_json P msrs_06_55 s"

definition intel_cpu_fm_06_55_get_thermals_json :: "power_env \<Rightarrow> 'a feat_state_scheme \<Rightarrow> (int \<times> 'a feat_state_scheme) option" where
  "intel_cpu_fm_06_55_get_thermals_json P s = model_get_thermals_json P msrs_06_55 s"

definition intel_cpu_fm_06_55_cap_best_effort_node_power_limit :: "power_env \<Rightarrow> int \<Rightarrow> 'a feat_state_scheme \<Rightarrow> (int \<times> 'a feat_state_scheme) option" where
  "intel_cpu_fm_06_55_cap_best_effort_node_power_limit P node_limit s = model_cap_best_effort P msrs_06_55 node_limit s"

definition intel_cpu_fm_06_55_cap_frequency :: "power_env \<Rightarrow> int \<Rightarrow> 'a feat_state_scheme \<Rightarrow> (int \<times> 'a feat_state_scheme) option" where
  "intel_cpu_fm_06_55_cap_frequency P core_freq_mhz s = do {
     (_, s) \<leftarrow> get_topo (pe_hw P) P_INTEL_CPU_IDX s;
     map_option (Pair 0) (cap_p_state P core_freq_mhz CORE (ia32_perf_status msrs_06_55) s)
   }"

definition intel_cpu_fm_06_55_get_frequencies :: "power_env \<Rightarrow> 'a feat_state_scheme \<Rightarrow> (int \<times> 'a feat_state_scheme) option" where
  "intel_cpu_fm_06_55_get_frequencies P s = map_option (Pair 0)
    (get_available_frequencies_skx P (msr_platform_info msrs_06_55) (msr_turbo_ratio_limit msrs_06_55) (Some (msr_turbo_ratio_limit_cores msrs_06_55)) (Some (msr_config_tdp_level1 msrs_06_55)) (Some (msr_config_tdp_level2 msrs_06_55)) s)"

definition intel_cpu_fm_06_55_get_energy :: "power_env \<Rightarrow> int \<Rightarrow> 'a feat_state_scheme \<Rightarrow> (int \<times> 'a feat_state_scheme) option" where
  "intel_cpu_fm_06_55_get_energy P long_ver s = model_get_energy P msrs_06_55 long_ver s"

definition intel_cpu_fm_06_55_get_energy_json :: "power_env \<Rightarrow> 'a feat_state_scheme \<Rightarrow> (int \<times> 'a feat_state_scheme) option" where
  "intel_cpu_fm_06_55_get_energy_json P s = model_get_energy_json P msrs_06_55 s"

section \<open>Intel\_06\_9E.c\<close>

definition intel_cpu_fm_06_9e_get_power_limits :: "power_env \<Rightarrow> int \<Rightarrow> 'a feat_state_scheme \<Rightarrow> (int \<times> 'a feat_state_scheme) option" where
  "intel_cpu_fm_06_9e_get_power_limits P long_ver s = model_get_power_limits P msrs_06_9e False True long_ver s"

definition intel_cpu_fm_06_9e_cap_power_limits :: "power_env \<Rightarrow> int \<Rightarrow> 'a feat_state_scheme \<Rightarrow> (int \<times> 'a feat_state_scheme) option" where
  "intel_cpu_fm_06_9e_cap_power_limits P package_power_limit s = model_cap_power_limits P msrs_06_9e package_power_limit s"

definition intel_cpu_fm_06_9e_get_features :: "'a feat_state_scheme \<Rightarrow> (int \<times> 'a feat_state_scheme) option" where
  "intel_cpu_fm_06_9e_get_features s = (let M = msrs_06_9e in print_offsets [
    (''msr_platform_info'', msr_platform_info M), (''ia32_time_stamp_counter'', ia32_time_stamp_counter M),
    (''ia32_perf_ctl'', ia32_perf_ctl M), (''ia32_perf_status'', ia32_perf_status M),
    (''ia32_therm_interrupt'', ia32_therm_interrupt M), (''ia32_therm_status'', ia32_therm_status M),
    (''msr_therm2_ctl'', msr_therm2_ctl M), (''ia32_misc_enable'', ia32_misc_enable M),
    (''msr_temperature_target'', msr_temperature_target M), (''msr_turbo_ratio_limit'', msr_turbo_ratio_limit M),
    (''msr_turbo_ratio_limit_cores'', msr_turbo_ratio_limit_cores M),
    (''ia32_package_therm_status'', ia32_package_therm_status M),
    (''ia32_package_therm_interrupt'', ia32_package_therm_interrupt M), (''ia32_fixed_counters[0]'', ia32_fixed_counters M ! 0),
    (''ia32_fixed_counters[1]'', ia32_fixed_counters M ! 1), (''ia32_fixed_counters[2]'', ia32_fixed_counters M ! 2),
    (''ia32_fixed_ctr_ctrl'', ia32_fixed_ctr_ctrl M), (''ia32_perf_global_status'', ia32_perf_global_status M),
    (''ia32_perf_global_ctrl'', ia32_perf_global_ctrl M), (''ia32_perf_global_ovf_ctrl'', ia32_perf_global_ovf_ctrl M),
    (''msr_rapl_power_unit'', msr_rapl_power_unit M), (''msr_pkg_power_limit'', msr_pkg_power_limit M),
    (''msr_pkg_energy_status'', msr_pkg_energy_status M), (''msr_pkg_perf_status'', msr_pkg_perf_status M),
    (''msr_pkg_power_info'', msr_pkg_power_info M), (''msr_dram_power_limit'', msr_dram_power_limit M),
    (''msr_dram_energy_status'', msr_dram_energy_status M), (''msr_dram_perf_status'', msr_dram_perf_status M),
    (''msr_dram_power_info'', msr_dram_power_info M), (''msr_turbo_activation_ratio'', msr_turbo_activation_ratio M),
    (''ia32_mperf'', ia32_mperf M), (''ia32_aperf'', ia32_aperf M), (''ia32_perfmon_counters[0]'', ia32_perfmon_counters M ! 0),
    (''ia32_perfmon_counters[1]'', ia32_perfmon_counters M ! 1), (''ia32_perfmon_counters[2]'', ia32_perfmon_counters M ! 2),
    (''ia32_perfmon_counters[3]'', ia32_perfmon_counters M ! 3), (''ia32_perfmon_counters[4]'', ia32_perfmon_counters M ! 4),
    (''ia32_perfmon_counters[5]'', ia32_perfmon_counters M ! 5), (''ia32_perfmon_counters[6]'', ia32_perfmon_counters M ! 6),
    (''ia32_perfmon_counters[7]'', ia32_perfmon_counters M ! 7),
    (''ia32_perfevtsel_counters[0]'', ia32_perfevtsel_counters M ! 0),
    (''ia32_perfevtsel_counters[1]'', ia32_perfevtsel_counters M ! 1),
    (''ia32_perfevtsel_counters[2]'', ia32_perfevtsel_counters M ! 2),
    (''ia32_perfevtsel_counters[3]'', ia32_perfevtsel_counters M ! 3),
    (''ia32_perfevtsel_counters[4]'', ia32_perfevtsel_counters M ! 4),
    (''ia32_perfevtsel_counters[5]'', ia32_perfevtsel_counters M ! 5),
    (''ia32_perfevtsel_counters[6]'', ia32_perfevtsel_counters M ! 6),
    (''ia32_perfevtsel_counters[7]'', ia32_perfevtsel_counters M ! 7)] s)"

definition intel_cpu_fm_06_9e_get_thermals :: "power_env \<Rightarrow> int \<Rightarrow> 'a feat_state_scheme \<Rightarrow> (int \<times> 'a feat_state_scheme) option" where
  "intel_cpu_fm_06_9e_get_thermals P long_ver s = model_get_thermals P msrs_06_9e long_ver s"

definition intel_cpu_fm_06_9e_get_counters :: "power_env \<Rightarrow> cpuid \<Rightarrow> int \<Rightarrow> 'a feat_state_scheme \<Rightarrow> (int \<times> 'a feat_state_scheme) option" where
  "intel_cpu_fm_06_9e_get_counters P rax long_ver s = model_get_counters P rax msrs_06_9e long_ver s"

definition intel_cpu_fm_06_9e_get_clocks :: "power_env \<Rightarrow> int \<Rightarrow> 'a feat_state_scheme \<Rightarrow> (int \<times> 'a feat_state_scheme) option" where
  "intel_cpu_fm_06_9e_get_clocks P long_ver s = model_get_clocks P msrs_06_9e CORE long_ver s"

definition intel_cpu_fm_06_9e_get_power :: "power_env \<Rightarrow> int \<Rightarrow> 'a feat_state_scheme \<Rightarrow> (int \<times> 'a feat_state_scheme) option" where
  "intel_cpu_fm_06_9e_get_power P long_ver s = model_get_power P msrs_06_9e long_ver s"

definition intel_cpu_fm_06_9e_poll_power :: "power_env \<Rightarrow> 'a feat_state_scheme \<Rightarrow> (int \<times> 'a feat_state_scheme) option" where
  "intel_cpu_fm_06_9e_poll_power P s = model_poll_power P msrs_06_9e s"

definition intel_cpu_fm_06_9e_monitoring :: "power_env \<Rightarrow> 'a feat_state_scheme \<Rightarrow> (int \<times> 'a feat_state_scheme) option" where
  "intel_cpu_fm_06_9e_monitoring P s = model_monitoring P msrs_06_9e s"

definition intel_cpu_fm_06_9e_get_power_json :: "power_env \<Rightarrow> 'a feat_state_scheme \<Rightarrow> (int \<times> 'a feat_state_scheme) option" where
  "intel_cpu_fm_06_9e_get_power_json P s = model_get_power_json P msrs_06_9e s"

definition intel_cpu_fm_06_9e_get_node_power_domain_info_json :: "power_env \<Rightarrow> 'a feat_state_scheme \<Rightarrow> (int \<times> (string list \<times> json_value) list \<times> 'a feat_state_scheme) option" where
  "intel_cpu_fm_06_9e_get_node_power_domain_info_json P s = model_get_node_power_domain_info_json P msrs_06_9e s"

definition intel_cpu_fm_06_9e_get_thermals_json :: "power_env \<Rightarrow> 'a feat_state_scheme \<Rightarrow> (int \<times> 'a feat_state_scheme) option" where
  "intel_cpu_fm_06_9e_get_thermals_json P s = model_get_thermals_json P msrs_06_9e s"

definition intel_cpu_fm_06_9e_get_clocks_json :: "power_env \<Rightarrow> 'a feat_state_scheme \<Rightarrow> (int \<times> 'a feat_state_scheme) option" where
  "intel_cpu_fm_06_9e_get_clocks_json P s = model_get_clocks_json P msrs_06_9e s"

definition intel_cpu_fm_06_9e_cap_best_effort_node_power_limit :: "power_env \<Rightarrow> int \<Rightarrow> 'a feat_state_scheme \<Rightarrow> (int \<times> 'a feat_state_scheme) option" where
  "intel_cpu_fm_06_9e_cap_best_effort_node_power_limit P node_limit s = model_cap_best_effort P msrs_06_9e node_limit s"

definition intel_cpu_fm_06_9e_get_frequencies :: "power_env \<Rightarrow> 'a feat_state_scheme \<Rightarrow> (int \<times> 'a feat_state_scheme) option" where
  "intel_cpu_fm_06_9e_get_frequencies P s = map_option (Pair 0)
    (get_available_frequencies_skx P (msr_platform_info msrs_06_9e) (msr_turbo_ratio_limit msrs_06_9e) (Some (msr_turbo_ratio_limit_cores msrs_06_9e)) (Some (msr_config_tdp_level1 msrs_06_9e)) (Some (msr_config_tdp_level2 msrs_06_9e)) s)"

definition intel_cpu_fm_06_9e_get_energy :: "power_env \<Rightarrow> int \<Rightarrow> 'a feat_state_scheme \<Rightarrow> (int \<times> 'a feat_state_scheme) option" where
  "intel_cpu_fm_06_9e_get_energy P long_ver s = model_get_energy P msrs_06_9e long_ver s"

definition intel_cpu_fm_06_9e_get_energy_json :: "power_env \<Rightarrow> 'a feat_state_scheme \<Rightarrow> (int \<times> 'a feat_state_scheme) option" where
  "intel_cpu_fm_06_9e_get_energy_json P s = model_get_energy_json P msrs_06_9e s"

section \<open>Intel\_06\_6A.c\<close>

definition intel_cpu_fm_06_6a_get_power_limits :: "power_env \<Rightarrow> int \<Rightarrow> 'a feat_state_scheme \<Rightarrow> (int \<times> 'a feat_state_scheme) option" where
  "intel_cpu_fm_06_6a_get_power_limits P long_ver s = model_get_power_limits P msrs_06_6a False False long_ver s"

definition intel_cpu_fm_06_6a_get_features :: "'a feat_state_scheme \<Rightarrow> (int \<times> 'a feat_state_scheme) option" where
  "intel_cpu_fm_06_6a_get_features s = (let M = msrs_06_6a in print_offsets [
    (''msr_platform_info'', msr_platform_info M), (''ia32_time_stamp_counter'', ia32_time_stamp_counter M),
    (''msr_rapl_power_unit'', msr_rapl_power_unit M), (''msr_pkg_power_limit'', msr_pkg_power_limit M),
    (''msr_pkg_energy_status'', msr_pkg_energy_status M), (''msr_pkg_power_info'', msr_pkg_power_info M),
    (''msr_dram_power_limit'', msr_dram_power_limit M), (''msr_dram_energy_status'', msr_dram_energy_status M),
    (''msr_dram_power_info'', msr_dram_power_info M)] s)"

definition intel_cpu_fm_06_6a_get_power :: "power_env \<Rightarrow> int \<Rightarrow> 'a feat_state_scheme \<Rightarrow> (int \<times> 'a feat_state_scheme) option" where
  "intel_cpu_fm_06_6a_get_power P long_ver s = model_get_power P msrs_06_6a long_ver s"

definition intel_cpu_fm_06_6a_get_power_json :: "power_env \<Rightarrow> 'a feat_state_scheme \<Rightarrow> (int \<times> 'a feat_state_scheme) option" where
  "intel_cpu_fm_06_6a_get_power_json P s = model_get_power_json P msrs_06_6a s"

definition intel_cpu_fm_06_6a_get_node_power_domain_info_json :: "power_env \<Rightarrow> 'a feat_state_scheme \<Rightarrow> (int \<times> (string list \<times> json_value) list \<times> 'a feat_state_scheme) option" where
  "intel_cpu_fm_06_6a_get_node_power_domain_info_json P s = model_get_node_power_domain_info_json P msrs_06_6a s"

definition intel_cpu_fm_06_6a_get_energy :: "power_env \<Rightarrow> int \<Rightarrow> 'a feat_state_scheme \<Rightarrow> (int \<times> 'a feat_state_scheme) option" where
  "intel_cpu_fm_06_6a_get_energy P long_ver s = model_get_energy P msrs_06_6a long_ver s"

definition intel_cpu_fm_06_6a_get_energy_json :: "power_env \<Rightarrow> 'a feat_state_scheme \<Rightarrow> (int \<times> 'a feat_state_scheme) option" where
  "intel_cpu_fm_06_6a_get_energy_json P s = model_get_energy_json P msrs_06_6a s"

section \<open>Intel\_06\_8F.c\<close>

definition fm_06_8f_get_power_limits :: "power_env \<Rightarrow> int \<Rightarrow> 'a feat_state_scheme \<Rightarrow> (int \<times> 'a feat_state_scheme) option" where
  "fm_06_8f_get_power_limits P long_ver s = model_get_power_limits P msrs_06_8f False False long_ver s"

definition fm_06_8f_get_features :: "'a feat_state_scheme \<Rightarrow> (int \<times> 'a feat_state_scheme) option" where
  "fm_06_8f_get_features s = (let M = msrs_06_8f in print_offsets [
    (''msr_platform_info'', msr_platform_info M), (''ia32_time_stamp_counter'', ia32_time_stamp_counter M),
    (''msr_rapl_power_unit'', msr_rapl_power_unit M), (''msr_pkg_power_limit'', msr_pkg_power_limit M),
    (''msr_pkg_energy_status'', msr_pkg_energy_status M), (''msr_pkg_power_info'', msr_pkg_power_info M),
    (''msr_dram_power_limit'', msr_dram_power_limit M), (''msr_dram_energy_status'', msr_dram_energy_status M),
    (''msr_dram_power_info'', msr_dram_power_info M)] s)"

definition fm_06_8f_get_power :: "power_env \<Rightarrow> int \<Rightarrow> 'a feat_state_scheme \<Rightarrow> (int \<times> 'a feat_state_scheme) option" where
  "fm_06_8f_get_power P long_ver s = model_get_power P msrs_06_8f long_ver s"

definition fm_06_8f_get_power_json :: "power_env \<Rightarrow> 'a feat_state_scheme \<Rightarrow> (int \<times> 'a feat_state_scheme) option" where
  "fm_06_8f_get_power_json P s = model_get_power_json P msrs_06_8f s"

definition fm_06_8f_get_node_power_domain_info_json :: "power_env \<Rightarrow> 'a feat_state_scheme \<Rightarrow> (int \<times> (string list \<times> json_value) list \<times> 'a feat_state_scheme) option" where
  "fm_06_8f_get_node_power_domain_info_json P s = model_get_node_power_domain_info_json P msrs_06_8f s"

definition fm_06_8f_monitoring :: "power_env \<Rightarrow> 'a feat_state_scheme \<Rightarrow> (int \<times> 'a feat_state_scheme) option" where
  "fm_06_8f_monitoring P s = model_monitoring P msrs_06_8f s"

definition fm_06_8f_get_energy :: "power_env \<Rightarrow> int \<Rightarrow> 'a feat_state_scheme \<Rightarrow> (int \<times> 'a feat_state_scheme) option" where
  "fm_06_8f_get_energy P long_ver s = model_get_energy P msrs_06_8f long_ver s"

definition fm_06_8f_get_energy_json :: "power_env \<Rightarrow> 'a feat_state_scheme \<Rightarrow> (int \<times> 'a feat_state_scheme) option" where
  "fm_06_8f_get_energy_json P s = model_get_energy_json P msrs_06_8f s"
end
