(* ===== verification/Socket_Loops.thy ===== *)
theory Socket_Loops imports Intel_Models Rapl_Limits begin

text \<open>
  Loops that change one register of every socket. \<open>socket_updates\<close> is what such a loop needs of its body, and
  its lemma says what the whole loop does; the loops of set\_turbo\_on, set\_turbo\_off and print\_turbo\_status and the one
  of the cap\_power\_limits handlers are instances.
\<close>

section \<open>The interface\<close>

text \<open>
  \<open>reg s i\<close> is the register of socket i, \<open>rest s\<close> everything that the loop must not change,
  \<open>lines s\<close> what has been printed.
\<close>

locale socket_updates =
  fixes count :: nat
    and good :: "'s \<Rightarrow> bool"
    and reg :: "'s \<Rightarrow> nat \<Rightarrow> u64"
    and rest :: "'s \<Rightarrow> 'r"
    and lines :: "'s \<Rightarrow> 'l list"
    and body :: "nat \<Rightarrow> 's \<Rightarrow> 's option"
    and new :: "nat \<Rightarrow> u64 \<Rightarrow> u64"
    and said :: "nat \<Rightarrow> u64 \<Rightarrow> 'l list"
  assumes body_updates: "good s \<Longrightarrow> i < count \<Longrightarrow>
    \<exists>s'. body i s = Some s' \<and> good s' \<and> reg s' = (reg s)(i := new i (reg s i)) \<and> rest s' = rest s \<and>
      lines s' = lines s @ said i (reg s i)"
begin

lemma loop_from:
  assumes "good s" "n = count - k" "k \<le> count"
  shows "\<exists>s'. for_sockets body [k..<count] s = Some s' \<and> good s' \<and> rest s' = rest s \<and>
    reg s' = (\<lambda>i. if k \<le> i \<and> i < count then new i (reg s i) else reg s i) \<and>
    lines s' = lines s @ concat (map (\<lambda>i. said i (reg s i)) [k..<count])"
  using assms
proof (induction n arbitrary: k s)
  case (Suc n)
  then have k: "k < count" "n = count - Suc k" "Suc k \<le> count" by simp_all
  obtain t where t: "body k s = Some t" "good t" "reg t = (reg s)(k := new k (reg s k))" "rest t = rest s"
    "lines t = lines s @ said k (reg s k)"
    using body_updates [OF Suc.prems(1) k(1)] by blast
  obtain u where u: "for_sockets body [Suc k..<count] t = Some u" "good u" "rest u = rest t"
    "reg u = (\<lambda>i. if Suc k \<le> i \<and> i < count then new i (reg t i) else reg t i)"
    "lines u = lines t @ concat (map (\<lambda>i. said i (reg t i)) [Suc k..<count])"
    using Suc.IH [OF t(2) k(2,3)] by blast
  have "for_sockets body [k..<count] s = Some u" using t(1) u(1) k(1) by (simp add: upt_conv_Cons)
  moreover have "concat (map (\<lambda>i. said i (reg t i)) [Suc k..<count]) = concat (map (\<lambda>i. said i (reg s i)) [Suc k..<count])"
    using t(3) by (intro arg_cong [of _ _ concat] map_cong) simp_all
  then have "lines u = lines s @ concat (map (\<lambda>i. said i (reg s i)) [k..<count])"
    using t(5) u(5) k(1) by (simp add: upt_conv_Cons)
  moreover have "reg u = (\<lambda>i. if k \<le> i \<and> i < count then new i (reg s i) else reg s i)"
    using t(3) u(4) k(1) by (auto simp: fun_eq_iff)
  ultimately show ?case using t(4) u(2,3) by (intro exI [of _ u]) simp
qed (auto simp: fun_eq_iff)

lemma loop:
  assumes "good s"
  shows "\<exists>s'. for_sockets body [0..<count] s = Some s' \<and> good s' \<and> rest s' = rest s \<and>
    (\<forall>i < count. reg s' i = new i (reg s i)) \<and> lines s' = lines s @ concat (map (\<lambda>i. said i (reg s i)) [0..<count])"
  using loop_from [OF assms, of count 0] by auto

end

section \<open>The registers of a socket and the others\<close>

abbreviation pe_sockets :: "power_env \<Rightarrow> nat" where "pe_sockets P \<equiv> unat (nsockets (pe_topo P))"

lemma socket_ok_of_nat: "i < pe_sockets P \<Longrightarrow> socket_ok P (of_nat i)"
proof -
  assume i: "i < pe_sockets P"
  then have "unat (of_nat i :: u32) = i" by (intro unat_of_nat_small) (use unat_u32 [of "nsockets (pe_topo P)"] in simp)
  then show ?thesis using i by (simp add: socket_ok_def)
qed

text \<open>The driver lets the library read and write an address, on every processor.\<close>

definition allowed :: "power_env \<Rightarrow> u64 \<Rightarrow> bool" where
  "allowed P msr \<longleftrightarrow> (\<forall>p. drv_can_read (pe_os P) p msr) \<and> (\<forall>R p v. drv_write (pe_os P) R p msr v \<noteq> None)"

lemma allowedD:
  assumes "allowed P msr" "rapl_ready P s" "socket_ok P so"
  shows "socket_readable P s so msr" "socket_writable P s so msr v"
  using driver_answers [OF assms(2,3), of msr] assms(1) by (simp_all add: allowed_def)

text \<open>Socket i's register at an address, and the state without these registers, its log and its output.\<close>

definition msr_of :: "power_env \<Rightarrow> u64 \<Rightarrow> 'a msr_state_scheme \<Rightarrow> nat \<Rightarrow> u64" where
  "msr_of P msr s i = (if i < pe_sockets P then socket_reg P s (of_nat i) msr else 0)"

definition first_cpu :: "power_env \<Rightarrow> int \<Rightarrow> bool" where
  "first_cpu P cpu \<longleftrightarrow> (\<exists>i < pe_sockets P. cpu = int (unat (devidx (pe_topo P) (of_nat i) 0 0)))"

definition but_msr :: "power_env \<Rightarrow> u64 \<Rightarrow> 'a rapl_state_scheme \<Rightarrow> 'a rapl_state_scheme" where
  "but_msr P msr s = s\<lparr>registers := (\<lambda>cpu m. if m = msr \<and> first_cpu P cpu then 0 else registers s cpu m), printed := []\<rparr>"

lemma first_cpu_socket: "i < pe_sockets P \<Longrightarrow> first_cpu P (int (unat (devidx (pe_topo P) (of_nat i) 0 0)))"
  by (auto simp: first_cpu_def)

lemma but_msr_set [simp]:
  assumes "i < pe_sockets P"
  shows "but_msr P msr (socket_set P (of_nat i) msr v s) = but_msr P msr s"
proof -
  have "but_msr P msr (socket_set P (of_nat i) msr v s) = s\<lparr>registers := (\<lambda>cpu m. if m = msr \<and> first_cpu P cpu then 0
      else set_reg (int (unat (devidx (pe_topo P) (of_nat i) 0 0))) msr v (registers s) cpu m), printed := []\<rparr>"
    by (simp add: but_msr_def socket_set_def cong: if_cong)
  also have "(\<lambda>cpu m. if m = msr \<and> first_cpu P cpu then 0
      else set_reg (int (unat (devidx (pe_topo P) (of_nat i) 0 0))) msr v (registers s) cpu m) =
    (\<lambda>cpu m. if m = msr \<and> first_cpu P cpu then 0 else registers s cpu m)"
    using first_cpu_socket [OF assms] by (auto simp: set_reg_def fun_eq_iff)
  finally show ?thesis by (simp add: but_msr_def)
qed

lemma msr_of_set:
  assumes "rapl_ready P s" "i < pe_sockets P"
  shows "msr_of P msr (socket_set P (of_nat i) msr v s) = (msr_of P msr s)(i := v)"
proof
  fix j
  have f: "topo_fits (pe_topo P)" using assms(1) by (simp add: rapl_ready_def)
  have w: "unat (of_nat i :: u32) = i" if "i < pe_sockets P" for i
    by (rule unat_of_nat_small) (use that unat_u32 [of "nsockets (pe_topo P)"] in simp)
  have "devidx (pe_topo P) (of_nat j) 0 0 \<noteq> devidx (pe_topo P) (of_nat i) 0 0" if "j < pe_sockets P" "j \<noteq> i"
  proof
    assume "devidx (pe_topo P) (of_nat j) 0 0 = devidx (pe_topo P) (of_nat i) 0 0"
    moreover have "valid_coord (pe_topo P) (of_nat j) 0 0" "valid_coord (pe_topo P) (of_nat i) 0 0"
      by (rule socket_coord [OF f]; use that(1) assms(2) w in simp)+
    ultimately have "(of_nat j :: u32) = of_nat i" using devidx_inj [OF f] by blast
    then show False using w [OF that(1)] w [OF assms(2)] that(2) by metis
  qed
  then show "msr_of P msr (socket_set P (of_nat i) msr v s) j = ((msr_of P msr s)(i := v)) j"
    using assms(2) by (auto simp: msr_of_def socket_reg_def socket_set_def set_reg_def word_uint_eq_iff [symmetric])
qed

lemma say_simps [simp]:
  "rapl_ready P (say l s) = rapl_ready P s" "msr_of P msr (say l s) = msr_of P msr s"
  "but_msr P msr (say l s) = but_msr P msr s" "printed (say l s) = printed s @ [l]"
  "registers (say l s) = registers s"
  by (simp_all add: say_def rapl_ready_def msr_ready_def ready_upto_def core_ok_def fd_on_cpu_def msr_of_def
      socket_reg_def but_msr_def fun_eq_iff)

lemma but_msrD:
  assumes "but_msr P msr s' = but_msr P msr s"
  shows "elog s' = elog s" "open_files s' = open_files s" "file_descriptors s' = file_descriptors s"
    "init_core_fd s' = init_core_fd s" "core_nthreads s' = core_nthreads s" "g_platform s' = g_platform s"
    "p_msr_core_idx s' = p_msr_core_idx s" "next_fd s' = next_fd s" "translate_ru s' = translate_ru s"
    "rapl_state.more s' = rapl_state.more s"
    "m \<noteq> msr \<or> \<not> first_cpu P cpu \<Longrightarrow> registers s' cpu m = registers s cpu m"
proof -
  have f: "h (but_msr P msr s') = h (but_msr P msr s)" for h :: "'a rapl_state_scheme \<Rightarrow> 'x" using assms by simp
  show "elog s' = elog s" using f [of elog] by (simp add: but_msr_def)
  show "open_files s' = open_files s" using f [of open_files] by (simp add: but_msr_def)
  show "file_descriptors s' = file_descriptors s" using f [of file_descriptors] by (simp add: but_msr_def)
  show "init_core_fd s' = init_core_fd s" using f [of init_core_fd] by (simp add: but_msr_def)
  show "core_nthreads s' = core_nthreads s" using f [of core_nthreads] by (simp add: but_msr_def)
  show "g_platform s' = g_platform s" using f [of g_platform] by (simp add: but_msr_def)
  show "p_msr_core_idx s' = p_msr_core_idx s" using f [of p_msr_core_idx] by (simp add: but_msr_def)
  show "next_fd s' = next_fd s" using f [of next_fd] by (simp add: but_msr_def)
  show "translate_ru s' = translate_ru s" using f [of translate_ru] by (simp add: but_msr_def)
  show "rapl_state.more s' = rapl_state.more s" using f [of rapl_state.more] by (simp add: but_msr_def)
  show "registers s' cpu m = registers s cpu m" if "m \<noteq> msr \<or> \<not> first_cpu P cpu"
    using f [of "\<lambda>s. registers s cpu m"] that by (auto simp: but_msr_def)
qed


section \<open>Turbo mode\<close>

text \<open>One turn of a loop that stops at the first error, and the whole loop when no turn fails.\<close>

definition checked_step :: "(nat list \<Rightarrow> 's \<Rightarrow> (int \<times> 's) option) \<Rightarrow> nat \<Rightarrow> 's \<Rightarrow> 's option" where
  "checked_step L i s = (case L [i] s of Some (rc, s) \<Rightarrow> if rc = 0 then Some s else None | None \<Rightarrow> None)"

lemma checked_steps:
  assumes "\<And>s. L [] s = Some (0, s)" "\<And>i is s t. L [i] s = Some (0, t) \<Longrightarrow> L (i # is) s = L is t"
    "for_sockets (checked_step L) is s = Some s'"
  shows "L is s = Some (0, s')"
  using assms(3)
proof (induction "is" arbitrary: s)
  case (Cons i "is")
  then obtain t where "checked_step L i s = Some t" "for_sockets (checked_step L) is t = Some s'"
    by (auto simp: bind_eq_Some_conv)
  moreover from this(1) have "L [i] s = Some (0, t)" by (auto simp: checked_step_def split: option.splits if_splits)
  ultimately show ?case using Cons.IH assms(2) by metis
qed (use assms(1) in simp)

lemma turbo_sockets_steps:
  "for_sockets (checked_step (turbo_sockets P msr upd said)) is s = Some s' \<Longrightarrow> turbo_sockets P msr upd said is s = Some (0, s')"
proof (rule checked_steps)
  fix i "is" s t
  assume a: "turbo_sockets P msr upd said [i] s = Some (0, t)"
  then obtain v r where "call_read_coord P (of_nat i) msr 0 s = Some (0, v, r)"
    by (auto simp: bind_eq_Some_conv split: if_splits)
  then show "turbo_sockets P msr upd said (i # is) s = turbo_sockets P msr upd said is t"
    using a by (cases "upd v") (auto simp: bind_eq_Some_conv split: if_splits)
qed simp_all

lemma status_loop_steps:
  "for_sockets (checked_step (turbo_status_loop P msr m)) is s = Some s' \<Longrightarrow> turbo_status_loop P msr m is s = Some (0, s')"
proof (rule checked_steps)
  fix i "is" s t
  assume a: "turbo_status_loop P msr m [i] s = Some (0, t)"
  then obtain v r where "call_read_coord P (of_nat i) msr 0 s = Some (0, v, r)"
    by (auto simp: bind_eq_Some_conv split: if_splits)
  then show "turbo_status_loop P msr m (i # is) s = turbo_status_loop P msr m is t" using a by auto
qed simp_all

lemma turbo_step_ready:
  assumes "rapl_ready P s" "allowed P msr" "i < pe_sockets P"
  shows "checked_step (turbo_sockets P msr upd said) i s = Some (say [FS said, FI (int i)]
    (case upd (msr_of P msr s i) of None \<Rightarrow> s | Some v \<Rightarrow> socket_set P (of_nat i) msr v s))"
proof -
  note so = socket_ok_of_nat [OF assms(3)]
  note a = allowedD [OF assms(2,1) so]
  have m: "msr_of P msr s i = socket_reg P s (of_nat i) msr" using assms(3) by (simp add: msr_of_def)
  show ?thesis
    by (simp add: checked_step_def call_read_coord_ready [OF assms(1) so] call_write_coord_ready [OF assms(1) so] a m
        split: option.split)
qed

text \<open>What the loops print for socket i.\<close>

definition turbo_says :: "string \<Rightarrow> nat \<Rightarrow> line list" where
  "turbo_says said i = [[FS said, FI (int i)]]"

definition turbo_good :: "power_env \<Rightarrow> u64 \<Rightarrow> 'a rapl_state_scheme \<Rightarrow> bool" where
  "turbo_good P msr s \<longleftrightarrow> rapl_ready P s \<and> allowed P msr"

text \<open>The value a register has afterwards, changed or not.\<close>

definition updated :: "(u64 \<Rightarrow> u64 option) \<Rightarrow> nat \<Rightarrow> u64 \<Rightarrow> u64" where
  "updated upd i w = (case upd w of None \<Rightarrow> w | Some v \<Rightarrow> v)"

interpretation turbo: socket_updates "pe_sockets P" "turbo_good P msr" "msr_of P msr" "but_msr P msr" printed
  "checked_step (turbo_sockets P msr upd what)" "updated upd" "\<lambda>i w. turbo_says what i" for P msr upd what
proof
  fix s :: "'a rapl_state_scheme" and i
  assume g: "turbo_good P msr s" and i: "i < pe_sockets P"
  then have r: "rapl_ready P s" "allowed P msr" by (simp_all add: turbo_good_def)
  have pr: "printed (socket_set P so m v t) = printed t" for so m v and t :: "'a rapl_state_scheme"
    by (simp add: socket_set_def)
  show "\<exists>s'. checked_step (turbo_sockets P msr upd what) i s = Some s' \<and> turbo_good P msr s' \<and>
      msr_of P msr s' = (msr_of P msr s)(i := updated upd i (msr_of P msr s i)) \<and> but_msr P msr s' = but_msr P msr s \<and>
      printed s' = printed s @ turbo_says what i"
    using turbo_step_ready [OF r i] msr_of_set [OF r(1) i] r i pr
    by (auto simp: turbo_good_def updated_def turbo_says_def split: option.split)
qed

definition status_says :: "u64 \<Rightarrow> nat \<Rightarrow> u64 \<Rightarrow> line list" where
  "status_says m i w = turbo_says (if w = w OR m then ''Turbo disabled on socket'' else ''Turbo enabled on socket'') i"

interpretation status: socket_updates "pe_sockets P" "turbo_good P msr" "msr_of P msr" "but_msr P msr" printed
  "checked_step (turbo_status_loop P msr m)" "\<lambda>i w. w" "status_says m" for P msr m
proof
  fix s :: "'a rapl_state_scheme" and i
  assume g: "turbo_good P msr s" and i: "i < pe_sockets P"
  then have r: "rapl_ready P s" "allowed P msr" by (simp_all add: turbo_good_def)
  note so = socket_ok_of_nat [OF i]
  have m: "msr_of P msr s i = socket_reg P s (of_nat i) msr" using i by (simp add: msr_of_def)
  have "checked_step (turbo_status_loop P msr m) i s = Some (say (hd (status_says m i (msr_of P msr s i))) s)"
    by (simp add: checked_step_def call_read_coord_ready [OF r(1) so] allowedD [OF r(2,1) so] m status_says_def turbo_says_def)
  then show "\<exists>s'. checked_step (turbo_status_loop P msr m) i s = Some s' \<and> turbo_good P msr s' \<and>
      msr_of P msr s' = (msr_of P msr s)(i := msr_of P msr s i) \<and> but_msr P msr s' = but_msr P msr s \<and>
      printed s' = printed s @ status_says m i (msr_of P msr s i)"
    using r by (simp add: turbo_good_def status_says_def turbo_says_def)
qed

text \<open>The single bit that both functions change.\<close>

lemma updated_mask:
  "updated (set_mask (push_bit b 1)) i w = set_bit b w" "updated (clear_mask (push_bit b 1)) i w = unset_bit b w"
proof -
  show "updated (set_mask (push_bit b 1)) i w = set_bit b w"
    by (simp add: updated_def set_mask_def set_bit_eq_or)
  have "unset_bit b w = w" if "w \<noteq> w OR push_bit b 1"
  proof -
    have "w = w OR push_bit b 1" if "bit w b" by (rule bit_word_eqI) (use that in \<open>auto simp: bit_simps\<close>)
    then have "\<not> bit w b" using that by blast
    then show ?thesis by (intro bit_word_eqI) (auto simp: bit_simps)
  qed
  then show "updated (clear_mask (push_bit b 1)) i w = unset_bit b w"
    by (simp add: updated_def clear_mask_def unset_bit_eq_and_not)
qed

lemma mask_set_iff:
  assumes "b < 64"
  shows "(w :: u64) = w OR push_bit b 1 \<longleftrightarrow> bit w b"
proof
  assume w: "w = w OR push_bit b 1"
  have "bit (w OR push_bit b 1) b" using assms by (simp add: bit_simps)
  then show "bit w b" using w by simp
next
  assume "bit w b"
  then show "w = w OR push_bit b 1" by (intro bit_word_eqI) (auto simp: bit_simps)
qed

lemma says_map:
  "concat (map (turbo_says what) is) = map (\<lambda>i. [FS what, FI (int i)]) is"
  "b < 64 \<Longrightarrow> concat (map (\<lambda>i. status_says (push_bit b 1) i (f i)) is) =
    map (\<lambda>i. [FS (if bit (f i) b then ''Turbo disabled on socket'' else ''Turbo enabled on socket''), FI (int i)]) is"
proof -
  have c: "concat (map (\<lambda>i. [g i]) is) = map g is" for g :: "nat \<Rightarrow> line" by (induction "is") simp_all
  show "concat (map (turbo_says what) is) = map (\<lambda>i. [FS what, FI (int i)]) is"
    unfolding c [symmetric] turbo_says_def ..
  show "concat (map (\<lambda>i. status_says (push_bit b 1) i (f i)) is) =
    map (\<lambda>i. [FS (if bit (f i) b then ''Turbo disabled on socket'' else ''Turbo enabled on socket''), FI (int i)]) is"
    if "b < 64"
    unfolding c [symmetric] turbo_says_def status_says_def mask_set_iff [OF that] ..
qed

lemmas mask_facts = updated_mask [unfolded push_bit_of_1] says_map [unfolded push_bit_of_1]

lemma set_turbo_ready:
  assumes "rapl_ready P s" "allowed P msr" "b < 63"
  shows "\<exists>s'. set_turbo_off P msr b s = Some (0, s') \<and> rapl_ready P s' \<and> but_msr P msr s' = but_msr P msr s \<and>
      (\<forall>i < pe_sockets P. msr_of P msr s' i = set_bit b (msr_of P msr s i)) \<and>
      printed s' = printed s @ map (\<lambda>i. [FS ''Turbo disabled on socket'', FI (int i)]) [0..<pe_sockets P]"
    and "\<exists>s'. set_turbo_on P msr b s = Some (0, s') \<and> rapl_ready P s' \<and> but_msr P msr s' = but_msr P msr s \<and>
      (\<forall>i < pe_sockets P. msr_of P msr s' i = unset_bit b (msr_of P msr s i)) \<and>
      printed s' = printed s @ map (\<lambda>i. [FS ''Turbo enabled on socket'', FI (int i)]) [0..<pe_sockets P]"
    and "\<exists>s'. print_turbo_status P msr b s = Some (0, s') \<and> rapl_ready P s' \<and> but_msr P msr s' = but_msr P msr s \<and>
      (\<forall>i < pe_sockets P. msr_of P msr s' i = msr_of P msr s i) \<and>
      printed s' = printed s @ map (\<lambda>i. [FS (if bit (msr_of P msr s i) b then ''Turbo disabled on socket''
        else ''Turbo enabled on socket''), FI (int i)]) [0..<pe_sockets P]"
proof -
  have g: "turbo_good P msr s" using assms by (simp add: turbo_good_def)
  note d = set_turbo_off_def set_turbo_on_def print_turbo_status_def turbo_mask_def P_INTEL_CPU_IDX_def
  obtain s1 where s1: "for_sockets (checked_step (turbo_sockets P msr (set_mask (push_bit b 1)) ''Turbo disabled on socket'')) [0..<pe_sockets P] s = Some s1"
    "turbo_good P msr s1" "but_msr P msr s1 = but_msr P msr s"
    "\<forall>i < pe_sockets P. msr_of P msr s1 i = updated (set_mask (push_bit b 1)) i (msr_of P msr s i)"
    "printed s1 = printed s @ concat (map (turbo_says ''Turbo disabled on socket'') [0..<pe_sockets P])"
    using turbo.loop [OF g] by blast
  show "\<exists>s'. set_turbo_off P msr b s = Some (0, s') \<and> rapl_ready P s' \<and> but_msr P msr s' = but_msr P msr s \<and>
      (\<forall>i < pe_sockets P. msr_of P msr s' i = set_bit b (msr_of P msr s i)) \<and>
      printed s' = printed s @ map (\<lambda>i. [FS ''Turbo disabled on socket'', FI (int i)]) [0..<pe_sockets P]"
    using turbo_sockets_steps [OF s1(1)] s1(2-5) assms(1,3)
    by (intro exI [of _ s1]) (simp add: d turbo_good_def mask_facts)
  obtain s2 where s2: "for_sockets (checked_step (turbo_sockets P msr (clear_mask (push_bit b 1)) ''Turbo enabled on socket'')) [0..<pe_sockets P] s = Some s2"
    "turbo_good P msr s2" "but_msr P msr s2 = but_msr P msr s"
    "\<forall>i < pe_sockets P. msr_of P msr s2 i = updated (clear_mask (push_bit b 1)) i (msr_of P msr s i)"
    "printed s2 = printed s @ concat (map (turbo_says ''Turbo enabled on socket'') [0..<pe_sockets P])"
    using turbo.loop [OF g] by blast
  show "\<exists>s'. set_turbo_on P msr b s = Some (0, s') \<and> rapl_ready P s' \<and> but_msr P msr s' = but_msr P msr s \<and>
      (\<forall>i < pe_sockets P. msr_of P msr s' i = unset_bit b (msr_of P msr s i)) \<and>
      printed s' = printed s @ map (\<lambda>i. [FS ''Turbo enabled on socket'', FI (int i)]) [0..<pe_sockets P]"
    using turbo_sockets_steps [OF s2(1)] s2(2-5) assms(1,3)
    by (intro exI [of _ s2]) (simp add: d turbo_good_def mask_facts)
  obtain s3 where s3: "for_sockets (checked_step (turbo_status_loop P msr (push_bit b 1))) [0..<pe_sockets P] s = Some s3"
    "turbo_good P msr s3" "but_msr P msr s3 = but_msr P msr s"
    "\<forall>i < pe_sockets P. msr_of P msr s3 i = msr_of P msr s i"
    "printed s3 = printed s @ concat (map (\<lambda>i. status_says (push_bit b 1) i (msr_of P msr s i)) [0..<pe_sockets P])"
    using status.loop [OF g] by blast
  have b: "b < 64" using assms(3) by simp
  show "\<exists>s'. print_turbo_status P msr b s = Some (0, s') \<and> rapl_ready P s' \<and> but_msr P msr s' = but_msr P msr s \<and>
      (\<forall>i < pe_sockets P. msr_of P msr s' i = msr_of P msr s i) \<and>
      printed s' = printed s @ map (\<lambda>i. [FS (if bit (msr_of P msr s i) b then ''Turbo disabled on socket''
        else ''Turbo enabled on socket''), FI (int i)]) [0..<pe_sockets P]"
    using status_loop_steps [OF s3(1)] s3(2-5) assms(1,3)
    by (intro exI [of _ s3]) (simp add: d turbo_good_def mask_facts b)
qed

section \<open>Capping every socket\<close>

text \<open>The units of every socket are known.\<close>

definition node_units :: "power_env \<Rightarrow> (nat \<Rightarrow> nat) \<Rightarrow> (nat \<Rightarrow> nat) \<Rightarrow> (nat \<Rightarrow> nat) \<Rightarrow> 'a rapl_state_scheme \<Rightarrow> bool" where
  "node_units P pu eu tu s \<longleftrightarrow> (\<forall>i < pe_sockets P. socket_units (of_nat i) (pu i) (eu i) (tu i) s)"

lemma node_units_simps [simp]:
  "node_units P pu eu tu (socket_set P so m v s) = node_units P pu eu tu s"
  "node_units P pu eu tu (say l s) = node_units P pu eu tu s"
  by (simp_all add: node_units_def socket_units_def say_def)

lemma node_units_same: "translate_ru s' = translate_ru s \<Longrightarrow> node_units P pu eu tu s' = node_units P pu eu tu s"
  by (simp add: node_units_def socket_units_def)

text \<open>A limit of L watts can be set on every socket.\<close>

definition cap_fits :: "power_env \<Rightarrow> (nat \<Rightarrow> nat) \<Rightarrow> int \<Rightarrow> bool" where
  "cap_fits P pu L \<longleftrightarrow> 0 \<le> L \<and> L < 2 ^ 31 \<and> (\<forall>i < pe_sockets P. L * 2 ^ pu i < 2 ^ 15)"

definition cap_good ::
  "power_env \<Rightarrow> int \<Rightarrow> u64 \<Rightarrow> (nat \<Rightarrow> nat) \<Rightarrow> (nat \<Rightarrow> nat) \<Rightarrow> (nat \<Rightarrow> nat) \<Rightarrow> 'a rapl_state_scheme \<Rightarrow> bool" where
  "cap_good P L msr pu eu tu s \<longleftrightarrow> rapl_ready P s \<and> allowed P msr \<and> libm_ok P \<and> node_units P pu eu tu s \<and> cap_fits P pu L"

interpretation cap: socket_updates "pe_sockets P" "cap_good P L msr pu eu tu" "msr_of P msr" "but_msr P msr" printed
  "\<lambda>i s. map_option snd (cap_package_power_limit P (of_nat i) L msr mu s)"
  "\<lambda>i. cap_value (word_of_int (L * 2 ^ pu i)) (tu i)" "\<lambda>_ _. []" for P L msr mu pu eu tu
proof
  fix s :: "'a rapl_state_scheme" and i
  assume g: "cap_good P L msr pu eu tu s" and i: "i < pe_sockets P"
  then have r: "rapl_ready P s" "allowed P msr" "libm_ok P" "socket_units (of_nat i) (pu i) (eu i) (tu i) s"
    "0 \<le> L" "\<bar>L\<bar> < 2 ^ 31" "L * 2 ^ pu i < 2 ^ 15" by (auto simp: cap_good_def cap_fits_def node_units_def)
  note so = socket_ok_of_nat [OF i]
  have m: "msr_of P msr s i = socket_reg P s (of_nat i) msr" using i by (simp add: msr_of_def)
  have c: "cap_package_power_limit P (of_nat i) L msr mu s =
      Some (0, socket_set P (of_nat i) msr (cap_value (word_of_int (L * 2 ^ pu i)) (tu i) (msr_of P msr s i)) s)"
    unfolding m by (rule cap_package_eq(4) [OF r(1) so r(4,3,6,5,7) refl allowedD [OF r(2,1) so]])
  have pr: "printed (socket_set P so m v s) = printed s" for so m v by (simp add: socket_set_def)
  show "\<exists>s'. map_option snd (cap_package_power_limit P (of_nat i) L msr mu s) = Some s' \<and> cap_good P L msr pu eu tu s' \<and>
      msr_of P msr s' = (msr_of P msr s)(i := cap_value (word_of_int (L * 2 ^ pu i)) (tu i) (msr_of P msr s i)) \<and>
      but_msr P msr s' = but_msr P msr s \<and> printed s' = printed s @ []"
    using g i msr_of_set [OF r(1) i] pr by (simp add: c cap_good_def)
qed

text \<open>
  What a limit register says after a cap, by the manual: L watts over a second, enabled and clamping, and the
  second limit is the one it was before.
\<close>

definition capped :: "nat \<Rightarrow> nat \<Rightarrow> int \<Rightarrow> u64 \<Rightarrow> u64 \<Rightarrow> bool" where
  "capped pu tu L w w' \<longleftrightarrow> field_watts w' 0 pu = Fin (of_int L) \<and> field_seconds w' 0 tu = Fin 1 \<and> bit w' 15 \<and> bit w' 16 \<and>
     field_watts w' 32 pu = field_watts w 32 pu \<and> field_seconds w' 32 tu = field_seconds w 32 tu"

lemma cap_value_capped:
  assumes "0 \<le> L" "L * 2 ^ pu < 2 ^ 15" "pu < 16" "tu < 16"
  shows "capped pu tu L w (cap_value (word_of_int (L * 2 ^ pu)) tu w)"
  using cap_value_limits [OF assms refl, of w] by (simp add: capped_def known_limit_def)

lemma cap_all_sockets:
  assumes "rapl_ready P s" "allowed P (msr_pkg_power_limit M)" "libm_ok P" "node_units P pu eu tu s" "cap_fits P pu L"
  shows "\<exists>s'. model_cap_power_limits P M L s = Some (0, s') \<and>
    but_msr P (msr_pkg_power_limit M) s' = but_msr P (msr_pkg_power_limit M) s \<and> printed s' = printed s \<and>
    (\<forall>i < pe_sockets P. capped (pu i) (tu i) L (msr_of P (msr_pkg_power_limit M) s i) (msr_of P (msr_pkg_power_limit M) s' i))"
proof -
  let ?m = "msr_pkg_power_limit M" and ?u = "msr_rapl_power_unit M"
  have g: "cap_good P L ?m pu eu tu s" using assms by (simp add: cap_good_def)
  obtain s' where s': "for_sockets (\<lambda>i s. map_option snd (cap_package_power_limit P (of_nat i) L ?m ?u s)) [0..<pe_sockets P] s = Some s'"
    "but_msr P ?m s' = but_msr P ?m s" "printed s' = printed s @ concat (map (\<lambda>i. []) [0..<pe_sockets P])"
    "\<forall>i < pe_sockets P. msr_of P ?m s' i = cap_value (word_of_int (L * 2 ^ pu i)) (tu i) (msr_of P ?m s i)"
    using cap.loop [OF g] by blast
  have "capped (pu i) (tu i) L (msr_of P ?m s i) (msr_of P ?m s' i)" if "i < pe_sockets P" for i
    unfolding s'(4) [rule_format, OF that]
    by (rule cap_value_capped) (use assms(4,5) that in \<open>auto simp: node_units_def socket_units_def cap_fits_def\<close>)
  moreover have "concat (map (\<lambda>i. []) is) = ([] :: line list)" for "is" :: "nat list" by (induction "is") simp_all
  ultimately show ?thesis using s' assms(1)
    by (intro exI [of _ s']) (simp add: model_cap_power_limits_def P_INTEL_CPU_IDX_def done_0_def)
qed

section \<open>Sharing a node limit out\<close>

lemma sint_u32_small: "uint (w :: u32) < 2 ^ 31 \<Longrightarrow> sint w = uint w"
proof -
  assume u: "uint w < 2 ^ 31"
  have "int (unat w) < int (2 ^ 31)" using u by simp
  then have "unat w < 2 ^ 31" by (simp only: of_nat_less_iff)
  then show "sint w = uint w" using sint_u32 [of w] by simp
qed

lemma even_share_nonneg:
  assumes "0 \<le> L" "L < 2 ^ 31" "0 < unat n"
  shows "even_share n L = Some (L div int (unat n))"
proof -
  have n0: "n \<noteq> 0" using assms(3) by auto
  then have n1: "0 < uint n" by (metis uint_0_iff uint_ge_0 order_le_less)
  have u: "uint (word_of_int L :: u32) = L" using assms(1,2) by (simp add: uint_word_of_int)
  have m: "uint ((word_of_int L :: u32) mod n) = L mod uint n" by (simp add: uint_mod u)
  have l: "0 \<le> L mod uint n" "L mod uint n \<le> L" using n1 assms(1) by (simp_all add: zmod_le_nonneg_dividend)
  have sm: "sint ((word_of_int L :: u32) mod n) = L mod uint n"
    using sint_u32_small [of "(word_of_int L :: u32) mod n"] m l assms(2) by simp
  define L' where "L' = (if L mod uint n = 0 then L else L - L mod uint n)"
  have L': "L' = L - L mod uint n" by (simp add: L'_def)
  then have b: "0 \<le> L'" "L' < 2 ^ 31" using l assms by linarith+
  have u': "uint (word_of_int L' :: u32) = L'" using b by (simp add: uint_word_of_int)
  have q: "L' div uint n = L div uint n" using n1 by (simp add: L' minus_mod_eq_mult_div)
  have "L' div uint n \<le> L' div 1" by (rule zdiv_mono2) (use b(1) n1 in simp_all)
  then have d: "uint ((word_of_int L' :: u32) div n) = L div uint n" "L div uint n < 2 ^ 31"
    using b q by (simp_all add: uint_div u')
  then have "sint ((word_of_int L' :: u32) div n) = L div uint n" by (simp add: sint_u32_small)
  then show ?thesis using b n0 by (simp add: even_share_def Let_def sm L'_def [symmetric])
qed

end
