(* ===== verification/Variorum_Api.thy ===== *)
theory Variorum_Api imports Arch begin

text \<open>
  variorum.c: the functions a client calls. Each enters the library, runs the feature functions
  of the platforms and exits again. The feature functions behind the pointers are the parameter
  \<open>api_env\<close>: what one does with its arguments and the state, None when it does not come back.
  They differ in their C types, so there are three kinds: integer arguments, a jansson object to
  fill in, and a string to hand back. jansson itself is a library: \<open>json_lib\<close> are the four of its
  functions that variorum.c calls.
\<close>

section \<open>The feature functions and jansson\<close>

record 'j json_lib =
  json_object :: 'j
  json_object_set_new :: "'j \<Rightarrow> string \<Rightarrow> 'j \<Rightarrow> 'j"
  json_integer :: "int \<Rightarrow> 'j"
  json_dumps :: "'j \<Rightarrow> string option" \<comment> \<open>None: NULL\<close>

record ('s, 'j) api_env =
  api_call :: "handler \<Rightarrow> int list \<Rightarrow> 's \<Rightarrow> (int \<times> 's) option"
  api_json_call :: "handler \<Rightarrow> 'j \<Rightarrow> 's \<Rightarrow> (int \<times> 'j \<times> 's) option"
  api_str_call :: "handler \<Rightarrow> 's \<Rightarrow> (int \<times> string option \<times> 's) option"
  api_json :: "'j json_lib"
  api_timeofday :: "int \<times> int" \<comment> \<open>seconds and microseconds of gettimeofday\<close>
  api_hostname :: string

text \<open>A pointer of the table; None outside the array.\<close>

definition get_slot :: "nat \<Rightarrow> slot \<Rightarrow> 'a tbase_scheme \<Rightarrow> handler option option" where
  "get_slot i sl s = (if i < length (g_platform s) then Some (fptr (g_platform s ! i) sl) else None)"

section \<open>The frame of every function\<close>

text \<open>
  The body either asks for a return, skipping variorum_exit, or falls through to it. What it
  hands back beside that is the value of the out-parameter.
\<close>

definition session ::
  "build \<Rightarrow> sys_env \<Rightarrow> 'o \<Rightarrow> ('a arch_state_scheme \<Rightarrow> (int option \<times> 'o \<times> 'a arch_state_scheme) option) \<Rightarrow>
    'a arch_state_scheme \<Rightarrow> (int \<times> 'o \<times> 'a arch_state_scheme) option" where
  "session b V out body s = do {
     (err, s) \<leftarrow> variorum_enter b V s;
     if err \<noteq> 0 then Some (-1, out, s)
     else do {
       (ret, out, s) \<leftarrow> body s;
       case ret of
         Some rc \<Rightarrow> Some (rc, out, s)
       | None \<Rightarrow> do {
           (err, s) \<leftarrow> variorum_exit b V s;
           Some (if err \<noteq> 0 then -1 else err, out, s)
         }
     }
   }"

definition session0 ::
  "build \<Rightarrow> sys_env \<Rightarrow> ('a arch_state_scheme \<Rightarrow> (int option \<times> 'a arch_state_scheme) option) \<Rightarrow>
    'a arch_state_scheme \<Rightarrow> (int \<times> 'a arch_state_scheme) option" where
  "session0 b V body s = do {
     (rc, _, s) \<leftarrow> session b V () (\<lambda>s. do { (ret, s) \<leftarrow> body s; Some (ret, (), s) }) s;
     Some (rc, s)
   }"

text \<open>
  The two loops over the platforms. The printing functions report a missing feature and go on
  with the next platform; the functions that change something return 0 at once.
\<close>

fun skip_loop ::
  "('a arch_state_scheme, 'j) api_env \<Rightarrow> slot \<Rightarrow> int list \<Rightarrow> nat list \<Rightarrow> 'a arch_state_scheme \<Rightarrow>
    (int option \<times> 'a arch_state_scheme) option" where
  "skip_loop A sl args [] s = Some (None, s)"
| "skip_loop A sl args (i # is) s = do {
     h \<leftarrow> get_slot i sl s;
     case h of
       None \<Rightarrow> skip_loop A sl args is (variorum_error_handler VARIORUM_ERROR_FEATURE_NOT_IMPLEMENTED s)
     | Some h \<Rightarrow> do {
         (err, s) \<leftarrow> api_call A h args s;
         if err \<noteq> 0 then Some (Some (-1), s) else skip_loop A sl args is s
       }
   }"

fun stop_loop ::
  "('a arch_state_scheme, 'j) api_env \<Rightarrow> slot \<Rightarrow> int list \<Rightarrow> nat list \<Rightarrow> 'a arch_state_scheme \<Rightarrow>
    (int option \<times> 'a arch_state_scheme) option" where
  "stop_loop A sl args [] s = Some (None, s)"
| "stop_loop A sl args (i # is) s = do {
     h \<leftarrow> get_slot i sl s;
     case h of
       None \<Rightarrow> Some (Some 0, variorum_error_handler VARIORUM_ERROR_FEATURE_NOT_IMPLEMENTED s)
     | Some h \<Rightarrow> do {
         (err, s) \<leftarrow> api_call A h args s;
         if err \<noteq> 0 then Some (Some (-1), s) else stop_loop A sl args is s
       }
   }"

definition for_all_skip where
  "for_all_skip A b V sl args = session0 b V (skip_loop A sl args [0..<P_NUM_PLATFORMS b])"

definition for_all_stop where
  "for_all_stop A b V sl args = session0 b V (stop_loop A sl args [0..<P_NUM_PLATFORMS b])"

section \<open>Printing\<close>

text \<open>A FILE pointer is an opaque number.\<close>

definition variorum_tester where
  "variorum_tester b V = session0 b V (\<lambda>s. Some (None, s))"

definition variorum_poll_power where
  "variorum_poll_power A b V output = for_all_skip A b V Poll_power [output]"

definition variorum_print_power_limit where
  "variorum_print_power_limit A b V = for_all_skip A b V Print_power_limit [0]"

definition variorum_print_verbose_power_limit where
  "variorum_print_verbose_power_limit A b V = for_all_skip A b V Print_power_limit [1]"

definition variorum_print_features where
  "variorum_print_features A b V = for_all_skip A b V Print_features []"

definition variorum_print_thermals where
  "variorum_print_thermals A b V = for_all_skip A b V Print_thermals [0]"

definition variorum_print_verbose_thermals where
  "variorum_print_verbose_thermals A b V = for_all_skip A b V Print_thermals [1]"

definition variorum_print_counters where
  "variorum_print_counters A b V = for_all_skip A b V Print_counters [0]"

definition variorum_print_verbose_counters where
  "variorum_print_verbose_counters A b V = for_all_skip A b V Print_counters [1]"

definition variorum_print_frequency where
  "variorum_print_frequency A b V = for_all_skip A b V Print_frequency [0]"

definition variorum_print_verbose_frequency where
  "variorum_print_verbose_frequency A b V = for_all_skip A b V Print_frequency [1]"

definition variorum_print_power where
  "variorum_print_power A b V = for_all_skip A b V Print_power [0]"

definition variorum_print_verbose_power where
  "variorum_print_verbose_power A b V = for_all_skip A b V Print_power [1]"

definition variorum_print_turbo where
  "variorum_print_turbo A b V = for_all_skip A b V Print_turbo []"

definition variorum_print_gpu_utilization where
  "variorum_print_gpu_utilization A b V = for_all_skip A b V Print_gpu_utilization [0]"

definition variorum_print_verbose_gpu_utilization where
  "variorum_print_verbose_gpu_utilization A b V = for_all_skip A b V Print_gpu_utilization [1]"

text \<open>
  What variorum_print_hyperthreading writes for each platform: whether it is enabled, and the
  number of threads per core when it is.
\<close>

fun hyperthreading_loop :: "nat list \<Rightarrow> 'a tbase_scheme \<Rightarrow> (bool \<times> int) list option" where
  "hyperthreading_loop [] s = Some []"
| "hyperthreading_loop (i # is) s =
    (if length (g_platform s) \<le> i then None
     else
       let n = num_threads_per_core (g_platform s ! i) in
       map_option ((#) (n \<noteq> 1, n)) (hyperthreading_loop is s))"

definition variorum_print_hyperthreading where
  "variorum_print_hyperthreading b V = session b V [] (\<lambda>s. do {
     lines \<leftarrow> hyperthreading_loop [0..<P_NUM_PLATFORMS b] s;
     Some (None, lines, s)
   })"

section \<open>Changing and monitoring\<close>

definition variorum_monitoring where
  "variorum_monitoring A b V output = for_all_stop A b V Monitoring [output]"

definition variorum_cap_gpu_power_ratio where
  "variorum_cap_gpu_power_ratio A b V gpu_power_ratio = for_all_stop A b V Cap_gpu_power_ratio [gpu_power_ratio]"

definition variorum_cap_each_socket_power_limit where
  "variorum_cap_each_socket_power_limit A b V socket_power_limit =
     for_all_stop A b V Cap_each_socket_power_limit [socket_power_limit]"

definition variorum_cap_each_core_frequency_limit where
  "variorum_cap_each_core_frequency_limit A b V core_freq_mhz =
     for_all_stop A b V Cap_each_core_frequency_limit [core_freq_mhz]"

definition variorum_cap_socket_frequency_limit where
  "variorum_cap_socket_frequency_limit A b V socketid socket_freq_mhz =
     for_all_stop A b V Cap_socket_frequency_limit [socketid, socket_freq_mhz]"

text \<open>The limit is an int here and an unsigned int in the feature function.\<close>

definition variorum_cap_each_gpu_power_limit where
  "variorum_cap_each_gpu_power_limit A b V gpu_power_limit =
     for_all_stop A b V Cap_each_gpu_power_limit [uint (unsigned_of_int gpu_power_limit)]"

definition variorum_enable_turbo where
  "variorum_enable_turbo A b V = for_all_stop A b V Enable_turbo []"

definition variorum_disable_turbo where
  "variorum_disable_turbo A b V = for_all_stop A b V Disable_turbo []"

definition variorum_print_available_frequencies where
  "variorum_print_available_frequencies A b V = for_all_stop A b V Print_available_frequencies []"

text \<open>Energy is printed on builds that have a CPU other than ARM.\<close>

definition has_cpu :: "build \<Rightarrow> bool" where
  "has_cpu b \<longleftrightarrow> b INTEL_CPU \<or> b AMD_CPU \<or> b IBM_CPU"

definition print_energy_body where
  "print_energy_body A b args s =
    (if has_cpu b then stop_loop A Print_energy args [0..<P_NUM_PLATFORMS b] s
     else Some (Some 0, variorum_error_handler VARIORUM_ERROR_FEATURE_NOT_IMPLEMENTED s))"

definition variorum_print_energy where
  "variorum_print_energy A b V = session0 b V (print_energy_body A b [0])"

definition variorum_print_verbose_energy where
  "variorum_print_verbose_energy A b V = session0 b V (print_energy_body A b [1])"

section \<open>Node-level functions of the primary platform\<close>

text \<open>
  The loop leaves at its first turn with the index of the first of these platforms that the
  build has; when it has none, it runs to the end and the index is the number of platforms.
\<close>

definition primary :: "platform_kind list \<Rightarrow> build \<Rightarrow> nat" where
  "primary ks b = (case find b ks of Some k \<Rightarrow> P_IDX b k | None \<Rightarrow> P_NUM_PLATFORMS b)"

definition variorum_cap_best_effort_node_power_limit where
  "variorum_cap_best_effort_node_power_limit A b V node_power_limit = session0 b V (\<lambda>s. do {
     h \<leftarrow> get_slot (primary [INTEL_CPU, IBM_CPU, AMD_CPU] b) Cap_best_effort_node_power_limit s;
     case h of
       None \<Rightarrow> Some (Some 0, variorum_error_handler VARIORUM_ERROR_FEATURE_NOT_IMPLEMENTED s)
     | Some h \<Rightarrow> do {
         (err, s) \<leftarrow> api_call A h [node_power_limit] s;
         Some (if err \<noteq> 0 then Some (-1) else None, s)
       }
   })"

definition variorum_get_node_power_domain_info_json where
  "variorum_get_node_power_domain_info_json A b V out = session b V out (\<lambda>s. do {
     h \<leftarrow> get_slot (primary [INTEL_CPU, IBM_CPU, AMD_CPU, ARM_CPU] b) Get_node_power_domain_info_json s;
     case h of
       None \<Rightarrow> Some (Some (-1), out, variorum_error_handler VARIORUM_ERROR_FEATURE_NOT_IMPLEMENTED s)
     | Some h \<Rightarrow> do {
         (err, str, s) \<leftarrow> api_str_call A h s;
         Some (if err \<noteq> 0 then Some (-1) else None, str, s)
       }
   })"

section \<open>JSON\<close>

text \<open>\<open>ts\<close> is computed in uint64 and handed over as a long long.\<close>

definition timestamp :: "('s, 'j) api_env \<Rightarrow> int" where
  "timestamp A = sint (word_of_int (fst (api_timeofday A)) * 1000000 + word_of_int (snd (api_timeofday A)) :: u64)"

definition new_node :: "('s, 'j) api_env \<Rightarrow> 'j" where
  "new_node A = (let L = api_json A in json_object_set_new L (json_object L) ''timestamp'' (json_integer L (timestamp A)))"

text \<open>
  The node object is put into the outer one before the feature functions fill it in; an object
  holds references, so what is printed in the end is the outer object around the filled node.
\<close>

definition dump_node :: "('s, 'j) api_env \<Rightarrow> 'j \<Rightarrow> string option" where
  "dump_node A node =
    (let L = api_json A in json_dumps L (json_object_set_new L (json_object L) (api_hostname A) node))"

fun json_skip_loop ::
  "('a arch_state_scheme, 'j) api_env \<Rightarrow> slot \<Rightarrow> nat list \<Rightarrow> 'j \<Rightarrow> 'a arch_state_scheme \<Rightarrow>
    (int option \<times> 'j \<times> 'a arch_state_scheme) option" where
  "json_skip_loop A sl [] node s = Some (None, node, s)"
| "json_skip_loop A sl (i # is) node s = do {
     h \<leftarrow> get_slot i sl s;
     case h of
       None \<Rightarrow> json_skip_loop A sl is node (variorum_error_handler VARIORUM_ERROR_FEATURE_NOT_IMPLEMENTED s)
     | Some h \<Rightarrow> do {
         (err, node, s) \<leftarrow> api_json_call A h node s;
         if err \<noteq> 0 then Some (Some (-1), node, s) else json_skip_loop A sl is node s
       }
   }"

definition json_all_skip where
  "json_all_skip A b V sl out = session b V out (\<lambda>s. do {
     (ret, node, s) \<leftarrow> json_skip_loop A sl [0..<P_NUM_PLATFORMS b] (new_node A) s;
     Some (ret, if ret = None then dump_node A node else out, s)
   })"

definition variorum_get_power_json where
  "variorum_get_power_json A b V out = json_all_skip A b V Get_power_json out"

definition variorum_get_thermals_json where
  "variorum_get_thermals_json A b V out = json_all_skip A b V Get_thermals_json out"

text \<open>Errors of the frequency functions are only printed.\<close>

fun json_ignore_loop ::
  "('a arch_state_scheme, 'j) api_env \<Rightarrow> slot \<Rightarrow> nat list \<Rightarrow> 'j \<Rightarrow> 'a arch_state_scheme \<Rightarrow>
    ('j \<times> 'a arch_state_scheme) option" where
  "json_ignore_loop A sl [] node s = Some (node, s)"
| "json_ignore_loop A sl (i # is) node s = do {
     h \<leftarrow> get_slot i sl s;
     case h of
       None \<Rightarrow> json_ignore_loop A sl is node (variorum_error_handler VARIORUM_ERROR_FEATURE_NOT_IMPLEMENTED s)
     | Some h \<Rightarrow> do {
         (_, node, s) \<leftarrow> api_json_call A h node s;
         json_ignore_loop A sl is node s
       }
   }"

definition variorum_get_frequency_json where
  "variorum_get_frequency_json A b V out = session b V out (\<lambda>s. do {
     (node, s) \<leftarrow> json_ignore_loop A Get_frequency_json [0..<P_NUM_PLATFORMS b] (new_node A) s;
     Some (None, dump_node A node, s)
   })"

text \<open>A missing energy function is reported, and then called all the same.\<close>

fun energy_loop ::
  "('a arch_state_scheme, 'j) api_env \<Rightarrow> nat list \<Rightarrow> string option \<Rightarrow> 'j \<Rightarrow> 'a arch_state_scheme \<Rightarrow>
    (string option \<times> 'a arch_state_scheme) option" where
  "energy_loop A [] out node s = Some (out, s)"
| "energy_loop A (i # is) out node s = do {
     h \<leftarrow> get_slot i Get_energy_json s;
     let s = (if h = None then variorum_error_handler VARIORUM_ERROR_FEATURE_NOT_IMPLEMENTED s else s);
     f \<leftarrow> h;
     (_, node, s) \<leftarrow> api_json_call A f node s;
     energy_loop A is (dump_node A node) node s
   }"

definition variorum_get_energy_json where
  "variorum_get_energy_json A b V out = session b V out (\<lambda>s.
     if has_cpu b then do {
       (out, s) \<leftarrow> energy_loop A [0..<P_NUM_PLATFORMS b] out (new_node A) s;
       Some (None, out, s)
     } else Some (Some 0, dump_node A (new_node A), variorum_error_handler VARIORUM_ERROR_FEATURE_NOT_IMPLEMENTED s))"

end
