(* ===== verification/Variorum_Session.thy ===== *)
theory Variorum_Session imports Variorum_Api Arch_Facts begin

text \<open>
  What variorum_enter and variorum_exit promise the functions between them, as an interface:
  \<open>bracket\<close>. Its laws are proved for Intel builds on a machine whose device files can be used,
  and its lemmas say what a whole API call does from what its body does.
\<close>

section \<open>The interface\<close>

locale bracket =
  fixes pre :: "'s \<Rightarrow> bool"
    and opened :: "'s \<Rightarrow> 's \<Rightarrow> bool"
    and usable :: "'s \<Rightarrow> 's \<Rightarrow> bool"
    and keeps :: "'s \<Rightarrow> 's \<Rightarrow> bool"
    and closed :: "'s \<Rightarrow> 's \<Rightarrow> bool"
    and ent :: "'s \<Rightarrow> (int \<times> 's) option"
    and ext_fn :: "'s \<Rightarrow> (int \<times> 's) option"
  assumes enter_opened: "pre s \<Longrightarrow> \<exists>t. ent s = Some (0, t) \<and> opened s t"
    and opened_usable: "opened s t \<Longrightarrow> usable s t"
    and keeps_usable: "usable s t \<Longrightarrow> keeps t t' \<Longrightarrow> usable s t'"
    and exit_closed: "usable s t \<Longrightarrow> \<exists>u. ext_fn t = Some (0, u) \<and> closed t u"
    and closed_pre: "usable s t \<Longrightarrow> closed t u \<Longrightarrow> pre u"
begin

definition run :: "'o \<Rightarrow> ('s \<Rightarrow> (int option \<times> 'o \<times> 's) option) \<Rightarrow> 's \<Rightarrow> (int \<times> 'o \<times> 's) option" where
  "run out body s =
    (case ent s of
       None \<Rightarrow> None
     | Some (err, s) \<Rightarrow>
         if err \<noteq> 0 then Some (-1, out, s)
         else case body s of
           None \<Rightarrow> None
         | Some (Some rc, out, s) \<Rightarrow> Some (rc, out, s)
         | Some (None, out, s) \<Rightarrow>
             (case ext_fn s of None \<Rightarrow> None | Some (err, s) \<Rightarrow> Some (if err \<noteq> 0 then -1 else err, out, s)))"

text \<open>The body runs on an opened state, and what it does decides the call.\<close>

lemma run_cases:
  assumes "pre s"
  obtains t where "opened s t" "body t = None" "run out body s = None"
  | t rc out' t' where "opened s t" "body t = Some (Some rc, out', t')" "run out body s = Some (rc, out', t')"
  | t out' t' where "opened s t" "body t = Some (None, out', t')" "\<not> keeps t t'"
  | t out' t' u where "opened s t" "body t = Some (None, out', t')" "keeps t t'"
      "run out body s = Some (0, out', u)" "closed t' u" "pre u"
proof -
  obtain t where t: "ent s = Some (0, t)" "opened s t" using enter_opened [OF assms] by blast
  consider "body t = None" | rc o' t' where "body t = Some (Some rc, o', t')" | o' t' where "body t = Some (None, o', t')"
    by (metis not_None_eq prod_cases3)
  then show thesis
  proof cases
    case 1 then show ?thesis using t by (intro that(1)) (auto simp: run_def)
  next
    case 2 then show ?thesis using t by (intro that(2)) (auto simp: run_def)
  next
    case (3 o' t')
    show ?thesis
    proof (cases "keeps t t'")
      case True
      have "usable s t'" using t(2) True by (blast intro: keeps_usable opened_usable)
      then obtain u where "ext_fn t' = Some (0, u)" "closed t' u" "pre u"
        using exit_closed closed_pre by blast
      then show ?thesis using t 3 True by (intro that(4)) (auto simp: run_def)
    qed (use t 3 that(3) in blast)
  qed
qed

lemma run_return:
  assumes "pre s" "\<And>t. opened s t \<Longrightarrow> \<exists>out' t'. body t = Some (Some rc, out', t') \<and> P t out' t'"
  shows "\<exists>t out' t'. opened s t \<and> run out body s = Some (rc, out', t') \<and> P t out' t'"
  by (rule run_cases [OF assms(1), of body out]) (use assms(2) in fastforce)+

lemma run_through:
  assumes "pre s" "\<And>t. opened s t \<Longrightarrow> \<exists>out' t'. body t = Some (None, out', t') \<and> keeps t t' \<and> P t out' t'"
  shows "\<exists>t out' t' u. opened s t \<and> run out body s = Some (0, out', u) \<and> P t out' t' \<and> closed t' u \<and> pre u"
  by (rule run_cases [OF assms(1), of body out]) (use assms(2) in fastforce)+

end

section \<open>The contract on Intel builds\<close>

definition fds :: "'a msr_state_scheme \<Rightarrow> int set" where
  "fds s = {fd. Some fd \<in> set (file_descriptors s)}"

text \<open>A machine and a state in which a call can be made.\<close>

definition api_pre :: "sys_env \<Rightarrow> intel_model \<Rightarrow> 'a arch_state_scheme \<Rightarrow> bool" where
  "api_pre V M s \<longleftrightarrow> intel_machine V M \<and> (\<forall>fd. \<not> os_close_fails (sys_os V) fd) \<and>
     length (g_platform s) = 2 \<and> msr_fresh (machine_topo (sys_hw V)) s"

definition model_table :: "intel_model \<Rightarrow> slot \<Rightarrow> handler option" where
  "model_table M = fptr (install (intel_ptrs M) (gpu_stub zero_platform))"

definition session_usable :: "sys_env \<Rightarrow> intel_model \<Rightarrow> 'a arch_state_scheme \<Rightarrow> 'a arch_state_scheme \<Rightarrow> bool" where
  "session_usable V M s t \<longleftrightarrow> api_pre V M s \<and> (\<exists>f. fd_table (machine_topo (sys_hw V)) f t) \<and> fds_fresh t \<and>
     length (g_platform t) = 2 \<and> arch_id (g_platform t ! 0) = Live (FM M) \<and>
     fptr (g_platform t ! 0) = model_table M \<and> p_msr_core_idx t = 0"

text \<open>
  Right after variorum_enter the descriptors of the processors are the only files open in
  addition, one for each.
\<close>

definition session_opened :: "sys_env \<Rightarrow> intel_model \<Rightarrow> 'a arch_state_scheme \<Rightarrow> 'a arch_state_scheme \<Rightarrow> bool" where
  "session_opened V M s t \<longleftrightarrow> variorum_enter intel_build V s = Some (0, t) \<and>
     session_usable V M s t \<and> msr_ready (machine_topo (sys_hw V)) t \<and>
     arch_state.more t = arch_state.more s \<and> elog t = elog s \<and> registers t = registers s \<and>
     card (fds t) = unat (nthreads (machine_topo (sys_hw V))) \<and>
     (\<forall>fd \<in> fds t. open_files s fd = None \<and> open_files t fd \<noteq> None) \<and>
     (\<forall>fd. fd \<notin> fds t \<longrightarrow> open_files t fd = open_files s fd)"

text \<open>
  What a feature function must leave alone: the descriptor table and the platform array. It may
  open further files, as the batch interface does once.
\<close>

definition keeps_session :: "'a arch_state_scheme \<Rightarrow> 'a arch_state_scheme \<Rightarrow> bool" where
  "keeps_session t t' \<longleftrightarrow> init_core_fd t' = init_core_fd t \<and> core_nthreads t' = core_nthreads t \<and>
     file_descriptors t' = file_descriptors t \<and> g_platform t' = g_platform t \<and>
     p_msr_core_idx t' = p_msr_core_idx t \<and> fds_fresh t' \<and>
     (\<forall>fd. open_files t fd \<noteq> None \<longrightarrow> open_files t' fd = open_files t fd)"

definition session_closed :: "'a arch_state_scheme \<Rightarrow> 'a arch_state_scheme \<Rightarrow> bool" where
  "session_closed t u \<longleftrightarrow> open_files u = (\<lambda>fd. if fd \<in> fds t then None else open_files t fd) \<and>
     elog u = elog t \<and> registers u = registers t \<and> arch_state.more u = arch_state.more t \<and> next_fd u = next_fd t \<and> length (g_platform u) = 2 \<and>
     (\<forall>T. (\<exists>f. fd_table T f t) \<longrightarrow> topo_ok T \<longrightarrow> core_ok T u)"

lemma fd_table_fds:
  assumes "fd_table T f s"
  shows "fds s = f ` {..<unat (nthreads T)}" "card (fds s) = unat (nthreads T)"
proof -
  have l: "length (file_descriptors s) = unat (nthreads T)"
    and e: "\<And>i. i < unat (nthreads T) \<Longrightarrow> file_descriptors s ! i = Some (f i)"
    and j: "inj_on f {..<unat (nthreads T)}"
    using assms by (auto simp: fd_table_def core_ok_def)
  show i: "fds s = f ` {..<unat (nthreads T)}"
    by (rule set_eqI) (auto simp: fds_def in_set_conv_nth l e image_iff)
  show "card (fds s) = unat (nthreads T)" using card_image [OF j] by (simp add: i)
qed

lemma keeps_session_refl: "fds_fresh t \<Longrightarrow> keeps_session t t"
  by (simp add: keeps_session_def)

lemma keeps_session_report [simp]: "keeps_session t (variorum_error_handler e t) = fds_fresh t"
  by (simp add: keeps_session_def variorum_error_handler_def fds_fresh_def)

lemma keeps_session_fd_table:
  "keeps_session t t' \<Longrightarrow> fd_table T f t \<Longrightarrow> fd_table T f t'"
  by (simp add: keeps_session_def fd_table_def core_ok_def)

lemma keeps_session_fds: "keeps_session t t' \<Longrightarrow> fds t' = fds t"
  by (simp add: keeps_session_def fds_def)

lemma intel_enter_opened:
  assumes "api_pre V M s"
  shows "\<exists>t. variorum_enter intel_build V s = Some (0, t) \<and> session_opened V M s t"
proof -
  let ?T = "machine_topo (sys_hw V)"
  have m: "intel_machine V M" "length (g_platform s) = 2" "msr_fresh ?T s"
    using assms by (simp_all add: api_pre_def)
  have h: "hwloc_good (sys_hw V)" using m(1) by (simp add: intel_machine_def)
  obtain t where t: "variorum_enter intel_build V s = Some (0, t)"
    "opened_from ?T (chosen_module (sys_os V)) 0 (entered V M s) t" "outer t = outer (entered V M s)"
    using enter_intel_good [OF m] by blast
  obtain f where f: "fd_table ?T f t" "\<And>i. i < unat (nthreads ?T) \<Longrightarrow> open_files (entered V M s) (f i) = None"
    "\<And>fd. open_files t fd \<noteq> open_files (entered V M s) fd \<Longrightarrow> fd \<in> f ` {..<unat (nthreads ?T)}"
    by (rule opened_fd_table [OF t(2) machine_topo_ok [OF h]]) blast
  have ix: "p_msr_core_idx t = p_msr_core_idx (entered V M s)"
    by (rule more_arch(1)) (use t(3) in \<open>simp add: outer_def\<close>)
  have "arch_state.more t = arch_state.more (entered V M s)"
    by (rule more_arch(7)) (use t(3) in \<open>simp add: outer_def\<close>)
  then have mo: "arch_state.more t = arch_state.more s" by (simp add: entered_def)
  have g: "g_platform t = g_platform (entered V M s)" "registers t = registers s"
    using t(3) by (simp_all add: outer_def)
  have mt: "fptr (intel_entry (sys_hw V) M (g_platform s ! 0)) = model_table M"
    by (rule ext) (auto simp: model_table_def fptr_intel_entry fptr_install gpu_stub_def zero_platform_def split: option.split)
  have ff: "fds_fresh t" "elog t = elog s" "msr_ready ?T t"
    using t(2) ready_upto_all [OF machine_topo_ok [OF h]] by (auto simp: opened_from_def)
  have su: "session_usable V M s t"
    using assms f(1) ff g ix mt by (auto simp: session_usable_def entered_def)
  show ?thesis using t(1) su ff g f mo fd_table_fds [OF f(1)]
    by (auto simp: session_opened_def fd_table_def)
qed

lemma intel_exit_closed:
  assumes "session_usable V M s t"
  shows "\<exists>u. variorum_exit intel_build V t = Some (0, u) \<and> session_closed t u"
proof -
  let ?T = "machine_topo (sys_hw V)"
  have p: "hwloc_good (sys_hw V)" "\<forall>fd. \<not> os_close_fails (sys_os V) fd"
    using assms by (simp_all add: session_usable_def api_pre_def intel_machine_def)
  obtain f where f: "fd_table ?T f t" using assms by (auto simp: session_usable_def)
  have q: "length (g_platform t) = 2" "p_msr_core_idx t = 0" "arch_id (g_platform t ! 0) = Live (FM M)"
    using assms by (simp_all add: session_usable_def)
  obtain u where u: "variorum_exit intel_build V t = Some (0, u)" "elog u = elog t" "core_ok ?T u"
    "open_files u = (\<lambda>fd. if fd \<in> f ` {..<unat (nthreads ?T)} then None else open_files t fd)"
    "next_fd u = next_fd t" "registers u = registers t" "length (g_platform u) = 2"
    "arch_state.more u = arch_state.more t"
    using exit_intel [OF p(1) q f p(2)] by blast
  have "init_core_fd u \<longrightarrow> core_nthreads u = nthreads ?T \<and> length (file_descriptors u) = unat (nthreads ?T)"
    using u(3) by (simp add: core_ok_def)
  moreover have "nthreads T' = nthreads ?T" if "fd_table T' f' t" for T' f'
    using that f by (simp add: fd_table_def core_ok_def)
  ultimately have "core_ok T' u" if "fd_table T' f' t" for T' f'
    using that by (simp add: core_ok_def)
  then show ?thesis using u fd_table_fds(1) [OF f] by (auto simp: session_closed_def)
qed

interpretation intel: bracket "api_pre V M" "session_opened V M" "session_usable V M" keeps_session
  session_closed "variorum_enter intel_build V" "variorum_exit intel_build V" for V M
proof
  fix s t t' u :: "'a arch_state_scheme"
  show "api_pre V M s \<Longrightarrow> \<exists>t. variorum_enter intel_build V s = Some (0, t) \<and> session_opened V M s t"
    by (rule intel_enter_opened)
  show "session_opened V M s t \<Longrightarrow> session_usable V M s t" by (simp add: session_opened_def)
  show "session_usable V M s t'" if "session_usable V M s t" "keeps_session t t'"
    using that keeps_session_fd_table [OF that(2)] by (auto simp: session_usable_def keeps_session_def)
  show "session_usable V M s t \<Longrightarrow> \<exists>u. variorum_exit intel_build V t = Some (0, u) \<and> session_closed t u"
    by (rule intel_exit_closed)
  assume t: "session_usable V M s t" "session_closed t u"
  have "topo_ok (machine_topo (sys_hw V))"
    using t(1) machine_topo_ok by (auto simp: session_usable_def api_pre_def intel_machine_def)
  moreover have "fds_fresh u" using t by (simp add: session_closed_def session_usable_def fds_fresh_def)
  ultimately show "api_pre V M u"
    using t by (auto simp: api_pre_def session_usable_def session_closed_def msr_fresh_def)
qed

lemma session_run: "session intel_build V out body s = intel.run V out body s"
  by (auto simp: session_def intel.run_def split: option.splits prod.splits)

text \<open>Bodies whose outcome is a function of the opened state.\<close>

lemma session_through:
  assumes "api_pre V M s"
    "\<And>t. session_opened V M s t \<Longrightarrow> body t = Some (None, G t, F t) \<and> keeps_session t (F t)"
  shows "\<exists>t u. session_opened V M s t \<and> session intel_build V out body s = Some (0, G t, u) \<and>
    session_closed (F t) u \<and> api_pre V M u"
proof -
  have "\<exists>t o' t' u. session_opened V M s t \<and> intel.run V out body s = Some (0, o', u) \<and>
      (o' = G t \<and> t' = F t) \<and> session_closed t' u \<and> api_pre V M u"
    by (rule intel.run_through [OF assms(1)]) (use assms(2) in simp)
  then show ?thesis unfolding session_run by blast
qed

lemma session_return:
  assumes "api_pre V M s" "\<And>t. session_opened V M s t \<Longrightarrow> body t = Some (Some rc, G t, F t)"
  shows "\<exists>t. session_opened V M s t \<and> session intel_build V out body s = Some (rc, G t, F t)"
proof -
  have "\<exists>t o' t'. session_opened V M s t \<and> intel.run V out body s = Some (rc, o', t') \<and> (o' = G t \<and> t' = F t)"
    by (rule intel.run_return [OF assms(1)]) (use assms(2) in simp)
  then show ?thesis unfolding session_run by blast
qed

lemma session_undefined:
  assumes "api_pre V M s" "\<And>t. session_opened V M s t \<Longrightarrow> body t = None"
  shows "session intel_build V out body s = None"
  unfolding session_run by (rule intel.run_cases [OF assms(1), of body out]) (use assms(2) in auto)

text \<open>The body ends with a check of an error code, as after a feature function.\<close>

lemma session_checked:
  assumes "api_pre V M s"
    "\<And>t. session_opened V M s t \<Longrightarrow> body t = Some (if err t \<noteq> 0 then Some (-1) else None, G t, F t) \<and>
       keeps_session t (F t)"
  shows "\<exists>t rc u. session_opened V M s t \<and> session intel_build V out body s = Some (rc, G t, u) \<and>
    (if err t \<noteq> 0 then rc = -1 \<and> u = F t else rc = 0 \<and> session_closed (F t) u \<and> api_pre V M u)"
proof (rule intel.run_cases [OF assms(1), of body out])
  fix t assume "session_opened V M s t" "body t = None"
  then show ?thesis using assms(2) by simp
next
  fix t rc o' t' assume "session_opened V M s t" "body t = Some (Some rc, o', t')" "intel.run V out body s = Some (rc, o', t')"
  then show ?thesis using assms(2) [of t] unfolding session_run by (auto split: if_splits)
next
  fix t o' t' assume "session_opened V M s t" "body t = Some (None, o', t')" "\<not> keeps_session t t'"
  then show ?thesis using assms(2) by (auto split: if_splits)
next
  fix t o' t' u assume "session_opened V M s t" "body t = Some (None, o', t')"
    "intel.run V out body s = Some (0, o', u)" "session_closed t' u" "api_pre V M u"
  then show ?thesis using assms(2) [of t] unfolding session_run by (auto split: if_splits)
qed

lemma session0_eq:
  "session0 b V body s = map_option (\<lambda>(rc, _, s). (rc, s))
     (session b V () (\<lambda>s. map_option (\<lambda>(r, s). (r, (), s)) (body s)) s)"
proof -
  have "(\<lambda>s. do { (ret, s) \<leftarrow> body s; Some (ret, (), s) }) = (\<lambda>s. map_option (\<lambda>(r, s). (r, (), s)) (body s))"
    by (rule ext) (auto split: option.split prod.split simp: map_option_case bind_eq_Some_conv)
  then show ?thesis by (auto simp: session0_def map_option_case split: option.split)
qed

lemma session0_through:
  assumes "api_pre V M s"
    "\<And>t. session_opened V M s t \<Longrightarrow> body t = Some (None, F t) \<and> keeps_session t (F t)"
  shows "\<exists>t u. session_opened V M s t \<and> session0 intel_build V body s = Some (0, u) \<and>
    session_closed (F t) u \<and> api_pre V M u"
proof -
  have "\<exists>t u. session_opened V M s t \<and>
      session intel_build V () (\<lambda>s. map_option (\<lambda>(r, s). (r, (), s)) (body s)) s = Some (0, (), u) \<and>
      session_closed (F t) u \<and> api_pre V M u"
    by (rule session_through [OF assms(1)]) (use assms(2) in simp)
  then show ?thesis unfolding session0_eq by auto
qed

lemma session0_return:
  assumes "api_pre V M s" "\<And>t. session_opened V M s t \<Longrightarrow> body t = Some (Some rc, F t)"
  shows "\<exists>t. session_opened V M s t \<and> session0 intel_build V body s = Some (rc, F t)"
proof -
  have "\<exists>t. session_opened V M s t \<and>
      session intel_build V () (\<lambda>s. map_option (\<lambda>(r, s). (r, (), s)) (body s)) s = Some (rc, (), F t)"
    by (rule session_return [OF assms(1)]) (use assms(2) in simp)
  then show ?thesis unfolding session0_eq by auto
qed

lemma session0_checked:
  assumes "api_pre V M s"
    "\<And>t. session_opened V M s t \<Longrightarrow> body t = Some (if err t \<noteq> 0 then Some (-1) else None, F t) \<and>
       keeps_session t (F t)"
  shows "\<exists>t rc u. session_opened V M s t \<and> session0 intel_build V body s = Some (rc, u) \<and>
    (if err t \<noteq> 0 then rc = -1 \<and> u = F t else rc = 0 \<and> session_closed (F t) u \<and> api_pre V M u)"
proof -
  have "\<exists>t rc u. session_opened V M s t \<and>
      session intel_build V () (\<lambda>s. map_option (\<lambda>(r, s). (r, (), s)) (body s)) s = Some (rc, (), u) \<and>
      (if err t \<noteq> 0 then rc = -1 \<and> u = F t else rc = 0 \<and> session_closed (F t) u \<and> api_pre V M u)"
    by (rule session_checked [OF assms(1)]) (use assms(2) in simp)
  then obtain t rc u where *: "session_opened V M s t"
      "session intel_build V () (\<lambda>s. map_option (\<lambda>(r, s). (r, (), s)) (body s)) s = Some (rc, (), u)"
      "if err t \<noteq> 0 then rc = -1 \<and> u = F t else rc = 0 \<and> session_closed (F t) u \<and> api_pre V M u"
    by blast
  have "session0 intel_build V body s = Some (rc, u)" unfolding session0_eq *(2) by simp
  then show ?thesis using *(1,3) by blast
qed

end
