(* ===== verification/Intel_Api.thy ===== *)
theory Intel_Api imports Intel_Models Variorum_Session begin

text \<open>
  The feature functions of Intel processors behind the function pointers of the platform table: the
  \<open>api_env\<close> that the functions of variorum.c run with on an Intel build. A handler is the name
  of a C function, here is what it names. The FILE pointer of poll\_power and monitoring is not looked at.
  A function called with other arguments than its own has no meaning.
\<close>

type_synonym json_entries = "(string list \<times> json_value) list"

definition int_call_06_2a :: "power_env \<Rightarrow> cpuid \<Rightarrow> op \<Rightarrow> int list \<Rightarrow> 'a feat_state_scheme \<Rightarrow> (int \<times> 'a feat_state_scheme) option" where
  "int_call_06_2a P rax f args s =
    (case (f, args) of
       (get_power_limits, [x]) \<Rightarrow> intel_cpu_fm_06_2a_get_power_limits P x s
     | (cap_power_limits, [x]) \<Rightarrow> intel_cpu_fm_06_2a_cap_power_limits P x s
     | (get_features, []) \<Rightarrow> intel_cpu_fm_06_2a_get_features s
     | (get_thermals, [x]) \<Rightarrow> intel_cpu_fm_06_2a_get_thermals P x s
     | (get_counters, [x]) \<Rightarrow> intel_cpu_fm_06_2a_get_counters P rax x s
     | (get_clocks, [x]) \<Rightarrow> intel_cpu_fm_06_2a_get_clocks P x s
     | (get_power, [x]) \<Rightarrow> intel_cpu_fm_06_2a_get_power P x s
     | (enable_turbo, []) \<Rightarrow> intel_cpu_fm_06_2a_enable_turbo P s
     | (disable_turbo, []) \<Rightarrow> intel_cpu_fm_06_2a_disable_turbo P s
     | (get_turbo_status, []) \<Rightarrow> intel_cpu_fm_06_2a_get_turbo_status P s
     | (poll_power, [x]) \<Rightarrow> intel_cpu_fm_06_2a_poll_power P s
     | (monitoring, [x]) \<Rightarrow> intel_cpu_fm_06_2a_monitoring P s
     | (cap_best_effort_node_power_limit, [x]) \<Rightarrow> intel_cpu_fm_06_2a_cap_best_effort_node_power_limit P x s
     | (get_frequencies, []) \<Rightarrow> intel_cpu_fm_06_2a_get_frequencies P s
     | (get_energy, [x]) \<Rightarrow> intel_cpu_fm_06_2a_get_energy P x s
     | _ \<Rightarrow> None)"

definition json_call_06_2a :: "power_env \<Rightarrow> op \<Rightarrow> 'a feat_state_scheme \<Rightarrow> (int \<times> 'a feat_state_scheme) option" where
  "json_call_06_2a P f s =
    (case f of
       get_clocks_json \<Rightarrow> intel_cpu_fm_06_2a_get_clocks_json P s
     | get_power_json \<Rightarrow> intel_cpu_fm_06_2a_get_power_json P s
     | get_thermals_json \<Rightarrow> intel_cpu_fm_06_2a_get_thermals_json P s
     | get_energy_json \<Rightarrow> intel_cpu_fm_06_2a_get_energy_json P s
     | _ \<Rightarrow> None)"

definition int_call_06_2d :: "power_env \<Rightarrow> cpuid \<Rightarrow> op \<Rightarrow> int list \<Rightarrow> 'a feat_state_scheme \<Rightarrow> (int \<times> 'a feat_state_scheme) option" where
  "int_call_06_2d P rax f args s =
    (case (f, args) of
       (get_power_limits, [x]) \<Rightarrow> intel_cpu_fm_06_2d_get_power_limits P x s
     | (cap_power_limits, [x]) \<Rightarrow> intel_cpu_fm_06_2d_cap_power_limits P x s
     | (get_features, []) \<Rightarrow> intel_cpu_fm_06_2d_get_features s
     | (get_thermals, [x]) \<Rightarrow> intel_cpu_fm_06_2d_get_thermals P x s
     | (get_counters, [x]) \<Rightarrow> intel_cpu_fm_06_2d_get_counters P rax x s
     | (get_clocks, [x]) \<Rightarrow> intel_cpu_fm_06_2d_get_clocks P x s
     | (get_power, [x]) \<Rightarrow> intel_cpu_fm_06_2d_get_power P x s
     | (enable_turbo, []) \<Rightarrow> intel_cpu_fm_06_2d_enable_turbo P s
     | (disable_turbo, []) \<Rightarrow> intel_cpu_fm_06_2d_disable_turbo P s
     | (get_turbo_status, []) \<Rightarrow> intel_cpu_fm_06_2d_get_turbo_status P s
     | (poll_power, [x]) \<Rightarrow> intel_cpu_fm_06_2d_poll_power P s
     | (monitoring, [x]) \<Rightarrow> intel_cpu_fm_06_2d_monitoring P s
     | (cap_best_effort_node_power_limit, [x]) \<Rightarrow> intel_cpu_fm_06_2d_cap_best_effort_node_power_limit P x s
     | (get_frequencies, []) \<Rightarrow> intel_cpu_fm_06_2d_get_frequencies P s
     | (get_energy, [x]) \<Rightarrow> intel_cpu_fm_06_2d_get_energy P x s
     | _ \<Rightarrow> None)"

definition json_call_06_2d :: "power_env \<Rightarrow> op \<Rightarrow> 'a feat_state_scheme \<Rightarrow> (int \<times> 'a feat_state_scheme) option" where
  "json_call_06_2d P f s =
    (case f of
       get_clocks_json \<Rightarrow> intel_cpu_fm_06_2d_get_clocks_json P s
     | get_power_json \<Rightarrow> intel_cpu_fm_06_2d_get_power_json P s
     | get_thermals_json \<Rightarrow> intel_cpu_fm_06_2d_get_thermals_json P s
     | get_energy_json \<Rightarrow> intel_cpu_fm_06_2d_get_energy_json P s
     | _ \<Rightarrow> None)"

definition int_call_06_3e :: "power_env \<Rightarrow> cpuid \<Rightarrow> op \<Rightarrow> int list \<Rightarrow> 'a feat_state_scheme \<Rightarrow> (int \<times> 'a feat_state_scheme) option" where
  "int_call_06_3e P rax f args s =
    (case (f, args) of
       (get_power_limits, [x]) \<Rightarrow> intel_cpu_fm_06_3e_get_power_limits P x s
     | (cap_power_limits, [x]) \<Rightarrow> intel_cpu_fm_06_3e_cap_power_limits P x s
     | (get_features, []) \<Rightarrow> intel_cpu_fm_06_3e_get_features s
     | (get_thermals, [x]) \<Rightarrow> intel_cpu_fm_06_3e_get_thermals P x s
     | (get_counters, [x]) \<Rightarrow> intel_cpu_fm_06_3e_get_counters P rax x s
     | (get_clocks, [x]) \<Rightarrow> intel_cpu_fm_06_3e_get_clocks P x s
     | (get_power, [x]) \<Rightarrow> intel_cpu_fm_06_3e_get_power P x s
     | (enable_turbo, []) \<Rightarrow> intel_cpu_fm_06_3e_enable_turbo P s
     | (disable_turbo, []) \<Rightarrow> intel_cpu_fm_06_3e_disable_turbo P s
     | (get_turbo_status, []) \<Rightarrow> intel_cpu_fm_06_3e_get_turbo_status P s
     | (poll_power, [x]) \<Rightarrow> intel_cpu_fm_06_3e_poll_power P s
     | (monitoring, [x]) \<Rightarrow> intel_cpu_fm_06_3e_monitoring P s
     | (cap_best_effort_node_power_limit, [x]) \<Rightarrow> intel_cpu_fm_06_3e_cap_best_effort_node_power_limit P x s
     | (get_frequencies, []) \<Rightarrow> intel_cpu_fm_06_3e_get_frequencies P s
     | (get_energy, [x]) \<Rightarrow> intel_cpu_fm_06_3e_get_energy P x s
     | _ \<Rightarrow> None)"

definition json_call_06_3e :: "power_env \<Rightarrow> op \<Rightarrow> 'a feat_state_scheme \<Rightarrow> (int \<times> 'a feat_state_scheme) option" where
  "json_call_06_3e P f s =
    (case f of
       get_clocks_json \<Rightarrow> intel_cpu_fm_06_3e_get_clocks_json P s
     | get_power_json \<Rightarrow> intel_cpu_fm_06_3e_get_power_json P s
     | get_thermals_json \<Rightarrow> intel_cpu_fm_06_3e_get_thermals_json P s
     | get_energy_json \<Rightarrow> intel_cpu_fm_06_3e_get_energy_json P s
     | _ \<Rightarrow> None)"

definition int_call_06_3f :: "power_env \<Rightarrow> cpuid \<Rightarrow> op \<Rightarrow> int list \<Rightarrow> 'a feat_state_scheme \<Rightarrow> (int \<times> 'a feat_state_scheme) option" where
  "int_call_06_3f P rax f args s =
    (case (f, args) of
       (get_power_limits, [x]) \<Rightarrow> intel_cpu_fm_06_3f_get_power_limits P x s
     | (cap_power_limits, [x]) \<Rightarrow> intel_cpu_fm_06_3f_cap_power_limits P x s
     | (get_features, []) \<Rightarrow> intel_cpu_fm_06_3f_get_features s
     | (get_thermals, [x]) \<Rightarrow> intel_cpu_fm_06_3f_get_thermals P x s
     | (get_counters, [x]) \<Rightarrow> intel_cpu_fm_06_3f_get_counters P rax x s
     | (get_clocks, [x]) \<Rightarrow> intel_cpu_fm_06_3f_get_clocks P x s
     | (get_power, [x]) \<Rightarrow> intel_cpu_fm_06_3f_get_power P x s
     | (enable_turbo, []) \<Rightarrow> intel_cpu_fm_06_3f_enable_turbo P s
     | (disable_turbo, []) \<Rightarrow> intel_cpu_fm_06_3f_disable_turbo P s
     | (get_turbo_status, []) \<Rightarrow> intel_cpu_fm_06_3f_get_turbo_status P s
     | (poll_power, [x]) \<Rightarrow> intel_cpu_fm_06_3f_poll_power P s
     | (monitoring, [x]) \<Rightarrow> intel_cpu_fm_06_3f_monitoring P s
     | (cap_best_effort_node_power_limit, [x]) \<Rightarrow> intel_cpu_fm_06_3f_cap_best_effort_node_power_limit P x s
     | (get_frequencies, []) \<Rightarrow> intel_cpu_fm_06_3f_get_frequencies P s
     | (get_energy, [x]) \<Rightarrow> intel_cpu_fm_06_3f_get_energy P x s
     | _ \<Rightarrow> None)"

definition json_call_06_3f :: "power_env \<Rightarrow> op \<Rightarrow> 'a feat_state_scheme \<Rightarrow> (int \<times> 'a feat_state_scheme) option" where
  "json_call_06_3f P f s =
    (case f of
       get_clocks_json \<Rightarrow> intel_cpu_fm_06_3f_get_clocks_json P s
     | get_power_json \<Rightarrow> intel_cpu_fm_06_3f_get_power_json P s
     | get_thermals_json \<Rightarrow> intel_cpu_fm_06_3f_get_thermals_json P s
     | get_energy_json \<Rightarrow> intel_cpu_fm_06_3f_get_energy_json P s
     | _ \<Rightarrow> None)"

definition int_call_06_4f :: "power_env \<Rightarrow> cpuid \<Rightarrow> op \<Rightarrow> int list \<Rightarrow> 'a feat_state_scheme \<Rightarrow> (int \<times> 'a feat_state_scheme) option" where
  "int_call_06_4f P rax f args s =
    (case (f, args) of
       (get_power_limits, [x]) \<Rightarrow> intel_cpu_fm_06_4f_get_power_limits P x s
     | (cap_power_limits, [x]) \<Rightarrow> intel_cpu_fm_06_4f_cap_power_limits P x s
     | (get_features, []) \<Rightarrow> intel_cpu_fm_06_4f_get_features s
     | (get_thermals, [x]) \<Rightarrow> intel_cpu_fm_06_4f_get_thermals P x s
     | (get_counters, [x]) \<Rightarrow> intel_cpu_fm_06_4f_get_counters P rax x s
     | (get_clocks, [x]) \<Rightarrow> intel_cpu_fm_06_4f_get_clocks P x s
     | (get_power, [x]) \<Rightarrow> intel_cpu_fm_06_4f_get_power P x s
     | (enable_turbo, []) \<Rightarrow> intel_cpu_fm_06_4f_enable_turbo P s
     | (disable_turbo, []) \<Rightarrow> intel_cpu_fm_06_4f_disable_turbo P s
     | (get_turbo_status, []) \<Rightarrow> intel_cpu_fm_06_4f_get_turbo_status P s
     | (poll_power, [x]) \<Rightarrow> intel_cpu_fm_06_4f_poll_power P s
     | (monitoring, [x]) \<Rightarrow> intel_cpu_fm_06_4f_monitoring P s
     | (cap_best_effort_node_power_limit, [x]) \<Rightarrow> intel_cpu_fm_06_4f_cap_best_effort_node_power_limit P x s
     | (get_frequencies, []) \<Rightarrow> intel_cpu_fm_06_4f_get_frequencies P s
     | (get_energy, [x]) \<Rightarrow> intel_cpu_fm_06_4f_get_energy P x s
     | _ \<Rightarrow> None)"

definition json_call_06_4f :: "power_env \<Rightarrow> op \<Rightarrow> 'a feat_state_scheme \<Rightarrow> (int \<times> 'a feat_state_scheme) option" where
  "json_call_06_4f P f s =
    (case f of
       get_clocks_json \<Rightarrow> intel_cpu_fm_06_4f_get_clocks_json P s
     | get_power_json \<Rightarrow> intel_cpu_fm_06_4f_get_power_json P s
     | get_thermals_json \<Rightarrow> intel_cpu_fm_06_4f_get_thermals_json P s
     | get_energy_json \<Rightarrow> intel_cpu_fm_06_4f_get_energy_json P s
     | _ \<Rightarrow> None)"

definition int_call_06_55 :: "power_env \<Rightarrow> cpuid \<Rightarrow> op \<Rightarrow> int list \<Rightarrow> 'a feat_state_scheme \<Rightarrow> (int \<times> 'a feat_state_scheme) option" where
  "int_call_06_55 P rax f args s =
    (case (f, args) of
       (get_power_limits, [x]) \<Rightarrow> intel_cpu_fm_06_55_get_power_limits P x s
     | (cap_power_limits, [x]) \<Rightarrow> intel_cpu_fm_06_55_cap_power_limits P x s
     | (get_features, []) \<Rightarrow> intel_cpu_fm_06_55_get_features s
     | (get_thermals, [x]) \<Rightarrow> intel_cpu_fm_06_55_get_thermals P x s
     | (get_counters, [x]) \<Rightarrow> intel_cpu_fm_06_55_get_counters P rax x s
     | (get_clocks, [x]) \<Rightarrow> intel_cpu_fm_06_55_get_clocks P x s
     | (get_power, [x]) \<Rightarrow> intel_cpu_fm_06_55_get_power P x s
     | (poll_power, [x]) \<Rightarrow> intel_cpu_fm_06_55_poll_power P s
     | (monitoring, [x]) \<Rightarrow> intel_cpu_fm_06_55_monitoring P s
     | (cap_best_effort_node_power_limit, [x]) \<Rightarrow> intel_cpu_fm_06_55_cap_best_effort_node_power_limit P x s
     | (cap_frequency, [x]) \<Rightarrow> intel_cpu_fm_06_55_cap_frequency P x s
     | (get_frequencies, []) \<Rightarrow> intel_cpu_fm_06_55_get_frequencies P s
     | (get_energy, [x]) \<Rightarrow> intel_cpu_fm_06_55_get_energy P x s
     | _ \<Rightarrow> None)"

definition json_call_06_55 :: "power_env \<Rightarrow> op \<Rightarrow> 'a feat_state_scheme \<Rightarrow> (int \<times> 'a feat_state_scheme) option" where
  "json_call_06_55 P f s =
    (case f of
       get_clocks_json \<Rightarrow> intel_cpu_fm_06_55_get_clocks_json P s
     | get_power_json \<Rightarrow> intel_cpu_fm_06_55_get_power_json P s
     | get_thermals_json \<Rightarrow> intel_cpu_fm_06_55_get_thermals_json P s
     | get_energy_json \<Rightarrow> intel_cpu_fm_06_55_get_energy_json P s
     | _ \<Rightarrow> None)"

definition int_call_06_9e :: "power_env \<Rightarrow> cpuid \<Rightarrow> op \<Rightarrow> int list \<Rightarrow> 'a feat_state_scheme \<Rightarrow> (int \<times> 'a feat_state_scheme) option" where
  "int_call_06_9e P rax f args s =
    (case (f, args) of
       (get_power_limits, [x]) \<Rightarrow> intel_cpu_fm_06_9e_get_power_limits P x s
     | (cap_power_limits, [x]) \<Rightarrow> intel_cpu_fm_06_9e_cap_power_limits P x s
     | (get_features, []) \<Rightarrow> intel_cpu_fm_06_9e_get_features s
     | (get_thermals, [x]) \<Rightarrow> intel_cpu_fm_06_9e_get_thermals P x s
     | (get_counters, [x]) \<Rightarrow> intel_cpu_fm_06_9e_get_counters P rax x s
     | (get_clocks, [x]) \<Rightarrow> intel_cpu_fm_06_9e_get_clocks P x s
     | (get_power, [x]) \<Rightarrow> intel_cpu_fm_06_9e_get_power P x s
     | (poll_power, [x]) \<Rightarrow> intel_cpu_fm_06_9e_poll_power P s
     | (monitoring, [x]) \<Rightarrow> intel_cpu_fm_06_9e_monitoring P s
     | (cap_best_effort_node_power_limit, [x]) \<Rightarrow> intel_cpu_fm_06_9e_cap_best_effort_node_power_limit P x s
     | (get_frequencies, []) \<Rightarrow> intel_cpu_fm_06_9e_get_frequencies P s
     | (get_energy, [x]) \<Rightarrow> intel_cpu_fm_06_9e_get_energy P x s
     | _ \<Rightarrow> None)"

definition json_call_06_9e :: "power_env \<Rightarrow> op \<Rightarrow> 'a feat_state_scheme \<Rightarrow> (int \<times> 'a feat_state_scheme) option" where
  "json_call_06_9e P f s =
    (case f of
       get_power_json \<Rightarrow> intel_cpu_fm_06_9e_get_power_json P s
     | get_thermals_json \<Rightarrow> intel_cpu_fm_06_9e_get_thermals_json P s
     | get_clocks_json \<Rightarrow> intel_cpu_fm_06_9e_get_clocks_json P s
     | get_energy_json \<Rightarrow> intel_cpu_fm_06_9e_get_energy_json P s
     | _ \<Rightarrow> None)"

definition int_call_06_6a :: "power_env \<Rightarrow> cpuid \<Rightarrow> op \<Rightarrow> int list \<Rightarrow> 'a feat_state_scheme \<Rightarrow> (int \<times> 'a feat_state_scheme) option" where
  "int_call_06_6a P rax f args s =
    (case (f, args) of
       (get_power_limits, [x]) \<Rightarrow> intel_cpu_fm_06_6a_get_power_limits P x s
     | (get_features, []) \<Rightarrow> intel_cpu_fm_06_6a_get_features s
     | (get_power, [x]) \<Rightarrow> intel_cpu_fm_06_6a_get_power P x s
     | (get_energy, [x]) \<Rightarrow> intel_cpu_fm_06_6a_get_energy P x s
     | _ \<Rightarrow> None)"

definition json_call_06_6a :: "power_env \<Rightarrow> op \<Rightarrow> 'a feat_state_scheme \<Rightarrow> (int \<times> 'a feat_state_scheme) option" where
  "json_call_06_6a P f s =
    (case f of
       get_power_json \<Rightarrow> intel_cpu_fm_06_6a_get_power_json P s
     | get_energy_json \<Rightarrow> intel_cpu_fm_06_6a_get_energy_json P s
     | _ \<Rightarrow> None)"

definition int_call_06_8f :: "power_env \<Rightarrow> cpuid \<Rightarrow> op \<Rightarrow> int list \<Rightarrow> 'a feat_state_scheme \<Rightarrow> (int \<times> 'a feat_state_scheme) option" where
  "int_call_06_8f P rax f args s =
    (case (f, args) of
       (get_power_limits, [x]) \<Rightarrow> fm_06_8f_get_power_limits P x s
     | (get_features, []) \<Rightarrow> fm_06_8f_get_features s
     | (get_power, [x]) \<Rightarrow> fm_06_8f_get_power P x s
     | (monitoring, [x]) \<Rightarrow> fm_06_8f_monitoring P s
     | (get_energy, [x]) \<Rightarrow> fm_06_8f_get_energy P x s
     | _ \<Rightarrow> None)"

definition json_call_06_8f :: "power_env \<Rightarrow> op \<Rightarrow> 'a feat_state_scheme \<Rightarrow> (int \<times> 'a feat_state_scheme) option" where
  "json_call_06_8f P f s =
    (case f of
       get_power_json \<Rightarrow> fm_06_8f_get_power_json P s
     | get_energy_json \<Rightarrow> fm_06_8f_get_energy_json P s
     | _ \<Rightarrow> None)"

definition intel_int_call :: "power_env \<Rightarrow> cpuid \<Rightarrow> intel_model \<Rightarrow> op \<Rightarrow> int list \<Rightarrow> 'a feat_state_scheme \<Rightarrow> (int \<times> 'a feat_state_scheme) option" where
  "intel_int_call P rax M f args s =
    (case M of
       M_06_2A \<Rightarrow> int_call_06_2a P rax f args s
     | M_06_2D \<Rightarrow> int_call_06_2d P rax f args s
     | M_06_3E \<Rightarrow> int_call_06_3e P rax f args s
     | M_06_3F \<Rightarrow> int_call_06_3f P rax f args s
     | M_06_4F \<Rightarrow> int_call_06_4f P rax f args s
     | M_06_55 \<Rightarrow> int_call_06_55 P rax f args s
     | M_06_9E \<Rightarrow> int_call_06_9e P rax f args s
     | M_06_6A \<Rightarrow> int_call_06_6a P rax f args s
     | M_06_8F \<Rightarrow> int_call_06_8f P rax f args s)"

definition intel_json_call :: "power_env \<Rightarrow> intel_model \<Rightarrow> op \<Rightarrow> 'a feat_state_scheme \<Rightarrow> (int \<times> 'a feat_state_scheme) option" where
  "intel_json_call P M f s =
    (case M of
       M_06_2A \<Rightarrow> json_call_06_2a P f s
     | M_06_2D \<Rightarrow> json_call_06_2d P f s
     | M_06_3E \<Rightarrow> json_call_06_3e P f s
     | M_06_3F \<Rightarrow> json_call_06_3f P f s
     | M_06_4F \<Rightarrow> json_call_06_4f P f s
     | M_06_55 \<Rightarrow> json_call_06_55 P f s
     | M_06_9E \<Rightarrow> json_call_06_9e P f s
     | M_06_6A \<Rightarrow> json_call_06_6a P f s
     | M_06_8F \<Rightarrow> json_call_06_8f P f s)"

definition intel_node_info :: "power_env \<Rightarrow> intel_model \<Rightarrow> 'a feat_state_scheme \<Rightarrow> (int \<times> json_entries \<times> 'a feat_state_scheme) option" where
  "intel_node_info P M s =
    (case M of
       M_06_2A \<Rightarrow> intel_cpu_fm_06_2a_get_node_power_domain_info_json P s
     | M_06_2D \<Rightarrow> intel_cpu_fm_06_2d_get_node_power_domain_info_json P s
     | M_06_3E \<Rightarrow> intel_cpu_fm_06_3e_get_node_power_domain_info_json P s
     | M_06_3F \<Rightarrow> intel_cpu_fm_06_3f_get_node_power_domain_info_json P s
     | M_06_4F \<Rightarrow> intel_cpu_fm_06_4f_get_node_power_domain_info_json P s
     | M_06_55 \<Rightarrow> intel_cpu_fm_06_55_get_node_power_domain_info_json P s
     | M_06_9E \<Rightarrow> intel_cpu_fm_06_9e_get_node_power_domain_info_json P s
     | M_06_6A \<Rightarrow> intel_cpu_fm_06_6a_get_node_power_domain_info_json P s
     | M_06_8F \<Rightarrow> fm_06_8f_get_node_power_domain_info_json P s)"

text \<open>
  A JSON function fills in the object of its caller. The string of node\_power\_domain\_info is what json\_dumps
  makes of the object that the function has built.
\<close>

definition intel_api ::
  "power_env \<Rightarrow> cpuid \<Rightarrow> json_entries json_lib \<Rightarrow> int \<times> int \<Rightarrow> string \<Rightarrow> ('a feat_state_scheme, json_entries) api_env" where
  "intel_api P rax L now name = \<lparr>
     api_call = (\<lambda>h args s. case h of intel_cpu_fm M f \<Rightarrow> intel_int_call P rax M f args s | _ \<Rightarrow> None),
     api_json_call = (\<lambda>h node s. case h of
         intel_cpu_fm M f \<Rightarrow> do {
           (rc, t) \<leftarrow> intel_json_call P M f (s\<lparr>json_sets := node\<rparr>);
           Some (rc, json_sets t, t\<lparr>json_sets := json_sets s\<rparr>)
         }
       | _ \<Rightarrow> None),
     api_str_call = (\<lambda>h s. case h of
         intel_cpu_fm M f \<Rightarrow>
           if f = get_node_power_domain_info_json then do {
             (rc, obj, s) \<leftarrow> intel_node_info P M s;
             Some (rc, json_dumps L obj, s)
           } else None
       | _ \<Rightarrow> None),
     api_json = L, api_timeofday = now, api_hostname = name\<rparr>"

end
