(* ===== verification/Api_Facts.thy ===== *)
theory Api_Facts imports Variorum_Session begin

text \<open>
  Properties of the API functions that do not depend on what the feature functions do: what a call returns whose
  feature function is missing, and whether it leaves the device files as it found them; and the functions that build a
  JSON object. All rest on the bracket contract of variorum_enter and variorum_exit.
\<close>

section \<open>The functions of one kind\<close>

text \<open>The printing functions with their slot and arguments.\<close>

definition printing_api where
  "printing_api A out =
    [(\<lambda>b V. variorum_poll_power A b V out, Poll_power, [out]),
     (variorum_print_power_limit A, Print_power_limit, [0]),
     (variorum_print_verbose_power_limit A, Print_power_limit, [1]),
     (variorum_print_features A, Print_features, []),
     (variorum_print_thermals A, Print_thermals, [0]),
     (variorum_print_verbose_thermals A, Print_thermals, [1]),
     (variorum_print_counters A, Print_counters, [0]),
     (variorum_print_verbose_counters A, Print_counters, [1]),
     (variorum_print_frequency A, Print_frequency, [0]),
     (variorum_print_verbose_frequency A, Print_frequency, [1]),
     (variorum_print_power A, Print_power, [0]),
     (variorum_print_verbose_power A, Print_power, [1]),
     (variorum_print_turbo A, Print_turbo, []),
     (variorum_print_gpu_utilization A, Print_gpu_utilization, [0]),
     (variorum_print_verbose_gpu_utilization A, Print_gpu_utilization, [1])]"

text \<open>The functions that change something, or refuse to go on when a platform lacks them.\<close>

definition changing_api where
  "changing_api A x y =
    [(\<lambda>b V. variorum_monitoring A b V x, Monitoring, [x]),
     (\<lambda>b V. variorum_cap_gpu_power_ratio A b V x, Cap_gpu_power_ratio, [x]),
     (\<lambda>b V. variorum_cap_each_socket_power_limit A b V x, Cap_each_socket_power_limit, [x]),
     (\<lambda>b V. variorum_cap_each_core_frequency_limit A b V x, Cap_each_core_frequency_limit, [x]),
     (\<lambda>b V. variorum_cap_socket_frequency_limit A b V x y, Cap_socket_frequency_limit, [x, y]),
     (\<lambda>b V. variorum_cap_each_gpu_power_limit A b V x, Cap_each_gpu_power_limit, [uint (unsigned_of_int x)]),
     (variorum_enable_turbo A, Enable_turbo, []),
     (variorum_disable_turbo A, Disable_turbo, []),
     (variorum_print_available_frequencies A, Print_available_frequencies, [])]"

lemma printing_api_skip:
  "(f, sl, args) \<in> set (printing_api A out) \<Longrightarrow> f b V = for_all_skip A b V sl args"
  by (auto simp: printing_api_def variorum_poll_power_def variorum_print_power_limit_def
      variorum_print_verbose_power_limit_def variorum_print_features_def variorum_print_thermals_def
      variorum_print_verbose_thermals_def variorum_print_counters_def variorum_print_verbose_counters_def
      variorum_print_frequency_def variorum_print_verbose_frequency_def variorum_print_power_def
      variorum_print_verbose_power_def variorum_print_turbo_def variorum_print_gpu_utilization_def
      variorum_print_verbose_gpu_utilization_def)

lemma changing_api_stop:
  "(f, sl, args) \<in> set (changing_api A x y) \<Longrightarrow> f b V = for_all_stop A b V sl args"
  by (auto simp: changing_api_def variorum_monitoring_def variorum_cap_gpu_power_ratio_def
      variorum_cap_each_socket_power_limit_def variorum_cap_each_core_frequency_limit_def
      variorum_cap_socket_frequency_limit_def variorum_cap_each_gpu_power_limit_def
      variorum_enable_turbo_def variorum_disable_turbo_def variorum_print_available_frequencies_def)

lemma get_slot_opened: "session_opened V M s t \<Longrightarrow> get_slot 0 sl t = Some (model_table M sl)"
  by (simp add: session_opened_def session_usable_def get_slot_def)

lemma session_opened_fresh: "session_opened V M s t \<Longrightarrow> fds_fresh t"
  by (simp add: session_opened_def session_usable_def)

text \<open>Everything a call opened is closed again.\<close>

lemma closed_restores:
  assumes "session_opened V M s t" "keeps_session t t'" "session_closed t' u"
  shows "open_files u = (\<lambda>fd. if open_files t fd = None then open_files t' fd else open_files s fd)"
proof
  fix fd
  have "fds t' = fds t" by (rule keeps_session_fds [OF assms(2)])
  then have u: "open_files u fd = (if fd \<in> fds t then None else open_files t' fd)"
    using assms(3) by (simp add: session_closed_def)
  show "open_files u fd = (if open_files t fd = None then open_files t' fd else open_files s fd)"
  proof (cases "fd \<in> fds t")
    case False
    then have "open_files t fd = open_files s fd" using assms(1) by (simp add: session_opened_def)
    then show ?thesis using False u assms(2) by (auto simp: keeps_session_def)
  qed (use assms(1) u in \<open>auto simp: session_opened_def\<close>)
qed

lemma opened_none: "session_opened V M s t \<Longrightarrow> open_files t fd = None \<Longrightarrow> open_files s fd = None"
  by (cases "fd \<in> fds t") (auto simp: session_opened_def)

section \<open>A call without a feature function\<close>

lemma skip_missing:
  assumes "api_pre V M s" "model_table M sl = None"
  shows "\<exists>u. for_all_skip A intel_build V sl args s = Some (0, u) \<and> open_files u = open_files s \<and>
    elog u = elog s @ [VARIORUM_ERROR_FEATURE_NOT_IMPLEMENTED] \<and> registers u = registers s \<and> api_pre V M u \<and>
    arch_state.more u = arch_state.more s"
proof -
  let ?F = "variorum_error_handler VARIORUM_ERROR_FEATURE_NOT_IMPLEMENTED"
  obtain t u where u: "session_opened V M s t" "for_all_skip A intel_build V sl args s = Some (0, u)"
    "session_closed (?F t) u" "api_pre V M u"
    unfolding for_all_skip_def
    using session0_through [OF assms(1), of "skip_loop A sl args [0..<P_NUM_PLATFORMS intel_build]" ?F]
      get_slot_opened [where sl = sl] assms(2) session_opened_fresh by fastforce
  have "open_files u = open_files s"
    using closed_restores [OF u(1) _ u(3)] u(1) session_opened_fresh [OF u(1)]
    by (auto simp: fun_eq_iff opened_none [OF u(1)])
  moreover have "elog u = elog t @ [VARIORUM_ERROR_FEATURE_NOT_IMPLEMENTED]" "registers u = registers t"
    "arch_state.more u = arch_state.more t"
    using u(3) by (simp_all add: session_closed_def variorum_error_handler_def)
  ultimately show ?thesis using u by (auto simp: session_opened_def)
qed

lemma stop_missing:
  assumes "api_pre V M s" "model_table M sl = None"
  shows "\<exists>t. session_opened V M s t \<and> for_all_stop A intel_build V sl args s =
      Some (0, variorum_error_handler VARIORUM_ERROR_FEATURE_NOT_IMPLEMENTED t)"
  unfolding for_all_stop_def
  by (rule session0_return [OF assms(1)]) (use get_slot_opened [where sl = sl] assms(2) in fastforce)

section \<open>Properties\<close>

text \<open>
  Printing something the processor's model has no function for is harmless: the call
  returns 0, reports the missing feature once, leaves the registers alone, closes every file it
  opened, and the library can be called again.
\<close>

theorem print_missing_harmless:
  assumes "api_pre V M s" "(f, sl, args) \<in> set (printing_api A out)" "model_table M sl = None"
  shows "\<exists>u. f intel_build V s = Some (0, u) \<and> open_files u = open_files s \<and>
    elog u = elog s @ [VARIORUM_ERROR_FEATURE_NOT_IMPLEMENTED] \<and> registers u = registers s \<and> api_pre V M u"
  using skip_missing [OF assms(1,3), of A args] printing_api_skip [OF assms(2)] by auto

text \<open>
  C37: asking for a change the model has no function for reports the missing feature but
  returns 0, as success does, and without variorum_exit: exactly one more file per processor
  is open than before, and the model number is not freed.
\<close>

theorem change_missing_leaks:
  assumes "api_pre V M s" "(f, sl, args) \<in> set (changing_api A x y)" "model_table M sl = None"
  shows "\<exists>u. f intel_build V s = Some (0, u) \<and> elog u = elog s @ [VARIORUM_ERROR_FEATURE_NOT_IMPLEMENTED] \<and>
    registers u = registers s \<and> arch_id (g_platform u ! 0) = Live (FM M) \<and>
    card (fds u) = unat (nthreads (machine_topo (sys_hw V))) \<and>
    (\<forall>fd. open_files s fd = None \<and> open_files u fd \<noteq> None \<longleftrightarrow> fd \<in> fds u)"
proof -
  let ?F = "variorum_error_handler VARIORUM_ERROR_FEATURE_NOT_IMPLEMENTED"
  obtain t where t: "session_opened V M s t" "f intel_build V s = Some (0, ?F t)"
    using stop_missing [OF assms(1,3)] changing_api_stop [OF assms(2)] by metis
  have "fds (?F t) = fds t" by (simp add: fds_def)
  then show ?thesis using t
    by (intro exI [of _ "?F t"]) (auto simp: session_opened_def session_usable_def variorum_error_handler_def)
qed

text \<open>A system on which the calls work, and feature functions that only count platforms.\<close>

lemma api_pre_init: "api_pre example_sys M_06_4F arch_init"
  using example_machine example_close arch_init_fresh by (simp add: api_pre_def g_platform_init_def MAX_PLATFORMS_def)

definition example_json :: "string json_lib" where
  "example_json = \<lparr>json_object = '''', json_object_set_new = (\<lambda>obj k v. obj @ k @ '':'' @ v),
     json_integer = (\<lambda>i. ''0''), json_dumps = Some\<rparr>"

text \<open>A feature function fails when its argument is 1.\<close>

definition example_api :: "(arch_state, string) api_env" where
  "example_api = \<lparr>api_call = (\<lambda>h args s. Some (if args = [1] then -1 else 0, s)),
     api_json_call = (\<lambda>h j s. Some (if h = intel_cpu_fm M_06_4F get_clocks_json then -1 else 0, j @ ''W'', s)),
     api_str_call = (\<lambda>h s. Some (0, None, s)), api_json = example_json, api_timeofday = (1, 2),
     api_hostname = ''node''\<rparr>"

lemma model_table_simps:
  "model_table M_06_4F Print_power = Some (intel_cpu_fm M_06_4F get_power)"
  "model_table M_06_4F Print_gpu_utilization = None"
  "model_table M_06_4F Cap_socket_frequency_limit = None"
  "model_table M_06_4F Get_power_json = Some (intel_cpu_fm M_06_4F get_power_json)"
  by (simp_all add: model_table_def fptr_install ptrs_06_4f_def gpu_stub_def zero_platform_def)

theorem print_missing_harmless_witness:
  "\<exists>u. variorum_print_gpu_utilization example_api intel_build example_sys arch_init = Some (0, u) \<and>
     open_files u = (\<lambda>_. None) \<and> elog u = [VARIORUM_ERROR_FEATURE_NOT_IMPLEMENTED]"
  using print_missing_harmless [OF api_pre_init, of "variorum_print_gpu_utilization example_api"
      Print_gpu_utilization "[0]" example_api 0] model_table_simps
  by (auto simp: printing_api_def)

theorem change_missing_leaks_witness:
  "\<exists>u. variorum_cap_socket_frequency_limit example_api intel_build example_sys 0 2000 arch_init = Some (0, u) \<and>
     card {fd. open_files u fd \<noteq> None} = 32"
proof -
  have "(\<lambda>b V. variorum_cap_socket_frequency_limit example_api b V 0 2000, Cap_socket_frequency_limit, [0, 2000])
      \<in> set (changing_api example_api 0 2000)" by (simp add: changing_api_def)
  note l = change_missing_leaks [OF api_pre_init this model_table_simps(3)]
  have n: "unat (nthreads (machine_topo (sys_hw example_sys))) = 32"
    by (simp add: example_sys_def machine_topo_def topo_of_def fill_platform_def two_socket_machine_def unsigned_of_int_def)
  obtain u where "variorum_cap_socket_frequency_limit example_api intel_build example_sys 0 2000 arch_init = Some (0, u)"
    "card (fds u) = 32" "\<forall>fd. open_files u fd \<noteq> None \<longleftrightarrow> fd \<in> fds u"
    using l unfolding n by auto
  then show ?thesis by (auto simp: Collect_mem_eq)
qed

section \<open>variorum\_tester\<close>

primrec tester_times :: "build \<Rightarrow> sys_env \<Rightarrow> nat \<Rightarrow> 'a arch_state_scheme \<Rightarrow> 'a arch_state_scheme option" where
  "tester_times b V 0 s = Some s"
| "tester_times b V (Suc n) s =
    (case variorum_tester b V s of Some (rc, s) \<Rightarrow> if rc = 0 then tester_times b V n s else None | None \<Rightarrow> None)"

text \<open>
  Variorum_tester enters and leaves without trace. It can be called any number of times;
  every call returns 0, reports nothing, and leaves open files and registers as they were.
\<close>

theorem tester_repeats:
  assumes "api_pre V M s"
  shows "\<exists>u. tester_times intel_build V n s = Some u \<and> open_files u = open_files s \<and> elog u = elog s \<and>
    registers u = registers s"
  using assms
proof (induction n arbitrary: s)
  case (Suc n)
  obtain t u where u: "session_opened V M s t" "variorum_tester intel_build V s = Some (0, u)"
    "session_closed t u" "api_pre V M u"
    using session0_through [OF Suc.prems, of "\<lambda>s. Some (None, s)" "\<lambda>t. t"] session_opened_fresh keeps_session_refl
    unfolding variorum_tester_def by blast
  have "open_files u = open_files s"
    unfolding closed_restores [OF u(1) keeps_session_refl [OF session_opened_fresh [OF u(1)]] u(3)]
    using opened_none [OF u(1)] by (auto simp: fun_eq_iff)
  moreover have "elog u = elog s" "registers u = registers s"
    using u(1,3) by (simp_all add: session_closed_def session_opened_def)
  ultimately show ?case using Suc.IH [OF u(4)] u(2) by auto
qed simp

theorem tester_repeats_witness:
  "\<exists>u. tester_times intel_build example_sys 1000 arch_init = Some u \<and> open_files u = (\<lambda>_. None)"
  using tester_repeats [OF api_pre_init, of 1000] by auto

section \<open>JSON\<close>

definition json_well_behaved ::
  "('a arch_state_scheme, 'j) api_env \<Rightarrow> sys_env \<Rightarrow> intel_model \<Rightarrow> handler \<Rightarrow> bool" where
  "json_well_behaved A V M h \<longleftrightarrow>
     (\<forall>s t node. session_opened V M s t \<longrightarrow>
        (\<exists>err node' t'. api_json_call A h node t = Some (err, node', t') \<and> keeps_session t t'))"

lemma json_outcome:
  assumes "json_well_behaved A V M h"
  obtains err node F where "\<And>s t. session_opened V M s t \<Longrightarrow>
    api_json_call A h n t = Some (err t, node t, F t) \<and> keeps_session t (F t)"
proof -
  let ?r = "\<lambda>t. the (api_json_call A h n t)"
  have "api_json_call A h n t = Some (fst (?r t), fst (snd (?r t)), snd (snd (?r t))) \<and>
      keeps_session t (snd (snd (?r t)))" if o': "session_opened V M s t" for s t
  proof -
    obtain err node' t' where "api_json_call A h n t = Some (err, node', t')" "keeps_session t t'"
      using assms o' unfolding json_well_behaved_def by blast
    then show ?thesis by simp
  qed
  then show ?thesis by (rule that)
qed

text \<open>
  Variorum_get_power_json and variorum_get_thermals_json hand back what the model's
  function made of a node object that held the timestamp alone, under the host's name; when that
  function fails they return -1 and the caller's pointer is not assigned. The frequency
  function's failure is not passed on: the call returns 0 with whatever was filled in.
\<close>

theorem json_calls:
  assumes "api_pre V M s" "model_table M sl = Some h" "json_well_behaved A V M h"
    "(f, sl) \<in> {(variorum_get_power_json A, Get_power_json), (variorum_get_thermals_json A, Get_thermals_json),
       (variorum_get_frequency_json A, Get_frequency_json)}"
  shows "\<exists>t err node t'. msr_ready (machine_topo (sys_hw V)) t \<and>
    api_json_call A h (new_node A) t = Some (err, node, t') \<and>
    (err = 0 \<or> sl = Get_frequency_json \<longrightarrow>
      (\<exists>u. f intel_build V out s = Some (0, dump_node A node, u) \<and> api_pre V M u)) \<and>
    (err \<noteq> 0 \<and> sl \<noteq> Get_frequency_json \<longrightarrow> f intel_build V out s = Some (-1, out, t'))"
proof -
  obtain err node F where r: "\<And>s t. session_opened V M s t \<Longrightarrow>
      api_json_call A h (new_node A) t = Some (err t, node t, F t) \<and> keeps_session t (F t)"
    using json_outcome [OF assms(3)] by metis
  show ?thesis
  proof (cases "sl = Get_frequency_json")
    case True
    have "\<exists>t u. session_opened V M s t \<and>
        variorum_get_frequency_json A intel_build V out s = Some (0, dump_node A (node t), u) \<and>
        session_closed (F t) u \<and> api_pre V M u"
      unfolding variorum_get_frequency_json_def
    proof (rule session_through [OF assms(1)])
      fix t assume o': "session_opened V M s t"
      have "get_slot 0 Get_frequency_json t = Some (Some h)" using get_slot_opened [OF o'] assms(2) True by simp
      then show "do {
            (node, s) \<leftarrow> json_ignore_loop A Get_frequency_json [0..<P_NUM_PLATFORMS intel_build] (new_node A) t;
            Some (None, dump_node A node, s)
          } = Some (None, dump_node A (node t), F t) \<and> keeps_session t (F t)"
        using r [OF o'] by simp
    qed
    then obtain t u where t: "session_opened V M s t"
      "variorum_get_frequency_json A intel_build V out s = Some (0, dump_node A (node t), u)" "api_pre V M u" by blast
    have "f = variorum_get_frequency_json A" using assms(4) True by auto
    then show ?thesis
      by (intro exI [of _ t] exI [of _ "err t"] exI [of _ "node t"] exI [of _ "F t"])
        (use t r [OF t(1)] True in \<open>auto simp: session_opened_def\<close>)
  next
    case False
    have "\<exists>t rc u. session_opened V M s t \<and>
        json_all_skip A intel_build V sl out s = Some (rc, if err t \<noteq> 0 then out else dump_node A (node t), u) \<and>
        (if err t \<noteq> 0 then rc = -1 \<and> u = F t else rc = 0 \<and> session_closed (F t) u \<and> api_pre V M u)"
      unfolding json_all_skip_def
    proof (rule session_checked [OF assms(1)])
      fix t assume o': "session_opened V M s t"
      have "get_slot 0 sl t = Some (Some h)" using get_slot_opened [OF o'] assms(2) by simp
      then show "do {
            (ret, node, s) \<leftarrow> json_skip_loop A sl [0..<P_NUM_PLATFORMS intel_build] (new_node A) t;
            Some (ret, if ret = None then dump_node A node else out, s)
          } = Some (if err t \<noteq> 0 then Some (-1) else None, if err t \<noteq> 0 then out else dump_node A (node t), F t) \<and>
          keeps_session t (F t)"
        using r [OF o'] by simp
    qed
    then obtain t rc u where t: "session_opened V M s t"
      "json_all_skip A intel_build V sl out s = Some (rc, if err t \<noteq> 0 then out else dump_node A (node t), u)"
      "if err t \<noteq> 0 then rc = -1 \<and> u = F t else rc = 0 \<and> session_closed (F t) u \<and> api_pre V M u"
      by blast
    have f: "f intel_build V out s = json_all_skip A intel_build V sl out s"
      using assms(4) False by (auto simp: variorum_get_power_json_def variorum_get_thermals_json_def)
    show ?thesis unfolding f
      by (rule exI [of _ t], rule exI [of _ "err t"], rule exI [of _ "node t"], rule exI [of _ "F t"])
        (use t r [OF t(1)] False in \<open>auto simp: session_opened_def\<close>)
  qed
qed

lemma example_json_well_behaved: "json_well_behaved example_api V M h"
  unfolding json_well_behaved_def
proof (intro allI impI)
  fix s t :: arch_state and node
  assume t: "session_opened V M s t"
  have "fds_fresh t" by (rule session_opened_fresh [OF t])
  then show "\<exists>err node' t'. api_json_call example_api h node t = Some (err, node', t') \<and> keeps_session t t'"
    by (simp add: example_api_def keeps_session_refl)
qed

theorem json_calls_witness:
  "\<exists>u. variorum_get_power_json example_api intel_build example_sys None arch_init =
     Some (0, Some ''node:timestamp:0W'', u)"
proof -
  have 1: "api_json_call example_api (intel_cpu_fm M_06_4F get_power_json) j t = Some (0, j @ ''W'', t)" for j t
    by (simp add: example_api_def)
  have 2: "dump_node example_api (new_node example_api @ ''W'') = Some ''node:timestamp:0W''"
    by (simp add: dump_node_def new_node_def Let_def example_api_def example_json_def)
  have "(variorum_get_power_json example_api, Get_power_json) \<in> {(variorum_get_power_json example_api, Get_power_json),
      (variorum_get_thermals_json example_api, Get_thermals_json),
      (variorum_get_frequency_json example_api, Get_frequency_json)}" by simp
  from json_calls [OF api_pre_init model_table_simps(4) example_json_well_behaved this, of None]
  obtain t err node t' where "api_json_call example_api (intel_cpu_fm M_06_4F get_power_json) (new_node example_api) t
      = Some (err, node, t')"
    "err = 0 \<longrightarrow> (\<exists>u. variorum_get_power_json example_api intel_build example_sys None arch_init
      = Some (0, dump_node example_api node, u))" by blast
  then show ?thesis using 2 unfolding 1 by simp
qed

text \<open>
  Variorum_get_energy_json has no way around a missing function. On the six models without
  one it reports that the feature is not implemented and then calls the null pointer.
\<close>

theorem energy_json_null_call:
  assumes "api_pre V M s" "M \<notin> {M_06_3F, M_06_4F, M_06_55}"
  shows "variorum_get_energy_json A intel_build V out s = None"
proof -
  have "model_table M Get_energy_json = None"
    using assms(2) by (cases M) (simp_all add: model_table_def fptr_install gpu_stub_def zero_platform_def
        ptrs_06_2a_def ptrs_06_2d_def ptrs_06_3e_def ptrs_06_9e_def ptrs_06_6a_def ptrs_06_8f_def)
  then show ?thesis unfolding variorum_get_energy_json_def
    by (intro session_undefined [OF assms(1)]) (simp add: has_cpu_def get_slot_opened)
qed

lemma api_pre_06_2A: "api_pre (example_sys\<lparr>sys_cpuid_rax := 0x206A7\<rparr>) M_06_2A arch_init"
proof -
  have "hwloc_good two_socket_machine" "\<forall>i < unat (nthreads (machine_topo two_socket_machine)).
      file_ok good_env (device_path (chosen_module good_env) (int i))"
    using example_machine by (simp_all add: intel_machine_def example_sys_def)
  moreover have "detect_intel_arch (example_sys\<lparr>sys_cpuid_rax := 0x206A7\<rparr>) = Live (FM M_06_2A)"
    by (simp add: detect_intel_arch_def)
  ultimately show ?thesis using example_close arch_init_fresh
    by (simp add: api_pre_def intel_machine_def example_sys_def g_platform_init_def MAX_PLATFORMS_def)
qed

theorem energy_json_null_call_witness:
  "variorum_get_energy_json example_api intel_build (example_sys\<lparr>sys_cpuid_rax := 0x206A7\<rparr>) None arch_init = None"
  by (rule energy_json_null_call [OF api_pre_06_2A]) simp

end
