(* ===== verification/Intel_Props.thy ===== *)
theory Intel_Props imports Socket_Loops Intel_Api Api_Facts begin

text \<open>
  The Intel feature functions as a client of variorum.c meets them: the properties go from the call of
  the API function through variorum\_enter, the function pointer of the detected model, the feature function and
  variorum\_exit to the registers of the machine. They put together the contracts of the session (\<open>bracket\<close>), of
  the loops over the sockets (\<open>socket_updates\<close>) and the RAPL conversions.
\<close>

section \<open>From the session to the registers\<close>

text \<open>A machine whose registers can be reached: its topology fits, and the driver is as documented.\<close>

definition machine_ok :: "power_env \<Rightarrow> bool" where
  "machine_ok P \<longleftrightarrow> topo_fits (pe_topo P) \<and> driver_ok (pe_os P)"

lemma opened_ready:
  assumes "api_pre (pe_sys P) M s" "machine_ok P" "session_opened (pe_sys P) M s t"
  shows "rapl_ready P t"
  by (rule enter_rapl_ready [where s = s and M = M])
    (use assms in \<open>simp_all add: api_pre_def intel_machine_def machine_ok_def session_opened_def MAX_PLATFORMS_def\<close>)

lemma more_rapl:
  assumes "arch_state.more (s :: 'a rapl_state_scheme) = arch_state.more t"
  shows "printed s = printed t" "translate_ru s = translate_ru t" "rapl_state.more s = rapl_state.more t"
  using assms by (cases s, cases t, simp)+

lemma but_msr_keeps:
  assumes "but_msr P msr t' = but_msr P msr t" "fds_fresh t"
  shows "keeps_session t t'"
  using but_msrD [OF assms(1)] assms(2) by (simp add: keeps_session_def fds_fresh_def)

lemma msr_of_registers: "registers s = registers t \<Longrightarrow> msr_of P msr s = msr_of P msr t"
  by (simp add: msr_of_def socket_reg_def fun_eq_iff)

text \<open>
  A call whose feature function changes no more than one register of every socket and what is printed: it
  returns 0, no file stays open, nothing is reported, and the next call can be made.
\<close>

definition api_result :: "power_env \<Rightarrow> intel_model \<Rightarrow> u64 \<Rightarrow> 'a rapl_state_scheme \<Rightarrow> 'a rapl_state_scheme \<Rightarrow> bool" where
  "api_result P M msr s u \<longleftrightarrow> api_pre (pe_sys P) M u \<and> open_files u = open_files s \<and> elog u = elog s \<and>
     translate_ru u = translate_ru s \<and>
     (\<forall>cpu m. m \<noteq> msr \<or> \<not> first_cpu P cpu \<longrightarrow> registers u cpu m = registers s cpu m)"

lemma api_register_call:
  fixes s :: "'a feat_state_scheme"
  assumes "api_pre (pe_sys P) M s" "model_table M sl = Some h"
    "loop = skip_loop A sl args \<or> loop = stop_loop A sl args \<or> loop = (\<lambda>_. body)"
    "\<And>t. session_opened (pe_sys P) M s t \<Longrightarrow>
       body t = do { (err, t) \<leftarrow> api_call A h args t; Some (if err \<noteq> 0 then Some (-1) else None, t) }"
    "\<And>t. session_opened (pe_sys P) M s t \<Longrightarrow>
       \<exists>t'. api_call A h args t = Some (0, t') \<and> but_msr P msr t' = but_msr P msr t \<and> Q t t'"
  shows "\<exists>t t' u. session0 intel_build (pe_sys P) (loop [0..<P_NUM_PLATFORMS intel_build]) s = Some (0, u) \<and>
    api_result P M msr s u \<and> session_opened (pe_sys P) M s t \<and> Q t t' \<and> registers u = registers t' \<and> printed u = printed t' \<and>
    registers t = registers s \<and> printed t = printed s \<and> translate_ru t = translate_ru s"
proof -
  define F where "F t = snd (the (api_call A h args t))" for t
  have F: "api_call A h args t = Some (0, F t) \<and> but_msr P msr (F t) = but_msr P msr t \<and> Q t (F t)"
    if "session_opened (pe_sys P) M s t" for t
    using assms(5) [OF that] by (auto simp: F_def)
  have l: "loop [0..<P_NUM_PLATFORMS intel_build] t = Some (None, F t) \<and> keeps_session t (F t)"
    if o': "session_opened (pe_sys P) M s t" for t
    using F [OF o'] get_slot_opened [OF o', of sl] assms(2,3) assms(4) [OF o']
      but_msr_keeps [of P msr "F t" t] session_opened_fresh [OF o'] by auto
  from session0_through [OF assms(1) l] obtain t u where t: "session_opened (pe_sys P) M s t"
    "session0 intel_build (pe_sys P) (loop [0..<P_NUM_PLATFORMS intel_build]) s = Some (0, u)"
    "session_closed (F t) u" "api_pre (pe_sys P) M u" by blast
  note b = but_msrD [OF conjunct1 [OF conjunct2 [OF F [OF t(1)]]]]
  have k: "keeps_session t (F t)" using l [OF t(1)] by blast
  have "open_files u = open_files s"
    unfolding closed_restores [OF t(1) k t(3)] b(2) using opened_none [OF t(1)] by (auto simp: fun_eq_iff)
  moreover have m: "arch_state.more u = arch_state.more (F t)" "arch_state.more t = arch_state.more s"
    "registers t = registers s" "elog t = elog s" "elog u = elog (F t)" "registers u = registers (F t)"
    using t(1,3) by (simp_all add: session_opened_def session_closed_def)
  ultimately have "api_result P M msr s u"
    using t(4) b(1,9,11) more_rapl(2) [OF m(1)] more_rapl(2) [OF m(2)] by (simp add: api_result_def)
  then show ?thesis
    using t(1,2) F [OF t(1)] m more_rapl [OF m(1)] more_rapl [OF m(2)] by blast
qed

section \<open>Turbo mode\<close>

text \<open>The models whose tables have the turbo functions.\<close>

definition turbo_models :: "intel_model set" where
  "turbo_models = {M_06_2A, M_06_2D, M_06_3E, M_06_3F, M_06_4F}"

definition MISC_ENABLE :: u64 where "MISC_ENABLE = 0x1A0"

lemmas table_simps = model_table_def fptr_install gpu_stub_def zero_platform_def ptrs_06_2a_def ptrs_06_2d_def
  ptrs_06_3e_def ptrs_06_3f_def ptrs_06_4f_def ptrs_06_55_def ptrs_06_9e_def ptrs_06_6a_def ptrs_06_8f_def

lemmas offset_simps = msrs_06_2a_def msrs_06_2d_def msrs_06_3e_def msrs_06_3f_def msrs_06_4f_def msrs_06_55_def
  msrs_06_9e_def

lemmas call_simps = intel_api_def intel_int_call_def int_call_06_2a_def int_call_06_2d_def int_call_06_3e_def
  int_call_06_3f_def int_call_06_4f_def int_call_06_55_def int_call_06_9e_def

lemma turbo_tables:
  assumes "M \<in> turbo_models"
  shows "model_table M Disable_turbo = Some (intel_cpu_fm M disable_turbo)"
    "model_table M Enable_turbo = Some (intel_cpu_fm M enable_turbo)"
    "model_table M Print_turbo = Some (intel_cpu_fm M get_turbo_status)"
  using assms unfolding turbo_models_def by (elim insertE; simp add: table_simps)+

lemma turbo_calls:
  assumes "M \<in> turbo_models"
  shows "api_call (intel_api P rax L now name) (intel_cpu_fm M disable_turbo) [] s =
      map_option (\<lambda>(_, s). (0, s)) (set_turbo_off P MISC_ENABLE 38 s)"
    "api_call (intel_api P rax L now name) (intel_cpu_fm M enable_turbo) [] s =
      map_option (\<lambda>(_, s). (0, s)) (set_turbo_on P MISC_ENABLE 38 s)"
    "api_call (intel_api P rax L now name) (intel_cpu_fm M get_turbo_status) [] s =
      map_option (\<lambda>(_, s). (0, s)) (print_turbo_status P MISC_ENABLE 38 s)"
  using assms unfolding turbo_models_def
  by (elim insertE; auto simp: call_simps offset_simps turbo_mode_disable_bit_def done_0_def MISC_ENABLE_def option.map_comp o_def split_def
      intel_cpu_fm_06_2a_disable_turbo_def intel_cpu_fm_06_2d_disable_turbo_def intel_cpu_fm_06_3e_disable_turbo_def
      intel_cpu_fm_06_3f_disable_turbo_def intel_cpu_fm_06_4f_disable_turbo_def
      intel_cpu_fm_06_2a_enable_turbo_def intel_cpu_fm_06_2d_enable_turbo_def intel_cpu_fm_06_3e_enable_turbo_def
      intel_cpu_fm_06_3f_enable_turbo_def intel_cpu_fm_06_4f_enable_turbo_def
      intel_cpu_fm_06_2a_get_turbo_status_def intel_cpu_fm_06_2d_get_turbo_status_def intel_cpu_fm_06_3e_get_turbo_status_def
      intel_cpu_fm_06_3f_get_turbo_status_def intel_cpu_fm_06_4f_get_turbo_status_def
      model_disable_turbo_def model_enable_turbo_def model_get_turbo_status_def)+

text \<open>What a turbo call does: the registers and the lines of every socket.\<close>

definition turbo_effect ::
  "power_env \<Rightarrow> (u64 \<Rightarrow> u64) \<Rightarrow> (nat \<Rightarrow> u64 \<Rightarrow> string) \<Rightarrow> 'a rapl_state_scheme \<Rightarrow> 'a rapl_state_scheme \<Rightarrow> bool" where
  "turbo_effect P g said s u \<longleftrightarrow> (\<forall>i < pe_sockets P. msr_of P MISC_ENABLE u i = g (msr_of P MISC_ENABLE s i)) \<and>
     printed u = printed s @ map (\<lambda>i. [FS (said i (msr_of P MISC_ENABLE s i)), FI (int i)]) [0..<pe_sockets P]"

lemma turbo_api:
  fixes s :: "'a feat_state_scheme"
  assumes "api_pre (pe_sys P) M s" "machine_ok P" "allowed P MISC_ENABLE" "M \<in> turbo_models"
  shows "\<exists>u. variorum_disable_turbo (intel_api P rax L now name) intel_build (pe_sys P) s = Some (0, u) \<and>
      api_result P M MISC_ENABLE s u \<and> turbo_effect P (set_bit 38) (\<lambda>_ _. ''Turbo disabled on socket'') s u"
    and "\<exists>u. variorum_enable_turbo (intel_api P rax L now name) intel_build (pe_sys P) s = Some (0, u) \<and>
      api_result P M MISC_ENABLE s u \<and> turbo_effect P (unset_bit 38) (\<lambda>_ _. ''Turbo enabled on socket'') s u"
    and "\<exists>u. variorum_print_turbo (intel_api P rax L now name) intel_build (pe_sys P) s = Some (0, u) \<and>
      api_result P M MISC_ENABLE s u \<and> turbo_effect P (\<lambda>w. w)
        (\<lambda>_ w. if bit w 38 then ''Turbo disabled on socket'' else ''Turbo enabled on socket'') s u"
proof -
  let ?A = "intel_api P rax L now name"
  have e: "turbo_effect P g said s u" if "turbo_effect P g said t t'" "registers u = registers t'" "printed u = printed t'"
    "registers t = registers s" "printed t = printed s" for g said t t' u
    using that msr_of_registers [OF that(2)] msr_of_registers [OF that(4)] by (simp add: turbo_effect_def)
  note run = api_register_call [OF assms(1) _ _ refl, where A = ?A and msr = MISC_ENABLE and args = "[]"]
  note ready = set_turbo_ready [OF opened_ready [OF assms(1,2)] assms(3), of _ 38, simplified]
  show "\<exists>u. variorum_disable_turbo ?A intel_build (pe_sys P) s = Some (0, u) \<and>
      api_result P M MISC_ENABLE s u \<and> turbo_effect P (set_bit 38) (\<lambda>_ _. ''Turbo disabled on socket'') s u"
  proof -
    have "\<exists>t'. api_call ?A (intel_cpu_fm M disable_turbo) [] t = Some (0, t') \<and> but_msr P MISC_ENABLE t' = but_msr P MISC_ENABLE t \<and>
        turbo_effect P (set_bit 38) (\<lambda>_ _. ''Turbo disabled on socket'') t t'" if "session_opened (pe_sys P) M s t" for t
      using ready(1) [OF that] by (auto simp: turbo_calls [OF assms(4)] turbo_effect_def)
    from run [OF turbo_tables(1) [OF assms(4)] disjI2 [OF disjI1 [OF refl]] this]
    show ?thesis unfolding variorum_disable_turbo_def for_all_stop_def using e by blast
  qed
  show "\<exists>u. variorum_enable_turbo ?A intel_build (pe_sys P) s = Some (0, u) \<and>
      api_result P M MISC_ENABLE s u \<and> turbo_effect P (unset_bit 38) (\<lambda>_ _. ''Turbo enabled on socket'') s u"
  proof -
    have "\<exists>t'. api_call ?A (intel_cpu_fm M enable_turbo) [] t = Some (0, t') \<and> but_msr P MISC_ENABLE t' = but_msr P MISC_ENABLE t \<and>
        turbo_effect P (unset_bit 38) (\<lambda>_ _. ''Turbo enabled on socket'') t t'" if "session_opened (pe_sys P) M s t" for t
      using ready(2) [OF that] by (auto simp: turbo_calls [OF assms(4)] turbo_effect_def)
    from run [OF turbo_tables(2) [OF assms(4)] disjI2 [OF disjI1 [OF refl]] this]
    show ?thesis unfolding variorum_enable_turbo_def for_all_stop_def using e by blast
  qed
  show "\<exists>u. variorum_print_turbo ?A intel_build (pe_sys P) s = Some (0, u) \<and>
      api_result P M MISC_ENABLE s u \<and> turbo_effect P (\<lambda>w. w)
        (\<lambda>_ w. if bit w 38 then ''Turbo disabled on socket'' else ''Turbo enabled on socket'') s u"
  proof -
    have "\<exists>t'. api_call ?A (intel_cpu_fm M get_turbo_status) [] t = Some (0, t') \<and> but_msr P MISC_ENABLE t' = but_msr P MISC_ENABLE t \<and>
        turbo_effect P (\<lambda>w. w) (\<lambda>_ w. if bit w 38 then ''Turbo disabled on socket'' else ''Turbo enabled on socket'') t t'"
      if "session_opened (pe_sys P) M s t" for t
      using ready(3) [OF that] by (auto simp: turbo_calls [OF assms(4)] turbo_effect_def)
    from run [OF turbo_tables(3) [OF assms(4)] disjI1 [OF refl] this]
    show ?thesis unfolding variorum_print_turbo_def for_all_skip_def using e by blast
  qed
qed

section \<open>A node limit\<close>

definition PKG_POWER_LIMIT :: u64 where "PKG_POWER_LIMIT = 0x610"

lemma node_cap_call:
  assumes "M \<notin> {M_06_6A, M_06_8F}"
  shows "model_table M Cap_best_effort_node_power_limit = Some (intel_cpu_fm M cap_best_effort_node_power_limit)"
    "\<exists>O'. msr_pkg_power_limit O' = PKG_POWER_LIMIT \<and> (\<forall>s. api_call (intel_api P rax L now name)
       (intel_cpu_fm M cap_best_effort_node_power_limit) [x] s = model_cap_best_effort P O' x s)"
proof -
  show "model_table M Cap_best_effort_node_power_limit = Some (intel_cpu_fm M cap_best_effort_node_power_limit)"
    using assms by (cases M) (simp_all add: table_simps)
  show "\<exists>O'. msr_pkg_power_limit O' = PKG_POWER_LIMIT \<and> (\<forall>s. api_call (intel_api P rax L now name)
       (intel_cpu_fm M cap_best_effort_node_power_limit) [x] s = model_cap_best_effort P O' x s)"
    using assms
    by (cases M; simp add: call_simps
      intel_cpu_fm_06_2a_cap_best_effort_node_power_limit_def intel_cpu_fm_06_2d_cap_best_effort_node_power_limit_def
      intel_cpu_fm_06_3e_cap_best_effort_node_power_limit_def intel_cpu_fm_06_3f_cap_best_effort_node_power_limit_def
      intel_cpu_fm_06_4f_cap_best_effort_node_power_limit_def intel_cpu_fm_06_55_cap_best_effort_node_power_limit_def
      intel_cpu_fm_06_9e_cap_best_effort_node_power_limit_def)
     (intro exI conjI allI; (rule refl | simp add: offset_simps PKG_POWER_LIMIT_def))+
qed

lemma node_cap_api:
  fixes s :: "'a feat_state_scheme"
  assumes "api_pre (pe_sys P) M s" "machine_ok P" "allowed P PKG_POWER_LIMIT" "libm_ok P" "M \<notin> {M_06_6A, M_06_8F}"
    "node_units P pu eu tu s" "0 \<le> L" "L < 2 ^ 31" "cap_fits P pu (L div int (pe_sockets P))"
  shows "\<exists>u. variorum_cap_best_effort_node_power_limit (intel_api P rax L' now name) intel_build (pe_sys P) L s = Some (0, u) \<and>
    api_result P M PKG_POWER_LIMIT s u \<and> printed u = printed s \<and>
    (\<forall>i < pe_sockets P. capped (pu i) (tu i) (L div int (pe_sockets P)) (msr_of P PKG_POWER_LIMIT s i) (msr_of P PKG_POWER_LIMIT u i))"
proof -
  let ?A = "intel_api P rax L' now name :: ('a feat_state_scheme, json_entries) api_env" and ?h = "intel_cpu_fm M cap_best_effort_node_power_limit"
  let ?n = "int (pe_sockets P)"
  let ?Q = "\<lambda>(t :: 'a feat_state_scheme) (t' :: 'a feat_state_scheme). printed t' = printed t \<and>
    (\<forall>i < pe_sockets P. capped (pu i) (tu i) (L div ?n) (msr_of P PKG_POWER_LIMIT t i) (msr_of P PKG_POWER_LIMIT t' i))"
  let ?body = "\<lambda>s :: 'a feat_state_scheme. do {
     h \<leftarrow> get_slot (primary [INTEL_CPU, IBM_CPU, AMD_CPU] intel_build) Cap_best_effort_node_power_limit s;
     case h of
       None \<Rightarrow> Some (Some 0, variorum_error_handler VARIORUM_ERROR_FEATURE_NOT_IMPLEMENTED s)
     | Some h \<Rightarrow> do {
         (err, s) \<leftarrow> api_call ?A h [L] s;
         Some (if err \<noteq> 0 then Some (-1) else None, s)
       }
   }"
  obtain M' where M': "msr_pkg_power_limit M' = PKG_POWER_LIMIT"
    "\<And>t :: 'a feat_state_scheme. api_call ?A ?h [L] t = model_cap_best_effort P M' L t"
    using node_cap_call(2) [OF assms(5)] by metis
  have n: "0 < pe_sockets P" using assms(2) by (simp add: machine_ok_def topo_fits_def topo_ok_def)
  have call: "\<exists>t'. api_call ?A ?h [L] t = Some (0, t') \<and> but_msr P PKG_POWER_LIMIT t' = but_msr P PKG_POWER_LIMIT t \<and> ?Q t t'"
    if o': "session_opened (pe_sys P) M s t" for t
  proof -
    have r: "rapl_ready P t" by (rule opened_ready [OF assms(1,2) o'])
    have "translate_ru t = translate_ru s" by (rule more_rapl(2)) (use o' in \<open>simp add: session_opened_def\<close>)
    from node_units_same [OF this] have u: "node_units P pu eu tu t" using assms(6) by blast
    obtain t' where "model_cap_power_limits P M' (L div ?n) t = Some (0, t')"
      "but_msr P PKG_POWER_LIMIT t' = but_msr P PKG_POWER_LIMIT t" "?Q t t'"
      using cap_all_sockets [OF r _ assms(4) u assms(9), of M', unfolded M'(1), OF assms(3)] by blast
    note c = this
    have "model_cap_best_effort P M' L t = Some (0, t')"
      unfolding model_cap_best_effort_def P_INTEL_CPU_IDX_def get_topo_ready [OF r] Option.bind_lunit prod.case
        even_share_nonneg [OF assms(7,8) n] c(1) ..
    then show ?thesis using c(2,3) unfolding M'(2) by blast
  qed
  have body: "?body t = do { (err, t) \<leftarrow> api_call ?A ?h [L] t; Some (if err \<noteq> 0 then Some (-1) else None, t) }"
    if o': "session_opened (pe_sys P) M s t" for t
    using get_slot_opened [OF o'] node_cap_call(1) [OF assms(5)]
    by (simp add: primary_def P_IDX_def platform_enum_def)
  have "\<exists>t t' u. session0 intel_build (pe_sys P) ?body s = Some (0, u) \<and> api_result P M PKG_POWER_LIMIT s u \<and>
      session_opened (pe_sys P) M s t \<and> ?Q t t' \<and> registers u = registers t' \<and> printed u = printed t' \<and>
      registers t = registers s \<and> printed t = printed s \<and> translate_ru t = translate_ru s"
    by (rule api_register_call [where loop = "\<lambda>_. ?body" and body = ?body and args = "[L]" and A = ?A and Q = ?Q,
        OF assms(1) node_cap_call(1) [OF assms(5)] disjI2 [OF disjI2 [OF refl]]]) (erule body, erule call)
  then show ?thesis unfolding variorum_cap_best_effort_node_power_limit_def
    using msr_of_registers by (metis (no_types, lifting))
qed

section \<open>An example\<close>

definition feat_start :: feat_state where
  "feat_start = rapl_state.extend (rapl_start\<lparr>translate_ru := Some [exact_units 0xA0E03 3 14 10, exact_units 0xA0E03 3 14 10]\<rparr>)
     \<lparr>arrays = (\<lambda>_. None), feat_inited = {}, fixed_counters = [], fixed_limits = []\<rparr>"

lemma feat_start_fields [simp]:
  "registers feat_start = (\<lambda>_ _. 0)" "printed feat_start = []" "open_files feat_start = (\<lambda>_. None)" "elog feat_start = []"
  "api_pre example_sys M_06_4F feat_start"
proof -
  show "registers feat_start = (\<lambda>_ _. 0)" "printed feat_start = []" "open_files feat_start = (\<lambda>_. None)" "elog feat_start = []"
    by (simp_all add: feat_start_def rapl_start_def rapl_state.defs arch_state.defs arch_init_def batch_state.defs
        msr_state.defs msr_init_def)
  have "g_platform feat_start = g_platform arch_init"
    by (simp add: feat_start_def rapl_start_def rapl_state.defs arch_state.defs)
  moreover have "msr_fresh T feat_start" for T
    using arch_init_fresh [of T]
    by (simp add: feat_start_def rapl_start_def msr_fresh_def core_ok_def fds_fresh_def rapl_state.defs arch_state.defs)
  ultimately show "api_pre example_sys M_06_4F feat_start" using api_pre_init by (simp add: api_pre_def)
qed

text \<open>jansson with entries for objects: setting a key adds the entries of the value below that key.\<close>

definition example_jansson :: "json_entries json_lib" where
  "example_jansson = \<lparr>json_object = [([], J_object)],
     json_object_set_new = (\<lambda>obj k v. obj @ map (\<lambda>(path, x). (k # path, x)) v),
     json_integer = (\<lambda>i. [([], J_int (word_of_int i))]), json_dumps = (\<lambda>_. Some ''...'')\<rparr>"

abbreviation example_node :: power_env where "example_node \<equiv> example_power example_sys"

lemma example_node_facts:
  "pe_sys example_node = example_sys" "machine_ok example_node" "allowed example_node msr" "libm_ok example_node"
  "pe_sockets example_node = 2" "node_units example_node (\<lambda>_. 3) (\<lambda>_. 14) (\<lambda>_. 10) feat_start"
proof -
  show e: "pe_sys example_node = example_sys" by (simp add: example_power_def)
  have v: "sys_hw example_sys = two_socket_machine" "driver_ok (sys_os example_sys)" using example_systems [of example_sys] by simp_all
  have T: "machine_topo two_socket_machine = \<lparr>nsockets = 2, ncores = 16, nthreads = 32\<rparr>"
    by (simp add: machine_topo_def topo_of_def fill_platform_def two_socket_machine_def unsigned_of_int_def)
  show "machine_ok example_node" by (simp add: machine_ok_def e v T topo_fits_def topo_ok_def)
  show "allowed example_node msr" unfolding allowed_def e by (simp add: example_sys_def good_env_def)
  show "libm_ok example_node" by (rule example_libm)
  show n: "pe_sockets example_node = 2" by (simp add: e v T)
  show "node_units example_node (\<lambda>_. 3) (\<lambda>_. 14) (\<lambda>_. 10) feat_start"
    by (auto simp: node_units_def n socket_units_def feat_start_def rapl_state.defs less_2_cases_iff)
qed

section \<open>Properties\<close>

text \<open>
  C8: switching turbo mode off and on through the API is a round trip. On the models that have
  the functions, for a machine whose driver lets MISC_ENABLE be read and written,
  variorum_disable_turbo sets bit 38 of that register on every socket; variorum_print_turbo then
  says of every socket that turbo is disabled; variorum_enable_turbo clears the bit again. All three
  calls return 0, no other bit and no other register of the machine changes, no file stays
  open and no error is reported.
\<close>

theorem turbo_round_trip:
  fixes s :: "'a feat_state_scheme"
  assumes "api_pre (pe_sys P) M s" "machine_ok P" "allowed P MISC_ENABLE" "M \<in> {M_06_2A, M_06_2D, M_06_3E, M_06_3F, M_06_4F}"
  shows "\<exists>u v w. variorum_disable_turbo (intel_api P rax L now name) intel_build (pe_sys P) s = Some (0, u) \<and>
    variorum_print_turbo (intel_api P rax L now name) intel_build (pe_sys P) u = Some (0, v) \<and>
    variorum_enable_turbo (intel_api P rax L now name) intel_build (pe_sys P) v = Some (0, w) \<and>
    (\<forall>i < pe_sockets P. msr_of P MISC_ENABLE u i = set_bit 38 (msr_of P MISC_ENABLE s i) \<and>
       msr_of P MISC_ENABLE v i = msr_of P MISC_ENABLE u i \<and>
       msr_of P MISC_ENABLE w i = unset_bit 38 (msr_of P MISC_ENABLE s i)) \<and>
    printed v = printed u @ map (\<lambda>i. [FS ''Turbo disabled on socket'', FI (int i)]) [0..<pe_sockets P] \<and>
    (\<forall>x \<in> {u, v, w}. open_files x = open_files s \<and> elog x = elog s \<and>
       (\<forall>cpu m. m \<noteq> MISC_ENABLE \<or> \<not> first_cpu P cpu \<longrightarrow> registers x cpu m = registers s cpu m))"
proof -
  have M: "M \<in> turbo_models" using assms(4) by (simp add: turbo_models_def)
  note api = turbo_api [OF _ assms(2,3) M, of _ rax L now name]
  obtain u where u: "variorum_disable_turbo (intel_api P rax L now name) intel_build (pe_sys P) s = Some (0, u)"
    "api_result P M MISC_ENABLE s u" "turbo_effect P (set_bit 38) (\<lambda>_ _. ''Turbo disabled on socket'') s u"
    using api(1) [OF assms(1)] by blast
  obtain v where v: "variorum_print_turbo (intel_api P rax L now name) intel_build (pe_sys P) u = Some (0, v)"
    "api_result P M MISC_ENABLE u v" "turbo_effect P (\<lambda>w. w)
        (\<lambda>_ w. if bit w 38 then ''Turbo disabled on socket'' else ''Turbo enabled on socket'') u v"
    using api(3) [of u] u(2) by (auto simp: api_result_def)
  obtain w where w: "variorum_enable_turbo (intel_api P rax L now name) intel_build (pe_sys P) v = Some (0, w)"
    "api_result P M MISC_ENABLE v w" "turbo_effect P (unset_bit 38) (\<lambda>_ _. ''Turbo enabled on socket'') v w"
    using api(2) [of v] v(2) by (auto simp: api_result_def)
  have off: "unset_bit 38 (set_bit 38 x) = unset_bit 38 x" "bit (set_bit 38 x) 38" for x :: u64
    by (auto simp: bit_eq_iff bit_simps)
  have "printed v = printed u @ map (\<lambda>i. [FS ''Turbo disabled on socket'', FI (int i)]) [0..<pe_sockets P]"
    using v(3) u(3) off(2) by (simp add: turbo_effect_def)
  moreover have "\<forall>i < pe_sockets P. msr_of P MISC_ENABLE u i = set_bit 38 (msr_of P MISC_ENABLE s i) \<and>
       msr_of P MISC_ENABLE v i = msr_of P MISC_ENABLE u i \<and>
       msr_of P MISC_ENABLE w i = unset_bit 38 (msr_of P MISC_ENABLE s i)"
    using u(3) v(3) w(3) off(1) by (simp add: turbo_effect_def)
  ultimately show ?thesis using u(1,2) v(1,2) w(1,2)
    by (intro exI [of _ u] exI [of _ v] exI [of _ w]) (simp add: api_result_def)
qed

theorem turbo_round_trip_witness:
  "\<exists>u v. variorum_print_turbo (intel_api example_node (\<lambda>_. 0) example_jansson (0, 0) ''node1'') intel_build example_sys u = Some (0, v) \<and>
     variorum_disable_turbo (intel_api example_node (\<lambda>_. 0) example_jansson (0, 0) ''node1'') intel_build example_sys feat_start = Some (0, u) \<and>
     msr_of example_node MISC_ENABLE u 1 = set_bit 38 0 \<and> open_files u = (\<lambda>_. None) \<and>
     printed v = printed u @ [[FS ''Turbo disabled on socket'', FI 0], [FS ''Turbo disabled on socket'', FI 1]]"
proof -
  let ?A = "intel_api example_node (\<lambda>_. 0) example_jansson (0, 0) ''node1''"
  note e = example_node_facts
  have z: "msr_of example_node MISC_ENABLE feat_start i = 0" for i by (simp add: msr_of_def socket_reg_def)
  have "api_pre (pe_sys example_node) M_06_4F feat_start" by (simp add: e(1))
  from turbo_round_trip [OF this e(2,3), of "\<lambda>_. 0" example_jansson "(0, 0)" "''node1''", unfolded e(5), unfolded e(1)]
  obtain u v w where u: "variorum_disable_turbo ?A intel_build example_sys feat_start = Some (0, u)"
    "variorum_print_turbo ?A intel_build example_sys u = Some (0, v)"
    "variorum_enable_turbo ?A intel_build example_sys v = Some (0, w)"
    "\<forall>i < 2. msr_of example_node MISC_ENABLE u i = set_bit 38 (msr_of example_node MISC_ENABLE feat_start i)"
    "printed v = printed u @ map (\<lambda>i. [FS ''Turbo disabled on socket'', FI (int i)]) [0..<2]" "open_files u = open_files feat_start"
    by (auto simp: z)
  then show ?thesis by (intro exI [of _ u] exI [of _ v]) (simp add: z upt_rec)
qed

text \<open>
  C3: a node limit is shared out evenly, and all of it is enforced. For a limit of L >= 0 watts
  whose share fits the field in each socket's units, variorum_cap_best_effort_node_power_limit
  returns 0; the first limit of each socket's register then stands for exactly L div n watts over one
  second, enabled and clamping, so that the n limits together never exceed L and miss it by
  less than n watts. The second limit of every socket, all other registers and the
  open files are as before, and nothing is reported or printed.
\<close>

theorem node_limit_enforced:
  fixes s :: "'a feat_state_scheme"
  assumes "api_pre (pe_sys P) M s" "machine_ok P" "allowed P PKG_POWER_LIMIT" "libm_ok P" "M \<notin> {M_06_6A, M_06_8F}"
    "node_units P pu eu tu s" "0 \<le> L" "L < 2 ^ 31" "cap_fits P pu (L div int (pe_sockets P))"
  shows "\<exists>u share. variorum_cap_best_effort_node_power_limit (intel_api P rax L' now name) intel_build (pe_sys P) L s = Some (0, u) \<and>
    (\<forall>i < pe_sockets P. capped (pu i) (tu i) share (msr_of P PKG_POWER_LIMIT s i) (msr_of P PKG_POWER_LIMIT u i)) \<and>
    int (pe_sockets P) * share \<le> L \<and> L < int (pe_sockets P) * share + int (pe_sockets P) \<and>
    (\<forall>cpu m. m \<noteq> PKG_POWER_LIMIT \<or> \<not> first_cpu P cpu \<longrightarrow> registers u cpu m = registers s cpu m) \<and>
    open_files u = open_files s \<and> elog u = elog s \<and> printed u = printed s"
proof -
  let ?n = "int (pe_sockets P)"
  have "0 < pe_sockets P" using assms(2) by (simp add: machine_ok_def topo_fits_def topo_ok_def)
  then have n: "0 < ?n" by (simp only: of_nat_0_less_iff)
  have "?n * (L div ?n) \<le> L" "L < ?n * (L div ?n) + ?n"
    using mult_div_mod_eq [of ?n L] pos_mod_bound [OF n, of L] pos_mod_sign [OF n, of L] by linarith+
  then show ?thesis using node_cap_api [OF assms, of rax L' now name]
    by (auto simp: api_result_def intro!: exI [of _ "L div ?n"])
qed

theorem node_limit_enforced_witness:
  "\<exists>u. variorum_cap_best_effort_node_power_limit (intel_api example_node (\<lambda>_. 0) example_jansson (0, 0) ''node1'') intel_build example_sys 301 feat_start = Some (0, u) \<and>
     field_watts (msr_of example_node PKG_POWER_LIMIT u 1) 0 3 = Fin 150 \<and> open_files u = (\<lambda>_. None)"
proof -
  note e = example_node_facts
  have p: "api_pre (pe_sys example_node) M_06_4F feat_start" by (simp add: e(1))
  have c: "cap_fits example_node (\<lambda>_. 3) (301 div int (pe_sockets example_node))" by (simp add: cap_fits_def e(5))
  obtain u share where u: "variorum_cap_best_effort_node_power_limit (intel_api example_node (\<lambda>_. 0) example_jansson (0, 0) ''node1'') intel_build example_sys 301 feat_start = Some (0, u)"
    "\<forall>i < 2. capped 3 10 share (msr_of example_node PKG_POWER_LIMIT feat_start i) (msr_of example_node PKG_POWER_LIMIT u i)"
    "2 * share \<le> 301" "301 < 2 * share + 2" "open_files u = open_files feat_start"
    using node_limit_enforced [OF p e(2,3,4) _ e(6) _ _ c, of "\<lambda>_. 0" example_jansson "(0, 0)" "''node1''", unfolded e(5), unfolded e(1)] by auto
  have "share = 150" using u(3,4) by linarith
  then show ?thesis using u by (auto simp: capped_def)
qed

end
