(* ===== verification/Intel_Session.thy ===== *)
theory Intel_Session imports Intel_Props begin

text \<open>
  A client of the Intel build that makes call after call: turbo mode off, on and shown, limits for the node, and a report the
  platform lacks. What the machine does is compared with a specification that knows for each socket whether turbo is
  disabled and which limit was set last.
\<close>

section \<open>The client\<close>

datatype client_call = Turbo_off | Turbo_on | Turbo_show | Node_cap int | Gpu_show

fun client_step ::
  "('a feat_state_scheme, json_entries) api_env \<Rightarrow> sys_env \<Rightarrow> client_call \<Rightarrow> 'a feat_state_scheme \<Rightarrow>
    (int \<times> 'a feat_state_scheme) option" where
  "client_step A V Turbo_off s = variorum_disable_turbo A intel_build V s"
| "client_step A V Turbo_on s = variorum_enable_turbo A intel_build V s"
| "client_step A V Turbo_show s = variorum_print_turbo A intel_build V s"
| "client_step A V (Node_cap L) s = variorum_cap_best_effort_node_power_limit A intel_build V L s"
| "client_step A V Gpu_show s = variorum_print_gpu_utilization A intel_build V s"

text \<open>The results of the calls.\<close>

fun client ::
  "('a feat_state_scheme, json_entries) api_env \<Rightarrow> sys_env \<Rightarrow> client_call list \<Rightarrow> 'a feat_state_scheme \<Rightarrow>
    (int list \<times> 'a feat_state_scheme) option" where
  "client A V [] s = Some ([], s)"
| "client A V (c # cs) s = do {
     (rc, s) \<leftarrow> client_step A V c s;
     (rcs, s) \<leftarrow> client A V cs s;
     Some (rc # rcs, s)
   }"

section \<open>The specification\<close>

text \<open>For a node of n sockets: the sockets on which turbo is disabled, the limit of a socket in watts once it is set, and the lines said so far.\<close>

record node_spec =
  no_turbo :: "nat \<Rightarrow> bool"
  limit_watts :: "int option"
  said :: "line list"
  lacking :: nat

definition turbo_lines :: "nat \<Rightarrow> (nat \<Rightarrow> bool) \<Rightarrow> line list" where
  "turbo_lines n off = map (\<lambda>i. [FS (if off i then ''Turbo disabled on socket'' else ''Turbo enabled on socket''), FI (int i)]) [0..<n]"

fun spec_step :: "nat \<Rightarrow> client_call \<Rightarrow> node_spec \<Rightarrow> node_spec" where
  "spec_step n Turbo_off a = a\<lparr>no_turbo := \<lambda>_. True, said := said a @ turbo_lines n (\<lambda>_. True)\<rparr>"
| "spec_step n Turbo_on a = a\<lparr>no_turbo := \<lambda>_. False, said := said a @ turbo_lines n (\<lambda>_. False)\<rparr>"
| "spec_step n Turbo_show a = a\<lparr>said := said a @ turbo_lines n (no_turbo a)\<rparr>"
| "spec_step n (Node_cap L) a = a\<lparr>limit_watts := Some (L div int n)\<rparr>"
| "spec_step n Gpu_show a = a\<lparr>lacking := lacking a + 1\<rparr>"

text \<open>The machine in state u, which started in s, is where the specification says.\<close>

definition meets ::
  "power_env \<Rightarrow> intel_model \<Rightarrow> (nat \<Rightarrow> nat) \<Rightarrow> (nat \<Rightarrow> nat) \<Rightarrow> 'a feat_state_scheme \<Rightarrow> node_spec \<Rightarrow> 'a feat_state_scheme \<Rightarrow> bool" where
  "meets P M pu tu s a u \<longleftrightarrow> api_pre (pe_sys P) M u \<and> open_files u = open_files s \<and> translate_ru u = translate_ru s \<and>
     elog u = elog s @ replicate (lacking a) VARIORUM_ERROR_FEATURE_NOT_IMPLEMENTED \<and> printed u = printed s @ said a \<and>
     (\<forall>cpu m. m \<notin> {MISC_ENABLE, PKG_POWER_LIMIT} \<or> \<not> first_cpu P cpu \<longrightarrow> registers u cpu m = registers s cpu m) \<and>
     (\<forall>i < pe_sockets P.
       (\<forall>k. bit (msr_of P MISC_ENABLE u i) k = (if k = 38 then no_turbo a i else bit (msr_of P MISC_ENABLE s i) k)) \<and>
       (case limit_watts a of
          None \<Rightarrow> msr_of P PKG_POWER_LIMIT u i = msr_of P PKG_POWER_LIMIT s i
        | Some w \<Rightarrow> capped (pu i) (tu i) w (msr_of P PKG_POWER_LIMIT s i) (msr_of P PKG_POWER_LIMIT u i)))"

definition spec_start :: "power_env \<Rightarrow> 'a feat_state_scheme \<Rightarrow> node_spec" where
  "spec_start P s = \<lparr>no_turbo = (\<lambda>i. bit (msr_of P MISC_ENABLE s i) 38), limit_watts = None, said = [], lacking = 0\<rparr>"

lemma meets_start: "api_pre (pe_sys P) M s \<Longrightarrow> meets P M pu tu s (spec_start P s) s"
  by (simp add: meets_def spec_start_def)

lemma msr_of_other:
  assumes "api_result P M msr s u" "m \<noteq> msr"
  shows "msr_of P m u i = msr_of P m s i"
  using assms by (simp add: msr_of_def socket_reg_def api_result_def)

lemma capped_again: "capped pu tu v w w' \<Longrightarrow> capped pu tu v' w' w'' \<Longrightarrow> capped pu tu v' w w''"
  by (simp add: capped_def)

text \<open>A turbo call.\<close>

lemma meets_turbo:
  assumes "meets P M pu tu s a u" "api_result P M MISC_ENABLE u v" "turbo_effect P g said' u v"
    "\<And>i k w. i < pe_sockets P \<Longrightarrow> bit (g w) k = (if k = 38 then off i (bit w 38) else bit w k)"
    "\<And>i w. i < pe_sockets P \<Longrightarrow> said' i w = (if off i (bit w 38) then ''Turbo disabled on socket'' else ''Turbo enabled on socket'')"
    "\<And>i. i < pe_sockets P \<Longrightarrow> no_turbo a' i = off i (no_turbo a i)" "said a' = said a @ turbo_lines (pe_sockets P) (no_turbo a')"
    "limit_watts a' = limit_watts a" "lacking a' = lacking a"
  shows "meets P M pu tu s a' v"
proof -
  have m: "api_pre (pe_sys P) M u" "open_files u = open_files s" "translate_ru u = translate_ru s"
    "elog u = elog s @ replicate (lacking a) VARIORUM_ERROR_FEATURE_NOT_IMPLEMENTED" "printed u = printed s @ said a"
    "\<And>cpu m. m \<notin> {MISC_ENABLE, PKG_POWER_LIMIT} \<or> \<not> first_cpu P cpu \<Longrightarrow> registers u cpu m = registers s cpu m"
    "\<And>i k. i < pe_sockets P \<Longrightarrow> bit (msr_of P MISC_ENABLE u i) k = (if k = 38 then no_turbo a i else bit (msr_of P MISC_ENABLE s i) k)"
    "\<And>i. i < pe_sockets P \<Longrightarrow> (case limit_watts a of
          None \<Rightarrow> msr_of P PKG_POWER_LIMIT u i = msr_of P PKG_POWER_LIMIT s i
        | Some w \<Rightarrow> capped (pu i) (tu i) w (msr_of P PKG_POWER_LIMIT s i) (msr_of P PKG_POWER_LIMIT u i))"
    using assms(1) unfolding meets_def by blast+
  have r: "api_pre (pe_sys P) M v" "open_files v = open_files u" "elog v = elog u" "translate_ru v = translate_ru u"
    "\<And>cpu m. m \<noteq> MISC_ENABLE \<or> \<not> first_cpu P cpu \<Longrightarrow> registers v cpu m = registers u cpu m"
    using assms(2) by (simp_all add: api_result_def)
  have e: "\<And>i. i < pe_sockets P \<Longrightarrow> msr_of P MISC_ENABLE v i = g (msr_of P MISC_ENABLE u i)"
    "printed v = printed u @ map (\<lambda>i. [FS (said' i (msr_of P MISC_ENABLE u i)), FI (int i)]) [0..<pe_sockets P]"
    using assms(3) by (simp_all add: turbo_effect_def)
  have "printed v = printed s @ said a'"
    unfolding e(2) m(5) assms(7) turbo_lines_def by (simp add: assms(5,6) m(7))
  moreover have "bit (msr_of P MISC_ENABLE v i) k = (if k = 38 then no_turbo a' i else bit (msr_of P MISC_ENABLE s i) k)"
    if "i < pe_sockets P" for i k
    using assms(4) [OF that, of "msr_of P MISC_ENABLE u i" k] assms(6) [OF that] m(7) [OF that] by (simp add: e(1) [OF that])
  moreover have "case limit_watts a of
          None \<Rightarrow> msr_of P PKG_POWER_LIMIT v i = msr_of P PKG_POWER_LIMIT s i
        | Some w \<Rightarrow> capped (pu i) (tu i) w (msr_of P PKG_POWER_LIMIT s i) (msr_of P PKG_POWER_LIMIT v i)" if "i < pe_sockets P" for i
  proof -
    have "msr_of P PKG_POWER_LIMIT v i = msr_of P PKG_POWER_LIMIT u i"
      by (rule msr_of_other [OF assms(2)]) (simp add: PKG_POWER_LIMIT_def MISC_ENABLE_def)
    then show ?thesis using m(8) [OF that] by (simp split: option.splits)
  qed
  moreover have "registers v cpu m = registers s cpu m" if "m \<notin> {MISC_ENABLE, PKG_POWER_LIMIT} \<or> \<not> first_cpu P cpu" for cpu m
    using r(5) [of m cpu] m(6) [of m cpu] that by auto
  ultimately show ?thesis unfolding meets_def using r(1-4) m(2-4) assms(8,9) by simp
qed

text \<open>A limit, and a report the platform lacks.\<close>

lemma meets_cap:
  assumes "meets P M pu tu s a u" "api_result P M PKG_POWER_LIMIT u v" "printed v = printed u"
    "\<forall>i < pe_sockets P. capped (pu i) (tu i) w (msr_of P PKG_POWER_LIMIT u i) (msr_of P PKG_POWER_LIMIT v i)"
  shows "meets P M pu tu s (a\<lparr>limit_watts := Some w\<rparr>) v"
proof -
  have m: "open_files u = open_files s" "translate_ru u = translate_ru s"
    "elog u = elog s @ replicate (lacking a) VARIORUM_ERROR_FEATURE_NOT_IMPLEMENTED" "printed u = printed s @ said a"
    "\<And>cpu m. m \<notin> {MISC_ENABLE, PKG_POWER_LIMIT} \<or> \<not> first_cpu P cpu \<Longrightarrow> registers u cpu m = registers s cpu m"
    "\<And>i k. i < pe_sockets P \<Longrightarrow> bit (msr_of P MISC_ENABLE u i) k = (if k = 38 then no_turbo a i else bit (msr_of P MISC_ENABLE s i) k)"
    "\<And>i. i < pe_sockets P \<Longrightarrow> (case limit_watts a of
          None \<Rightarrow> msr_of P PKG_POWER_LIMIT u i = msr_of P PKG_POWER_LIMIT s i
        | Some w \<Rightarrow> capped (pu i) (tu i) w (msr_of P PKG_POWER_LIMIT s i) (msr_of P PKG_POWER_LIMIT u i))"
    using assms(1) unfolding meets_def by blast+
  have r: "api_pre (pe_sys P) M v" "open_files v = open_files u" "elog v = elog u" "translate_ru v = translate_ru u"
    "\<And>cpu m. m \<noteq> PKG_POWER_LIMIT \<or> \<not> first_cpu P cpu \<Longrightarrow> registers v cpu m = registers u cpu m"
    using assms(2) by (simp_all add: api_result_def)
  have "msr_of P MISC_ENABLE v i = msr_of P MISC_ENABLE u i" for i
    by (rule msr_of_other [OF assms(2)]) (simp add: PKG_POWER_LIMIT_def MISC_ENABLE_def)
  moreover have "capped (pu i) (tu i) w (msr_of P PKG_POWER_LIMIT s i) (msr_of P PKG_POWER_LIMIT v i)" if "i < pe_sockets P" for i
    using m(7) [OF that] assms(4) that capped_again by (fastforce split: option.splits)
  moreover have "registers v cpu m = registers s cpu m" if "m \<notin> {MISC_ENABLE, PKG_POWER_LIMIT} \<or> \<not> first_cpu P cpu" for cpu m
    using r(5) [of m cpu] m(5) [of m cpu] that by auto
  ultimately show ?thesis unfolding meets_def using r(1-4) m(1-4,6) assms(3) by simp
qed

lemma meets_lacking:
  assumes "meets P M pu tu s a u" "open_files v = open_files u" "elog v = elog u @ [VARIORUM_ERROR_FEATURE_NOT_IMPLEMENTED]"
    "registers v = registers u" "api_pre (pe_sys P) M v" "arch_state.more v = arch_state.more u"
  shows "meets P M pu tu s (a\<lparr>lacking := lacking a + 1\<rparr>) v"
proof -
  have "msr_of P m v = msr_of P m u" for m by (rule msr_of_registers [OF assms(4)])
  then show ?thesis using assms more_rapl [OF assms(6)]
    by (simp add: meets_def replicate_append_same cong: option.case_cong)
qed

section \<open>Every call follows the specification\<close>

lemma client_step_meets:
  fixes s :: "'a feat_state_scheme"
  assumes "meets P M pu tu s a u" "machine_ok P" "allowed P MISC_ENABLE" "allowed P PKG_POWER_LIMIT" "libm_ok P" "M \<in> turbo_models"
    "node_units P pu eu tu s" "\<And>L. c = Node_cap L \<Longrightarrow> 0 \<le> L \<and> L < 2 ^ 31 \<and> cap_fits P pu (L div int (pe_sockets P))"
  shows "\<exists>v. client_step (intel_api P rax L now name) (pe_sys P) c u = Some (0, v) \<and> meets P M pu tu s (spec_step (pe_sockets P) c a) v"
proof -
  have p: "api_pre (pe_sys P) M u" "translate_ru u = translate_ru s" using assms(1) by (simp_all add: meets_def)
  note turbo = turbo_api [OF p(1) assms(2,3,6), of rax L now name]
  have b: "bit (set_bit 38 w) k = (if k = 38 then True else bit w k)" "bit (unset_bit 38 w) k = (if k = 38 then False else bit w k)"
    for w :: u64 and k by (auto simp: bit_simps)
  show ?thesis
  proof (cases c)
    case Turbo_off
    obtain v where v: "variorum_disable_turbo (intel_api P rax L now name) intel_build (pe_sys P) u = Some (0, v)"
      "api_result P M MISC_ENABLE u v" "turbo_effect P (set_bit 38) (\<lambda>_ _. ''Turbo disabled on socket'') u v" using turbo(1) by blast
    have "meets P M pu tu s (spec_step (pe_sockets P) c a) v"
      by (rule meets_turbo [OF assms(1) v(2,3), where off = "\<lambda>_ _. True"]) (simp_all add: Turbo_off b)
    then show ?thesis using v(1) by (auto simp: Turbo_off)
  next
    case Turbo_on
    obtain v where v: "variorum_enable_turbo (intel_api P rax L now name) intel_build (pe_sys P) u = Some (0, v)"
      "api_result P M MISC_ENABLE u v" "turbo_effect P (unset_bit 38) (\<lambda>_ _. ''Turbo enabled on socket'') u v" using turbo(2) by blast
    have "meets P M pu tu s (spec_step (pe_sockets P) c a) v"
      by (rule meets_turbo [OF assms(1) v(2,3), where off = "\<lambda>_ _. False"]) (simp_all add: Turbo_on b)
    then show ?thesis using v(1) by (auto simp: Turbo_on)
  next
    case Turbo_show
    obtain v where v: "variorum_print_turbo (intel_api P rax L now name) intel_build (pe_sys P) u = Some (0, v)"
      "api_result P M MISC_ENABLE u v" "turbo_effect P (\<lambda>w. w)
        (\<lambda>_ w. if bit w 38 then ''Turbo disabled on socket'' else ''Turbo enabled on socket'') u v" using turbo(3) by blast
    have "meets P M pu tu s (spec_step (pe_sockets P) c a) v"
      by (rule meets_turbo [OF assms(1) v(2,3), where off = "\<lambda>_ b. b"]) (simp_all add: Turbo_show)
    then show ?thesis using v(1) by (auto simp: Turbo_show)
  next
    case (Node_cap l)
    have u: "node_units P pu eu tu u" using node_units_same [OF p(2)] assms(7) by blast
    have l: "0 \<le> l" "l < 2 ^ 31" "cap_fits P pu (l div int (pe_sockets P))" using assms(8) [OF Node_cap] by simp_all
    have M: "M \<notin> {M_06_6A, M_06_8F}" using assms(6) by (auto simp: turbo_models_def)
    from node_cap_api [OF p(1) assms(2,4,5) M u l]
    obtain v where v: "variorum_cap_best_effort_node_power_limit (intel_api P rax L now name) intel_build (pe_sys P) l u = Some (0, v)"
      "api_result P M PKG_POWER_LIMIT u v" "printed v = printed u"
      "\<forall>i < pe_sockets P. capped (pu i) (tu i) (l div int (pe_sockets P)) (msr_of P PKG_POWER_LIMIT u i) (msr_of P PKG_POWER_LIMIT v i)"
      by blast
    then show ?thesis using meets_cap [OF assms(1) v(2-4)] by (auto simp: Node_cap)
  next
    case Gpu_show
    have "model_table M Print_gpu_utilization = None"
      using assms(6) unfolding turbo_models_def by (elim insertE; simp add: table_simps)
    from skip_missing [OF p(1) this, of "intel_api P rax L now name" "[0]"]
    obtain v where v: "variorum_print_gpu_utilization (intel_api P rax L now name) intel_build (pe_sys P) u = Some (0, v)"
      "open_files v = open_files u" "elog v = elog u @ [VARIORUM_ERROR_FEATURE_NOT_IMPLEMENTED]" "registers v = registers u"
      "api_pre (pe_sys P) M v" "arch_state.more v = arch_state.more u"
      unfolding variorum_print_gpu_utilization_def by blast
    then show ?thesis using meets_lacking [OF assms(1) v(2-6)] by (auto simp: Gpu_show)
  qed
qed

text \<open>
  C10: A client of the Intel build may call variorum again and again. Take any sequence of variorum\_disable\_turbo,
  variorum\_enable\_turbo, variorum\_print\_turbo, variorum\_cap\_best\_effort\_node\_power\_limit with any limits, and
  variorum\_print\_gpu\_utilization, which the platform lacks. Each call enters, looks its function up in the table of the
  live model, runs the model's function and leaves. Then every call returns 0, and after the last one the machine is where
  the specification puts it: on each socket bit 38 of MISC\_ENABLE says what the last change of turbo said (and what it
  said before the first call if there was none), every other bit of that register is as it was, the power limit register
  of each socket encodes the last limit's share of that socket (or is as it was), no other register of any processor has
  changed, the calls said exactly the lines of the turbo reports in order, each call of the missing report and nothing
  else has logged that the feature is not implemented, and the open files are those from before the first call, so that no
  descriptor leaks however long the sequence is. Stated for the models whose turbo functions use MISC\_ENABLE (Sandy
  Bridge, Sandy Bridge EP, Ivy Bridge EP, Haswell EP, Broadwell EP), when a session can be opened (the files of the
  processors open and close, hwloc and CPUID answer, no session is open), the driver allows reads and writes of the two
  registers and a write changes the register of the processor it names only, libm's log2 and pow are exact at the values
  used, the RAPL units have been read by an earlier call (which is when the batch device was opened, a descriptor that the
  library keeps), and every limit is not negative and fits in an int, and its share in the 15 bits of the register field.
\<close>

theorem client_session:
  fixes s :: "'a feat_state_scheme"
  assumes "api_pre (pe_sys P) M s" "machine_ok P" "allowed P MISC_ENABLE" "allowed P PKG_POWER_LIMIT" "libm_ok P"
    "M \<in> {M_06_2A, M_06_2D, M_06_3E, M_06_3F, M_06_4F}" "node_units P pu eu tu s"
    "\<forall>L. Node_cap L \<in> set cs \<longrightarrow> 0 \<le> L \<and> L < 2 ^ 31 \<and> cap_fits P pu (L div int (pe_sockets P))"
  shows "\<exists>u. client (intel_api P rax J now name) (pe_sys P) cs s = Some (replicate (length cs) 0, u) \<and>
    meets P M pu tu s (fold (spec_step (pe_sockets P)) cs (spec_start P s)) u"
proof -
  have M: "M \<in> turbo_models" using assms(6) by (simp add: turbo_models_def)
  have "\<exists>v. client (intel_api P rax J now name) (pe_sys P) cs u = Some (replicate (length cs) 0, v) \<and>
      meets P M pu tu s (fold (spec_step (pe_sockets P)) cs a) v" if "meets P M pu tu s a u" for a u
    using that assms(8)
  proof (induction cs arbitrary: a u)
    case (Cons c cs)
    have l: "0 \<le> l \<and> l < 2 ^ 31 \<and> cap_fits P pu (l div int (pe_sockets P))" if "c = Node_cap l" for l
      using Cons.prems(2) that by simp
    obtain v where v: "client_step (intel_api P rax J now name) (pe_sys P) c u = Some (0, v)"
      "meets P M pu tu s (spec_step (pe_sockets P) c a) v"
      using client_step_meets [OF Cons.prems(1) assms(2-5) M assms(7) l] by blast
    from Cons.IH [OF v(2)] Cons.prems(2) v(1) show ?case by auto
  qed auto
  from this [OF meets_start [OF assms(1)]] show ?thesis .
qed

theorem client_session_witness:
  "\<exists>u. client (intel_api example_node (\<lambda>_. 0) example_jansson (0, 0) ''node1'') example_sys
       [Turbo_off, Node_cap 301, Gpu_show, Turbo_show, Node_cap 200, Turbo_on] feat_start = Some ([0, 0, 0, 0, 0, 0], u) \<and>
     field_watts (msr_of example_node PKG_POWER_LIMIT u 1) 0 3 = Fin 100 \<and> open_files u = (\<lambda>_. None) \<and>
     elog u = [VARIORUM_ERROR_FEATURE_NOT_IMPLEMENTED] \<and> \<not> bit (msr_of example_node MISC_ENABLE u 1) 38"
proof -
  note e = example_node_facts
  let ?cs = "[Turbo_off, Node_cap 301, Gpu_show, Turbo_show, Node_cap 200, Turbo_on]"
  have p: "api_pre (pe_sys example_node) M_06_4F feat_start" by (simp add: e(1))
  have c: "\<forall>L. Node_cap L \<in> set ?cs \<longrightarrow> 0 \<le> L \<and> L < 2 ^ 31 \<and> cap_fits example_node (\<lambda>_. 3) (L div int (pe_sockets example_node))"
    by (auto simp: cap_fits_def e(5))
  have z: "replicate (length ?cs) (0::int) = [0, 0, 0, 0, 0, 0]" by (simp add: numeral_nat)
  have "\<exists>u. client (intel_api example_node (\<lambda>_. 0) example_jansson (0, 0) ''node1'') (pe_sys example_node) ?cs feat_start =
      Some (replicate (length ?cs) 0, u) \<and>
    meets example_node M_06_4F (\<lambda>_. 3) (\<lambda>_. 10) feat_start (fold (spec_step (pe_sockets example_node)) ?cs (spec_start example_node feat_start)) u"
    by (rule client_session [OF p e(2,3,3,4) _ e(6) c]) simp
  then obtain u where u: "client (intel_api example_node (\<lambda>_. 0) example_jansson (0, 0) ''node1'') example_sys ?cs feat_start =
      Some ([0, 0, 0, 0, 0, 0], u)"
    "meets example_node M_06_4F (\<lambda>_. 3) (\<lambda>_. 10) feat_start (fold (spec_step 2) ?cs (spec_start example_node feat_start)) u"
    unfolding e(5) unfolding e(1) z by blast
  let ?a = "fold (spec_step 2) ?cs (spec_start example_node feat_start)"
  have a: "lacking ?a = 1" "limit_watts ?a = Some 100" "\<not> no_turbo ?a 1" by (simp_all add: spec_start_def)
  have f: "open_files feat_start = (\<lambda>_. None)" "elog feat_start = []" by (rule feat_start_fields)+
  have o: "open_files u = (\<lambda>_. None)" "elog u = [VARIORUM_ERROR_FEATURE_NOT_IMPLEMENTED]"
    using u(2) unfolding meets_def a(1) f by (simp_all only: replicate_Suc replicate_0 append_Nil One_nat_def)
  have m: "\<not> bit (msr_of example_node MISC_ENABLE u 1) 38"
    "capped 3 10 100 (msr_of example_node PKG_POWER_LIMIT feat_start 1) (msr_of example_node PKG_POWER_LIMIT u 1)"
    using u(2) a(3) unfolding meets_def e(5) a(2) by simp_all
  from m(2) have "field_watts (msr_of example_node PKG_POWER_LIMIT u 1) 0 3 = Fin 100" by (simp add: capped_def)
  then show ?thesis using u(1) o m(1) by (intro exI [of _ u]) simp
qed

end
