(* ===== verification/C_Text.thy ===== *)
theory C_Text imports Features begin

text \<open>
  The text functions of C that the code uses on files: printing an integer in decimal, the integer conversions of
  scanf, and strtok. What is printed is read back (\<open>scan_dec_int\<close>, \<open>scan_lu_dec\<close>).
\<close>

section \<open>Printing and scanning\<close>

definition dec_int :: "int \<Rightarrow> string" where
  "dec_int i = (if i < 0 then ''-'' @ dec (nat (- i)) else dec (nat i))"

text \<open>fscanf with %d: None when there is no number, in which case the variable stays as it is.\<close>

definition c_space :: "char \<Rightarrow> bool" where
  "c_space c \<longleftrightarrow> of_char c = (32 :: nat) \<or> 9 \<le> (of_char c :: nat) \<and> (of_char c :: nat) \<le> 13"

definition c_digit :: "char \<Rightarrow> bool" where
  "c_digit c \<longleftrightarrow> 48 \<le> (of_char c :: nat) \<and> (of_char c :: nat) \<le> 57"

definition digits_value :: "string \<Rightarrow> nat" where
  "digits_value ds = foldl (\<lambda>n c. 10 * n + (of_char c - 48)) 0 ds"

definition scan_d :: "string \<Rightarrow> int option" where
  "scan_d text =
    (let text = dropWhile c_space text;
         (neg, text) = (if text \<noteq> [] \<and> hd text = CHR ''-'' then (True, tl text)
                        else if text \<noteq> [] \<and> hd text = CHR ''+'' then (False, tl text) else (False, text));
         ds = takeWhile c_digit text
     in if ds = [] then None else Some ((if neg then -1 else 1) * int (digits_value ds)))"

text \<open>A number that does not fit an int is undefined.\<close>

definition scan_file :: "string \<Rightarrow> int option" where
  "scan_file text =
    (case scan_d text of
       None \<Rightarrow> Some 0
     | Some n \<Rightarrow> if - (2 ^ 31) \<le> n \<and> n < 2 ^ 31 then Some n else None)"

lemma of_char_digit: "n < 10 \<Longrightarrow> (of_char (char_of (48 + n) :: char) :: nat) = 48 + n"
  by (simp add: take_bit_nat_eq_self)

lemma dec_digits: "dec n \<noteq> [] \<and> (\<forall>c \<in> set (dec n). c_digit c)"
proof (induction n rule: dec.induct)
  case (1 n)
  have "c_digit (char_of (48 + m))" if "m < 10" for m :: nat using of_char_digit [OF that] that by (simp add: c_digit_def)
  then show ?case using 1 by (auto simp: dec.simps [of n])
qed

lemma digits_value_snoc: "digits_value (ds @ [c]) = 10 * digits_value ds + (of_char c - 48)"
  by (simp add: digits_value_def)

lemma digits_value_dec: "digits_value (dec n) = n"
proof (induction n rule: dec.induct)
  case (1 n)
  show ?case
  proof (cases "n < 10")
    case True
    then show ?thesis using of_char_digit [OF True] by (simp add: dec.simps [of n] digits_value_def)
  next
    case False
    have "n mod 10 < 10" by simp
    from of_char_digit [OF this] False 1 show ?thesis by (simp add: dec.simps [of n] digits_value_snoc)
  qed
qed

text \<open>What fprintf writes for an int, fscanf reads back.\<close>

lemma scan_dec_int: "scan_d (dec_int n) = Some n"
proof -
  have d: "takeWhile c_digit (dec m) = dec m" "dec m \<noteq> []" for m using dec_digits [of m] by (simp_all add: takeWhile_eq_all_conv)
  have h: "c_digit (hd (dec m))" for m using dec_digits [of m] by (metis hd_in_set)
  have ns: "\<not> c_space c" "c \<noteq> CHR ''-''" "c \<noteq> CHR ''+''" if "c_digit c" for c
    using that by (auto simp: c_digit_def c_space_def)
  have dw: "dropWhile c_space (dec m) = dec m" for m using ns(1) [OF h [of m]] d(2) [of m] by (cases "dec m") auto
  show ?thesis
  proof (cases "n < 0")
    case True
    have "\<not> c_space (CHR ''-'')" by (simp add: c_space_def)
    then show ?thesis using True by (simp add: scan_d_def dec_int_def digits_value_dec d)
  next
    case False
    then show ?thesis using ns(2,3) [OF h [of "nat n"]] by (simp add: scan_d_def dec_int_def digits_value_dec d dw)
  qed
qed


section \<open>Text in buffers\<close>

text \<open>
  sscanf with %lu on a buffer that need not be terminated: None when it runs past the end of the buffer or the number does
  not fit, Some None when there is no number there.
\<close>

definition scan_lu :: "string \<Rightarrow> u64 option option" where
  "scan_lu buf =
    (case dropWhile c_space buf of
       [] \<Rightarrow> None
     | c # cs \<Rightarrow>
         let text = (if c = CHR ''-'' \<or> c = CHR ''+'' then cs else c # cs);
             ds = takeWhile c_digit text;
             n = digits_value ds
         in if length ds = length text then None
            else if ds = [] then Some None
            else if 2 ^ 64 \<le> n then None
            else Some (Some (if c = CHR ''-'' then - of_nat n else of_nat n)))"

text \<open>The string at the beginning of a buffer; None when no null byte ends it.\<close>

definition c_string :: "string \<Rightarrow> string option" where
  "c_string buf = (let t = takeWhile (\<lambda>c. c \<noteq> CHR 0x00) buf in if length t = length buf then None else Some t)"

definition strtok :: "string \<Rightarrow> string \<Rightarrow> (string \<times> string) option" where
  "strtok delim text =
    (case dropWhile (\<lambda>c. c \<in> set delim) text of
       [] \<Rightarrow> None
     | t \<Rightarrow> Some (takeWhile (\<lambda>c. c \<notin> set delim) t, tl (dropWhile (\<lambda>c. c \<notin> set delim) t)))"

text \<open>atoll; a number that does not fit is undefined.\<close>

definition atoll :: "string \<Rightarrow> u64 option" where
  "atoll text =
    (case scan_d text of
       None \<Rightarrow> Some 0
     | Some n \<Rightarrow> if - (2 ^ 63) \<le> n \<and> n < 2 ^ 63 then Some (word_of_int n) else None)"

lemma c_space_digit: "c_digit c \<Longrightarrow> \<not> c_space c \<and> c \<noteq> CHR ''-'' \<and> c \<noteq> CHR ''+'' \<and> c \<noteq> CHR 0x00"
  by (auto simp: c_digit_def c_space_def)

lemma dec_Cons: "\<exists>c cs. dec n = c # cs \<and> c_digit c"
  using dec_digits [of n] by (cases "dec n") auto

lemma takeWhile_dec: "\<not> c_digit c \<Longrightarrow> takeWhile c_digit (dec n @ c # rest) = dec n"
  using dec_digits [of n] by (simp add: takeWhile_append)

text \<open>A number in decimal and a byte that ends it are read as the number.\<close>

lemma scan_lu_dec:
  assumes "\<not> c_digit c" "n < 2 ^ 64"
  shows "scan_lu (dec n @ c # rest) = Some (Some (of_nat n))"
proof -
  obtain d ds where d: "dec n = d # ds" "c_digit d" using dec_Cons by blast
  note c = c_space_digit [OF d(2)]
  have "dropWhile c_space (dec n @ c # rest) = d # ds @ c # rest" using c by (simp add: d)
  moreover have "takeWhile c_digit (d # ds @ c # rest) = d # ds" using takeWhile_dec [OF assms(1), of n rest] by (simp add: d(1))
  moreover have "digits_value (d # ds) = n" using digits_value_dec [of n] by (simp add: d(1))
  ultimately show ?thesis using c assms(2) by (simp add: scan_lu_def)
qed

end
