(* ===== verification/Occ_Sensors.thy ===== *)
theory Occ_Sensors imports C_Text begin

text \<open>
  The sensor blocks of ibm_power_features.c: the on-chip controller of each Power9 socket exports a block of
  bytes with a header, the descriptions of the sensors, and two copies of the readings (ping and pong) which
  it updates in turn. Numbers are big-endian and the structures packed. A block is the list of its bytes; an
  access outside it is undefined, None. The build without libjustify is modelled.
\<close>

section \<open>Bytes\<close>

definition bytes_at :: "u8 list \<Rightarrow> nat \<Rightarrow> nat \<Rightarrow> u8 list option" where
  "bytes_at buf p n = (if p + n \<le> length buf then Some (take n (drop p buf)) else None)"

definition byte_at :: "u8 list \<Rightarrow> nat \<Rightarrow> u8 option" where
  "byte_at buf p = (if p < length buf then Some (buf ! p) else None)"

text \<open>be16toh, be32toh and be64toh of the number stored at p.\<close>

definition be16 :: "u8 list \<Rightarrow> nat \<Rightarrow> u16 option" where
  "be16 buf p = map_option word_rcat (bytes_at buf p 2)"

definition be32 :: "u8 list \<Rightarrow> nat \<Rightarrow> u32 option" where
  "be32 buf p = map_option word_rcat (bytes_at buf p 4)"

definition be64 :: "u8 list \<Rightarrow> nat \<Rightarrow> u64 option" where
  "be64 buf p = map_option word_rcat (bytes_at buf p 8)"

definition char_byte :: "char \<Rightarrow> u8" where
  "char_byte c = of_nat (of_char c)"

text \<open>strncmp with the whole of a string literal; strcmp looks at its terminating zero, too.\<close>

fun strncmp_at :: "u8 list \<Rightarrow> nat \<Rightarrow> u8 list \<Rightarrow> bool option" where
  "strncmp_at buf p [] = Some True"
| "strncmp_at buf p (c # cs) = do {
     b \<leftarrow> byte_at buf p;
     if b = c then strncmp_at buf (p + 1) cs else Some False
   }"

definition strcmp_at :: "u8 list \<Rightarrow> nat \<Rightarrow> string \<Rightarrow> bool option" where
  "strcmp_at buf p lit = strncmp_at buf p (map char_byte lit @ [0])"

text \<open>The string that %s prints: up to the first zero, wherever that is.\<close>

definition c_string :: "u8 list \<Rightarrow> nat \<Rightarrow> string option" where
  "c_string buf p =
    (let rest = drop p buf
     in if 0 \<in> set rest then Some (map (\<lambda>b. char_of (unat b)) (takeWhile (\<lambda>b. b \<noteq> 0) rest)) else None)"

section \<open>The layout\<close>

text \<open>The offsets of the fields of \<open>occ_sensor_data_header\<close>.\<close>

definition hb_nr_sensors :: "u8 list \<Rightarrow> u16 option" where "hb_nr_sensors buf = be16 buf 2"
definition hb_names_offset :: "u8 list \<Rightarrow> u32 option" where "hb_names_offset buf = be32 buf 8"
definition hb_reading_ping_offset :: "u8 list \<Rightarrow> u32 option" where "hb_reading_ping_offset buf = be32 buf 16"
definition hb_reading_pong_offset :: "u8 list \<Rightarrow> u32 option" where "hb_reading_pong_offset buf = be32 buf 20"

text \<open>\<open>md[i]\<close>, a structure of 48 bytes, and its fields.\<close>

definition md_at :: "u32 \<Rightarrow> nat \<Rightarrow> nat" where
  "md_at names_offset i = unat names_offset + 48 * i"

definition md_units :: "nat \<Rightarrow> nat" where "md_units md = md + 16"
definition md_freq :: "u8 list \<Rightarrow> nat \<Rightarrow> u32 option" where "md_freq buf md = be32 buf (md + 22)"
definition md_scale_factor :: "u8 list \<Rightarrow> nat \<Rightarrow> u32 option" where "md_scale_factor buf md = be32 buf (md + 26)"
definition md_type :: "u8 list \<Rightarrow> nat \<Rightarrow> u16 option" where "md_type buf md = be16 buf (md + 30)"
definition md_structure_type :: "u8 list \<Rightarrow> nat \<Rightarrow> u8 option" where "md_structure_type buf md = byte_at buf (md + 34)"
definition md_reading_offset :: "u8 list \<Rightarrow> nat \<Rightarrow> u32 option" where "md_reading_offset buf md = be32 buf (md + 35)"

definition OCC_SENSOR_READING_FULL :: u8 where "OCC_SENSOR_READING_FULL = 1"
definition OCC_SENSOR_TYPE_POWER :: u16 where "OCC_SENSOR_TYPE_POWER = 0x80"

datatype sensor_attr = SENSOR_SAMPLE | SENSOR_ACCUMULATOR

section \<open>Readings\<close>

text \<open>
  Where the reading of a sensor is that both functions take: the copy with the later time stamp when both are
  valid, pong when they are equally old; None when neither is valid.
\<close>

definition fresh_copy :: "u8 list \<Rightarrow> u32 \<Rightarrow> nat option option" where
  "fresh_copy buf offset = do {
     ping \<leftarrow> map_option unat (hb_reading_ping_offset buf);
     pong \<leftarrow> map_option unat (hb_reading_pong_offset buf);
     let sping = ping + unat offset;
     let spong = pong + unat offset;
     ping_valid \<leftarrow> byte_at buf ping;
     pong_valid \<leftarrow> byte_at buf pong;
     if ping_valid \<noteq> 0 \<and> pong_valid \<noteq> 0 then do {
       t \<leftarrow> be64 buf (sping + 2);
       u \<leftarrow> be64 buf (spong + 2);
       Some (Some (if u < t then sping else spong))
     }
     else if ping_valid \<noteq> 0 \<and> pong_valid = 0 then Some (Some sping)
     else if ping_valid = 0 \<and> pong_valid \<noteq> 0 then Some (Some spong)
     else Some None
   }"

text \<open>The accumulator of a counter is at byte 10, of a full record at byte 28, its sample at byte 10.\<close>

definition read_counter :: "u8 list \<Rightarrow> u32 \<Rightarrow> u64 option" where
  "read_counter buf offset = do {
     sensor \<leftarrow> fresh_copy buf offset;
     case sensor of None \<Rightarrow> Some 0 | Some p \<Rightarrow> be64 buf (p + 10)
   }"

definition read_sensor :: "u8 list \<Rightarrow> u32 \<Rightarrow> sensor_attr \<Rightarrow> u64 option" where
  "read_sensor buf offset attr = do {
     sensor \<leftarrow> fresh_copy buf offset;
     case sensor of
       None \<Rightarrow> Some 0
     | Some p \<Rightarrow>
         (case attr of
            SENSOR_SAMPLE \<Rightarrow> map_option ucast (be16 buf (p + 10))
          | SENSOR_ACCUMULATOR \<Rightarrow> be64 buf (p + 28))
   }"

text \<open>\<open>TO_FP\<close>: a mantissa of 24 bits and a signed decimal exponent of 8 bits.\<close>

definition TO_FP :: "power_env \<Rightarrow> u32 \<Rightarrow> double" where
  "TO_FP P f = d_mul (d_of_int (uint (drop_bit 8 f))) (libm_pow P (Fin 10) (d_of_int (sint (ucast f :: u8))))"

text \<open>\<open>sample * TO_FP(scale)\<close>, and its conversion to uint64\_t.\<close>

definition scaled :: "power_env \<Rightarrow> u64 \<Rightarrow> u32 \<Rightarrow> double" where
  "scaled P sample scale = d_mul (d_of_u64 sample) (TO_FP P scale)"

text \<open>The sample of a sensor whose reading is a full record.\<close>

definition full_sample :: "u8 list \<Rightarrow> nat \<Rightarrow> u32 \<Rightarrow> u64 option" where
  "full_sample buf md offset = do {
     t \<leftarrow> md_structure_type buf md;
     if t = OCC_SENSOR_READING_FULL then read_sensor buf offset SENSOR_SAMPLE else Some 0
   }"

section \<open>Power\<close>

text \<open>
  The variables of the power functions, one for each name: each sensor with the name sets its variable, so that
  the last one stands.
\<close>

fun set_named :: "power_env \<Rightarrow> u8 list \<Rightarrow> nat \<Rightarrow> u64 \<Rightarrow> u32 \<Rightarrow> string list \<Rightarrow> u64 list \<Rightarrow> u64 list option" where
  "set_named P buf md sample scale (name # names) (v # vs) = do {
     eq \<leftarrow> strcmp_at buf md name;
     v \<leftarrow> (if eq then u64_of_d (scaled P sample scale) else Some v);
     vs \<leftarrow> set_named P buf md sample scale names vs;
     Some (v # vs)
   }"
| "set_named P buf md sample scale _ vs = Some vs"

fun power_loop :: "power_env \<Rightarrow> u8 list \<Rightarrow> string list \<Rightarrow> nat list \<Rightarrow> u64 list \<Rightarrow> u64 list option" where
  "power_loop P buf names [] vs = Some vs"
| "power_loop P buf names (md # mds) vs = do {
     offset \<leftarrow> md_reading_offset buf md;
     scale \<leftarrow> md_scale_factor buf md;
     sample \<leftarrow> full_sample buf md offset;
     vs \<leftarrow> set_named P buf md sample scale names vs;
     power_loop P buf names mds vs
   }"

text \<open>The descriptions the loops go through.\<close>

definition descriptions :: "u8 list \<Rightarrow> nat list option" where
  "descriptions buf = do {
     names_offset \<leftarrow> hb_names_offset buf;
     nr_sensors \<leftarrow> hb_nr_sensors buf;
     Some (map (md_at names_offset) [0..<unat nr_sensors])
   }"

definition power_values :: "power_env \<Rightarrow> u8 list \<Rightarrow> string list \<Rightarrow> u64 list option" where
  "power_values P buf names = do {
     mds \<leftarrow> descriptions buf;
     power_loop P buf names mds (replicate (length names) 0)
   }"

definition get_node_power :: "power_env \<Rightarrow> u8 list \<Rightarrow> u64 option" where
  "get_node_power P buf = map_option hd (power_values P buf [''PWRSYS''])"

definition power_names :: "string list" where
  "power_names = [''PWRSYS'', ''PWRPROC'', ''PWRMEM'', ''PWRGPU'']"

definition print_power_sensors ::
  "power_env \<Rightarrow> nat \<Rightarrow> int \<Rightarrow> u8 list \<Rightarrow> 'a rapl_state_scheme \<Rightarrow> 'a rapl_state_scheme option" where
  "print_power_sensors P chipid long_ver buf s = do {
     let first = (Print_power_sensors \<notin> inited s);
     let s = set_inited Print_power_sensors (start_once P Print_power_sensors s);
     let s = (if first \<and> long_ver = 0 then say (map FS [''_IBMPOWER'', ''Host'', ''Socket'', ''PWRSYS_W'', ''PWRPROC_W'',
            ''PWRMEM_W'', ''PWRGPU_W'', ''Timestamp_sec'']) s else s);
     let (now, s) = gettimeofday P s;
     vs \<leftarrow> power_values P buf power_names;
     Some (say ([FS (if long_ver = 0 then ''_IBMPOWER'' else ''_IBMPOWER Host, Socket, PWRSYS, PWRPROC, PWRMEM, PWRGPU, Timestamp''),
         FS (pe_host P), FI (int chipid)] @ map FX vs @ [FF (tv_diff now (start_at s Print_power_sensors))]) s)
   }"

section \<open>All sensors\<close>

definition header_fields :: "u8 list \<Rightarrow> nat \<Rightarrow> line option" where
  "header_fields buf md = do {
     t \<leftarrow> md_type buf md;
     name \<leftarrow> c_string buf md;
     units \<leftarrow> c_string buf (md_units md);
     Some (if t = OCC_SENSOR_TYPE_POWER then [FS (name @ ''_Scale_'' @ units), FS (name @ ''_Energy_J'')]
           else [FS (name @ ''_'' @ units)])
   }"

definition print_all_sensors_header :: "nat \<Rightarrow> u8 list \<Rightarrow> 'a rapl_state_scheme \<Rightarrow> 'a rapl_state_scheme option" where
  "print_all_sensors_header chipid buf s = do {
     mds \<leftarrow> descriptions buf;
     fs \<leftarrow> those (map (header_fields buf) mds);
     Some (say ([FS (''_IBMPOWER'' @ dec chipid), FS ''Timestamp_sec'', FS ''Host'', FS ''Socket''] @ concat fs) s)
   }"

definition sensor_fields :: "power_env \<Rightarrow> u8 list \<Rightarrow> nat \<Rightarrow> line option" where
  "sensor_fields P buf md = do {
     offset \<leftarrow> md_reading_offset buf md;
     scale \<leftarrow> md_scale_factor buf md;
     st \<leftarrow> md_structure_type buf md;
     sample \<leftarrow> (if st = OCC_SENSOR_READING_FULL then read_sensor buf offset SENSOR_SAMPLE else read_counter buf offset);
     t \<leftarrow> md_type buf md;
     if t = OCC_SENSOR_TYPE_POWER then do {
       energy \<leftarrow> read_sensor buf offset SENSOR_ACCUMULATOR;
       freq \<leftarrow> md_freq buf md;
       w \<leftarrow> u64_of_d (scaled P sample scale);
       j \<leftarrow> u64_of_d (d_div (d_of_u64 energy) (TO_FP P freq));
       Some [FX w, FX j]
     }
     else do {
       w \<leftarrow> u64_of_d (scaled P sample scale);
       Some [FX w]
     }
   }"

definition print_all_sensors :: "power_env \<Rightarrow> nat \<Rightarrow> u8 list \<Rightarrow> 'a rapl_state_scheme \<Rightarrow> 'a rapl_state_scheme option" where
  "print_all_sensors P chipid buf s = do {
     let s = set_inited Print_all_sensors (start_once P Print_all_sensors s);
     let (now, s) = gettimeofday P s;
     mds \<leftarrow> descriptions buf;
     fs \<leftarrow> those (map (sensor_fields P buf) mds);
     Some (say ([FS (''_IBMPOWER'' @ dec chipid), FF (tv_diff now (start_at s Print_all_sensors)), FS (pe_host P),
       FI (int chipid)] @ concat fs) s)
   }"

section \<open>JSON\<close>

text \<open>sprintf into 12 bytes: a longer text is written past their end.\<close>

definition sprintf_12 :: "string \<Rightarrow> string option" where
  "sprintf_12 text = (if length text < 12 then Some text else None)"

definition json_get_power_sensors ::
  "power_env \<Rightarrow> nat \<Rightarrow> u8 list \<Rightarrow> 'a rapl_state_scheme \<Rightarrow> 'a rapl_state_scheme option" where
  "json_get_power_sensors P chipid buf s = do {
     socketID \<leftarrow> sprintf_12 (''socket_'' @ dec chipid);
     vs \<leftarrow> power_values P buf [''PWRSYS'', ''PWRPROC'', ''PWRMEM''];
     let s = (if chipid = 0 then json_set [''power_node_watts''] (J_real (d_of_u64 (vs ! 0))) s else s);
     let s = json_set [socketID] J_object s;
     let s = json_set [socketID, ''power_cpu_watts''] (J_real (d_of_u64 (vs ! 1))) s;
     Some (json_set [socketID, ''power_mem_watts''] (J_real (d_of_u64 (vs ! 2))) s)
   }"

text \<open>The conversion of a double to long long.\<close>

definition i64_of_d :: "double \<Rightarrow> u64 option" where
  "i64_of_d x = (case x of
     Fin a \<Rightarrow> if - (2 ^ 63) - 1 < a \<and> a < 2 ^ 63 then Some (word_of_int (if 0 \<le> a then \<lfloor>a\<rfloor> else \<lceil>a\<rceil>)) else None
   | _ \<Rightarrow> None)"

text \<open>
  strncpy of 5 bytes copies up to a zero and fills with zeros; atoi skips white space, takes a sign and digits,
  and runs past the 5 bytes when all of them are taken.
\<close>

fun strncpy_at :: "u8 list \<Rightarrow> nat \<Rightarrow> nat \<Rightarrow> u8 list option" where
  "strncpy_at buf p 0 = Some []"
| "strncpy_at buf p (Suc n) = do {
     b \<leftarrow> byte_at buf p;
     if b = 0 then Some (replicate (Suc n) 0)
     else do { bs \<leftarrow> strncpy_at buf (p + 1) n; Some (b # bs) }
   }"

definition is_digit :: "u8 \<Rightarrow> bool" where "is_digit b \<longleftrightarrow> 48 \<le> b \<and> b \<le> 57"
definition is_space :: "u8 \<Rightarrow> bool" where "is_space b \<longleftrightarrow> b = 32 \<or> 9 \<le> b \<and> b \<le> 13"

fun atoi_digits :: "int \<Rightarrow> u8 list \<Rightarrow> int option" where
  "atoi_digits n [] = None"
| "atoi_digits n (b # bs) = (if is_digit b then atoi_digits (10 * n + (uint b - 48)) bs else Some n)"

definition atoi_bytes :: "u8 list \<Rightarrow> int option" where
  "atoi_bytes bs =
    (case dropWhile is_space bs of
       [] \<Rightarrow> None
     | b # bs \<Rightarrow>
         if b = 45 then map_option uminus (atoi_digits 0 bs)
         else if b = 43 then atoi_digits 0 bs
         else atoi_digits 0 (b # bs))"

text \<open>The entry of a core or a DIMM, whose number follows the first n characters of the name.\<close>

definition thermal_entry ::
  "power_env \<Rightarrow> u8 list \<Rightarrow> nat \<Rightarrow> nat \<Rightarrow> string list \<Rightarrow> string \<Rightarrow> u64 \<Rightarrow> u32 \<Rightarrow> 'a rapl_state_scheme \<Rightarrow> 'a rapl_state_scheme option" where
  "thermal_entry P buf md n path label sample scale s = do {
     digits \<leftarrow> strncpy_at buf (md + n) 5;
     k \<leftarrow> atoi_bytes digits;
     t \<leftarrow> i64_of_d (scaled P sample scale);
     Some (json_set (path @ [snprintf 32 (label @ dec_int k)]) (J_int t) s)
   }"

fun thermal_loop ::
  "power_env \<Rightarrow> u8 list \<Rightarrow> string \<Rightarrow> nat list \<Rightarrow> 'a rapl_state_scheme \<Rightarrow> 'a rapl_state_scheme option" where
  "thermal_loop P buf sock [] s = Some s"
| "thermal_loop P buf sock (md # mds) s = do {
     offset \<leftarrow> md_reading_offset buf md;
     scale \<leftarrow> md_scale_factor buf md;
     sample \<leftarrow> full_sample buf md offset;
     core \<leftarrow> strncmp_at buf md (map char_byte ''TEMPPROCTHRMC'');
     s \<leftarrow> (if core then thermal_entry P buf md 13 [sock, ''CPU'', ''Core''] ''temp_celsius_core_'' sample scale s
       else do {
         dimm \<leftarrow> strncmp_at buf md (map char_byte ''TEMPDIMM'');
         if dimm then thermal_entry P buf md 8 [sock, ''CPU'', ''Mem''] ''temp_celsius_dimm_'' sample scale s
         else Some s
       });
     thermal_loop P buf sock mds s
   }"

definition json_get_thermal_sensors ::
  "power_env \<Rightarrow> nat \<Rightarrow> u8 list \<Rightarrow> 'a rapl_state_scheme \<Rightarrow> 'a rapl_state_scheme option" where
  "json_get_thermal_sensors P chipid buf s = do {
     mds \<leftarrow> descriptions buf;
     let sock = snprintf 12 (''socket_'' @ dec chipid);
     let s = get_or_make [sock] s;
     let s = json_set [sock, ''CPU''] J_object s;
     let s = json_set [sock, ''CPU'', ''Core''] J_object s;
     let s = json_set [sock, ''CPU'', ''Mem''] J_object s;
     thermal_loop P buf sock mds s
   }"

fun frequency_loop :: "u8 list \<Rightarrow> string \<Rightarrow> nat list \<Rightarrow> 'a rapl_state_scheme \<Rightarrow> 'a rapl_state_scheme option" where
  "frequency_loop buf sock [] s = Some s"
| "frequency_loop buf sock (md # mds) s = do {
     offset \<leftarrow> md_reading_offset buf md;
     sample \<leftarrow> full_sample buf md offset;
     eq \<leftarrow> strcmp_at buf md ''FREQA'';
     frequency_loop buf sock mds
       (if eq then json_set [sock, ''CPU'', ''cpu_avg_freq_mhz''] (J_int sample) s else s)
   }"

definition json_get_frequency_sensors :: "nat \<Rightarrow> u8 list \<Rightarrow> 'a rapl_state_scheme \<Rightarrow> 'a rapl_state_scheme option" where
  "json_get_frequency_sensors chipid buf s = do {
     mds \<leftarrow> descriptions buf;
     let sock = snprintf 12 (''socket_'' @ dec chipid);
     let s = get_or_make [sock] s;
     let s = json_set [sock, ''CPU''] J_object s;
     frequency_loop buf sock mds s
   }"

end
