(* ===== verification/Power9.thy ===== *)
theory Power9 imports Occ_Sensors begin

text \<open>
  Power9.c: the functions installed for IBM Power9. They read the sensor blocks and the power limits that the OPAL
  firmware exports as files, so the firmware is a parameter: \<open>opal_env\<close> says what the system calls on its files
  answer in a state of the firmware, which is a field of the program's state. VARIORUM_LOG is never looked up: the
  code takes atoi of the name itself.
\<close>

section \<open>The firmware's files\<close>

text \<open>
  \<open>op_read\<close>: read at a position, None for an error; \<open>op_text\<close>: what a text file that fopen can read holds;
  \<open>op_create\<close>: fopen with mode w+, which empties the file, None when it fails; \<open>op_store\<close>: the
  text written and closed; \<open>op_sleep\<close>: microseconds pass.
\<close>

datatype opal_path = Powercap_current | Powercap_max | Powercap_min | Psr_cpu_to_gpu_0 | Psr_cpu_to_gpu_8

record 'o opal_env =
  op_ibm_idx :: nat \<comment> \<open>P_IBM_CPU_IDX\<close>
  op_open :: "'o \<Rightarrow> bool"
  op_malloc :: "'o \<Rightarrow> bool"
  op_read :: "nat \<Rightarrow> nat \<Rightarrow> 'o \<Rightarrow> u8 list option \<times> 'o"
  op_text :: "opal_path \<Rightarrow> 'o \<Rightarrow> string option"
  op_create :: "opal_path \<Rightarrow> 'o \<Rightarrow> 'o option"
  op_store :: "opal_path \<Rightarrow> string \<Rightarrow> 'o \<Rightarrow> 'o"
  op_sleep :: "nat \<Rightarrow> 'o \<Rightarrow> 'o"

text \<open>
  A thread of power_measurement: before its open, asleep, about to look at active\_sampling, waiting for the lock,
  holding it, with a measurement, with the old value of energy\_acc as well, about to release the lock, and returned.
\<close>

datatype sampler =
    T_new | T_sleep mstimer | T_check mstimer | T_lock mstimer | T_hold mstimer | T_add mstimer u64 | T_store mstimer u64 u64
  | T_unlock mstimer | T_done

text \<open>
  The thread that calls the energy functions: outside of them; in the first half, before each access to what it shares with the
  threads (the interval, energy\_acc, which it clears and then reports, the lock, the new thread); in the second half, waiting for
  the lock or holding it. Reads and writes of one word are steps; of the two threads that may access energy\_acc
  at the same time neither sees half a word.
\<close>

datatype energy_out = To_stdout int | To_json

datatype call_pc =
    C_idle
  | C_start energy_out "int \<times> int" | C_zero energy_out "int \<times> int" | C_tell energy_out "int \<times> int" | C_init | C_create
  | C_wait energy_out "int \<times> int" | C_report energy_out "int \<times> int"

text \<open>The lock does not exist before its first initialisation; it is held by a thread, or by the caller (None).\<close>

datatype mutex = Uninit | Unlocked | Locked "nat option"

record 'o p9_state = feat_state +
  opal :: 'o
  occ_fds :: nat \<comment> \<open>descriptors of occ_inband_sensors that are open\<close>
  opal_streams :: nat \<comment> \<open>FILE pointers that are open\<close>
  monitor_count :: u32 \<comment> \<open>count of ibm_cpu_p9_monitoring\<close>
  active_sampling :: bool
  energy_acc :: u64
  sample_interval :: u64
  mlock :: mutex
  samplers :: "sampler list"
  caller :: call_pc

section \<open>Sensor blocks\<close>

definition OCC_SENSOR_DATA_BLOCK_SIZE :: nat where "OCC_SENSOR_DATA_BLOCK_SIZE = 0x25800"

text \<open>
  The loop that fills the buffer. It ends early when a read fails or is at the end of the file; a read of
  more bytes than asked for would write past the buffer.
\<close>

function read_loop :: "'o opal_env \<Rightarrow> nat \<Rightarrow> u8 list \<Rightarrow> 'o \<Rightarrow> (u8 list \<times> 'o) option" where
  "read_loop E pos got o' =
    (if length got < OCC_SENSOR_DATA_BLOCK_SIZE then
       (case op_read E (pos + length got) (OCC_SENSOR_DATA_BLOCK_SIZE - length got) o' of
          (None, o') \<Rightarrow> Some (got, o')
        | (Some bs, o') \<Rightarrow>
            if bs = [] then Some (got, o')
            else if OCC_SENSOR_DATA_BLOCK_SIZE < length got + length bs then None
            else read_loop E pos (got @ bs) o')
     else Some (got, o'))"
  by pat_completeness auto
termination by (relation "measure (\<lambda>(E, pos, got, o'). OCC_SENSOR_DATA_BLOCK_SIZE - length got)")
    (auto simp: length_greater_0_conv [symmetric] simp del: length_greater_0_conv)

declare read_loop.simps [simp del]

text \<open>The block of a socket; None for the return of -1, which leaves the file open.\<close>

definition read_block ::
  "'o opal_env \<Rightarrow> u32 \<Rightarrow> ('o, 'a) p9_state_scheme \<Rightarrow> (u8 list option \<times> ('o, 'a) p9_state_scheme) option" where
  "read_block E iter s =
    (if \<not> op_malloc E (opal s) then Some (None, say [FS ''Failed to allocate''] s)
     else do {
       (buf, o') \<leftarrow> read_loop E (unat (iter * of_nat OCC_SENSOR_DATA_BLOCK_SIZE)) [] (opal s);
       let s = s\<lparr>opal := o'\<rparr>;
       if length buf \<noteq> OCC_SENSOR_DATA_BLOCK_SIZE then Some (None, say [FS ''Failed to read data''] s)
       else Some (Some buf, s)
     })"

definition close_occ :: "('o, 'a) p9_state_scheme \<Rightarrow> ('o, 'a) p9_state_scheme" where
  "close_occ s = s\<lparr>occ_fds := occ_fds s - 1\<rparr>"

fun block_loop ::
  "'o opal_env \<Rightarrow> (nat \<Rightarrow> u8 list \<Rightarrow> ('o, 'a) p9_state_scheme \<Rightarrow> ('o, 'a) p9_state_scheme option) \<Rightarrow> nat list \<Rightarrow>
    ('o, 'a) p9_state_scheme \<Rightarrow> (int \<times> ('o, 'a) p9_state_scheme) option" where
  "block_loop E body [] s = Some (0, close_occ s)"
| "block_loop E body (i # is) s = do {
     (buf, s) \<leftarrow> read_block E (of_nat i) s;
     case buf of
       None \<Rightarrow> Some (-1, s)
     | Some buf \<Rightarrow> do { s \<leftarrow> body i buf s; block_loop E body is s }
   }"

text \<open>What the five functions that go through the sockets share.\<close>

definition each_block ::
  "'o opal_env \<Rightarrow> power_env \<Rightarrow> (topo \<Rightarrow> nat \<Rightarrow> u8 list \<Rightarrow> ('o, 'a) p9_state_scheme \<Rightarrow> ('o, 'a) p9_state_scheme option) \<Rightarrow>
    ('o, 'a) p9_state_scheme \<Rightarrow> (int \<times> ('o, 'a) p9_state_scheme) option" where
  "each_block E P body s = do {
     (T, s) \<leftarrow> get_topo (pe_hw P) (op_ibm_idx E) s;
     if \<not> op_open E (opal s) then Some (-1, say [FS ''Failed to open occ_inband_sensors file''] s)
     else block_loop E (body T) [0..<unat (nsockets T)] (s\<lparr>occ_fds := occ_fds s + 1\<rparr>)
   }"

definition ibm_cpu_p9_get_power ::
  "'o opal_env \<Rightarrow> power_env \<Rightarrow> int \<Rightarrow> ('o, 'a) p9_state_scheme \<Rightarrow> (int \<times> ('o, 'a) p9_state_scheme) option" where
  "ibm_cpu_p9_get_power E P long_ver s =
    each_block E P (\<lambda>_ iter buf s. print_power_sensors P iter long_ver buf s) s"

definition ibm_cpu_p9_monitoring ::
  "'o opal_env \<Rightarrow> power_env \<Rightarrow> ('o, 'a) p9_state_scheme \<Rightarrow> (int \<times> ('o, 'a) p9_state_scheme) option" where
  "ibm_cpu_p9_monitoring E P s =
    each_block E P (\<lambda>T iter buf s. do {
      s \<leftarrow> (if monitor_count s < nsockets T
         then map_option (\<lambda>s. s\<lparr>monitor_count := monitor_count s + 1\<rparr>) (print_all_sensors_header iter buf s)
         else Some s);
      print_all_sensors P iter buf s
    }) s"

definition ibm_cpu_p9_get_power_json ::
  "'o opal_env \<Rightarrow> power_env \<Rightarrow> ('o, 'a) p9_state_scheme \<Rightarrow> (int \<times> ('o, 'a) p9_state_scheme) option" where
  "ibm_cpu_p9_get_power_json E P s = each_block E P (\<lambda>_ iter buf s. json_get_power_sensors P iter buf s) s"

definition ibm_cpu_p9_get_node_thermal_json ::
  "'o opal_env \<Rightarrow> power_env \<Rightarrow> ('o, 'a) p9_state_scheme \<Rightarrow> (int \<times> ('o, 'a) p9_state_scheme) option" where
  "ibm_cpu_p9_get_node_thermal_json E P s = each_block E P (\<lambda>_ iter buf s. json_get_thermal_sensors P iter buf s) s"

definition ibm_cpu_p9_get_node_frequency_json ::
  "'o opal_env \<Rightarrow> power_env \<Rightarrow> ('o, 'a) p9_state_scheme \<Rightarrow> (int \<times> ('o, 'a) p9_state_scheme) option" where
  "ibm_cpu_p9_get_node_frequency_json E P s = each_block E P (\<lambda>_ iter buf s. json_get_frequency_sensors iter buf s) s"

section \<open>Power limits\<close>

text \<open>The files in the order they are opened; None in the sum for the return of -1.\<close>

fun read_files ::
  "'o opal_env \<Rightarrow> opal_path list \<Rightarrow> ('o, 'a) p9_state_scheme \<Rightarrow> (int list option \<times> ('o, 'a) p9_state_scheme) option" where
  "read_files E [] s = Some (Some [], s)"
| "read_files E (f # fs) s =
    (case op_text E f (opal s) of
       None \<Rightarrow> Some (None, variorum_error_handler VARIORUM_ERROR_INVAL s)
     | Some text \<Rightarrow> do {
         n \<leftarrow> scan_file text;
         (ns, s) \<leftarrow> read_files E fs s;
         Some (map_option ((#) n) ns, s)
       })"

definition ibm_cpu_p9_get_power_limits ::
  "'o opal_env \<Rightarrow> power_env \<Rightarrow> int \<Rightarrow> ('o, 'a) p9_state_scheme \<Rightarrow> (int \<times> ('o, 'a) p9_state_scheme) option" where
  "ibm_cpu_p9_get_power_limits E P long_ver s = do {
     (ns, s) \<leftarrow> read_files E [Powercap_current, Powercap_max, Powercap_min, Psr_cpu_to_gpu_0, Psr_cpu_to_gpu_8] s;
     case ns of
       None \<Rightarrow> Some (-1, s)
     | Some ns \<Rightarrow>
         if long_ver = 0 then Some (0, say ([FS ''_POWERCAP'', FS (pe_host P)] @ map FI ns)
           (say (map FS [''_POWERCAP'', ''Host'', ''CurrentPower_W'', ''MaxPower_W'', ''MinPower_W'', ''PSR_CPU_to_GPU_0_%'', ''PSR_CPU_to_GPU_8_%'']) s))
         else Some (0, say ([FS ''_POWERCAP Host:, CurrentPower:, MaxPower:, MinPower:, PSR_CPU_to_GPU_0:, PSR_CPU_to_GPU_8:'', FS (pe_host P)] @ map FI ns) s)
   }"

definition ibm_cpu_p9_cap_and_verify_node_power_limit ::
  "'o opal_env \<Rightarrow> int \<Rightarrow> ('o, 'a) p9_state_scheme \<Rightarrow> (int \<times> ('o, 'a) p9_state_scheme) option" where
  "ibm_cpu_p9_cap_and_verify_node_power_limit E pcap_new s =
    (case op_create E Powercap_current (opal s) of
       None \<Rightarrow> Some (-1, variorum_error_handler VARIORUM_ERROR_INVAL s)
     | Some o' \<Rightarrow> do {
         let s = s\<lparr>opal := op_sleep E 100000 (op_store E Powercap_current (dec_int pcap_new) o')\<rparr>;
         (ns, s) \<leftarrow> read_files E [Powercap_current] s;
         case ns of
           None \<Rightarrow> Some (-1, s)
         | Some ns \<Rightarrow>
             if ns \<noteq> [pcap_new] then
               Some (-1, fold (\<lambda>l. say [FS l])
                 [''IBM systems may encounter a delay when setting power limits on the node.'',
                  ''We could not verify if the power cap was set correctly.'', ''The verification check after 100ms failed.'',
                  ''Please verify again with variorum_print_power_limit().''] s)
             else Some (0, say [FS ''Changed node power cap to'', FI pcap_new] s)
       })"

text \<open>Both files are opened, and so emptied, before the test; the return of -1 does not close the one that was.\<close>

definition ibm_cpu_p9_cap_gpu_power_ratio ::
  "'o opal_env \<Rightarrow> int \<Rightarrow> ('o, 'a) p9_state_scheme \<Rightarrow> (int \<times> ('o, 'a) p9_state_scheme) option" where
  "ibm_cpu_p9_cap_gpu_power_ratio E gpu_power_ratio s =
    (let fp1 = op_create E Psr_cpu_to_gpu_0 (opal s);
         s = (case fp1 of None \<Rightarrow> s | Some o' \<Rightarrow> s\<lparr>opal := o', opal_streams := opal_streams s + 1\<rparr>);
         fp2 = op_create E Psr_cpu_to_gpu_8 (opal s);
         s = (case fp2 of None \<Rightarrow> s | Some o' \<Rightarrow> s\<lparr>opal := o', opal_streams := opal_streams s + 1\<rparr>)
     in if fp1 = None \<or> fp2 = None then Some (-1, variorum_error_handler VARIORUM_ERROR_INVAL s)
        else
          let o' = op_store E Psr_cpu_to_gpu_0 (dec_int gpu_power_ratio) (opal s);
              o' = op_store E Psr_cpu_to_gpu_8 (dec_int gpu_power_ratio) o';
              s = s\<lparr>opal := op_sleep E 100000 o', opal_streams := opal_streams s - 2\<rparr>
          in Some (0, say [FS ''NOTE: A 100ms delay was added to allow for file operations to propagate out of band.'']
               (say [FS ''Changed power shifting ratio on both sockets to'', FI gpu_power_ratio, FS ''percent.''] s)))"

definition ibm_cpu_p9_cap_socket_power_limit :: "int \<Rightarrow> 'a rapl_state_scheme \<Rightarrow> (int \<times> 'a rapl_state_scheme) option" where
  "ibm_cpu_p9_cap_socket_power_limit long_ver s =
    Some (0, if long_ver = 0 \<or> long_ver = 1
      then say [FS ''Socket limits cannot be set separately on IBM Power9 architecture. Please use cap_node_power_limit API.''] s
      else s)"

text \<open>The object that is dumped into the string.\<close>

definition ibm_cpu_p9_get_node_power_domain_info_json ::
  "power_env \<Rightarrow> 'a rapl_state_scheme \<Rightarrow> (int \<times> (string list \<times> json_value) list \<times> 'a rapl_state_scheme) option" where
  "ibm_cpu_p9_get_node_power_domain_info_json P s = do {
     let host = pe_host P;
     let (tv, s) = gettimeofday P s;
     let ts = word_of_int (fst tv) * 1000000 + word_of_int (snd tv);
     Some (0,
       [([host], J_object),
        ([host, ''timestamp''], J_int ts),
        ([host, ''control''], J_object),
        ([host, ''control'', ''power_node''], J_object),
        ([host, ''control'', ''power_node'', ''min''], J_int 500),
        ([host, ''control'', ''power_node'', ''max''], J_int 3050),
        ([host, ''control'', ''power_node'', ''units''], J_string ''Watts''),
        ([host, ''control'', ''power_gpu''], J_object),
        ([host, ''control'', ''power_gpu'', ''min''], J_int 0),
        ([host, ''control'', ''power_gpu'', ''max''], J_int 100),
        ([host, ''control'', ''power_gpu'', ''units''], J_string ''Percentage''),
        ([host, ''unsupported''], J_array []),
        ([host, ''measurement''], J_object),
        ([host, ''measurement'', ''power_node''], J_object),
        ([host, ''measurement'', ''power_node'', ''units''], J_string ''Watts''),
        ([host, ''measurement'', ''power_cpu''], J_object),
        ([host, ''measurement'', ''power_cpu'', ''units''], J_string ''Watts''),
        ([host, ''measurement'', ''power_mem''], J_object),
        ([host, ''measurement'', ''power_mem'', ''units''], J_string ''Watts''),
        ([host, ''measurement'', ''power_gpu''], J_object),
        ([host, ''measurement'', ''power_gpu'', ''units''], J_string ''Watts'')], s)
   }"

section \<open>Energy\<close>

text \<open>The value take\_measurement returns is -1 as an unsigned long when the block cannot be read.\<close>

definition take_measurement ::
  "'o opal_env \<Rightarrow> power_env \<Rightarrow> ('o, 'a) p9_state_scheme \<Rightarrow> (u64 \<times> ('o, 'a) p9_state_scheme) option" where
  "take_measurement E P s = do {
     (buf, s) \<leftarrow> read_block E 0 s;
     case buf of
       None \<Rightarrow> Some (-1, s)
     | Some buf \<Rightarrow> do { w \<leftarrow> get_node_power P buf; Some (w, s) }
   }"

definition set_sampler :: "nat \<Rightarrow> sampler \<Rightarrow> ('o, 'a) p9_state_scheme \<Rightarrow> ('o, 'a) p9_state_scheme" where
  "set_sampler i t s = s\<lparr>samplers := (samplers s)[i := t]\<rparr>"

text \<open>
  One step of power_measurement in thread i at a time of the clock; the measurement, when it has been added to the sum. None when
  the thread cannot go on: it waits for the lock, or has returned.
\<close>

definition power_measurement ::
  "'o opal_env \<Rightarrow> power_env \<Rightarrow> u64 \<Rightarrow> nat \<Rightarrow> ('o, 'a) p9_state_scheme \<Rightarrow> (u64 option \<times> ('o, 'a) p9_state_scheme) option" where
  "power_measurement E P now i s =
    (case samplers s ! i of
       T_new \<Rightarrow>
         if \<not> op_open E (opal s)
         then Some (None, set_sampler i T_done (say [FS ''Failed to open occ_inband_sensors file''] s))
         else Some (None, set_sampler i (T_sleep (init_msTimer now (int_of_u64 (sample_interval s)))) (s\<lparr>occ_fds := occ_fds s + 1\<rparr>))
     | T_sleep t \<Rightarrow> do {
         (t, _, _) \<leftarrow> timer_sleep now t;
         Some (None, set_sampler i (T_check t) s)
       }
     | T_check t \<Rightarrow> Some (None, if active_sampling s then set_sampler i (T_lock t) s else set_sampler i T_done (close_occ s))
     | T_lock t \<Rightarrow> if mlock s = Unlocked then Some (None, set_sampler i (T_hold t) (s\<lparr>mlock := Locked (Some i)\<rparr>)) else None
     | T_hold t \<Rightarrow> do {
         (w, s) \<leftarrow> take_measurement E P s;
         Some (None, set_sampler i (T_add t w) s)
       }
     | T_add t w \<Rightarrow> Some (None, set_sampler i (T_store t w (energy_acc s)) s)
     | T_store t w acc \<Rightarrow> Some (Some w, set_sampler i (T_unlock t) (s\<lparr>energy_acc := acc + w * sample_interval s\<rparr>))
     | T_unlock t \<Rightarrow> Some (None, set_sampler i (T_sleep t) (s\<lparr>mlock := Unlocked\<rparr>))
     | T_done \<Rightarrow> None)"

text \<open>What the energy functions report: a line, or the entry of the object.\<close>

definition report_energy :: "power_env \<Rightarrow> energy_out \<Rightarrow> int \<times> int \<Rightarrow> ('o, 'a) p9_state_scheme \<Rightarrow> ('o, 'a) p9_state_scheme" where
  "report_energy P out now s =
    (case out of
       To_stdout long_ver \<Rightarrow>
         say [FS (if long_ver \<noteq> 0 then ''_IBMENERGY Host, Accumulated Energy, Timestamp'' else ''_IBMENERGY''),
           FS (pe_host P), FX (energy_acc s), FF (tv_diff now (start_at s Ibm_get_energy))] s
     | To_json \<Rightarrow> json_set [''energy_node_joules''] (J_int (energy_acc s)) s)"

text \<open>ibm\_cpu\_p9\_get\_energy takes the time, ibm\_cpu\_p9\_get\_node\_energy\_json does not.\<close>

definition energy_time :: "power_env \<Rightarrow> energy_out \<Rightarrow> 'a rapl_state_scheme \<Rightarrow> (int \<times> int) \<times> 'a rapl_state_scheme" where
  "energy_time P out s = (case out of To_stdout _ \<Rightarrow> gettimeofday P s | To_json \<Rightarrow> ((0, 0), s))"

text \<open>
  The header and the start time, in the first call of ibm\_cpu\_p9\_get\_energy.
\<close>

definition energy_first :: "power_env \<Rightarrow> energy_out \<Rightarrow> 'a rapl_state_scheme \<Rightarrow> 'a rapl_state_scheme" where
  "energy_first P out s =
    (case out of
       To_stdout long_ver \<Rightarrow>
         (let first = (Ibm_get_energy \<notin> inited s);
              s = set_inited Ibm_get_energy (start_once P Ibm_get_energy s)
          in if first \<and> long_ver = 0 then say [FS ''_IBMENERGY Host AccumulatedEnergy_J Timestamp_sec''] s else s)
     | To_json \<Rightarrow> s)"

text \<open>
  The two functions up to their first access to what the threads use beside active\_sampling: the first call switches sampling on,
  the next one switches it off.
\<close>

definition energy_call ::
  "power_env \<Rightarrow> energy_out \<Rightarrow> ('o, 'a) p9_state_scheme \<Rightarrow> ('o, 'a) p9_state_scheme" where
  "energy_call P out s =
    (let s = energy_first P out s;
         first = (\<not> active_sampling s);
         s = s\<lparr>active_sampling := first\<rparr>;
         (now, s) = energy_time P out s
     in s\<lparr>caller := if first then C_start out now else C_wait out now\<rparr>)"

text \<open>
  The steps after that: what was reported, if the step is a report. None when the caller cannot go on: outside of
  the functions, while the lock is held by a thread, and when it would initialise the lock while it is held, which is undefined.
\<close>

definition energy_step ::
  "power_env \<Rightarrow> ('o, 'a) p9_state_scheme \<Rightarrow> (u64 option \<times> ('o, 'a) p9_state_scheme) option" where
  "energy_step P s =
    (case caller s of
       C_idle \<Rightarrow> None
     | C_start out now \<Rightarrow> Some (None, s\<lparr>sample_interval := 250, caller := C_zero out now\<rparr>)
     | C_zero out now \<Rightarrow> Some (None, s\<lparr>energy_acc := 0, caller := C_tell out now\<rparr>)
     | C_tell out now \<Rightarrow> Some (Some (energy_acc s), report_energy P out now (s\<lparr>caller := C_init\<rparr>))
     | C_init \<Rightarrow> (case mlock s of Locked _ \<Rightarrow> None | _ \<Rightarrow> Some (None, s\<lparr>mlock := Unlocked, caller := C_create\<rparr>))
     | C_create \<Rightarrow> Some (None, s\<lparr>samplers := samplers s @ [T_new], caller := C_idle\<rparr>)
     | C_wait out now \<Rightarrow> if mlock s = Unlocked then Some (None, s\<lparr>mlock := Locked None, caller := C_report out now\<rparr>) else None
     | C_report out now \<Rightarrow> Some (Some (energy_acc s), report_energy P out now (s\<lparr>mlock := Unlocked, caller := C_idle\<rparr>)))"

text \<open>
  The functions as a caller sees them when no thread is in the way: at most five steps follow.
\<close>

definition energy_rest :: "power_env \<Rightarrow> ('o, 'a) p9_state_scheme \<Rightarrow> ('o, 'a) p9_state_scheme option" where
  "energy_rest P s = (if caller s = C_idle then Some s else map_option snd (energy_step P s))"

definition energy_through :: "power_env \<Rightarrow> energy_out \<Rightarrow> ('o, 'a) p9_state_scheme \<Rightarrow> (int \<times> ('o, 'a) p9_state_scheme) option" where
  "energy_through P out s = do {
     s \<leftarrow> energy_rest P (energy_call P out s);
     s \<leftarrow> energy_rest P s;
     s \<leftarrow> energy_rest P s;
     s \<leftarrow> energy_rest P s;
     s \<leftarrow> energy_rest P s;
     Some (0, s)
   }"

definition ibm_cpu_p9_get_energy ::
  "power_env \<Rightarrow> int \<Rightarrow> ('o, 'a) p9_state_scheme \<Rightarrow> (int \<times> ('o, 'a) p9_state_scheme) option" where
  "ibm_cpu_p9_get_energy P long_ver s = energy_through P (To_stdout long_ver) s"

definition ibm_cpu_p9_get_node_energy_json ::
  "power_env \<Rightarrow> ('o, 'a) p9_state_scheme \<Rightarrow> (int \<times> ('o, 'a) p9_state_scheme) option" where
  "ibm_cpu_p9_get_node_energy_json P s = energy_through P To_json s"

end
