(* ===== verification/Occ_Facts.thy ===== *)
theory Occ_Facts imports Occ_Sensors begin

text \<open>
  What the sensor functions compute: an abstract sensor block, the relation of a buffer that holds it, and
  the values the functions take from such a buffer. Sensors are found by name, the later of the two copies counts,
  and the scale is applied to the sample.
\<close>

section \<open>The abstract block\<close>

record occ_reading =
  or_time :: u64
  or_sample :: u16
  or_accumulator :: u64

record occ_sensor =
  os_name :: string
  os_scale :: u32
  os_full :: bool
  os_offset :: u32
  os_ping :: occ_reading
  os_pong :: occ_reading

record occ_block =
  ob_ping_valid :: bool
  ob_pong_valid :: bool
  ob_sensors :: "occ_sensor list"

definition current :: "occ_block \<Rightarrow> occ_sensor \<Rightarrow> occ_reading option" where
  "current B d =
    (if ob_ping_valid B \<and> (ob_pong_valid B \<longrightarrow> or_time (os_pong d) < or_time (os_ping d)) then Some (os_ping d)
     else if ob_pong_valid B then Some (os_pong d) else None)"

definition sample_of :: "occ_block \<Rightarrow> occ_sensor \<Rightarrow> u64" where
  "sample_of B d = (if os_full d then (case current B d of None \<Rightarrow> 0 | Some r \<Rightarrow> ucast (or_sample r)) else 0)"

definition named_value :: "power_env \<Rightarrow> occ_block \<Rightarrow> string \<Rightarrow> u64 option" where
  "named_value P B name =
    (case filter (\<lambda>d. os_name d = name) (ob_sensors B) of
       [] \<Rightarrow> Some 0
     | d # _ \<Rightarrow> u64_of_d (scaled P (sample_of B d) (os_scale d)))"

section \<open>A buffer that holds it\<close>

definition plain_name :: "string \<Rightarrow> bool" where
  "plain_name name \<longleftrightarrow> (\<forall>c \<in> set name. c \<noteq> CHR 0x00)"

definition holds_name :: "u8 list \<Rightarrow> nat \<Rightarrow> string \<Rightarrow> bool" where
  "holds_name buf p name \<longleftrightarrow> plain_name name \<and> bytes_at buf p (length name + 1) = Some (map char_byte name @ [0])"

definition holds_reading :: "u8 list \<Rightarrow> nat \<Rightarrow> bool \<Rightarrow> occ_reading \<Rightarrow> bool" where
  "holds_reading buf p full r \<longleftrightarrow> be64 buf (p + 2) = Some (or_time r) \<and>
     (if full then be16 buf (p + 10) = Some (or_sample r) \<and> be64 buf (p + 28) = Some (or_accumulator r)
      else be64 buf (p + 10) = Some (or_accumulator r))"

definition holds_sensor :: "u8 list \<Rightarrow> nat \<Rightarrow> nat \<Rightarrow> nat \<Rightarrow> occ_sensor \<Rightarrow> bool" where
  "holds_sensor buf md ping pong d \<longleftrightarrow> holds_name buf md (os_name d) \<and> md_scale_factor buf md = Some (os_scale d) \<and>
     md_structure_type buf md = Some (if os_full d then 1 else 2) \<and> md_reading_offset buf md = Some (os_offset d) \<and>
     holds_reading buf (ping + unat (os_offset d)) (os_full d) (os_ping d) \<and>
     holds_reading buf (pong + unat (os_offset d)) (os_full d) (os_pong d)"

definition holds_block :: "u8 list \<Rightarrow> occ_block \<Rightarrow> bool" where
  "holds_block buf B \<longleftrightarrow> (\<exists>names ping pong v w. hb_nr_sensors buf = Some (of_nat (length (ob_sensors B))) \<and>
     length (ob_sensors B) < 2 ^ 16 \<and> hb_names_offset buf = Some names \<and> hb_reading_ping_offset buf = Some ping \<and>
     hb_reading_pong_offset buf = Some pong \<and> byte_at buf (unat ping) = Some v \<and> (v \<noteq> 0) = ob_ping_valid B \<and>
     byte_at buf (unat pong) = Some w \<and> (w \<noteq> 0) = ob_pong_valid B \<and>
     (\<forall>i < length (ob_sensors B). holds_sensor buf (md_at names i) (unat ping) (unat pong) (ob_sensors B ! i)) \<and>
     distinct (map os_name (ob_sensors B)))"

section \<open>Strings\<close>

lemma char_byte_inj [simp]: "char_byte c = char_byte d \<longleftrightarrow> c = d"
proof
  assume "char_byte c = char_byte d"
  then have "unat (of_nat (of_char c) :: u8) = unat (of_nat (of_char d) :: u8)" by (simp add: char_byte_def)
  then have "(of_char c :: nat) = of_char d" by (simp add: unat_of_nat take_bit_eq_mod)
  then show "c = d" by (metis char_of_char)
qed simp

lemma char_byte_zero: "char_byte c = 0 \<longleftrightarrow> c = CHR 0x00"
  using char_byte_inj [of c "CHR 0x00"] by (simp add: char_byte_def)

lemma strncmp_at_eq:
  "bytes_at buf p (length cs) = Some cs \<Longrightarrow> strncmp_at buf p cs = Some True"
proof (induction cs arbitrary: p)
  case (Cons c cs)
  from Cons.prems have l: "p + Suc (length cs) \<le> length buf" and t: "take (Suc (length cs)) (drop p buf) = c # cs"
    by (auto simp: bytes_at_def split: if_splits)
  have "drop p buf = buf ! p # drop (Suc p) buf" using l by (intro Cons_nth_drop_Suc [symmetric]) simp
  with t have "buf ! p = c" "take (length cs) (drop (Suc p) buf) = cs" by simp_all
  then show ?case using Cons.IH [of "Suc p"] l by (simp add: byte_at_def bytes_at_def)
qed simp

text \<open>A comparison finds out whether the two strings are equal, and stays inside the name.\<close>

lemma strcmp_bytes:
  "plain_name lit \<Longrightarrow> holds_name buf p name \<Longrightarrow> strcmp_at buf p lit = Some (lit = name)"
proof (induction lit arbitrary: p name)
  case Nil
  then show ?case
    by (cases name) (auto simp: strcmp_at_def holds_name_def plain_name_def bytes_at_def byte_at_def char_byte_zero
        hd_drop_conv_nth [symmetric] take_Suc split: if_splits)
next
  case (Cons c lit)
  from Cons.prems(2) have l: "p + length name + 1 \<le> length buf"
    and t: "take (length name + 1) (drop p buf) = map char_byte name @ [0]"
    by (auto simp: holds_name_def bytes_at_def split: if_splits)
  have d: "drop p buf = buf ! p # drop (Suc p) buf" using l by (intro Cons_nth_drop_Suc [symmetric]) simp
  show ?case
  proof (cases name)
    case Nil
    then have "buf ! p = 0" using t d by simp
    then show ?thesis using Nil l Cons.prems(1) char_byte_zero [of c] by (auto simp: strcmp_at_def byte_at_def plain_name_def)
  next
    case (Cons e name')
    then have h: "buf ! p = char_byte e" "holds_name buf (Suc p) name'"
      using t d l Cons.prems(2) by (auto simp: holds_name_def bytes_at_def plain_name_def)
    then show ?thesis
      using Cons l Cons.IH [of "Suc p" name'] Cons.prems(1) by (auto simp: strcmp_at_def byte_at_def plain_name_def)
  qed
qed

section \<open>Readings\<close>

text \<open>The offsets of a block, fixed once for the lemmas below.\<close>

definition block_parts :: "u8 list \<Rightarrow> occ_block \<Rightarrow> u32 \<Rightarrow> nat \<Rightarrow> nat \<Rightarrow> bool" where
  "block_parts buf B names ping pong \<longleftrightarrow> hb_nr_sensors buf = Some (of_nat (length (ob_sensors B))) \<and>
     length (ob_sensors B) < 2 ^ 16 \<and> hb_names_offset buf = Some names \<and>
     map_option unat (hb_reading_ping_offset buf) = Some ping \<and> map_option unat (hb_reading_pong_offset buf) = Some pong \<and>
     (\<exists>v. byte_at buf ping = Some v \<and> (v \<noteq> 0) = ob_ping_valid B) \<and>
     (\<exists>w. byte_at buf pong = Some w \<and> (w \<noteq> 0) = ob_pong_valid B) \<and>
     (\<forall>i < length (ob_sensors B). holds_sensor buf (md_at names i) ping pong (ob_sensors B ! i)) \<and>
     distinct (map os_name (ob_sensors B))"

lemma holds_block_parts:
  assumes "holds_block buf B"
  obtains names ping pong where "block_parts buf B names ping pong"
proof -
  from assms obtain names ping pong v w where "hb_nr_sensors buf = Some (of_nat (length (ob_sensors B)))"
    "length (ob_sensors B) < 2 ^ 16" "hb_names_offset buf = Some names" "hb_reading_ping_offset buf = Some ping"
    "hb_reading_pong_offset buf = Some pong" "byte_at buf (unat ping) = Some v" "(v \<noteq> 0) = ob_ping_valid B"
    "byte_at buf (unat pong) = Some w" "(w \<noteq> 0) = ob_pong_valid B"
    "\<forall>i < length (ob_sensors B). holds_sensor buf (md_at names i) (unat ping) (unat pong) (ob_sensors B ! i)"
    "distinct (map os_name (ob_sensors B))"
    unfolding holds_block_def by (elim exE conjE)
  then have "block_parts buf B names (unat ping) (unat pong)" by (simp add: block_parts_def)
  then show thesis by (rule that)
qed

lemma descriptions_parts:
  "block_parts buf B names ping pong \<Longrightarrow>
    descriptions buf = Some (map (md_at names) [0..<length (ob_sensors B)])"
  by (simp add: block_parts_def descriptions_def unat_of_nat_small)

lemma read_sensor_parts:
  assumes "block_parts buf B names ping pong" "holds_sensor buf md ping pong d"
  shows "os_full d \<Longrightarrow> read_sensor buf (os_offset d) SENSOR_SAMPLE =
      Some (case current B d of None \<Rightarrow> 0 | Some r \<Rightarrow> ucast (or_sample r))"
    "os_full d \<Longrightarrow> read_sensor buf (os_offset d) SENSOR_ACCUMULATOR =
      Some (case current B d of None \<Rightarrow> 0 | Some r \<Rightarrow> or_accumulator r)"
    "\<not> os_full d \<Longrightarrow> read_counter buf (os_offset d) =
      Some (case current B d of None \<Rightarrow> 0 | Some r \<Rightarrow> or_accumulator r)"
  using assms
  by (auto simp: block_parts_def holds_sensor_def holds_reading_def read_sensor_def read_counter_def fresh_copy_def
      current_def Let_def not_less)

lemma full_sample_parts:
  assumes "block_parts buf B names ping pong" "holds_sensor buf md ping pong d"
  shows "full_sample buf md (os_offset d) = Some (sample_of B d)"
  using read_sensor_parts(1) [OF assms] assms(2)
  by (simp add: full_sample_def holds_sensor_def sample_of_def OCC_SENSOR_READING_FULL_def)

section \<open>The values by name\<close>

text \<open>What the sensors d of a list make of the variable v of a name: each one of that name sets it.\<close>

fun assigned :: "power_env \<Rightarrow> occ_block \<Rightarrow> string \<Rightarrow> occ_sensor list \<Rightarrow> u64 \<Rightarrow> u64 option" where
  "assigned P B name [] v = Some v"
| "assigned P B name (d # ds) v = do {
     v \<leftarrow> (if name = os_name d then u64_of_d (scaled P (sample_of B d) (os_scale d)) else Some v);
     assigned P B name ds v
   }"

lemma assigned_none: "name \<notin> os_name ` set ds \<Longrightarrow> assigned P B name ds v = Some v"
  by (induction ds arbitrary: v) auto

lemma assigned_distinct:
  "distinct (map os_name (ob_sensors B)) \<Longrightarrow> assigned P B name (ob_sensors B) 0 = named_value P B name"
proof -
  have "assigned P B name ds 0 = (case filter (\<lambda>d. os_name d = name) ds of
      [] \<Rightarrow> Some 0 | d # _ \<Rightarrow> u64_of_d (scaled P (sample_of B d) (os_scale d)))"
    if "distinct (map os_name ds)" for ds
    using that
  proof (induction ds)
    case (Cons d ds)
    then show ?case
      by (cases "u64_of_d (scaled P (sample_of B d) (os_scale d))") (auto simp: assigned_none)
  qed simp
  then show "distinct (map os_name (ob_sensors B)) \<Longrightarrow> ?thesis" by (simp add: named_value_def)
qed

text \<open>All variables at once: None as soon as one of the values does not fit.\<close>

fun all_assigned :: "power_env \<Rightarrow> occ_block \<Rightarrow> string list \<Rightarrow> occ_sensor list \<Rightarrow> u64 list \<Rightarrow> u64 list option" where
  "all_assigned P B (name # names) ds (v # vs) = do {
     v \<leftarrow> assigned P B name ds v;
     vs \<leftarrow> all_assigned P B names ds vs;
     Some (v # vs)
   }"
| "all_assigned P B names ds vs = Some vs"

lemma all_assigned_Nil: "all_assigned P B names [] vs = Some vs"
  by (induction P B names "[] :: occ_sensor list" vs rule: all_assigned.induct) auto

lemma all_assigned_Cons:
  "all_assigned P B names (d # ds) vs =
    Option.bind (all_assigned P B names [d] vs) (all_assigned P B names ds)"
proof (induction P B names "d # ds" vs rule: all_assigned.induct)
  case (1 P B name names v vs)
  then show ?case
    by (cases "name = os_name d"; cases "u64_of_d (scaled P (sample_of B d) (os_scale d))";
        cases "all_assigned P B names [d] vs")
      (auto simp: bind_eq_Some_conv split: Option.bind_split)
qed auto

lemma set_named_assigned:
  assumes "holds_name buf md (os_name d)" "\<forall>n \<in> set names. plain_name n"
  shows "set_named P buf md (sample_of B d) (os_scale d) names vs = all_assigned P B names [d] vs"
  using assms(2)
proof (induction names arbitrary: vs)
  case (Cons name names)
  then show ?case using strcmp_bytes [OF _ assms(1), of name]
    by (cases vs) (auto split: if_splits)
qed simp

lemma power_loop_assigned:
  assumes "block_parts buf B names ping pong" "\<forall>n \<in> set ns. plain_name n"
    "list_all2 (\<lambda>md d. holds_sensor buf md ping pong d) mds ds"
  shows "power_loop P buf ns mds vs = all_assigned P B ns ds vs"
  using assms(3)
proof (induction mds ds arbitrary: vs rule: list_all2_induct)
  case Nil
  then show ?case by (simp add: all_assigned_Nil)
next
  case (Cons md mds d ds)
  have n: "holds_name buf md (os_name d)" "md_reading_offset buf md = Some (os_offset d)" "md_scale_factor buf md = Some (os_scale d)"
    using Cons.hyps(1) by (simp_all add: holds_sensor_def)
  show ?case
    using n(2,3) full_sample_parts [OF assms(1) Cons.hyps(1)]
    by (simp add: set_named_assigned [OF n(1) assms(2)] all_assigned_Cons [of _ _ _ d ds] ext [OF Cons.IH])
qed

lemma power_values_block:
  assumes "holds_block buf B" "\<forall>n \<in> set names. plain_name n"
  shows "power_values P buf names = those (map (named_value P B) names)"
proof -
  obtain noff ping pong where p: "block_parts buf B noff ping pong" using holds_block_parts [OF assms(1)] .
  have l: "list_all2 (\<lambda>md d. holds_sensor buf md ping pong d) (map (md_at noff) [0..<length (ob_sensors B)]) (ob_sensors B)"
    using p by (simp add: block_parts_def list_all2_conv_all_nth)
  have d: "distinct (map os_name (ob_sensors B))" using p by (simp add: block_parts_def)
  have a: "all_assigned P B ns (ob_sensors B) (replicate (length ns) 0) = those (map (named_value P B) ns)" for ns
  proof (induction ns)
    case (Cons n ns)
    then show ?case using assigned_distinct [OF d, of P n]
      by (cases "named_value P B n"; cases "those (map (named_value P B) ns)") auto
  qed simp
  show ?thesis
    unfolding power_values_def descriptions_parts [OF p] by (simp add: power_loop_assigned [OF p assms(2) l] a)
qed

end
