(* ===== verification/Power9_Facts.thy ===== *)
theory Power9_Facts imports Power9 Occ_Facts Arch_Facts begin

text \<open>
  What the functions of Power9.c do on a firmware that serves its sensor file: the loop of reads puts the blocks
  together however the reads are cut, every socket is reported, and the descriptor is closed. A firmware that does not
  have all blocks makes the call fail, and leaves the descriptor open.
\<close>

section \<open>Reading\<close>

text \<open>
  The documented behaviour of open and read on the sensor file, \<open>img\<close> being its contents: a read before the end
  returns at least one byte and no more than were asked for, one at the end returns none.
\<close>

definition serves :: "'o opal_env \<Rightarrow> ('o \<Rightarrow> u8 list) \<Rightarrow> bool" where
  "serves E img \<longleftrightarrow> (\<forall>o'. op_open E o' \<and> op_malloc E o') \<and>
     (\<forall>o' pos n. 0 < n \<longrightarrow> (\<exists>k o''. op_read E pos n o' = (Some (take k (drop pos (img o'))), o'') \<and> img o'' = img o' \<and>
        0 < k \<and> k \<le> n))"

lemma read_loop_serves:
  assumes "serves E img" "got = take (length got) (drop pos (img o'))" "length got \<le> OCC_SENSOR_DATA_BLOCK_SIZE"
  shows "\<exists>o''. read_loop E pos got o' = Some (take OCC_SENSOR_DATA_BLOCK_SIZE (drop pos (img o')), o'') \<and> img o'' = img o'"
  using assms(2,3)
proof (induction "OCC_SENSOR_DATA_BLOCK_SIZE - length got" arbitrary: got o' rule: less_induct)
  case less
  let ?S = OCC_SENSOR_DATA_BLOCK_SIZE
  show ?case
  proof (cases "length got < ?S")
    case True
    obtain k o'' where k: "op_read E (pos + length got) (?S - length got) o' = (Some (take k (drop (pos + length got) (img o'))), o'')"
      "img o'' = img o'" "0 < k" "k \<le> ?S - length got"
      using assms(1) [unfolded serves_def, THEN conjunct2, rule_format, of "?S - length got" "pos + length got" o'] True by auto
    let ?bs = "take k (drop (pos + length got) (img o'))"
    have bs: "?bs = take k (drop (length got) (drop pos (img o')))" by (simp add: add.commute)
    show ?thesis
    proof (cases "?bs = []")
      case eof: True
      then have "drop (length got) (drop pos (img o')) = []" using k(3) unfolding bs by simp
      then have "take ?S (drop pos (img o')) = got"
        using less.prems by (metis append.right_neutral append_take_drop_id drop_eq_Nil less.prems(2) order_trans take_all)
      then show ?thesis using eof k by (simp add: read_loop.simps [of E pos got] True)
    next
      case False
      have app: "got @ ?bs = take (length got + k) (drop pos (img o'))"
        unfolding bs take_add using less.prems(1) by simp
      have le: "length ?bs \<le> ?S - length got" using k(4) by simp
      have "length (got @ ?bs) \<le> ?S" using True le by simp
      moreover have "got @ ?bs = take (length (got @ ?bs)) (drop pos (img o''))"
        unfolding app k(2) by (metis length_drop length_take min.commute take_take take_all_iff nle_le min.absorb_iff1)
      moreover have "?S - length (got @ ?bs) < ?S - length got" proof -
        have "0 < length ?bs" using False by (simp only: length_greater_0_conv not_False_eq_True)
        then show ?thesis unfolding length_append using True by linarith
      qed
      ultimately obtain o3 where "read_loop E pos (got @ ?bs) o'' = Some (take ?S (drop pos (img o'')), o3)" "img o3 = img o''"
        using less.hyps by blast
      then show ?thesis using False True le k by (simp add: read_loop.simps [of E pos got])
    qed
  next
    case False
    then have "length got = ?S" using less.prems(2) by simp
    then have "got = take ?S (drop pos (img o'))" using less.prems(1) by metis
    moreover have "read_loop E pos got o' = Some (got, o')" using False by (simp add: read_loop.simps [of E pos got])
    ultimately show ?thesis by metis
  qed
qed

text \<open>The bytes of the block of a socket.\<close>

definition block_of :: "u8 list \<Rightarrow> nat \<Rightarrow> u8 list" where
  "block_of file i = take OCC_SENSOR_DATA_BLOCK_SIZE (drop (i * OCC_SENSOR_DATA_BLOCK_SIZE) file)"

definition has_blocks :: "u8 list \<Rightarrow> nat \<Rightarrow> bool" where
  "has_blocks file n \<longleftrightarrow> n * OCC_SENSOR_DATA_BLOCK_SIZE \<le> length file \<and> n * OCC_SENSOR_DATA_BLOCK_SIZE < 2 ^ 32"

lemma length_block_of:
  "length (block_of file i) = OCC_SENSOR_DATA_BLOCK_SIZE \<longleftrightarrow> (i + 1) * OCC_SENSOR_DATA_BLOCK_SIZE \<le> length file"
  by (auto simp: block_of_def OCC_SENSOR_DATA_BLOCK_SIZE_def)

lemma block_position:
  assumes "i * OCC_SENSOR_DATA_BLOCK_SIZE < 2 ^ 32"
  shows "unat ((of_nat i :: u32) * of_nat OCC_SENSOR_DATA_BLOCK_SIZE) = i * OCC_SENSOR_DATA_BLOCK_SIZE"
proof -
  have "(of_nat i :: u32) * of_nat OCC_SENSOR_DATA_BLOCK_SIZE = of_nat (i * OCC_SENSOR_DATA_BLOCK_SIZE)" by simp
  moreover have "unat (of_nat (i * OCC_SENSOR_DATA_BLOCK_SIZE) :: u32) = i * OCC_SENSOR_DATA_BLOCK_SIZE"
    by (rule unat_of_nat_small) (use assms in simp)
  ultimately show ?thesis by (simp only:)
qed

lemma read_block_serves:
  assumes "serves E img" "i * OCC_SENSOR_DATA_BLOCK_SIZE < 2 ^ 32"
  shows "\<exists>o'. img o' = img (opal s) \<and> read_block E (of_nat i) s =
    (if (i + 1) * OCC_SENSOR_DATA_BLOCK_SIZE \<le> length (img (opal s))
     then Some (Some (block_of (img (opal s)) i), s\<lparr>opal := o'\<rparr>)
     else Some (None, say [FS ''Failed to read data''] (s\<lparr>opal := o'\<rparr>)))"
proof -
  obtain o' where "read_loop E (i * OCC_SENSOR_DATA_BLOCK_SIZE) [] (opal s) = Some (block_of (img (opal s)) i, o')"
    "img o' = img (opal s)"
    using read_loop_serves [OF assms(1), of "[]" "i * OCC_SENSOR_DATA_BLOCK_SIZE" "opal s"] by (auto simp: block_of_def)
  then show ?thesis
    using assms(1) length_block_of [of "img (opal s)" i]
    by (auto simp: read_block_def block_position [OF assms(2)] serves_def)
qed

section \<open>All sockets\<close>

text \<open>What a body must keep: the descriptors and the firmware.\<close>

definition same_files :: "('o, 'a) p9_state_scheme \<Rightarrow> ('o, 'a) p9_state_scheme \<Rightarrow> bool" where
  "same_files s s' \<longleftrightarrow> occ_fds s' = occ_fds s \<and> opal s' = opal s"

text \<open>The loop over blocks that are all there: the body is run on each, before the rest of the sockets.\<close>

lemma block_loop_serves:
  assumes "serves E img" "has_blocks (img (opal s)) n" "\<forall>i \<in> set iz. i < n"
    "I s []" "\<And>s js i o'. I s js \<Longrightarrow> I (s\<lparr>opal := o'\<rparr>) js"
    "\<And>s js i. I s js \<Longrightarrow> i < n \<Longrightarrow> img (opal s) = bytes \<Longrightarrow>
       \<exists>s'. body i (block_of bytes i) s = Some s' \<and> I s' (js @ [i]) \<and> same_files s s'"
    "img (opal s) = bytes"
  shows "\<exists>s'. block_loop E body (iz @ rest) s = block_loop E body rest s' \<and> I s' iz \<and> img (opal s') = bytes \<and> occ_fds s' = occ_fds s"
proof -
  have "\<exists>s'. block_loop E body (iz @ rest) s = block_loop E body rest s' \<and> I s' (js @ iz) \<and> img (opal s') = bytes \<and> occ_fds s' = occ_fds s"
    if "\<forall>i \<in> set iz. i < n" "I s js" "img (opal s) = bytes" "has_blocks bytes n" for s js
    using that
  proof (induction iz arbitrary: s js)
    case (Cons i iz)
    have i: "i < n" using Cons.prems(1) by simp
    then have "(i + 1) * OCC_SENSOR_DATA_BLOCK_SIZE \<le> n * OCC_SENSOR_DATA_BLOCK_SIZE" by (intro mult_le_mono1) simp
    then have b: "(i + 1) * OCC_SENSOR_DATA_BLOCK_SIZE \<le> length bytes" "i * OCC_SENSOR_DATA_BLOCK_SIZE < 2 ^ 32"
      using Cons.prems(4) by (auto simp: has_blocks_def)
    obtain o' where o': "img o' = bytes" "read_block E (of_nat i) s = Some (Some (block_of bytes i), s\<lparr>opal := o'\<rparr>)"
      using read_block_serves [OF assms(1) b(2), of s] b(1) Cons.prems(3) by auto
    obtain s2 where s2: "body i (block_of bytes i) (s\<lparr>opal := o'\<rparr>) = Some s2" "I s2 (js @ [i])" "same_files (s\<lparr>opal := o'\<rparr>) s2"
      using assms(6) [OF assms(5) [OF Cons.prems(2)] i, of o'] o'(1) by auto
    show ?case
      using Cons.IH [of s2 "js @ [i]"] Cons.prems s2 o' by (auto simp: same_files_def)
  qed auto
  from this [OF assms(3,4,7)] assms(2,7) show ?thesis by simp
qed

lemma get_topo_p9:
  assumes "hwloc_good H" "idx < length (g_platform s)"
  shows "\<exists>g. get_topo H idx s = Some (machine_topo H, s\<lparr>g_platform := g, init_variorum_init_topology := True\<rparr>) \<and>
    length g = length (g_platform s)"
  unfolding get_topo_good [OF assms] upd_platform_def
  by (rule exI [of _ "(g_platform s)[idx := fill_platform H (g_platform s ! idx)]"]) simp

end
