(* ===== verification/Power9_Session.thy ===== *)
theory Power9_Session imports Power9_Facts Api_Facts begin

text \<open>
  The functions of variorum.c on a build for IBM processors: the functions of Power9.c behind the pointers of the
  platform table (\<open>p9_api\<close>), and variorum_enter and variorum_exit as a second provider of the \<open>bracket\<close>
  contract, which they meet without opening any device.
\<close>

section \<open>The function pointers\<close>

definition p9_int_call ::
  "'o opal_env \<Rightarrow> power_env \<Rightarrow> op \<Rightarrow> int list \<Rightarrow> ('o, 'a) p9_state_scheme \<Rightarrow> (int \<times> ('o, 'a) p9_state_scheme) option" where
  "p9_int_call E P f args s =
    (case (f, args) of
       (get_power, [x]) \<Rightarrow> ibm_cpu_p9_get_power E P x s
     | (get_power_limits, [x]) \<Rightarrow> ibm_cpu_p9_get_power_limits E P x s
     | (cap_and_verify_node_power_limit, [x]) \<Rightarrow> ibm_cpu_p9_cap_and_verify_node_power_limit E x s
     | (cap_socket_power_limit, [x]) \<Rightarrow> ibm_cpu_p9_cap_socket_power_limit x s
     | (cap_gpu_power_ratio, [x]) \<Rightarrow> ibm_cpu_p9_cap_gpu_power_ratio E x s
     | (monitoring, [x]) \<Rightarrow> ibm_cpu_p9_monitoring E P s
     | (get_energy, [x]) \<Rightarrow> ibm_cpu_p9_get_energy P x s
     | _ \<Rightarrow> None)"

definition p9_json_call ::
  "'o opal_env \<Rightarrow> power_env \<Rightarrow> op \<Rightarrow> ('o, 'a) p9_state_scheme \<Rightarrow> (int \<times> ('o, 'a) p9_state_scheme) option" where
  "p9_json_call E P f s =
    (case f of
       get_power_json \<Rightarrow> ibm_cpu_p9_get_power_json E P s
     | get_node_thermal_json \<Rightarrow> ibm_cpu_p9_get_node_thermal_json E P s
     | get_node_frequency_json \<Rightarrow> ibm_cpu_p9_get_node_frequency_json E P s
     | get_node_energy_json \<Rightarrow> ibm_cpu_p9_get_node_energy_json P s
     | _ \<Rightarrow> None)"

definition p9_api ::
  "'o opal_env \<Rightarrow> power_env \<Rightarrow> (string list \<times> json_value) list json_lib \<Rightarrow> int \<times> int \<Rightarrow> string \<Rightarrow>
    (('o, 'a) p9_state_scheme, (string list \<times> json_value) list) api_env" where
  "p9_api E P L now name = \<lparr>
     api_call = (\<lambda>h args s. case h of ibm_cpu_p9 f \<Rightarrow> p9_int_call E P f args s | _ \<Rightarrow> None),
     api_json_call = (\<lambda>h node s. case h of
         ibm_cpu_p9 f \<Rightarrow> do {
           (rc, t) \<leftarrow> p9_json_call E P f (s\<lparr>json_sets := node\<rparr>);
           Some (rc, json_sets t, t\<lparr>json_sets := json_sets s\<rparr>)
         }
       | _ \<Rightarrow> None),
     api_str_call = (\<lambda>h s. case h of
         ibm_cpu_p9 f \<Rightarrow>
           if f = get_node_power_domain_info_json then do {
             (rc, obj, s) \<leftarrow> ibm_cpu_p9_get_node_power_domain_info_json P s;
             Some (rc, json_dumps L obj, s)
           } else None
       | _ \<Rightarrow> None),
     api_json = L, api_timeofday = now, api_hostname = name\<rparr>"

section \<open>Enter and exit\<close>

definition ibm_build :: build where
  "ibm_build = (\<lambda>k. k = IBM_CPU)"

lemma ibm_build_simps [simp]:
  "ibm_build IBM_CPU" "\<not> ibm_build INTEL_GPU" "\<not> ibm_build INTEL_CPU" "\<not> ibm_build NVIDIA_GPU"
  "\<not> ibm_build ARM_CPU" "\<not> ibm_build AMD_CPU" "\<not> ibm_build AMD_GPU"
  "P_NUM_PLATFORMS ibm_build = 1" "P_IDX ibm_build IBM_CPU = 0"
  by (simp_all add: ibm_build_def P_NUM_PLATFORMS_def platforms_def platform_enum_def P_IDX_def)

definition p9_ptrs :: "(slot \<times> handler) list" where
  "p9_ptrs =
    [(Print_power, ibm_cpu_p9 get_power), (Print_power_limit, ibm_cpu_p9 get_power_limits),
     (Cap_best_effort_node_power_limit, ibm_cpu_p9 cap_and_verify_node_power_limit),
     (Cap_each_socket_power_limit, ibm_cpu_p9 cap_socket_power_limit),
     (Cap_gpu_power_ratio, ibm_cpu_p9 cap_gpu_power_ratio), (Monitoring, ibm_cpu_p9 monitoring),
     (Get_power_json, ibm_cpu_p9 get_power_json),
     (Get_node_power_domain_info_json, ibm_cpu_p9 get_node_power_domain_info_json),
     (Print_energy, ibm_cpu_p9 get_energy), (Get_thermals_json, ibm_cpu_p9 get_node_thermal_json),
     (Get_frequency_json, ibm_cpu_p9 get_node_frequency_json),
     (Get_energy_json, ibm_cpu_p9 get_node_energy_json)]"

definition p9_table :: "slot \<Rightarrow> handler option" where
  "p9_table = fptr (install p9_ptrs zero_platform)"

definition p9_pre :: "sys_env \<Rightarrow> 'a arch_state_scheme \<Rightarrow> bool" where
  "p9_pre V s \<longleftrightarrow> hwloc_good (sys_hw V) \<and> length (g_platform s) = 2"

definition p9_usable :: "sys_env \<Rightarrow> 'a arch_state_scheme \<Rightarrow> 'a arch_state_scheme \<Rightarrow> bool" where
  "p9_usable V s t \<longleftrightarrow> p9_pre V s \<and> length (g_platform t) = 2 \<and> arch_id (g_platform t ! 0) = Live 9 \<and>
     fptr (g_platform t ! 0) = p9_table"

text \<open>Only the table is different after variorum_enter.\<close>

definition p9_opened :: "sys_env \<Rightarrow> 'a arch_state_scheme \<Rightarrow> 'a arch_state_scheme \<Rightarrow> bool" where
  "p9_opened V s t \<longleftrightarrow> p9_usable V s t \<and> (\<exists>g. t = s\<lparr>g_platform := g, init_variorum_init_topology := True\<rparr>)"

definition p9_keeps :: "'a arch_state_scheme \<Rightarrow> 'a arch_state_scheme \<Rightarrow> bool" where
  "p9_keeps t t' \<longleftrightarrow> length (g_platform t') = length (g_platform t) \<and>
     arch_id (g_platform t' ! 0) = arch_id (g_platform t ! 0) \<and> fptr (g_platform t' ! 0) = fptr (g_platform t ! 0)"

definition p9_closed :: "'a arch_state_scheme \<Rightarrow> 'a arch_state_scheme \<Rightarrow> bool" where
  "p9_closed t u \<longleftrightarrow> (\<exists>g. u = t\<lparr>g_platform := g\<rparr> \<and> length g = length (g_platform t))"

lemma set_ibm_func_ptrs_p9:
  assumes "idx < length (g_platform s)" "arch_id (g_platform s ! idx) = Live 9"
  shows "set_ibm_func_ptrs idx s = Some (0, upd_platform idx (install p9_ptrs) s)"
  using assms by (simp add: set_ibm_func_ptrs_def platform_arch_def set_platform_Some p9_ptrs_def POWER9_def)

lemma p9_enter_opened:
  assumes "p9_pre V s"
  shows "\<exists>t. variorum_enter ibm_build V s = Some (0, t) \<and> p9_opened V s t"
proof -
  let ?H = "sys_hw V"
  have h: "hwloc_good ?H" using assms by (simp add: p9_pre_def)
  obtain p0 p1 where g: "g_platform s = [p0, p1]"
    using assms by (auto simp: p9_pre_def numeral_2_eq_2 length_Suc_conv)
  let ?p = "(fill_platform ?H (clear_func_ptrs p0))\<lparr>arch_id := Live 9\<rparr>"
  have 1: "variorum_init_func_ptrs ibm_build (g_platform s) = Some [clear_func_ptrs p0, p1]"
    by (simp add: variorum_init_func_ptrs_def g)
  have 2: "topology_loop ?H [0] (s\<lparr>g_platform := [clear_func_ptrs p0, p1]\<rparr>) =
      Some (s\<lparr>g_platform := [fill_platform ?H (clear_func_ptrs p0), p1], init_variorum_init_topology := True\<rparr>)"
    using h by (simp add: get_topo_good upd_platform_def)
  have 3: "variorum_detect_arch ibm_build V
      (s\<lparr>g_platform := [fill_platform ?H (clear_func_ptrs p0), p1], init_variorum_init_topology := True\<rparr>) =
      Some (0, s\<lparr>g_platform := [?p, p1], init_variorum_init_topology := True\<rparr>)"
    by (simp add: variorum_detect_arch_def set_arch_def set_platform_Some upd_platform_def log_arch_def
        platform_arch_def detect_ibm_arch_def)
  have 4: "set_ibm_func_ptrs 0 (s\<lparr>g_platform := [?p, p1], init_variorum_init_topology := True\<rparr>) =
      Some (0, s\<lparr>g_platform := [install p9_ptrs ?p, p1], init_variorum_init_topology := True\<rparr>)"
    by (subst set_ibm_func_ptrs_p9) (simp_all add: upd_platform_def)
  have e: "variorum_enter ibm_build V s =
      Some (0, s\<lparr>g_platform := [install p9_ptrs ?p, p1], init_variorum_init_topology := True\<rparr>)"
    using 1 2 3 4 by (simp add: variorum_enter_def variorum_set_func_ptrs_def del: topology_loop.simps)
  have "fptr (install p9_ptrs ?p) = p9_table"
    by (rule ext) (simp add: p9_table_def fptr_install zero_platform_def fill_platform_def split: option.split)
  moreover have "arch_id (install p9_ptrs ?p) = Live 9" by (simp add: p9_ptrs_def install_def)
  ultimately show ?thesis using e assms by (auto simp: p9_opened_def p9_usable_def)
qed

lemma p9_exit_closed:
  assumes "p9_usable V s t"
  shows "\<exists>u. variorum_exit ibm_build V t = Some (0, u) \<and> p9_closed t u"
  using assms by (auto simp: p9_usable_def variorum_exit_def p9_closed_def upd_platform_def intro!: exI [of _ "(g_platform t)[0 := _]"])

interpretation p9: bracket "p9_pre V" "p9_opened V" "p9_usable V" p9_keeps p9_closed
  "variorum_enter ibm_build V" "variorum_exit ibm_build V" for V
proof
  fix s t t' u :: "'a arch_state_scheme"
  show "p9_pre V s \<Longrightarrow> \<exists>t. variorum_enter ibm_build V s = Some (0, t) \<and> p9_opened V s t" by (rule p9_enter_opened)
  show "p9_opened V s t \<Longrightarrow> p9_usable V s t" by (simp add: p9_opened_def)
  show "p9_usable V s t \<Longrightarrow> p9_keeps t t' \<Longrightarrow> p9_usable V s t'" by (simp add: p9_usable_def p9_keeps_def)
  show "p9_usable V s t \<Longrightarrow> \<exists>u. variorum_exit ibm_build V t = Some (0, u) \<and> p9_closed t u" by (rule p9_exit_closed)
  show "p9_usable V s t \<Longrightarrow> p9_closed t u \<Longrightarrow> p9_pre V u" by (auto simp: p9_usable_def p9_pre_def p9_closed_def)
qed

lemma p9_session: "session ibm_build V out body s = p9.run V out body s"
  by (auto simp: session_def p9.run_def split: option.splits prod.splits)

section \<open>Calls\<close>

lemma get_slot_p9: "p9_opened V s t \<Longrightarrow> get_slot 0 sl t = Some (p9_table sl)"
  by (simp add: p9_opened_def p9_usable_def get_slot_def)

text \<open>The bodies that call one function and look at its result.\<close>

definition p9_body ::
  "(('o, 'a) p9_state_scheme, 'j) api_env \<Rightarrow> handler \<Rightarrow> int list \<Rightarrow> ('o, 'a) p9_state_scheme \<Rightarrow>
    (int option \<times> ('o, 'a) p9_state_scheme) option" where
  "p9_body A h args t = do { (err, t) \<leftarrow> api_call A h args t; Some (if err \<noteq> 0 then Some (-1) else None, t) }"

lemma p9_loop_body:
  assumes "p9_opened V s t" "p9_table sl = Some h"
  shows "skip_loop A sl args [0] t = p9_body A h args t" "stop_loop A sl args [0] t = p9_body A h args t"
  using get_slot_p9 [OF assms(1), of sl] assms(2)
  by (cases "api_call A h args t"; auto simp: p9_body_def)+

text \<open>A call whose feature function returns 0: it ends in the state the function left, up to the table.\<close>

lemma p9_call:
  assumes "p9_pre V s" "\<And>t. p9_opened V s t \<Longrightarrow> body t = p9_body A h args t"
    "\<And>t. p9_opened V s t \<Longrightarrow> \<exists>t'. api_call A h args t = Some (0, t') \<and> p9_keeps t t' \<and> Q t'"
  shows "\<exists>t' g. session0 ibm_build V body s = Some (0, t'\<lparr>g_platform := g\<rparr>) \<and> Q t' \<and> p9_pre V (t'\<lparr>g_platform := g\<rparr>)"
proof -
  have "\<exists>t o' t' u. p9_opened V s t \<and>
      p9.run V () (\<lambda>s. map_option (\<lambda>(r, s). (r, (), s)) (body s)) s = Some (0, o', u) \<and> Q t' \<and> p9_closed t' u \<and> p9_pre V u"
  proof (rule p9.run_through [OF assms(1)])
    fix t assume t: "p9_opened V s t"
    show "\<exists>o' t'. map_option (\<lambda>(r, s). (r, (), s)) (body t) = Some (None, o', t') \<and> p9_keeps t t' \<and> Q t'"
      using assms(3) [OF t] by (auto simp: assms(2) [OF t] p9_body_def)
  qed
  then show ?thesis unfolding session0_eq p9_session by (auto simp: p9_closed_def)
qed

text \<open>A call whose feature function fails: -1, in the state the function left.\<close>

lemma p9_call_fails:
  assumes "p9_pre V s" "\<And>t. p9_opened V s t \<Longrightarrow> body t = p9_body A h args t"
    "\<And>t. p9_opened V s t \<Longrightarrow> \<exists>rc t'. api_call A h args t = Some (rc, t') \<and> rc \<noteq> 0 \<and> Q t'"
  shows "\<exists>t'. session0 ibm_build V body s = Some (-1, t') \<and> Q t'"
proof -
  have "\<exists>t o' t'. p9_opened V s t \<and>
      p9.run V () (\<lambda>s. map_option (\<lambda>(r, s). (r, (), s)) (body s)) s = Some (-1, o', t') \<and> Q t'"
  proof (rule p9.run_return [OF assms(1)])
    fix t assume t: "p9_opened V s t"
    show "\<exists>o' t'. map_option (\<lambda>(r, s). (r, (), s)) (body t) = Some (Some (-1), o', t') \<and> Q t'"
      using assms(3) [OF t] by (auto simp: assms(2) [OF t] p9_body_def)
  qed
  then show ?thesis unfolding session0_eq p9_session by auto
qed

end
