(* ===== verification/Power9_Props.thy ===== *)
theory Power9_Props imports Power9_Session Rapl_Limits begin

text \<open>
  Properties of the Power9 functions, from the API call down to the bytes of the firmware's files: the power report,
  files that are too short, and setting a node limit.
\<close>

section \<open>The power report\<close>

definition p9_header :: line where
  "p9_header = map FS [''_IBMPOWER'', ''Host'', ''Socket'', ''PWRSYS_W'', ''PWRPROC_W'', ''PWRMEM_W'', ''PWRGPU_W'', ''Timestamp_sec'']"

text \<open>The line of a socket with the values of the four names, and the time since the first call.\<close>

definition power_line :: "power_env \<Rightarrow> nat \<Rightarrow> u64 list \<Rightarrow> double \<Rightarrow> line" where
  "power_line P i vs stamp = [FS ''_IBMPOWER'', FS (pe_host P), FI (int i)] @ map FX vs @ [FF stamp]"

lemma power_names_plain: "\<forall>n \<in> set power_names. plain_name n"
  by (simp add: power_names_def plain_name_def)

text \<open>What a report may change, besides what it prints.\<close>

definition same_but_output :: "('o, 'a) p9_state_scheme \<Rightarrow> ('o, 'a) p9_state_scheme \<Rightarrow> bool" where
  "same_but_output s s' \<longleftrightarrow> elog s' = elog s \<and> g_platform s' = g_platform s \<and> occ_fds s' = occ_fds s \<and> json_sets s' = json_sets s \<and>
     registers s' = registers s \<and> opal_streams s' = opal_streams s \<and> samplers s' = samplers s \<and> energy_acc s' = energy_acc s"

lemma print_power_sensors_block:
  assumes "holds_block buf B" "those (map (named_value P B) power_names) = Some vs"
  shows "\<exists>s' stamp. print_power_sensors P i 0 buf s = Some s' \<and> Print_power_sensors \<in> inited s' \<and>
    printed s' = printed s @ (if Print_power_sensors \<in> inited s then [] else [p9_header]) @ [power_line P i vs stamp] \<and>
    same_but_output s s' \<and> opal s' = opal s"
  using power_values_block [OF assms(1) power_names_plain, of P] assms(2)
  by (cases "Print_power_sensors \<in> inited s")
    (auto simp: print_power_sensors_def Let_def set_inited_def start_once_def gettimeofday_def say_def p9_header_def
      power_line_def same_but_output_def)

text \<open>The sockets whose blocks are there are reported, whatever follows.\<close>

lemma power_loop_blocks:
  fixes s :: "('o, 'a) p9_state_scheme"
  assumes "serves E img" "has_blocks (img (opal s)) n" "0 < n"
    "\<forall>i < n. holds_block (block_of (img (opal s)) i) (B i) \<and> those (map (named_value P (B i)) power_names) = Some (vs i)"
  shows "\<exists>s' stamp. block_loop E (\<lambda>iter buf s. print_power_sensors P iter 0 buf s) ([0..<n] @ rest) s =
      block_loop E (\<lambda>iter buf s. print_power_sensors P iter 0 buf s) rest s' \<and>
    printed s' = printed s @ (if Print_power_sensors \<in> inited s then [] else [p9_header]) @
      map (\<lambda>i. power_line P i (vs i) (stamp i)) [0..<n] \<and>
    same_but_output s s' \<and> img (opal s') = img (opal s)"
proof -
  let ?file = "img (opal s)"
  define I where "I s' js \<longleftrightarrow> same_but_output s s' \<and> (js \<noteq> [] \<longrightarrow> Print_power_sensors \<in> inited s') \<and>
      (js = [] \<longrightarrow> printed s' = printed s \<and> inited s' = inited s) \<and>
      (js \<noteq> [] \<longrightarrow> (\<exists>stamp. printed s' = printed s @ (if Print_power_sensors \<in> inited s then [] else [p9_header]) @
         map2 (\<lambda>i st. power_line P i (vs i) st) js stamp \<and> length stamp = length js))" for s' :: "('o, 'a) p9_state_scheme" and js
  have 1: "I s []" by (simp add: I_def same_but_output_def)
  have 2: "I (s'\<lparr>opal := o'\<rparr>) js" if "I s' js" for s' js o'
    using that unfolding I_def same_but_output_def by simp
  have 3: "\<exists>s''. print_power_sensors P i 0 (block_of ?file i) s' = Some s'' \<and> I s'' (js @ [i]) \<and> same_files s' s''"
    if J: "I s' js" and i: "i < n" for s' js i
  proof -
    obtain s'' st where s'': "print_power_sensors P i 0 (block_of ?file i) s' = Some s''" "Print_power_sensors \<in> inited s''"
      "printed s'' = printed s' @ (if Print_power_sensors \<in> inited s' then [] else [p9_header]) @ [power_line P i (vs i) st]"
      "same_but_output s' s''" "opal s'' = opal s'"
      using print_power_sensors_block [of "block_of ?file i" "B i" P "vs i" i s'] assms(4) i by blast
    have "\<exists>stamp. printed s'' = printed s @ (if Print_power_sensors \<in> inited s then [] else [p9_header]) @
        map2 (\<lambda>i st. power_line P i (vs i) st) (js @ [i]) stamp \<and> length stamp = length (js @ [i])"
    proof (cases "js = []")
      case True
      then show ?thesis using J s''(3) by (intro exI [of _ "[st]"]) (simp add: I_def)
    next
      case False
      then obtain stamp where "printed s' = printed s @ (if Print_power_sensors \<in> inited s then [] else [p9_header]) @
         map2 (\<lambda>i st. power_line P i (vs i) st) js stamp" "length stamp = length js" "Print_power_sensors \<in> inited s'"
        using J by (auto simp: I_def)
      then show ?thesis using s''(3) by (intro exI [of _ "stamp @ [st]"]) simp
    qed
    then show ?thesis using s'' J by (auto simp: I_def same_but_output_def same_files_def)
  qed
  obtain s' where s': "block_loop E (\<lambda>iter buf s. print_power_sensors P iter 0 buf s) ([0..<n] @ rest) s =
      block_loop E (\<lambda>iter buf s. print_power_sensors P iter 0 buf s) rest s'"
    "I s' [0..<n]" "img (opal s') = ?file"
    using block_loop_serves [where I = I and s = s and bytes = "?file" and n = n and iz = "[0..<n]" and E = E and img = img
        and body = "\<lambda>iter buf s. print_power_sensors P iter 0 buf s" and rest = rest] assms(1,2) 1 2 3 by fastforce
  obtain stamp where st: "printed s' = printed s @ (if Print_power_sensors \<in> inited s then [] else [p9_header]) @
      map2 (\<lambda>i st. power_line P i (vs i) st) [0..<n] stamp" "length stamp = n"
    using s'(2) assms(3) by (auto simp: I_def)
  have "map2 (\<lambda>i st. power_line P i (vs i) st) [0..<n] stamp = map (\<lambda>i. power_line P i (vs i) (stamp ! i)) [0..<n]"
    using st(2) by (intro nth_equalityI) simp_all
  then show ?thesis using s' st(1)
    by (intro exI [of _ s'] exI [of _ "\<lambda>i. stamp ! i"]) (simp add: I_def)
qed

text \<open>The state each\_block starts its loop in.\<close>

definition p9_started :: "'o opal_env \<Rightarrow> power_env \<Rightarrow> ('o, 'a) p9_state_scheme \<Rightarrow> ('o, 'a) p9_state_scheme" where
  "p9_started E P s = s\<lparr>g_platform := (g_platform s)[op_ibm_idx E := fill_platform (pe_hw P) (g_platform s ! op_ibm_idx E)],
     init_variorum_init_topology := True, occ_fds := occ_fds s + 1\<rparr>"

lemma each_block_started:
  assumes "serves E img" "hwloc_good (pe_hw P)" "op_ibm_idx E < length (g_platform s)"
  shows "each_block E P body s =
    block_loop E (body (machine_topo (pe_hw P))) [0..<unat (nsockets (machine_topo (pe_hw P)))] (p9_started E P s)"
  using assms(1) by (simp add: each_block_def get_topo_good [OF assms(2,3)] serves_def p9_started_def upd_platform_def)

lemma p9_started_fields [simp]:
  "opal (p9_started E P s) = opal s" "printed (p9_started E P s) = printed s" "inited (p9_started E P s) = inited s"
  "occ_fds (p9_started E P s) = occ_fds s + 1" "elog (p9_started E P s) = elog s"
  "op_ibm_idx E < length (g_platform s) \<Longrightarrow> p9_keeps s (p9_started E P s)"
  by (cases "op_ibm_idx E = 0"; simp add: p9_started_def p9_keeps_def fill_platform_def)+

section \<open>Scales\<close>

text \<open>A scale whose decimal exponent is 0 multiplies the sample by its mantissa.\<close>

lemma scaled_whole:
  assumes "libm_pow P (Fin 10) (Fin 0) = Fin 1" "(ucast scale :: u8) = 0"
    "uint sample < 2 ^ 53" "uint sample * uint (drop_bit 8 scale) < 2 ^ 53"
  shows "u64_of_d (scaled P sample scale) = Some (word_of_int (uint sample * uint (drop_bit 8 scale)))"
proof -
  let ?m = "uint (drop_bit 8 scale)"
  have "?m < 2 ^ 32" "0 \<le> ?m" using unsigned_less [of "drop_bit 8 scale"] by simp_all
  moreover have "\<bar>m\<bar> < 2 ^ 53" if "m < 2 ^ 32" "0 \<le> m" for m :: int using that by simp
  ultimately have m: "\<bar>?m\<bar> < 2 ^ 53" by blast
  have "TO_FP P scale = d_mul (Fin (of_int ?m)) (Fin (2 ^ 0))"
    by (simp only: TO_FP_def d_of_int_exact [OF m] assms(2)) (simp add: d_of_int_exact assms(1))
  also have "\<dots> = Fin (of_int ?m)" by (simp add: d_scale(1) [OF m, of 0, simplified])
  finally have t: "TO_FP P scale = Fin (of_int ?m)" .
  have "d_mul (Fin (of_int (uint sample))) (Fin (of_int ?m)) = Fin (of_int (uint sample * ?m))"
    using fl_representable [OF representable_int, of "uint sample * ?m"] assms(4) by (simp add: d_mul_def abs_mult)
  then have "scaled P sample scale = Fin (of_int (uint sample * ?m))"
    using assms(3) by (simp add: scaled_def t d_of_int_exact)
  then show ?thesis using u64_of_d_nat [of "uint sample * ?m"] assms(4) by simp
qed

section \<open>An example block\<close>

lemma bytes_at_append:
  "p + n \<le> length xs \<Longrightarrow> bytes_at (xs @ ys) p n = bytes_at xs p n"
  by (simp add: bytes_at_def)

lemma byte_at_append: "p < length xs \<Longrightarrow> byte_at (xs @ ys) p = byte_at xs p"
  by (simp add: byte_at_def nth_append)

text \<open>One sensor, PWRSYS, whose latest sample is 0x123 in the ping buffer; the rest of the block is zero.\<close>

definition example_bytes :: "u8 list" where
  "example_bytes =
    [1, 1, 0, 1, 1, 0, 0, 0, 0, 0, 0, 24, 1, 48, 0, 0, 0, 0, 0, 72, 0, 0, 0, 128,
     80, 87, 82, 83, 89, 83, 0, 0, 0, 0, 0, 0, 0, 0, 0, 0, 87, 0, 0, 0, 0, 1, 0, 0, 0, 4, 0, 0, 1, 0, 0, 128, 0, 1, 1, 0, 0, 0, 8, 0,
     0, 0, 0, 0, 0, 0, 0, 0,
     1, 0, 0, 0, 0, 0, 0, 0, 0, 1, 0, 0, 0, 0, 0, 0, 0, 9, 1, 35, 0, 0, 0, 0, 0, 0, 0, 0, 0, 0, 0, 0, 0, 0, 0, 0, 0, 0, 0, 0, 0, 0, 0, 7, 0, 0, 0, 0,
     0, 0, 0, 0, 0, 0, 0, 0,
     1, 0, 0, 0, 0, 0, 0, 0, 0, 1, 0, 0, 0, 0, 0, 0, 0, 8, 0, 99, 0, 0, 0, 0, 0, 0, 0, 0, 0, 0, 0, 0, 0, 0, 0, 0, 0, 0, 0, 0, 0, 0, 0, 6, 0, 0, 0, 0,
     0, 0, 0, 0, 0, 0, 0, 0]"

definition example_buf :: "u8 list" where
  "example_buf = example_bytes @ replicate (OCC_SENSOR_DATA_BLOCK_SIZE - 184) 0"

definition example_block :: occ_block where
  "example_block = \<lparr>ob_ping_valid = True, ob_pong_valid = True, ob_sensors =
     [\<lparr>os_name = ''PWRSYS'', os_scale = 0x100, os_full = True, os_offset = 8,
       os_ping = \<lparr>or_time = 9, or_sample = 0x123, or_accumulator = 7\<rparr>,
       os_pong = \<lparr>or_time = 8, or_sample = 99, or_accumulator = 6\<rparr>\<rparr>]\<rparr>"

lemma length_example [simp]: "length example_bytes = 184" "length example_buf = OCC_SENSOR_DATA_BLOCK_SIZE"
  by (simp_all add: example_bytes_def example_buf_def OCC_SENSOR_DATA_BLOCK_SIZE_def)

lemma example_numbers:
  "be16 example_buf 2 = Some 1" "be32 example_buf 8 = Some 24" "be32 example_buf 16 = Some 72" "be32 example_buf 20 = Some 128"
  "byte_at example_buf 72 = Some 1" "byte_at example_buf 128 = Some 1" "be32 example_buf 50 = Some 0x100"
  "byte_at example_buf 58 = Some 1" "be32 example_buf 59 = Some 8"
  "be64 example_buf 82 = Some 9" "be16 example_buf 90 = Some 0x123" "be64 example_buf 108 = Some 7"
  "be64 example_buf 138 = Some 8" "be16 example_buf 146 = Some 99" "be64 example_buf 164 = Some 6"
  "bytes_at example_buf 24 (length ''PWRSYS'' + 1) = Some [80, 87, 82, 83, 89, 83, 0]"
  by (simp_all add: example_buf_def be16_def be32_def be64_def bytes_at_append byte_at_append)
    (simp_all add: bytes_at_def byte_at_def example_bytes_def word_rcat_def)

lemma example_holds: "holds_block example_buf example_block"
proof -
  have "holds_sensor example_buf (md_at 24 0) (unat (72 :: u32)) (unat (128 :: u32)) (ob_sensors example_block ! 0)"
    using example_numbers
    by (simp add: holds_sensor_def md_at_def example_block_def holds_name_def plain_name_def char_byte_def
        md_scale_factor_def md_structure_type_def md_reading_offset_def holds_reading_def)
  then show ?thesis
    using example_numbers unfolding holds_block_def
    by (intro exI [of _ 24] exI [of _ 72] exI [of _ 128] exI [of _ 1])
      (simp add: example_block_def hb_nr_sensors_def hb_names_offset_def hb_reading_ping_offset_def hb_reading_pong_offset_def)
qed

section \<open>An example firmware\<close>

text \<open>Its state is the sensor file and the text of the power cap; a read returns about half of what is asked for.\<close>

definition example_opal :: "(u8 list \<times> string) opal_env" where
  "example_opal = \<lparr>op_ibm_idx = 0, op_open = (\<lambda>_. True), op_malloc = (\<lambda>_. True),
     op_read = (\<lambda>pos n o'. (Some (take ((n + 1) div 2) (drop pos (fst o'))), o')),
     op_text = (\<lambda>f o'. Some (snd o')), op_create = (\<lambda>f o'. Some (fst o', '''')),
     op_store = (\<lambda>f text o'. (fst o', text)), op_sleep = (\<lambda>us o'. o')\<rparr>"

lemma example_opal_fields [simp]:
  "op_ibm_idx example_opal = 0" "op_text example_opal f o' = Some (snd o')" "op_create example_opal f o' = Some (fst o', '''')"
  "op_store example_opal f text o' = (fst o', text)" "op_sleep example_opal us o' = o'"
  by (simp_all add: example_opal_def)

lemma example_serves: "serves example_opal fst"
proof -
  have "0 < (n + 1) div 2 \<and> (n + 1) div 2 \<le> n" if "0 < n" for n :: nat using that by linarith
  then show ?thesis unfolding serves_def by (auto simp: example_opal_def)
qed

definition p9_start :: "u8 list \<times> string \<Rightarrow> (u8 list \<times> string) p9_state" where
  "p9_start o' = rapl_state.extend rapl_start
     \<lparr>arrays = (\<lambda>_. None), feat_inited = {}, fixed_counters = [], fixed_limits = [], opal = o', occ_fds = 0, opal_streams = 0,
      monitor_count = 0, active_sampling = False, energy_acc = 0, sample_interval = 0, mlock = Uninit, samplers = [],
      caller = C_idle\<rparr>"

abbreviation p9_node :: power_env where "p9_node \<equiv> example_power example_sys"

lemma p9_start_fields [simp]:
  "opal (p9_start o') = o'" "occ_fds (p9_start o') = 0" "printed (p9_start o') = []" "inited (p9_start o') = {}"
  "elog (p9_start o') = []" "active_sampling (p9_start o') = False" "energy_acc (p9_start o') = 0" "mlock (p9_start o') = Uninit"
  "samplers (p9_start o') = []" "caller (p9_start o') = C_idle" "length (g_platform (p9_start o')) = 2" "json_sets (p9_start o') = []"
  by (simp_all add: p9_start_def rapl_start_def rapl_state.defs arch_state.defs arch_init_def batch_state.defs
      msr_state.defs msr_init_def MAX_PLATFORMS_def)

lemma p9_node_facts:
  "pe_sys p9_node = example_sys" "pe_hw p9_node = two_socket_machine" "hwloc_good two_socket_machine"
  "unat (nsockets (machine_topo two_socket_machine)) = 2" "libm_pow p9_node (Fin 10) (Fin 0) = Fin 1"
  "p9_pre (pe_sys p9_node) (p9_start o')"
proof -
  show e: "pe_sys p9_node = example_sys" "libm_pow p9_node (Fin 10) (Fin 0) = Fin 1" by (simp_all add: example_power_def)
  show h: "pe_hw p9_node = two_socket_machine" "hwloc_good two_socket_machine"
    using example_machine by (simp_all add: example_power_def intel_machine_def example_sys_def)
  show "unat (nsockets (machine_topo two_socket_machine)) = 2"
    by (simp add: machine_topo_def topo_of_def fill_platform_def two_socket_machine_def unsigned_of_int_def)
  show "p9_pre (pe_sys p9_node) (p9_start o')" using h by (simp add: p9_pre_def)
qed

lemma example_values: "those (map (named_value p9_node example_block) power_names) = Some [0x123, 0, 0, 0]"
  using scaled_whole [OF p9_node_facts(5), of "0x100" "0x123"]
  by (simp add: power_names_def named_value_def example_block_def sample_of_def current_def)

lemma example_blocks: "block_of (example_buf @ example_buf @ r) 0 = example_buf" "block_of (example_buf @ example_buf @ r) 1 = example_buf"
  by (simp_all add: block_of_def)

section \<open>Properties\<close>

text \<open>A jansson without values: the print and cap calls of the witnesses build no object.\<close>

definition empty_jansson :: "(string list \<times> json_value) list json_lib" where
  "empty_jansson = \<lparr>json_object = [], json_object_set_new = (\<lambda>obj k v. obj), json_integer = (\<lambda>i. []),
     json_dumps = (\<lambda>_. Some ''{}'')\<rparr>"

text \<open>
  C4: variorum_print_power on a Power9 node goes from the bytes of the firmware's sensor file to the report. When
  the file holds a block for every socket, the call returns 0 and prints one line per socket, in order, after the
  header in the first call: the values are the samples of the sensors PWRSYS, PWRPROC, PWRMEM and PWRGPU of that
  socket (0 where it has none), from the later of its two valid copies, times their scales. It does not
  matter in how many pieces read delivers a block. The file is closed again and nothing is reported.
\<close>

theorem p9_power_report:
  fixes s :: "('o, 'a) p9_state_scheme"
  assumes "p9_pre (pe_sys P) s" "op_ibm_idx E = 0" "serves E img" "n = unat (nsockets (machine_topo (pe_hw P)))"
    "has_blocks (img (opal s)) n" "\<forall>i < n. holds_block (block_of (img (opal s)) i) (B i) \<and>
       those (map (named_value P (B i)) power_names) = Some (vs i)"
  shows "\<exists>u stamp. variorum_print_power (p9_api E P L now name) ibm_build (pe_sys P) s = Some (0, u) \<and>
    printed u = printed s @ (if Print_power_sensors \<in> inited s then [] else [p9_header]) @
      map (\<lambda>i. power_line P i (vs i) (stamp i)) [0..<n] \<and>
    occ_fds u = occ_fds s \<and> elog u = elog s \<and> p9_pre (pe_sys P) u"
proof -
  let ?A = "p9_api E P L now name"
  let ?Q = "\<lambda>t' :: ('o, 'a) p9_state_scheme. \<exists>stamp. printed t' = printed s @
      (if Print_power_sensors \<in> inited s then [] else [p9_header]) @ map (\<lambda>i. power_line P i (vs i) (stamp i)) [0..<n] \<and>
    occ_fds t' = occ_fds s \<and> elog t' = elog s"
  have h: "hwloc_good (pe_hw P)" using assms(1) by (simp add: p9_pre_def)
  have n: "0 < n" using machine_topo_ok [OF h] by (simp add: topo_ok_def assms(4))
  have call: "\<exists>t'. api_call ?A (ibm_cpu_p9 get_power) [0] t = Some (0, t') \<and> p9_keeps t t' \<and> ?Q t'"
    if o': "p9_opened (pe_sys P) s t" for t
  proof -
    have g: "op_ibm_idx E < length (g_platform t)" using o' assms(2) by (simp add: p9_opened_def p9_usable_def)
    have t: "opal t = opal s" "inited t = inited s" "printed t = printed s" "occ_fds t = occ_fds s" "elog t = elog s"
      using o' by (auto simp: p9_opened_def)
    obtain s' stamp where s': "block_loop E (\<lambda>iter buf s. print_power_sensors P iter 0 buf s) ([0..<n] @ []) (p9_started E P t) =
        block_loop E (\<lambda>iter buf s. print_power_sensors P iter 0 buf s) [] s'"
      "printed s' = printed s @ (if Print_power_sensors \<in> inited s then [] else [p9_header]) @
        map (\<lambda>i. power_line P i (vs i) (stamp i)) [0..<n]"
      "same_but_output (p9_started E P t) s'"
      using power_loop_blocks [OF assms(3), of "p9_started E P t" n B P vs "[]"] assms(5,6) n by (auto simp: t)
    have "api_call ?A (ibm_cpu_p9 get_power) [0] t = Some (0, close_occ s')"
      using s'(1) by (simp add: p9_api_def p9_int_call_def ibm_cpu_p9_get_power_def each_block_started [OF assms(3) h g] assms(4))
    moreover have "p9_keeps t (close_occ s')"
      using s'(3) p9_started_fields(6) [OF g, of P] by (simp add: p9_keeps_def same_but_output_def close_occ_def)
    moreover have "?Q (close_occ s')"
      using s'(2,3) t by (auto simp: same_but_output_def close_occ_def)
    ultimately show ?thesis by blast
  qed
  have h': "p9_table Print_power = Some (ibm_cpu_p9 get_power)" by (simp add: p9_table_def p9_ptrs_def fptr_install)
  from p9_call [where A = ?A and args = "[0]" and Q = ?Q, OF assms(1) p9_loop_body(1) [OF _ h'] call]
  show ?thesis by (fastforce simp: variorum_print_power_def for_all_skip_def)
qed

theorem p9_power_report_witness:
  "\<exists>u st st'. variorum_print_power (p9_api example_opal p9_node empty_jansson (0, 0) ''node1'') ibm_build example_sys
       (p9_start (example_buf @ example_buf, '''')) = Some (0, u) \<and>
     printed u = [p9_header, power_line p9_node 0 [0x123, 0, 0, 0] st, power_line p9_node 1 [0x123, 0, 0, 0] st'] \<and>
     occ_fds u = 0"
proof -
  let ?s = "p9_start (example_buf @ example_buf, '''')"
  note f = p9_node_facts
  have b: "has_blocks (fst (opal ?s)) 2" by (simp add: has_blocks_def OCC_SENSOR_DATA_BLOCK_SIZE_def)
  have h: "\<forall>i < 2. holds_block (block_of (fst (opal ?s)) i) example_block \<and>
      those (map (named_value p9_node example_block) power_names) = Some [0x123, 0, 0, 0]"
    using example_blocks [of "[]"] example_holds example_values by (auto simp: less_2_cases_iff)
  have n: "2 = unat (nsockets (machine_topo (pe_hw p9_node)))" unfolding f(2) by (rule f(4) [symmetric])
  obtain u stamp where "variorum_print_power (p9_api example_opal p9_node empty_jansson (0, 0) ''node1'') ibm_build example_sys ?s = Some (0, u)"
    "printed u = [p9_header] @ map (\<lambda>i. power_line p9_node i [0x123, 0, 0, 0] (stamp i)) [0..<2]" "occ_fds u = 0"
    using p9_power_report [OF f(6) example_opal_fields(1) example_serves n b h, of empty_jansson "(0, 0)" "''node1''", unfolded f(1)] by auto
  moreover have "[0..<2] = [0, 1]" by (simp add: upt_rec)
  ultimately show ?thesis by (intro exI [of _ u]) auto
qed

text \<open>
  C27: a sensor file that ends too early. When the file has whole blocks for the first k sockets only, the call
  reports those and then returns -1; the file it opened is never closed, so each such call uses up one descriptor.
\<close>

theorem p9_short_file:
  fixes s :: "('o, 'a) p9_state_scheme"
  assumes "p9_pre (pe_sys P) s" "op_ibm_idx E = 0" "serves E img" "k < unat (nsockets (machine_topo (pe_hw P)))" "0 < k"
    "has_blocks (img (opal s)) k" "length (img (opal s)) < (k + 1) * OCC_SENSOR_DATA_BLOCK_SIZE"
    "\<forall>i < k. holds_block (block_of (img (opal s)) i) (B i) \<and> those (map (named_value P (B i)) power_names) = Some (vs i)"
  shows "\<exists>u stamp. variorum_print_power (p9_api E P L now name) ibm_build (pe_sys P) s = Some (-1, u) \<and>
    printed u = printed s @ (if Print_power_sensors \<in> inited s then [] else [p9_header]) @
      map (\<lambda>i. power_line P i (vs i) (stamp i)) [0..<k] @ [[FS ''Failed to read data'']] \<and>
    occ_fds u = occ_fds s + 1"
proof -
  let ?A = "p9_api E P L now name"
  let ?Q = "\<lambda>t' :: ('o, 'a) p9_state_scheme. \<exists>stamp. printed t' = printed s @
      (if Print_power_sensors \<in> inited s then [] else [p9_header]) @ map (\<lambda>i. power_line P i (vs i) (stamp i)) [0..<k] @
      [[FS ''Failed to read data'']] \<and> occ_fds t' = occ_fds s + 1"
  let ?n = "unat (nsockets (machine_topo (pe_hw P)))"
  have h: "hwloc_good (pe_hw P)" using assms(1) by (simp add: p9_pre_def)
  have is': "[0..<?n] = [0..<k] @ k # [Suc k..<?n]"
    using assms(4) by (metis le_add1 less_imp_le upt_add_eq_append upt_conv_Cons add_0 le_add_diff_inverse)
  have call: "\<exists>rc t'. api_call ?A (ibm_cpu_p9 get_power) [0] t = Some (rc, t') \<and> rc \<noteq> 0 \<and> ?Q t'"
    if o': "p9_opened (pe_sys P) s t" for t
  proof -
    have g: "op_ibm_idx E < length (g_platform t)" using o' assms(2) by (simp add: p9_opened_def p9_usable_def)
    have t: "opal t = opal s" "inited t = inited s" "printed t = printed s" "occ_fds t = occ_fds s"
      using o' by (auto simp: p9_opened_def)
    let ?body = "\<lambda>iter buf s. print_power_sensors P iter 0 buf s"
    obtain s' stamp where s': "block_loop E ?body ([0..<k] @ k # [Suc k..<?n]) (p9_started E P t) = block_loop E ?body (k # [Suc k..<?n]) s'"
      "printed s' = printed s @ (if Print_power_sensors \<in> inited s then [] else [p9_header]) @
        map (\<lambda>i. power_line P i (vs i) (stamp i)) [0..<k]"
      "same_but_output (p9_started E P t) s'" "img (opal s') = img (opal s)"
      using power_loop_blocks [OF assms(3), of "p9_started E P t" k B P vs "k # [Suc k..<?n]"] assms(5,6,8) by (auto simp: t)
    have p: "k * OCC_SENSOR_DATA_BLOCK_SIZE < 2 ^ 32" using assms(6) by (simp add: has_blocks_def)
    obtain o' where "read_block E (of_nat k) s' = Some (None, say [FS ''Failed to read data''] (s'\<lparr>opal := o'\<rparr>))"
      using read_block_serves [OF assms(3) p, of s'] assms(7) s'(4) by auto
    then have "api_call ?A (ibm_cpu_p9 get_power) [0] t = Some (-1, say [FS ''Failed to read data''] (s'\<lparr>opal := o'\<rparr>))"
      using s'(1) by (simp add: p9_api_def p9_int_call_def ibm_cpu_p9_get_power_def each_block_started [OF assms(3) h g] is')
    moreover have "?Q (say [FS ''Failed to read data''] (s'\<lparr>opal := o'\<rparr>))"
      using s'(2,3) t by (auto simp: same_but_output_def say_def)
    ultimately show ?thesis by fastforce
  qed
  have h': "p9_table Print_power = Some (ibm_cpu_p9 get_power)" by (simp add: p9_table_def p9_ptrs_def fptr_install)
  from p9_call_fails [where A = ?A and args = "[0]" and Q = ?Q, OF assms(1) p9_loop_body(1) [OF _ h'] call]
  show ?thesis by (fastforce simp: variorum_print_power_def for_all_skip_def)
qed

theorem p9_short_file_witness:
  "\<exists>u. variorum_print_power (p9_api example_opal p9_node empty_jansson (0, 0) ''node1'') ibm_build example_sys
     (p9_start (example_buf, '''')) = Some (-1, u) \<and> occ_fds u = 1"
proof -
  let ?s = "p9_start (example_buf, '''')"
  note f = p9_node_facts
  have b: "has_blocks (fst (opal ?s)) 1" "length (fst (opal ?s)) < (1 + 1) * OCC_SENSOR_DATA_BLOCK_SIZE"
    by (simp_all add: has_blocks_def OCC_SENSOR_DATA_BLOCK_SIZE_def)
  have h: "\<forall>i < 1. holds_block (block_of (fst (opal ?s)) i) example_block \<and>
      those (map (named_value p9_node example_block) power_names) = Some [0x123, 0, 0, 0]"
    using example_holds example_values by (simp add: block_of_def)
  have n: "1 < unat (nsockets (machine_topo (pe_hw p9_node)))" unfolding f(2,4) by simp
  show ?thesis
    using p9_short_file [OF f(6) example_opal_fields(1) example_serves n zero_less_one b h, of empty_jansson "(0, 0)" "''node1''", unfolded f(1)] by auto
qed

section \<open>The node limit\<close>

text \<open>
  C11: setting a node limit on Power9. variorum_cap_best_effort_node_power_limit writes the limit in decimal to
  powercap-current, gives the firmware 100 ms, and reads the file back: it returns 0 exactly when the file then
  stands for the limit, and -1 otherwise. With a firmware that keeps what it is told the call succeeds for
  every limit that is an int, negative ones included.
\<close>

theorem p9_node_cap:
  fixes s :: "('o, 'a) p9_state_scheme"
  assumes "p9_pre (pe_sys P) s" "- (2 ^ 31) \<le> watts" "watts < 2 ^ 31" "op_create E Powercap_current (opal s) = Some o1"
    "o2 = op_sleep E 100000 (op_store E Powercap_current (dec_int watts) o1)" "op_text E Powercap_current o2 = Some text"
    "scan_file text = Some m"
  shows "\<exists>u. variorum_cap_best_effort_node_power_limit (p9_api E P L now name) ibm_build (pe_sys P) watts s =
      Some (if m = watts then 0 else -1, u) \<and> opal u = o2 \<and> (m = watts \<longrightarrow> p9_pre (pe_sys P) u) \<and>
      (text = dec_int watts \<longrightarrow> m = watts)"
proof -
  let ?A = "p9_api E P L now name :: (('o, 'a) p9_state_scheme, (string list \<times> json_value) list) api_env"
  let ?h = "ibm_cpu_p9 cap_and_verify_node_power_limit"
  let ?body = "\<lambda>s. do {
     h \<leftarrow> get_slot (primary [INTEL_CPU, IBM_CPU, AMD_CPU] ibm_build) Cap_best_effort_node_power_limit s;
     case h of
       None \<Rightarrow> Some (Some 0, variorum_error_handler VARIORUM_ERROR_FEATURE_NOT_IMPLEMENTED s)
     | Some h \<Rightarrow> do {
         (err, s) \<leftarrow> api_call ?A h [watts] s;
         Some (if err \<noteq> 0 then Some (-1) else None, s)
       }
   }"
  have h': "p9_table Cap_best_effort_node_power_limit = Some ?h" by (simp add: p9_table_def p9_ptrs_def fptr_install)
  have body: "?body t = p9_body ?A ?h [watts] t" if "p9_opened (pe_sys P) s t" for t
    using get_slot_p9 [OF that, of Cap_best_effort_node_power_limit] h' by (simp add: p9_body_def primary_def)
  have call: "\<exists>t'. api_call ?A ?h [watts] t = Some (if m = watts then 0 else -1, t') \<and> p9_keeps t t' \<and> opal t' = o2"
    if o': "p9_opened (pe_sys P) s t" for t
  proof -
    have t: "opal t = opal s" using o' by (auto simp: p9_opened_def)
    show ?thesis using assms(4-7)
      by (auto simp: p9_api_def p9_int_call_def ibm_cpu_p9_cap_and_verify_node_power_limit_def t p9_keeps_def say_def)
  qed
  have "\<exists>u. session0 ibm_build (pe_sys P) ?body s = Some (if m = watts then 0 else -1, u) \<and> opal u = o2 \<and> (m = watts \<longrightarrow> p9_pre (pe_sys P) u)"
  proof (cases "m = watts")
    case True
    from p9_call [where A = ?A and Q = "\<lambda>t'. opal t' = o2", OF assms(1) body] call True show ?thesis by fastforce
  next
    case False
    from p9_call_fails [where A = ?A and Q = "\<lambda>t'. opal t' = o2", OF assms(1) body] call False show ?thesis by fastforce
  qed
  moreover have "m = watts" if "text = dec_int watts"
    using assms(2,3,7) scan_dec_int [of watts] that by (simp add: scan_file_def)
  ultimately show ?thesis unfolding variorum_cap_best_effort_node_power_limit_def by blast
qed

theorem p9_node_cap_witness:
  "\<exists>u. variorum_cap_best_effort_node_power_limit (p9_api example_opal p9_node empty_jansson (0, 0) ''node1'') ibm_build example_sys 1500
     (p9_start ([], ''3050'')) = Some (0, u) \<and> snd (opal u) = ''1500''"
proof -
  note f = p9_node_facts
  have d: "dec_int 1500 = ''1500''" by (simp add: dec_int_def dec.simps char_of_def bit_0)
  have e: "op_create example_opal Powercap_current (opal (p9_start ([], ''3050''))) = Some ([], '''')"
    "op_text example_opal Powercap_current ([], ''1500'') = Some ''1500''" "scan_file ''1500'' = Some 1500"
    "([], ''1500'') = op_sleep example_opal 100000 (op_store example_opal Powercap_current (dec_int 1500) ([], ''''))"
    using scan_dec_int [of 1500] by (simp_all add: d scan_file_def)
  show ?thesis using p9_node_cap [OF f(6) _ _ e(1,4,2,3), of empty_jansson "(0, 0)" "''node1''", unfolded f(1)] by auto
qed

end
