(* ===== verification/Power9_Energy.thy ===== *)
theory Power9_Energy imports Power9_Props begin

text \<open>
  The energy functions of Power9.c as a concurrent program: a call starts a thread that samples the node's power
  every 250 ms and adds the samples up under a lock, the next call stops it and reports the sum. The threads, the caller and
  the firmware take turns in any order, each call up to its lock and each step of a thread being one step. The theory
  states what every interleaving keeps, and what goes wrong when a call comes too early.
\<close>

section \<open>Steps\<close>

text \<open>
  What can be seen of a run: the sum was cleared, a sample was added to it, it was reported, and the lock was initialised
  while it was held, which is undefined and ends the run. A step that shows nothing has no event.
\<close>

datatype p9_event = Ev_started | Ev_measured u64 | Ev_reported u64 | Ev_bad_init

inductive p9_step ::
  "'o opal_env \<Rightarrow> power_env \<Rightarrow> ('o, 'a) p9_state_scheme \<Rightarrow> p9_event option \<Rightarrow> ('o, 'a) p9_state_scheme \<Rightarrow> bool" for E P where
  sampler: "i < length (samplers s) \<Longrightarrow> power_measurement E P now i s = Some (m, s') \<Longrightarrow>
    p9_step E P s (map_option Ev_measured m) s'"
| firmware: "p9_step E P s None (s\<lparr>opal := o'\<rparr>)"
| call: "caller s = C_idle \<Longrightarrow> p9_step E P s None (energy_call P out s)"
| go_on: "energy_step P s = Some (m, s') \<Longrightarrow>
    p9_step E P s (case caller s of C_zero _ _ \<Rightarrow> Some Ev_started | _ \<Rightarrow> map_option Ev_reported m) s'"
| bad_init: "caller s = C_init \<Longrightarrow> mlock s = Locked x \<Longrightarrow> p9_step E P s (Some Ev_bad_init) s"

text \<open>
  A client that waits switches sampling on only when all threads that were started before have returned.
\<close>

definition waited :: "('o, 'a) p9_state_scheme \<Rightarrow> ('o, 'a) p9_state_scheme \<Rightarrow> bool" where
  "waited s s' \<longleftrightarrow> active_sampling s \<or> \<not> active_sampling s' \<or> (\<forall>t \<in> set (samplers s). t = T_done)"

inductive p9_run ::
  "'o opal_env \<Rightarrow> power_env \<Rightarrow> bool \<Rightarrow> ('o, 'a) p9_state_scheme \<Rightarrow> p9_event list \<Rightarrow> ('o, 'a) p9_state_scheme \<Rightarrow> bool" for E P W s where
  run_refl: "p9_run E P W s [] s"
| run_step: "p9_run E P W s es t \<Longrightarrow> p9_step E P t e u \<Longrightarrow> (W \<Longrightarrow> waited t u) \<Longrightarrow> Ev_bad_init \<notin> set es \<Longrightarrow>
    p9_run E P W s (es @ (case e of None \<Rightarrow> [] | Some e \<Rightarrow> [e])) u"

inductive_cases p9_stepE: "p9_step E P s e s'"

text \<open>The sum of the samples since sampling was started.\<close>

definition sum_since :: "p9_event list \<Rightarrow> u64" where
  "sum_since es = foldl (\<lambda>a e. case e of Ev_started \<Rightarrow> 0 | Ev_measured w \<Rightarrow> a + w | _ \<Rightarrow> a) 0 es"

lemma sum_since_simps [simp]:
  "sum_since [] = 0" "sum_since (es @ [Ev_started]) = 0" "sum_since (es @ [Ev_bad_init]) = sum_since es"
  "sum_since (es @ [Ev_measured w]) = sum_since es + w" "sum_since (es @ [Ev_reported w]) = sum_since es"
  by (simp_all add: sum_since_def)

section \<open>What a step changes\<close>

lemma energy_call_fields:
  "mlock (energy_call P out s) = mlock s" "energy_acc (energy_call P out s) = energy_acc s"
  "sample_interval (energy_call P out s) = sample_interval s" "samplers (energy_call P out s) = samplers s"
  "occ_fds (energy_call P out s) = occ_fds s" "opal (energy_call P out s) = opal s"
  "active_sampling (energy_call P out s) \<longleftrightarrow> \<not> active_sampling s"
  "\<exists>now. caller (energy_call P out s) = (if active_sampling s then C_wait out now else C_start out now)"
  by (cases out; cases "Ibm_get_energy \<in> inited s"; simp add: energy_call_def energy_first_def energy_time_def Let_def gettimeofday_def
      set_inited_def start_once_def say_def)+

lemma report_energy_fields [simp]:
  "mlock (report_energy P out now s) = mlock s" "energy_acc (report_energy P out now s) = energy_acc s"
  "sample_interval (report_energy P out now s) = sample_interval s" "samplers (report_energy P out now s) = samplers s"
  "occ_fds (report_energy P out now s) = occ_fds s" "opal (report_energy P out now s) = opal s"
  "active_sampling (report_energy P out now s) = active_sampling s" "caller (report_energy P out now s) = caller s"
  by (cases out; simp add: report_energy_def say_def json_set_def)+

text \<open>A step of the caller, by where it stands.\<close>

lemma energy_step_cases:
  assumes "energy_step P s = Some (m, s')"
  obtains (interval) out now where "caller s = C_start out now" "m = None" "s' = s\<lparr>sample_interval := 250, caller := C_zero out now\<rparr>"
  | (clear) out now where "caller s = C_zero out now" "m = None" "s' = s\<lparr>energy_acc := 0, caller := C_tell out now\<rparr>"
  | (tell) out now where "caller s = C_tell out now" "m = Some (energy_acc s)" "s' = report_energy P out now (s\<lparr>caller := C_init\<rparr>)"
  | (init) "caller s = C_init" "m = None" "\<forall>i. mlock s \<noteq> Locked i" "s' = s\<lparr>mlock := Unlocked, caller := C_create\<rparr>"
  | (create) "caller s = C_create" "m = None" "s' = s\<lparr>samplers := samplers s @ [T_new], caller := C_idle\<rparr>"
  | (lock) out now where "caller s = C_wait out now" "m = None" "mlock s = Unlocked" "s' = s\<lparr>mlock := Locked None, caller := C_report out now\<rparr>"
  | (report) out now where "caller s = C_report out now" "m = Some (energy_acc s)"
      "s' = report_energy P out now (s\<lparr>mlock := Unlocked, caller := C_idle\<rparr>)"
proof (cases "caller s")
  case (C_start out now) then show ?thesis using assms that(1) by (simp add: energy_step_def)
next
  case (C_zero out now) then show ?thesis using assms that(2) by (simp add: energy_step_def)
next
  case (C_tell out now) then show ?thesis using assms that(3) by (simp add: energy_step_def)
next
  case C_init then show ?thesis using assms that(4) by (simp add: energy_step_def split: mutex.splits)
next
  case C_create then show ?thesis using assms that(5) by (simp add: energy_step_def)
next
  case (C_wait out now) then show ?thesis using assms that(6) by (simp add: energy_step_def split: if_splits)
next
  case (C_report out now) then show ?thesis using assms that(7) by (simp add: energy_step_def)
next
  case C_idle then show ?thesis using assms by (simp add: energy_step_def)
qed

lemma take_measurement_keeps:
  assumes "take_measurement E P s = Some (w, s')"
  shows "energy_acc s' = energy_acc s" "sample_interval s' = sample_interval s" "mlock s' = mlock s"
    "samplers s' = samplers s" "caller s' = caller s" "occ_fds s' = occ_fds s" "active_sampling s' = active_sampling s"
  using assms
  by (auto simp: take_measurement_def read_block_def say_def bind_eq_Some_conv Let_def split: if_splits option.splits)

text \<open>Whether a thread has the sensor file open, and whether it is between taking and releasing the lock.\<close>

definition has_file :: "sampler \<Rightarrow> bool" where
  "has_file t \<longleftrightarrow> (case t of T_new \<Rightarrow> False | T_done \<Rightarrow> False | _ \<Rightarrow> True)"

definition in_lock :: "sampler \<Rightarrow> bool" where
  "in_lock t \<longleftrightarrow> (case t of T_hold _ \<Rightarrow> True | T_add _ _ \<Rightarrow> True | T_store _ _ _ \<Rightarrow> True | T_unlock _ \<Rightarrow> True | _ \<Rightarrow> False)"

text \<open>
  A step of thread i changes its own program counter, and at most the lock, the sum and the descriptors. A step of a thread that neither
  takes nor releases the lock nor stores the sum (quiet), and the other three.
\<close>

lemma power_measurement_cases:
  assumes "power_measurement E P now i s = Some (m, s')"
  obtains (quiet) t where "m = None" "samplers s' = (samplers s)[i := t]" "samplers s ! i \<noteq> T_done" "in_lock t = in_lock (samplers s ! i)"
      "mlock s' = mlock s" "energy_acc s' = energy_acc s" "\<And>u w a. t = T_store u w a \<Longrightarrow> a = energy_acc s"
      "occ_fds s' + (if has_file (samplers s ! i) then 1 else 0) = occ_fds s + (if has_file t then 1 else 0) \<or>
        has_file (samplers s ! i) \<and> \<not> has_file t \<and> occ_fds s' = occ_fds s - 1"
  | (locks) t where "m = None" "samplers s ! i = T_lock t" "samplers s' = (samplers s)[i := T_hold t]" "mlock s = Unlocked"
      "mlock s' = Locked (Some i)" "energy_acc s' = energy_acc s" "occ_fds s' = occ_fds s"
  | (stores) t w a where "m = Some w" "samplers s ! i = T_store t w a" "samplers s' = (samplers s)[i := T_unlock t]" "mlock s' = mlock s"
      "energy_acc s' = a + w * sample_interval s" "occ_fds s' = occ_fds s"
  | (unlocks) t where "m = None" "samplers s ! i = T_unlock t" "samplers s' = (samplers s)[i := T_sleep t]" "mlock s' = Unlocked"
      "energy_acc s' = energy_acc s" "occ_fds s' = occ_fds s"
proof (cases "samplers s ! i")
  case T_new
  show ?thesis
  proof (cases "op_open E (opal s)")
    case True
    show ?thesis using assms T_new True
      by (intro quiet [of "T_sleep (init_msTimer now (int_of_u64 (sample_interval s)))"])
        (auto simp: power_measurement_def set_sampler_def has_file_def in_lock_def)
  next
    case False
    show ?thesis using assms T_new False
      by (intro quiet [of T_done]) (auto simp: power_measurement_def set_sampler_def say_def has_file_def in_lock_def)
  qed
next
  case (T_sleep t)
  then obtain t' c d where "timer_sleep now t = Some (t', c, d)" using assms by (auto simp: power_measurement_def bind_eq_Some_conv)
  then show ?thesis using assms T_sleep
    by (intro quiet [of "T_check t'"]) (auto simp: power_measurement_def set_sampler_def has_file_def in_lock_def)
next
  case (T_check t)
  show ?thesis
  proof (cases "active_sampling s")
    case True
    show ?thesis using assms T_check True
      by (intro quiet [of "T_lock t"]) (auto simp: power_measurement_def set_sampler_def has_file_def in_lock_def)
  next
    case False
    show ?thesis using assms T_check False
      by (intro quiet [of T_done]) (auto simp: power_measurement_def set_sampler_def close_occ_def has_file_def in_lock_def)
  qed
next
  case (T_lock t)
  then show ?thesis using assms by (intro locks) (auto simp: power_measurement_def set_sampler_def split: if_splits)
next
  case (T_hold t)
  then obtain w s1 where tm: "take_measurement E P s = Some (w, s1)" "m = None" "s' = set_sampler i (T_add t w) s1"
    using assms by (auto simp: power_measurement_def bind_eq_Some_conv)
  show ?thesis using T_hold tm(2,3) take_measurement_keeps [OF tm(1)]
    by (intro quiet [of "T_add t w"]) (auto simp: set_sampler_def has_file_def in_lock_def)
next
  case (T_add t w)
  then show ?thesis using assms by (intro quiet [of "T_store t w (energy_acc s)"]) (auto simp: power_measurement_def set_sampler_def has_file_def in_lock_def)
next
  case (T_store t w a)
  then show ?thesis using assms by (intro stores) (auto simp: power_measurement_def set_sampler_def)
next
  case (T_unlock t)
  then show ?thesis using assms by (intro unlocks) (auto simp: power_measurement_def set_sampler_def)
next
  case T_done
  then show ?thesis using assms by (simp add: power_measurement_def)
qed


lemma power_measurement_shared:
  assumes "power_measurement E P now i s = Some (m, s')"
  shows "active_sampling s' = active_sampling s" "sample_interval s' = sample_interval s" "caller s' = caller s"
proof -
  have "active_sampling s' = active_sampling s \<and> sample_interval s' = sample_interval s \<and> caller s' = caller s"
  proof (cases "samplers s ! i")
    case (T_hold t)
    then obtain w s1 where tm: "take_measurement E P s = Some (w, s1)" "s' = set_sampler i (T_add t w) s1"
      using assms by (auto simp: power_measurement_def bind_eq_Some_conv)
    show ?thesis using tm(2) take_measurement_keeps [OF tm(1)] by (simp add: set_sampler_def)
  qed (use assms in \<open>auto simp: power_measurement_def set_sampler_def say_def close_occ_def bind_eq_Some_conv split: if_splits\<close>)
  then show "active_sampling s' = active_sampling s" "sample_interval s' = sample_interval s" "caller s' = caller s"
    by simp_all
qed

section \<open>What every interleaving keeps\<close>

lemma length_filter_update:
  "i < length xs \<Longrightarrow> length (filter Q (xs[i := y])) + (if Q (xs ! i) then 1 else 0) =
    length (filter Q xs) + (if Q y then 1 else 0)"
proof (induction xs arbitrary: i)
  case (Cons x xs)
  then show ?case by (cases i) auto
qed simp

text \<open>The owner of the lock: a thread that is between taking and releasing it, or the caller.\<close>

definition owns_lock :: "('o, 'a) p9_state_scheme \<Rightarrow> nat option \<Rightarrow> bool" where
  "owns_lock s x \<longleftrightarrow> (case x of
       None \<Rightarrow> \<exists>out now. caller s = C_report out now
     | Some i \<Rightarrow> i < length (samplers s) \<and> in_lock (samplers s ! i))"

text \<open>Before the first call.\<close>

definition p9_idle :: "('o, 'a) p9_state_scheme \<Rightarrow> bool" where
  "p9_idle s \<longleftrightarrow> samplers s = [] \<and> mlock s = Uninit \<and> energy_acc s = 0 \<and> \<not> active_sampling s \<and> caller s = C_idle"

definition locks_ok :: "nat \<Rightarrow> ('o, 'a) p9_state_scheme \<Rightarrow> bool" where
  "locks_ok k s \<longleftrightarrow> (\<forall>x. mlock s = Locked x \<longleftrightarrow> owns_lock s x) \<and> occ_fds s = k + length (filter has_file (samplers s))"

lemma owns_lock_update:
  "i < length (samplers s) \<Longrightarrow> samplers s' = (samplers s)[i := t] \<Longrightarrow> caller s' = caller s \<Longrightarrow>
    owns_lock s' x \<longleftrightarrow> (if x = Some i then in_lock t else owns_lock s x)"
  by (auto simp: owns_lock_def nth_list_update split: option.splits)

lemma sampler_step_locks:
  assumes "locks_ok k s" "i < length (samplers s)" "power_measurement E P now i s = Some (m, s')"
  shows "locks_ok k s'"
proof -
  note c = power_measurement_shared(3) [OF assms(3)]
  have ok: "\<And>x. mlock s = Locked x \<longleftrightarrow> owns_lock s x" "occ_fds s = k + length (filter has_file (samplers s))"
    using assms(1) by (auto simp: locks_ok_def)
  have own: "owns_lock s (Some i) \<longleftrightarrow> in_lock (samplers s ! i)" using assms(2) by (simp add: owns_lock_def)
  have len: "length (filter has_file (samplers s')) + (if has_file (samplers s ! i) then 1 else 0) =
      length (filter has_file (samplers s)) + (if has_file t then 1 else 0)" if "samplers s' = (samplers s)[i := t]" for t
    unfolding that by (rule length_filter_update [OF assms(2)])
  show ?thesis
  proof (rule power_measurement_cases [OF assms(3)])
    fix t assume a: "m = None" "samplers s' = (samplers s)[i := t]" "samplers s ! i \<noteq> T_done" "in_lock t = in_lock (samplers s ! i)"
      "mlock s' = mlock s" "energy_acc s' = energy_acc s" "\<And>u w a. t = T_store u w a \<Longrightarrow> a = energy_acc s"
      "occ_fds s' + (if has_file (samplers s ! i) then 1 else 0) = occ_fds s + (if has_file t then 1 else 0) \<or>
        has_file (samplers s ! i) \<and> \<not> has_file t \<and> occ_fds s' = occ_fds s - 1"
    have "occ_fds s' = k + length (filter has_file (samplers s'))" using a(8) len [OF a(2)] ok(2) by (auto split: if_splits)
    then show ?thesis unfolding locks_ok_def using owns_lock_update [OF assms(2) a(2) c] ok(1) own a(4,5) by auto
  next
    fix t assume a: "samplers s ! i = T_lock t" "samplers s' = (samplers s)[i := T_hold t]" "mlock s = Unlocked"
      "mlock s' = Locked (Some i)" "occ_fds s' = occ_fds s"
    have "\<not> owns_lock s x" for x using ok(1) [of x] a(3) by simp
    then show ?thesis unfolding locks_ok_def
      using owns_lock_update [OF assms(2) a(2) c] len [OF a(2)] ok(2) a by (auto simp: in_lock_def has_file_def)
  next
    fix t w v assume a: "samplers s ! i = T_store t w v" "samplers s' = (samplers s)[i := T_unlock t]" "mlock s' = mlock s"
      "occ_fds s' = occ_fds s"
    then show ?thesis unfolding locks_ok_def
      using owns_lock_update [OF assms(2) a(2) c] len [OF a(2)] ok own by (auto simp: in_lock_def has_file_def)
  next
    fix t assume a: "samplers s ! i = T_unlock t" "samplers s' = (samplers s)[i := T_sleep t]" "mlock s' = Unlocked"
      "occ_fds s' = occ_fds s"
    have "x = Some i" if "owns_lock s x" for x using that ok(1) [of x] ok(1) [of "Some i"] own a(1) by (simp add: in_lock_def)
    then show ?thesis unfolding locks_ok_def
      using owns_lock_update [OF assms(2) a(2) c] len [OF a(2)] ok(2) a by (auto simp: in_lock_def has_file_def)
  qed
qed

lemma caller_step_locks:
  assumes "locks_ok k s" "energy_step P s = Some (m, s')"
  shows "locks_ok k s'"
proof -
  have ok: "\<And>x. mlock s = Locked x \<longleftrightarrow> owns_lock s x" "occ_fds s = k + length (filter has_file (samplers s))"
    using assms(1) by (auto simp: locks_ok_def)
  note o' = owns_lock_def [of s None]
  have idle: "locks_ok k s'" if "samplers s' = samplers s" "mlock s' = mlock s" "occ_fds s' = occ_fds s"
    "\<And>out now. caller s' \<noteq> C_report out now" "\<And>out now. caller s \<noteq> C_report out now"
    using that ok by (auto simp: locks_ok_def owns_lock_def split: option.splits)
  show ?thesis
  proof (rule energy_step_cases [OF assms(2)])
    assume a: "caller s = C_init" "\<forall>i. mlock s \<noteq> Locked i" "s' = s\<lparr>mlock := Unlocked, caller := C_create\<rparr>"
    then show ?thesis using ok by (auto simp: locks_ok_def owns_lock_def split: option.splits)
  next
    assume a: "caller s = C_create" "s' = s\<lparr>samplers := samplers s @ [T_new], caller := C_idle\<rparr>"
    then show ?thesis using ok by (auto simp: locks_ok_def owns_lock_def nth_append less_Suc_eq has_file_def in_lock_def split: option.splits)
  next
    fix out now assume a: "caller s = C_wait out now" "mlock s = Unlocked" "s' = s\<lparr>mlock := Locked None, caller := C_report out now\<rparr>"
    have n: "\<not> owns_lock s x" for x using ok(1) [of x] a(2) by simp
    show ?thesis using n [of "Some _"] ok(2) a by (auto simp: locks_ok_def owns_lock_def split: option.splits)
  next
    fix out now assume a: "caller s = C_report out now" "s' = report_energy P out now (s\<lparr>mlock := Unlocked, caller := C_idle\<rparr>)"
    have "x = None" if "owns_lock s x" for x using that ok(1) [of x] ok(1) [of None] a(1) o' by simp
    then have "\<not> owns_lock s (Some i)" for i by blast
    then show ?thesis using ok(2) a by (auto simp: locks_ok_def owns_lock_def split: option.splits)
  qed (use idle in simp)+
qed

lemma p9_step_locks:
  assumes "locks_ok k s" "p9_step E P s e s'"
  shows "locks_ok k s'"
  using assms(2)
proof cases
  case (sampler i now m)
  then show ?thesis using sampler_step_locks [OF assms(1)] by simp
next
  case (firmware o')
  then show ?thesis using assms(1) by (simp add: locks_ok_def owns_lock_def cong: option.case_cong)
next
  case (call out)
  obtain now where c: "caller (energy_call P out s) = (if active_sampling s then C_wait out now else C_start out now)"
    using energy_call_fields(8) by blast
  then have "\<nexists>out' now'. caller (energy_call P out s) = C_report out' now'" by (simp split: if_splits)
  then show ?thesis using assms(1) call by (simp add: locks_ok_def owns_lock_def energy_call_fields split: option.splits)
next
  case (go_on m)
  then show ?thesis using caller_step_locks [OF assms(1)] by simp
next
  case (bad_init x)
  then show ?thesis using assms(1) by simp
qed

text \<open>What holds in addition when the client waits.\<close>

definition starting :: "('o, 'a) p9_state_scheme \<Rightarrow> bool" where
  "starting s \<longleftrightarrow> (case caller s of C_start _ _ \<Rightarrow> True | C_zero _ _ \<Rightarrow> True | C_tell _ _ \<Rightarrow> True | C_init \<Rightarrow> True | C_create \<Rightarrow> True | _ \<Rightarrow> False)"

definition interval_set :: "('o, 'a) p9_state_scheme \<Rightarrow> bool" where
  "interval_set s \<longleftrightarrow> samplers s \<noteq> [] \<or> starting s \<and> (\<forall>out now. caller s \<noteq> C_start out now)"

definition tidy :: "p9_event list \<Rightarrow> ('o, 'a) p9_state_scheme \<Rightarrow> bool" where
  "tidy es s \<longleftrightarrow> energy_acc s = 250 * sum_since es \<and> (interval_set s \<longrightarrow> sample_interval s = 250) \<and>
     (starting s \<longrightarrow> (\<forall>t \<in> set (samplers s). t = T_done)) \<and>
     (\<forall>i < length (samplers s). \<forall>t w a. samplers s ! i = T_store t w a \<longrightarrow> a = energy_acc s)"

lemma sampler_step_tidy:
  assumes "locks_ok k s" "tidy es s" "i < length (samplers s)" "power_measurement E P now i s = Some (m, s')"
  shows "tidy (es @ (case map_option Ev_measured m of None \<Rightarrow> [] | Some e \<Rightarrow> [e])) s'"
proof -
  note sh = power_measurement_shared [OF assms(4)]
  have t: "energy_acc s = 250 * sum_since es" "interval_set s \<longrightarrow> sample_interval s = 250"
    "starting s \<longrightarrow> (\<forall>t \<in> set (samplers s). t = T_done)"
    "\<And>i t w a. i < length (samplers s) \<Longrightarrow> samplers s ! i = T_store t w a \<Longrightarrow> a = energy_acc s"
    using assms(2) by (auto simp: tidy_def)
  have "samplers s ! i \<noteq> T_done" using assms(4) by (auto simp: power_measurement_def)
  then have n: "\<not> starting s" using t(3) nth_mem [OF assms(3)] by blast
  then have n': "\<not> starting s'" using sh(3) by (simp add: starting_def)
  have iv: "sample_interval s' = 250" "sample_interval s = 250"
    using t(2) assms(3) sh(2) by (auto simp: interval_set_def)
  have one: "j = i" if "j < length (samplers s)" "in_lock (samplers s ! j)" "in_lock (samplers s ! i)" for j
  proof -
    have "mlock s = Locked (Some j)" "mlock s = Locked (Some i)"
      using assms(1,3) that by (auto simp: locks_ok_def owns_lock_def)
    then show ?thesis by simp
  qed
  show ?thesis
  proof (rule power_measurement_cases [OF assms(4)])
    fix t' assume a: "m = None" "samplers s' = (samplers s)[i := t']" "energy_acc s' = energy_acc s"
      "\<And>u w a. t' = T_store u w a \<Longrightarrow> a = energy_acc s"
    then show ?thesis using t n' iv assms(3) by (auto simp: tidy_def nth_list_update split: if_splits)
  next
    fix t' assume "m = None" "samplers s' = (samplers s)[i := T_hold t']" "energy_acc s' = energy_acc s"
    then show ?thesis using t n' iv assms(3) by (auto simp: tidy_def nth_list_update split: if_splits)
  next
    fix t' w a assume a: "m = Some w" "samplers s ! i = T_store t' w a" "samplers s' = (samplers s)[i := T_unlock t']"
      "energy_acc s' = a + w * sample_interval s"
    have "samplers s ! j \<noteq> T_store u v b" if "j < length (samplers s)" "j \<noteq> i" for j u v b
      using one [OF that(1)] that(2) a(2) by (auto simp: in_lock_def)
    moreover have "a = energy_acc s" using t(4) [OF assms(3) a(2)] .
    ultimately show ?thesis using a t n' iv assms(3) by (auto simp: tidy_def nth_list_update algebra_simps split: if_splits)
  next
    fix t' assume "m = None" "samplers s' = (samplers s)[i := T_sleep t']" "energy_acc s' = energy_acc s"
    then show ?thesis using t n' iv assms(3) by (auto simp: tidy_def nth_list_update split: if_splits)
  qed
qed

lemma starting_no_store:
  "tidy es s \<Longrightarrow> starting s \<Longrightarrow> i < length (samplers s) \<Longrightarrow> samplers s ! i \<noteq> T_store t w a"
  using nth_mem by (fastforce simp: tidy_def)

lemma caller_step_tidy:
  assumes "tidy es s" "energy_step P s = Some (m, s')"
  shows "tidy (es @ (case (case caller s of C_zero _ _ \<Rightarrow> Some Ev_started | _ \<Rightarrow> map_option Ev_reported m) of
    None \<Rightarrow> [] | Some e \<Rightarrow> [e])) s'"
proof -
  note d = tidy_def interval_set_def starting_def
  have nostore: "samplers s ! i \<noteq> T_store t w a" if "i < length (samplers s)" "caller s = C_zero out now" for i t w a out now
    using starting_no_store [OF assms(1) _ that(1)] that(2) by (simp add: starting_def)
  show ?thesis
    using assms(1) nostore
    by (rule_tac energy_step_cases [OF assms(2)]) (auto simp: d nth_append less_Suc_eq split: if_splits)
qed

lemma starting_all_done: "tidy es s \<Longrightarrow> starting s \<Longrightarrow> t \<in> set (samplers s) \<Longrightarrow> t = T_done"
  by (simp add: tidy_def)

lemma tidy_init_quiet:
  assumes "locks_ok k s" "tidy es s" "caller s = C_init"
  shows "mlock s \<noteq> Locked x"
proof
  assume "mlock s = Locked x"
  then have o: "owns_lock s x" using assms(1) unfolding locks_ok_def by blast
  have "starting s" using assms(3) by (simp add: starting_def)
  then have "\<not> in_lock (samplers s ! i)" if "i < length (samplers s)" for i
    using starting_all_done [OF assms(2) _ nth_mem [OF that]] by (simp add: in_lock_def)
  then show False using o assms(3) by (auto simp: owns_lock_def split: option.splits)
qed

lemma p9_step_tidy:
  assumes "locks_ok k s" "tidy es s" "p9_step E P s e s'" "waited s s'"
  shows "tidy (es @ (case e of None \<Rightarrow> [] | Some e \<Rightarrow> [e])) s'" "e \<noteq> Some Ev_bad_init"
    "e = Some (Ev_reported w) \<Longrightarrow> w = 250 * sum_since es"
proof -
  have "tidy (es @ (case e of None \<Rightarrow> [] | Some e \<Rightarrow> [e])) s' \<and> e \<noteq> Some Ev_bad_init \<and> (\<forall>w. e = Some (Ev_reported w) \<longrightarrow> w = 250 * sum_since es)"
    using assms(3)
  proof cases
    case (sampler i now m)
    then show ?thesis using sampler_step_tidy [OF assms(1,2)] by auto
  next
    case (firmware o')
    then show ?thesis using assms(2) by (auto simp: tidy_def interval_set_def starting_def)
  next
    case (call out)
    obtain now where c: "caller (energy_call P out s) = (if active_sampling s then C_wait out now else C_start out now)"
      using energy_call_fields(8) by blast
    have "active_sampling s \<or> (\<forall>t \<in> set (samplers s). t = T_done)"
      using assms(4) call by (auto simp: waited_def energy_call_fields)
    then show ?thesis using assms(2) call c by (cases now) (auto simp: tidy_def interval_set_def starting_def energy_call_fields)
  next
    case (go_on m)
    have "energy_acc s = 250 * sum_since es" using assms(2) by (simp add: tidy_def)
    moreover have "m = None \<or> m = Some (energy_acc s)" by (rule energy_step_cases [OF go_on(2)]) simp_all
    ultimately show ?thesis using caller_step_tidy [OF assms(2) go_on(2)] go_on(1) by (auto split: call_pc.splits)
  next
    case (bad_init x)
    then show ?thesis using tidy_init_quiet [OF assms(1,2)] by blast
  qed
  then show "tidy (es @ (case e of None \<Rightarrow> [] | Some e \<Rightarrow> [e])) s'" "e \<noteq> Some Ev_bad_init"
    "e = Some (Ev_reported w) \<Longrightarrow> w = 250 * sum_since es" by auto
qed

definition reports_ok :: "p9_event list \<Rightarrow> bool" where
  "reports_ok es \<longleftrightarrow> (\<forall>es1 w es2. es = es1 @ Ev_reported w # es2 \<longrightarrow> w = 250 * sum_since es1)"

lemma reports_ok_snoc:
  "reports_ok es \<Longrightarrow> (\<And>w. e = Ev_reported w \<Longrightarrow> w = 250 * sum_since es) \<Longrightarrow> reports_ok (es @ [e])"
  by (auto simp: reports_ok_def append_eq_append_conv2 Cons_eq_append_conv append_eq_Cons_conv)

lemma p9_idle_ok:
  assumes "p9_idle s"
  shows "locks_ok (occ_fds s) s" "tidy [] s"
  using assms by (auto simp: p9_idle_def locks_ok_def owns_lock_def tidy_def interval_set_def starting_def split: option.splits)

lemma p9_run_locks:
  assumes "p9_run E P W s es t" "p9_idle s"
  shows "locks_ok (occ_fds s) t"
  using assms
proof induction
  case (run_step es t e u)
  then show ?case using p9_step_locks by blast
qed (rule p9_idle_ok)

lemma p9_run_tidy:
  assumes "p9_run E P W s es t" "p9_idle s" W
  shows "tidy es t \<and> reports_ok es \<and> Ev_bad_init \<notin> set es"
  using assms
proof induction
  case run_refl
  then show ?case using p9_idle_ok(2) by (simp add: reports_ok_def)
next
  case (run_step es t e u)
  then have l: "locks_ok (occ_fds s) t" "tidy es t" "reports_ok es" "Ev_bad_init \<notin> set es" "waited t u"
    using p9_run_locks by blast+
  note st = p9_step_tidy [OF l(1,2) run_step.hyps(2) l(5)]
  show ?case
  proof (cases e)
    case None
    then show ?thesis using st(1) l by simp
  next
    case (Some v)
    then show ?thesis using st l(3,4) reports_ok_snoc [of es v] by auto
  qed
qed

text \<open>
  C5: take any run of the energy calls of one client thread (each either ibm\_cpu\_p9\_get\_energy or ibm\_cpu\_p9\_get\_node\_energy\_json),
  the sampling threads they create and the firmware, from the state before the first call, in which each read or write of a shared
  word, each lock operation and each measurement is one step and the steps come in any order. (A run ends when the lock
  is initialised while it is held, which is undefined.) At most one of the threads and the caller is between taking and
  releasing the lock, and the sensor file is open once for each thread that has opened it and not returned and for nothing else.
  If in addition the client switches sampling on again only after all earlier threads have returned, then each
  report is 250 times the sum of the samples added since sampling was last switched on, modulo 2^64 (the samples
  are watts, the interval milliseconds), the lock is never initialised while it is held, and while a call
  that switches sampling on is under way no thread can run, so that its unlocked accesses to the sum meet no other. For a client
  that does not wait all of these fail.
\<close>

theorem p9_energy_reports:
  assumes "p9_idle s" "p9_run E P W s es t"
  shows "(\<forall>x y. owns_lock t x \<and> owns_lock t y \<longrightarrow> x = y) \<and> occ_fds t = occ_fds s + length (filter has_file (samplers t)) \<and>
    (W \<longrightarrow> (\<forall>es1 w es2. es = es1 @ Ev_reported w # es2 \<longrightarrow> w = 250 * sum_since es1) \<and> Ev_bad_init \<notin> set es \<and>
      (starting t \<longrightarrow> (\<forall>u \<in> set (samplers t). u = T_done)))"
proof (intro conjI impI)
  have l: "locks_ok (occ_fds s) t" using p9_run_locks [OF assms(2,1)] .
  show "\<forall>x y. owns_lock t x \<and> owns_lock t y \<longrightarrow> x = y"
  proof (intro allI impI)
    fix x y assume "owns_lock t x \<and> owns_lock t y"
    then have "mlock t = Locked x" "mlock t = Locked y" using l unfolding locks_ok_def by blast+
    then show "x = y" by simp
  qed
  show "occ_fds t = occ_fds s + length (filter has_file (samplers t))" using l by (simp add: locks_ok_def)
  assume W
  note r = p9_run_tidy [OF assms(2,1) this]
  then show "\<forall>es1 w es2. es = es1 @ Ev_reported w # es2 \<longrightarrow> w = 250 * sum_since es1" by (simp add: reports_ok_def)
  show "Ev_bad_init \<notin> set es" using r by simp
  show "\<forall>u \<in> set (samplers t). u = T_done" if "starting t" using r that by (simp add: tidy_def)
qed

section \<open>Runs of a client that does not wait\<close>

lemma run_quiet:
  assumes "p9_run E P W s es t" "Ev_bad_init \<notin> set es" "i < length (samplers t)" "power_measurement E P now i t = Some (None, u)"
  shows "p9_run E P W s es u"
  using run_step [OF assms(1) sampler [OF assms(3,4)] _ assms(2)] power_measurement_shared(1) [OF assms(4)]
  by (simp add: waited_def)

text \<open>A thread wakes up while sampling is on; takes the lock, measures and reads the sum; stores it; releases the lock.\<close>

lemma run_open:
  assumes "p9_run E P W s es t" "Ev_bad_init \<notin> set es" "serves E img" "i < length (samplers t)" "samplers t ! i = T_new"
    "sample_interval t = 250"
  shows "p9_run E P W s es (set_sampler i (T_sleep (init_msTimer 0 250)) (t\<lparr>occ_fds := occ_fds t + 1\<rparr>))"
  by (rule run_quiet [OF assms(1,2,4), of 0])
    (use assms(3,5,6) in \<open>simp add: power_measurement_def serves_def int_of_u64_def\<close>)

lemma run_wake:
  assumes "p9_run E P W s es t" "Ev_bad_init \<notin> set es" "i < length (samplers t)" "samplers t ! i = T_sleep tm"
    "timer_sleep now tm \<noteq> None" "active_sampling t"
  shows "\<exists>tm' c d. timer_sleep now tm = Some (tm', c, d) \<and> p9_run E P W s es (set_sampler i (T_lock tm') t)"
proof -
  obtain tm' c d where tm: "timer_sleep now tm = Some (tm', c, d)" using assms(5) by auto
  let ?a = "set_sampler i (T_check tm') t"
  have a: "p9_run E P W s es ?a"
    by (rule run_quiet [OF assms(1-3), of now]) (simp add: power_measurement_def assms(4) tm)
  have "p9_run E P W s es (set_sampler i (T_lock tm') ?a)"
    by (rule run_quiet [OF a assms(2), of i now]) (use assms(3,6) in \<open>simp_all add: power_measurement_def set_sampler_def\<close>)
  then show ?thesis using tm by (auto simp: set_sampler_def)
qed

lemma run_take:
  assumes "p9_run E P W s es t" "Ev_bad_init \<notin> set es" "i < length (samplers t)" "samplers t ! i = T_lock tm" "mlock t = Unlocked"
    "serves E img" "has_blocks (img (opal t)) 1" "get_node_power P (block_of (img (opal t)) 0) = Some w"
  shows "\<exists>o'. img o' = img (opal t) \<and>
    p9_run E P W s es (set_sampler i (T_store tm w (energy_acc t)) (t\<lparr>mlock := Locked (Some i), opal := o'\<rparr>))"
proof -
  let ?a = "set_sampler i (T_hold tm) (t\<lparr>mlock := Locked (Some i)\<rparr>)"
  have a: "p9_run E P W s es ?a"
    by (rule run_quiet [OF assms(1-3), of 0]) (simp add: power_measurement_def assms(4,5))
  have p: "0 * OCC_SENSOR_DATA_BLOCK_SIZE < 2 ^ 32" by simp
  have "(0 + 1) * OCC_SENSOR_DATA_BLOCK_SIZE \<le> length (img (opal ?a))" using assms(7) by (simp add: has_blocks_def set_sampler_def)
  then obtain o' where o': "img o' = img (opal t)" "read_block E 0 ?a = Some (Some (block_of (img (opal t)) 0), ?a\<lparr>opal := o'\<rparr>)"
    using read_block_serves [OF assms(6) p, of ?a] by (auto simp: set_sampler_def)
  have tm: "take_measurement E P ?a = Some (w, ?a\<lparr>opal := o'\<rparr>)" by (simp add: take_measurement_def o' assms(8))
  let ?b = "set_sampler i (T_add tm w) (?a\<lparr>opal := o'\<rparr>)"
  have h: "samplers ?a ! i = T_hold tm" using assms(3) by (simp add: set_sampler_def)
  have b: "p9_run E P W s es ?b"
    by (rule run_quiet [OF a assms(2), of i 0]) (use assms(3) in \<open>simp add: set_sampler_def\<close>, simp add: power_measurement_def h tm)
  have h': "samplers ?b ! i = T_add tm w" "energy_acc ?b = energy_acc t" using assms(3) by (simp_all add: set_sampler_def)
  have "p9_run E P W s es (set_sampler i (T_store tm w (energy_acc t)) ?b)"
    by (rule run_quiet [OF b assms(2), of i 0]) (use assms(3) in \<open>simp add: set_sampler_def\<close>, simp add: power_measurement_def h')
  then show ?thesis using o'(1) by (intro exI [of _ o']) (simp add: set_sampler_def)
qed

lemma run_put:
  assumes "p9_run E P W s es t" "Ev_bad_init \<notin> set es" "i < length (samplers t)" "samplers t ! i = T_store tm w a"
  shows "p9_run E P W s (es @ [Ev_measured w]) (set_sampler i (T_unlock tm) (t\<lparr>energy_acc := a + w * sample_interval t\<rparr>))"
proof -
  have "p9_step E P t (map_option Ev_measured (Some w)) (set_sampler i (T_unlock tm) (t\<lparr>energy_acc := a + w * sample_interval t\<rparr>))"
    by (rule sampler [OF assms(3), of E P 0]) (simp add: power_measurement_def assms(4))
  from run_step [OF assms(1) this _ assms(2)] show ?thesis by (simp add: waited_def set_sampler_def)
qed

lemma run_drop:
  assumes "p9_run E P W s es t" "Ev_bad_init \<notin> set es" "i < length (samplers t)" "samplers t ! i = T_unlock tm"
  shows "p9_run E P W s es (set_sampler i (T_sleep tm) (t\<lparr>mlock := Unlocked\<rparr>))"
  by (rule run_quiet [OF assms(1-3), of 0]) (simp add: power_measurement_def assms(4))

lemma run_sample:
  assumes "p9_run E P W s es t" "Ev_bad_init \<notin> set es" "i < length (samplers t)" "samplers t ! i = T_sleep tm"
    "timer_sleep now tm \<noteq> None" "active_sampling t" "mlock t = Unlocked"
    "serves E img" "has_blocks (img (opal t)) 1" "get_node_power P (block_of (img (opal t)) 0) = Some w"
  shows "\<exists>u tm' c d. p9_run E P W s (es @ [Ev_measured w]) u \<and> caller u = caller t \<and>
    energy_acc u = energy_acc t + w * sample_interval t \<and> sample_interval u = sample_interval t \<and> active_sampling u \<and>
    img (opal u) = img (opal t) \<and> samplers u = (samplers t)[i := T_sleep tm'] \<and> mlock u = Unlocked \<and>
    timer_sleep now tm = Some (tm', c, d)"
proof -
  obtain tm' c d where a: "timer_sleep now tm = Some (tm', c, d)" "p9_run E P W s es (set_sampler i (T_lock tm') t)"
    using run_wake [OF assms(1-6)] by blast
  let ?a = "set_sampler i (T_lock tm') t"
  have fa: "i < length (samplers ?a)" "samplers ?a ! i = T_lock tm'" "mlock ?a = Unlocked" "opal ?a = opal t"
    using assms(3,7) by (simp_all add: set_sampler_def)
  obtain o' where o': "img o' = img (opal t)"
    "p9_run E P W s es (set_sampler i (T_store tm' w (energy_acc ?a)) (?a\<lparr>mlock := Locked (Some i), opal := o'\<rparr>))"
    using run_take [OF a(2) assms(2) fa(1-3) assms(8)] assms(9,10) fa(4) by auto
  let ?b = "set_sampler i (T_store tm' w (energy_acc ?a)) (?a\<lparr>mlock := Locked (Some i), opal := o'\<rparr>)"
  have fb: "i < length (samplers ?b)" "samplers ?b ! i = T_store tm' w (energy_acc ?a)" using assms(3) by (simp_all add: set_sampler_def)
  note c = run_put [OF o'(2) assms(2) fb]
  let ?c = "set_sampler i (T_unlock tm') (?b\<lparr>energy_acc := energy_acc ?a + w * sample_interval ?b\<rparr>)"
  have n: "Ev_bad_init \<notin> set (es @ [Ev_measured w])" using assms(2) by simp
  have fc: "i < length (samplers ?c)" "samplers ?c ! i = T_unlock tm'" using assms(3) by (simp_all add: set_sampler_def)
  have "p9_run E P W s (es @ [Ev_measured w]) (set_sampler i (T_sleep tm') (?c\<lparr>mlock := Unlocked\<rparr>))"
    using run_drop [OF c n fc] .
  then show ?thesis using o'(1) a(1) assms(6)
    by (intro exI [of _ "set_sampler i (T_sleep tm') (?c\<lparr>mlock := Unlocked\<rparr>)"] exI [of _ tm'] exI [of _ c] exI [of _ d])
      (simp add: set_sampler_def)
qed

text \<open>Steps of the caller.\<close>

lemma run_call:
  assumes "p9_run E P W s es t" "Ev_bad_init \<notin> set es" "caller t = C_idle"
    "W \<Longrightarrow> active_sampling t \<or> (\<forall>u \<in> set (samplers t). u = T_done)"
  shows "p9_run E P W s es (energy_call P out t)"
  using run_step [OF assms(1) call [OF assms(3), of E P out] _ assms(2)] assms(4) by (auto simp: waited_def energy_call_fields)

lemma run_go:
  assumes "p9_run E P W s es t" "Ev_bad_init \<notin> set es" "energy_step P t = Some (m, u)"
  shows "p9_run E P W s (es @ (case (case caller t of C_zero _ _ \<Rightarrow> Some Ev_started | _ \<Rightarrow> map_option Ev_reported m) of
    None \<Rightarrow> [] | Some e \<Rightarrow> [e])) u"
proof -
  have "active_sampling u = active_sampling t" by (rule energy_step_cases [OF assms(3)]) simp_all
  then show ?thesis using run_step [OF assms(1) go_on [OF assms(3)] _ assms(2)] by (simp add: waited_def)
qed

text \<open>A call that switches sampling on, up to clearing the sum; from there up to the initialisation of the lock; and the rest.\<close>

lemma run_clear:
  assumes "p9_run E P W s es t" "Ev_bad_init \<notin> set es" "caller t = C_idle" "\<not> active_sampling t"
    "W \<Longrightarrow> \<forall>u \<in> set (samplers t). u = T_done"
  shows "\<exists>u now. p9_run E P W s (es @ [Ev_started]) u \<and> caller u = C_tell out now \<and> energy_acc u = 0 \<and> sample_interval u = 250 \<and>
    active_sampling u \<and> opal u = opal t \<and> samplers u = samplers t \<and> mlock u = mlock t"
proof -
  let ?a = "energy_call P out t"
  have a: "p9_run E P W s es ?a" using run_call [OF assms(1-3)] assms(5) by blast
  note f = energy_call_fields [where P = P and out = out and s = t]
  obtain now where ca: "caller ?a = C_start out now" using f(8) assms(4) by auto
  let ?b = "?a\<lparr>sample_interval := 250, caller := C_zero out now\<rparr>"
  have b: "p9_run E P W s es ?b" using run_go [OF a assms(2)] ca by (fastforce simp: energy_step_def)
  let ?c = "?b\<lparr>energy_acc := 0, caller := C_tell out now\<rparr>"
  have "p9_run E P W s (es @ [Ev_started]) ?c" using run_go [OF b assms(2)] by (fastforce simp: energy_step_def)
  then show ?thesis using f assms(4) by (intro exI [of _ ?c] exI [of _ now]) simp
qed

lemma run_tell:
  assumes "p9_run E P W s es t" "Ev_bad_init \<notin> set es" "caller t = C_tell out now"
  shows "p9_run E P W s (es @ [Ev_reported (energy_acc t)]) (report_energy P out now (t\<lparr>caller := C_init\<rparr>))"
  using run_go [OF assms(1,2)] assms(3) by (fastforce simp: energy_step_def)

lemma run_start:
  assumes "p9_run E P W s es t" "Ev_bad_init \<notin> set es" "caller t = C_idle" "\<not> active_sampling t"
    "W \<Longrightarrow> \<forall>u \<in> set (samplers t). u = T_done" "\<And>x. mlock t \<noteq> Locked x"
  shows "\<exists>u. p9_run E P W s (es @ [Ev_started, Ev_reported 0]) u \<and> caller u = C_idle \<and> energy_acc u = 0 \<and> sample_interval u = 250 \<and>
    active_sampling u \<and> opal u = opal t \<and> samplers u = samplers t @ [T_new] \<and> mlock u = Unlocked"
proof -
  obtain u now where u: "p9_run E P W s (es @ [Ev_started]) u" "caller u = C_tell To_json now" "energy_acc u = 0" "sample_interval u = 250"
    "active_sampling u" "opal u = opal t" "samplers u = samplers t" "mlock u = mlock t"
    using run_clear [OF assms(1-5)] by blast
  let ?a = "report_energy P To_json now (u\<lparr>caller := C_init\<rparr>)"
  have a: "p9_run E P W s (es @ [Ev_started, Ev_reported 0]) ?a" using run_tell [OF u(1) _ u(2)] assms(2) u(3) by simp
  have n: "Ev_bad_init \<notin> set (es @ [Ev_started, Ev_reported 0])" using assms(2) by simp
  let ?b = "?a\<lparr>mlock := Unlocked, caller := C_create\<rparr>"
  have "energy_step P ?a = Some (None, ?b)" using assms(6) u(8) by (simp add: energy_step_def split: mutex.split)
  then have b: "p9_run E P W s (es @ [Ev_started, Ev_reported 0]) ?b" using run_go [OF a n] by fastforce
  let ?c = "?b\<lparr>samplers := samplers ?b @ [T_new], caller := C_idle\<rparr>"
  have "p9_run E P W s (es @ [Ev_started, Ev_reported 0]) ?c" using run_go [OF b n] by (fastforce simp: energy_step_def)
  then show ?thesis using u by (intro exI [of _ ?c]) simp
qed

lemma run_stop:
  assumes "p9_run E P W s es t" "Ev_bad_init \<notin> set es" "caller t = C_idle" "active_sampling t" "mlock t = Unlocked"
  shows "\<exists>u. p9_run E P W s (es @ [Ev_reported (energy_acc t)]) u \<and> caller u = C_idle \<and> energy_acc u = energy_acc t \<and>
    sample_interval u = sample_interval t \<and> \<not> active_sampling u \<and> opal u = opal t \<and> samplers u = samplers t \<and> mlock u = Unlocked"
proof -
  let ?a = "energy_call P To_json t"
  have a: "p9_run E P W s es ?a" using run_call [OF assms(1-3)] assms(4) by blast
  note f = energy_call_fields [where P = P and out = To_json and s = t]
  obtain now where ca: "caller ?a = C_wait To_json now" using f(8) assms(4) by auto
  let ?b = "?a\<lparr>mlock := Locked None, caller := C_report To_json now\<rparr>"
  have "energy_step P ?a = Some (None, ?b)" using ca f(1) assms(5) by (simp add: energy_step_def)
  then have b: "p9_run E P W s es ?b" using run_go [OF a assms(2)] ca by fastforce
  let ?c = "report_energy P To_json now (?b\<lparr>mlock := Unlocked, caller := C_idle\<rparr>)"
  have "p9_run E P W s (es @ [Ev_reported (energy_acc t)]) ?c" using run_go [OF b assms(2)] f(2) by (fastforce simp: energy_step_def)
  then show ?thesis using f assms(4) by (intro exI [of _ ?c]) simp
qed

lemma first_sleep: "timer_sleep 0 (init_msTimer 0 250) \<noteq> None"
  by (simp add: timer_sleep_def init_msTimer_def next_firing_def unsigned_of_int_def Let_def)

lemma second_sleep: "timer_sleep 0 (init_msTimer 0 250) = Some (tm, c, d) \<Longrightarrow> timer_sleep 0 tm \<noteq> None"
  by (auto simp: timer_sleep_def init_msTimer_def next_firing_def unsigned_of_int_def Let_def)

text \<open>The first call, and the first step of the thread it creates.\<close>

lemma run_first:
  fixes s :: "('o, 'a) p9_state_scheme"
  assumes "p9_idle s" "serves E img"
  shows "\<exists>u. p9_run E P W s [Ev_started, Ev_reported 0] u \<and> caller u = C_idle \<and> energy_acc u = 0 \<and> sample_interval u = 250 \<and>
    active_sampling u \<and> opal u = opal s \<and> samplers u = [T_sleep (init_msTimer 0 250)] \<and> mlock u = Unlocked"
proof -
  have i: "samplers s = []" "mlock s = Uninit" "\<not> active_sampling s" "caller s = C_idle" using assms(1) by (simp_all add: p9_idle_def)
  have r: "p9_run E P W s [] s" by (rule run_refl)
  obtain t where t: "p9_run E P W s [Ev_started, Ev_reported 0] t" "caller t = C_idle" "energy_acc t = 0" "sample_interval t = 250"
    "active_sampling t" "opal t = opal s" "samplers t = [T_new]" "mlock t = Unlocked"
    using run_start [OF r _ i(4,3)] i by auto
  let ?u = "set_sampler 0 (T_sleep (init_msTimer 0 250)) (t\<lparr>occ_fds := occ_fds t + 1\<rparr>)"
  have "p9_run E P W s [Ev_started, Ev_reported 0] ?u" using run_open [OF t(1) _ assms(2), of 0] t by simp
  then show ?thesis using t by (intro exI [of _ ?u]) (simp add: set_sampler_def)
qed


text \<open>
  C12: the call that switches sampling on clears and reports the sum and initialises the lock without holding it. When the
  client makes it while a thread that was started before is still adding a sample w, a run exists in which the sum is
  cleared between the thread's read and its write, so that the call, which should print zero, reports 500 * w although
  only w was added since; and one in which the lock is initialised while the thread holds it, which is undefined. (The OCC
  serves a whole block whose node power is w; the thread's first sample was w as well.)
\<close>

theorem p9_restart_unsafe:
  fixes s :: "('o, 'a) p9_state_scheme"
  assumes "p9_idle s" "serves E img" "has_blocks (img (opal s)) 1" "get_node_power P (block_of (img (opal s)) 0) = Some w"
  shows "(\<exists>t. p9_run E P False s [Ev_started, Ev_reported 0, Ev_measured w, Ev_reported (250 * w), Ev_started, Ev_measured w,
      Ev_reported (2 * (250 * w))] t) \<and>
    (\<exists>t. p9_run E P False s [Ev_started, Ev_reported 0, Ev_measured w, Ev_reported (250 * w), Ev_started, Ev_reported 0, Ev_bad_init] t)"
proof -
  obtain b where b: "p9_run E P False s [Ev_started, Ev_reported 0] b" "caller b = C_idle" "energy_acc b = 0" "sample_interval b = 250"
    "active_sampling b" "opal b = opal s" "samplers b = [T_sleep (init_msTimer 0 250)]" "mlock b = Unlocked"
    using run_first [OF assms(1,2)] by blast
  have h: "has_blocks (img (opal b)) 1" "get_node_power P (block_of (img (opal b)) 0) = Some w" using assms(3,4) b(6) by simp_all
  let ?e1 = "[Ev_started, Ev_reported 0, Ev_measured w]" and ?e2 = "[Ev_started, Ev_reported 0, Ev_measured w, Ev_reported (250 * w)]"
  obtain c tm1 x y where c: "p9_run E P False s ?e1 c" "caller c = C_idle" "energy_acc c = 250 * w" "active_sampling c"
    "img (opal c) = img (opal b)" "samplers c = [T_sleep tm1]" "mlock c = Unlocked" "timer_sleep 0 (init_msTimer 0 250) = Some (tm1, x, y)"
    using run_sample [OF b(1) _ _ _ first_sleep b(5,8) assms(2) h, of 0] b by auto
  obtain tm2 where "p9_run E P False s ?e1 (set_sampler 0 (T_lock tm2) c)"
    using run_wake [OF c(1) _ _ _ second_sleep [OF c(8)] c(4), of 0] c(6) by auto
  then obtain d where d: "p9_run E P False s ?e1 d" "caller d = C_idle" "energy_acc d = 250 * w" "active_sampling d"
    "img (opal d) = img (opal b)" "samplers d = [T_lock tm2]" "mlock d = Unlocked"
    using c by (auto simp: set_sampler_def)
  obtain e where e: "p9_run E P False s ?e2 e" "caller e = C_idle" "energy_acc e = 250 * w" "\<not> active_sampling e"
    "opal e = opal d" "samplers e = [T_lock tm2]" "mlock e = Unlocked"
    using run_stop [OF d(1) _ d(2,4,7)] d by auto
  have h': "has_blocks (img (opal e)) 1" "get_node_power P (block_of (img (opal e)) 0) = Some w" using h d(5) e(5) by simp_all
  obtain o' where "p9_run E P False s ?e2
      (set_sampler 0 (T_store tm2 w (energy_acc e)) (e\<lparr>mlock := Locked (Some 0), opal := o'\<rparr>))"
    using run_take [OF e(1) _ _ _ e(7) assms(2) h', of 0 tm2] e(6) by auto
  then obtain f where f: "p9_run E P False s ?e2 f" "caller f = C_idle" "\<not> active_sampling f"
    "samplers f = [T_store tm2 w (250 * w)]" "mlock f = Locked (Some 0)"
    using e by (auto simp: set_sampler_def)
  let ?e3 = "?e2 @ [Ev_started]"
  obtain g now where g: "p9_run E P False s ?e3 g" "caller g = C_tell To_json now" "energy_acc g = 0" "sample_interval g = 250"
    "samplers g = [T_store tm2 w (250 * w)]" "mlock g = Locked (Some 0)"
    using run_clear [OF f(1) _ f(2,3), of To_json] f(4,5) by auto
  let ?u = "set_sampler 0 (T_unlock tm2) (g\<lparr>energy_acc := 250 * w + w * sample_interval g\<rparr>)"
  have u: "p9_run E P False s (?e3 @ [Ev_measured w]) ?u" using run_put [OF g(1), of 0] g(5) by simp
  have fu: "caller ?u = C_tell To_json now" "energy_acc ?u = 2 * (250 * w)" using g by (simp_all add: set_sampler_def)
  have one: "p9_run E P False s ((?e3 @ [Ev_measured w]) @ [Ev_reported (energy_acc ?u)]) (report_energy P To_json now (?u\<lparr>caller := C_init\<rparr>))"
    using run_tell [OF u _ fu(1)] by simp
  let ?v = "report_energy P To_json now (g\<lparr>caller := C_init\<rparr>)"
  have v: "p9_run E P False s (?e3 @ [Ev_reported 0]) ?v" using run_tell [OF g(1) _ g(2)] g(3) by simp
  have "p9_step E P ?v (Some Ev_bad_init) ?v" by (rule bad_init [of _ "Some 0"]) (simp_all add: g(6))
  from run_step [OF v this] have two: "p9_run E P False s ((?e3 @ [Ev_reported 0]) @ [Ev_bad_init]) ?v" by simp
  show ?thesis using one two unfolding fu(2) by auto
qed

lemma p9_start_idle: "p9_idle (p9_start o')"
  by (simp add: p9_idle_def)

lemma example_node_power:
  "serves example_opal fst" "has_blocks (fst (opal (p9_start (example_buf, '''')))) 1"
  "get_node_power p9_node (block_of (fst (opal (p9_start (example_buf, '''')))) 0) = Some 0x123"
proof -
  let ?s = "p9_start (example_buf, '''')"
  show "serves example_opal fst" by (rule example_serves)
  show "has_blocks (fst (opal ?s)) 1" by (simp add: has_blocks_def OCC_SENSOR_DATA_BLOCK_SIZE_def)
  have "holds_block (block_of (fst (opal ?s)) 0) example_block" using example_holds by (simp add: block_of_def)
  from power_values_block [OF this, of "[''PWRSYS'']" p9_node]
  have "get_node_power p9_node (block_of (fst (opal ?s)) 0) = map_option hd (those (map (named_value p9_node example_block) [''PWRSYS'']))"
    by (simp add: get_node_power_def plain_name_def)
  also have "\<dots> = Some 0x123"
    using scaled_whole [OF p9_node_facts(5), of "0x100" "0x123"]
    by (simp add: named_value_def example_block_def sample_of_def current_def)
  finally show "get_node_power p9_node (block_of (fst (opal ?s)) 0) = Some 0x123" .
qed

text \<open>A waiting client: the first call, one sample, and the call that reports it.\<close>

theorem p9_energy_reports_witness:
  "\<exists>t. p9_run example_opal p9_node True (p9_start (example_buf, '''')) [Ev_started, Ev_reported 0, Ev_measured 0x123, Ev_reported (250 * 0x123)] t \<and>
     (\<forall>x y. owns_lock t x \<and> owns_lock t y \<longrightarrow> x = y) \<and> occ_fds t = 1 \<and> length (filter has_file (samplers t)) = 1 \<and>
     250 * sum_since [Ev_started, Ev_reported 0, Ev_measured 0x123] = 250 * 0x123"
proof -
  let ?s = "p9_start (example_buf, '''')"
  note ex = example_node_power
  obtain b where b: "p9_run example_opal p9_node True ?s [Ev_started, Ev_reported 0] b" "caller b = C_idle" "energy_acc b = 0"
    "sample_interval b = 250" "active_sampling b" "opal b = opal ?s" "samplers b = [T_sleep (init_msTimer 0 250)]" "mlock b = Unlocked"
    using run_first [OF p9_start_idle ex(1), of p9_node True] by blast
  have h: "has_blocks (fst (opal b)) 1" "get_node_power p9_node (block_of (fst (opal b)) 0) = Some 0x123" using ex(2,3) b(6) by simp_all
  let ?es = "[Ev_started, Ev_reported 0, Ev_measured 0x123]"
  obtain c tm where c: "p9_run example_opal p9_node True ?s ?es c" "caller c = C_idle" "energy_acc c = 250 * 0x123" "active_sampling c"
    "samplers c = [T_sleep tm]" "mlock c = Unlocked"
    using run_sample [OF b(1) _ _ _ first_sleep b(5,8) ex(1) h, of 0] b by auto
  obtain t where t: "p9_run example_opal p9_node True ?s (?es @ [Ev_reported (250 * 0x123)]) t" "samplers t = [T_sleep tm]"
    using run_stop [OF c(1) _ c(2,4,6)] c(3,5) by auto
  have r: "(\<forall>x y. owns_lock t x \<and> owns_lock t y \<longrightarrow> x = y) \<and> occ_fds t = occ_fds ?s + length (filter has_file (samplers t)) \<and>
    (True \<longrightarrow> (\<forall>es1 w es2. ?es @ [Ev_reported (250 * 0x123)] = es1 @ Ev_reported w # es2 \<longrightarrow> w = 250 * sum_since es1) \<and>
      Ev_bad_init \<notin> set (?es @ [Ev_reported (250 * 0x123)]) \<and> (starting t \<longrightarrow> (\<forall>u \<in> set (samplers t). u = T_done)))"
    by (rule p9_energy_reports [OF p9_start_idle t(1)])
  then have "250 * sum_since ?es = 250 * 0x123" by fastforce
  then show ?thesis using r t by (intro exI [of _ t]) (simp add: has_file_def)
qed


theorem p9_restart_unsafe_witness:
  "\<exists>es t. p9_run example_opal p9_node False (p9_start (example_buf, '''')) (es @ [Ev_reported (2 * (250 * 0x123))]) t \<and>
     sum_since es = 0x123"
  using p9_restart_unsafe [OF p9_start_idle example_node_power]
  by (intro exI [of _ "[Ev_started, Ev_reported 0, Ev_measured 0x123, Ev_reported (250 * 0x123), Ev_started, Ev_measured 0x123]"])
    (simp add: sum_since_def)

end
