(* ===== verification/Arm_Sysfs.thy ===== *)
theory Arm_Sysfs imports C_Text begin

text \<open>
  arm_util.c: numbers and lists of numbers in sysfs files. The kernel behind the files is a parameter, \<open>sysfs_env\<close>:
  what one read or write of a file does in a state of the kernel, which is a field of the program's state. The
  descriptors are those of the device layer (\<open>os_open\<close>, \<open>os_close\<close>).

  The buffers are on the stack and never cleared, so what the stack holds is a parameter too: a read that fails or
  returns fewer bytes leaves it in place, and write_file_ui64 sends 32 bytes whatever the length of the number.
\<close>

section \<open>State\<close>

record 'o sysfs_env =
  sy_arm_idx :: nat \<comment> \<open>P_ARM_CPU_IDX\<close>
  sy_read :: "string \<Rightarrow> nat \<Rightarrow> 'o \<Rightarrow> string option \<times> 'o" \<comment> \<open>None: an error\<close>
  sy_write :: "string \<Rightarrow> string \<Rightarrow> 'o \<Rightarrow> int \<times> 'o"
  sy_stack :: "'o \<Rightarrow> nat \<Rightarrow> char"

text \<open>The functions that have a flag init\_output.\<close>

datatype arm_fn = Juno_power | Juno_thermal | Juno_clocks | Neoverse_power | Neoverse_thermal | Neoverse_clocks

record 'o arm_state = feat_state +
  sysfs :: 'o
  arm_inited :: "arm_fn set"

section \<open>Reading and writing\<close>

definition uninit :: "'o sysfs_env \<Rightarrow> nat \<Rightarrow> ('o, 'a) arm_state_scheme \<Rightarrow> string" where
  "uninit K n s = map (sy_stack K (sysfs s)) [0..<n]"

text \<open>\<open>char buf[n]; read(file, buf, n)\<close>: what read returns and what buf then holds.\<close>

definition read_buf :: "'o sysfs_env \<Rightarrow> nat \<Rightarrow> int \<Rightarrow> ('o, 'a) arm_state_scheme \<Rightarrow> int \<times> string \<times> ('o, 'a) arm_state_scheme" where
  "read_buf K n fd s =
    (case open_files s fd of
       Some (Sysfs_path p) \<Rightarrow>
         (case sy_read K p n (sysfs s) of
            (None, o') \<Rightarrow> (-1, uninit K n s, s\<lparr>sysfs := o'\<rparr>)
          | (Some bs, o') \<Rightarrow> let bs = take n bs in (int (length bs), bs @ drop (length bs) (uninit K n s), s\<lparr>sysfs := o'\<rparr>))
     | _ \<Rightarrow> (-1, uninit K n s, s))"

text \<open>\<open>val\<close> is what the variable held before the call.\<close>

definition read_file_ui64 ::
  "'o sysfs_env \<Rightarrow> int \<Rightarrow> u64 \<Rightarrow> ('o, 'a) arm_state_scheme \<Rightarrow> (int \<times> u64 \<times> ('o, 'a) arm_state_scheme) option" where
  "read_file_ui64 K fd val s =
    (let (bytes_read, buf, s) = read_buf K 32 fd s
     in if bytes_read = 0 then Some (0, val, s)
        else do {
          v \<leftarrow> scan_lu buf;
          Some (bytes_read, case v of None \<Rightarrow> val | Some v \<Rightarrow> v, s)
        })"

definition number_buf :: "'o sysfs_env \<Rightarrow> u64 \<Rightarrow> ('o, 'a) arm_state_scheme \<Rightarrow> string" where
  "number_buf K val s = (let text = dec (unat val) @ [CHR 0x00] in text @ drop (length text) (uninit K 32 s))"

definition write_file_ui64 :: "'o sysfs_env \<Rightarrow> int \<Rightarrow> u64 \<Rightarrow> ('o, 'a) arm_state_scheme \<Rightarrow> int \<times> ('o, 'a) arm_state_scheme" where
  "write_file_ui64 K fd val s =
    (let (bytes_written, s) =
       (case open_files s fd of
          Some (Sysfs_path p) \<Rightarrow> (case sy_write K p (number_buf K val s) (sysfs s) of (n, o') \<Rightarrow> (n, s\<lparr>sysfs := o'\<rparr>))
        | _ \<Rightarrow> (-1, s))
     in (if bytes_written \<le> 0 then 0 else bytes_written, s))"

text \<open>The loop over the tokens; the number of elements is the number of blanks in the text.\<close>

fun token_loop :: "nat \<Rightarrow> (string \<times> string) option \<Rightarrow> u64 list option" where
  "token_loop 0 tok = Some []"
| "token_loop (Suc n) None = Some []"
| "token_loop (Suc n) (Some (tok, rest)) = do {
     v \<leftarrow> atoll tok;
     vs \<leftarrow> token_loop n (strtok ('' '' @ [CHR 0x0A]) rest);
     Some (v # vs)
   }"

definition read_array_ui64 ::
  "power_env \<Rightarrow> 'o sysfs_env \<Rightarrow> int \<Rightarrow> ('o, 'a) arm_state_scheme \<Rightarrow> (int \<times> u64 list \<times> ('o, 'a) arm_state_scheme) option" where
  "read_array_ui64 P K fd s =
    (let (bytes_read, buf, s) = read_buf K 4096 fd s
     in if bytes_read = 0 then Some (0, [], s)
        else do {
          text \<leftarrow> c_string buf;
          let nfreq = length (filter (\<lambda>c. c = CHR '' '') text);
          vals \<leftarrow> token_loop nfreq (strtok '' '' text);
          Some (int nfreq, vals @ replicate (nfreq - length vals) (pe_junk P), s)
        })"

section \<open>Sensors\<close>

text \<open>
  What the power and thermal functions begin with: open all files, read them, and close them if nothing was found
  wrong. The descriptors are tested for 0 and the results of read for 0, so that the -1 of a failure passes.
\<close>

fun open_each :: "os_env \<Rightarrow> string list \<Rightarrow> 'a msr_state_scheme \<Rightarrow> int list \<times> 'a msr_state_scheme" where
  "open_each E [] s = ([], s)"
| "open_each E (p # ps) s =
    (let (fd, s) = os_open E (Sysfs_path p) s;
         (fds, s) = open_each E ps s
     in (fd # fds, s))"

fun close_each :: "os_env \<Rightarrow> int list \<Rightarrow> 'a msr_state_scheme \<Rightarrow> 'a msr_state_scheme" where
  "close_each E [] s = s"
| "close_each E (fd # fds) s = close_each E fds (snd (os_close E fd s))"

fun read_each ::
  "'o sysfs_env \<Rightarrow> u64 \<Rightarrow> int list \<Rightarrow> ('o, 'a) arm_state_scheme \<Rightarrow> ((int \<times> u64) list \<times> ('o, 'a) arm_state_scheme) option" where
  "read_each K val [] s = Some ([], s)"
| "read_each K val (fd # fds) s = do {
     (n, v, s) \<leftarrow> read_file_ui64 K fd val s;
     (rs, s) \<leftarrow> read_each K val fds s;
     Some ((n, v) # rs, s)
   }"

text \<open>The values; None in the sum for the return of -1, which leaves the files open.\<close>

definition read_sensors ::
  "power_env \<Rightarrow> 'o sysfs_env \<Rightarrow> string list \<Rightarrow> ('o, 'a) arm_state_scheme \<Rightarrow> (u64 list option \<times> ('o, 'a) arm_state_scheme) option" where
  "read_sensors P K paths s =
    (let (fds, s) = open_each (pe_os P) paths s
     in if 0 \<in> set fds then Some (None, variorum_error_handler VARIORUM_ERROR_INVAL s)
        else do {
          (rs, s) \<leftarrow> read_each K (pe_junk P) fds s;
          if 0 \<in> set (map fst rs) then Some (None, variorum_error_handler VARIORUM_ERROR_INVAL s)
          else Some (Some (map snd rs), close_each (pe_os P) fds s)
        })"

text \<open>One file with a number, of which \<open>val\<close> is the variable: the number, or None for the return of -1.\<close>

definition read_number ::
  "power_env \<Rightarrow> 'o sysfs_env \<Rightarrow> u64 \<Rightarrow> string \<Rightarrow> ('o, 'a) arm_state_scheme \<Rightarrow> (u64 option \<times> ('o, 'a) arm_state_scheme) option" where
  "read_number P K val path s =
    (let (fd, s) = os_open (pe_os P) (Sysfs_path path) s
     in if fd = 0 then Some (None, variorum_error_handler VARIORUM_ERROR_INVAL s)
        else do {
          (n, v, s) \<leftarrow> read_file_ui64 K fd val s;
          if n = 0 then Some (None, variorum_error_handler VARIORUM_ERROR_INVAL s)
          else Some (Some v, snd (os_close (pe_os P) fd s))
        })"

text \<open>And one that a number is written to: does it go on, or return -1?\<close>

definition write_number ::
  "power_env \<Rightarrow> 'o sysfs_env \<Rightarrow> u64 \<Rightarrow> string \<Rightarrow> ('o, 'a) arm_state_scheme \<Rightarrow> bool \<times> ('o, 'a) arm_state_scheme" where
  "write_number P K val path s =
    (let (fd, s) = os_open (pe_os P) (Sysfs_path path) s
     in if fd = 0 then (False, variorum_error_handler VARIORUM_ERROR_INVAL s)
        else
          let (n, s) = write_file_ui64 K fd val s
          in if n = 0 then (False, variorum_error_handler VARIORUM_ERROR_INVAL s)
             else (True, snd (os_close (pe_os P) fd s)))"

section \<open>Printing\<close>

text \<open>The header, in the first call that is not verbose.\<close>

definition arm_header :: "arm_fn \<Rightarrow> line \<Rightarrow> ('o, 'a) arm_state_scheme \<Rightarrow> ('o, 'a) arm_state_scheme" where
  "arm_header f l s = (if f \<in> arm_inited s then s else say l s\<lparr>arm_inited := insert f (arm_inited s)\<rparr>)"

text \<open>\<open>(double)(val) / 1000.0f\<close> and \<open>(double)(val) / 1000000.0f\<close>\<close>

definition milli :: "u64 \<Rightarrow> double" where "milli val = d_div (d_of_u64 val) (Fin 1000)"
definition micro :: "u64 \<Rightarrow> double" where "micro val = d_div (d_of_u64 val) (Fin 1000000)"

text \<open>The two formats of the power and thermal functions.\<close>

definition sensor_report ::
  "power_env \<Rightarrow> arm_fn \<Rightarrow> int \<Rightarrow> string \<Rightarrow> string list \<Rightarrow> string \<Rightarrow> u64 list \<Rightarrow> ('o, 'a) arm_state_scheme \<Rightarrow> ('o, 'a) arm_state_scheme" where
  "sensor_report P f verbose tag columns long vals s =
    (if verbose \<noteq> 0 then say ([FS long, FS (pe_host P)] @ map (\<lambda>v. FF (milli v)) vals) s
     else say ([FS tag, FS (pe_host P)] @ map (\<lambda>v. FF (milli v)) vals) (arm_header f (map FS (tag # ''Host'' # columns)) s))"

definition hwmon :: "nat \<Rightarrow> string \<Rightarrow> string" where
  "hwmon i name = ''/sys/class/hwmon/hwmon'' @ dec i @ ''/'' @ name"

definition cpufreq :: "int \<Rightarrow> string \<Rightarrow> string" where
  "cpufreq i name = ''/sys/devices/system/cpu/cpufreq/policy'' @ dec_int i @ ''/'' @ name"

end
