(* ===== verification/Juno.thy ===== *)
theory Juno imports Arm_Sysfs begin

text \<open>
  juno_r2_power_features.c and ARM_Juno_r2.c: the functions installed for the Juno r2 board, one package of
  big and one of little cores, over the hwmon and cpufreq files.
\<close>

section \<open>juno\_r2\_power\_features.c\<close>

definition juno_power_files :: "string list" where
  "juno_power_files = map (hwmon 0) [''power1_input'', ''power2_input'', ''power3_input'', ''power4_input'']"

definition juno_thermal_files :: "string list" where
  "juno_thermal_files = map (hwmon 0) [''temp1_input'', ''temp2_input'', ''temp3_input'', ''temp4_input'']"

definition arm_cpu_juno_r2_get_power_data ::
  "power_env \<Rightarrow> 'o sysfs_env \<Rightarrow> int \<Rightarrow> ('o, 'a) arm_state_scheme \<Rightarrow> (int \<times> ('o, 'a) arm_state_scheme) option" where
  "arm_cpu_juno_r2_get_power_data P K verbose s = do {
     (vals, s) \<leftarrow> read_sensors P K juno_power_files s;
     case vals of
       None \<Rightarrow> Some (-1, s)
     | Some vals \<Rightarrow> Some (0, sensor_report P Juno_power verbose ''_ARM_POWER'' [''Sys_mW'', ''Big_mW'', ''Little_mW'', ''GPU_mW'']
         ''_ARM_POWER Host:, Sys: mW, Big: mW, Little: mW, GPU: mW'' vals s)
   }"

definition arm_cpu_juno_r2_get_thermal_data ::
  "power_env \<Rightarrow> 'o sysfs_env \<Rightarrow> int \<Rightarrow> ('o, 'a) arm_state_scheme \<Rightarrow> (int \<times> ('o, 'a) arm_state_scheme) option" where
  "arm_cpu_juno_r2_get_thermal_data P K verbose s = do {
     (vals, s) \<leftarrow> read_sensors P K juno_thermal_files s;
     case vals of
       None \<Rightarrow> Some (-1, s)
     | Some vals \<Rightarrow> Some (0, sensor_report P Juno_thermal verbose ''_ARM_TEMPERATURE'' [''Sys_C'', ''Big_C'', ''Little_C'', ''GPU_C'']
         ''_ARM_TEMPERATURE Host:, Sys: C, Big: C, Little: C, GPU: C'' vals s)
   }"

definition big_or_little :: "int \<Rightarrow> string" where
  "big_or_little chipid = (if chipid = 0 then ''Big'' else ''Little'')"

definition arm_cpu_juno_r2_get_clocks_data ::
  "power_env \<Rightarrow> 'o sysfs_env \<Rightarrow> int \<Rightarrow> int \<Rightarrow> ('o, 'a) arm_state_scheme \<Rightarrow> (int \<times> ('o, 'a) arm_state_scheme) option" where
  "arm_cpu_juno_r2_get_clocks_data P K chipid verbose s = do {
     (freq_val, s) \<leftarrow> read_number P K (pe_junk P) (cpufreq chipid ''scaling_cur_freq'') s;
     case freq_val of
       None \<Rightarrow> Some (-1, s)
     | Some freq_val \<Rightarrow>
         let fields = [FS (pe_host P), FS (big_or_little chipid), FI chipid, FX (freq_val div 1000)]
         in if verbose \<noteq> 0 then Some (0, say (FS ''_ARM_CLOCKS Host:, CPU:, Socket:, Clock: MHz'' # fields) s)
            else Some (0, say (FS ''_ARM_CLOCKS'' # fields)
              (arm_header Juno_clocks (map FS [''_ARM_CLOCKS'', ''Host'', ''CPU'', ''Socket'', ''Clock_MHz'']) s))
   }"

definition arm_cpu_juno_r2_get_frequencies ::
  "power_env \<Rightarrow> 'o sysfs_env \<Rightarrow> int \<Rightarrow> ('o, 'a) arm_state_scheme \<Rightarrow> (int \<times> ('o, 'a) arm_state_scheme) option" where
  "arm_cpu_juno_r2_get_frequencies P K chipid s =
    (let (freq_fd, s) = os_open (pe_os P) (Sysfs_path (cpufreq chipid ''scaling_available_frequencies'')) s
     in if freq_fd = 0 then Some (-1, variorum_error_handler VARIORUM_ERROR_INVAL s)
        else do {
          (arr_size, freq_array, s) \<leftarrow> read_array_ui64 P K freq_fd s;
          if arr_size = 0 then Some (-1, variorum_error_handler VARIORUM_ERROR_INVAL s)
          else do {
            let s = snd (os_close (pe_os P) freq_fd s);
            let s = say [FS ''=== Available frequencies for CPU (ID: ) in MHz ==='', FS (big_or_little chipid), FI chipid] s;
            Some (0, say (map (\<lambda>f. FX (f div 1000)) freq_array) s)
          }
        })"

text \<open>\<open>new_freq * 1000\<close> is computed in int: an overflow is undefined.\<close>

definition khz :: "int \<Rightarrow> u64 option" where
  "khz new_freq = (let f = new_freq * 1000 in if - (2 ^ 31) \<le> f \<and> f < 2 ^ 31 then Some (word_of_int f) else None)"

definition arm_cpu_juno_r2_cap_socket_frequency ::
  "power_env \<Rightarrow> 'o sysfs_env \<Rightarrow> int \<Rightarrow> int \<Rightarrow> ('o, 'a) arm_state_scheme \<Rightarrow> (int \<times> ('o, 'a) arm_state_scheme) option" where
  "arm_cpu_juno_r2_cap_socket_frequency P K sock new_freq s = do {
     f \<leftarrow> khz new_freq;
     let (ok, s) = write_number P K f (cpufreq sock ''scaling_setspeed'') s;
     Some (if ok then 0 else -1, s)
   }"

text \<open>The loop over the packages; only the first one has a GPU.\<close>

fun juno_socket_loop :: "nat list \<Rightarrow> 'a rapl_state_scheme \<Rightarrow> 'a rapl_state_scheme" where
  "juno_socket_loop [] s = s"
| "juno_socket_loop (i # is) s =
    (let s = json_set [socketid i] J_object s;
         s = (if i \<noteq> 0 then json_set [socketid i, ''power_gpu_watts''] (J_real (Fin (-1))) s else s)
     in juno_socket_loop is s)"

text \<open>
  With fewer than two packages the function calls exit, and the model has no result. Both objects that
  json\_object\_get looks up exist then.
\<close>

definition arm_cpu_juno_r2_json_get_power_data ::
  "power_env \<Rightarrow> 'o sysfs_env \<Rightarrow> ('o, 'a) arm_state_scheme \<Rightarrow> (int \<times> ('o, 'a) arm_state_scheme) option" where
  "arm_cpu_juno_r2_json_get_power_data P K s = do {
     (vals, s) \<leftarrow> read_sensors P K juno_power_files s;
     case vals of
       None \<Rightarrow> Some (-1, s)
     | Some vals \<Rightarrow>
         let n = sint (arm_num_package s);
             s = juno_socket_loop [0..<nat n] s
         in if n < 2 then None
            else Some (0,
              json_set [''socket_0'', ''power_gpu_watts''] (J_real (micro (vals ! 3)))
                (json_set [''socket_1'', ''power_cpu_watts''] (J_real (micro (vals ! 2)))
                  (json_set [''socket_0'', ''power_cpu_watts''] (J_real (micro (vals ! 1)))
                    (json_set [''num_gpus_per_socket''] (J_int (-1))
                      (json_set [''power_node_watts''] (J_real (micro (vals ! 0))) s)))))
   }"

definition arm_cpu_juno_r2_json_get_power_domain_info ::
  "power_env \<Rightarrow> 'a rapl_state_scheme \<Rightarrow> (string list \<times> json_value) list \<times> 'a rapl_state_scheme" where
  "arm_cpu_juno_r2_json_get_power_domain_info P s =
    (let host = pe_host P;
         (tv, s) = gettimeofday P s;
         ts = word_of_int (fst tv) * 1000000 + word_of_int (snd tv)
     in ([([host], J_object),
        ([host, ''timestamp''], J_int ts),
        ([host, ''control''], J_object),
        ([host, ''measurement''], J_object),
        ([host, ''measurement'', ''power_cpu''], J_object),
        ([host, ''measurement'', ''power_cpu'', ''units''], J_string ''Watts''),
        ([host, ''measurement'', ''power_gpu''], J_object),
        ([host, ''measurement'', ''power_gpu'', ''units''], J_string ''Watts''),
        ([host, ''unsupported''], J_array [''power_node'', ''power_mem''])], s))"

section \<open>ARM\_Juno\_r2.c\<close>

definition arm_juno_r2_get_power ::
  "power_env \<Rightarrow> 'o sysfs_env \<Rightarrow> int \<Rightarrow> ('o, 'a) arm_state_scheme \<Rightarrow> (int \<times> ('o, 'a) arm_state_scheme) option" where
  "arm_juno_r2_get_power P K long_ver s = arm_cpu_juno_r2_get_power_data P K long_ver s"

definition arm_juno_r2_get_thermals ::
  "power_env \<Rightarrow> 'o sysfs_env \<Rightarrow> int \<Rightarrow> ('o, 'a) arm_state_scheme \<Rightarrow> (int \<times> ('o, 'a) arm_state_scheme) option" where
  "arm_juno_r2_get_thermals P K long_ver s = arm_cpu_juno_r2_get_thermal_data P K long_ver s"

text \<open>The loops over the sockets keep the result of the last one.\<close>

fun socket_calls ::
  "(int \<Rightarrow> 's \<Rightarrow> (int \<times> 's) option) \<Rightarrow> nat list \<Rightarrow> int \<Rightarrow> 's \<Rightarrow> (int \<times> 's) option" where
  "socket_calls f [] ret s = Some (ret, s)"
| "socket_calls f (i # is) ret s = do {
     (ret, s) \<leftarrow> f (sint (of_nat i :: u32)) s;
     socket_calls f is ret s
   }"

definition arm_juno_r2_get_clocks ::
  "power_env \<Rightarrow> 'o sysfs_env \<Rightarrow> int \<Rightarrow> ('o, 'a) arm_state_scheme \<Rightarrow> (int \<times> ('o, 'a) arm_state_scheme) option" where
  "arm_juno_r2_get_clocks P K long_ver s = do {
     (T, s) \<leftarrow> get_topo (pe_hw P) (sy_arm_idx K) s;
     socket_calls (\<lambda>iter s. arm_cpu_juno_r2_get_clocks_data P K iter long_ver s) [0..<unat (nsockets T)] 0 s
   }"

definition arm_juno_r2_get_frequencies ::
  "power_env \<Rightarrow> 'o sysfs_env \<Rightarrow> ('o, 'a) arm_state_scheme \<Rightarrow> (int \<times> ('o, 'a) arm_state_scheme) option" where
  "arm_juno_r2_get_frequencies P K s = do {
     (T, s) \<leftarrow> get_topo (pe_hw P) (sy_arm_idx K) s;
     socket_calls (arm_cpu_juno_r2_get_frequencies P K) [0..<unat (nsockets T)] 0 s
   }"

definition arm_juno_r2_cap_socket_frequency ::
  "power_env \<Rightarrow> 'o sysfs_env \<Rightarrow> int \<Rightarrow> int \<Rightarrow> ('o, 'a) arm_state_scheme \<Rightarrow> (int \<times> ('o, 'a) arm_state_scheme) option" where
  "arm_juno_r2_cap_socket_frequency P K cpuid freq s = do {
     (T, s) \<leftarrow> get_topo (pe_hw P) (sy_arm_idx K) s;
     if cpuid < 0 \<or> sint (nsockets T) \<le> cpuid then Some (-1, say [FS ''The specified CPU ID does not exist''] s)
     else arm_cpu_juno_r2_cap_socket_frequency P K cpuid freq s
   }"

definition arm_juno_r2_get_power_json ::
  "power_env \<Rightarrow> 'o sysfs_env \<Rightarrow> ('o, 'a) arm_state_scheme \<Rightarrow> (int \<times> ('o, 'a) arm_state_scheme) option" where
  "arm_juno_r2_get_power_json P K s = arm_cpu_juno_r2_json_get_power_data P K s"

text \<open>The object that is dumped into the string.\<close>

definition arm_juno_r2_get_power_domain_info_json ::
  "power_env \<Rightarrow> 'a rapl_state_scheme \<Rightarrow> (int \<times> (string list \<times> json_value) list \<times> 'a rapl_state_scheme) option" where
  "arm_juno_r2_get_power_domain_info_json P s =
    (case arm_cpu_juno_r2_json_get_power_domain_info P s of (obj, s) \<Rightarrow> Some (0, obj, s))"

end
