(* ===== verification/Neoverse.thy ===== *)
theory Neoverse imports Juno begin

text \<open>
  neoverse_N1_power_features.c and ARM_Neoverse_N1.c: the functions installed for the Neoverse N1 platform. The clock
  and the frequency limit of its package are those of the 80 cores the code counts on, one cpufreq policy each.
\<close>

section \<open>neoverse\_N1\_power\_features.c\<close>

definition NUM_CORES :: nat where "NUM_CORES = 80"

definition neoverse_power_files :: "string list" where
  "neoverse_power_files = map (hwmon 1) [''power1_input'', ''power2_input'']"

definition neoverse_thermal_files :: "string list" where
  "neoverse_thermal_files = [hwmon 0 ''temp1_input'', hwmon 1 ''temp1_input'']"

definition arm_cpu_neoverse_n1_get_power_data ::
  "power_env \<Rightarrow> 'o sysfs_env \<Rightarrow> int \<Rightarrow> ('o, 'a) arm_state_scheme \<Rightarrow> (int \<times> ('o, 'a) arm_state_scheme) option" where
  "arm_cpu_neoverse_n1_get_power_data P K verbose s = do {
     (vals, s) \<leftarrow> read_sensors P K neoverse_power_files s;
     case vals of
       None \<Rightarrow> Some (-1, s)
     | Some vals \<Rightarrow> Some (0, sensor_report P Neoverse_power verbose ''_ARM_POWER'' [''CPU_mW'', ''I/O_mW'']
         ''_ARM_POWER Host:, CPU: mW, I/O: mW'' vals s)
   }"

definition arm_cpu_neoverse_n1_get_thermal_data ::
  "power_env \<Rightarrow> 'o sysfs_env \<Rightarrow> int \<Rightarrow> ('o, 'a) arm_state_scheme \<Rightarrow> (int \<times> ('o, 'a) arm_state_scheme) option" where
  "arm_cpu_neoverse_n1_get_thermal_data P K verbose s = do {
     (vals, s) \<leftarrow> read_sensors P K neoverse_thermal_files s;
     case vals of
       None \<Rightarrow> Some (-1, s)
     | Some vals \<Rightarrow> Some (0, sensor_report P Neoverse_thermal verbose ''_ARM_TEMPERATURE'' [''EthCtr1'', ''SoC'']
         ''_ARM_TEMPERATURE Host:, Ethernet Controller 1: C, SoC: C'' vals s)
   }"

text \<open>The loop over the cores; freq\_val is one variable for all of them. None in the sum for the return of -1.\<close>

fun core_clock_loop ::
  "power_env \<Rightarrow> 'o sysfs_env \<Rightarrow> nat list \<Rightarrow> u64 \<Rightarrow> u64 \<Rightarrow> ('o, 'a) arm_state_scheme \<Rightarrow>
    (u64 option \<times> ('o, 'a) arm_state_scheme) option" where
  "core_clock_loop P K [] freq_val aggregate_freq s = Some (Some aggregate_freq, s)"
| "core_clock_loop P K (i # is) freq_val aggregate_freq s = do {
     (v, s) \<leftarrow> read_number P K freq_val (cpufreq (int i) ''scaling_cur_freq'') s;
     case v of
       None \<Rightarrow> Some (None, s)
     | Some v \<Rightarrow> core_clock_loop P K is v (aggregate_freq + v div 1000) s
   }"

definition arm_cpu_neoverse_n1_get_clocks_data ::
  "power_env \<Rightarrow> 'o sysfs_env \<Rightarrow> int \<Rightarrow> int \<Rightarrow> ('o, 'a) arm_state_scheme \<Rightarrow> (int \<times> ('o, 'a) arm_state_scheme) option" where
  "arm_cpu_neoverse_n1_get_clocks_data P K chipid verbose s = do {
     (agg, s) \<leftarrow> core_clock_loop P K [0..<NUM_CORES] 0 0 s;
     case agg of
       None \<Rightarrow> Some (-1, s)
     | Some agg \<Rightarrow>
         let fields = [FS (pe_host P), FI chipid, FX (agg div of_nat NUM_CORES)]
         in if verbose \<noteq> 0 then Some (0, say (FS ''_ARM_CLOCKS Host:, Socket:, Clock: MHz'' # fields) s)
            else Some (0, say (FS ''_ARM_CLOCKS'' # fields)
              (arm_header Neoverse_clocks (map FS [''_ARM_CLOCKS'', ''Host'', ''Socket'', ''Clock_MHz'']) s))
   }"

text \<open>The product is computed, and may overflow, once per core.\<close>

fun core_cap_loop ::
  "power_env \<Rightarrow> 'o sysfs_env \<Rightarrow> int \<Rightarrow> nat list \<Rightarrow> ('o, 'a) arm_state_scheme \<Rightarrow> (int \<times> ('o, 'a) arm_state_scheme) option" where
  "core_cap_loop P K new_freq [] s = Some (0, s)"
| "core_cap_loop P K new_freq (i # is) s = do {
     f \<leftarrow> khz new_freq;
     let (ok, s) = write_number P K f (cpufreq (int i) ''scaling_setspeed'') s;
     if ok then core_cap_loop P K new_freq is s else Some (-1, s)
   }"

definition arm_cpu_neoverse_n1_cap_socket_frequency ::
  "power_env \<Rightarrow> 'o sysfs_env \<Rightarrow> int \<Rightarrow> int \<Rightarrow> ('o, 'a) arm_state_scheme \<Rightarrow> (int \<times> ('o, 'a) arm_state_scheme) option" where
  "arm_cpu_neoverse_n1_cap_socket_frequency P K sock new_freq s = core_cap_loop P K new_freq [0..<NUM_CORES] s"

text \<open>snprintf into 12 bytes; the name begins with a capital letter here.\<close>

definition Socket_id :: "nat \<Rightarrow> string" where
  "Socket_id i = snprintf 12 (''Socket_'' @ dec i)"

fun neoverse_socket_loop :: "nat list \<Rightarrow> 'a rapl_state_scheme \<Rightarrow> 'a rapl_state_scheme" where
  "neoverse_socket_loop [] s = s"
| "neoverse_socket_loop (i # is) s =
    neoverse_socket_loop is (json_set [Socket_id i, ''power_mem_watts''] (J_real (Fin (-1))) (json_set [Socket_id i] J_object s))"

text \<open>json\_object\_set\_new on what json\_object\_get found: without an object it only drops the value.\<close>

definition set_if_has :: "string list \<Rightarrow> string \<Rightarrow> json_value \<Rightarrow> 'a rapl_state_scheme \<Rightarrow> 'a rapl_state_scheme" where
  "set_if_has path key v s = (if json_has path s then json_set (path @ [key]) v s else s)"

definition arm_cpu_neoverse_n1_json_get_power_data ::
  "power_env \<Rightarrow> 'o sysfs_env \<Rightarrow> ('o, 'a) arm_state_scheme \<Rightarrow> (int \<times> ('o, 'a) arm_state_scheme) option" where
  "arm_cpu_neoverse_n1_json_get_power_data P K s = do {
     (vals, s) \<leftarrow> read_sensors P K neoverse_power_files s;
     case vals of
       None \<Rightarrow> Some (-1, s)
     | Some vals \<Rightarrow>
         let s = neoverse_socket_loop [0..<nat (sint (arm_num_package s))] s;
             s = set_if_has [''socket_0''] ''power_cpu_watts'' (J_real (micro (vals ! 0))) s
         in Some (0, set_if_has [''socket_0''] ''power_io_watts'' (J_real (micro (vals ! 1))) s)
   }"

definition arm_cpu_neoverse_n1_json_get_power_domain_info ::
  "power_env \<Rightarrow> 'a rapl_state_scheme \<Rightarrow> (string list \<times> json_value) list \<times> 'a rapl_state_scheme" where
  "arm_cpu_neoverse_n1_json_get_power_domain_info P s =
    (let host = pe_host P;
         (tv, s) = gettimeofday P s;
         ts = word_of_int (fst tv) * 1000000 + word_of_int (snd tv)
     in ([([host], J_object),
        ([host, ''timestamp''], J_int ts),
        ([host, ''control''], J_object),
        ([host, ''measurement''], J_object),
        ([host, ''measurement'', ''power_cpu''], J_object),
        ([host, ''measurement'', ''power_cpu'', ''units''], J_string ''Watts''),
        ([host, ''unsupported''], J_array [''power_node'', ''power_mem''])], s))"

section \<open>ARM\_Neoverse\_N1.c\<close>

definition arm_neoverse_n1_get_power ::
  "power_env \<Rightarrow> 'o sysfs_env \<Rightarrow> int \<Rightarrow> ('o, 'a) arm_state_scheme \<Rightarrow> (int \<times> ('o, 'a) arm_state_scheme) option" where
  "arm_neoverse_n1_get_power P K long_ver s = arm_cpu_neoverse_n1_get_power_data P K long_ver s"

definition arm_neoverse_n1_get_thermals ::
  "power_env \<Rightarrow> 'o sysfs_env \<Rightarrow> int \<Rightarrow> ('o, 'a) arm_state_scheme \<Rightarrow> (int \<times> ('o, 'a) arm_state_scheme) option" where
  "arm_neoverse_n1_get_thermals P K long_ver s = arm_cpu_neoverse_n1_get_thermal_data P K long_ver s"

definition arm_neoverse_n1_get_clocks ::
  "power_env \<Rightarrow> 'o sysfs_env \<Rightarrow> int \<Rightarrow> ('o, 'a) arm_state_scheme \<Rightarrow> (int \<times> ('o, 'a) arm_state_scheme) option" where
  "arm_neoverse_n1_get_clocks P K long_ver s = do {
     (T, s) \<leftarrow> get_topo (pe_hw P) (sy_arm_idx K) s;
     socket_calls (\<lambda>iter s. arm_cpu_neoverse_n1_get_clocks_data P K iter long_ver s) [0..<unat (nsockets T)] 0 s
   }"

definition arm_neoverse_n1_cap_socket_frequency ::
  "power_env \<Rightarrow> 'o sysfs_env \<Rightarrow> int \<Rightarrow> int \<Rightarrow> ('o, 'a) arm_state_scheme \<Rightarrow> (int \<times> ('o, 'a) arm_state_scheme) option" where
  "arm_neoverse_n1_cap_socket_frequency P K cpuid freq s = do {
     (T, s) \<leftarrow> get_topo (pe_hw P) (sy_arm_idx K) s;
     if cpuid < 0 \<or> sint (nsockets T) \<le> cpuid then Some (-1, say [FS ''The specified CPU ID does not exist''] s)
     else arm_cpu_neoverse_n1_cap_socket_frequency P K cpuid freq s
   }"

definition arm_neoverse_n1_get_power_json ::
  "power_env \<Rightarrow> 'o sysfs_env \<Rightarrow> ('o, 'a) arm_state_scheme \<Rightarrow> (int \<times> ('o, 'a) arm_state_scheme) option" where
  "arm_neoverse_n1_get_power_json P K s = arm_cpu_neoverse_n1_json_get_power_data P K s"

definition arm_neoverse_n1_get_power_domain_info_json ::
  "power_env \<Rightarrow> 'a rapl_state_scheme \<Rightarrow> (int \<times> (string list \<times> json_value) list \<times> 'a rapl_state_scheme) option" where
  "arm_neoverse_n1_get_power_domain_info_json P s =
    (case arm_cpu_neoverse_n1_json_get_power_domain_info P s of (obj, s) \<Rightarrow> Some (0, obj, s))"

end
