(* ===== verification/Arm_Facts.thy ===== *)
theory Arm_Facts imports Neoverse Arch_Facts begin

text \<open>
  What the functions of arm_util.c do on a kernel that serves numbers in decimal: opening, reading and closing the
  files of a group of sensors gives their values and leaves no descriptor open; a number written is the number that is
  read from what was written.
\<close>

section \<open>Lengths\<close>

lemma length_dec: "0 < k \<Longrightarrow> n < 10 ^ k \<Longrightarrow> length (dec n) \<le> k"
proof (induction n arbitrary: k rule: dec.induct)
  case (1 n)
  show ?case
  proof (cases "n < 10")
    case True
    then show ?thesis using 1(2) by (simp add: dec.simps [of n])
  next
    case False
    obtain j where k: "k = Suc j" using 1(2) by (cases k) auto
    with False 1(3) have "0 < j" by (cases j) auto
    with k have j: "k = Suc j" "0 < j" by simp_all
    have "n div 10 < 10 ^ j" using 1(3) by (simp add: j(1) less_mult_imp_div_less mult.commute)
    from 1(1) [OF False j(2) this] show ?thesis using False by (simp add: dec.simps [of n] j(1))
  qed
qed

lemma length_dec_u64: "n < 2 ^ 64 \<Longrightarrow> length (dec n) \<le> 20"
  by (rule length_dec) simp_all

lemma length_uninit [simp]: "length (uninit K n s) = n"
  by (simp add: uninit_def)

section \<open>Files\<close>

text \<open>The documented behaviour of a sysfs file: a read returns what the file shows, and changes nothing that is shown.\<close>

definition sysfs_ok :: "'o sysfs_env \<Rightarrow> ('o \<Rightarrow> string \<Rightarrow> string option) \<Rightarrow> bool" where
  "sysfs_ok K txt \<longleftrightarrow> (\<forall>p n o'. \<exists>o''. sy_read K p n o' = (txt o' p, o'') \<and> txt o'' = txt o')"

definition newline :: string where "newline = [CHR 0x0A]"

text \<open>A file that shows a number.\<close>

definition shows_number :: "('o \<Rightarrow> string \<Rightarrow> string option) \<Rightarrow> 'o \<Rightarrow> string \<Rightarrow> nat \<Rightarrow> bool" where
  "shows_number txt o' p n \<longleftrightarrow> n < 2 ^ 64 \<and> txt o' p = Some (dec n @ newline)"

lemma newline_no_digit: "\<not> c_digit (CHR 0x0A)" "\<not> c_digit (CHR 0x00)"
  by (simp_all add: c_digit_def)

lemma read_file_number:
  assumes "sysfs_ok K txt" "open_files s fd = Some (Sysfs_path p)" "shows_number txt (sysfs s) p n"
  shows "\<exists>k o''. read_file_ui64 K fd val s = Some (int (Suc k), of_nat n, s\<lparr>sysfs := o''\<rparr>) \<and> txt o'' = txt (sysfs s)"
proof -
  have n: "n < 2 ^ 64" "txt (sysfs s) p = Some (dec n @ newline)" using assms(3) by (simp_all add: shows_number_def)
  obtain o'' where r: "sy_read K p 32 (sysfs s) = (Some (dec n @ newline), o'')" "txt o'' = txt (sysfs s)"
    using assms(1) n(2) unfolding sysfs_ok_def by metis
  have l: "length (dec n) \<le> 20" using n(1) by (rule length_dec_u64)
  have "scan_lu (dec n @ newline @ rest) = Some (Some (of_nat n))" for rest
    using scan_lu_dec [OF newline_no_digit(1) n(1)] by (simp add: newline_def)
  then have "read_file_ui64 K fd val s = Some (int (Suc (length (dec n))), of_nat n, s\<lparr>sysfs := o''\<rparr>)"
    using l by (simp add: read_file_ui64_def read_buf_def assms(2) r(1) Let_def newline_def)
  then show ?thesis using r(2) by blast
qed

text \<open>Without the file read fails and the stack is scanned.\<close>

lemma read_file_missing:
  assumes "open_files s fd = None" "scan_lu (uninit K 32 s) = Some (Some w)"
  shows "read_file_ui64 K fd val s = Some (-1, w, s)"
  using assms by (simp add: read_file_ui64_def read_buf_def)

section \<open>Groups of sensors\<close>

definition opened_as :: "string list \<Rightarrow> 'a msr_state_scheme \<Rightarrow> int \<Rightarrow> msr_path option" where
  "opened_as ps s fd =
    (if next_fd s \<le> fd \<and> fd < next_fd s + int (length ps) then Some (Sysfs_path (ps ! nat (fd - next_fd s))) else open_files s fd)"

definition new_fds :: "nat \<Rightarrow> 'a msr_state_scheme \<Rightarrow> int list" where
  "new_fds n s = map (\<lambda>i. next_fd s + int i) [0..<n]"

lemma open_each_ok:
  "\<forall>p \<in> set ps. os_can_open E (Sysfs_path p) \<Longrightarrow>
    open_each E ps s = (new_fds (length ps) s, s\<lparr>open_files := opened_as ps s, next_fd := next_fd s + int (length ps)\<rparr>)"
proof (induction ps arbitrary: s)
  case Nil
  have "opened_as [] s = open_files s" by (rule ext) (auto simp: opened_as_def)
  then show ?case by (simp add: new_fds_def)
next
  case (Cons p ps)
  let ?t = "s\<lparr>open_files := (open_files s)(next_fd s \<mapsto> Sysfs_path p), next_fd := next_fd s + 1\<rparr>"
  have o: "os_open E (Sysfs_path p) s = (next_fd s, ?t)" using Cons.prems by (simp add: os_open_def)
  have f: "next_fd s # new_fds (length ps) ?t = new_fds (Suc (length ps)) s"
    by (rule nth_equalityI) (auto simp: new_fds_def nth_Cons nth_append simp del: upt_Suc split: nat.split)
  have a: "opened_as ps ?t = opened_as (p # ps) s"
  proof (rule ext)
    fix fd show "opened_as ps ?t fd = opened_as (p # ps) s fd"
    proof (cases "fd = next_fd s")
      case False
      then have "(p # ps) ! nat (fd - next_fd s) = ps ! nat (fd - (next_fd s + 1))" if "next_fd s < fd"
      proof -
        have "nat (fd - next_fd s) = Suc (nat (fd - (next_fd s + 1)))" using that by simp
        then show ?thesis by simp
      qed
      with False show ?thesis by (auto simp: opened_as_def)
    qed (simp add: opened_as_def)
  qed
  show ?case using Cons.IH [of ?t] Cons.prems by (simp add: o f a)
qed

lemma close_each_ok:
  "\<forall>fd. \<not> os_close_fails E fd \<Longrightarrow>
    close_each E fds s = s\<lparr>open_files := \<lambda>fd. if fd \<in> set fds then None else open_files s fd\<rparr>"
proof (induction fds arbitrary: s)
  case (Cons fd fds)
  have c: "snd (os_close E fd s) = s\<lparr>open_files := (open_files s)(fd := None)\<rparr>"
    using Cons.prems by (auto simp: os_close_def fun_upd_idem)
  have "(\<lambda>x. if x \<in> set fds then None else ((open_files s)(fd := None)) x) =
      (\<lambda>x. if x \<in> set (fd # fds) then None else open_files s x)" by (rule ext) auto
  then show ?case by (simp add: Cons.IH [OF Cons.prems] c cong: if_cong)
qed simp

lemma read_each_ok:
  assumes "sysfs_ok K txt"
  shows "length ps = length ns \<Longrightarrow> length fds = length ns \<Longrightarrow>
    \<forall>i < length ns. open_files s (fds ! i) = Some (Sysfs_path (ps ! i)) \<and> shows_number txt (sysfs s) (ps ! i) (ns ! i) \<Longrightarrow>
    \<exists>rs o''. read_each K val fds s = Some (rs, s\<lparr>sysfs := o''\<rparr>) \<and> map snd rs = map of_nat ns \<and> 0 \<notin> set (map fst rs) \<and>
      txt o'' = txt (sysfs s)"
proof (induction ns arbitrary: ps fds s)
  case Nil
  then show ?case by (intro exI [of _ "[]"] exI [of _ "sysfs s"]) simp
next
  case (Cons n ns)
  obtain p ps' fd fds' where e: "ps = p # ps'" "fds = fd # fds'" using Cons.prems(1,2) by (metis length_Suc_conv)
  have 0: "open_files s fd = Some (Sysfs_path p)" "shows_number txt (sysfs s) p n" using Cons.prems(3) by (auto simp: e)
  obtain k o1 where r: "read_file_ui64 K fd val s = Some (int (Suc k), of_nat n, s\<lparr>sysfs := o1\<rparr>)" "txt o1 = txt (sysfs s)"
    using read_file_number [OF assms 0] by blast
  have "\<forall>i < length ns. open_files s (fds' ! i) = Some (Sysfs_path (ps' ! i)) \<and> shows_number txt (sysfs s) (ps' ! i) (ns ! i)"
    using Cons.prems(3) by (auto simp: e)
  then have "\<exists>rs o''. read_each K val fds' (s\<lparr>sysfs := o1\<rparr>) = Some (rs, s\<lparr>sysfs := o''\<rparr>) \<and> map snd rs = map of_nat ns \<and>
      0 \<notin> set (map fst rs) \<and> txt o'' = txt o1"
    using Cons.IH [of ps' fds' "s\<lparr>sysfs := o1\<rparr>"] Cons.prems(1,2) r(2) by (simp add: e shows_number_def)
  then show ?case using r by (fastforce simp: e)
qed

definition can_open :: "power_env \<Rightarrow> string list \<Rightarrow> bool" where
  "can_open P ps \<longleftrightarrow> (\<forall>p \<in> set ps. os_can_open (pe_os P) (Sysfs_path p)) \<and> (\<forall>fd. \<not> os_close_fails (pe_os P) fd)"

definition all_show :: "('o \<Rightarrow> string \<Rightarrow> string option) \<Rightarrow> 'o \<Rightarrow> string list \<Rightarrow> nat list \<Rightarrow> bool" where
  "all_show txt o' ps ns \<longleftrightarrow> length ps = length ns \<and> (\<forall>i < length ns. shows_number txt o' (ps ! i) (ns ! i))"

text \<open>Only descriptor numbers are used up.\<close>

lemma read_sensors_ok:
  assumes "sysfs_ok K txt" "can_open P ps" "fds_fresh s" "0 < next_fd s" "all_show txt (sysfs s) ps ns"
  shows "\<exists>o''. read_sensors P K ps s = Some (Some (map of_nat ns), s\<lparr>sysfs := o'', next_fd := next_fd s + int (length ps)\<rparr>) \<and>
    txt o'' = txt (sysfs s)"
proof -
  let ?t = "s\<lparr>open_files := opened_as ps s, next_fd := next_fd s + int (length ps)\<rparr>"
  let ?fds = "new_fds (length ps) s"
  have o: "open_each (pe_os P) ps s = (?fds, ?t)" using assms(2) by (intro open_each_ok) (simp add: can_open_def)
  have z: "0 \<notin> set ?fds" using assms(4) by (auto simp: new_fds_def)
  have "\<forall>i < length ns. open_files ?t (?fds ! i) = Some (Sysfs_path (ps ! i)) \<and> shows_number txt (sysfs ?t) (ps ! i) (ns ! i)"
    using assms(5) by (simp add: all_show_def new_fds_def opened_as_def)
  from read_each_ok [OF assms(1), of ps ns ?fds ?t "pe_junk P"] this assms(5)
  obtain rs o'' where r: "read_each K (pe_junk P) ?fds ?t = Some (rs, ?t\<lparr>sysfs := o''\<rparr>)" "map snd rs = map of_nat ns"
    "0 \<notin> set (map fst rs)" "txt o'' = txt (sysfs s)"
    by (auto simp: all_show_def new_fds_def)
  have "close_each (pe_os P) ?fds (?t\<lparr>sysfs := o''\<rparr>) = s\<lparr>sysfs := o'', next_fd := next_fd s + int (length ps)\<rparr>"
  proof -
    have "(if fd \<in> set ?fds then None else opened_as ps s fd) = open_files s fd" for fd
    proof (cases "fd \<in> set ?fds")
      case True
      then show ?thesis using assms(3) by (auto simp: new_fds_def fds_fresh_def)
    next
      case False
      have "fd \<in> set ?fds" if "next_fd s \<le> fd" "fd < next_fd s + int (length ps)"
        unfolding new_fds_def set_map by (rule image_eqI [of _ _ "nat (fd - next_fd s)"]) (use that in auto)
      with False show ?thesis by (auto simp: opened_as_def)
    qed
    then have e: "(\<lambda>fd. if fd \<in> set ?fds then None else opened_as ps s fd) = open_files s" by blast
    show ?thesis using assms(2) close_each_ok [of "pe_os P" ?fds "?t\<lparr>sysfs := o''\<rparr>"]
      by (simp add: can_open_def e cong: if_cong)
  qed
  then show ?thesis using r z by (intro exI [of _ o'']) (simp add: read_sensors_def o)
qed

section \<open>Writing\<close>

text \<open>What write_file_ui64 sends is read as the number it was given.\<close>

lemma number_buf_scan: "scan_lu (number_buf K val s) = Some (Some val)" "length (number_buf K val s) = 32"
proof -
  have n: "unat val < 2 ^ 64" using unsigned_less [of val] by simp
  have "number_buf K val s = dec (unat val) @ CHR 0x00 # drop (Suc (length (dec (unat val)))) (uninit K 32 s)"
    by (simp add: number_buf_def)
  then show "scan_lu (number_buf K val s) = Some (Some val)"
    using scan_lu_dec [OF newline_no_digit(2) n] by simp
  show "length (number_buf K val s) = 32" using length_dec_u64 [OF n] by (simp add: number_buf_def)
qed

end
