(* ===== verification/Vendor_Session.thy ===== *)
theory Vendor_Session imports Api_Facts C_Text begin

text \<open>
  The functions of variorum.c on a build for one platform, for every vendor alike: \<open>vendor\<close> extends the contract of
  variorum_enter and variorum_exit by the table that is installed in between, and what a call does then follows from what
  the function behind the pointer does. The Arm and AMD sessions are its instances.
\<close>

section \<open>Calls that look at one result\<close>

definition checked :: "('s \<Rightarrow> (int \<times> 's) option) \<Rightarrow> 's \<Rightarrow> (int option \<times> unit \<times> 's) option" where
  "checked f s = map_option (\<lambda>(err, s). (if err \<noteq> 0 then Some (-1) else None, (), s)) (f s)"

context bracket begin

lemma run_checked:
  assumes "pre s" "\<And>t. opened s t \<Longrightarrow> body t = checked f t" "\<And>t. opened s t \<Longrightarrow> \<exists>t'. f t = Some (0, t') \<and> keeps t t' \<and> Q t'"
  shows "\<exists>t' u. run () body s = Some (0, (), u) \<and> Q t' \<and> closed t' u \<and> pre u"
proof -
  have "\<exists>t o' t' u. opened s t \<and> run () body s = Some (0, o', u) \<and> Q t' \<and> closed t' u \<and> pre u"
    by (rule run_through [OF assms(1)]) (use assms(2,3) in \<open>fastforce simp: checked_def\<close>)
  then show ?thesis by auto
qed

lemma run_checked_fails:
  assumes "pre s" "\<And>t. opened s t \<Longrightarrow> body t = checked f t" "\<And>t. opened s t \<Longrightarrow> \<exists>rc t'. f t = Some (rc, t') \<and> rc \<noteq> 0 \<and> Q t'"
  shows "\<exists>t'. run () body s = Some (-1, (), t') \<and> Q t'"
proof -
  have "\<exists>t o' t'. opened s t \<and> run () body s = Some (-1, o', t') \<and> Q t'"
    by (rule run_return [OF assms(1)]) (use assms(2,3) in \<open>fastforce simp: checked_def\<close>)
  then show ?thesis by auto
qed

lemma run_checked_undefined:
  assumes "pre s" "\<And>t. opened s t \<Longrightarrow> body t = checked f t" "\<And>t. opened s t \<Longrightarrow> f t = None"
  shows "run () body s = None"
  by (rule run_cases [OF assms(1), of body "()"]) (use assms(2,3) in \<open>auto simp: checked_def\<close>)

end

section \<open>One platform\<close>

locale vendor = bracket pre opened usable keeps closed "variorum_enter b V" "variorum_exit b V"
  for pre :: "'a arch_state_scheme \<Rightarrow> bool" and opened usable keeps closed b V +
  fixes table :: "slot \<Rightarrow> handler option"
  assumes one_platform: "P_NUM_PLATFORMS b = 1" and opened_slot: "opened s t \<Longrightarrow> get_slot 0 sl t = Some (table sl)"
begin

lemma run_session: "session b V out body s = run out body s"
  by (auto simp: session_def run_def split: option.splits prod.splits)

lemma run_session0:
  "session0 b V body s = map_option (\<lambda>(rc, _, s). (rc, s)) (run () (\<lambda>s. map_option (\<lambda>(r, s). (r, (), s)) (body s)) s)"
  by (simp add: session0_eq run_session)

lemma loop_body:
  assumes "opened s t" "table sl = Some h"
  shows "map_option (\<lambda>(r, s). (r, (), s)) (skip_loop A sl args [0] t) = checked (api_call A h args) t"
    "map_option (\<lambda>(r, s). (r, (), s)) (stop_loop A sl args [0] t) = checked (api_call A h args) t"
  using opened_slot [OF assms(1), of sl] assms(2) by (cases "api_call A h args t"; auto simp: checked_def)+

lemma for_all_run:
  "for_all_skip A b V sl args s = map_option (\<lambda>(rc, _, s). (rc, s))
     (run () (\<lambda>s. map_option (\<lambda>(r, s). (r, (), s)) (skip_loop A sl args [0] s)) s)"
  "for_all_stop A b V sl args s = map_option (\<lambda>(rc, _, s). (rc, s))
     (run () (\<lambda>s. map_option (\<lambda>(r, s). (r, (), s)) (stop_loop A sl args [0] s)) s)"
  by (simp_all add: for_all_skip_def for_all_stop_def run_session0 one_platform del: skip_loop.simps stop_loop.simps)

text \<open>A call whose function returns 0 ends in the state the function left, up to what the exit changes.\<close>

lemma call_returns:
  assumes "pre s" "table sl = Some h" "\<And>t. opened s t \<Longrightarrow> \<exists>t'. api_call A h args t = Some (0, t') \<and> keeps t t' \<and> Q t'"
  shows "\<exists>t' u. for_all_skip A b V sl args s = Some (0, u) \<and> Q t' \<and> closed t' u \<and> pre u"
    "\<exists>t' u. for_all_stop A b V sl args s = Some (0, u) \<and> Q t' \<and> closed t' u \<and> pre u"
  unfolding for_all_run
  using run_checked [OF assms(1) loop_body(1) [OF _ assms(2)] assms(3)]
    run_checked [OF assms(1) loop_body(2) [OF _ assms(2)] assms(3)] by fastforce+

lemma call_fails:
  assumes "pre s" "table sl = Some h" "\<And>t. opened s t \<Longrightarrow> \<exists>rc t'. api_call A h args t = Some (rc, t') \<and> rc \<noteq> 0 \<and> Q t'"
  shows "\<exists>t'. for_all_skip A b V sl args s = Some (-1, t') \<and> Q t'"
    "\<exists>t'. for_all_stop A b V sl args s = Some (-1, t') \<and> Q t'"
  unfolding for_all_run
  using run_checked_fails [OF assms(1) loop_body(1) [OF _ assms(2)] assms(3)]
    run_checked_fails [OF assms(1) loop_body(2) [OF _ assms(2)] assms(3)] by fastforce+

lemma call_undefined:
  assumes "pre s" "table sl = Some h" "\<And>t. opened s t \<Longrightarrow> api_call A h args t = None"
  shows "for_all_skip A b V sl args s = None" "for_all_stop A b V sl args s = None"
  unfolding for_all_run
  using run_checked_undefined [OF assms(1) loop_body(1) [OF _ assms(2)] assms(3)]
    run_checked_undefined [OF assms(1) loop_body(2) [OF _ assms(2)] assms(3)] by simp_all

text \<open>Energy is printed by the loop that stops, on a build with a CPU other than ARM.\<close>

lemma print_energy_loop:
  assumes "has_cpu b"
  shows "variorum_print_energy A b V s = for_all_stop A b V Print_energy [0] s"
    "variorum_print_verbose_energy A b V s = for_all_stop A b V Print_energy [1] s"
proof -
  have "print_energy_body A b args = stop_loop A Print_energy args [0..<P_NUM_PLATFORMS b]" for args
    by (rule ext) (simp add: print_energy_body_def assms)
  then show "variorum_print_energy A b V s = for_all_stop A b V Print_energy [0] s"
    "variorum_print_verbose_energy A b V s = for_all_stop A b V Print_energy [1] s"
    by (simp_all add: variorum_print_energy_def variorum_print_verbose_energy_def for_all_stop_def)
qed

text \<open>The functions of the primary platform.\<close>

lemma primary_slot:
  assumes "opened s t" "\<exists>k \<in> set ks. b k"
  shows "get_slot (primary ks b) sl t = Some (table sl)"
proof -
  obtain k where f: "find b ks = Some k" using assms(2) by (cases "find b ks") (auto simp: find_None_iff)
  then have "b k" by (auto simp: find_Some_iff)
  then have "P_IDX b k < P_NUM_PLATFORMS b" by (rule P_IDX_less)
  then show ?thesis using opened_slot [OF assms(1)] by (simp add: primary_def f one_platform)
qed

lemma node_cap_returns:
  assumes "pre s" "table Cap_best_effort_node_power_limit = Some h" "\<exists>k \<in> {INTEL_CPU, IBM_CPU, AMD_CPU}. b k"
    "\<And>t. opened s t \<Longrightarrow> \<exists>t'. api_call A h [limit] t = Some (0, t') \<and> keeps t t' \<and> Q t'"
  shows "\<exists>t' u. variorum_cap_best_effort_node_power_limit A b V limit s = Some (0, u) \<and> Q t' \<and> closed t' u \<and> pre u"
proof -
  let ?body = "\<lambda>s. do {
     h \<leftarrow> get_slot (primary [INTEL_CPU, IBM_CPU, AMD_CPU] b) Cap_best_effort_node_power_limit s;
     case h of
       None \<Rightarrow> Some (Some 0, variorum_error_handler VARIORUM_ERROR_FEATURE_NOT_IMPLEMENTED s)
     | Some h \<Rightarrow> do {
         (err, s) \<leftarrow> api_call A h [limit] s;
         Some (if err \<noteq> 0 then Some (-1) else None, s)
       }
   }"
  have "map_option (\<lambda>(r, s). (r, (), s)) (?body t) = checked (api_call A h [limit]) t" if "opened s t" for t
    using primary_slot [OF that, of "[INTEL_CPU, IBM_CPU, AMD_CPU]" Cap_best_effort_node_power_limit] assms(2,3)
    by (cases "api_call A h [limit] t") (auto simp: checked_def)
  from run_checked [OF assms(1) this assms(4)] show ?thesis
    unfolding variorum_cap_best_effort_node_power_limit_def run_session0 by fastforce
qed

end

text \<open>A function of an object and its state as one of the object's entries, which it appends to.\<close>

definition on_node ::
  "('a rapl_state_scheme \<Rightarrow> (int \<times> 'a rapl_state_scheme) option) \<Rightarrow> (string list \<times> json_value) list \<Rightarrow> 'a rapl_state_scheme \<Rightarrow>
    (int \<times> (string list \<times> json_value) list \<times> 'a rapl_state_scheme) option" where
  "on_node f node s = do {
     (rc, t) \<leftarrow> f (s\<lparr>json_sets := node\<rparr>);
     Some (rc, json_sets t, t\<lparr>json_sets := json_sets s\<rparr>)
   }"

definition dumped ::
  "(string list \<times> json_value) list json_lib \<Rightarrow> (int \<times> (string list \<times> json_value) list \<times> 's) option \<Rightarrow> (int \<times> string option \<times> 's) option" where
  "dumped L r = map_option (\<lambda>(rc, obj, s). (rc, json_dumps L obj, s)) r"

text \<open>jansson with entries for objects, for the examples: setting a key adds the entries of the value below that key.\<close>

definition list_jansson :: "(string list \<times> json_value) list json_lib" where
  "list_jansson = \<lparr>json_object = [], json_object_set_new = (\<lambda>obj k v. obj @ map (\<lambda>(p, x). (k # p, x)) v),
     json_integer = (\<lambda>i. [([], J_int (word_of_int i))]), json_dumps = (\<lambda>_. Some ''{}'')\<rparr>"

end
