(* ===== verification/Arm_Session.thy ===== *)
theory Arm_Session imports Arm_Facts Vendor_Session begin

text \<open>
  The functions of variorum.c on a build for ARM processors: the functions of the two boards behind the pointers of the
  platform table (\<open>arm_api\<close>), and variorum_enter and variorum_exit as a provider of the \<open>vendor\<close> contract. The
  model is detected from the two id files, which are opened and closed again.
\<close>

section \<open>The function pointers\<close>

definition juno_int_call ::
  "power_env \<Rightarrow> 'o sysfs_env \<Rightarrow> op \<Rightarrow> int list \<Rightarrow> ('o, 'a) arm_state_scheme \<Rightarrow> (int \<times> ('o, 'a) arm_state_scheme) option" where
  "juno_int_call P K f args s =
    (case (f, args) of
       (get_power, [x]) \<Rightarrow> arm_juno_r2_get_power P K x s
     | (get_thermals, [x]) \<Rightarrow> arm_juno_r2_get_thermals P K x s
     | (get_clocks, [x]) \<Rightarrow> arm_juno_r2_get_clocks P K x s
     | (get_frequencies, []) \<Rightarrow> arm_juno_r2_get_frequencies P K s
     | (cap_socket_frequency, [x, y]) \<Rightarrow> arm_juno_r2_cap_socket_frequency P K x y s
     | _ \<Rightarrow> None)"

definition neoverse_int_call ::
  "power_env \<Rightarrow> 'o sysfs_env \<Rightarrow> op \<Rightarrow> int list \<Rightarrow> ('o, 'a) arm_state_scheme \<Rightarrow> (int \<times> ('o, 'a) arm_state_scheme) option" where
  "neoverse_int_call P K f args s =
    (case (f, args) of
       (get_power, [x]) \<Rightarrow> arm_neoverse_n1_get_power P K x s
     | (get_thermals, [x]) \<Rightarrow> arm_neoverse_n1_get_thermals P K x s
     | (get_clocks, [x]) \<Rightarrow> arm_neoverse_n1_get_clocks P K x s
     | (cap_socket_frequency, [x, y]) \<Rightarrow> arm_neoverse_n1_cap_socket_frequency P K x y s
     | _ \<Rightarrow> None)"

definition arm_api ::
  "power_env \<Rightarrow> 'o sysfs_env \<Rightarrow> (string list \<times> json_value) list json_lib \<Rightarrow> int \<times> int \<Rightarrow> string \<Rightarrow>
    (('o, 'a) arm_state_scheme, (string list \<times> json_value) list) api_env" where
  "arm_api P K L now name = \<lparr>
     api_call = (\<lambda>h args s. case h of
         arm_juno_r2 f \<Rightarrow> juno_int_call P K f args s
       | arm_neoverse_n1 f \<Rightarrow> neoverse_int_call P K f args s
       | _ \<Rightarrow> None),
     api_json_call = (\<lambda>h node s. case h of
         arm_juno_r2 f \<Rightarrow> if f = get_power_json then on_node (arm_juno_r2_get_power_json P K) node s else None
       | arm_neoverse_n1 f \<Rightarrow> if f = get_power_json then on_node (arm_neoverse_n1_get_power_json P K) node s else None
       | _ \<Rightarrow> None),
     api_str_call = (\<lambda>h s. case h of
         arm_juno_r2 f \<Rightarrow>
           if f = get_power_domain_info_json then dumped L (arm_juno_r2_get_power_domain_info_json P s) else None
       | arm_neoverse_n1 f \<Rightarrow>
           if f = get_power_domain_info_json then dumped L (arm_neoverse_n1_get_power_domain_info_json P s) else None
       | _ \<Rightarrow> None),
     api_json = L, api_timeofday = now, api_hostname = name\<rparr>"

section \<open>Enter and exit\<close>

definition arm_build :: build where
  "arm_build = (\<lambda>k. k = ARM_CPU)"

lemma arm_build_simps [simp]:
  "arm_build ARM_CPU" "\<not> arm_build INTEL_GPU" "\<not> arm_build INTEL_CPU" "\<not> arm_build NVIDIA_GPU"
  "\<not> arm_build IBM_CPU" "\<not> arm_build AMD_CPU" "\<not> arm_build AMD_GPU"
  "P_NUM_PLATFORMS arm_build = 1" "P_IDX arm_build ARM_CPU = 0"
  by (simp_all add: arm_build_def P_NUM_PLATFORMS_def platforms_def platform_enum_def P_IDX_def)

datatype arm_model = Juno_r2 | Neoverse_n1

fun arm_id :: "arm_model \<Rightarrow> u64" where
  "arm_id Juno_r2 = 0xd03d08"
| "arm_id Neoverse_n1 = 0xd0cd0c"

fun arm_ptrs :: "arm_model \<Rightarrow> (slot \<times> handler) list" where
  "arm_ptrs Juno_r2 =
    [(Print_power, arm_juno_r2 get_power), (Print_thermals, arm_juno_r2 get_thermals),
     (Print_frequency, arm_juno_r2 get_clocks), (Print_available_frequencies, arm_juno_r2 get_frequencies),
     (Cap_socket_frequency_limit, arm_juno_r2 cap_socket_frequency), (Get_power_json, arm_juno_r2 get_power_json),
     (Get_node_power_domain_info_json, arm_juno_r2 get_power_domain_info_json)]"
| "arm_ptrs Neoverse_n1 =
    [(Print_power, arm_neoverse_n1 get_power), (Print_thermals, arm_neoverse_n1 get_thermals),
     (Print_frequency, arm_neoverse_n1 get_clocks),
     (Cap_socket_frequency_limit, arm_neoverse_n1 cap_socket_frequency), (Get_power_json, arm_neoverse_n1 get_power_json),
     (Get_node_power_domain_info_json, arm_neoverse_n1 get_power_domain_info_json)]"

definition arm_table :: "arm_model \<Rightarrow> slot \<Rightarrow> handler option" where
  "arm_table M = fptr (install (arm_ptrs M) zero_platform)"

text \<open>A machine whose id files name the model, with topology and files in order.\<close>

definition arm_machine :: "sys_env \<Rightarrow> arm_model \<Rightarrow> bool" where
  "arm_machine V M \<longleftrightarrow> hwloc_good (sys_hw V) \<and> (\<forall>fd. \<not> os_close_fails (sys_os V) fd) \<and>
     (\<forall>i < 2. os_can_open (sys_os V) (Midr_path i) \<and> sys_midr V i \<noteq> []) \<and>
     (\<exists>v0 v1. strtol16 (take CPU_ID_SIZE (sys_midr V 0)) = Some v0 \<and> strtol16 (take CPU_ID_SIZE (sys_midr V 1)) = Some v1 \<and>
        push_bit 8 (word_of_int v0 AND 0xfff0) OR drop_bit 4 (word_of_int v1 AND 0xfff0) = arm_id M)"

text \<open>Descriptor 0 is taken, as it is when the process has a standard input.\<close>

definition arm_pre :: "sys_env \<Rightarrow> arm_model \<Rightarrow> 'a arch_state_scheme \<Rightarrow> bool" where
  "arm_pre V M s \<longleftrightarrow> arm_machine V M \<and> length (g_platform s) = 2 \<and> 0 < next_fd s \<and> fds_fresh s"

definition arm_usable :: "sys_env \<Rightarrow> arm_model \<Rightarrow> 'a arch_state_scheme \<Rightarrow> 'a arch_state_scheme \<Rightarrow> bool" where
  "arm_usable V M s t \<longleftrightarrow> arm_pre V M s \<and> length (g_platform t) = 2 \<and> 0 < next_fd t \<and> fds_fresh t \<and>
     arch_id (g_platform t ! 0) = Live (arm_id M) \<and> fptr (g_platform t ! 0) = arm_table M"

definition arm_opened :: "sys_env \<Rightarrow> arm_model \<Rightarrow> 'a arch_state_scheme \<Rightarrow> 'a arch_state_scheme \<Rightarrow> bool" where
  "arm_opened V M s t \<longleftrightarrow> arm_usable V M s t \<and>
     (\<exists>g n. t = s\<lparr>g_platform := g, init_variorum_init_topology := True, next_fd := n,
        arm_num_package := nsockets (machine_topo (sys_hw V))\<rparr>)"

definition arm_keeps :: "'a arch_state_scheme \<Rightarrow> 'a arch_state_scheme \<Rightarrow> bool" where
  "arm_keeps t t' \<longleftrightarrow> length (g_platform t') = length (g_platform t) \<and> arch_id (g_platform t' ! 0) = arch_id (g_platform t ! 0) \<and>
     fptr (g_platform t' ! 0) = fptr (g_platform t ! 0) \<and> 0 < next_fd t' \<and> fds_fresh t'"

definition arm_closed :: "'a arch_state_scheme \<Rightarrow> 'a arch_state_scheme \<Rightarrow> bool" where
  "arm_closed t u \<longleftrightarrow> (\<exists>g. u = t\<lparr>g_platform := g\<rparr> \<and> length g = length (g_platform t))"

lemma detect_arm_good:
  assumes "arm_pre V M s"
  shows "detect_arm_arch V s = Some (Live (arm_id M), s\<lparr>next_fd := next_fd s + 2\<rparr>)"
proof -
  have m: "\<And>fd. \<not> os_close_fails (sys_os V) fd" "os_can_open (sys_os V) (Midr_path 0)" "os_can_open (sys_os V) (Midr_path 1)"
    "sys_midr V 0 \<noteq> []" "sys_midr V 1 \<noteq> []" and n: "0 < next_fd s" and f: "fds_fresh s"
    using assms by (auto simp: arm_pre_def arm_machine_def less_2_cases_iff)
  obtain v0 v1 where v: "strtol16 (take CPU_ID_SIZE (sys_midr V 0)) = Some v0" "strtol16 (take CPU_ID_SIZE (sys_midr V 1)) = Some v1"
    "push_bit 8 (word_of_int v0 AND 0xfff0) OR drop_bit 4 (word_of_int v1 AND 0xfff0) = arm_id M"
    using assms by (auto simp: arm_pre_def arm_machine_def)
  have z: "open_files s (next_fd s) = None" "open_files s (next_fd s + 1) = None" using f by (simp_all add: fds_fresh_def)
  have u: "(open_files s)(next_fd s \<mapsto> a, next_fd s + 1 \<mapsto> b, next_fd s := None, next_fd s + 1 := None) = open_files s" for a b
    using z by (auto simp: fun_eq_iff)
  have l: "CPU_ID_SIZE = Suc 63" by (simp add: CPU_ID_SIZE_def)
  show ?thesis using m n v(1,2) u
    by (simp add: detect_arm_arch_def os_open_def os_close_def read_midr_def Let_def v(3) [symmetric] l add.assoc)
qed

lemma set_arm_func_ptrs_good:
  assumes "idx < length (g_platform s)" "arch_id (g_platform s ! idx) = Live (arm_id M)" "hwloc_good (sys_hw V)"
  shows "set_arm_func_ptrs V idx s = Some (0, (upd_platform idx (fill_platform (sys_hw V)) (upd_platform idx (install (arm_ptrs M)) s))
    \<lparr>init_variorum_init_topology := True, arm_num_package := nsockets (machine_topo (sys_hw V))\<rparr>)"
proof -
  have e: "push_bit 12 ARM_CORTEX_A53 OR ARM_CORTEX_A72 = 0xd03d08" "push_bit 12 ARM_NEOVERSE_N1 OR ARM_NEOVERSE_N1 = 0xd0cd0c"
    by (simp_all add: ARM_CORTEX_A53_def ARM_CORTEX_A72_def ARM_NEOVERSE_N1_def push_bit_eq_mult)
  have p: "platform_arch idx s = Some (arm_id M)" using assms(1,2) by (simp add: platform_arch_def)
  have i: "init_arm V idx (upd_platform idx f s) = Some ((upd_platform idx (fill_platform (sys_hw V)) (upd_platform idx f s))
    \<lparr>init_variorum_init_topology := True, arm_num_package := nsockets (machine_topo (sys_hw V))\<rparr>)" for f
    using assms(1,3) by (simp add: init_arm_def get_topo_good upd_platform_def)
  show ?thesis
    by (cases M) (simp_all add: set_arm_func_ptrs_def p e set_platform_Some assms(1) i)
qed


lemma arm_enter_opened:
  assumes "arm_pre V M s"
  shows "\<exists>t. variorum_enter arm_build V s = Some (0, t) \<and> arm_opened V M s t"
proof -
  let ?H = "sys_hw V"
  have h: "hwloc_good ?H" using assms by (simp add: arm_pre_def arm_machine_def)
  obtain p0 p1 where g: "g_platform s = [p0, p1]" using assms by (auto simp: arm_pre_def numeral_2_eq_2 length_Suc_conv)
  let ?c = "fill_platform ?H (clear_func_ptrs p0)"
  let ?s1 = "s\<lparr>g_platform := [?c, p1], init_variorum_init_topology := True\<rparr>"
  let ?p = "?c\<lparr>arch_id := Live (arm_id M)\<rparr>"
  let ?s2 = "s\<lparr>g_platform := [?p, p1], init_variorum_init_topology := True, next_fd := next_fd s + 2\<rparr>"
  let ?q = "fill_platform ?H (install (arm_ptrs M) ?p)"
  let ?s3 = "s\<lparr>g_platform := [?q, p1], init_variorum_init_topology := True, next_fd := next_fd s + 2,
    arm_num_package := nsockets (machine_topo ?H)\<rparr>"
  have 1: "variorum_init_func_ptrs arm_build (g_platform s) = Some [clear_func_ptrs p0, p1]"
    by (simp add: variorum_init_func_ptrs_def g)
  have 2: "topology_loop ?H [0] (s\<lparr>g_platform := [clear_func_ptrs p0, p1]\<rparr>) = Some ?s1"
    using h by (simp add: get_topo_good upd_platform_def)
  have "arm_pre V M ?s1" using assms by (simp add: arm_pre_def fds_fresh_def)
  from detect_arm_good [OF this]
  have 3: "variorum_detect_arch arm_build V ?s1 = Some (0, ?s2)"
    by (simp add: variorum_detect_arch_def set_arch_def set_platform_Some upd_platform_def log_arch_def)
  have 4: "set_arm_func_ptrs V 0 ?s2 = Some (0, ?s3)"
    by (subst set_arm_func_ptrs_good [where M = M]) (simp_all add: upd_platform_def h)
  have e: "variorum_enter arm_build V s = Some (0, ?s3)"
    using 1 2 3 4 by (simp add: variorum_enter_def variorum_set_func_ptrs_def del: topology_loop.simps)
  have "fptr ?q = arm_table M"
    by (rule ext) (simp add: arm_table_def fptr_install zero_platform_def fill_platform_def split: option.split)
  moreover have "arch_id ?q = Live (arm_id M)" by (simp add: install_def fill_platform_def)
  ultimately show ?thesis using e assms by (fastforce simp: arm_opened_def arm_usable_def arm_pre_def fds_fresh_def)
qed

lemma arm_exit_closed:
  assumes "arm_usable V M s t"
  shows "\<exists>u. variorum_exit arm_build V t = Some (0, u) \<and> arm_closed t u"
  using assms by (auto simp: arm_usable_def variorum_exit_def arm_closed_def upd_platform_def intro!: exI [of _ "(g_platform t)[0 := _]"])

interpretation arm: vendor "arm_pre V M" "arm_opened V M" "arm_usable V M" arm_keeps arm_closed arm_build V "arm_table M" for V M
proof
  show "P_NUM_PLATFORMS arm_build = 1" by simp
  fix s t t' u :: "'a arch_state_scheme"
  show "arm_pre V M s \<Longrightarrow> \<exists>t. variorum_enter arm_build V s = Some (0, t) \<and> arm_opened V M s t" by (rule arm_enter_opened)
  show "arm_opened V M s t \<Longrightarrow> arm_usable V M s t" by (simp add: arm_opened_def)
  show "arm_usable V M s t \<Longrightarrow> arm_keeps t t' \<Longrightarrow> arm_usable V M s t'" by (simp add: arm_usable_def arm_keeps_def)
  show "arm_usable V M s t \<Longrightarrow> \<exists>u. variorum_exit arm_build V t = Some (0, u) \<and> arm_closed t u" by (rule arm_exit_closed)
  show "arm_usable V M s t \<Longrightarrow> arm_closed t u \<Longrightarrow> arm_pre V M u"
    by (auto simp: arm_usable_def arm_pre_def arm_closed_def fds_fresh_def)
  show "arm_opened V M s t \<Longrightarrow> get_slot 0 sl t = Some (arm_table M sl)" for sl
    by (simp add: arm_opened_def arm_usable_def get_slot_def)
qed

end
