(* ===== verification/Arm_Props.thy ===== *)
theory Arm_Props imports Arm_Session Rapl_Limits begin

text \<open>
  Calls of the API on the two ARM boards: what is printed is what the sensor files show; a frequency limit arrives in
  the file of its cpufreq policy; and two failures that are not noticed, a board without the hwmon files and the JSON
  object of the Neoverse N1.
\<close>

section \<open>The report of the power sensors\<close>

fun arm_power_files :: "arm_model \<Rightarrow> string list" where
  "arm_power_files Juno_r2 = juno_power_files"
| "arm_power_files Neoverse_n1 = neoverse_power_files"

fun arm_power_columns :: "arm_model \<Rightarrow> string list" where
  "arm_power_columns Juno_r2 = [''Sys_mW'', ''Big_mW'', ''Little_mW'', ''GPU_mW'']"
| "arm_power_columns Neoverse_n1 = [''CPU_mW'', ''I/O_mW'']"

fun arm_power_fn :: "arm_model \<Rightarrow> arm_fn" where
  "arm_power_fn Juno_r2 = Juno_power"
| "arm_power_fn Neoverse_n1 = Neoverse_power"

definition arm_power_header :: "arm_model \<Rightarrow> line" where
  "arm_power_header M = map FS (''_ARM_POWER'' # ''Host'' # arm_power_columns M)"

lemma arm_table_power: "\<exists>h. arm_table M Print_power = Some h"
  "arm_table Juno_r2 Print_power = Some (arm_juno_r2 get_power)" "arm_table Neoverse_n1 Print_power = Some (arm_neoverse_n1 get_power)"
  "arm_table Juno_r2 Cap_socket_frequency_limit = Some (arm_juno_r2 cap_socket_frequency)"
  "arm_table Neoverse_n1 Get_power_json = Some (arm_neoverse_n1 get_power_json)"
  by (cases M; simp add: arm_table_def install_def)+

lemma milli_exact: "n < 2 ^ 53 \<Longrightarrow> milli (of_nat n) = fl (of_nat n / 1000)"
proof -
  assume n: "n < 2 ^ 53"
  then have u: "uint (of_nat n :: u64) = int n" by (simp add: unsigned_of_nat take_bit_nat_eq_self)
  have "d_of_int (int n) = Fin (of_int (int n))" using n by (intro d_of_int_exact) simp
  then show ?thesis by (simp add: milli_def u d_div_def)
qed

text \<open>What the function of a board prints when its sensors can be read.\<close>

lemma print_power_call:
  assumes "read_sensors P K (arm_power_files M) s = Some (Some vals, t)" "arm_table M Print_power = Some h"
  shows "api_call (arm_api P K L now name) h [0] s = Some (0, say ([FS ''_ARM_POWER'', FS (pe_host P)] @ map (\<lambda>v. FF (milli v)) vals)
     (arm_header (arm_power_fn M) (arm_power_header M) t))"
  using assms by (cases M) (auto simp: arm_table_power arm_api_def juno_int_call_def neoverse_int_call_def
      arm_juno_r2_get_power_def arm_neoverse_n1_get_power_def arm_cpu_juno_r2_get_power_data_def
      arm_cpu_neoverse_n1_get_power_data_def sensor_report_def arm_power_header_def)

lemma arm_opened_fields:
  assumes "arm_opened V M s t"
  shows "printed t = printed s" "elog t = elog s" "open_files t = open_files s" "sysfs t = sysfs s" "arm_inited t = arm_inited s"
    "fds_fresh t" "0 < next_fd t" "arm_num_package t = nsockets (machine_topo (sys_hw V))" "json_sets t = json_sets s"
    "length (g_platform t) = 2"
  using assms by (auto simp: arm_opened_def arm_usable_def)

lemma arm_keeps_report:
  "arm_keeps t (say l (arm_header f l' t')) = arm_keeps t t'"
  by (simp add: arm_keeps_def say_def arm_header_def fds_fresh_def)

lemma printed_report:
  "printed (say l (arm_header f l' t)) = printed t @ (if f \<in> arm_inited t then [] else [l']) @ [l]"
  "elog (say l (arm_header f l' t)) = elog t" "open_files (say l (arm_header f l' t)) = open_files t"
  by (simp_all add: say_def arm_header_def)

text \<open>
  C15: variorum_print_power on the ARM boards goes from the text of the hwmon files to the report. When every file of
  the board shows a number in decimal, the call returns 0 and prints, after the header in the first call, one line
  with the numbers in milliwatts, each the correctly rounded thousandth of what its file shows. No descriptor stays
  open and nothing is reported.
\<close>

theorem arm_power_report:
  fixes s :: "('o, 'a) arm_state_scheme"
  assumes "arm_pre (pe_sys P) M s" "sysfs_ok K txt" "can_open P (arm_power_files M)"
    "all_show txt (sysfs s) (arm_power_files M) ns" "\<forall>n \<in> set ns. n < 2 ^ 53"
  shows "\<exists>u. variorum_print_power (arm_api P K L now name) arm_build (pe_sys P) s = Some (0, u) \<and>
    printed u = printed s @ (if arm_power_fn M \<in> arm_inited s then [] else [arm_power_header M]) @
      [[FS ''_ARM_POWER'', FS (pe_host P)] @ map (\<lambda>n. FF (fl (of_nat n / 1000))) ns] \<and>
    open_files u = open_files s \<and> elog u = elog s \<and> arm_pre (pe_sys P) M u"
proof -
  let ?A = "arm_api P K L now name"
  obtain h where h: "arm_table M Print_power = Some h" using arm_table_power(1) by blast
  have m: "map (\<lambda>v. FF (milli v)) (map of_nat ns) = map (\<lambda>n. FF (fl (of_nat n / 1000))) ns"
    using assms(5) by (simp add: milli_exact)
  have "\<exists>t'. api_call ?A h [0] t = Some (0, t') \<and> arm_keeps t t' \<and>
      (printed t' = printed s @ (if arm_power_fn M \<in> arm_inited s then [] else [arm_power_header M]) @
        [[FS ''_ARM_POWER'', FS (pe_host P)] @ map (\<lambda>n. FF (fl (of_nat n / 1000))) ns] \<and>
       open_files t' = open_files s \<and> elog t' = elog s)" if o': "arm_opened (pe_sys P) M s t" for t :: "('o, 'a) arm_state_scheme"
  proof -
    note f = arm_opened_fields [OF o']
    obtain o'' where r: "read_sensors P K (arm_power_files M) t =
        Some (Some (map of_nat ns), t\<lparr>sysfs := o'', next_fd := next_fd t + int (length (arm_power_files M))\<rparr>)"
      using read_sensors_ok [OF assms(2,3) f(6,7), of ns] assms(4) by (auto simp: f(4))
    have k: "arm_keeps t (t\<lparr>sysfs := o'', next_fd := next_fd t + int (length (arm_power_files M))\<rparr>)"
      using f(6,7) by (simp add: arm_keeps_def fds_fresh_def)
    show ?thesis unfolding print_power_call [OF r h] m
      by (rule exI, rule conjI, rule refl) (simp add: arm_keeps_report k printed_report f(1-5))
  qed
  from arm.call_returns(1) [OF assms(1) h this] obtain t' u where u: "for_all_skip ?A arm_build (pe_sys P) Print_power [0] s = Some (0, u)"
    "arm_closed t' u" "arm_pre (pe_sys P) M u" "printed t' = printed s @ (if arm_power_fn M \<in> arm_inited s then [] else [arm_power_header M]) @
      [[FS ''_ARM_POWER'', FS (pe_host P)] @ map (\<lambda>n. FF (fl (of_nat n / 1000))) ns]" "elog t' = elog s" "open_files t' = open_files s"
    by blast
  then show ?thesis by (intro exI [of _ u]) (auto simp: variorum_print_power_def arm_closed_def)
qed


section \<open>Frequency limits\<close>

lemma write_number_ok:
  assumes "os_can_open (pe_os P) (Sysfs_path p)" "\<forall>fd. \<not> os_close_fails (pe_os P) fd" "fds_fresh s" "0 < next_fd s"
    "sy_write K p (number_buf K f s) (sysfs s) = (n, o')" "0 < n"
  shows "write_number P K f p s = (True, s\<lparr>sysfs := o', next_fd := next_fd s + 1\<rparr>)"
proof -
  have z: "(open_files s)(next_fd s := None) = open_files s"
    using assms(3) by (intro fun_upd_idem) (simp add: fds_fresh_def)
  have b: "number_buf K f (s\<lparr>open_files := a, next_fd := b\<rparr>) = number_buf K f s" for a b
    by (simp add: number_buf_def uninit_def Let_def)
  show ?thesis using assms(1,2,4-6) z
    by (simp add: write_number_def os_open_def os_close_def write_file_ui64_def b)
qed

lemma write_number_refused:
  assumes "open_files s (-1) = None" "fds_fresh s" "0 < next_fd s"
  shows "\<not> os_can_open (pe_os P) (Sysfs_path p) \<Longrightarrow> write_number P K f p s = (False, variorum_error_handler VARIORUM_ERROR_INVAL s)"
    and "os_can_open (pe_os P) (Sysfs_path p) \<Longrightarrow> sy_write K p (number_buf K f s) (sysfs s) = (n, o') \<Longrightarrow> n \<le> 0 \<Longrightarrow>
      write_number P K f p s = (False, variorum_error_handler VARIORUM_ERROR_INVAL
        (s\<lparr>open_files := (open_files s)(next_fd s \<mapsto> Sysfs_path p), next_fd := next_fd s + 1, sysfs := o'\<rparr>))"
proof -
  have b: "number_buf K f (s\<lparr>open_files := a, next_fd := b\<rparr>) = number_buf K f s" for a b
    by (simp add: number_buf_def uninit_def Let_def)
  show "write_number P K f p s = (False, variorum_error_handler VARIORUM_ERROR_INVAL s)" if "\<not> os_can_open (pe_os P) (Sysfs_path p)"
    using that assms(1) by (simp add: write_number_def os_open_def write_file_ui64_def)
  show "write_number P K f p s = (False, variorum_error_handler VARIORUM_ERROR_INVAL
        (s\<lparr>open_files := (open_files s)(next_fd s \<mapsto> Sysfs_path p), next_fd := next_fd s + 1, sysfs := o'\<rparr>))"
    if "os_can_open (pe_os P) (Sysfs_path p)" "sy_write K p (number_buf K f s) (sysfs s) = (n, o')" "n \<le> 0"
    using that assms(3) by (simp add: write_number_def os_open_def write_file_ui64_def b)
qed

text \<open>
  C17: a frequency limit on the Juno board, and which calls are refused. For a socket number that does not exist,
  whatever the frequency and the files, variorum_cap_socket_frequency_limit writes nothing, says that the number does not exist and returns -1. For a
  socket that exists and a frequency from 0 whose kHz fit an int: when scaling_setspeed of the socket's policy can be opened and the
  driver takes the write, the call returns 0 after one write of 32 bytes from which a scan takes the frequency in kHz
  whatever the stack held before (the number, a null byte and leftovers), and no descriptor stays open; when the file cannot be opened, the
  call reports an invalid value, returns -1 and writes nothing; when the driver refuses the write, it does the same but leaves the file
  open. (The board is set up, the topology has fewer than 2^31 sockets, and no file has descriptor -1.)
\<close>

theorem juno_frequency_cap:
  fixes s :: "('o, 'a) arm_state_scheme"
  assumes "arm_pre (pe_sys P) Juno_r2 s" "sy_arm_idx K = 0" "open_files s (-1) = None"
    "uint (nsockets (machine_topo (pe_hw P))) < 2 ^ 31" "setspeed = cpufreq cpu ''scaling_setspeed''"
    "call = variorum_cap_socket_frequency_limit (arm_api P K L now name) arm_build (pe_sys P) cpu mhz s"
    "exists_cpu \<longleftrightarrow> 0 \<le> cpu \<and> cpu < uint (nsockets (machine_topo (pe_hw P)))"
  shows "(\<not> exists_cpu \<longrightarrow> (\<exists>u. call = Some (-1, u) \<and> sysfs u = sysfs s \<and> open_files u = open_files s \<and>
      printed u = printed s @ [[FS ''The specified CPU ID does not exist'']])) \<and>
    (exists_cpu \<and> 0 \<le> mhz \<and> mhz * 1000 < 2 ^ 31 \<longrightarrow>
      (os_can_open (pe_os P) (Sysfs_path setspeed) \<and> (\<forall>buf. length buf = 32 \<longrightarrow> 0 < fst (sy_write K setspeed buf (sysfs s))) \<longrightarrow>
        (\<exists>u buf. call = Some (0, u) \<and> sysfs u = snd (sy_write K setspeed buf (sysfs s)) \<and> length buf = 32 \<and>
          scan_lu buf = Some (Some (word_of_int (mhz * 1000))) \<and>
          open_files u = open_files s \<and> printed u = printed s \<and> elog u = elog s)) \<and>
      (\<not> os_can_open (pe_os P) (Sysfs_path setspeed) \<longrightarrow>
        (\<exists>u. call = Some (-1, u) \<and> sysfs u = sysfs s \<and> open_files u = open_files s \<and> elog u = elog s @ [VARIORUM_ERROR_INVAL])) \<and>
      (os_can_open (pe_os P) (Sysfs_path setspeed) \<and> (\<forall>buf. length buf = 32 \<longrightarrow> fst (sy_write K setspeed buf (sysfs s)) \<le> 0) \<longrightarrow>
        (\<exists>u fd. call = Some (-1, u) \<and> open_files s fd = None \<and> open_files u = (open_files s)(fd \<mapsto> Sysfs_path setspeed) \<and>
          elog u = elog s @ [VARIORUM_ERROR_INVAL])))"
proof -
  let ?A = "arm_api P K L now name"
  let ?n = "nsockets (machine_topo (pe_hw P))"
  let ?h = "arm_juno_r2 cap_socket_frequency"
  note h = arm_table_power(4)
  have g: "hwloc_good (pe_hw P)" "\<forall>fd. \<not> os_close_fails (pe_os P) fd" using assms(1) by (simp_all add: arm_pre_def arm_machine_def)
  have "- (2 ^ 31) \<le> uint ?n" by (rule order_trans [OF _ uint_ge_0]) simp
  then have i: "sint ?n = uint ?n" using signed_take_bit_int_eq_self [of 31 "uint ?n"] assms(4) by (simp add: sint_uint)
  define top where "top t = (upd_platform 0 (fill_platform (pe_hw P)) t)\<lparr>init_variorum_init_topology := True\<rparr>" for t :: "('o, 'a) arm_state_scheme"
  have c: "api_call ?A ?h [cpu, mhz] t =
      (if cpu < 0 \<or> uint ?n \<le> cpu then Some (-1, say [FS ''The specified CPU ID does not exist''] (top t))
       else arm_cpu_juno_r2_cap_socket_frequency P K cpu mhz (top t))" if "length (g_platform t) = 2" for t
    using get_topo_good [OF g(1), of 0 t] that assms(2)
    by (simp add: arm_api_def juno_int_call_def arm_juno_r2_cap_socket_frequency_def i top_def)
  have k: "arm_keeps t (top t)" if "0 < next_fd t" "fds_fresh t" "length (g_platform t) = 2" for t
    using that by (simp add: arm_keeps_def top_def upd_platform_def fill_platform_def fds_fresh_def)
  have tf: "printed (top t) = printed t" "elog (top t) = elog t" "open_files (top t) = open_files t" "sysfs (top t) = sysfs t"
    "next_fd (top t) = next_fd t" "fds_fresh (top t) = fds_fresh t" for t
    by (simp_all add: top_def upd_platform_def fds_fresh_def)
  let ?buf = "\<lambda>t. number_buf K (word_of_int (mhz * 1000)) (top t)"
  have none: "\<exists>u. call = Some (-1, u) \<and> sysfs u = sysfs s \<and> open_files u = open_files s \<and>
      printed u = printed s @ [[FS ''The specified CPU ID does not exist'']]" if ne: "\<not> exists_cpu"
  proof -
    have "\<exists>rc t'. api_call ?A ?h [cpu, mhz] t = Some (rc, t') \<and> rc \<noteq> 0 \<and>
        (sysfs t' = sysfs s \<and> open_files t' = open_files s \<and>
         printed t' = printed s @ [[FS ''The specified CPU ID does not exist'']])"
      if o': "arm_opened (pe_sys P) Juno_r2 s t" for t :: "('o, 'a) arm_state_scheme"
      using ne arm_opened_fields [OF o'] by (intro exI) (auto simp: assms(7) c say_def tf)
    from arm.call_fails(2) [OF assms(1) h this] show ?thesis
      unfolding assms(6) variorum_cap_socket_frequency_limit_def arm_closed_def by fastforce
  qed
  moreover have "\<exists>u buf. call = Some (0, u) \<and> sysfs u = snd (sy_write K setspeed buf (sysfs s)) \<and> length buf = 32 \<and>
      scan_lu buf = Some (Some (word_of_int (mhz * 1000))) \<and> open_files u = open_files s \<and> printed u = printed s \<and> elog u = elog s"
    if e: "exists_cpu" "0 \<le> mhz" "mhz * 1000 < 2 ^ 31" and w: "os_can_open (pe_os P) (Sysfs_path setspeed)"
      "\<forall>buf. length buf = 32 \<longrightarrow> 0 < fst (sy_write K setspeed buf (sysfs s))"
  proof -
    have z: "khz mhz = Some (word_of_int (mhz * 1000))" using e(2,3) by (simp add: khz_def)
    have "\<exists>t'. api_call ?A ?h [cpu, mhz] t = Some (0, t') \<and> arm_keeps t t' \<and>
        ((\<exists>buf. sysfs t' = snd (sy_write K setspeed buf (sysfs s)) \<and> length buf = 32 \<and>
            scan_lu buf = Some (Some (word_of_int (mhz * 1000)))) \<and>
          open_files t' = open_files s \<and> printed t' = printed s \<and> elog t' = elog s)"
      if o': "arm_opened (pe_sys P) Juno_r2 s t" for t :: "('o, 'a) arm_state_scheme"
    proof -
      note f = arm_opened_fields [OF o']
      obtain m o'' where w': "sy_write K setspeed (?buf t) (sysfs s) = (m, o'')" "0 < m"
        using w(2) number_buf_scan(2) by (metis prod.collapse)
      have "write_number P K (word_of_int (mhz * 1000)) setspeed (top t) = (True, (top t)\<lparr>sysfs := o'', next_fd := next_fd t + 1\<rparr>)"
        using write_number_ok [of P setspeed "top t" K "word_of_int (mhz * 1000)" m o''] w(1) g(2) w' f by (simp add: tf)
      then have a: "api_call ?A ?h [cpu, mhz] t = Some (0, (top t)\<lparr>sysfs := o'', next_fd := next_fd t + 1\<rparr>)"
        using e(1) by (simp add: c [OF f(10)] arm_cpu_juno_r2_cap_socket_frequency_def z assms(5,7))
      have kt: "arm_keeps t ((top t)\<lparr>sysfs := o'', next_fd := next_fd t + 1\<rparr>)"
        using k [OF f(7,6,10)] f(6,7) by (simp add: arm_keeps_def fds_fresh_def tf)
      have "\<exists>buf. o'' = snd (sy_write K setspeed buf (sysfs s)) \<and> length buf = 32 \<and> scan_lu buf = Some (Some (word_of_int (mhz * 1000)))"
        using w'(1) by (intro exI [of _ "?buf t"]) (simp add: number_buf_scan)
      then show ?thesis using kt unfolding a by (simp add: tf f)
    qed
    from arm.call_returns(2) [OF assms(1) h this] show ?thesis
      unfolding assms(6) variorum_cap_socket_frequency_limit_def arm_closed_def by fastforce
  qed
  moreover have "\<exists>u. call = Some (-1, u) \<and> sysfs u = sysfs s \<and> open_files u = open_files s \<and> elog u = elog s @ [VARIORUM_ERROR_INVAL]"
    if e: "exists_cpu" "0 \<le> mhz" "mhz * 1000 < 2 ^ 31" and w: "\<not> os_can_open (pe_os P) (Sysfs_path setspeed)"
  proof -
    have z: "khz mhz = Some (word_of_int (mhz * 1000))" using e(2,3) by (simp add: khz_def)
    have "\<exists>rc t'. api_call ?A ?h [cpu, mhz] t = Some (rc, t') \<and> rc \<noteq> 0 \<and>
        (sysfs t' = sysfs s \<and> open_files t' = open_files s \<and> elog t' = elog s @ [VARIORUM_ERROR_INVAL])"
      if o': "arm_opened (pe_sys P) Juno_r2 s t" for t :: "('o, 'a) arm_state_scheme"
    proof -
      note f = arm_opened_fields [OF o']
      have "write_number P K (word_of_int (mhz * 1000)) setspeed (top t) = (False, variorum_error_handler VARIORUM_ERROR_INVAL (top t))"
        by (rule write_number_refused(1)) (use assms(3) w f in \<open>simp_all add: tf\<close>)
      then show ?thesis using e(1)
        by (intro exI) (auto simp: c [OF f(10)] arm_cpu_juno_r2_cap_socket_frequency_def z assms(5,7) tf f variorum_error_handler_def)
    qed
    from arm.call_fails(2) [OF assms(1) h this] show ?thesis
      unfolding assms(6) variorum_cap_socket_frequency_limit_def by fastforce
  qed
  moreover have "\<exists>u fd. call = Some (-1, u) \<and> open_files s fd = None \<and> open_files u = (open_files s)(fd \<mapsto> Sysfs_path setspeed) \<and>
      elog u = elog s @ [VARIORUM_ERROR_INVAL]"
    if e: "exists_cpu" "0 \<le> mhz" "mhz * 1000 < 2 ^ 31" and w: "os_can_open (pe_os P) (Sysfs_path setspeed)"
      "\<forall>buf. length buf = 32 \<longrightarrow> fst (sy_write K setspeed buf (sysfs s)) \<le> 0"
  proof -
    have z: "khz mhz = Some (word_of_int (mhz * 1000))" using e(2,3) by (simp add: khz_def)
    have "\<exists>rc t'. api_call ?A ?h [cpu, mhz] t = Some (rc, t') \<and> rc \<noteq> 0 \<and>
        (\<exists>fd. open_files s fd = None \<and> open_files t' = (open_files s)(fd \<mapsto> Sysfs_path setspeed) \<and> elog t' = elog s @ [VARIORUM_ERROR_INVAL])"
      if o': "arm_opened (pe_sys P) Juno_r2 s t" for t :: "('o, 'a) arm_state_scheme"
    proof -
      note f = arm_opened_fields [OF o']
      obtain m o'' where w': "sy_write K setspeed (?buf t) (sysfs (top t)) = (m, o'')" "m \<le> 0"
        using w(2) number_buf_scan(2) f by (metis prod.collapse tf(4))
      have "write_number P K (word_of_int (mhz * 1000)) setspeed (top t) = (False, variorum_error_handler VARIORUM_ERROR_INVAL
          ((top t)\<lparr>open_files := (open_files (top t))(next_fd (top t) \<mapsto> Sysfs_path setspeed), next_fd := next_fd (top t) + 1, sysfs := o''\<rparr>))"
        by (rule write_number_refused(2) [OF _ _ _ w(1) w']) (use assms(3) f in \<open>simp_all add: tf\<close>)
      moreover have "open_files s (next_fd t) = None" using f(6) f by (auto simp: fds_fresh_def)
      ultimately show ?thesis using e(1)
        by (intro exI) (auto simp: c [OF f(10)] arm_cpu_juno_r2_cap_socket_frequency_def z assms(5,7) tf f variorum_error_handler_def)
    qed
    from arm.call_fails(2) [OF assms(1) h this] show ?thesis
      unfolding assms(6) variorum_cap_socket_frequency_limit_def by fastforce
  qed
  ultimately show ?thesis by blast
qed

section \<open>Failures that go unnoticed\<close>

lemma open_each_missing:
  "\<forall>p \<in> set ps. \<not> os_can_open E (Sysfs_path p) \<Longrightarrow> open_each E ps s = (replicate (length ps) (-1), s)"
  by (induction ps) (simp_all add: os_open_def)

lemma read_each_missing:
  assumes "open_files s (-1) = None" "scan_lu (uninit K 32 s) = Some (Some w)"
  shows "read_each K val (replicate n (-1)) s = Some (replicate n (-1, w), s)"
  by (induction n) (simp_all add: read_file_missing [OF assms])

lemma close_each_missing: "open_files s (-1) = None \<Longrightarrow> close_each E (replicate n (-1)) s = s"
  by (induction n) (simp_all add: os_close_def)

lemma read_sensors_missing:
  assumes "\<forall>p \<in> set ps. \<not> os_can_open (pe_os P) (Sysfs_path p)" "open_files s (-1) = None"
    "scan_lu (uninit K 32 s) = Some (Some w)"
  shows "read_sensors P K ps s = Some (Some (replicate (length ps) w), s)"
proof -
  have "read_each K (pe_junk P) (replicate n (-1)) s = Some (replicate n (-1, w), s)" for n
    using assms(2,3) by (rule read_each_missing)
  then show ?thesis using open_each_missing [OF assms(1), of s] close_each_missing [OF assms(2), of "pe_os P" "length ps"]
    by (auto simp: read_sensors_def)
qed

text \<open>
  C32: power on a board whose hwmon files are missing. Every open fails with -1, which the code takes for a descriptor, as
  it only looks for 0; every read fails with -1, which it takes for bytes. The call returns 0 and reports nothing, and
  every column of the line is the number that happens to be on the stack.
\<close>

theorem arm_missing_sensors_unnoticed:
  fixes s :: "('o, 'a) arm_state_scheme"
  assumes "arm_pre (pe_sys P) M s" "\<forall>p. \<not> os_can_open (pe_os P) (Sysfs_path p)" "open_files s (-1) = None"
    "scan_lu (uninit K 32 s) = Some (Some w)"
  shows "\<exists>u. variorum_print_power (arm_api P K L now name) arm_build (pe_sys P) s = Some (0, u) \<and>
    printed u = printed s @ (if arm_power_fn M \<in> arm_inited s then [] else [arm_power_header M]) @
      [[FS ''_ARM_POWER'', FS (pe_host P)] @ replicate (length (arm_power_files M)) (FF (milli w))] \<and>
    elog u = elog s"
proof -
  let ?A = "arm_api P K L now name"
  obtain h where h: "arm_table M Print_power = Some h" using arm_table_power(1) by blast
  have "\<exists>t'. api_call ?A h [0] t = Some (0, t') \<and> arm_keeps t t' \<and>
      (printed t' = printed s @ (if arm_power_fn M \<in> arm_inited s then [] else [arm_power_header M]) @
        [[FS ''_ARM_POWER'', FS (pe_host P)] @ replicate (length (arm_power_files M)) (FF (milli w))] \<and>
       elog t' = elog s)" if o': "arm_opened (pe_sys P) M s t" for t :: "('o, 'a) arm_state_scheme"
  proof -
    note f = arm_opened_fields [OF o']
    have u: "uninit K 32 t = uninit K 32 s" by (simp add: uninit_def f(4))
    have r: "read_sensors P K (arm_power_files M) t = Some (Some (replicate (length (arm_power_files M)) w), t)"
      using assms(2-4) by (intro read_sensors_missing) (simp_all add: f(3) u)
    have k: "arm_keeps t t" using f(6,7) by (simp add: arm_keeps_def)
    show ?thesis unfolding print_power_call [OF r h]
      by (rule exI, rule conjI, rule refl) (simp add: arm_keeps_report k printed_report f(1-5))
  qed
  from arm.call_returns(1) [OF assms(1) h this] obtain t' u where u: "for_all_skip ?A arm_build (pe_sys P) Print_power [0] s = Some (0, u)"
    "arm_closed t' u" "arm_pre (pe_sys P) M u" "printed t' = printed s @ (if arm_power_fn M \<in> arm_inited s then [] else [arm_power_header M]) @
      [[FS ''_ARM_POWER'', FS (pe_host P)] @ replicate (length (arm_power_files M)) (FF (milli w))]" "elog t' = elog s"
    by blast
  then show ?thesis by (intro exI [of _ u]) (auto simp: variorum_print_power_def arm_closed_def)
qed

text \<open>What the Neoverse function adds to an object.\<close>

definition neoverse_entries :: "nat \<Rightarrow> (string list \<times> json_value) list" where
  "neoverse_entries n = concat (map (\<lambda>i. [([Socket_id i], J_object), ([Socket_id i, ''power_mem_watts''], J_real (Fin (-1)))]) [0..<n])"

lemma neoverse_socket_loop_sets:
  "json_sets (neoverse_socket_loop is s) = json_sets s @
    concat (map (\<lambda>i. [([Socket_id i], J_object), ([Socket_id i, ''power_mem_watts''], J_real (Fin (-1)))]) is)"
  by (induction "is" arbitrary: s) (simp_all add: json_set_def)

lemma neoverse_socket_loop_state: "\<exists>js. neoverse_socket_loop is s = s\<lparr>json_sets := js\<rparr>"
proof (induction "is" arbitrary: s)
  case Nil
  show ?case by (intro exI [of _ "json_sets s"]) simp
next
  case (Cons i "is")
  let ?t = "json_set [Socket_id i, ''power_mem_watts''] (J_real (Fin (-1))) (json_set [Socket_id i] J_object s)"
  obtain js where "neoverse_socket_loop is ?t = ?t\<lparr>json_sets := js\<rparr>" using Cons.IH [of ?t] by blast
  then show ?case by (intro exI [of _ js]) (simp add: json_set_def)
qed

lemma no_socket_0: "[''socket_0''] \<notin> fst ` set (neoverse_entries n)"
  by (auto simp: neoverse_entries_def Socket_id_def snprintf_def)

lemma neoverse_json_call:
  "api_json_call (arm_api P K L now name) (arm_neoverse_n1 get_power_json) node s = on_node (arm_neoverse_n1_get_power_json P K) node s"
  by (simp add: arm_api_def)

text \<open>
  C31: the power object of a Neoverse N1 never has a power in it. Where the sensor files can be read and the object
  that variorum_get_power_json has made holds no socket_0 of its own, the call returns 0, and what was added to the
  object are the entries Socket_0, Socket_1 and so on with -1 for the memory: the code looks its processor up as socket_0, finds
  nothing, and drops the measured power of the processor and of the I/O.
\<close>

theorem neoverse_json_without_power:
  fixes s :: "('o, 'a) arm_state_scheme" and A :: "(('o, 'a) arm_state_scheme, (string list \<times> json_value) list) api_env"
  assumes "arm_pre (pe_sys P) Neoverse_n1 s" "sysfs_ok K txt" "can_open P neoverse_power_files"
    "all_show txt (sysfs s) neoverse_power_files [cpu, io]" "A = arm_api P K L now name"
    "[''socket_0''] \<notin> fst ` set (new_node A)"
  shows "\<exists>u. variorum_get_power_json A arm_build (pe_sys P) out s =
    Some (0, dump_node A (new_node A @ neoverse_entries (nat (sint (nsockets (machine_topo (pe_hw P)))))), u)"
proof -
  let ?A = A
  let ?N = "new_node ?A @ neoverse_entries (nat (sint (nsockets (machine_topo (pe_hw P)))))"
  let ?body = "\<lambda>s :: ('o, 'a) arm_state_scheme. do {
     (ret, node, s) \<leftarrow> json_skip_loop ?A Get_power_json [0..<P_NUM_PLATFORMS arm_build] (new_node ?A) s;
     Some (ret, if ret = None then dump_node ?A node else out, s)
   }"
  have b: "\<exists>o' t'. ?body t = Some (None, o', t') \<and> arm_keeps t t' \<and> o' = dump_node ?A ?N"
    if o': "arm_opened (pe_sys P) Neoverse_n1 s t" for t :: "('o, 'a) arm_state_scheme"
  proof -
    note f = arm_opened_fields [OF o']
    let ?t = "t\<lparr>json_sets := new_node ?A\<rparr>"
    obtain o'' where r: "read_sensors P K neoverse_power_files ?t =
        Some (Some (map of_nat [cpu, io]), ?t\<lparr>sysfs := o'', next_fd := next_fd t + int (length neoverse_power_files)\<rparr>)"
      using read_sensors_ok [OF assms(2,3), of ?t "[cpu, io]"] f(4,6,7) assms(4) by (auto simp: fds_fresh_def)
    let ?t' = "?t\<lparr>sysfs := o'', next_fd := next_fd t + int (length neoverse_power_files)\<rparr>"
    let ?n = "nat (sint (arm_num_package t))"
    obtain js where l: "neoverse_socket_loop [0..<?n] ?t' = ?t'\<lparr>json_sets := js\<rparr>" using neoverse_socket_loop_state by blast
    then have js: "js = new_node ?A @ neoverse_entries ?n"
      using neoverse_socket_loop_sets [of "[0..<?n]" ?t'] by (simp add: neoverse_entries_def)
    have "[''socket_0''] \<notin> fst ` set js" using assms(6) no_socket_0 by (simp add: js image_Un)
    then have c: "arm_neoverse_n1_get_power_json P K ?t = Some (0, ?t'\<lparr>json_sets := js\<rparr>)"
      by (simp add: arm_neoverse_n1_get_power_json_def arm_cpu_neoverse_n1_json_get_power_data_def r l set_if_has_def json_has_def)
    have "api_json_call ?A (arm_neoverse_n1 get_power_json) (new_node ?A) t = Some (0, js, ?t'\<lparr>json_sets := json_sets t\<rparr>)"
      unfolding assms(5) neoverse_json_call on_node_def using c [unfolded assms(5)] by simp
    moreover have "arm_keeps t (?t'\<lparr>json_sets := json_sets t\<rparr>)" using f(6,7) by (simp add: arm_keeps_def fds_fresh_def)
    ultimately show ?thesis
      using arm.opened_slot [OF o', of Get_power_json] by (simp add: arm_table_power(5) js f(8))
  qed
  obtain u where "arm.run (pe_sys P) out ?body s = Some (0, dump_node ?A ?N, u)"
    using arm.run_through [OF assms(1), of ?body "\<lambda>_ o' _. o' = dump_node ?A ?N" out] b by blast
  then show ?thesis unfolding variorum_get_power_json_def json_all_skip_def arm.run_session by blast
qed


section \<open>Examples\<close>

text \<open>A kernel that keeps what was written, a stack that begins with a 7, and the two boards.\<close>

definition example_sysfs :: "(string \<Rightarrow> string option) sysfs_env" where
  "example_sysfs = \<lparr>sy_arm_idx = 0, sy_read = (\<lambda>p n fs. (fs p, fs)),
     sy_write = (\<lambda>p buf fs. (int (length buf), fs(p \<mapsto> buf))), sy_stack = (\<lambda>_ i. if i = 0 then CHR ''7'' else CHR 0x00)\<rparr>"

definition arm_sys :: "string \<Rightarrow> string \<Rightarrow> bool \<Rightarrow> sys_env" where
  "arm_sys id0 id1 present = example_sys\<lparr>sys_os := good_env\<lparr>os_can_open := \<lambda>p. case p of Sysfs_path _ \<Rightarrow> present | _ \<Rightarrow> True\<rparr>,
     sys_midr := \<lambda>i. (if i = 0 then id0 else id1) @ newline\<rparr>"

definition arm_node :: "arm_model \<Rightarrow> bool \<Rightarrow> power_env" where
  "arm_node M present = example_power (case M of
     Juno_r2 \<Rightarrow> arm_sys ''0x00000000410fd030'' ''0x00000000410fd080'' present
   | Neoverse_n1 \<Rightarrow> arm_sys ''0x00000000413fd0c1'' ''0x00000000413fd0c1'' present)"

definition arm_start :: "(string \<Rightarrow> string option) \<Rightarrow> (string \<Rightarrow> string option) arm_state" where
  "arm_start fs = rapl_state.extend (rapl_start\<lparr>next_fd := 3\<rparr>)
     \<lparr>arrays = (\<lambda>_. None), feat_inited = {}, fixed_counters = [], fixed_limits = [], sysfs = fs, arm_inited = {}\<rparr>"

lemma arm_start_fields [simp]:
  "sysfs (arm_start fs) = fs" "arm_inited (arm_start fs) = {}" "printed (arm_start fs) = []" "elog (arm_start fs) = []"
  "open_files (arm_start fs) = (\<lambda>_. None)" "next_fd (arm_start fs) = 3" "length (g_platform (arm_start fs)) = 2"
  by (simp_all add: arm_start_def rapl_start_def rapl_state.defs arch_state.defs arch_init_def batch_state.defs
      msr_state.defs msr_init_def MAX_PLATFORMS_def)

lemma arm_sys_machine:
  assumes "strtol16 (take CPU_ID_SIZE (id0 @ newline)) = Some v0" "strtol16 (take CPU_ID_SIZE (id1 @ newline)) = Some v1"
    "push_bit 8 (word_of_int v0 AND 0xfff0) OR drop_bit 4 (word_of_int v1 AND 0xfff0) = arm_id M"
  shows "arm_machine (arm_sys id0 id1 b) M"
proof -
  have "hwloc_good two_socket_machine" using example_machine by (simp add: intel_machine_def example_sys_def)
  then show ?thesis unfolding arm_machine_def
    using assms by (simp add: arm_sys_def example_sys_def good_env_def newline_def)
qed

lemma example_ids:
  "strtol16 (take CPU_ID_SIZE (''0x00000000410fd030'' @ newline)) = Some 0x410fd030"
  "strtol16 (take CPU_ID_SIZE (''0x00000000410fd080'' @ newline)) = Some 0x410fd080"
  "strtol16 (take CPU_ID_SIZE (''0x00000000413fd0c1'' @ newline)) = Some 0x413fd0c1"
  by (simp_all add: strtol16_def newline_def CPU_ID_SIZE_def is_space_def hex_unsigned_def hex_digit_def Let_def)


lemma arm_node_facts:
  "arm_pre (pe_sys (arm_node M b)) M (arm_start fs)" "pe_host (arm_node M b) = ''node1''"
  "os_can_open (pe_os (arm_node M b)) (Sysfs_path p) = b" "\<not> os_close_fails (pe_os (arm_node M b)) fd"
  "pe_hw (arm_node M b) = two_socket_machine"
proof -
  have "arm_machine (pe_sys (arm_node M b)) M"
    using arm_sys_machine [OF example_ids(1,2), of Juno_r2 b] arm_sys_machine [OF example_ids(3,3), of Neoverse_n1 b]
    by (cases M) (simp_all add: arm_node_def example_power_def push_bit_eq_mult drop_bit_eq_div)
  then show "arm_pre (pe_sys (arm_node M b)) M (arm_start fs)" by (simp add: arm_pre_def fds_fresh_def)
  show "pe_host (arm_node M b) = ''node1''" "os_can_open (pe_os (arm_node M b)) (Sysfs_path p) = b"
    "\<not> os_close_fails (pe_os (arm_node M b)) fd" "pe_hw (arm_node M b) = two_socket_machine"
    by (cases M; simp add: arm_node_def example_power_def arm_sys_def example_sys_def good_env_def)+
qed

text \<open>Every file shows the number 1500.\<close>

definition all_1500 :: "string \<Rightarrow> string option" where
  "all_1500 = (\<lambda>_. Some (dec 1500 @ newline))"

lemma example_sysfs_ok: "sysfs_ok example_sysfs (\<lambda>fs. fs)" "sy_arm_idx example_sysfs = 0"
  "fst (sy_write example_sysfs p buf fs) = int (length buf)"
  by (simp_all add: sysfs_ok_def example_sysfs_def)

abbreviation example_arm_api ::
  "arm_model \<Rightarrow> bool \<Rightarrow> ((string \<Rightarrow> string option) arm_state, (string list \<times> json_value) list) api_env" where
  "example_arm_api M b \<equiv> arm_api (arm_node M b) example_sysfs list_jansson (0, 0) ''node1''"

theorem arm_power_report_witness:
  "\<exists>u. variorum_print_power (example_arm_api Juno_r2 True) arm_build (pe_sys (arm_node Juno_r2 True)) (arm_start all_1500) = Some (0, u) \<and>
     printed u = [arm_power_header Juno_r2, [FS ''_ARM_POWER'', FS ''node1''] @ replicate 4 (FF (fl (1500 / 1000)))] \<and>
     open_files u = (\<lambda>_. None)"
proof -
  have l: "length juno_power_files = 4" by (simp add: juno_power_files_def)
  have s: "all_show (\<lambda>fs. fs) (sysfs (arm_start all_1500)) (arm_power_files Juno_r2) (replicate 4 1500)"
    by (simp add: all_show_def shows_number_def all_1500_def l)
  have c: "can_open (arm_node Juno_r2 True) (arm_power_files Juno_r2)" by (simp add: can_open_def arm_node_facts)
  have m: "map f (replicate 4 x) = replicate 4 (f x)" for f :: "nat \<Rightarrow> field" and x by simp
  show ?thesis
    using arm_power_report [OF arm_node_facts(1) example_sysfs_ok(1) c s, of list_jansson "(0, 0)" "''node1''"]
    unfolding arm_node_facts(2) m by auto
qed

theorem juno_frequency_cap_witness:
  "(\<exists>u. variorum_cap_socket_frequency_limit (example_arm_api Juno_r2 True) arm_build (pe_sys (arm_node Juno_r2 True)) 1 800
       (arm_start all_1500) = Some (0, u) \<and> open_files u = (\<lambda>_. None) \<and>
     (\<exists>buf. sysfs u = all_1500(cpufreq 1 ''scaling_setspeed'' \<mapsto> buf) \<and> scan_lu buf = Some (Some 800000))) \<and>
   (\<exists>u. variorum_cap_socket_frequency_limit (example_arm_api Juno_r2 False) arm_build (pe_sys (arm_node Juno_r2 False)) 2 800
       (arm_start all_1500) = Some (-1, u) \<and> sysfs u = all_1500)"
proof -
  have n: "uint (nsockets (machine_topo two_socket_machine)) = 2"
    by (simp add: machine_topo_def topo_of_def fill_platform_def two_socket_machine_def unsigned_of_int_def)
  have "\<forall>buf. length buf = 32 \<longrightarrow> 0 < fst (sy_write example_sysfs p buf fs)" for p fs by (simp add: example_sysfs_ok)
  moreover have "snd (sy_write example_sysfs p buf fs) = fs(p \<mapsto> buf)" for p buf fs by (simp add: example_sysfs_def)
  moreover note juno_frequency_cap [where cpu = 1 and mhz = 800 and L = list_jansson and now = "(0, 0)" and name = "''node1''",
      OF arm_node_facts(1) [of Juno_r2 True all_1500] example_sysfs_ok(2) _ _ refl refl refl]
  moreover note juno_frequency_cap [where cpu = 2 and mhz = 800 and L = list_jansson and now = "(0, 0)" and name = "''node1''",
      OF arm_node_facts(1) [of Juno_r2 False all_1500] example_sysfs_ok(2) _ _ refl refl refl]
  ultimately show ?thesis by (simp add: arm_node_facts n) blast
qed


theorem arm_missing_sensors_unnoticed_witness:
  "\<exists>u. variorum_print_power (example_arm_api Neoverse_n1 False) arm_build (pe_sys (arm_node Neoverse_n1 False)) (arm_start all_1500) =
       Some (0, u) \<and>
     printed u = [arm_power_header Neoverse_n1, [FS ''_ARM_POWER'', FS ''node1'', FF (milli 7), FF (milli 7)]] \<and> elog u = []"
proof -
  have u: "uninit example_sysfs 32 (arm_start all_1500) = dec 7 @ CHR 0x00 # replicate 30 (CHR 0x00)"
    by (rule nth_equalityI) (auto simp: uninit_def example_sysfs_def dec.simps char_of_def bit_0 nth_append nth_Cons split: nat.split)
  have s: "scan_lu (uninit example_sysfs 32 (arm_start all_1500)) = Some (Some 7)"
    unfolding u using scan_lu_dec [OF newline_no_digit(2), of 7] by simp
  have l: "length neoverse_power_files = 2" by (simp add: neoverse_power_files_def)
  show ?thesis
    using arm_missing_sensors_unnoticed [OF arm_node_facts(1) _ _ s, of Neoverse_n1 False list_jansson "(0, 0)" "''node1''"]
    unfolding arm_node_facts(2) arm_power_files.simps l by (auto simp: arm_node_facts(3) numeral_2_eq_2)
qed

theorem neoverse_json_without_power_witness:
  "\<exists>u. variorum_get_power_json (example_arm_api Neoverse_n1 True) arm_build (pe_sys (arm_node Neoverse_n1 True)) None (arm_start all_1500) =
     Some (0, dump_node (example_arm_api Neoverse_n1 True) (new_node (example_arm_api Neoverse_n1 True) @ neoverse_entries 2), u)"
proof -
  have l: "length neoverse_power_files = 2" by (simp add: neoverse_power_files_def)
  have s: "all_show (\<lambda>fs. fs) (sysfs (arm_start all_1500)) neoverse_power_files [1500, 1500]"
    by (auto simp: all_show_def shows_number_def all_1500_def l nth_Cons split: nat.split)
  have c: "can_open (arm_node Neoverse_n1 True) neoverse_power_files" by (simp add: can_open_def arm_node_facts)
  have n: "nat (sint (nsockets (machine_topo (pe_hw (arm_node Neoverse_n1 True))))) = 2"
    by (simp add: arm_node_facts(5) machine_topo_def topo_of_def fill_platform_def two_socket_machine_def unsigned_of_int_def)
  have z: "[''socket_0''] \<notin> fst ` set (new_node (example_arm_api Neoverse_n1 True))"
    by (simp add: new_node_def arm_api_def list_jansson_def Let_def)
  show ?thesis using neoverse_json_without_power [OF arm_node_facts(1) example_sysfs_ok(1) c s refl z, of None] unfolding n .
qed

end
