(* ===== verification/Epyc.thy ===== *)
theory Epyc imports C_Text begin

text \<open>
  epyc.c and amd_power_features.c: the functions installed for AMD EPYC. They call the E-SMI library, which is a
  parameter: \<open>esmi_env\<close> says what a query and a setting return in a state of the processor's management unit, which is
  a field of the program's state. The fallback for energy goes through the MSR batch interface.
\<close>

section \<open>E-SMI\<close>

text \<open>
  The functions that ask for one number of a socket or a core, and those that set one. A query that fails may leave
  the variable alone (None). ESMI\_PERMISSION is a constant of the library's header.
\<close>

datatype esmi_query = Socket_power | Socket_power_cap | Socket_power_cap_max | Socket_energy | Core_energy | Core_boostlimit
datatype esmi_setting = Set_socket_power_cap | Set_core_boostlimit | Set_socket_boostlimit

record 'o esmi_env =
  es_amd_idx :: nat \<comment> \<open>P_AMD_CPU_IDX\<close>
  ESMI_PERMISSION :: int
  es_err_msg :: "int \<Rightarrow> string"
  es_get :: "esmi_query \<Rightarrow> int \<Rightarrow> 'o \<Rightarrow> int \<times> u64 option \<times> 'o"
  es_set :: "esmi_setting \<Rightarrow> int \<Rightarrow> u32 \<Rightarrow> 'o \<Rightarrow> int \<times> 'o"
  es_sleep :: "nat \<Rightarrow> 'o \<Rightarrow> 'o"

datatype epyc_fn = Epyc_power | Epyc_power_limits

text \<open>
  \<open>epyc_inited\<close> and \<open>epyc_start\<close>: initial and start of the two printing functions; \<open>amd_storage_init\<close>: init of
  rapl\_storage; \<open>amd_rapl\<close>: the arrays of rapl[0], once they are set up; \<open>amd_read_init\<close>, \<open>amd_print_init\<close>: init of
  read\_rapl\_data and of print\_energy\_data.
\<close>

record 'o epyc_state = feat_state +
  esmi :: 'o
  epyc_inited :: "epyc_fn set"
  epyc_start :: "epyc_fn \<Rightarrow> int \<times> int"
  amd_storage_init :: bool
  amd_rapl :: "(dests \<times> double list) option"
  amd_read_init :: bool
  amd_print_init :: bool

text \<open>A query into a variable that holds \<open>v\<close>.\<close>

definition esmi_get :: "'o esmi_env \<Rightarrow> esmi_query \<Rightarrow> nat \<Rightarrow> u64 \<Rightarrow> ('o, 'a) epyc_state_scheme \<Rightarrow> int \<times> u64 \<times> ('o, 'a) epyc_state_scheme" where
  "esmi_get E q i v s = (case es_get E q (int i) (esmi s) of (ret, w, o') \<Rightarrow> (ret, case w of None \<Rightarrow> v | Some w \<Rightarrow> w, s\<lparr>esmi := o'\<rparr>))"

definition esmi_set :: "'o esmi_env \<Rightarrow> esmi_setting \<Rightarrow> int \<Rightarrow> int \<Rightarrow> ('o, 'a) epyc_state_scheme \<Rightarrow> int \<times> ('o, 'a) epyc_state_scheme" where
  "esmi_set E q i v s = (case es_set E q i (word_of_int v) (esmi s) of (ret, o') \<Rightarrow> (ret, s\<lparr>esmi := o'\<rparr>))"

text \<open>A message about a call that failed.\<close>

definition say_failed :: "'o esmi_env \<Rightarrow> string \<Rightarrow> int \<Rightarrow> int \<Rightarrow> 'a rapl_state_scheme \<Rightarrow> 'a rapl_state_scheme" where
  "say_failed E what i ret s = say [FS what, FI i, FI ret, FS (es_err_msg E ret)] s"

text \<open>The bounds of the loops over the sockets and the cores.\<close>

definition amd_platform :: "'o esmi_env \<Rightarrow> 'a tbase_scheme \<Rightarrow> platform option" where
  "amd_platform E s = (if es_amd_idx E < length (g_platform s) then Some (g_platform s ! es_amd_idx E) else None)"

text \<open>uint32\_t to int, and \<open>(double)x / 1000\<close>\<close>

definition int_of_u32 :: "u64 \<Rightarrow> int" where "int_of_u32 w = sint (ucast w :: u32)"
definition kilo :: "int \<Rightarrow> double" where "kilo n = d_div (d_of_int n) (Fin 1000)"
definition u32_value :: "u64 \<Rightarrow> int" where "u32_value w = uint (ucast w :: u32)"

section \<open>Power\<close>

text \<open>The start time and the header, in the first call.\<close>

definition epyc_first ::
  "power_env \<Rightarrow> epyc_fn \<Rightarrow> line \<Rightarrow> int \<Rightarrow> ('o, 'a) epyc_state_scheme \<Rightarrow> ('o, 'a) epyc_state_scheme" where
  "epyc_first P f header long_ver s =
    (if f \<in> epyc_inited s then s
     else
       let (now, s) = gettimeofday P s;
           s = s\<lparr>epyc_inited := insert f (epyc_inited s), epyc_start := (epyc_start s)(f := now)\<rparr>
       in if long_ver = 0 then say header s else s)"

fun epyc_power_loop ::
  "power_env \<Rightarrow> 'o esmi_env \<Rightarrow> int \<Rightarrow> nat list \<Rightarrow> ('o, 'a) epyc_state_scheme \<Rightarrow> int \<times> ('o, 'a) epyc_state_scheme" where
  "epyc_power_loop P E long_ver [] s = (0, s)"
| "epyc_power_loop P E long_ver (i # is) s =
    (let (now, s) = gettimeofday P s;
         (ret, current_power, s) = esmi_get E Socket_power i 0 s
     in if ret \<noteq> 0 then (ret, say_failed E ''Failed to get socket _POWER, Err'' (int i) ret s)
        else epyc_power_loop P E long_ver is (say
          [FS (if long_ver = 0 then ''_AMDPOWER'' else ''_AMDPOWER Host:, Socket:, Power: W, Timestamp: sec''), FS (pe_host P), FI (int i),
           FF (kilo (u32_value current_power)), FF (tv_diff now (epyc_start s Epyc_power))] s))"

definition amd_cpu_epyc_get_power ::
  "power_env \<Rightarrow> 'o esmi_env \<Rightarrow> int \<Rightarrow> ('o, 'a) epyc_state_scheme \<Rightarrow> (int \<times> ('o, 'a) epyc_state_scheme) option" where
  "amd_cpu_epyc_get_power P E long_ver s = do {
     let s = epyc_first P Epyc_power (map FS [''_AMDPOWER'', ''Host'', ''Socket'', ''Power_W'', ''Timestamp_sec'']) long_ver s;
     p \<leftarrow> amd_platform E s;
     Some (epyc_power_loop P E long_ver [0..<nat (num_sockets p)] s)
   }"

fun epyc_limits_loop ::
  "power_env \<Rightarrow> 'o esmi_env \<Rightarrow> int \<Rightarrow> nat list \<Rightarrow> ('o, 'a) epyc_state_scheme \<Rightarrow> int \<times> ('o, 'a) epyc_state_scheme" where
  "epyc_limits_loop P E long_ver [] s = (0, s)"
| "epyc_limits_loop P E long_ver (i # is) s =
    (let (now, s) = gettimeofday P s;
         (ret, power, s) = esmi_get E Socket_power i 0 s
     in if ret \<noteq> 0 then (ret, say_failed E ''Failed to get socket _POWER, Err'' (int i) ret s)
        else
          let (ret, pcap_current, s) = esmi_get E Socket_power_cap i 0 s
          in if ret \<noteq> 0 then (ret, say_failed E ''Failed to get socket _POWERCAP, Err'' (int i) ret s)
             else
               let (ret, pcap_max, s) = esmi_get E Socket_power_cap_max i 0 s
               in if ret \<noteq> 0 then (ret, say_failed E ''Failed to get socket _POWERCAPMAX, Err'' (int i) ret s)
                  else epyc_limits_loop P E long_ver is (say
                    [FS (if long_ver = 0 then ''_AMDPOWER''
                         else ''_AMDPOWER Host:, Socket:, Power: W, PowerCap: W, MaxPowerCap: W, Timestamp: sec''),
                     FS (pe_host P), FI (int i), FF (kilo (u32_value power)), FF (kilo (u32_value pcap_current)),
                     FF (kilo (u32_value pcap_max)), FF (tv_diff now (epyc_start s Epyc_power_limits))] s))"

definition amd_cpu_epyc_get_power_limits ::
  "power_env \<Rightarrow> 'o esmi_env \<Rightarrow> int \<Rightarrow> ('o, 'a) epyc_state_scheme \<Rightarrow> (int \<times> ('o, 'a) epyc_state_scheme) option" where
  "amd_cpu_epyc_get_power_limits P E long_ver s = do {
     let s = epyc_first P Epyc_power_limits
       (map FS [''_AMDPOWER'', ''Host'', ''Socket'', ''Power_W'', ''PowerCap_W'', ''MaxPowerCap_W'', ''Timestamp_sec'']) long_ver s;
     p \<leftarrow> amd_platform E s;
     Some (epyc_limits_loop P E long_ver [0..<nat (num_sockets p)] s)
   }"

section \<open>Power limits\<close>

text \<open>What a failed setting returns: -1 for a lack of permission, otherwise the library's code.\<close>

definition set_failed :: "'o esmi_env \<Rightarrow> string \<Rightarrow> int \<Rightarrow> int \<Rightarrow> 'a rapl_state_scheme \<Rightarrow> int \<times> 'a rapl_state_scheme" where
  "set_failed E what i ret s =
    (let s = say_failed E what i ret s
     in if ret = ESMI_PERMISSION E then (-1, variorum_error_handler VARIORUM_ERROR_INVAL s) else (ret, s))"

text \<open>
  The limit of a socket, cut to the maximum when that is known; max\_power keeps the value of the socket before when
  the query does not deliver one, and pcap\_new stays cut for the sockets that follow.
\<close>

definition cut_to_max ::
  "'o esmi_env \<Rightarrow> nat \<Rightarrow> int \<Rightarrow> u64 \<Rightarrow> ('o, 'a) epyc_state_scheme \<Rightarrow> int \<times> u64 \<times> ('o, 'a) epyc_state_scheme" where
  "cut_to_max E i pcap_new max_power s =
    (let (ret, max_power, s) = esmi_get E Socket_power_cap_max i max_power s
     in if ret = 0 \<and> int_of_u32 max_power < pcap_new
        then (int_of_u32 max_power, max_power,
          say [FS ''Input power is more than max limit, So sets to default max Watts'', FF (kilo (u32_value max_power))] s)
        else (pcap_new, max_power, s))"

fun node_cap_loop ::
  "'o esmi_env \<Rightarrow> nat list \<Rightarrow> int \<Rightarrow> u64 \<Rightarrow> ('o, 'a) epyc_state_scheme \<Rightarrow> int \<times> ('o, 'a) epyc_state_scheme" where
  "node_cap_loop E [] pcap_new max_power s = (0, say [FS ''Changed node power cap to W.'', FF (kilo pcap_new)] s)"
| "node_cap_loop E (i # is) pcap_new max_power s =
    (let (pcap_new, max_power, s) = cut_to_max E i pcap_new max_power s;
         (ret, s) = esmi_set E Set_socket_power_cap (int i) pcap_new s
     in if ret \<noteq> 0 then set_failed E ''Failed to set socket _POWERCAP, Err'' (int i) ret s
        else
          let s = s\<lparr>esmi := es_sleep E 100000 (esmi s)\<rparr>;
              (ret, pcap_test, s) = esmi_get E Socket_power_cap i 0 s
          in if ret \<noteq> 0 then (ret, say_failed E ''Failed to get socket _POWERCAP, Err'' (int i) ret s)
             else if pcap_new \<noteq> int_of_u32 pcap_test then
               (-1, fold (\<lambda>l. say [FS l])
                 [''Could not verify if the power cap was set correctly.'', ''Verification check after 100ms failed.'',
                  ''Please verify again with dump_power_limits.''] s)
             else node_cap_loop E is pcap_new max_power s)"

text \<open>Watts to milliwatts in int: an overflow is undefined.\<close>

definition milliwatts :: "int \<Rightarrow> int option" where
  "milliwatts w = (let m = w * 1000 in if - (2 ^ 31) \<le> m \<and> m < 2 ^ 31 then Some m else None)"

definition amd_cpu_epyc_set_and_verify_best_effort_node_power_limit ::
  "'o esmi_env \<Rightarrow> int \<Rightarrow> ('o, 'a) epyc_state_scheme \<Rightarrow> (int \<times> ('o, 'a) epyc_state_scheme) option" where
  "amd_cpu_epyc_set_and_verify_best_effort_node_power_limit E pcap_new s = do {
     pcap_new \<leftarrow> milliwatts (pcap_new sdiv 2);
     p \<leftarrow> amd_platform E s;
     Some (node_cap_loop E [0..<nat (num_sockets p)] pcap_new 0 s)
   }"

fun socket_cap_loop ::
  "'o esmi_env \<Rightarrow> nat list \<Rightarrow> int \<Rightarrow> u64 \<Rightarrow> ('o, 'a) epyc_state_scheme \<Rightarrow> int \<times> ('o, 'a) epyc_state_scheme" where
  "socket_cap_loop E [] pcap_new max_power s = (0, s)"
| "socket_cap_loop E (i # is) pcap_new max_power s =
    (let (pcap_new, max_power, s) = cut_to_max E i pcap_new max_power s;
         (ret, s) = esmi_set E Set_socket_power_cap (int i) pcap_new s
     in if ret \<noteq> 0 then set_failed E ''Failed to set socket _POWERCAP, Err'' (int i) ret s
        else socket_cap_loop E is pcap_new max_power (say [FI (int i), FF (kilo pcap_new), FS ''successfully set''] s))"

definition amd_cpu_epyc_set_socket_power_limit ::
  "'o esmi_env \<Rightarrow> int \<Rightarrow> ('o, 'a) epyc_state_scheme \<Rightarrow> (int \<times> ('o, 'a) epyc_state_scheme) option" where
  "amd_cpu_epyc_set_socket_power_limit E pcap_new s = do {
     pcap_new \<leftarrow> milliwatts pcap_new;
     let s = say (map FS [''Socket'', ''Powercap(Watts)'']) s;
     p \<leftarrow> amd_platform E s;
     Some (socket_cap_loop E [0..<nat (num_sockets p)] pcap_new 0 s)
   }"


section \<open>Energy\<close>

text \<open>amd\_power\_features.c: rapl\_storage, which only asks for the topology and allocates.\<close>

definition amd_rapl_storage :: "power_env \<Rightarrow> 'o esmi_env \<Rightarrow> ('o, 'a) epyc_state_scheme \<Rightarrow> ('o, 'a) epyc_state_scheme option" where
  "amd_rapl_storage P E s =
    (if amd_storage_init s then Some s
     else do {
       (T, s) \<leftarrow> get_topo (pe_hw P) (es_amd_idx E) s;
       Some (s\<lparr>amd_storage_init := True\<rparr>)
     })"

definition amd_create_rapl_data_batch ::
  "power_env \<Rightarrow> 'o esmi_env \<Rightarrow> u64 \<Rightarrow> ('o, 'a) epyc_state_scheme \<Rightarrow> ('o, 'a) epyc_state_scheme option" where
  "amd_create_rapl_data_batch P E msr_core_energy_status s = do {
     (T, s) \<leftarrow> get_topo (pe_hw P) (es_amd_idx E) s;
     let n = unat (ncores T);
     (_, s) \<leftarrow> allocate_batch RAPL_DATA (2 * ucast (ncores T)) s;
     (core_bits, s) \<leftarrow> call_load_thread_batch P msr_core_energy_status (replicate n None) RAPL_DATA s;
     Some (s\<lparr>amd_rapl := Some (core_bits, replicate n (Fin 0))\<rparr>)
   }"

definition amd_read_rapl_data ::
  "power_env \<Rightarrow> 'o esmi_env \<Rightarrow> u64 \<Rightarrow> ('o, 'a) epyc_state_scheme \<Rightarrow> (int \<times> ('o, 'a) epyc_state_scheme) option" where
  "amd_read_rapl_data P E msr_core_energy_status s = do {
     s \<leftarrow> (if amd_read_init s then Some s
       else do {
         (T, s) \<leftarrow> get_topo (pe_hw P) (es_amd_idx E) s;
         s \<leftarrow> amd_rapl_storage P E s;
         amd_create_rapl_data_batch P E msr_core_energy_status s
       });
     (_, s) \<leftarrow> call_read_batch P RAPL_DATA s;
     Some (0, s\<lparr>amd_read_init := True\<rparr>)
   }"

text \<open>Both arrays are allocated with one element; element 1 is the one that is used.\<close>

definition get_rapl_unit ::
  "power_env \<Rightarrow> u64 \<Rightarrow> ('o, 'a) epyc_state_scheme \<Rightarrow> (double \<times> ('o, 'a) epyc_state_scheme) option" where
  "get_rapl_unit P msr_rapl_unit s = do {
     let ru = replicate 1 None;
     (_, s) \<leftarrow> allocate_batch RAPL_UNIT 1 s;
     (val, s) \<leftarrow> call_load_socket_batch P msr_rapl_unit (replicate 1 None) RAPL_UNIT s;
     (_, s) \<leftarrow> call_read_batch P RAPL_UNIT s;
     w \<leftarrow> deref_at val 1 s;
     ru \<leftarrow> (if 1 < length ru then Some (ru[1 := Some w]) else None);
     w \<leftarrow> ru ! 1;
     joules \<leftarrow> shift_one (MASK_VAL w 12 8);
     Some (d_div (Fin 1) joules, s)
   }"

fun core_energy_lines :: "dests \<Rightarrow> double \<Rightarrow> nat list \<Rightarrow> 'a rapl_state_scheme \<Rightarrow> 'a rapl_state_scheme option" where
  "core_energy_lines core_bits val [] s = Some s"
| "core_energy_lines core_bits val (i # is) s = do {
     w \<leftarrow> deref_at core_bits i s;
     core_energy_lines core_bits val is (say [FI (int i), FF (d_mul (d_of_u64 w) val)] s)
   }"

text \<open>The descriptor of the batch device is only opened to see that it can be.\<close>

definition amd_print_energy_data ::
  "power_env \<Rightarrow> 'o esmi_env \<Rightarrow> u64 \<Rightarrow> u64 \<Rightarrow> ('o, 'a) epyc_state_scheme \<Rightarrow> (int \<times> ('o, 'a) epyc_state_scheme) option" where
  "amd_print_energy_data P E msr_rapl_unit msr_core_energy_status s =
    (let (batchfd, s) = os_open (pe_os P) Batch_path s
     in if batchfd < 0 then Some (batchfd, s)
        else do {
          (T, s) \<leftarrow> get_topo (pe_hw P) (es_amd_idx E) s;
          (_, s) \<leftarrow> amd_read_rapl_data P E msr_core_energy_status s;
          s \<leftarrow> (if amd_print_init s then Some s
               else map_option (amd_print_init_update (\<lambda>_. True)) (amd_rapl_storage P E s));
          (val, s) \<leftarrow> get_rapl_unit P msr_rapl_unit s;
          (core_bits, _) \<leftarrow> amd_rapl s;
          s \<leftarrow> core_energy_lines core_bits val [0..<nat (sint (ncores T))] (say (map FS [''Core'', ''Energy (J)'']) s);
          Some (0, s)
        })"

definition msr_rapl_power_unit_19h :: u64 where "msr_rapl_power_unit_19h = 0xC0010299"
definition msr_core_energy_stat_19h :: u64 where "msr_core_energy_stat_19h = 0xC001029A"

text \<open>The loop over the sockets; False when a query failed, which leads to the batch.\<close>

fun socket_energy_loop :: "'o esmi_env \<Rightarrow> nat list \<Rightarrow> ('o, 'a) epyc_state_scheme \<Rightarrow> bool \<times> ('o, 'a) epyc_state_scheme" where
  "socket_energy_loop E [] s = (True, s)"
| "socket_energy_loop E (i # is) s =
    (let (ret, energy, s) = esmi_get E Socket_energy i 0 s
     in if ret \<noteq> 0 then (False, say_failed E ''Failed to get socket _SOCKENERGY, Err'' (int i) ret s)
        else socket_energy_loop E is (say [FI (int i), FF (d_div (d_of_u64 energy) (Fin 1000000))] s))"

text \<open>A core whose energy cannot be read is left out.\<close>

fun core_energy_loop :: "'o esmi_env \<Rightarrow> nat list \<Rightarrow> ('o, 'a) epyc_state_scheme \<Rightarrow> ('o, 'a) epyc_state_scheme" where
  "core_energy_loop E [] s = s"
| "core_energy_loop E (i # is) s =
    (let (ret, energy, s) = esmi_get E Core_energy i 0 s
     in core_energy_loop E is
       (if ret \<noteq> 0 then say_failed E ''Failed to get core _COREENERGY, Err'' (int i) ret s
        else say [FI (int i), FF (d_div (d_of_u64 energy) (Fin 1000000))] s))"

definition amd_cpu_epyc_print_energy ::
  "power_env \<Rightarrow> 'o esmi_env \<Rightarrow> int \<Rightarrow> ('o, 'a) epyc_state_scheme \<Rightarrow> (int \<times> ('o, 'a) epyc_state_scheme) option" where
  "amd_cpu_epyc_print_energy P E long_ver s = do {
     let s = ext Esmi_init s;
     p \<leftarrow> amd_platform E s;
     let (done, s) =
       (if sys_esmi_init (pe_sys P) = 0 \<and> long_ver = 0 then
          let s = say (map FS [''Socket'', ''Energy (uJoules)'']) (say [FS ''_SOCKET_ENERGY :''] s);
              (ok, s) = socket_energy_loop E [0..<nat (num_sockets p)] s
          in if ok then
               (True, core_energy_loop E [0..<nat (total_cores p)]
                 (say (map FS [''Core'', ''Energy (uJoules)'']) (say [FS ''_CORE_ENERGY :''] s)))
             else (False, s)
        else (False, s));
     if done then Some (0, s)
     else amd_print_energy_data P E msr_rapl_power_unit_19h msr_core_energy_stat_19h
       (say [FS ''Msg: Checking msr-safe module...''] s)
   }"

section \<open>Boost limits\<close>

fun boostlimit_loop :: "'o esmi_env \<Rightarrow> nat list \<Rightarrow> ('o, 'a) epyc_state_scheme \<Rightarrow> int \<times> ('o, 'a) epyc_state_scheme" where
  "boostlimit_loop E [] s = (0, s)"
| "boostlimit_loop E (i # is) s =
    (let (ret, boostlimit, s) = esmi_get E Core_boostlimit i 0 s
     in if ret \<noteq> 0 then (ret, say_failed E ''Failed to get core _BOOSTLIMIT, Err'' (int i) ret s)
        else boostlimit_loop E is (say [FI (int i), FI (u32_value boostlimit)] s))"

definition amd_cpu_epyc_print_boostlimit ::
  "'o esmi_env \<Rightarrow> ('o, 'a) epyc_state_scheme \<Rightarrow> (int \<times> ('o, 'a) epyc_state_scheme) option" where
  "amd_cpu_epyc_print_boostlimit E s = do {
     let s = say (map FS [''Core'', ''Freq (MHz)'']) s;
     p \<leftarrow> amd_platform E s;
     Some (boostlimit_loop E [0..<nat (total_cores p)] s)
   }"

text \<open>The cores are counted through over all sockets; boostlimit is one variable, never initialised, and ret is not looked at.\<close>

fun json_boost_cores ::
  "'o esmi_env \<Rightarrow> string \<Rightarrow> nat list \<Rightarrow> u64 \<Rightarrow> ('o, 'a) epyc_state_scheme \<Rightarrow> u64 \<times> ('o, 'a) epyc_state_scheme" where
  "json_boost_cores E sock [] boostlimit s = (boostlimit, s)"
| "json_boost_cores E sock (i # is) boostlimit s =
    (let (_, boostlimit, s) = esmi_get E Core_boostlimit i boostlimit s
     in json_boost_cores E sock is boostlimit
       (json_set [sock, ''CPU'', ''core'', snprintf 24 (''core_'' @ dec i @ ''_avg_freq_mhz'')]
         (J_real (d_of_int (u32_value boostlimit))) s))"

fun json_boost_sockets ::
  "'o esmi_env \<Rightarrow> nat \<Rightarrow> nat list \<Rightarrow> u64 \<Rightarrow> ('o, 'a) epyc_state_scheme \<Rightarrow> ('o, 'a) epyc_state_scheme" where
  "json_boost_sockets E cores [] boostlimit s = s"
| "json_boost_sockets E cores (i # is) boostlimit s =
    (let sock = snprintf 16 (''socket_'' @ dec i);
         s = json_set [sock, ''CPU'', ''core''] J_object (json_set [sock, ''CPU''] J_object (get_or_make [sock] s));
         (boostlimit, s) = json_boost_cores E sock [i * cores..<Suc i * cores] boostlimit s
     in json_boost_sockets E cores is boostlimit s)"

definition amd_cpu_epyc_get_json_boostlimit ::
  "power_env \<Rightarrow> 'o esmi_env \<Rightarrow> ('o, 'a) epyc_state_scheme \<Rightarrow> (int \<times> ('o, 'a) epyc_state_scheme) option" where
  "amd_cpu_epyc_get_json_boostlimit P E s = do {
     p \<leftarrow> amd_platform E s;
     if num_sockets p = 0 then None
     else Some (0, json_boost_sockets E (nat (total_cores p sdiv num_sockets p)) [0..<nat (num_sockets p)] (pe_junk P) s)
   }"

text \<open>Only a lack of permission ends the loop; any other error is printed, and 0 returned in the end.\<close>

fun set_boost_loop :: "'o esmi_env \<Rightarrow> nat list \<Rightarrow> int \<Rightarrow> ('o, 'a) epyc_state_scheme \<Rightarrow> int \<times> ('o, 'a) epyc_state_scheme" where
  "set_boost_loop E [] boostlimit s = (0, s)"
| "set_boost_loop E (i # is) boostlimit s =
    (let (ret, s) = esmi_set E Set_core_boostlimit (int i) boostlimit s
     in if ret \<noteq> 0 then
          let (rc, s) = set_failed E ''Failed to set core _BOOSTLIMIT, Err'' (int i) ret s
          in if ret = ESMI_PERMISSION E then (rc, s) else set_boost_loop E is boostlimit s
        else set_boost_loop E is boostlimit s)"

definition amd_cpu_epyc_set_each_core_boostlimit ::
  "'o esmi_env \<Rightarrow> int \<Rightarrow> ('o, 'a) epyc_state_scheme \<Rightarrow> (int \<times> ('o, 'a) epyc_state_scheme) option" where
  "amd_cpu_epyc_set_each_core_boostlimit E boostlimit s = do {
     p \<leftarrow> amd_platform E s;
     Some (set_boost_loop E [0..<nat (total_cores p)] boostlimit s)
   }"

definition amd_cpu_epyc_set_socket_boostlimit ::
  "'o esmi_env \<Rightarrow> int \<Rightarrow> int \<Rightarrow> ('o, 'a) epyc_state_scheme \<Rightarrow> (int \<times> ('o, 'a) epyc_state_scheme) option" where
  "amd_cpu_epyc_set_socket_boostlimit E sock boostlimit s =
    (let (ret, s) = esmi_set E Set_socket_boostlimit sock boostlimit s
     in Some (if ret \<noteq> 0 then set_failed E ''Failed to set socket _BOOSTLIMIT, Err'' sock ret s else (ret, s)))"

section \<open>JSON\<close>

fun epyc_json_power_loop ::
  "'o esmi_env \<Rightarrow> nat list \<Rightarrow> double \<Rightarrow> ('o, 'a) epyc_state_scheme \<Rightarrow> int \<times> ('o, 'a) epyc_state_scheme" where
  "epyc_json_power_loop E [] node_power s = (0, json_set [''power_node_watts''] (J_real node_power) s)"
| "epyc_json_power_loop E (i # is) node_power s =
    (let s = json_set [socketid i] J_object s;
         (ret, current_power, s) = esmi_get E Socket_power i 0 s
     in if ret \<noteq> 0 then (ret, say_failed E ''Failed to get socket _POWER, Err'' (int i) ret s)
        else
          let watts = kilo (u32_value current_power);
              s = json_set [socketid i, ''power_mem_watts''] (J_real (Fin (-1)))
                (json_set [socketid i, ''power_cpu_watts''] (J_real watts) s)
          in epyc_json_power_loop E is (d_add node_power watts) s)"

definition amd_cpu_epyc_get_power_json ::
  "'o esmi_env \<Rightarrow> ('o, 'a) epyc_state_scheme \<Rightarrow> (int \<times> ('o, 'a) epyc_state_scheme) option" where
  "amd_cpu_epyc_get_power_json E s = do {
     p \<leftarrow> amd_platform E s;
     Some (epyc_json_power_loop E [0..<nat (num_sockets p)] (Fin 0) s)
   }"

text \<open>The object that is dumped into the string; None when the function returns before that.\<close>

definition amd_cpu_epyc_get_node_power_domain_info_json ::
  "power_env \<Rightarrow> 'o esmi_env \<Rightarrow> ('o, 'a) epyc_state_scheme \<Rightarrow>
    int \<times> (string list \<times> json_value) list option \<times> ('o, 'a) epyc_state_scheme" where
  "amd_cpu_epyc_get_node_power_domain_info_json P E s =
    (let (ret, max_power, s) = esmi_get E Socket_power_cap_max 0 0 s
     in if ret \<noteq> 0 then (ret, None, say [FS ''Failed to get maximum socket power, Err'', FI ret, FS (es_err_msg E ret)] s)
        else
          let host = pe_host P;
              (tv, s) = gettimeofday P s;
              ts = word_of_int (fst tv) * 1000000 + word_of_int (snd tv)
          in (0, Some
            [([host], J_object),
             ([host, ''timestamp''], J_int ts),
             ([host, ''control''], J_object),
             ([host, ''control'', ''power_cpu''], J_object),
             ([host, ''control'', ''power_cpu'', ''min''], J_int 50),
             ([host, ''control'', ''power_cpu'', ''max''], J_int (word_of_int (u32_value max_power div 1000))),
             ([host, ''control'', ''power_cpu'', ''units''], J_string ''Watts''),
             ([host, ''unsupported''], J_array [''power_node'', ''power_mem'']),
             ([host, ''measurement''], J_object),
             ([host, ''measurement'', ''power_cpu''], J_object),
             ([host, ''measurement'', ''power_cpu'', ''units''], J_string ''Watts'')], s))"

end
