(* ===== verification/Epyc_Session.thy ===== *)
theory Epyc_Session imports Epyc Vendor_Session begin

text \<open>
  The functions of variorum.c on a build for AMD processors with a working E-SMI library: the functions of epyc.c behind the
  pointers of the platform table (\<open>epyc_api\<close>), and variorum_enter and variorum_exit as a provider of the \<open>vendor\<close>
  contract. Each call opens the library once and closes it once.
\<close>

section \<open>The function pointers\<close>

definition epyc_int_call ::
  "power_env \<Rightarrow> 'o esmi_env \<Rightarrow> op \<Rightarrow> int list \<Rightarrow> ('o, 'a) epyc_state_scheme \<Rightarrow> (int \<times> ('o, 'a) epyc_state_scheme) option" where
  "epyc_int_call P E f args s =
    (case (f, args) of
       (get_power, [x]) \<Rightarrow> amd_cpu_epyc_get_power P E x s
     | (get_power_limits, [x]) \<Rightarrow> amd_cpu_epyc_get_power_limits P E x s
     | (set_socket_power_limit, [x]) \<Rightarrow> amd_cpu_epyc_set_socket_power_limit E x s
     | (set_and_verify_best_effort_node_power_limit, [x]) \<Rightarrow> amd_cpu_epyc_set_and_verify_best_effort_node_power_limit E x s
     | (print_energy, [x]) \<Rightarrow> amd_cpu_epyc_print_energy P E x s
     | (print_boostlimit, [x]) \<Rightarrow> amd_cpu_epyc_print_boostlimit E s
     | (set_each_core_boostlimit, [x]) \<Rightarrow> amd_cpu_epyc_set_each_core_boostlimit E x s
     | (set_socket_boostlimit, [x, y]) \<Rightarrow> amd_cpu_epyc_set_socket_boostlimit E x y s
     | _ \<Rightarrow> None)"

text \<open>
  When the function for the power domains fails, the caller's string stays as it was; the record has no place for that string,
  and gives None.
\<close>

definition epyc_api ::
  "power_env \<Rightarrow> 'o esmi_env \<Rightarrow> (string list \<times> json_value) list json_lib \<Rightarrow> int \<times> int \<Rightarrow> string \<Rightarrow>
    (('o, 'a) epyc_state_scheme, (string list \<times> json_value) list) api_env" where
  "epyc_api P E L now name = \<lparr>
     api_call = (\<lambda>h args s. case h of amd_cpu_epyc f \<Rightarrow> epyc_int_call P E f args s | _ \<Rightarrow> None),
     api_json_call = (\<lambda>h node s. case h of
         amd_cpu_epyc f \<Rightarrow>
           if f = get_power_json then on_node (amd_cpu_epyc_get_power_json E) node s
           else if f = get_json_boostlimit then on_node (amd_cpu_epyc_get_json_boostlimit P E) node s
           else None
       | _ \<Rightarrow> None),
     api_str_call = (\<lambda>h s. case h of
         amd_cpu_epyc f \<Rightarrow>
           if f = get_node_power_domain_info_json then
             (case amd_cpu_epyc_get_node_power_domain_info_json P E s of
                (rc, obj, s) \<Rightarrow> Some (rc, Option.bind obj (json_dumps L), s))
           else None
       | _ \<Rightarrow> None),
     api_json = L, api_timeofday = now, api_hostname = name\<rparr>"

section \<open>Enter and exit\<close>

definition amd_build :: build where
  "amd_build = (\<lambda>k. k = AMD_CPU)"

lemma amd_build_simps [simp]:
  "amd_build AMD_CPU" "\<not> amd_build INTEL_GPU" "\<not> amd_build INTEL_CPU" "\<not> amd_build NVIDIA_GPU"
  "\<not> amd_build IBM_CPU" "\<not> amd_build ARM_CPU" "\<not> amd_build AMD_GPU"
  "P_NUM_PLATFORMS amd_build = 1" "P_IDX amd_build AMD_CPU = 0"
  by (simp_all add: amd_build_def P_NUM_PLATFORMS_def platforms_def platform_enum_def P_IDX_def)

definition epyc_ptrs :: "(slot \<times> handler) list" where
  "epyc_ptrs =
    [(Print_power, amd_cpu_epyc get_power), (Print_power_limit, amd_cpu_epyc get_power_limits),
     (Cap_each_socket_power_limit, amd_cpu_epyc set_socket_power_limit),
     (Cap_best_effort_node_power_limit, amd_cpu_epyc set_and_verify_best_effort_node_power_limit),
     (Print_energy, amd_cpu_epyc print_energy), (Print_frequency, amd_cpu_epyc print_boostlimit),
     (Cap_each_core_frequency_limit, amd_cpu_epyc set_each_core_boostlimit),
     (Cap_socket_frequency_limit, amd_cpu_epyc set_socket_boostlimit), (Get_power_json, amd_cpu_epyc get_power_json),
     (Get_node_power_domain_info_json, amd_cpu_epyc get_node_power_domain_info_json),
     (Get_frequency_json, amd_cpu_epyc get_json_boostlimit)]"

definition epyc_table :: "slot \<Rightarrow> handler option" where
  "epyc_table = fptr (install epyc_ptrs zero_platform)"

text \<open>A supported processor (\<open>amd_support\<close> says which these are) whose E-SMI library can be initialised.\<close>

definition amd_machine :: "sys_env \<Rightarrow> bool" where
  "amd_machine V \<longleftrightarrow> hwloc_good (sys_hw V) \<and> sys_esmi_init V = 0 \<and> (\<exists>m. detect_amd_arch V = Live m \<and>
     (ucast (drop_bit 8 m AND 0xFF) :: u8) = 0x19 \<and>
     ((ucast (m AND 0xFF) :: u8) \<le> 0xF \<or> 0x30 \<le> (ucast (m AND 0xFF) :: u8) \<and> (ucast (m AND 0xFF) :: u8) \<le> 0x3F))"

definition amd_pre :: "sys_env \<Rightarrow> 'a arch_state_scheme \<Rightarrow> bool" where
  "amd_pre V s \<longleftrightarrow> amd_machine V \<and> length (g_platform s) = 2"

definition amd_usable :: "sys_env \<Rightarrow> 'a arch_state_scheme \<Rightarrow> 'a arch_state_scheme \<Rightarrow> bool" where
  "amd_usable V s t \<longleftrightarrow> amd_pre V s \<and> length (g_platform t) = 2 \<and> (\<exists>m. arch_id (g_platform t ! 0) = Live m) \<and>
     fptr (g_platform t ! 0) = epyc_table"

text \<open>The entry of the table has the counts of hwloc.\<close>

definition amd_opened :: "sys_env \<Rightarrow> 'a arch_state_scheme \<Rightarrow> 'a arch_state_scheme \<Rightarrow> bool" where
  "amd_opened V s t \<longleftrightarrow> amd_usable V s t \<and>
     num_sockets (g_platform t ! 0) = hwloc_get_nbobjs_by_type (sys_hw V) HWLOC_OBJ_SOCKET \<and>
     total_cores (g_platform t ! 0) = hwloc_get_nbobjs_by_type (sys_hw V) HWLOC_OBJ_CORE \<and>
     (\<exists>g. t = s\<lparr>g_platform := g, init_variorum_init_topology := True, p_msr_core_idx := 0, ext_calls := ext_calls s @ [Esmi_init]\<rparr>)"

definition amd_keeps :: "'a arch_state_scheme \<Rightarrow> 'a arch_state_scheme \<Rightarrow> bool" where
  "amd_keeps t t' \<longleftrightarrow> length (g_platform t') = length (g_platform t) \<and>
     arch_id (g_platform t' ! 0) = arch_id (g_platform t ! 0) \<and> fptr (g_platform t' ! 0) = fptr (g_platform t ! 0)"

definition amd_closed :: "'a arch_state_scheme \<Rightarrow> 'a arch_state_scheme \<Rightarrow> bool" where
  "amd_closed t u \<longleftrightarrow> (\<exists>g. u = t\<lparr>g_platform := g, ext_calls := ext_calls t @ [Esmi_exit]\<rparr> \<and> length g = length (g_platform t))"

lemma amd_enter_opened:
  assumes "amd_pre V s"
  shows "\<exists>t. variorum_enter amd_build V s = Some (0, t) \<and> amd_opened V s t"
proof -
  let ?H = "sys_hw V"
  have h: "hwloc_good ?H" "sys_esmi_init V = 0" using assms by (simp_all add: amd_pre_def amd_machine_def)
  obtain m where m: "detect_amd_arch V = Live m" "(ucast (drop_bit 8 m AND 0xFF) :: u8) = 0x19"
    "(ucast (m AND 0xFF) :: u8) \<le> 0xF \<or> 0x30 \<le> (ucast (m AND 0xFF) :: u8) \<and> (ucast (m AND 0xFF) :: u8) \<le> 0x3F"
    using assms by (auto simp: amd_pre_def amd_machine_def)
  obtain p0 p1 where g: "g_platform s = [p0, p1]" using assms by (auto simp: amd_pre_def numeral_2_eq_2 length_Suc_conv)
  let ?c = "fill_platform ?H (clear_func_ptrs p0)"
  let ?s1 = "s\<lparr>g_platform := [?c, p1], init_variorum_init_topology := True\<rparr>"
  let ?p = "?c\<lparr>arch_id := Live m\<rparr>"
  let ?s2 = "s\<lparr>g_platform := [?p, p1], init_variorum_init_topology := True, p_msr_core_idx := 0\<rparr>"
  let ?q = "install epyc_ptrs ?p"
  let ?s3 = "s\<lparr>g_platform := [?q, p1], init_variorum_init_topology := True, p_msr_core_idx := 0, ext_calls := ext_calls s @ [Esmi_init]\<rparr>"
  have 1: "variorum_init_func_ptrs amd_build (g_platform s) = Some [clear_func_ptrs p0, p1]"
    by (simp add: variorum_init_func_ptrs_def g)
  have 2: "topology_loop ?H [0] (s\<lparr>g_platform := [clear_func_ptrs p0, p1]\<rparr>) = Some ?s1"
    using h(1) by (simp add: get_topo_good upd_platform_def)
  have 3: "variorum_detect_arch amd_build V ?s1 = Some (0, ?s2)"
    by (simp add: variorum_detect_arch_def set_arch_def set_platform_Some upd_platform_def log_arch_def m(1) platform_arch_def)
  have 4: "set_amd_func_ptrs V 0 ?s2 = Some (0, ?s3)"
    using m(2,3) by (simp add: set_amd_func_ptrs_def platform_arch_def Let_def h(2) ext_def set_platform_Some upd_platform_def epyc_ptrs_def)
  have e: "variorum_enter amd_build V s = Some (0, ?s3)"
    using 1 2 3 4 by (simp add: variorum_enter_def variorum_set_func_ptrs_def del: topology_loop.simps)
  have "fptr ?q = epyc_table"
    by (rule ext) (simp add: epyc_table_def fptr_install zero_platform_def fill_platform_def split: option.split)
  moreover have "arch_id ?q = Live m" by (simp add: install_def fill_platform_def)
  moreover have "num_sockets ?q = hwloc_get_nbobjs_by_type ?H HWLOC_OBJ_SOCKET"
    "total_cores ?q = hwloc_get_nbobjs_by_type ?H HWLOC_OBJ_CORE" by (simp_all add: install_def fill_platform_def)
  ultimately show ?thesis using e assms by (fastforce simp: amd_opened_def amd_usable_def)
qed

lemma amd_exit_closed:
  assumes "amd_usable V s t"
  shows "\<exists>u. variorum_exit amd_build V t = Some (0, u) \<and> amd_closed t u"
proof -
  obtain m where "arch_id (g_platform t ! 0) = Live m" "length (g_platform t) = 2" using assms by (auto simp: amd_usable_def)
  then show ?thesis
    by (auto simp: variorum_exit_def amd_closed_def upd_platform_def ext_def Let_def
        intro!: exI [of _ "(g_platform t)[0 := (g_platform t ! 0)\<lparr>arch_id := Freed\<rparr>]"])
qed

interpretation amd: vendor "amd_pre V" "amd_opened V" "amd_usable V" amd_keeps amd_closed amd_build V epyc_table for V
proof
  show "P_NUM_PLATFORMS amd_build = 1" by simp
  fix s t t' u :: "'a arch_state_scheme"
  show "amd_pre V s \<Longrightarrow> \<exists>t. variorum_enter amd_build V s = Some (0, t) \<and> amd_opened V s t" by (rule amd_enter_opened)
  show "amd_opened V s t \<Longrightarrow> amd_usable V s t" by (simp add: amd_opened_def)
  show "amd_usable V s t \<Longrightarrow> amd_keeps t t' \<Longrightarrow> amd_usable V s t'" by (simp add: amd_usable_def amd_keeps_def)
  show "amd_usable V s t \<Longrightarrow> \<exists>u. variorum_exit amd_build V t = Some (0, u) \<and> amd_closed t u" by (rule amd_exit_closed)
  show "amd_usable V s t \<Longrightarrow> amd_closed t u \<Longrightarrow> amd_pre V u" by (auto simp: amd_usable_def amd_pre_def amd_closed_def)
  show "amd_opened V s t \<Longrightarrow> get_slot 0 sl t = Some (epyc_table sl)" for sl
    by (simp add: amd_opened_def amd_usable_def get_slot_def)
qed

end
