(* ===== verification/Epyc_Props.thy ===== *)
theory Epyc_Props imports Epyc_Session Rapl_Limits begin

text \<open>
  What the calls for AMD EPYC do on an E-SMI library that keeps its limits: the node limit of every socket and how far
  their sum is from what was asked for, and the energy fallback, which cannot be used.
\<close>

section \<open>An E-SMI library that works\<close>

text \<open>
  The documented behaviour: a limit that is set is the limit that is read, until it is set again, and the maximum of a
  socket is fixed. \<open>caps\<close> are the limits of the sockets, in milliwatts.
\<close>

definition esmi_ok :: "'o esmi_env \<Rightarrow> ('o \<Rightarrow> nat \<Rightarrow> u32) \<Rightarrow> (nat \<Rightarrow> u32) \<Rightarrow> bool" where
  "esmi_ok E caps M \<longleftrightarrow>
     (\<forall>o' i. (\<exists>o''. es_get E Socket_power_cap (int i) o' = (0, Some (ucast (caps o' i)), o'') \<and> caps o'' = caps o') \<and>
        (\<exists>o''. es_get E Socket_power_cap_max (int i) o' = (0, Some (ucast (M i)), o'') \<and> caps o'' = caps o') \<and>
        (\<forall>v. \<exists>o''. es_set E Set_socket_power_cap (int i) v o' = (0, o'') \<and> caps o'' = (caps o')(i := v)) \<and>
        (\<forall>n. caps (es_sleep E n o') = caps o')) \<and>
     (\<forall>i. uint (M i) < 2 ^ 31)"

lemma int_of_u32_ucast: "uint (w :: u32) < 2 ^ 31 \<Longrightarrow> int_of_u32 (ucast w) = uint w"
proof -
  assume "uint w < 2 ^ 31"
  moreover have "- (2 ^ 31) \<le> uint w" by (rule order_trans [OF _ uint_ge_0]) simp
  ultimately have "signed_take_bit 31 (uint w) = uint w" by (intro signed_take_bit_int_eq_self)
  moreover have "(ucast (ucast w :: u64) :: u32) = w" by (rule bit_word_eqI) (auto simp: bit_simps)
  ultimately show ?thesis by (simp add: int_of_u32_def sint_uint)
qed

text \<open>The limit a socket ends up with: what was asked for, cut by the maxima of all sockets up to it.\<close>

definition cut_limit :: "(nat \<Rightarrow> u32) \<Rightarrow> int \<Rightarrow> nat \<Rightarrow> nat \<Rightarrow> int" where
  "cut_limit M p k i = Min (insert p ((\<lambda>j. uint (M j)) ` {k..i}))"

lemma cut_limit_step: "k \<le> i \<Longrightarrow> cut_limit M (min p (uint (M k))) (Suc k) i = cut_limit M p k i"
proof -
  assume "k \<le> i"
  then have e: "{k..i} = insert k {Suc k..i}" by auto
  have f: "finite ((\<lambda>j. uint (M j)) ` {Suc k..i})" by simp
  show ?thesis
    by (cases "{Suc k..i} = {}") (simp_all add: cut_limit_def e Min_insert min.assoc)
qed

lemma cut_limit_self: "cut_limit M p k k = min p (uint (M k))"
  by (simp add: cut_limit_def)

lemma cut_to_max_ok:
  assumes "esmi_ok E caps M"
  shows "\<exists>o' ps. cut_to_max E i p w s = (min p (uint (M i)), ucast (M i), s\<lparr>esmi := o', printed := ps\<rparr>) \<and> caps o' = caps (esmi s)"
proof -
  obtain o' where o': "es_get E Socket_power_cap_max (int i) (esmi s) = (0, Some (ucast (M i)), o')" "caps o' = caps (esmi s)"
    using assms unfolding esmi_ok_def by metis
  have m: "int_of_u32 (ucast (M i)) = uint (M i)" using assms by (intro int_of_u32_ucast) (simp add: esmi_ok_def)
  show ?thesis
  proof (cases "uint (M i) < p")
    case True
    then show ?thesis using o' m by (auto simp: cut_to_max_def esmi_get_def say_def)
  next
    case False
    then have "cut_to_max E i p w s = (p, ucast (M i), s\<lparr>esmi := o'\<rparr>)" using o' m by (simp add: cut_to_max_def esmi_get_def)
    with False o'(2) show ?thesis by (intro exI [of _ o'] exI [of _ "printed s"]) simp
  qed
qed

lemma esmi_printed: "s\<lparr>printed := ps, esmi := o'\<rparr> = s\<lparr>esmi := o', printed := ps\<rparr>"
  by simp

lemma node_cap_loop_ok:
  assumes "esmi_ok E caps M" "0 \<le> p" "p < 2 ^ 31"
  shows "\<exists>o' ps. node_cap_loop E [k..<n] p w s = (0, s\<lparr>esmi := o', printed := ps\<rparr>) \<and>
    caps o' = (\<lambda>i. if k \<le> i \<and> i < n then word_of_int (cut_limit M p k i) else caps (esmi s) i)"
  using assms(2,3)
proof (induction "n - k" arbitrary: k p w s)
  case 0
  then have l: "[k..<n] = []" by simp
  have c: "(\<lambda>i. if k \<le> i \<and> i < n then word_of_int (cut_limit M p k i) else caps (esmi s) i) = caps (esmi s)"
    using 0 by (auto simp: fun_eq_iff)
  show ?case unfolding l c by (auto simp: say_def intro!: exI [of _ "esmi s"])
next
  case (Suc d)
  then have l: "[k..<n] = k # [Suc k..<n]" by (simp add: upt_rec)
  have nk: "d = n - Suc k" "k < n" using Suc.hyps(2) by auto
  let ?q = "min p (uint (M k))"
  have q: "0 \<le> ?q" "?q < 2 ^ 31" using Suc.prems by auto
  obtain o1 ps1 where c: "cut_to_max E k p w s = (?q, ucast (M k), s\<lparr>esmi := o1, printed := ps1\<rparr>)" "caps o1 = caps (esmi s)"
    using cut_to_max_ok [OF assms(1)] by blast
  obtain o2 where t: "es_set E Set_socket_power_cap (int k) (word_of_int ?q) o1 = (0, o2)" "caps o2 = (caps o1)(k := word_of_int ?q)"
    using assms(1) unfolding esmi_ok_def by metis
  have z: "caps (es_sleep E 100000 o2) = caps o2" using assms(1) unfolding esmi_ok_def by metis
  obtain o3 where g: "es_get E Socket_power_cap (int k) (es_sleep E 100000 o2) = (0, Some (ucast (word_of_int ?q :: u32)), o3)"
    "caps o3 = caps o2"
    using assms(1) z t(2) unfolding esmi_ok_def by (metis fun_upd_same)
  have u: "uint (word_of_int ?q :: u32) = ?q" using q by (simp add: uint_word_of_int_eq take_bit_int_eq_self)
  have v: "int_of_u32 (ucast (word_of_int ?q :: u32)) = ?q" using int_of_u32_ucast [of "word_of_int ?q"] u q(2) by simp
  have step: "node_cap_loop E [k..<n] p w s = node_cap_loop E [Suc k..<n] ?q (ucast (M k)) (s\<lparr>esmi := o3, printed := ps1\<rparr>)"
    using c(1) t(1) g(1) v by (simp add: l esmi_set_def esmi_get_def esmi_printed)
  obtain o' ps where r: "node_cap_loop E [Suc k..<n] ?q (ucast (M k)) (s\<lparr>esmi := o3, printed := ps1\<rparr>) =
      (0, s\<lparr>esmi := o3, printed := ps1\<rparr>\<lparr>esmi := o', printed := ps\<rparr>)"
    "caps o' = (\<lambda>i. if Suc k \<le> i \<and> i < n then word_of_int (cut_limit M ?q (Suc k) i)
       else caps (esmi (s\<lparr>esmi := o3, printed := ps1\<rparr>)) i)"
    using Suc.hyps(1) [OF nk(1) q, of "ucast (M k)" "s\<lparr>esmi := o3, printed := ps1\<rparr>"] by blast
  have e: "s\<lparr>esmi := o3, printed := ps1\<rparr>\<lparr>esmi := o', printed := ps\<rparr> = s\<lparr>esmi := o', printed := ps\<rparr>" by simp
  have "caps o' = (\<lambda>i. if k \<le> i \<and> i < n then word_of_int (cut_limit M p k i) else caps (esmi s) i)"
  proof (rule ext)
    fix i
    show "caps o' i = (if k \<le> i \<and> i < n then word_of_int (cut_limit M p k i) else caps (esmi s) i)"
      using nk(2) cut_limit_step [of k i M p] by (auto simp: r(2) g(2) t(2) c(2) cut_limit_self)
  qed
  then show ?case unfolding step r(1) e by blast
qed


section \<open>The node limit\<close>

lemma epyc_table_entries:
  "epyc_table Cap_best_effort_node_power_limit = Some (amd_cpu_epyc set_and_verify_best_effort_node_power_limit)"
  "epyc_table Print_energy = Some (amd_cpu_epyc print_energy)"
  by (simp_all add: epyc_table_def epyc_ptrs_def install_def)

lemma cut_limit_bounds: "0 \<le> p \<Longrightarrow> 0 \<le> cut_limit M p k i \<and> cut_limit M p k i \<le> p"
  by (simp add: cut_limit_def)

lemma cut_limit_within: "\<forall>j \<in> {k..i}. p \<le> uint (M j) \<Longrightarrow> cut_limit M p k i = p"
  unfolding cut_limit_def by (rule Min_eqI) auto

text \<open>
  C13: the node limit on AMD EPYC. There is no limit for a node, so half of the limit is given to every socket, whatever their
  number: after variorum_cap_best_effort_node_power_limit the limit of a socket is the half in milliwatts, cut by
  the maxima of the sockets up to it, so that one socket with a low maximum cuts all that follow. When no maximum is
  in the way, the sum over n sockets is n times the half: what was asked for on two sockets, half of it on one, twice on
  four. The call returns 0, and opens and closes E-SMI once.
\<close>

theorem epyc_node_cap:
  fixes s :: "('o, 'a) epyc_state_scheme"
  assumes "amd_pre (pe_sys P) s" "es_amd_idx E = 0" "esmi_ok E caps M" "0 \<le> watts" "watts div 2 * 1000 < 2 ^ 31"
    "n = nat (hwloc_get_nbobjs_by_type (pe_hw P) HWLOC_OBJ_SOCKET)"
  shows "\<exists>u. variorum_cap_best_effort_node_power_limit (epyc_api P E L now name) amd_build (pe_sys P) watts s = Some (0, u) \<and>
    (\<forall>i < n. uint (caps (esmi u) i) = cut_limit M (watts div 2 * 1000) 0 i) \<and>
    ((\<forall>i < n. watts div 2 * 1000 \<le> uint (M i)) \<longrightarrow>
      (\<Sum>i < n. uint (caps (esmi u) i)) = int n * (watts div 2 * 1000)) \<and>
    ext_calls u = ext_calls s @ [Esmi_init, Esmi_exit] \<and> elog u = elog s"
proof -
  let ?A = "epyc_api P E L now name"
  let ?h = "amd_cpu_epyc set_and_verify_best_effort_node_power_limit"
  let ?p = "watts div 2 * 1000"
  let ?Q = "\<lambda>t' :: ('o, 'a) epyc_state_scheme. (\<forall>i < n. uint (caps (esmi t') i) = cut_limit M ?p 0 i) \<and>
    ext_calls t' = ext_calls s @ [Esmi_init] \<and> elog t' = elog s"
  have d: "watts sdiv 2 = watts div 2" using assms(4) by (cases "watts = 0") (simp_all add: signed_divide_int_def sgn_if)
  have m: "milliwatts (watts sdiv 2) = Some ?p" using assms(4,5) by (simp add: milliwatts_def d)
  have p: "0 \<le> ?p" using assms(4) by simp
  have "\<exists>t'. api_call ?A ?h [watts] t = Some (0, t') \<and> amd_keeps t t' \<and> ?Q t'"
    if o': "amd_opened (pe_sys P) s t" for t :: "('o, 'a) epyc_state_scheme"
  proof -
    have g: "amd_platform E t = Some (g_platform t ! 0)" "nat (num_sockets (g_platform t ! 0)) = n"
      using o' assms(2,6) by (auto simp: amd_opened_def amd_usable_def amd_platform_def)
    obtain o'' ps where r: "node_cap_loop E [0..<n] ?p 0 t = (0, t\<lparr>esmi := o'', printed := ps\<rparr>)"
      "caps o'' = (\<lambda>i. if 0 \<le> i \<and> i < n then word_of_int (cut_limit M ?p 0 i) else caps (esmi t) i)"
      using node_cap_loop_ok [OF assms(3) p assms(5), of 0 n 0 t] by blast
    have c: "api_call ?A ?h [watts] t = Some (0, t\<lparr>esmi := o'', printed := ps\<rparr>)"
      by (simp add: epyc_api_def epyc_int_call_def amd_cpu_epyc_set_and_verify_best_effort_node_power_limit_def m g r(1))
    have "uint (word_of_int (cut_limit M ?p 0 i) :: u32) = cut_limit M ?p 0 i" for i
      using cut_limit_bounds [OF p, of M 0 i] assms(5) by (simp add: uint_word_of_int_eq take_bit_int_eq_self)
    then show ?thesis unfolding c
      using o' by (auto simp: r(2) amd_keeps_def amd_opened_def)
  qed
  from amd.node_cap_returns [OF assms(1) epyc_table_entries(1) _ this]
  obtain t' u where u: "variorum_cap_best_effort_node_power_limit ?A amd_build (pe_sys P) watts s = Some (0, u)" "?Q t'"
    "amd_closed t' u" by auto
  then have q: "\<forall>i < n. uint (caps (esmi u) i) = cut_limit M ?p 0 i" "ext_calls u = ext_calls s @ [Esmi_init, Esmi_exit]" "elog u = elog s"
    by (auto simp: amd_closed_def)
  have "(\<Sum>i < n. uint (caps (esmi u) i)) = int n * ?p" if "\<forall>i < n. ?p \<le> uint (M i)"
  proof -
    have "(\<Sum>i < n. uint (caps (esmi u) i)) = (\<Sum>i < n. ?p)"
      using q(1) that by (intro sum.cong) (auto simp: cut_limit_within)
    then show ?thesis by simp
  qed
  then show ?thesis using u(1) q by (intro exI [of _ u]) blast
qed

section \<open>Energy without E-SMI\<close>

lemma store_dest_length: "store_dest i p val = Some val' \<Longrightarrow> length val' = length val"
  by (auto simp: store_dest_def split: option.splits if_splits)

lemma load_socket_loop_length:
  assumes "load_socket_loop T msr batchnum d v val s = Some r"
  shows "length (fst (snd r)) = length val"
proof (rule load_socket_loop.raw_induct [OF _ assms, where P = "\<lambda>T msr batchnum d v val s r. length (fst (snd r)) = length val"])
  fix f :: "topo \<Rightarrow> u64 \<Rightarrow> int \<Rightarrow> u32 \<Rightarrow> u32 \<Rightarrow> dests \<Rightarrow> 'a batch_state_scheme \<Rightarrow> (int \<times> dests \<times> 'a batch_state_scheme) option"
    and T :: topo and msr :: u64 and batchnum :: int and d v :: u32 and val :: dests and s :: "'a batch_state_scheme" and r
  assume ih: "\<And>T msr batchnum d v val s r. f T msr batchnum d v val s = Some r \<Longrightarrow> length (fst (snd r)) = length val"
    and body: "(if d < ncores T then do {
       (_, p, s) \<leftarrow> create_batch_op msr (ucast d) batchnum s;
       val \<leftarrow> store_dest (unat (v mod (nsockets T * (nthreads T div ncores T)))) p val;
       f T msr batchnum (d + ncores T div nsockets T) (v + 1) val s
     } else Some (0, val, s)) = Some r"
  show "length (fst (snd r)) = length val"
  proof (cases "d < ncores T")
    case True
    with body obtain p s1 val1 where "store_dest (unat (v mod (nsockets T * (nthreads T div ncores T)))) p val = Some val1"
      "f T msr batchnum (d + ncores T div nsockets T) (v + 1) val1 s1 = Some r"
      by (auto simp: bind_eq_Some_conv)
    then show ?thesis using ih store_dest_length by metis
  next
    case False
    then show ?thesis using body by auto
  qed
qed

text \<open>The units are read from the second element of an array of one.\<close>

lemma get_rapl_unit_undefined:
  fixes s :: "('o, 'a) epyc_state_scheme"
  shows "get_rapl_unit P msr s = None"
proof -
  have "length val = 1" if "call_load_socket_batch P msr [None] RAPL_UNIT t = Some (val, t')" for val and t t' :: "('o, 'a) epyc_state_scheme"
    using that load_socket_loop_length
    by (auto simp: call_load_socket_batch_def load_socket_batch_def bind_eq_Some_conv split: if_splits) fastforce
  then have n: "\<not> 1 < length val" if "call_load_socket_batch P msr [None] RAPL_UNIT t = Some (val, t')" for val and t t' :: "('o, 'a) epyc_state_scheme"
    using that by (metis less_irrefl)
  have "deref_at val (Suc 0) t'' = None" if "call_load_socket_batch P msr [None] RAPL_UNIT t = Some (val, t')" for val and t t' t'' :: "('o, 'a) epyc_state_scheme"
    using n [OF that] by (simp add: deref_at_def)
  then have "(do { (val, s) \<leftarrow> call_load_socket_batch P msr [None] RAPL_UNIT t;
      (_, s) \<leftarrow> call_read_batch P RAPL_UNIT s; w \<leftarrow> deref_at val (Suc 0) s; f w s }) = None"
    for t and f :: "u64 \<Rightarrow> ('o, 'a) epyc_state_scheme \<Rightarrow> (double \<times> ('o, 'a) epyc_state_scheme) option"
    by (cases "call_load_socket_batch P msr [None] RAPL_UNIT t") (auto split: bind_split)
  then show ?thesis by (auto simp: get_rapl_unit_def split: bind_split)
qed


lemma print_energy_data_fallback:
  "amd_print_energy_data P E u c s =
    (if os_can_open (pe_os P) Batch_path \<and> 0 \<le> next_fd s then None else if os_can_open (pe_os P) Batch_path
     then Some (next_fd s, snd (os_open (pe_os P) Batch_path s)) else Some (-1, s))"
proof -
  have "(do { (T, t) \<leftarrow> get_topo (pe_hw P) (es_amd_idx E) t; (_, t) \<leftarrow> amd_read_rapl_data P E c t; t \<leftarrow> f t;
      (val, t) \<leftarrow> get_rapl_unit P u t; g T val t }) = None"
    for t and f :: "('a, 'b) epyc_state_scheme \<Rightarrow> ('a, 'b) epyc_state_scheme option" and g
    by (auto simp: get_rapl_unit_undefined split: bind_split)
  then show ?thesis by (auto simp: amd_print_energy_data_def os_open_def Let_def)
qed

text \<open>
  C28: verbose energy on AMD EPYC never prints an energy. It does not ask E-SMI but goes to the batch interface of msr-safe:
  where the device cannot be opened the call returns -1, and where it can, the unit of the energy is read from the second
  element of an array that was allocated with one, which is undefined.
\<close>

theorem epyc_verbose_energy:
  fixes s :: "('o, 'a) epyc_state_scheme"
  assumes "amd_pre (pe_sys P) s" "es_amd_idx E = 0" "0 \<le> next_fd s"
  shows "if os_can_open (pe_os P) Batch_path
    then variorum_print_verbose_energy (epyc_api P E L now name) amd_build (pe_sys P) s = None
    else \<exists>u. variorum_print_verbose_energy (epyc_api P E L now name) amd_build (pe_sys P) s = Some (-1, u)"
proof -
  let ?A = "epyc_api P E L now name"
  let ?h = "amd_cpu_epyc print_energy"
  have c: "has_cpu amd_build" by (simp add: has_cpu_def)
  have a: "api_call ?A ?h [1] t = (if os_can_open (pe_os P) Batch_path then None
      else Some (-1, say [FS ''Msg: Checking msr-safe module...''] (ext Esmi_init t)))"
    if "amd_opened (pe_sys P) s t" for t :: "('o, 'a) epyc_state_scheme"
  proof -
    have g: "amd_platform E (ext Esmi_init t) = Some (g_platform t ! 0)" "0 \<le> next_fd t"
      using that assms(2,3) by (auto simp: amd_opened_def amd_usable_def amd_platform_def ext_def)
    then show ?thesis
      by (simp add: epyc_api_def epyc_int_call_def amd_cpu_epyc_print_energy_def print_energy_data_fallback ext_def say_def)
  qed
  show ?thesis
  proof (cases "os_can_open (pe_os P) Batch_path")
    case True
    then show ?thesis
      using amd.call_undefined(2) [OF assms(1) epyc_table_entries(2), of ?A "[1]"] a
      by (simp add: amd.print_energy_loop [OF c])
  next
    case False
    have "\<exists>t'. for_all_stop ?A amd_build (pe_sys P) Print_energy [1] s = Some (-1, t') \<and> True"
      by (rule amd.call_fails(2) [OF assms(1) epyc_table_entries(2)]) (use a False in auto)
    with False show ?thesis by (auto simp: amd.print_energy_loop [OF c])
  qed
qed

section \<open>Examples\<close>

text \<open>A library that keeps the limits of the sockets, whose maximum is 250 W, and a node with two of them.\<close>

definition example_esmi :: "(nat \<Rightarrow> u32) esmi_env" where
  "example_esmi = \<lparr>es_amd_idx = 0, ESMI_PERMISSION = 1, es_err_msg = (\<lambda>_. ''''),
     es_get = (\<lambda>q i caps. case q of
         Socket_power_cap \<Rightarrow> (0, Some (ucast (caps (nat i))), caps)
       | Socket_power_cap_max \<Rightarrow> (0, Some 250000, caps)
       | _ \<Rightarrow> (0, Some 0, caps)),
     es_set = (\<lambda>q i v caps. case q of Set_socket_power_cap \<Rightarrow> (0, caps(nat i := v)) | _ \<Rightarrow> (0, caps)),
     es_sleep = (\<lambda>_ caps. caps)\<rparr>"

definition amd_node :: "bool \<Rightarrow> power_env" where
  "amd_node device = example_power (example_sys\<lparr>sys_cpuid_rax := 0xA00F11,
     sys_os := good_env\<lparr>os_can_open := \<lambda>p. p \<noteq> Batch_path \<or> device\<rparr>\<rparr>)"

definition epyc_start_state :: "(nat \<Rightarrow> u32) \<Rightarrow> (nat \<Rightarrow> u32) epyc_state" where
  "epyc_start_state caps = rapl_state.extend rapl_start
     \<lparr>arrays = (\<lambda>_. None), feat_inited = {}, fixed_counters = [], fixed_limits = [], esmi = caps, epyc_inited = {},
      epyc_start = (\<lambda>_. (0, 0)), amd_storage_init = False, amd_rapl = None, amd_read_init = False, amd_print_init = False\<rparr>"

lemma epyc_start_fields [simp]:
  "length (g_platform (epyc_start_state caps)) = 2" "ext_calls (epyc_start_state caps) = []" "elog (epyc_start_state caps) = []"
  "0 \<le> next_fd (epyc_start_state caps)"
  by (simp_all add: epyc_start_state_def rapl_start_def rapl_state.defs arch_state.defs arch_init_def batch_state.defs
      msr_state.defs msr_init_def MAX_PLATFORMS_def)

lemma example_esmi_ok: "esmi_ok example_esmi (\<lambda>caps. caps) (\<lambda>_. 250000)" "es_amd_idx example_esmi = 0"
  by (simp_all add: esmi_ok_def example_esmi_def)

lemma amd_node_facts:
  "amd_pre (pe_sys (amd_node b)) (epyc_start_state caps)" "hwloc_get_nbobjs_by_type (pe_hw (amd_node b)) HWLOC_OBJ_SOCKET = 2"
  "os_can_open (pe_os (amd_node b)) Batch_path = b"
proof -
  have "hwloc_good two_socket_machine" using example_machine by (simp add: intel_machine_def example_sys_def)
  moreover have "detect_amd_arch (pe_sys (amd_node b)) = Live 0x1901"
    by (simp add: detect_amd_arch_def amd_node_def example_power_def)
  ultimately show "amd_pre (pe_sys (amd_node b)) (epyc_start_state caps)"
    by (simp add: amd_pre_def amd_machine_def amd_node_def example_power_def example_sys_def)
  show "hwloc_get_nbobjs_by_type (pe_hw (amd_node b)) HWLOC_OBJ_SOCKET = 2" "os_can_open (pe_os (amd_node b)) Batch_path = b"
    by (simp_all add: amd_node_def example_power_def example_sys_def two_socket_machine_def good_env_def)
qed

theorem epyc_node_cap_witness:
  "\<exists>u. variorum_cap_best_effort_node_power_limit (epyc_api (amd_node False) example_esmi list_jansson (0, 0) ''node1'')
       amd_build (pe_sys (amd_node False)) 301 (epyc_start_state (\<lambda>_. 225000)) = Some (0, u) \<and>
     uint (esmi u 0) = 150000 \<and> uint (esmi u 1) = 150000"
proof -
  have n: "(2 :: nat) = nat (hwloc_get_nbobjs_by_type (pe_hw (amd_node False)) HWLOC_OBJ_SOCKET)" by (simp add: amd_node_facts(2))
  have "cut_limit (\<lambda>_. 250000) 150000 0 i = 150000" for i by (rule cut_limit_within) simp
  then show ?thesis
    using epyc_node_cap [OF amd_node_facts(1) [of False "\<lambda>_. 225000"] example_esmi_ok(2,1) _ _ n, of 301 list_jansson "(0, 0)" "''node1''"]
    by (auto simp: numeral_2_eq_2)
qed

theorem epyc_verbose_energy_witness:
  "variorum_print_verbose_energy (epyc_api (amd_node True) example_esmi list_jansson (0, 0) ''node1'')
     amd_build (pe_sys (amd_node True)) (epyc_start_state (\<lambda>_. 0)) = None"
  using epyc_verbose_energy [OF amd_node_facts(1) [of True "\<lambda>_. 0"] example_esmi_ok(2) epyc_start_fields(4), of list_jansson "(0, 0)" "''node1''"]
  by (simp add: amd_node_facts(3))

end
