(* ===== verification/Gpu_Loops.thy ===== *)
theory Gpu_Loops imports Vendor_Session begin

text \<open>
  What the GPU feature files of all vendors share: the GPUs of the machine are dealt out to the sockets in blocks of
  equal size, every function goes through the block of one socket, and its caller through the sockets. The state of the
  vendor's library is a field of the program's state.
\<close>

section \<open>State\<close>

text \<open>
  The functions that have static variables, the flags of those that have run (\<open>gpu_inited\<close>: init\_output or init) and the
  time of their first call (\<open>gpu_start\<close>: start). A program has the GPU files of one vendor only: their functions have the
  same names.
\<close>

datatype gpu_fn = Gpu_power | Gpu_thermals | Gpu_limits | Gpu_clocks | Gpu_utilization | Gpu_utilization_json | Gpu_cap

record 'o gpu_state = feat_state +
  gpu_lib :: 'o
  gpu_inited :: "gpu_fn set"
  gpu_start :: "gpu_fn \<Rightarrow> int \<times> int"

definition gpu_header :: "gpu_fn \<Rightarrow> string list \<Rightarrow> ('o, 'a) gpu_state_scheme \<Rightarrow> ('o, 'a) gpu_state_scheme" where
  "gpu_header f names s =
    (if f \<in> gpu_inited s then s else (say (map FS names) s)\<lparr>gpu_inited := insert f (gpu_inited s)\<rparr>)"

section \<open>Blocks of devices\<close>

definition in_int :: "int \<Rightarrow> bool" where
  "in_int i \<longleftrightarrow> - (2 ^ 31) \<le> i \<and> i < 2 ^ 31"

text \<open>
  The indices from \<open>chipid * gpus_per_socket\<close> up to \<open>(chipid + 1) * gpus_per_socket\<close>, products of ints.
\<close>

definition device_block :: "nat \<Rightarrow> int \<Rightarrow> int list option" where
  "device_block chipid gpus_per_socket =
    (let lo = int chipid * gpus_per_socket; hi = (int chipid + 1) * gpus_per_socket
     in if in_int lo \<and> in_int hi then Some [lo..hi - 1] else None)"

text \<open>The loop over a block, with the variable that the query of a device assigns to.\<close>

fun for_devices :: "(int \<Rightarrow> 'v \<Rightarrow> 's \<Rightarrow> ('v \<times> 's) option) \<Rightarrow> int list \<Rightarrow> 'v \<Rightarrow> 's \<Rightarrow> ('v \<times> 's) option" where
  "for_devices body [] v s = Some (v, s)"
| "for_devices body (d # ds) v s = do {
     (v, s) \<leftarrow> body d v s;
     for_devices body ds v s
   }"

lemma device_block_le:
  assumes "0 \<le> g" "chipid < n" "int n * g < 2 ^ 31"
  shows "device_block chipid g = Some [int chipid * g..(int chipid + 1) * g - 1]"
proof -
  have "(int chipid + 1) * g \<le> int n * g" using assms(1,2) by (intro mult_right_mono) auto
  moreover have "int chipid * g \<le> (int chipid + 1) * g" "0 \<le> int chipid * g" using assms(1) by (auto simp: distrib_right)
  ultimately show ?thesis using assms(3) by (simp add: device_block_def in_int_def Let_def)
qed

text \<open>The blocks of the sockets one after the other.\<close>

lemma upto_blocks:
  assumes "0 \<le> (g :: int)"
  shows "concat (map (\<lambda>i. [int i * g..(int i + 1) * g - 1]) [0..<n]) = [0..int n * g - 1]"
proof (induction n)
  case (Suc n)
  have "0 \<le> int n * g" "int n * g \<le> (int n + 1) * g" using assms by (auto simp: distrib_right)
  then have "[0..(int n + 1) * g - 1] = [0..int n * g - 1] @ [int n * g..(int n + 1) * g - 1]"
    using upto_split1 [of 0 "int n * g" "(int n + 1) * g - 1"] upto_split2 [of 0 "int n * g - 1" "(int n + 1) * g - 1"]
    by (cases "int n * g = (int n + 1) * g") auto
  then show ?case using Suc.IH by (simp add: add.commute)
qed simp

section \<open>JSON\<close>

text \<open>json\_object\_get of a number, and json\_real\_value, which is 0.0 for other kinds of values.\<close>

definition json_get :: "string list \<Rightarrow> 'a rapl_state_scheme \<Rightarrow> json_value option" where
  "json_get path s = map_of (rev (json_sets s)) path"

definition json_real_value :: "json_value \<Rightarrow> double" where
  "json_real_value v = (case v of J_real x \<Rightarrow> x | _ \<Rightarrow> Fin 0)"

text \<open>The GPUs' power is added to the power of the node where the object has it.\<close>

definition add_node_watts :: "double \<Rightarrow> 'a rapl_state_scheme \<Rightarrow> 'a rapl_state_scheme" where
  "add_node_watts total_gpu_power s =
    (case json_get [''power_node_watts''] s of
       None \<Rightarrow> s
     | Some v \<Rightarrow> json_set [''power_node_watts''] (J_real (d_add (json_real_value v) total_gpu_power)) s)"

text \<open>The utilization functions' object for a socket, below the host's name and GPU.\<close>

definition utilization_path :: "power_env \<Rightarrow> nat \<Rightarrow> string list" where
  "utilization_path P chipid = [pe_host P, ''GPU'', snprintf 12 (''Socket_'' @ dec chipid)]"

definition utilization_objects :: "power_env \<Rightarrow> nat \<Rightarrow> 'a rapl_state_scheme \<Rightarrow> 'a rapl_state_scheme" where
  "utilization_objects P chipid s =
    (let (tv, s) = gettimeofday P s;
         ts = word_of_int (fst tv) * 1000000 + word_of_int (snd tv);
         s = get_or_make [pe_host P] s;
         s = (if json_has [pe_host P, ''timestamp''] s then s else json_set [pe_host P, ''timestamp''] (J_int ts) s);
         s = get_or_make [pe_host P, ''GPU''] s
     in get_or_make (utilization_path P chipid) s)"

definition utilization_key :: "int \<Rightarrow> string" where
  "utilization_key d = snprintf 12 (''GPU'' @ dec_int d @ ''_util%'')"

end
