(* ===== verification/Nvidia_Gpu.thy ===== *)
theory Nvidia_Gpu imports Gpu_Loops begin

text \<open>
  nvidia_gpu_power_features.c and Volta.c: the functions installed for Nvidia GPUs. They call NVML, which is a
  parameter: \<open>nvml_env\<close> says what its functions return for a device. initNVML, which counts the devices and gets their
  handles, is in Vendor_Config.
\<close>

section \<open>NVML\<close>

text \<open>
  The functions that ask for one number of a device; a function reports success or not, and what it stores (None: it leaves the
  variable alone). \<open>nv_ibm\<close>: VARIORUM\_WITH\_IBM\_CPU is defined.
\<close>

datatype nvml_query = Nv_power_usage | Nv_temperature | Nv_enforced_limit | Nv_clock_sm | Nv_clock_mem

record 'o nvml_env =
  nv_idx :: nat \<comment> \<open>P_NVIDIA_GPU_IDX\<close>
  nv_ibm :: bool
  nv_get :: "nvml_query \<Rightarrow> nat \<Rightarrow> 'o \<Rightarrow> bool \<times> u32 option \<times> 'o"
  nv_util :: "nat \<Rightarrow> 'o \<Rightarrow> bool \<times> (u32 \<times> u32) option \<times> 'o" \<comment> \<open>gpu and memory of nvmlUtilization_t\<close>
  nv_set_limit :: "nat \<Rightarrow> u32 \<Rightarrow> 'o \<Rightarrow> bool \<times> 'o"

text \<open>
  \<open>m_unit_devices_file_desc[d]\<close>: None outside of the array, after it was freed, and for a device whose handle could not be
  obtained, whose element is not initialised.
\<close>

definition nv_device :: "power_env \<Rightarrow> int \<Rightarrow> 'a arch_state_scheme \<Rightarrow> nat option" where
  "nv_device P d s =
    (if nv_devices s = H_live \<and> 0 \<le> d \<and> d < uint (nv_total_unit_devices s) \<and> sys_nvml_handle_ok (pe_sys P) (nat d)
     then Some (nat d) else None)"

definition nv_query ::
  "power_env \<Rightarrow> 'o nvml_env \<Rightarrow> nvml_query \<Rightarrow> int \<Rightarrow> u32 \<Rightarrow> ('o, 'a) gpu_state_scheme \<Rightarrow> (bool \<times> u32 \<times> ('o, 'a) gpu_state_scheme) option" where
  "nv_query P E q d v s = do {
     i \<leftarrow> nv_device P d s;
     case nv_get E q i (gpu_lib s) of
       (ok, w, o') \<Rightarrow> Some (ok, case w of None \<Rightarrow> v | Some w \<Rightarrow> w, s\<lparr>gpu_lib := o'\<rparr>)
   }"

definition nv_block :: "nat \<Rightarrow> 'a arch_state_scheme \<Rightarrow> int list option" where
  "nv_block chipid s = device_block chipid (sint (nv_gpus_per_socket s))"

text \<open>\<open>(double)power * 0.001f\<close>\<close>

definition nv_watts :: "u32 \<Rightarrow> double" where
  "nv_watts w = d_mul (d_of_int (uint w)) (fl32 (1 / 1000))"

section \<open>Reports\<close>

text \<open>
  The functions that print one number of each device: the variable has no value before the first query; only the function for
  the limits looks at the result of the query (\<open>check\<close>). \<open>long\<close> and \<open>short\<close> are the fields the number is printed as.
\<close>

definition nv_report ::
  "power_env \<Rightarrow> 'o nvml_env \<Rightarrow> nvml_query \<Rightarrow> bool \<Rightarrow> gpu_fn \<Rightarrow> string list \<Rightarrow> string \<Rightarrow> (u32 \<Rightarrow> field) \<Rightarrow> (u32 \<Rightarrow> field) \<Rightarrow>
    nat \<Rightarrow> int \<Rightarrow> ('o, 'a) gpu_state_scheme \<Rightarrow> ('o, 'a) gpu_state_scheme option" where
  "nv_report P E q check f header label long short chipid verbose s = do {
     ds \<leftarrow> nv_block chipid s;
     (_, s) \<leftarrow> for_devices (\<lambda>d v s. do {
         (ok, v, s) \<leftarrow> nv_query P E q d v s;
         let s = (if check \<and> \<not> ok then variorum_error_handler VARIORUM_ERROR_PLATFORM_ENV s else s);
         Some (v,
           if verbose \<noteq> 0 then say [FS label, FS (pe_host P), FI (int chipid), FI d, long v] s
           else say [FS (hd header), FS (pe_host P), FI (int chipid), FI d, short v] (gpu_header f header s))
       }) ds (ucast (pe_junk P)) s;
     Some s
   }"

definition nvidia_gpu_get_power_data ::
  "power_env \<Rightarrow> 'o nvml_env \<Rightarrow> nat \<Rightarrow> int \<Rightarrow> ('o, 'a) gpu_state_scheme \<Rightarrow> ('o, 'a) gpu_state_scheme option" where
  "nvidia_gpu_get_power_data P E =
     nv_report P E Nv_power_usage False Gpu_power [''_NVIDIA_GPU_POWER_USAGE'', ''Host'', ''Socket'', ''DeviceID'', ''Power'']
       ''_NVIDIA_GPU_POWER_USAGE Host, Socket, DeviceID, Power: W'' (\<lambda>w. FF (nv_watts w)) (\<lambda>w. FF (nv_watts w))"

definition nvidia_gpu_get_thermal_data ::
  "power_env \<Rightarrow> 'o nvml_env \<Rightarrow> nat \<Rightarrow> int \<Rightarrow> ('o, 'a) gpu_state_scheme \<Rightarrow> ('o, 'a) gpu_state_scheme option" where
  "nvidia_gpu_get_thermal_data P E =
     nv_report P E Nv_temperature False Gpu_thermals [''_NVIDIA_GPU_TEMPERATURE'', ''Host'', ''Socket'', ''DeviceID'', ''Temperature_C'']
       ''_NVIDIA_GPU_TEMPERATURE Host, Socket, DeviceID, Temperature: C'' (\<lambda>w. FI (uint w)) (\<lambda>w. FI (sint w))"

definition nvidia_gpu_get_power_limits_data ::
  "power_env \<Rightarrow> 'o nvml_env \<Rightarrow> nat \<Rightarrow> int \<Rightarrow> ('o, 'a) gpu_state_scheme \<Rightarrow> ('o, 'a) gpu_state_scheme option" where
  "nvidia_gpu_get_power_limits_data P E =
     nv_report P E Nv_enforced_limit True Gpu_limits [''_NVIDIA_GPU_POWER_LIMIT'', ''Host'', ''Socket'', ''DeviceID'', ''PowerLimit'']
       ''_NVIDIA_GPU_POWER_LIMIT Host, Socket, DeviceID, PowerLimit: W'' (\<lambda>w. FF (nv_watts w)) (\<lambda>w. FF (nv_watts w))"

definition nvidia_gpu_get_clocks_data ::
  "power_env \<Rightarrow> 'o nvml_env \<Rightarrow> nat \<Rightarrow> int \<Rightarrow> ('o, 'a) gpu_state_scheme \<Rightarrow> ('o, 'a) gpu_state_scheme option" where
  "nvidia_gpu_get_clocks_data P E =
     nv_report P E Nv_clock_sm False Gpu_clocks [''_NVIDIA_GPU_CLOCKS'', ''Host'', ''Socket'', ''DeviceID'', ''GPU_Clock'']
       ''_NVIDIA_GPU_CLOCKS Host, Socket, DeviceID, GPU_Clock: MHz'' (\<lambda>w. FI (sint w)) (\<lambda>w. FI (sint w))"

text \<open>Utilization: two numbers of one query.\<close>

definition nv_utilization ::
  "power_env \<Rightarrow> 'o nvml_env \<Rightarrow> int \<Rightarrow> u32 \<times> u32 \<Rightarrow> ('o, 'a) gpu_state_scheme \<Rightarrow> ((u32 \<times> u32) \<times> ('o, 'a) gpu_state_scheme) option" where
  "nv_utilization P E d v s = do {
     i \<leftarrow> nv_device P d s;
     case nv_util E i (gpu_lib s) of (_, w, o') \<Rightarrow> Some (case w of None \<Rightarrow> v | Some w \<Rightarrow> w, s\<lparr>gpu_lib := o'\<rparr>)
   }"

definition nvidia_gpu_get_gpu_utilization_data ::
  "power_env \<Rightarrow> 'o nvml_env \<Rightarrow> nat \<Rightarrow> int \<Rightarrow> ('o, 'a) gpu_state_scheme \<Rightarrow> ('o, 'a) gpu_state_scheme option" where
  "nvidia_gpu_get_gpu_utilization_data P E chipid verbose s = do {
     ds \<leftarrow> nv_block chipid s;
     (_, s) \<leftarrow> for_devices (\<lambda>d util s. do {
         (util, s) \<leftarrow> nv_utilization P E d util s;
         let fields = [FS (pe_host P), FI (int chipid), FI d, FI (sint (fst util)), FI (sint (snd util))];
         Some (util,
           if verbose \<noteq> 0
           then say (FS ''_NVIDIA_GPU_UTILIZATION Host, Socket, DeviceID, SM_Utilization: %, Memory_Utilization: %'' # fields) s
           else say (FS ''_NVIDIA_GPU_UTILIZATION'' # fields)
             (gpu_header Gpu_utilization [''_NVIDIA_GPU_UTILIZATION'', ''Host'', ''Socket'', ''DeviceID'', ''SMUtil_%'', ''MemUtil_%''] s))
       }) ds (ucast (pe_junk P), ucast (pe_junk P)) s;
     Some s
   }"

section \<open>JSON\<close>

text \<open>The object GPU of a socket, whose own object is made if it is not there.\<close>

definition gpu_object :: "string list \<Rightarrow> string \<Rightarrow> 'a rapl_state_scheme \<Rightarrow> 'a rapl_state_scheme" where
  "gpu_object socket name s = json_set (socket @ [name]) J_object (get_or_make socket s)"

definition nvidia_gpu_get_thermal_json ::
  "power_env \<Rightarrow> 'o nvml_env \<Rightarrow> nat \<Rightarrow> ('o, 'a) gpu_state_scheme \<Rightarrow> ('o, 'a) gpu_state_scheme option" where
  "nvidia_gpu_get_thermal_json P E chipid s = do {
     let s = gpu_object [socketid chipid] ''GPU'' s;
     ds \<leftarrow> nv_block chipid s;
     (_, s) \<leftarrow> for_devices (\<lambda>d gpu_temp s. do {
         (_, gpu_temp, s) \<leftarrow> nv_query P E Nv_temperature d gpu_temp s;
         Some (gpu_temp, json_set [socketid chipid, ''GPU'', snprintf 32 (''temp_celsius_gpu_'' @ dec_int d)] (J_int (ucast gpu_temp)) s)
       }) ds (ucast (pe_junk P)) s;
     Some s
   }"

definition nvidia_gpu_get_clocks_json ::
  "power_env \<Rightarrow> 'o nvml_env \<Rightarrow> nat \<Rightarrow> ('o, 'a) gpu_state_scheme \<Rightarrow> ('o, 'a) gpu_state_scheme option" where
  "nvidia_gpu_get_clocks_json P E chipid s = do {
     let socket_id = snprintf 16 (''socket_'' @ dec chipid);
     let s = gpu_object [socket_id] ''GPU'' s;
     ds \<leftarrow> nv_block chipid s;
     (_, s) \<leftarrow> for_devices (\<lambda>d (gpu_clock, mem_clock) s. do {
         (_, gpu_clock, s) \<leftarrow> nv_query P E Nv_clock_sm d gpu_clock s;
         (_, mem_clock, s) \<leftarrow> nv_query P E Nv_clock_mem d mem_clock s;
         let s = json_set [socket_id, ''GPU'', snprintf 32 (''gpu_'' @ dec_int d @ ''_freq_mhz'')] (J_int (ucast gpu_clock)) s;
         Some ((gpu_clock, mem_clock),
           json_set [socket_id, ''GPU'', snprintf 32 (''gpu_'' @ dec_int d @ ''_mem_freq_mhz'')] (J_int (ucast mem_clock)) s)
       }) ds (ucast (pe_junk P), ucast (pe_junk P)) s;
     Some s
   }"

definition nvidia_get_gpu_utilization_json ::
  "power_env \<Rightarrow> 'o nvml_env \<Rightarrow> nat \<Rightarrow> ('o, 'a) gpu_state_scheme \<Rightarrow> ('o, 'a) gpu_state_scheme option" where
  "nvidia_get_gpu_utilization_json P E chipid s = do {
     let s = utilization_objects P chipid s;
     ds \<leftarrow> nv_block chipid s;
     (_, s) \<leftarrow> for_devices (\<lambda>d util s. do {
         (util, s) \<leftarrow> nv_utilization P E d util s;
         Some (util, json_set (utilization_path P chipid @ [utilization_key d]) (J_int (ucast (fst util))) s)
       }) ds (ucast (pe_junk P), ucast (pe_junk P)) s;
     Some s
   }"

text \<open>The variables of the loop: gpu\_power and total\_gpu\_power.\<close>

definition nvidia_gpu_get_power_json ::
  "power_env \<Rightarrow> 'o nvml_env \<Rightarrow> nat \<Rightarrow> ('o, 'a) gpu_state_scheme \<Rightarrow> ('o, 'a) gpu_state_scheme option" where
  "nvidia_gpu_get_power_json P E chipid s = do {
     let s = json_set [''num_gpus_per_socket''] (J_int (ucast (nv_gpus_per_socket s))) s;
     let s = gpu_object [socketid chipid] ''power_gpu_watts'' s;
     ds \<leftarrow> nv_block chipid s;
     ((_, total), s) \<leftarrow> for_devices (\<lambda>d (gpu_power, total) s. do {
         (_, gpu_power, s) \<leftarrow> nv_query P E Nv_power_usage d gpu_power s;
         let value = nv_watts gpu_power;
         Some ((gpu_power, d_add total value),
           json_set [socketid chipid, ''power_gpu_watts'', snprintf 24 (''GPU_'' @ dec_int d)] (J_real value) s)
       }) ds (ucast (pe_junk P), Fin 0) s;
     Some (if nv_ibm E then s else add_node_watts total s)
   }"

section \<open>The power limit\<close>

definition nv_cap_each_gpu_power_limit ::
  "power_env \<Rightarrow> 'o nvml_env \<Rightarrow> nat \<Rightarrow> u32 \<Rightarrow> ('o, 'a) gpu_state_scheme \<Rightarrow> ('o, 'a) gpu_state_scheme option" where
  "nv_cap_each_gpu_power_limit P E chipid powerlimit s = do {
     let powerlimit_mwatts = powerlimit * 1000;
     ds \<leftarrow> nv_block chipid s;
     (_, s) \<leftarrow> for_devices (\<lambda>d _ s. do {
         i \<leftarrow> nv_device P d s;
         case nv_set_limit E i powerlimit_mwatts (gpu_lib s) of
           (ok, o') \<Rightarrow>
             let s = s\<lparr>gpu_lib := o'\<rparr>
             in Some ((), if ok then s else variorum_error_handler VARIORUM_ERROR_PLATFORM_ENV s)
       }) ds () s;
     Some s
   }"

section \<open>Volta.c\<close>

definition volta_sockets ::
  "power_env \<Rightarrow> 'o nvml_env \<Rightarrow> (nat \<Rightarrow> ('o, 'a) gpu_state_scheme \<Rightarrow> ('o, 'a) gpu_state_scheme option) \<Rightarrow>
    ('o, 'a) gpu_state_scheme \<Rightarrow> (int \<times> ('o, 'a) gpu_state_scheme) option" where
  "volta_sockets P E body s = do {
     (T, s) \<leftarrow> get_topo (pe_hw P) (nv_idx E) s;
     s \<leftarrow> for_sockets body [0..<unat (nsockets T)] s;
     Some (0, s)
   }"

definition volta_get_power where
  "volta_get_power P E long_ver = volta_sockets P E (\<lambda>i. nvidia_gpu_get_power_data P E i long_ver)"

definition volta_get_thermals where
  "volta_get_thermals P E long_ver = volta_sockets P E (\<lambda>i. nvidia_gpu_get_thermal_data P E i long_ver)"

definition volta_get_thermals_json where
  "volta_get_thermals_json P E = volta_sockets P E (nvidia_gpu_get_thermal_json P E)"

definition volta_get_clocks where
  "volta_get_clocks P E long_ver = volta_sockets P E (\<lambda>i. nvidia_gpu_get_clocks_data P E i long_ver)"

definition volta_get_clocks_json where
  "volta_get_clocks_json P E = volta_sockets P E (nvidia_gpu_get_clocks_json P E)"

definition volta_get_power_limits where
  "volta_get_power_limits P E long_ver = volta_sockets P E (\<lambda>i. nvidia_gpu_get_power_limits_data P E i long_ver)"

definition volta_get_gpu_utilization where
  "volta_get_gpu_utilization P E long_ver = volta_sockets P E (\<lambda>i. nvidia_gpu_get_gpu_utilization_data P E i long_ver)"

text \<open>The object that is dumped into the string.\<close>

definition volta_get_gpu_utilization_json ::
  "power_env \<Rightarrow> 'o nvml_env \<Rightarrow> ('o, 'a) gpu_state_scheme \<Rightarrow>
    (int \<times> (string list \<times> json_value) list \<times> ('o, 'a) gpu_state_scheme) option" where
  "volta_get_gpu_utilization_json P E = on_node (volta_sockets P E (nvidia_get_gpu_utilization_json P E)) []"

definition volta_cap_each_gpu_power_limit where
  "volta_cap_each_gpu_power_limit P E powerlimit = volta_sockets P E (\<lambda>i. nv_cap_each_gpu_power_limit P E i powerlimit)"

definition volta_get_power_json where
  "volta_get_power_json P E = volta_sockets P E (nvidia_gpu_get_power_json P E)"

end
