(* ===== verification/Amd_Gpu.thy ===== *)
theory Amd_Gpu imports Gpu_Loops begin

text \<open>
  amd_gpu_power_features.c and instinctGPU.c: the functions installed for AMD Instinct GPUs. They call ROCm SMI, which is
  a parameter: \<open>rsmi_env\<close>. Each function opens the library for one socket and closes it again.
\<close>

section \<open>ROCm SMI\<close>

text \<open>
  Every function of the library returns whether its status is RSMI\_STATUS\_SUCCESS, and what it stores through its pointers
  (None: it leaves the variables alone). \<open>rs_cap_range\<close>: the maximum and the minimum; \<open>rs_temp\<close>: an int64\_t; \<open>rs_freq\<close>: current and
  frequency of rsmi\_frequencies\_t. The two messages about a limit that could not be set have the same code, so that the kinds of failure
  are not told apart.
\<close>

datatype rsmi_clk = RSMI_CLK_TYPE_SYS | RSMI_CLK_TYPE_MEM

record 'o rsmi_env =
  rs_idx :: nat \<comment> \<open>P_AMD_GPU_IDX\<close>
  rsmi_init :: "'o \<Rightarrow> bool \<times> 'o"
  rsmi_shut_down :: "'o \<Rightarrow> bool \<times> 'o"
  rs_num_devices :: "'o \<Rightarrow> bool \<times> u32 option \<times> 'o"
  rs_power :: "int \<Rightarrow> 'o \<Rightarrow> bool \<times> u64 option \<times> 'o"
  rs_cap :: "int \<Rightarrow> 'o \<Rightarrow> bool \<times> u64 option \<times> 'o"
  rs_cap_range :: "int \<Rightarrow> 'o \<Rightarrow> bool \<times> (u64 \<times> u64) option \<times> 'o"
  rs_temp :: "int \<Rightarrow> 'o \<Rightarrow> bool \<times> int option \<times> 'o"
  rs_freq :: "int \<Rightarrow> rsmi_clk \<Rightarrow> 'o \<Rightarrow> bool \<times> (u32 \<times> u64 list) option \<times> 'o"
  rs_busy :: "int \<Rightarrow> 'o \<Rightarrow> bool \<times> u32 option \<times> 'o"
  rs_set_cap :: "int \<Rightarrow> u64 \<Rightarrow> 'o \<Rightarrow> bool \<times> 'o"

text \<open>A call whose failure is reported, after which the code goes on.\<close>

definition rs_check :: "bool \<Rightarrow> 'a vbase_scheme \<Rightarrow> 'a vbase_scheme" where
  "rs_check ok s = (if ok then s else variorum_error_handler VARIORUM_ERROR_PLATFORM_ENV s)"

definition rs_query :: "('o \<Rightarrow> bool \<times> 'v option \<times> 'o) \<Rightarrow> 'v \<Rightarrow> ('o, 'a) gpu_state_scheme \<Rightarrow> 'v \<times> ('o, 'a) gpu_state_scheme" where
  "rs_query q v s =
    (case q (gpu_lib s) of (ok, w, o') \<Rightarrow> (case w of None \<Rightarrow> v | Some w \<Rightarrow> w, rs_check ok (s\<lparr>gpu_lib := o'\<rparr>)))"

text \<open>
  What all functions begin and end with: the library is opened, the devices are counted and divided among the sockets; at the
  end the library is closed. \<open>strict\<close> says which failures end the process: none, that of rsmi\_init, or those of both calls.
  num\_devices has no value when it is not counted.
\<close>

datatype strictness = Lax | Init_strict | Strict

definition rs_count ::
  "power_env \<Rightarrow> 'o rsmi_env \<Rightarrow> strictness \<Rightarrow> u32 \<Rightarrow> ('o, 'a) gpu_state_scheme \<Rightarrow> (int \<times> ('o, 'a) gpu_state_scheme) option" where
  "rs_count P E strict total_sockets s =
    (case rsmi_init E (gpu_lib s) of (ok, o') \<Rightarrow>
       let s = rs_check ok (s\<lparr>gpu_lib := o'\<rparr>)
       in if \<not> ok \<and> strict \<noteq> Lax then None
          else case rs_num_devices E (gpu_lib s) of (ok, n, o') \<Rightarrow>
            let s = rs_check ok (s\<lparr>gpu_lib := o'\<rparr>);
                num_devices = (case n of None \<Rightarrow> ucast (pe_junk P) | Some n \<Rightarrow> n)
            in if \<not> ok \<and> strict = Strict then None else Some (sint (num_devices div total_sockets), s))"

definition rs_close :: "'o rsmi_env \<Rightarrow> ('o, 'a) gpu_state_scheme \<Rightarrow> ('o, 'a) gpu_state_scheme" where
  "rs_close E s = (case rsmi_shut_down E (gpu_lib s) of (ok, o') \<Rightarrow> rs_check ok (s\<lparr>gpu_lib := o'\<rparr>))"

text \<open>The first call of a function starts its clock and, unless it is verbose, prints the header.\<close>

definition rs_first :: "power_env \<Rightarrow> gpu_fn \<Rightarrow> string list option \<Rightarrow> ('o, 'a) gpu_state_scheme \<Rightarrow> ('o, 'a) gpu_state_scheme" where
  "rs_first P f header s =
    (if f \<in> gpu_inited s then s
     else
       let (start, s) = gettimeofday P s;
           s = s\<lparr>gpu_inited := insert f (gpu_inited s), gpu_start := (gpu_start s)(f := start)\<rparr>
       in case header of None \<Rightarrow> s | Some names \<Rightarrow> say (map FS names) s)"

text \<open>\<open>(now.tv_usec - start.tv_usec) / 1000000.0\<close>: the seconds are not looked at.\<close>

definition usec_since :: "gpu_fn \<Rightarrow> int \<times> int \<Rightarrow> ('o, 'a) gpu_state_scheme \<Rightarrow> double" where
  "usec_since f now s = d_div (d_of_int (snd now - snd (gpu_start s f))) (Fin 1000000)"

text \<open>\<open>pwr_val / (1000 * 1000)\<close>\<close>

definition whole_watts :: "u64 \<Rightarrow> u64" where
  "whole_watts w = w div 1000000"

section \<open>Reports\<close>

text \<open>
  \<open>row\<close> asks for the values of a device, or gives None when the variable that should hold them has no value; \<open>timed\<close>: the time
  is the last field.
\<close>

definition rs_report ::
  "power_env \<Rightarrow> 'o rsmi_env \<Rightarrow> gpu_fn \<Rightarrow> string list \<Rightarrow> string \<Rightarrow> bool \<Rightarrow>
    (int \<Rightarrow> ('o, 'a) gpu_state_scheme \<Rightarrow> (field list \<times> ('o, 'a) gpu_state_scheme) option) \<Rightarrow>
    nat \<Rightarrow> u32 \<Rightarrow> int \<Rightarrow> ('o, 'a) gpu_state_scheme \<Rightarrow> ('o, 'a) gpu_state_scheme option" where
  "rs_report P E f header long timed row chipid total_sockets verbose s = do {
     (gpus_per_socket, s) \<leftarrow> rs_count P E Init_strict total_sockets s;
     let s = rs_first P f (if verbose = 0 then Some header else None) s;
     let (now, s) = gettimeofday P s;
     ds \<leftarrow> device_block chipid gpus_per_socket;
     (_, s) \<leftarrow> for_devices (\<lambda>i _ s. do {
         (fields, s) \<leftarrow> row i s;
         Some ((), say ([FS (if verbose = 1 then long else hd header), FS (pe_host P), FI (int chipid), FI i] @ fields @
           (if timed then [FF (usec_since f now s)] else [])) s)
       }) ds () s;
     Some (rs_close E s)
   }"

definition ag_get_power_data ::
  "power_env \<Rightarrow> 'o rsmi_env \<Rightarrow> nat \<Rightarrow> u32 \<Rightarrow> int \<Rightarrow> ('o, 'a) gpu_state_scheme \<Rightarrow> ('o, 'a) gpu_state_scheme option" where
  "ag_get_power_data P E =
     rs_report P E Gpu_power [''_AMD_GPU_POWER_USAGE'', ''Host'', ''Socket'', ''DeviceID'', ''Power'', ''Timestamp_sec'']
       ''_AMD_GPU_POWER_USAGE Host, Socket, DeviceID, Power: W, Timestamp: sec'' True
       (\<lambda>i s. let (pwr_val, s) = rs_query (rs_power E i) 0 s in Some ([FF (d_of_u64 (whole_watts pwr_val))], s))"

definition ag_get_power_limit_data ::
  "power_env \<Rightarrow> 'o rsmi_env \<Rightarrow> nat \<Rightarrow> u32 \<Rightarrow> int \<Rightarrow> ('o, 'a) gpu_state_scheme \<Rightarrow> ('o, 'a) gpu_state_scheme option" where
  "ag_get_power_limit_data P E =
     rs_report P E Gpu_limits
       [''_AMD_GPU_POWER_CAP'', ''Host'', ''Socket'', ''DeviceID'', ''PowerCap_Current'', ''PowerCap_Min'', ''PowerCap_Max'', ''Timestamp_sec'']
       ''_AMD_GPU_POWER_CAP Host, Socket, DeviceID, PowerCap_Current: W, PowerCap_Min: W, PowerCap_Max: W, Timestamp: sec'' True
       (\<lambda>i s.
         let (pwr_val, s) = rs_query (rs_cap E i) 0 s;
             ((pwr_max, pwr_min), s) = rs_query (rs_cap_range E i) (0, 0) s
         in Some ([FF (d_of_u64 (whole_watts pwr_val)), FI (sint (whole_watts pwr_min)), FI (sint (whole_watts pwr_max))], s))"

text \<open>\<open>temp_val / (1000)\<close> of a signed number\<close>

definition ag_get_thermals_data ::
  "power_env \<Rightarrow> 'o rsmi_env \<Rightarrow> nat \<Rightarrow> u32 \<Rightarrow> int \<Rightarrow> ('o, 'a) gpu_state_scheme \<Rightarrow> ('o, 'a) gpu_state_scheme option" where
  "ag_get_thermals_data P E =
     rs_report P E Gpu_thermals [''_AMD_GPU_TEMPERATURE'', ''Host'', ''Socket'', ''DeviceID'', ''Temperature'', ''Timestamp_sec'']
       ''_AMD_GPU_TEMPERATURE Host, Socket, DeviceID, Temperature: C, Timestamp: sec'' True
       (\<lambda>i s. let (temp_val, s) = rs_query (rs_temp E i) (-1) s in Some ([FF (d_of_int (temp_val sdiv 1000))], s))"

text \<open>\<open>f.frequency[f.current] / (1000 * 1000)\<close>, assigned to a uint32\_t.\<close>

definition clock_mhz :: "(u32 \<times> u64 list) option \<Rightarrow> u32 option" where
  "clock_mhz f = do {
     (current, frequency) \<leftarrow> f;
     if unat current < length frequency then Some (ucast (frequency ! unat current div 1000000)) else None
   }"

text \<open>Both clocks of a device: the structures have no value before the queries.\<close>

definition ag_clocks ::
  "'o rsmi_env \<Rightarrow> int \<Rightarrow> ('o, 'a) gpu_state_scheme \<Rightarrow> (u32 \<times> u32 \<times> ('o, 'a) gpu_state_scheme) option" where
  "ag_clocks E i s = do {
     let (f_sys, s) = rs_query (map_prod id (map_prod (map_option Some) id) \<circ> rs_freq E i RSMI_CLK_TYPE_SYS) None s;
     let (f_mem, s) = rs_query (map_prod id (map_prod (map_option Some) id) \<circ> rs_freq E i RSMI_CLK_TYPE_MEM) None s;
     f_sys_val \<leftarrow> clock_mhz f_sys;
     f_mem_val \<leftarrow> clock_mhz f_mem;
     Some (f_sys_val, f_mem_val, s)
   }"

definition ag_get_clocks_data ::
  "power_env \<Rightarrow> 'o rsmi_env \<Rightarrow> nat \<Rightarrow> u32 \<Rightarrow> int \<Rightarrow> ('o, 'a) gpu_state_scheme \<Rightarrow> ('o, 'a) gpu_state_scheme option" where
  "ag_get_clocks_data P E =
     rs_report P E Gpu_clocks
       [''_AMD_GPU_CLOCKS'', ''Host'', ''Socket'', ''DeviceID'', ''SystemClock_MHz'', ''MemoryClock_MHz'', ''Timestamp_sec'']
       ''_AMD_GPU_CLOCKS Host, Socket, DeviceID, SystemClock: MHz, MemoryClock: MHz, Timestamp: sec'' True
       (\<lambda>i s. do { (f_sys_val, f_mem_val, s) \<leftarrow> ag_clocks E i s; Some ([FI (sint f_sys_val), FI (sint f_mem_val)], s) })"

definition ag_get_gpu_utilization_data ::
  "power_env \<Rightarrow> 'o rsmi_env \<Rightarrow> nat \<Rightarrow> u32 \<Rightarrow> int \<Rightarrow> ('o, 'a) gpu_state_scheme \<Rightarrow> ('o, 'a) gpu_state_scheme option" where
  "ag_get_gpu_utilization_data P E =
     rs_report P E Gpu_utilization [''_AMD_GPU_UTILIZATION'', ''Host'', ''Socket'', ''DeviceID'', ''Util'']
       ''_AMD_GPU_UTILIZATION Host, Socket, DeviceID, Util: %'' False
       (\<lambda>i s. let (utilpercent, s) = rs_query (rs_busy E i) (ucast (pe_junk P)) s in Some ([FI (sint utilpercent)], s))"

section \<open>JSON\<close>

definition ag_get_thermals_json ::
  "power_env \<Rightarrow> 'o rsmi_env \<Rightarrow> nat \<Rightarrow> u32 \<Rightarrow> ('o, 'a) gpu_state_scheme \<Rightarrow> ('o, 'a) gpu_state_scheme option" where
  "ag_get_thermals_json P E chipid total_sockets s = do {
     (gpus_per_socket, s) \<leftarrow> rs_count P E Init_strict total_sockets s;
     let s = json_set [socketid chipid, ''GPU''] J_object (get_or_make [socketid chipid] s);
     ds \<leftarrow> device_block chipid gpus_per_socket;
     (_, s) \<leftarrow> for_devices (\<lambda>i _ s.
         let (temp_val, s) = rs_query (rs_temp E i) (-1) s
         in Some ((), json_set [socketid chipid, ''GPU'', snprintf 32 (''temp_celsius_gpu_'' @ dec_int i)] (J_real (d_of_int (temp_val sdiv 1000))) s)) ds () s;
     Some (rs_close E s)
   }"

definition ag_get_clocks_json ::
  "power_env \<Rightarrow> 'o rsmi_env \<Rightarrow> nat \<Rightarrow> u32 \<Rightarrow> ('o, 'a) gpu_state_scheme \<Rightarrow> ('o, 'a) gpu_state_scheme option" where
  "ag_get_clocks_json P E chipid total_sockets s = do {
     let socketID = snprintf 16 (''socket_'' @ dec chipid);
     (gpus_per_socket, s) \<leftarrow> rs_count P E Lax total_sockets s;
     let s = json_set [socketID, ''GPU''] J_object (get_or_make [socketID] s);
     ds \<leftarrow> device_block chipid gpus_per_socket;
     (_, s) \<leftarrow> for_devices (\<lambda>i _ s. do {
         (f_sys_val, f_mem_val, s) \<leftarrow> ag_clocks E i s;
         let s = json_set [socketID, ''GPU'', snprintf 32 (''gpu_'' @ dec_int i @ ''_freq_mhz'')] (J_int (ucast f_sys_val)) s;
         Some ((), json_set [socketID, ''GPU'', snprintf 32 (''gpu_'' @ dec_int i @ ''_mem_freq_mhz'')] (J_int (ucast f_mem_val)) s)
       }) ds () s;
     Some (rs_close E s)
   }"

text \<open>
  The utilization of the devices is never asked for: the loop looks once more at the result of
  rsmi\_num\_monitor\_devices and stores the 0 the variable was initialised with.
\<close>

definition ag_get_gpu_utilization_data_json ::
  "power_env \<Rightarrow> 'o rsmi_env \<Rightarrow> nat \<Rightarrow> u32 \<Rightarrow> ('o, 'a) gpu_state_scheme \<Rightarrow> ('o, 'a) gpu_state_scheme option" where
  "ag_get_gpu_utilization_data_json P E chipid total_sockets s = do {
     let s = utilization_objects P chipid s;
     let (ok, o') = rsmi_init E (gpu_lib s);
     let s = rs_check ok (s\<lparr>gpu_lib := o'\<rparr>);
     let (ok, n, o') = rs_num_devices E (gpu_lib s);
     let s = rs_check ok (s\<lparr>gpu_lib := o'\<rparr>);
     let gpus_per_socket = sint ((case n of None \<Rightarrow> ucast (pe_junk P) | Some n \<Rightarrow> n) div total_sockets);
     let s = rs_first P Gpu_utilization_json None s;
     let (now, s) = gettimeofday P s;
     ds \<leftarrow> device_block chipid gpus_per_socket;
     (_, s) \<leftarrow> for_devices (\<lambda>i _ s.
         Some ((), json_set (utilization_path P chipid @ [utilization_key i]) (J_int 0) (rs_check ok s))) ds () s;
     Some (rs_close E s)
   }"

text \<open>The loop over the sockets, inside of one session; pwr\_val keeps its value from device to device.\<close>

definition ag_json_power_socket ::
  "'o rsmi_env \<Rightarrow> int \<Rightarrow> nat \<Rightarrow> u64 \<times> double \<Rightarrow> ('o, 'a) gpu_state_scheme \<Rightarrow> ((u64 \<times> double) \<times> ('o, 'a) gpu_state_scheme) option" where
  "ag_json_power_socket E gpus_per_socket chipid v s = do {
     let socketID = snprintf 24 (''socket_'' @ dec chipid);
     let s = json_set [socketID, ''power_gpu_watts''] J_object (get_or_make [socketID] s);
     ds \<leftarrow> device_block chipid gpus_per_socket;
     for_devices (\<lambda>d (pwr_val, total_gpu_power) s.
         case rs_power E d (gpu_lib s) of (_, w, o') \<Rightarrow>
           let pwr_val = (case w of None \<Rightarrow> pwr_val | Some w \<Rightarrow> w);
               pwr_val_flt = d_of_u64 (whole_watts pwr_val)
           in Some ((pwr_val, d_add total_gpu_power pwr_val_flt),
             json_set [socketID, ''power_gpu_watts'', snprintf 24 (''GPU_'' @ dec_int d)] (J_real pwr_val_flt) (s\<lparr>gpu_lib := o'\<rparr>))) ds v s
   }"

fun ag_json_power_loop ::
  "'o rsmi_env \<Rightarrow> int \<Rightarrow> nat list \<Rightarrow> u64 \<times> double \<Rightarrow> ('o, 'a) gpu_state_scheme \<Rightarrow> ((u64 \<times> double) \<times> ('o, 'a) gpu_state_scheme) option" where
  "ag_json_power_loop E gpus_per_socket [] v s = Some (v, s)"
| "ag_json_power_loop E gpus_per_socket (i # is) v s = do {
     (v, s) \<leftarrow> ag_json_power_socket E gpus_per_socket i v s;
     ag_json_power_loop E gpus_per_socket is v s
   }"

definition ag_get_json_power_data ::
  "power_env \<Rightarrow> 'o rsmi_env \<Rightarrow> u32 \<Rightarrow> ('o, 'a) gpu_state_scheme \<Rightarrow> ('o, 'a) gpu_state_scheme option" where
  "ag_get_json_power_data P E total_sockets s = do {
     (gpus_per_socket, s) \<leftarrow> rs_count P E Strict total_sockets s;
     let s = json_set [''num_gpus_per_socket''] (J_int (word_of_int gpus_per_socket)) s;
     ((_, total_gpu_power), s) \<leftarrow> ag_json_power_loop E gpus_per_socket [0..<nat (sint total_sockets)] (0, Fin 0) s;
     Some (rs_close E (add_node_watts total_gpu_power s))
   }"

section \<open>The power limit\<close>

text \<open>The microwatts are computed in 32 bits.\<close>

definition ag_cap_each_gpu_power_limit ::
  "power_env \<Rightarrow> 'o rsmi_env \<Rightarrow> nat \<Rightarrow> u32 \<Rightarrow> u32 \<Rightarrow> ('o, 'a) gpu_state_scheme \<Rightarrow> ('o, 'a) gpu_state_scheme option" where
  "ag_cap_each_gpu_power_limit P E chipid total_sockets powerlimit s = do {
     let powerlimit_uwatts = powerlimit * 1000000;
     (gpus_per_socket, s) \<leftarrow> rs_count P E Init_strict total_sockets s;
     let s = rs_first P Gpu_cap None s;
     let (now, s) = gettimeofday P s;
     ds \<leftarrow> device_block chipid gpus_per_socket;
     (_, s) \<leftarrow> for_devices (\<lambda>i _ s.
         case rs_set_cap E i (ucast powerlimit_uwatts) (gpu_lib s) of (ok, o') \<Rightarrow> Some ((), rs_check ok (s\<lparr>gpu_lib := o'\<rparr>))) ds () s;
     Some (rs_close E s)
   }"

section \<open>instinctGPU.c\<close>

definition instinct_sockets ::
  "power_env \<Rightarrow> 'o rsmi_env \<Rightarrow> (nat \<Rightarrow> u32 \<Rightarrow> ('o, 'a) gpu_state_scheme \<Rightarrow> ('o, 'a) gpu_state_scheme option) \<Rightarrow>
    ('o, 'a) gpu_state_scheme \<Rightarrow> (int \<times> ('o, 'a) gpu_state_scheme) option" where
  "instinct_sockets P E body s = do {
     (T, s) \<leftarrow> get_topo (pe_hw P) (rs_idx E) s;
     s \<leftarrow> for_sockets (\<lambda>i. body i (nsockets T)) [0..<unat (nsockets T)] s;
     Some (0, s)
   }"

definition amd_gpu_instinct_get_power where
  "amd_gpu_instinct_get_power P E verbose = instinct_sockets P E (\<lambda>i n. ag_get_power_data P E i n verbose)"

definition amd_gpu_instinct_get_power_limit where
  "amd_gpu_instinct_get_power_limit P E verbose = instinct_sockets P E (\<lambda>i n. ag_get_power_limit_data P E i n verbose)"

definition amd_gpu_instinct_get_thermals where
  "amd_gpu_instinct_get_thermals P E verbose = instinct_sockets P E (\<lambda>i n. ag_get_thermals_data P E i n verbose)"

definition amd_gpu_instinct_get_thermals_json where
  "amd_gpu_instinct_get_thermals_json P E = instinct_sockets P E (ag_get_thermals_json P E)"

definition amd_gpu_instinct_get_clocks where
  "amd_gpu_instinct_get_clocks P E verbose = instinct_sockets P E (\<lambda>i n. ag_get_clocks_data P E i n verbose)"

definition amd_gpu_instinct_get_clocks_json where
  "amd_gpu_instinct_get_clocks_json P E = instinct_sockets P E (ag_get_clocks_json P E)"

definition amd_gpu_instinct_get_gpu_utilization where
  "amd_gpu_instinct_get_gpu_utilization P E verbose = instinct_sockets P E (\<lambda>i n. ag_get_gpu_utilization_data P E i n verbose)"

definition amd_gpu_instinct_get_gpu_utilization_json ::
  "power_env \<Rightarrow> 'o rsmi_env \<Rightarrow> ('o, 'a) gpu_state_scheme \<Rightarrow>
    (int \<times> (string list \<times> json_value) list \<times> ('o, 'a) gpu_state_scheme) option" where
  "amd_gpu_instinct_get_gpu_utilization_json P E = on_node (instinct_sockets P E (ag_get_gpu_utilization_data_json P E)) []"

definition amd_gpu_instinct_cap_each_gpu_power_limit where
  "amd_gpu_instinct_cap_each_gpu_power_limit P E powerlimit =
     instinct_sockets P E (\<lambda>i n. ag_cap_each_gpu_power_limit P E i n powerlimit)"

definition amd_gpu_instinct_get_power_json ::
  "power_env \<Rightarrow> 'o rsmi_env \<Rightarrow> ('o, 'a) gpu_state_scheme \<Rightarrow> (int \<times> ('o, 'a) gpu_state_scheme) option" where
  "amd_gpu_instinct_get_power_json P E s = do {
     (T, s) \<leftarrow> get_topo (pe_hw P) (rs_idx E) s;
     s \<leftarrow> ag_get_json_power_data P E (nsockets T) s;
     Some (0, s)
   }"

end
