(* ===== verification/Intel_Gpu.thy ===== *)
theory Intel_Gpu imports Gpu_Loops begin

text \<open>
  intel_gpu_power_features.c and GPU.c: the functions installed for Intel GPUs. They call APMIDG, a wrapper of Level Zero,
  which is a parameter: \<open>apmidg_env\<close> says what its functions return for a device. initAPMIDG is in Vendor_Config.
\<close>

section \<open>APMIDG\<close>

text \<open>
  A function that stores its result through a pointer may leave the variable alone (None). Of each device only domain 0 is
  asked for.
\<close>

record 'o apmidg_env =
  ap_idx :: nat \<comment> \<open>P_INTEL_GPU_IDX\<close>
  apmidg_readpoweravg :: "int \<Rightarrow> 'o \<Rightarrow> double \<times> 'o"
  apmidg_readtemp :: "int \<Rightarrow> 'o \<Rightarrow> double option \<times> 'o"
  apmidg_readfreq :: "int \<Rightarrow> 'o \<Rightarrow> double option \<times> 'o"
  apmidg_getpwrlim :: "int \<Rightarrow> 'o \<Rightarrow> int option \<times> 'o"
  apmidg_setpwrlim :: "int \<Rightarrow> int \<Rightarrow> 'o \<Rightarrow> 'o"

definition ig_block :: "nat \<Rightarrow> 'a arch_state_scheme \<Rightarrow> int list option" where
  "ig_block chipid s = device_block chipid (sint (ig_gpus_per_socket s))"

text \<open>The cast of a double to int: towards zero, undefined when the result does not fit.\<close>

definition int_of_d :: "double \<Rightarrow> int option" where
  "int_of_d x = (case x of
       Fin a \<Rightarrow> (let n = (if a < 0 then - \<lfloor>- a\<rfloor> else \<lfloor>a\<rfloor>) in if in_int n then Some n else None)
     | _ \<Rightarrow> None)"

section \<open>Reports\<close>

text \<open>
  The loop of a function that prints one value of each device. \<open>read\<close> gives the field of a device, or None when the variable has no
  value; \<open>long\<close> is the label of the long line.
\<close>

definition ig_report ::
  "power_env \<Rightarrow> (int \<Rightarrow> 'o \<Rightarrow> field option \<times> 'o) \<Rightarrow> gpu_fn \<Rightarrow> string list \<Rightarrow> string \<Rightarrow> nat \<Rightarrow> int \<Rightarrow>
    ('o, 'a) gpu_state_scheme \<Rightarrow> ('o, 'a) gpu_state_scheme option" where
  "ig_report P read f header long chipid verbose s = do {
     ds \<leftarrow> ig_block chipid s;
     (_, s) \<leftarrow> for_devices (\<lambda>d _ s. do {
         let (value, o') = read d (gpu_lib s);
         value \<leftarrow> value;
         let s = s\<lparr>gpu_lib := o'\<rparr>;
         let fields = [FS (pe_host P), FI (int chipid), FI d, value];
         Some ((), if verbose \<noteq> 0 then say (FS long # fields) s else say (FS (hd header) # fields) (gpu_header f header s))
       }) ds () s;
     Some s
   }"

definition ig_get_power_data where
  "ig_get_power_data P E =
     ig_report P (\<lambda>d l. map_prod (\<lambda>x. Some (FF x)) id (apmidg_readpoweravg E d l)) Gpu_power
       [''_INTEL_GPU_POWER_USAGE'', ''Host'', ''Socket'', ''DeviceID'', ''Power_W'']
       ''_INTEL_GPU_POWER_USAGE Host, Socket, DeviceID, Power: W''"

definition ig_get_thermal_data where
  "ig_get_thermal_data P E =
     ig_report P (\<lambda>d l. map_prod (map_option FF) id (apmidg_readtemp E d l)) Gpu_thermals
       [''_INTEL_GPU_TEMPERATURE'', ''Host'', ''Socket'', ''DeviceID'', ''Temperature_C'']
       ''_INTLE_GPU_TEMPERATURE Host, Socket, DeviceID, Temperature: C''"

text \<open>
  The long format of the clock function has no comma between the format and its first argument, so that the two
  strings are one and every argument is off by one: a %s meets the socket number, which is undefined.
\<close>

definition ig_get_clocks_data ::
  "power_env \<Rightarrow> 'o apmidg_env \<Rightarrow> nat \<Rightarrow> int \<Rightarrow> ('o, 'a) gpu_state_scheme \<Rightarrow> ('o, 'a) gpu_state_scheme option" where
  "ig_get_clocks_data P E chipid verbose s = do {
     ds \<leftarrow> ig_block chipid s;
     (_, s) \<leftarrow> for_devices (\<lambda>d _ s. do {
         let (freq_MHz, o') = apmidg_readfreq E d (gpu_lib s);
         freq_MHz \<leftarrow> freq_MHz;
         freq \<leftarrow> int_of_d freq_MHz;
         let s = s\<lparr>gpu_lib := o'\<rparr>;
         if verbose \<noteq> 0 then None
         else Some ((), say [FS ''_INTEL_GPU_CLOCKS'', FS (pe_host P), FI (int chipid), FI d, FI freq]
           (gpu_header Gpu_clocks [''_INTEL_GPU_CLOCKS'', ''Host'', ''Socket'', ''DeviceID'', ''GPU_Clock_MHz''] s))
       }) ds () s;
     Some s
   }"

text \<open>The header of the limits does not end its line: the first row follows on the same one.\<close>

definition ig_get_power_limit_data ::
  "power_env \<Rightarrow> 'o apmidg_env \<Rightarrow> nat \<Rightarrow> int \<Rightarrow> ('o, 'a) gpu_state_scheme \<Rightarrow> ('o, 'a) gpu_state_scheme option" where
  "ig_get_power_limit_data P E chipid verbose s = do {
     ds \<leftarrow> ig_block chipid s;
     (_, s) \<leftarrow> for_devices (\<lambda>d _ s. do {
         let (lim, o') = apmidg_getpwrlim E d (gpu_lib s);
         let s = s\<lparr>gpu_lib := o'\<rparr>;
         let fields = [FS (pe_host P), FI (int chipid), FI d, FI (case lim of None \<Rightarrow> 0 | Some i \<Rightarrow> i)];
         Some ((),
           if verbose \<noteq> 0 then say (FS ''_INTEL_GPU_POWER_LIMIT Host, Socket, DeviceID, GPU_Power_limit: mW'' # fields) s
           else if Gpu_limits \<in> gpu_inited s then say (FS ''_INTEL_GPU_POWER_LIMIT'' # fields) s
           else say (map FS [''_INTEL_GPU_POWER_LIMIT'', ''Host'', ''Socket'', ''DeviceID'', ''GPU_Power_limit_mW''] @
             FS ''_INTEL_GPU_POWER_LIMIT'' # fields) (s\<lparr>gpu_inited := insert Gpu_limits (gpu_inited s)\<rparr>))
       }) ds () s;
     Some s
   }"

section \<open>The power limit\<close>

text \<open>The limit is set and read back, and a difference is reported.\<close>

definition ig_cap_each_gpu_power_limit ::
  "'o apmidg_env \<Rightarrow> nat \<Rightarrow> u32 \<Rightarrow> ('o, 'a) gpu_state_scheme \<Rightarrow> ('o, 'a) gpu_state_scheme option" where
  "ig_cap_each_gpu_power_limit E chipid powerlimit s = do {
     let powerlimit_mwatts = sint (powerlimit * 1000);
     ds \<leftarrow> ig_block chipid s;
     (_, s) \<leftarrow> for_devices (\<lambda>d _ s. do {
         let (lim, o') = apmidg_getpwrlim E d (apmidg_setpwrlim E d powerlimit_mwatts (gpu_lib s));
         let s = s\<lparr>gpu_lib := o'\<rparr>;
         Some ((), if powerlimit_mwatts \<noteq> (case lim of None \<Rightarrow> 0 | Some i \<Rightarrow> i)
           then variorum_error_handler VARIORUM_ERROR_PLATFORM_ENV s else s)
       }) ds () s;
     Some s
   }"

section \<open>GPU.c\<close>

definition ig_sockets ::
  "power_env \<Rightarrow> 'o apmidg_env \<Rightarrow> (nat \<Rightarrow> ('o, 'a) gpu_state_scheme \<Rightarrow> ('o, 'a) gpu_state_scheme option) \<Rightarrow>
    ('o, 'a) gpu_state_scheme \<Rightarrow> (int \<times> ('o, 'a) gpu_state_scheme) option" where
  "ig_sockets P E body s = do {
     (T, s) \<leftarrow> get_topo (pe_hw P) (ap_idx E) s;
     s \<leftarrow> for_sockets body [0..<unat (nsockets T)] s;
     Some (0, s)
   }"

definition intel_gpu_get_power where
  "intel_gpu_get_power P E long_ver = ig_sockets P E (\<lambda>i. ig_get_power_data P E i long_ver)"

definition intel_gpu_get_thermals where
  "intel_gpu_get_thermals P E long_ver = ig_sockets P E (\<lambda>i. ig_get_thermal_data P E i long_ver)"

definition intel_gpu_get_clocks where
  "intel_gpu_get_clocks P E long_ver = ig_sockets P E (\<lambda>i. ig_get_clocks_data P E i long_ver)"

definition intel_gpu_cap_each_gpu_power_limit where
  "intel_gpu_cap_each_gpu_power_limit P E powerlimit = ig_sockets P E (\<lambda>i. ig_cap_each_gpu_power_limit E i powerlimit)"

definition intel_gpu_get_power_limit where
  "intel_gpu_get_power_limit P E long_ver = ig_sockets P E (\<lambda>i. ig_get_power_limit_data P E i long_ver)"

end
