(* ===== verification/Gpu_Session.thy ===== *)
theory Gpu_Session imports Nvidia_Gpu Amd_Gpu Intel_Gpu begin

text \<open>
  The functions of variorum.c on a build for the GPUs of one vendor: the functions behind the pointers of the platform table,
  and variorum_enter and variorum_exit as a provider of the \<open>vendor\<close> contract, for all three vendors at once. In between, an Nvidia
  build has NVML open with a handle of every device, an Intel build has APMIDG open, and an AMD build nothing.
\<close>

section \<open>The function pointers\<close>

definition volta_int_call ::
  "power_env \<Rightarrow> 'o nvml_env \<Rightarrow> op \<Rightarrow> int list \<Rightarrow> ('o, 'a) gpu_state_scheme \<Rightarrow> (int \<times> ('o, 'a) gpu_state_scheme) option" where
  "volta_int_call P E f args s =
    (case (f, args) of
       (get_power, [x]) \<Rightarrow> volta_get_power P E x s
     | (get_thermals, [x]) \<Rightarrow> volta_get_thermals P E x s
     | (get_clocks, [x]) \<Rightarrow> volta_get_clocks P E x s
     | (get_power_limits, [x]) \<Rightarrow> volta_get_power_limits P E x s
     | (get_gpu_utilization, [x]) \<Rightarrow> volta_get_gpu_utilization P E x s
     | (cap_each_gpu_power_limit, [x]) \<Rightarrow> volta_cap_each_gpu_power_limit P E (word_of_int x) s
     | _ \<Rightarrow> None)"

definition volta_api ::
  "power_env \<Rightarrow> 'o nvml_env \<Rightarrow> (string list \<times> json_value) list json_lib \<Rightarrow> int \<times> int \<Rightarrow> string \<Rightarrow>
    (('o, 'a) gpu_state_scheme, (string list \<times> json_value) list) api_env" where
  "volta_api P E L now name = \<lparr>
     api_call = (\<lambda>h args s. case h of volta f \<Rightarrow> volta_int_call P E f args s | _ \<Rightarrow> None),
     api_json_call = (\<lambda>h node s. case h of
         volta f \<Rightarrow>
           if f = get_power_json then on_node (volta_get_power_json P E) node s
           else if f = get_thermals_json then on_node (volta_get_thermals_json P E) node s
           else if f = get_clocks_json then on_node (volta_get_clocks_json P E) node s
           else None
       | _ \<Rightarrow> None),
     api_str_call = (\<lambda>h s. case h of
         volta f \<Rightarrow> if f = get_gpu_utilization_json then dumped L (volta_get_gpu_utilization_json P E s) else None
       | _ \<Rightarrow> None),
     api_json = L, api_timeofday = now, api_hostname = name\<rparr>"

definition instinct_int_call ::
  "power_env \<Rightarrow> 'o rsmi_env \<Rightarrow> op \<Rightarrow> int list \<Rightarrow> ('o, 'a) gpu_state_scheme \<Rightarrow> (int \<times> ('o, 'a) gpu_state_scheme) option" where
  "instinct_int_call P E f args s =
    (case (f, args) of
       (get_power, [x]) \<Rightarrow> amd_gpu_instinct_get_power P E x s
     | (get_thermals, [x]) \<Rightarrow> amd_gpu_instinct_get_thermals P E x s
     | (get_clocks, [x]) \<Rightarrow> amd_gpu_instinct_get_clocks P E x s
     | (get_power_limit, [x]) \<Rightarrow> amd_gpu_instinct_get_power_limit P E x s
     | (get_gpu_utilization, [x]) \<Rightarrow> amd_gpu_instinct_get_gpu_utilization P E x s
     | (cap_each_gpu_power_limit, [x]) \<Rightarrow> amd_gpu_instinct_cap_each_gpu_power_limit P E (word_of_int x) s
     | _ \<Rightarrow> None)"

definition instinct_api ::
  "power_env \<Rightarrow> 'o rsmi_env \<Rightarrow> (string list \<times> json_value) list json_lib \<Rightarrow> int \<times> int \<Rightarrow> string \<Rightarrow>
    (('o, 'a) gpu_state_scheme, (string list \<times> json_value) list) api_env" where
  "instinct_api P E L now name = \<lparr>
     api_call = (\<lambda>h args s. case h of amd_gpu_instinct f \<Rightarrow> instinct_int_call P E f args s | _ \<Rightarrow> None),
     api_json_call = (\<lambda>h node s. case h of
         amd_gpu_instinct f \<Rightarrow>
           if f = get_power_json then on_node (amd_gpu_instinct_get_power_json P E) node s
           else if f = get_thermals_json then on_node (amd_gpu_instinct_get_thermals_json P E) node s
           else if f = get_clocks_json then on_node (amd_gpu_instinct_get_clocks_json P E) node s
           else None
       | _ \<Rightarrow> None),
     api_str_call = (\<lambda>h s. case h of
         amd_gpu_instinct f \<Rightarrow>
           if f = get_gpu_utilization_json then dumped L (amd_gpu_instinct_get_gpu_utilization_json P E s) else None
       | _ \<Rightarrow> None),
     api_json = L, api_timeofday = now, api_hostname = name\<rparr>"

definition intel_gpu_int_call ::
  "power_env \<Rightarrow> 'o apmidg_env \<Rightarrow> op \<Rightarrow> int list \<Rightarrow> ('o, 'a) gpu_state_scheme \<Rightarrow> (int \<times> ('o, 'a) gpu_state_scheme) option" where
  "intel_gpu_int_call P E f args s =
    (case (f, args) of
       (get_power, [x]) \<Rightarrow> intel_gpu_get_power P E x s
     | (get_thermals, [x]) \<Rightarrow> intel_gpu_get_thermals P E x s
     | (get_clocks, [x]) \<Rightarrow> intel_gpu_get_clocks P E x s
     | (cap_each_gpu_power_limit, [x]) \<Rightarrow> intel_gpu_cap_each_gpu_power_limit P E (word_of_int x) s
     | (get_power_limit, [x]) \<Rightarrow> intel_gpu_get_power_limit P E x s
     | _ \<Rightarrow> None)"

definition intel_gpu_api ::
  "power_env \<Rightarrow> 'o apmidg_env \<Rightarrow> (string list \<times> json_value) list json_lib \<Rightarrow> int \<times> int \<Rightarrow> string \<Rightarrow>
    (('o, 'a) gpu_state_scheme, (string list \<times> json_value) list) api_env" where
  "intel_gpu_api P E L now name = \<lparr>
     api_call = (\<lambda>h args s. case h of intel_gpu f \<Rightarrow> intel_gpu_int_call P E f args s | _ \<Rightarrow> None),
     api_json_call = (\<lambda>h node s. None), api_str_call = (\<lambda>h s. None),
     api_json = L, api_timeofday = now, api_hostname = name\<rparr>"

section \<open>Enter and exit\<close>

datatype gpu_vendor = Nvidia | Amd | Intel

fun gpu_platform :: "gpu_vendor \<Rightarrow> platform_kind" where
  "gpu_platform Nvidia = NVIDIA_GPU"
| "gpu_platform Amd = AMD_GPU"
| "gpu_platform Intel = INTEL_GPU"

definition gpu_build :: "gpu_vendor \<Rightarrow> build" where
  "gpu_build G = (\<lambda>k. k = gpu_platform G)"

lemma gpu_build_simps [simp]:
  "\<not> gpu_build G INTEL_CPU" "\<not> gpu_build G IBM_CPU" "\<not> gpu_build G AMD_CPU" "\<not> gpu_build G ARM_CPU"
  "gpu_build G NVIDIA_GPU \<longleftrightarrow> G = Nvidia" "gpu_build G AMD_GPU \<longleftrightarrow> G = Amd" "gpu_build G INTEL_GPU \<longleftrightarrow> G = Intel"
  "P_NUM_PLATFORMS (gpu_build G) = 1"
  "P_IDX (gpu_build Nvidia) NVIDIA_GPU = 0" "P_IDX (gpu_build Amd) AMD_GPU = 0" "P_IDX (gpu_build Intel) INTEL_GPU = 0"
  by (cases G; simp add: gpu_build_def P_NUM_PLATFORMS_def platforms_def platform_enum_def P_IDX_def)+

fun gpu_ptrs :: "gpu_vendor \<Rightarrow> (slot \<times> handler) list" where
  "gpu_ptrs Nvidia =
    [(Print_power, volta get_power), (Print_thermals, volta get_thermals), (Print_frequency, volta get_clocks),
     (Print_power_limit, volta get_power_limits), (Print_gpu_utilization, volta get_gpu_utilization),
     (Get_thermals_json, volta get_thermals_json), (Get_frequency_json, volta get_clocks_json),
     (Get_utilization_json, volta get_gpu_utilization_json), (Cap_each_gpu_power_limit, volta cap_each_gpu_power_limit),
     (Get_power_json, volta get_power_json)]"
| "gpu_ptrs Amd =
    [(Print_power, amd_gpu_instinct get_power), (Print_thermals, amd_gpu_instinct get_thermals),
     (Print_frequency, amd_gpu_instinct get_clocks), (Print_power_limit, amd_gpu_instinct get_power_limit),
     (Print_gpu_utilization, amd_gpu_instinct get_gpu_utilization), (Get_thermals_json, amd_gpu_instinct get_thermals_json),
     (Get_frequency_json, amd_gpu_instinct get_clocks_json), (Get_utilization_json, amd_gpu_instinct get_gpu_utilization_json),
     (Cap_each_gpu_power_limit, amd_gpu_instinct cap_each_gpu_power_limit), (Get_power_json, amd_gpu_instinct get_power_json)]"
| "gpu_ptrs Intel =
    [(Print_power, intel_gpu get_power), (Print_thermals, intel_gpu get_thermals), (Print_frequency, intel_gpu get_clocks),
     (Cap_each_gpu_power_limit, intel_gpu cap_each_gpu_power_limit), (Print_power_limit, intel_gpu get_power_limit)]"

definition gpu_table :: "gpu_vendor \<Rightarrow> slot \<Rightarrow> handler option" where
  "gpu_table G = fptr (install (gpu_ptrs G) zero_platform)"

text \<open>A machine with a topology whose devices the library counts and, for NVML, hands out.\<close>

definition gpu_machine :: "sys_env \<Rightarrow> gpu_vendor \<Rightarrow> bool" where
  "gpu_machine V G \<longleftrightarrow> hwloc_good (sys_hw V) \<and>
     (G = Nvidia \<longrightarrow> uint (sys_nvml_count V) < 2 ^ 31 \<and> (\<forall>d < unat (sys_nvml_count V). sys_nvml_handle_ok V d)) \<and>
     (G = Intel \<longrightarrow> uint (sys_apmidg_ndevs V) < 2 ^ 31)"

definition gpu_pre :: "sys_env \<Rightarrow> gpu_vendor \<Rightarrow> 'a arch_state_scheme \<Rightarrow> bool" where
  "gpu_pre V G s \<longleftrightarrow> gpu_machine V G \<and> length (g_platform s) = 2"

text \<open>What opening the vendor's library changes, and what closing it does.\<close>

fun lib_opened :: "sys_env \<Rightarrow> gpu_vendor \<Rightarrow> 'a arch_state_scheme \<Rightarrow> 'a arch_state_scheme" where
  "lib_opened V Nvidia s = s\<lparr>ext_calls := ext_calls s @ [Nvml_init], nv_devices := H_live, nv_total_unit_devices := sys_nvml_count V,
     nv_gpus_per_socket := sys_nvml_count V div nsockets (machine_topo (sys_hw V))\<rparr>"
| "lib_opened V Intel s = s\<lparr>ext_calls := ext_calls s @ [Apmidg_init], ig_total_unit_devices := sys_apmidg_ndevs V,
     ig_gpus_per_socket := sys_apmidg_ndevs V div nsockets (machine_topo (sys_hw V))\<rparr>"
| "lib_opened V Amd s = s"

fun lib_closed :: "gpu_vendor \<Rightarrow> 'a arch_state_scheme \<Rightarrow> 'a arch_state_scheme" where
  "lib_closed Nvidia s = s\<lparr>ext_calls := ext_calls s @ [Nvml_shutdown], nv_devices := H_freed\<rparr>"
| "lib_closed Intel s = s\<lparr>ext_calls := ext_calls s @ [Apmidg_finish]\<rparr>"
| "lib_closed Amd s = s"

definition gpu_usable :: "sys_env \<Rightarrow> gpu_vendor \<Rightarrow> 'a arch_state_scheme \<Rightarrow> 'a arch_state_scheme \<Rightarrow> bool" where
  "gpu_usable V G s t \<longleftrightarrow> gpu_pre V G s \<and> length (g_platform t) = 2 \<and> arch_id (g_platform t ! 0) = Live 1 \<and>
     fptr (g_platform t ! 0) = gpu_table G \<and> (G = Nvidia \<longrightarrow> nv_devices t = H_live)"

definition gpu_opened :: "sys_env \<Rightarrow> gpu_vendor \<Rightarrow> 'a arch_state_scheme \<Rightarrow> 'a arch_state_scheme \<Rightarrow> bool" where
  "gpu_opened V G s t \<longleftrightarrow> gpu_usable V G s t \<and>
     (\<exists>g. t = (lib_opened V G s)\<lparr>g_platform := g, init_variorum_init_topology := True\<rparr>)"

definition gpu_keeps :: "'a arch_state_scheme \<Rightarrow> 'a arch_state_scheme \<Rightarrow> bool" where
  "gpu_keeps t t' \<longleftrightarrow> length (g_platform t') = length (g_platform t) \<and> arch_id (g_platform t' ! 0) = arch_id (g_platform t ! 0) \<and>
     fptr (g_platform t' ! 0) = fptr (g_platform t ! 0) \<and> nv_devices t' = nv_devices t"

definition gpu_closed :: "gpu_vendor \<Rightarrow> 'a arch_state_scheme \<Rightarrow> 'a arch_state_scheme \<Rightarrow> bool" where
  "gpu_closed G t u \<longleftrightarrow> (\<exists>g. u = (lib_closed G t)\<lparr>g_platform := g\<rparr> \<and> length g = length (g_platform t))"

lemma handles_fine:
  "\<forall>d \<in> set ds. sys_nvml_handle_ok V d \<Longrightarrow>
    foldl (\<lambda>s d. if sys_nvml_handle_ok V d then s else variorum_error_handler VARIORUM_ERROR_PLATFORM_ENV s) s ds = s"
  by (induction ds) simp_all


lemma lib_opened_fields [simp]:
  "g_platform (lib_opened V G s) = g_platform s" "elog (lib_opened V G s) = elog s"
  by (cases G; simp)+

text \<open>What the vendor's installer does to a fresh entry of the table.\<close>

definition gpu_set_func_ptrs :: "gpu_vendor \<Rightarrow> sys_env \<Rightarrow> 'a arch_state_scheme \<Rightarrow> (int \<times> 'a arch_state_scheme) option" where
  "gpu_set_func_ptrs G V s =
    (case G of Nvidia \<Rightarrow> set_nvidia_func_ptrs V 0 s | Amd \<Rightarrow> set_amd_gpu_func_ptrs 0 s | Intel \<Rightarrow> set_intel_gpu_func_ptrs V 0 s)"

lemma gpu_installs:
  assumes "gpu_machine V G" "g_platform s = [p, q]" "arch_id p = Live 1"
  shows "\<exists>p'. gpu_set_func_ptrs G V s =
      Some (0, (lib_opened V G s)\<lparr>g_platform := [p', q], init_variorum_init_topology := init_variorum_init_topology s \<or> G \<noteq> Amd\<rparr>) \<and>
    arch_id p' = Live 1 \<and> fptr p' = fptr (install (gpu_ptrs G) p)"
proof (cases G)
  case Nvidia
  have h: "hwloc_good (sys_hw V)" "foldl (\<lambda>s d. if sys_nvml_handle_ok V d then s else variorum_error_handler VARIORUM_ERROR_PLATFORM_ENV s) u
      [0..<unat (sys_nvml_count V)] = u" for u :: "'a arch_state_scheme"
    using assms(1) Nvidia by (auto simp: gpu_machine_def intro!: handles_fine)
  let ?p' = "fill_platform (sys_hw V) (install (gpu_ptrs Nvidia) p)"
  have "gpu_set_func_ptrs G V s = Some (0, (lib_opened V G s)\<lparr>g_platform := [?p', q], init_variorum_init_topology := True\<rparr>)"
    using assms(2,3) Nvidia
    by (simp add: gpu_set_func_ptrs_def set_nvidia_func_ptrs_def platform_arch_def VOLTA_def set_platform_Some upd_platform_def initNVML_def Let_def ext_def h
        get_topo_good)
  then show ?thesis using Nvidia assms(3) by (intro exI [of _ ?p']) (simp add: fill_platform_def install_def)
next
  case Amd
  let ?p' = "install (gpu_ptrs Amd) p"
  have "gpu_set_func_ptrs G V s = Some (0, s\<lparr>g_platform := [?p', q]\<rparr>)"
    using assms(2,3) Amd
    by (simp add: gpu_set_func_ptrs_def set_amd_gpu_func_ptrs_def platform_arch_def AMD_INSTINCT_def set_platform_Some upd_platform_def)
  then show ?thesis using Amd assms(3) by (intro exI [of _ ?p']) (simp add: install_def)
next
  case Intel
  have h: "hwloc_good (sys_hw V)" using assms(1) by (simp add: gpu_machine_def)
  let ?p' = "fill_platform (sys_hw V) (install (gpu_ptrs Intel) p)"
  have "gpu_set_func_ptrs G V s = Some (0, (lib_opened V G s)\<lparr>g_platform := [?p', q], init_variorum_init_topology := True\<rparr>)"
    using assms(2,3) Intel
    by (simp add: gpu_set_func_ptrs_def set_intel_gpu_func_ptrs_def platform_arch_def set_platform_Some upd_platform_def initAPMIDG_def Let_def ext_def h
        get_topo_good)
  then show ?thesis using Intel assms(3) by (intro exI [of _ ?p']) (simp add: fill_platform_def install_def)
qed

lemma gpu_enter_opened:
  assumes "gpu_pre V G s"
  shows "\<exists>t. variorum_enter (gpu_build G) V s = Some (0, t) \<and> gpu_opened V G s t"
proof -
  let ?H = "sys_hw V"
  have m: "gpu_machine V G" and h: "hwloc_good ?H" using assms by (simp_all add: gpu_pre_def gpu_machine_def)
  obtain p0 p1 where g: "g_platform s = [p0, p1]" using assms by (auto simp: gpu_pre_def numeral_2_eq_2 length_Suc_conv)
  let ?c = "fill_platform ?H (clear_func_ptrs p0)"
  let ?s1 = "s\<lparr>g_platform := [?c, p1], init_variorum_init_topology := True\<rparr>"
  let ?p = "?c\<lparr>arch_id := Live 1\<rparr>"
  let ?s2 = "s\<lparr>g_platform := [?p, p1], init_variorum_init_topology := True\<rparr>"
  have 1: "variorum_init_func_ptrs (gpu_build G) (g_platform s) = Some [clear_func_ptrs p0, p1]"
    by (simp add: variorum_init_func_ptrs_def g)
  have 2: "topology_loop ?H [0] (s\<lparr>g_platform := [clear_func_ptrs p0, p1]\<rparr>) = Some ?s1"
    using h by (simp add: get_topo_good upd_platform_def)
  have 3: "variorum_detect_arch (gpu_build G) V ?s1 = Some (0, ?s2)"
    by (cases G) (simp_all add: variorum_detect_arch_def set_arch_def set_platform_Some upd_platform_def log_arch_def platform_arch_def
        detect_gpu_arch_def detect_amd_gpu_arch_def detect_intel_gpu_arch_def)
  obtain p' where p': "gpu_set_func_ptrs G V ?s2 =
      Some (0, (lib_opened V G ?s2)\<lparr>g_platform := [p', p1], init_variorum_init_topology := init_variorum_init_topology ?s2 \<or> G \<noteq> Amd\<rparr>)"
    "arch_id p' = Live 1" "fptr p' = fptr (install (gpu_ptrs G) ?p)"
    using gpu_installs [OF m, of ?s2 ?p p1] by auto
  let ?s3 = "(lib_opened V G s)\<lparr>g_platform := [p', p1], init_variorum_init_topology := True\<rparr>"
  have "(lib_opened V G ?s2)\<lparr>g_platform := [p', p1], init_variorum_init_topology := init_variorum_init_topology ?s2 \<or> G \<noteq> Amd\<rparr> = ?s3"
    by (cases G) simp_all
  then have 4: "variorum_set_func_ptrs (gpu_build G) V ?s2 = Some (0, ?s3)"
    using p'(1) by (cases G) (simp_all add: variorum_set_func_ptrs_def gpu_set_func_ptrs_def)
  have e: "variorum_enter (gpu_build G) V s = Some (0, ?s3)"
    using 1 2 3 4 by (simp add: variorum_enter_def del: topology_loop.simps)
  have "fptr p' = gpu_table G"
    unfolding p'(3) by (rule ext) (simp add: gpu_table_def fptr_install zero_platform_def fill_platform_def split: option.split)
  then have "gpu_usable V G s ?s3" using assms p'(2) by (cases G) (simp_all add: gpu_usable_def)
  with e show ?thesis by (auto simp: gpu_opened_def)
qed

lemma gpu_exit_closed:
  assumes "gpu_usable V G s t"
  shows "\<exists>u. variorum_exit (gpu_build G) V t = Some (0, u) \<and> gpu_closed G t u"
proof -
  have "arch_id (g_platform t ! 0) = Live 1" "length (g_platform t) = 2" "G = Nvidia \<Longrightarrow> nv_devices t = H_live"
    using assms by (auto simp: gpu_usable_def)
  then show ?thesis
    by (cases G) (auto simp: variorum_exit_def gpu_closed_def upd_platform_def ext_def shutdownNVML_def shutdownAPMIDG_def Let_def
        intro!: exI [of _ "(g_platform t)[0 := (g_platform t ! 0)\<lparr>arch_id := Freed\<rparr>]"])
qed

interpretation gpu: vendor "gpu_pre V G" "gpu_opened V G" "gpu_usable V G" gpu_keeps "gpu_closed G" "gpu_build G" V "gpu_table G" for V G
proof
  show "P_NUM_PLATFORMS (gpu_build G) = 1" by simp
  fix s t t' u :: "'a arch_state_scheme"
  show "gpu_pre V G s \<Longrightarrow> \<exists>t. variorum_enter (gpu_build G) V s = Some (0, t) \<and> gpu_opened V G s t" by (rule gpu_enter_opened)
  show "gpu_opened V G s t \<Longrightarrow> gpu_usable V G s t" by (simp add: gpu_opened_def)
  show "gpu_usable V G s t \<Longrightarrow> gpu_keeps t t' \<Longrightarrow> gpu_usable V G s t'" by (simp add: gpu_usable_def gpu_keeps_def)
  show "gpu_usable V G s t \<Longrightarrow> \<exists>u. variorum_exit (gpu_build G) V t = Some (0, u) \<and> gpu_closed G t u" by (rule gpu_exit_closed)
  show "gpu_usable V G s t \<Longrightarrow> gpu_closed G t u \<Longrightarrow> gpu_pre V G u" by (auto simp: gpu_usable_def gpu_pre_def gpu_closed_def)
  show "gpu_opened V G s t \<Longrightarrow> get_slot 0 sl t = Some (gpu_table G sl)" for sl
    by (simp add: gpu_opened_def gpu_usable_def get_slot_def)
qed

end
