(* ===== verification/Gpu_Facts.thy ===== *)
theory Gpu_Facts imports Gpu_Session begin

text \<open>
  Walking through the GPUs of a machine: an invariant that each device advances by one holds at the end of every block, and at
  the end of the last block for all devices the code reaches. With n GPUs and k sockets these are the first n div k * k.
\<close>

section \<open>Walking through the devices\<close>

lemma for_devices_walk:
  assumes "lo \<le> hi" "I lo v s"
    "\<And>d v s. lo \<le> d \<Longrightarrow> d < hi \<Longrightarrow> I d v s \<Longrightarrow> \<exists>v' s'. body d v s = Some (v', s') \<and> I (d + 1) v' s'"
  shows "\<exists>v' s'. for_devices body [lo..hi - 1] v s = Some (v', s') \<and> I hi v' s'"
  using assms
proof (induction "nat (hi - lo)" arbitrary: lo v s)
  case 0
  then have "[lo..hi - 1] = []" "lo = hi" by simp_all
  then show ?case using 0 by simp
next
  case (Suc n)
  then have lt: "lo < hi" by simp
  then have l: "[lo..hi - 1] = lo # [lo + 1..hi - 1]" by (simp add: upto_rec1)
  obtain v1 s1 where b: "body lo v s = Some (v1, s1)" "I (lo + 1) v1 s1" using Suc.prems(3) [of lo v s] Suc.prems(2) lt by auto
  have "\<exists>v' s'. for_devices body [lo + 1..hi - 1] v1 s1 = Some (v', s') \<and> I hi v' s'"
    by (rule Suc.hyps(1)) (use Suc.hyps(2) Suc.prems(3) b(2) in auto)
  then show ?case by (simp add: l b(1))
qed

lemma for_sockets_walk:
  assumes "I 0 s" "\<And>i s. i < n \<Longrightarrow> I i s \<Longrightarrow> \<exists>s'. body i s = Some s' \<and> I (Suc i) s'"
  shows "\<exists>s'. for_sockets body [0..<n] s = Some s' \<and> I n s'"
proof -
  have "\<exists>s'. for_sockets body [k..<n] s = Some s' \<and> I n s'" if "k \<le> n" "I k s" for k s
    using that
  proof (induction "n - k" arbitrary: k s)
    case 0
    then show ?case by simp
  next
    case (Suc m)
    then have lt: "k < n" by simp
    then have l: "[k..<n] = k # [Suc k..<n]" by (simp add: upt_rec)
    obtain s1 where b: "body k s = Some s1" "I (Suc k) s1" using assms(2) [of k s] Suc.prems lt by auto
    have "\<exists>s'. for_sockets body [Suc k..<n] s1 = Some s' \<and> I n s'" by (rule Suc.hyps(1)) (use Suc.hyps(2) b(2) in auto)
    then show ?case by (simp add: l b(1))
  qed
  from this [of 0 s] assms(1) show ?thesis by simp
qed

section \<open>Blocks\<close>

text \<open>
  The devices of a machine with n GPUs and k sockets that are in the block of some socket, and the socket of such a device.
\<close>

definition reached :: "nat \<Rightarrow> nat \<Rightarrow> nat" where
  "reached n k = n div k * k"

lemma reached_le: "reached n k \<le> n" "0 < k \<Longrightarrow> n - reached n k < k"
proof -
  show "reached n k \<le> n" by (simp add: reached_def)
  have "n - n div k * k = n mod k" by (rule minus_div_mult_eq_mod)
  then show "0 < k \<Longrightarrow> n - reached n k < k" by (simp add: reached_def)
qed

text \<open>The number of sockets, and what dividing by it in 32 bits gives.\<close>

definition sockets_of :: "hwloc \<Rightarrow> nat" where
  "sockets_of H = nat (hwloc_get_nbobjs_by_type H HWLOC_OBJ_SOCKET)"

lemma sockets_of_topo:
  assumes "hwloc_good H"
  shows "unat (nsockets (machine_topo H)) = sockets_of H" "0 < sockets_of H" "sockets_of H < 2 ^ 31"
proof -
  have b: "0 < hwloc_get_nbobjs_by_type H HWLOC_OBJ_SOCKET" "hwloc_get_nbobjs_by_type H HWLOC_OBJ_SOCKET < 2 ^ 31"
    using assms by (auto simp: hwloc_good_def hwloc_counts_def topology_accepted_def Let_def)
  have n: "nsockets (machine_topo H) = unsigned_of_int (hwloc_get_nbobjs_by_type H HWLOC_OBJ_SOCKET)"
    by (simp add: machine_topo_def topo_of_def fill_platform_def)
  show "unat (nsockets (machine_topo H)) = sockets_of H"
    using b unfolding n sockets_of_def by (intro unat_unsigned_of_int) simp_all
  show "0 < sockets_of H" "sockets_of H < 2 ^ 31" using b by (simp_all add: sockets_of_def)
qed

lemma unat_31: "uint (c :: u32) < 2 ^ 31 \<Longrightarrow> unat c < 2 ^ 31"
proof -
  assume "uint c < 2 ^ 31"
  then have "int (unat c) < int (2 ^ 31)" by (simp only: uint_nat of_nat_power of_nat_numeral)
  then show "unat c < 2 ^ 31" by (simp only: of_nat_less_iff)
qed

lemma share_of_sockets:
  assumes "hwloc_good H" "uint (c :: u32) < 2 ^ 31"
  shows "sint (c div nsockets (machine_topo H)) = int (unat c div sockets_of H)"
proof -
  have d: "uint (c div nsockets (machine_topo H)) = int (unat c div sockets_of H)"
    by (simp add: uint_nat unat_div_distrib sockets_of_topo(1) [OF assms(1)])
  have "int (unat c div sockets_of H) \<le> int (unat c)" by (simp only: of_nat_le_iff div_le_dividend)
  also have "int (unat c) = uint c" by (rule uint_nat [symmetric])
  also have "\<dots> < 2 ^ 31" by (rule assms(2))
  finally have "uint (c div nsockets (machine_topo H)) < 2 ^ 31" unfolding d .
  moreover have "- (2 ^ 31) \<le> uint (c div nsockets (machine_topo H))" by (rule order_trans [OF _ uint_ge_0]) simp
  ultimately have "signed_take_bit 31 (uint (c div nsockets (machine_topo H))) = uint (c div nsockets (machine_topo H))"
    by (intro signed_take_bit_int_eq_self)
  then show ?thesis by (simp add: sint_uint d)
qed

lemma block_of_socket:
  assumes "i < k" "n < 2 ^ 31" "0 < k"
  shows "device_block i (int (n div k)) = Some [int i * int (n div k)..(int i + 1) * int (n div k) - 1]"
proof (rule device_block_le [OF _ assms(1)])
  have "int k * int (n div k) = int (reached n k)" by (simp add: reached_def mult.commute)
  also have "\<dots> \<le> int n" using reached_le(1) by simp
  finally show "int k * int (n div k) < 2 ^ 31" using assms(2) by simp
qed simp

text \<open>A loop over all blocks advances the invariant to the last device that is reached.\<close>

lemma blocks_walk:
  fixes g :: nat
  assumes "J 0 s"
    "\<And>i s. i < k \<Longrightarrow> J (int i * int g) s \<Longrightarrow> \<exists>s'. body i s = Some s' \<and> J ((int i + 1) * int g) s'"
  shows "\<exists>s'. for_sockets body [0..<k] s = Some s' \<and> J (int (g * k)) s'"
proof -
  have "\<exists>s'. for_sockets body [0..<k] s = Some s' \<and> J (int k * int g) s'"
    by (rule for_sockets_walk [where I = "\<lambda>i. J (int i * int g)"]) (use assms in \<open>auto simp: add.commute\<close>)
  then show ?thesis by (simp add: mult.commute)
qed

end
