(* ===== verification/Gpu_Props.thy ===== *)
theory Gpu_Props imports Gpu_Facts Rapl_Limits begin

text \<open>
  Calls of the API on GPUs: which devices a limit reaches and what it becomes, what the report of a device shows, and two
  functions that cannot deliver what they are for: the utilization object of AMD GPUs and the long clock report of Intel GPUs.
\<close>

section \<open>From the API to the sockets\<close>

lemma gpu_table_entries:
  "gpu_table Nvidia Cap_each_gpu_power_limit = Some (volta cap_each_gpu_power_limit)"
  "gpu_table Nvidia Print_power = Some (volta get_power)"
  "gpu_table Amd Cap_each_gpu_power_limit = Some (amd_gpu_instinct cap_each_gpu_power_limit)"
  "gpu_table Intel Print_frequency = Some (intel_gpu get_clocks)"
  by (simp_all add: gpu_table_def install_def)

text \<open>The state in which the loop over the sockets starts.\<close>

definition looked_up :: "hwloc \<Rightarrow> 'a tbase_scheme \<Rightarrow> 'a tbase_scheme" where
  "looked_up H t = (upd_platform 0 (fill_platform H) t)\<lparr>init_variorum_init_topology := True\<rparr>"

lemma looked_up_keeps:
  "looked_up H t = t\<lparr>g_platform := g_platform (looked_up H t), init_variorum_init_topology := True\<rparr>"
  by (simp add: looked_up_def upd_platform_def)

lemma looked_up_topo:
  assumes "gpu_opened V G s t"
  shows "get_topo (sys_hw V) 0 t = Some (machine_topo (sys_hw V), looked_up (sys_hw V) t)" "gpu_keeps t (looked_up (sys_hw V) t)"
proof -
  have h: "hwloc_good (sys_hw V)" "length (g_platform t) = 2"
    using assms by (auto simp: gpu_opened_def gpu_usable_def gpu_pre_def gpu_machine_def)
  then show "get_topo (sys_hw V) 0 t = Some (machine_topo (sys_hw V), looked_up (sys_hw V) t)"
    by (simp add: get_topo_good looked_up_def)
  show "gpu_keeps t (looked_up (sys_hw V) t)" using h(2) by (simp add: gpu_keeps_def looked_up_def upd_platform_def fill_platform_def)
qed

text \<open>What a function that only changes the library's state, the log and the output leaves of the state.\<close>

lemma gpu_keeps_trans: "gpu_keeps s t \<Longrightarrow> gpu_keeps t u \<Longrightarrow> gpu_keeps s u"
  by (simp add: gpu_keeps_def)

lemma opened_nvidia:
  assumes "gpu_opened V Nvidia s t"
  shows "nv_devices (looked_up H t) = H_live" "nv_total_unit_devices (looked_up H t) = sys_nvml_count V"
    "nv_gpus_per_socket (looked_up H t) = sys_nvml_count V div nsockets (machine_topo (sys_hw V))"
    "elog (looked_up H t) = elog s" "ext_calls (looked_up H t) = ext_calls s @ [Nvml_init]"
  using assms by (auto simp: gpu_opened_def looked_up_def upd_platform_def)

lemma opened_rest:
  fixes s t :: "('o, 'a) gpu_state_scheme"
  assumes "gpu_opened V G s t"
  shows "gpu_lib (looked_up H t) = gpu_lib s" "gpu_inited (looked_up H t) = gpu_inited s" "printed (looked_up H t) = printed s"
    "elog (looked_up H t) = elog s"
  using assms by (cases G; auto simp: gpu_opened_def looked_up_def upd_platform_def)+

lemma nv_block_opened:
  assumes "gpu_opened V Nvidia s t" "i < sockets_of (sys_hw V)" "nv_gpus_per_socket u = nv_gpus_per_socket (looked_up H t)"
  shows "nv_block i u = Some [int i * int (unat (sys_nvml_count V) div sockets_of (sys_hw V))..
    (int i + 1) * int (unat (sys_nvml_count V) div sockets_of (sys_hw V)) - 1]"
proof -
  have m: "hwloc_good (sys_hw V)" "uint (sys_nvml_count V) < 2 ^ 31"
    using assms(1) by (auto simp: gpu_opened_def gpu_usable_def gpu_pre_def gpu_machine_def)
  show ?thesis
    using block_of_socket [OF assms(2) unat_31 [OF m(2)]] sockets_of_topo(2) [OF m(1)] share_of_sockets [OF m]
    by (simp add: nv_block_def assms(3) opened_nvidia(3) [OF assms(1)])
qed

lemma reached_device:
  assumes "i < k" "int i * int (n div k) \<le> d" "d < (int i + 1) * int (n div k)"
  shows "0 \<le> d" "d < int (reached n k)" "d div int (n div k) = int i"
proof -
  let ?g = "int (n div k)"
  show "0 \<le> d" using assms(2) by (rule order_trans [rotated]) simp
  have "(int i + 1) * ?g \<le> int k * ?g" using assms(1) by (intro mult_right_mono) auto
  then show "d < int (reached n k)" using assms(3) by (simp add: reached_def mult.commute)
  show "d div ?g = int i" using assms(2,3) by (intro int_div_pos_eq [of _ _ _ "d - int i * ?g"]) (auto simp: algebra_simps)
qed

section \<open>Setting a limit\<close>

text \<open>A library that keeps the limit of each device, and refuses some.\<close>

definition nvml_ok :: "'o nvml_env \<Rightarrow> ('o \<Rightarrow> nat \<Rightarrow> u32) \<Rightarrow> (nat \<Rightarrow> u32 \<Rightarrow> bool) \<Rightarrow> bool" where
  "nvml_ok E caps accepts \<longleftrightarrow> (\<forall>i w o'. \<exists>o''. nv_set_limit E i w o' = (accepts i w, o'') \<and>
     caps o'' = (if accepts i w then (caps o')(i := w) else caps o'))"

definition refusals :: "(nat \<Rightarrow> bool) \<Rightarrow> int \<Rightarrow> nat" where
  "refusals accepts d = card {e. int e < d \<and> \<not> accepts e}"

lemma below_next: "0 \<le> d \<Longrightarrow> int e < d + 1 \<longleftrightarrow> int e < d \<or> e = nat d"
  by linarith

lemma refusals_step: "0 \<le> d \<Longrightarrow> refusals accepts (d + 1) = refusals accepts d + (if accepts (nat d) then 0 else 1)"
proof -
  assume d: "0 \<le> d"
  then have "{e. int e < d + 1 \<and> \<not> accepts e} = {e. int e < d \<and> \<not> accepts e} \<union> (if accepts (nat d) then {} else {nat d})"
    by (auto simp: below_next simp del: zle_add1_eq_le)
  moreover have "finite {e. int e < d \<and> \<not> accepts e}" by (rule finite_subset [of _ "{..nat d}"]) auto
  ultimately show ?thesis using d by (auto simp: refusals_def)
qed


text \<open>The state after the first d devices.\<close>

definition limits_set ::
  "('o \<Rightarrow> nat \<Rightarrow> u32) \<Rightarrow> (nat \<Rightarrow> bool) \<Rightarrow> u32 \<Rightarrow> ('o, 'a) gpu_state_scheme \<Rightarrow> int \<Rightarrow> ('o, 'a) gpu_state_scheme \<Rightarrow> bool" where
  "limits_set caps accepts w s d s' \<longleftrightarrow> (\<exists>o'.
     s' = s\<lparr>gpu_lib := o', elog := elog s @ replicate (refusals accepts d) VARIORUM_ERROR_PLATFORM_ENV\<rparr> \<and>
     caps o' = (\<lambda>e. if int e < d \<and> accepts e then w else caps (gpu_lib s) e))"

lemma limits_set_start: "limits_set caps accepts w s 0 s"
  by (auto simp: limits_set_def refusals_def intro!: exI [of _ "gpu_lib s"])

lemma limits_set_step:
  assumes "limits_set caps accepts w s d s'" "0 \<le> d"
    "caps o' = (if accepts (nat d) then (caps (gpu_lib s'))(nat d := w) else caps (gpu_lib s'))"
  shows "limits_set caps accepts w s (d + 1)
    (if accepts (nat d) then s'\<lparr>gpu_lib := o'\<rparr> else variorum_error_handler VARIORUM_ERROR_PLATFORM_ENV (s'\<lparr>gpu_lib := o'\<rparr>))"
proof -
  obtain o'' where s': "s' = s\<lparr>gpu_lib := o'', elog := elog s @ replicate (refusals accepts d) VARIORUM_ERROR_PLATFORM_ENV\<rparr>"
    "caps o'' = (\<lambda>e. if int e < d \<and> accepts e then w else caps (gpu_lib s) e)"
    using assms(1) by (auto simp: limits_set_def)
  have c: "caps o' = (\<lambda>e. if int e < d + 1 \<and> accepts e then w else caps (gpu_lib s) e)"
    unfolding assms(3) below_next [OF assms(2)] using s' by (auto simp: fun_eq_iff)
  have "(if accepts (nat d) then s'\<lparr>gpu_lib := o'\<rparr> else variorum_error_handler VARIORUM_ERROR_PLATFORM_ENV (s'\<lparr>gpu_lib := o'\<rparr>)) =
      s\<lparr>gpu_lib := o', elog := elog s @ replicate (refusals accepts (d + 1)) VARIORUM_ERROR_PLATFORM_ENV\<rparr>"
    unfolding s'(1) refusals_step [OF assms(2)] by (simp add: variorum_error_handler_def replicate_append_same)
  with c show ?thesis unfolding limits_set_def by blast
qed

lemma nvidia_cap_step:
  assumes "nvml_ok E caps accepts" "limits_set caps (\<lambda>i. accepts i w) w s d s'" "nv_device P d s' = Some (nat d)" "0 \<le> d"
  shows "\<exists>s''. (do {
      i \<leftarrow> nv_device P d s';
      case nv_set_limit E i w (gpu_lib s') of
        (ok, o') \<Rightarrow> let s = s'\<lparr>gpu_lib := o'\<rparr> in Some ((), if ok then s else variorum_error_handler VARIORUM_ERROR_PLATFORM_ENV s)
    }) = Some ((), s'') \<and> limits_set caps (\<lambda>i. accepts i w) w s (d + 1) s''"
proof -
  obtain o' where o': "nv_set_limit E (nat d) w (gpu_lib s') = (accepts (nat d) w, o')"
    "caps o' = (if accepts (nat d) w then (caps (gpu_lib s'))(nat d := w) else caps (gpu_lib s'))"
    using assms(1) unfolding nvml_ok_def by metis
  show ?thesis using limits_set_step [OF assms(2,4) o'(2)] by (simp add: assms(3) o'(1) Let_def)
qed

lemma nv_device_reached:
  assumes "gpu_opened V Nvidia s t" "pe_sys P = V" "nv_devices u = H_live" "nv_total_unit_devices u = sys_nvml_count V"
    "0 \<le> d" "d < int (reached (unat (sys_nvml_count V)) k)"
  shows "nv_device P d u = Some (nat d)"
proof -
  have n: "d < int (unat (sys_nvml_count V))" using assms(6) reached_le(1) [of "unat (sys_nvml_count V)" k] by linarith
  then have "nat d < unat (sys_nvml_count V)" using assms(5) by linarith
  then have "sys_nvml_handle_ok V (nat d)"
    using assms(1) by (auto simp: gpu_opened_def gpu_usable_def gpu_pre_def gpu_machine_def)
  moreover have "d < uint (sys_nvml_count V)" using n by (simp only: uint_nat)
  ultimately show ?thesis using assms(2-5) by (simp add: nv_device_def)
qed

lemma nvidia_caps_devices:
  assumes "gpu_opened (pe_sys P) Nvidia s t" "nvml_ok E caps accepts" "nv_idx E = 0"
    "b = reached (unat (sys_nvml_count (pe_sys P))) (sockets_of (pe_hw P))" "w = powerlimit * 1000"
  shows "\<exists>t'. volta_cap_each_gpu_power_limit P E powerlimit t = Some (0, t') \<and>
    limits_set caps (\<lambda>i. accepts i w) w (looked_up (pe_hw P) t) (int b) t'"
proof -
  let ?t = "looked_up (pe_hw P) t" and ?k = "sockets_of (pe_hw P)" and ?n = "unat (sys_nvml_count (pe_sys P))"
  let ?J = "limits_set caps (\<lambda>i. accepts i w) w ?t"
  have k: "unat (nsockets (machine_topo (pe_hw P))) = ?k"
    by (rule sockets_of_topo) (use assms(1) in \<open>auto simp: gpu_opened_def gpu_usable_def gpu_pre_def gpu_machine_def\<close>)
  have "\<exists>t'. for_sockets (\<lambda>i. nv_cap_each_gpu_power_limit P E i powerlimit) [0..<?k] ?t = Some t' \<and> ?J (int (?n div ?k * ?k)) t'"
  proof (rule blocks_walk)
    show "?J 0 ?t" by (rule limits_set_start)
    fix i s' assume i: "i < ?k" and j: "?J (int i * int (?n div ?k)) s'"
    let ?lo = "int i * int (?n div ?k)" and ?hi = "(int i + 1) * int (?n div ?k)"
    have b: "nv_block i s' = Some [?lo..?hi - 1]"
      by (rule nv_block_opened [OF assms(1) i, where H = "pe_hw P"]) (use j in \<open>auto simp: limits_set_def\<close>)
    have "\<exists>v' s''. for_devices (\<lambda>d _ s. do {
         i \<leftarrow> nv_device P d s;
         case nv_set_limit E i w (gpu_lib s) of
           (ok, o') \<Rightarrow> let s = s\<lparr>gpu_lib := o'\<rparr> in Some ((), if ok then s else variorum_error_handler VARIORUM_ERROR_PLATFORM_ENV s)
       }) [?lo..?hi - 1] () s' = Some (v', s'') \<and> ?J ?hi s''"
    proof (rule for_devices_walk [where I = "\<lambda>d _. ?J d"])
      fix d and v :: unit and u assume d: "?lo \<le> d" "d < ?hi" and u: "?J d u"
      have r: "0 \<le> d" "d < int (reached ?n ?k)" using reached_device [OF i d] by simp_all
      have v: "nv_device P d u = Some (nat d)"
        by (rule nv_device_reached [OF assms(1) refl _ _ r]) (use u opened_nvidia [OF assms(1)] in \<open>auto simp: limits_set_def\<close>)
      show "\<exists>v' s''. (do {
         i \<leftarrow> nv_device P d u;
         case nv_set_limit E i w (gpu_lib u) of
           (ok, o') \<Rightarrow> let s = u\<lparr>gpu_lib := o'\<rparr> in Some ((), if ok then s else variorum_error_handler VARIORUM_ERROR_PLATFORM_ENV s)
       }) = Some (v', s'') \<and> ?J (d + 1) s''"
        using nvidia_cap_step [OF assms(2) u v r(1)] by blast
    qed (use j in \<open>simp_all add: distrib_right\<close>)
    then show "\<exists>s''. nv_cap_each_gpu_power_limit P E i powerlimit s' = Some s'' \<and> ?J ?hi s''"
      by (auto simp: nv_cap_each_gpu_power_limit_def b assms(5) Let_def)
  qed
  then show ?thesis
    by (auto simp: volta_cap_each_gpu_power_limit_def volta_sockets_def assms(3) looked_up_topo(1) [OF assms(1)] k assms(4) reached_def)
qed


lemma limits_set_keeps: "limits_set caps accepts w (looked_up H t) d t' \<Longrightarrow> gpu_keeps (looked_up H t) t'"
  by (auto simp: limits_set_def gpu_keeps_def)

text \<open>
  C14: which GPUs a power limit reaches. The devices are dealt out to the sockets in blocks of n div k, so that
  variorum_cap_each_gpu_power_limit on n Nvidia GPUs and k sockets sets the limit, in milliwatts computed in 32 bits, of the first
  n div k * k devices; the last n mod k keep the limit they had. A device that NVML refuses to limit keeps its own and is
  reported, but the call returns 0 all the same. NVML is opened and closed once.
\<close>

theorem nvidia_cap_reaches:
  fixes s :: "('o, 'a) gpu_state_scheme"
  assumes "gpu_pre (pe_sys P) Nvidia s" "nvml_ok E caps accepts" "nv_idx E = 0"
    "b = reached (unat (sys_nvml_count (pe_sys P))) (sockets_of (pe_hw P))" "w = word_of_int watts * 1000"
  shows "\<exists>u. variorum_cap_each_gpu_power_limit (volta_api P E L now name) (gpu_build Nvidia) (pe_sys P) watts s = Some (0, u) \<and>
    (\<forall>e. caps (gpu_lib u) e = (if e < b \<and> accepts e w then w else caps (gpu_lib s) e)) \<and>
    elog u = elog s @ replicate (card {e. e < b \<and> \<not> accepts e w}) VARIORUM_ERROR_PLATFORM_ENV \<and>
    ext_calls u = ext_calls s @ [Nvml_init, Nvml_shutdown]"
proof -
  let ?A = "volta_api P E L now name"
  let ?Q = "\<lambda>t' :: ('o, 'a) gpu_state_scheme. caps (gpu_lib t') = (\<lambda>e. if e < b \<and> accepts e w then w else caps (gpu_lib s) e) \<and>
    elog t' = elog s @ replicate (card {e. e < b \<and> \<not> accepts e w}) VARIORUM_ERROR_PLATFORM_ENV \<and>
    ext_calls t' = ext_calls s @ [Nvml_init]"
  have "\<exists>t'. api_call ?A (volta cap_each_gpu_power_limit) [uint (unsigned_of_int watts)] t = Some (0, t') \<and> gpu_keeps t t' \<and> ?Q t'"
    if o': "gpu_opened (pe_sys P) Nvidia s t" for t :: "('o, 'a) gpu_state_scheme"
  proof -
    have w: "w = unsigned_of_int watts * 1000" by (simp add: assms(5) unsigned_of_int_def)
    obtain t' where t': "volta_cap_each_gpu_power_limit P E (unsigned_of_int watts) t = Some (0, t')"
      "limits_set caps (\<lambda>i. accepts i w) w (looked_up (pe_hw P) t) (int b) t'"
      using nvidia_caps_devices [OF o' assms(2-4) w] by blast
    have "gpu_keeps t t'" using gpu_keeps_trans [OF looked_up_topo(2) [OF o'] limits_set_keeps [OF t'(2)]] .
    moreover have "?Q t'"
      using t'(2) opened_rest [OF o', of "pe_hw P"] opened_nvidia [OF o', of "pe_hw P"] by (auto simp: limits_set_def refusals_def)
    ultimately show ?thesis using t'(1) by (simp add: volta_api_def volta_int_call_def)
  qed
  from gpu.call_returns(2) [OF assms(1) gpu_table_entries(1) this]
  obtain t' u where "variorum_cap_each_gpu_power_limit ?A (gpu_build Nvidia) (pe_sys P) watts s = Some (0, u)" "?Q t'" "gpu_closed Nvidia t' u"
    unfolding variorum_cap_each_gpu_power_limit_def by auto
  then show ?thesis by (auto simp: gpu_closed_def)
qed


section \<open>The report of a device\<close>

text \<open>
  What a query answers does not change while a report is made; None: it fails and stores nothing. The answer a line shows is the
  last one of the socket's devices up to this one, and without any what was on the stack.
\<close>

definition nvml_reads :: "'o nvml_env \<Rightarrow> nvml_query \<Rightarrow> (nat \<Rightarrow> u32 option) \<Rightarrow> bool" where
  "nvml_reads E q r \<longleftrightarrow> (\<forall>i o'. \<exists>ok o''. nv_get E q i o' = (ok, r i, o''))"

definition last_answer :: "(nat \<Rightarrow> u32 option) \<Rightarrow> u32 \<Rightarrow> int \<Rightarrow> int \<Rightarrow> u32" where
  "last_answer r junk lo d = (case find (\<lambda>e. r (nat e) \<noteq> None) (rev [lo..d - 1]) of None \<Rightarrow> junk | Some e \<Rightarrow> the (r (nat e)))"

lemma last_answer_start: "last_answer r junk lo lo = junk"
  by (simp add: last_answer_def)

lemma last_answer_step:
  "lo \<le> d \<Longrightarrow> last_answer r junk lo (d + 1) = (case r (nat d) of None \<Rightarrow> last_answer r junk lo d | Some w \<Rightarrow> w)"
  by (auto simp: last_answer_def upto_rec2 split: option.split)

lemma last_answer_own: "lo \<le> d \<Longrightarrow> r (nat d) = Some w \<Longrightarrow> last_answer r junk lo (d + 1) = w"
  by (simp add: last_answer_step)

definition reported ::
  "gpu_fn \<Rightarrow> string list \<Rightarrow> (int \<Rightarrow> line) \<Rightarrow> ('o, 'a) gpu_state_scheme \<Rightarrow> int \<Rightarrow> ('o, 'a) gpu_state_scheme \<Rightarrow> bool" where
  "reported f header row s d s' \<longleftrightarrow> (\<exists>o'. s' = s\<lparr>gpu_lib := o', gpu_inited := (if 0 < d then insert f (gpu_inited s) else gpu_inited s),
     printed := printed s @ (if 0 < d \<and> f \<notin> gpu_inited s then [map FS header] else []) @ map row [0..d - 1]\<rparr>)"

lemma reported_start: "reported f header row s 0 s"
  by (auto simp: reported_def intro!: exI [of _ "gpu_lib s"])

lemma reported_step:
  assumes "reported f header row s d s'" "0 \<le> d"
  shows "reported f header row s (d + 1) (say (row d) (gpu_header f header (s'\<lparr>gpu_lib := o'\<rparr>)))"
proof -
  have u: "[0..d] = [0..d - 1] @ [d]" using assms(2) by (rule upto_rec2)
  obtain o'' where s': "s' = s\<lparr>gpu_lib := o'', gpu_inited := (if 0 < d then insert f (gpu_inited s) else gpu_inited s),
     printed := printed s @ (if 0 < d \<and> f \<notin> gpu_inited s then [map FS header] else []) @ map row [0..d - 1]\<rparr>"
    using assms(1) by (auto simp: reported_def)
  show ?thesis
  proof (cases "0 < d")
    case True
    then show ?thesis
      by (auto simp: s' reported_def gpu_header_def say_def u intro!: exI [of _ o'])
  next
    case False
    then have "d = 0" using assms(2) by simp
    then show ?thesis
      by (auto simp: s' reported_def gpu_header_def say_def insert_absorb intro!: exI [of _ o'])
  qed
qed

definition nvidia_row :: "power_env \<Rightarrow> (nat \<Rightarrow> u32 option) \<Rightarrow> string \<Rightarrow> (u32 \<Rightarrow> field) \<Rightarrow> int \<Rightarrow> int \<Rightarrow> line" where
  "nvidia_row P r name short g d =
    [FS name, FS (pe_host P), FI (d div g), FI d, short (last_answer r (ucast (pe_junk P)) (d div g * g) (d + 1))]"

lemma nvidia_report_devices:
  assumes "gpu_opened (pe_sys P) Nvidia s t" "nvml_reads E q r" "nv_idx E = 0"
    "b = reached (unat (sys_nvml_count (pe_sys P))) (sockets_of (pe_hw P))"
    "g = int (unat (sys_nvml_count (pe_sys P)) div sockets_of (pe_hw P))"
  shows "\<exists>t'. volta_sockets P E (\<lambda>i. nv_report P E q False f header long_label long short i 0) t = Some (0, t') \<and>
    reported f header (nvidia_row P r (hd header) short g) (looked_up (pe_hw P) t) (int b) t'"
proof -
  let ?t = "looked_up (pe_hw P) t" and ?k = "sockets_of (pe_hw P)" and ?n = "unat (sys_nvml_count (pe_sys P))"
  let ?J = "reported f header (nvidia_row P r (hd header) short g) ?t"
  let ?body = "\<lambda>i d v s. do {
         (ok, v, s) \<leftarrow> nv_query P E q d v s;
         let s = (if False \<and> \<not> ok then variorum_error_handler VARIORUM_ERROR_PLATFORM_ENV s else s);
         Some (v,
           if (0 :: int) \<noteq> 0 then say [FS long_label, FS (pe_host P), FI (int i), FI d, long v] s
           else say [FS (hd header), FS (pe_host P), FI (int i), FI d, short v] (gpu_header f header s))
       }"
  have k: "unat (nsockets (machine_topo (pe_hw P))) = ?k"
    by (rule sockets_of_topo) (use assms(1) in \<open>auto simp: gpu_opened_def gpu_usable_def gpu_pre_def gpu_machine_def\<close>)
  have "\<exists>t'. for_sockets (\<lambda>i. nv_report P E q False f header long_label long short i 0) [0..<?k] ?t = Some t' \<and> ?J (int (?n div ?k * ?k)) t'"
  proof (rule blocks_walk)
    show "?J 0 ?t" by (rule reported_start)
    fix i s' assume i: "i < ?k" and j: "?J (int i * int (?n div ?k)) s'"
    let ?lo = "int i * int (?n div ?k)" and ?hi = "(int i + 1) * int (?n div ?k)"
    have b: "nv_block i s' = Some [?lo..?hi - 1]"
      by (rule nv_block_opened [OF assms(1) i, where H = "pe_hw P"]) (use j in \<open>auto simp: reported_def\<close>)
    have "\<exists>v' s''. for_devices (?body i) [?lo..?hi - 1] (ucast (pe_junk P)) s' = Some (v', s'') \<and>
        (v' = last_answer r (ucast (pe_junk P)) ?lo ?hi \<and> ?J ?hi s'')"
    proof (rule for_devices_walk [where I = "\<lambda>d v s. v = last_answer r (ucast (pe_junk P)) ?lo d \<and> ?J d s"])
      fix d and v :: u32 and u assume d: "?lo \<le> d" "d < ?hi" and u: "v = last_answer r (ucast (pe_junk P)) ?lo d \<and> ?J d u"
      have r: "0 \<le> d" "d < int (reached ?n ?k)" "d div g = int i" using reached_device [OF i d] by (simp_all add: assms(5))
      have v: "nv_device P d u = Some (nat d)"
        by (rule nv_device_reached [OF assms(1) refl _ _ r(1,2)]) (use u opened_nvidia [OF assms(1)] in \<open>auto simp: reported_def\<close>)
      obtain ok o' where a: "nv_get E q (nat d) (gpu_lib u) = (ok, r (nat d), o')" using assms(2) unfolding nvml_reads_def by blast
      let ?v = "last_answer r (ucast (pe_junk P)) ?lo (d + 1)"
      have q: "nv_query P E q d v u = Some (ok, ?v, u\<lparr>gpu_lib := o'\<rparr>)"
        using u by (auto simp: nv_query_def v a last_answer_step [OF d(1)])
      have w: "nvidia_row P r (hd header) short g d = [FS (hd header), FS (pe_host P), FI (int i), FI d, short ?v]"
        using r(3) by (simp add: nvidia_row_def assms(5))
      have "?J (d + 1) (say (nvidia_row P r (hd header) short g d) (gpu_header f header (u\<lparr>gpu_lib := o'\<rparr>)))"
        by (rule reported_step) (use u r(1) in auto)
      then show "\<exists>v' s''. ?body i d v u = Some (v', s'') \<and> (v' = last_answer r (ucast (pe_junk P)) ?lo (d + 1) \<and> ?J (d + 1) s'')"
        by (simp add: q w)
    qed (use j in \<open>simp_all add: distrib_right last_answer_start\<close>)
    then show "\<exists>s''. nv_report P E q False f header long_label long short i 0 s' = Some s'' \<and> ?J ?hi s''"
      by (auto simp: nv_report_def b)
  qed
  then show ?thesis
    by (auto simp: volta_sockets_def assms(3) looked_up_topo(1) [OF assms(1)] k assms(4) reached_def)
qed


lemma reported_keeps: "reported f header row (looked_up H t) d t' \<Longrightarrow> gpu_keeps (looked_up H t) t'"
  by (auto simp: reported_def gpu_keeps_def)

text \<open>
  C16: what variorum_print_power says of Nvidia GPUs. A line for each of the first n div k * k devices, in order, after the header
  when none was printed yet: its socket, which is the number of its block, and a power in watts. The power is what NVML answered
  for the device; when the query fails, which is not noticed, it is the answer for an earlier device of the same socket, or
  what was on the stack. The last n mod k devices have no line.
\<close>

theorem nvidia_power_report:
  fixes s :: "('o, 'a) gpu_state_scheme"
  assumes "gpu_pre (pe_sys P) Nvidia s" "nvml_reads E Nv_power_usage r" "nv_idx E = 0"
    "b = reached (unat (sys_nvml_count (pe_sys P))) (sockets_of (pe_hw P))"
    "g = int (unat (sys_nvml_count (pe_sys P)) div sockets_of (pe_hw P))"
  shows "\<exists>u. variorum_print_power (volta_api P E L now name) (gpu_build Nvidia) (pe_sys P) s = Some (0, u) \<and>
    printed u = printed s @
      (if 0 < b \<and> Gpu_power \<notin> gpu_inited s
       then [map FS [''_NVIDIA_GPU_POWER_USAGE'', ''Host'', ''Socket'', ''DeviceID'', ''Power'']] else []) @
      map (\<lambda>d. [FS ''_NVIDIA_GPU_POWER_USAGE'', FS (pe_host P), FI (d div g), FI d,
        FF (nv_watts (last_answer r (ucast (pe_junk P)) (d div g * g) (d + 1)))]) [0..int b - 1] \<and>
    (\<forall>d w. 0 \<le> d \<and> d < int b \<and> r (nat d) = Some w \<longrightarrow> last_answer r (ucast (pe_junk P)) (d div g * g) (d + 1) = w) \<and>
    elog u = elog s"
proof -
  let ?A = "volta_api P E L now name"
  let ?names = "[''_NVIDIA_GPU_POWER_USAGE'', ''Host'', ''Socket'', ''DeviceID'', ''Power'']"
  let ?row = "nvidia_row P r ''_NVIDIA_GPU_POWER_USAGE'' (\<lambda>w. FF (nv_watts w)) g"
  let ?Q = "\<lambda>t' :: ('o, 'a) gpu_state_scheme. printed t' = printed s @
      (if 0 < b \<and> Gpu_power \<notin> gpu_inited s then [map FS ?names] else []) @ map ?row [0..int b - 1] \<and> elog t' = elog s"
  have "\<exists>t'. api_call ?A (volta get_power) [0] t = Some (0, t') \<and> gpu_keeps t t' \<and> ?Q t'"
    if o': "gpu_opened (pe_sys P) Nvidia s t" for t :: "('o, 'a) gpu_state_scheme"
  proof -
    obtain t' where t': "volta_get_power P E 0 t = Some (0, t')" "reported Gpu_power ?names ?row (looked_up (pe_hw P) t) (int b) t'"
      using nvidia_report_devices [OF o' assms(2-5), of Gpu_power ?names "''_NVIDIA_GPU_POWER_USAGE Host, Socket, DeviceID, Power: W''"
        "\<lambda>w. FF (nv_watts w)" "\<lambda>w. FF (nv_watts w)"]
      by (auto simp: volta_get_power_def nvidia_gpu_get_power_data_def)
    have "gpu_keeps t t'" using gpu_keeps_trans [OF looked_up_topo(2) [OF o'] reported_keeps [OF t'(2)]] .
    moreover have "?Q t'" using t'(2) opened_rest [OF o', of "pe_hw P"] by (auto simp: reported_def)
    ultimately show ?thesis using t'(1) by (simp add: volta_api_def volta_int_call_def)
  qed
  from gpu.call_returns(1) [OF assms(1) gpu_table_entries(2) this]
  obtain t' u where u: "variorum_print_power ?A (gpu_build Nvidia) (pe_sys P) s = Some (0, u)" "?Q t'" "gpu_closed Nvidia t' u"
    unfolding variorum_print_power_def by auto
  have "last_answer r (ucast (pe_junk P)) (d div g * g) (d + 1) = w" if "0 \<le> d" "d < int b" "r (nat d) = Some w" for d w
  proof (rule last_answer_own [where r = r, OF _ that(3)])
    have "0 < g" using that(1,2) by (cases "g = 0") (auto simp: assms(4,5) reached_def)
    then show "d div g * g \<le> d" using pos_mod_sign [of g d] by (simp add: minus_mod_eq_div_mult [symmetric])
  qed
  then show ?thesis using u by (auto simp: gpu_closed_def nvidia_row_def)
qed

section \<open>The long clock report of Intel GPUs\<close>

lemma for_devices_undefined: "(\<And>d v s. body d v s = None) \<Longrightarrow> ds \<noteq> [] \<Longrightarrow> for_devices body ds v s = None"
  by (cases ds) simp_all

text \<open>
  C30: variorum_print_verbose_frequency on Intel GPUs. A comma is missing after the format, so that the number of the socket is
  taken for a string. As soon as the sockets have GPUs the call is undefined, whatever APMIDG answers; when they have none,
  because there are more sockets than GPUs, it returns 0 and prints nothing.
\<close>

theorem intel_verbose_clocks_undefined:
  fixes s :: "('o, 'a) gpu_state_scheme"
  assumes "gpu_pre (pe_sys P) Intel s" "ap_idx E = 0"
  shows "if sockets_of (pe_hw P) \<le> unat (sys_apmidg_ndevs (pe_sys P))
    then variorum_print_verbose_frequency (intel_gpu_api P E L now name) (gpu_build Intel) (pe_sys P) s = None
    else \<exists>u. variorum_print_verbose_frequency (intel_gpu_api P E L now name) (gpu_build Intel) (pe_sys P) s = Some (0, u) \<and> printed u = printed s"
proof -
  let ?A = "intel_gpu_api P E L now name" and ?k = "sockets_of (pe_hw P)" and ?n = "unat (sys_apmidg_ndevs (pe_sys P))"
  have m: "hwloc_good (pe_hw P)" "uint (sys_apmidg_ndevs (pe_sys P)) < 2 ^ 31" using assms(1) by (auto simp: gpu_pre_def gpu_machine_def)
  note k = sockets_of_topo [OF m(1)]
  have b: "ig_block i (looked_up (pe_hw P) t) = Some [int i * int (?n div ?k)..(int i + 1) * int (?n div ?k) - 1]"
    if "gpu_opened (pe_sys P) Intel s t" "i < ?k" for t :: "('o, 'a) gpu_state_scheme" and i
  proof -
    have "ig_gpus_per_socket (looked_up (pe_hw P) t) = sys_apmidg_ndevs (pe_sys P) div nsockets (machine_topo (pe_hw P))"
      using that(1) by (auto simp: gpu_opened_def looked_up_def upd_platform_def)
    then show ?thesis using block_of_socket [OF that(2) unat_31 [OF m(2)] k(2)] share_of_sockets [OF m] by (simp add: ig_block_def)
  qed
  show ?thesis
  proof (cases "?k \<le> ?n")
    case True
    then have g: "1 \<le> int (?n div ?k)" using k(2) by (simp add: div_greater_zero_iff Suc_le_eq)
    have l: "[0..<?k] = 0 # [1..<?k]" using k(2) by (simp add: upt_rec)
    have n: "[0..int (?n div ?k) - 1] \<noteq> []" using g by simp
    have "api_call ?A (intel_gpu get_clocks) [1] t = None" if o': "gpu_opened (pe_sys P) Intel s t" for t :: "('o, 'a) gpu_state_scheme"
    proof -
      have "ig_get_clocks_data P E 0 1 (looked_up (pe_hw P) t) = None"
        unfolding ig_get_clocks_data_def b [OF o' k(2)]
        by (simp add: for_devices_undefined [OF _ n] bind_eq_None_conv split: prod.split option.split)
      then show ?thesis
        by (simp add: intel_gpu_api_def intel_gpu_int_call_def intel_gpu_get_clocks_def ig_sockets_def assms(2) looked_up_topo(1) [OF o'] k(1) l)
    qed
    from gpu.call_undefined(1) [OF assms(1) gpu_table_entries(4) this] True
    show ?thesis by (simp add: variorum_print_verbose_frequency_def)
  next
    case False
    then have z: "?n div ?k = 0" by simp
    have "\<exists>t'. api_call ?A (intel_gpu get_clocks) [1] t = Some (0, t') \<and> gpu_keeps t t' \<and> printed t' = printed s"
      if o': "gpu_opened (pe_sys P) Intel s t" for t :: "('o, 'a) gpu_state_scheme"
    proof -
      have "ig_get_clocks_data P E i 1 (looked_up (pe_hw P) t) = Some (looked_up (pe_hw P) t)" if "i < ?k" for i
        using b [OF o' that] by (simp add: ig_get_clocks_data_def z)
      then have "\<exists>t'. for_sockets (\<lambda>i. ig_get_clocks_data P E i 1) [0..<?k] (looked_up (pe_hw P) t) = Some t' \<and> t' = looked_up (pe_hw P) t"
        by (intro for_sockets_walk [where I = "\<lambda>i t'. t' = looked_up (pe_hw P) t"]) auto
      then show ?thesis
        using looked_up_topo(2) [OF o'] opened_rest(3) [OF o', of "pe_hw P"]
        by (simp add: intel_gpu_api_def intel_gpu_int_call_def intel_gpu_get_clocks_def ig_sockets_def assms(2) looked_up_topo(1) [OF o'] k(1))
    qed
    from gpu.call_returns(1) [OF assms(1) gpu_table_entries(4) this] False
    show ?thesis by (auto simp: variorum_print_verbose_frequency_def gpu_closed_def)
  qed
qed


section \<open>AMD GPUs\<close>

text \<open>
  A library that counts n devices; and one that can be opened and closed, and that keeps the limit of each device, in microwatts, and
  refuses some, as it does for values out of range or without permission.
\<close>

definition rsmi_counts :: "'o rsmi_env \<Rightarrow> u32 \<Rightarrow> bool" where
  "rsmi_counts E n \<longleftrightarrow> (\<forall>o'. \<exists>ok o''. rs_num_devices E o' = (ok, Some n, o''))"

definition rsmi_ok :: "'o rsmi_env \<Rightarrow> u32 \<Rightarrow> ('o \<Rightarrow> nat \<Rightarrow> u64) \<Rightarrow> (nat \<Rightarrow> u64 \<Rightarrow> bool) \<Rightarrow> bool" where
  "rsmi_ok E n caps accepts \<longleftrightarrow>
     (\<forall>o'. (\<exists>o''. rsmi_init E o' = (True, o'') \<and> caps o'' = caps o') \<and>
       (\<exists>o''. rsmi_shut_down E o' = (True, o'') \<and> caps o'' = caps o') \<and>
       (\<exists>o''. rs_num_devices E o' = (True, Some n, o'') \<and> caps o'' = caps o') \<and>
       (\<forall>i v. \<exists>o''. rs_set_cap E (int i) v o' = (accepts i v, o'') \<and>
          caps o'' = (if accepts i v then (caps o')(i := v) else caps o')))"

lemma amd_block:
  assumes "hwloc_good H" "uint (n :: u32) < 2 ^ 31" "i < sockets_of H"
  shows "device_block i (sint (n div nsockets (machine_topo H))) =
    Some [int i * int (unat n div sockets_of H)..(int i + 1) * int (unat n div sockets_of H) - 1]"
  using block_of_socket [OF assms(3) unat_31 [OF assms(2)] sockets_of_topo(2) [OF assms(1)]] share_of_sockets [OF assms(1,2)] by simp

definition utilization_entry :: "power_env \<Rightarrow> int \<Rightarrow> int \<Rightarrow> string list \<times> json_value" where
  "utilization_entry P g d = (utilization_path P (nat (d div g)) @ [utilization_key d], J_int 0)"

definition idle_entries :: "power_env \<Rightarrow> int \<Rightarrow> int \<Rightarrow> (string list \<times> json_value) list \<Rightarrow> bool" where
  "idle_entries P g d obj \<longleftrightarrow> (\<forall>e. 0 \<le> e \<and> e < d \<longrightarrow> utilization_entry P g e \<in> set obj) \<and>
     (\<forall>(p, v) \<in> set obj. p = [pe_host P, ''timestamp''] \<or> v = J_object \<or> v = J_int 0)"

lemma rs_check_json [simp]: "json_sets (rs_check ok s) = json_sets s" "json_sets (rs_check ok s\<lparr>gpu_lib := o'\<rparr>) = json_sets s"
  by (simp_all add: rs_check_def variorum_error_handler_def)

lemma rs_first_json [simp]: "json_sets (rs_first P f None s) = json_sets s"
  by (simp add: rs_first_def gettimeofday_def)

lemma rs_close_json [simp]: "json_sets (rs_close E s) = json_sets s"
  by (simp add: rs_close_def split: prod.split)

lemma idle_objects: "idle_entries P g d (json_sets s) \<Longrightarrow> idle_entries P g d (json_sets (utilization_objects P i s))"
  by (auto simp: idle_entries_def utilization_objects_def gettimeofday_def get_or_make_def json_set_def Let_def)

lemma idle_step:
  "idle_entries P g d obj \<Longrightarrow> d div g = int i \<Longrightarrow>
    idle_entries P g (d + 1) (obj @ [(utilization_path P i @ [utilization_key d], J_int 0)])"
  by (auto simp: idle_entries_def utilization_entry_def zless_add1_eq simp del: zle_add1_eq_le)

lemma amd_utilization_socket:
  assumes "hwloc_good (pe_hw P)" "rsmi_counts E n" "uint n < 2 ^ 31" "i < sockets_of (pe_hw P)" "g = int (unat n div sockets_of (pe_hw P))"
    "idle_entries P g (int i * g) (json_sets s)"
  shows "\<exists>s'. ag_get_gpu_utilization_data_json P E i (nsockets (machine_topo (pe_hw P))) s = Some s' \<and>
    idle_entries P g ((int i + 1) * g) (json_sets s')"
proof -
  let ?s1 = "utilization_objects P i s"
  obtain ok1 o1 where 1: "rsmi_init E (gpu_lib ?s1) = (ok1, o1)" by (cases "rsmi_init E (gpu_lib ?s1)")
  let ?s2 = "rs_check ok1 (?s1\<lparr>gpu_lib := o1\<rparr>)"
  obtain ok o2 where 2: "rs_num_devices E (gpu_lib ?s2) = (ok, Some n, o2)" using assms(2) unfolding rsmi_counts_def by blast
  let ?s3 = "snd (gettimeofday P (rs_first P Gpu_utilization_json None (rs_check ok (?s2\<lparr>gpu_lib := o2\<rparr>))))"
  have j: "json_sets ?s3 = json_sets ?s1" by (simp add: gettimeofday_def)
  let ?body = "\<lambda>d (_ :: unit) s. Some ((), json_set (utilization_path P i @ [utilization_key d]) (J_int 0) (rs_check ok s))"
  have "\<exists>v' s'. for_devices ?body [int i * g..(int i + 1) * g - 1] () ?s3 = Some (v', s') \<and> idle_entries P g ((int i + 1) * g) (json_sets s')"
  proof (rule for_devices_walk [where I = "\<lambda>d _ s. idle_entries P g d (json_sets s)"])
    show "int i * g \<le> (int i + 1) * g" using assms(5) by (simp add: distrib_right)
    show "idle_entries P g (int i * g) (json_sets ?s3)" unfolding j by (rule idle_objects [OF assms(6)])
    fix d and v :: unit and u :: "('a, 'b) gpu_state_scheme"
    assume d: "int i * g \<le> d" "d < (int i + 1) * g" and u: "idle_entries P g d (json_sets u)"
    have "d div g = int i" using reached_device(3) [OF assms(4)] d by (simp add: assms(5))
    from idle_step [OF u this]
    show "\<exists>v' s'. ?body d v u = Some (v', s') \<and> idle_entries P g (d + 1) (json_sets s')" by (simp add: json_set_def)
  qed
  then show ?thesis
    using 1 2 by (auto simp: ag_get_gpu_utilization_data_json_def amd_block [OF assms(1,3,4)] assms(5) split: prod.split)
qed

text \<open>
  C29: the utilization object of AMD GPUs. Whatever rsmi\_init returns, the object has an entry for each of the first n div k * k
  devices, and every entry is 0: the function never asks for the utilization, so that it gives the same object for every
  library that differs only in how busy its devices are.
\<close>

theorem amd_utilization_zero:
  fixes s :: "('o, 'a) gpu_state_scheme"
  assumes "hwloc_good (pe_hw P)" "rs_idx E < length (g_platform s)" "rsmi_counts E n" "uint n < 2 ^ 31"
    "g = int (unat n div sockets_of (pe_hw P))" "b = reached (unat n) (sockets_of (pe_hw P))"
  shows "\<exists>obj u. amd_gpu_instinct_get_gpu_utilization_json P E s = Some (0, obj, u) \<and>
    (\<forall>d. 0 \<le> d \<and> d < int b \<longrightarrow> (utilization_path P (nat (d div g)) @ [utilization_key d], J_int 0) \<in> set obj) \<and>
    (\<forall>(p, v) \<in> set obj. p = [pe_host P, ''timestamp''] \<or> v = J_object \<or> v = J_int 0) \<and>
    amd_gpu_instinct_get_gpu_utilization_json P (E\<lparr>rs_busy := busy\<rparr>) s = Some (0, obj, u)"
proof -
  let ?k = "sockets_of (pe_hw P)" and ?T = "machine_topo (pe_hw P)" and ?s = "s\<lparr>json_sets := []\<rparr>"
  obtain t where t: "get_topo (pe_hw P) (rs_idx E) ?s = Some (?T, t)" "json_sets t = []"
    using get_topo_good [OF assms(1), of "rs_idx E" ?s] assms(2) by (auto simp: upd_platform_def)
  have "\<exists>u. for_sockets (\<lambda>i. ag_get_gpu_utilization_data_json P E i (nsockets ?T)) [0..<?k] t = Some u \<and>
      idle_entries P g (int (unat n div ?k * ?k)) (json_sets u)"
  proof (rule blocks_walk)
    show "idle_entries P g 0 (json_sets t)" by (simp add: t(2) idle_entries_def)
    show "\<exists>s'. ag_get_gpu_utilization_data_json P E i (nsockets ?T) u = Some s' \<and> idle_entries P g ((int i + 1) * int (unat n div ?k)) (json_sets s')"
      if "i < ?k" "idle_entries P g (int i * int (unat n div ?k)) (json_sets u)" for i u
      using amd_utilization_socket [OF assms(1,3,4) that(1) assms(5)] that(2) by (simp add: assms(5))
  qed
  then obtain u where u: "for_sockets (\<lambda>i. ag_get_gpu_utilization_data_json P E i (nsockets ?T)) [0..<?k] t = Some u"
    "idle_entries P g (int b) (json_sets u)" by (auto simp: assms(6) reached_def)
  have r: "amd_gpu_instinct_get_gpu_utilization_json P E s = Some (0, json_sets u, u\<lparr>json_sets := json_sets s\<rparr>)"
    using t(1) u(1) sockets_of_topo(1) [OF assms(1)]
    by (simp add: amd_gpu_instinct_get_gpu_utilization_json_def on_node_def instinct_sockets_def)
  have "ag_get_gpu_utilization_data_json P (E\<lparr>rs_busy := busy\<rparr>) = (ag_get_gpu_utilization_data_json P E ::
      nat \<Rightarrow> u32 \<Rightarrow> ('o, 'a) gpu_state_scheme \<Rightarrow> ('o, 'a) gpu_state_scheme option)"
    by (intro ext) (simp add: ag_get_gpu_utilization_data_json_def rs_close_def)
  then have "amd_gpu_instinct_get_gpu_utilization_json P (E\<lparr>rs_busy := busy\<rparr>) s = amd_gpu_instinct_get_gpu_utilization_json P E s"
    by (simp add: amd_gpu_instinct_get_gpu_utilization_json_def on_node_def instinct_sockets_def)
  with r u(2) show ?thesis by (intro exI conjI) (auto simp: idle_entries_def utilization_entry_def)
qed


text \<open>Setting a limit: the library's sessions leave the limits alone, and every device that does not refuse it takes the new one.\<close>

definition amd_limits ::
  "('o \<Rightarrow> nat \<Rightarrow> u64) \<Rightarrow> (nat \<Rightarrow> bool) \<Rightarrow> u64 \<Rightarrow> ('o, 'a) gpu_state_scheme \<Rightarrow> int \<Rightarrow> ('o, 'a) gpu_state_scheme \<Rightarrow> bool" where
  "amd_limits caps takes w s d s' \<longleftrightarrow> caps (gpu_lib s') = (\<lambda>e. if int e < d \<and> takes e then w else caps (gpu_lib s) e) \<and>
     elog s' = elog s @ replicate (refusals takes d) VARIORUM_ERROR_PLATFORM_ENV \<and> gpu_keeps s s' \<and> ext_calls s' = ext_calls s"

lemma amd_limits_frame:
  "amd_limits caps takes w s d s' \<Longrightarrow> caps (gpu_lib u) = caps (gpu_lib s') \<Longrightarrow> elog u = elog s' \<Longrightarrow> gpu_keeps s' u \<Longrightarrow>
    ext_calls u = ext_calls s' \<Longrightarrow> amd_limits caps takes w s d u"
  unfolding amd_limits_def using gpu_keeps_trans by metis

lemma amd_limits_step:
  assumes "amd_limits caps takes w s d s'" "0 \<le> d" "caps o' = (if takes (nat d) then (caps (gpu_lib s'))(nat d := w) else caps (gpu_lib s'))"
  shows "amd_limits caps takes w s (d + 1) (rs_check (takes (nat d)) (s'\<lparr>gpu_lib := o'\<rparr>))"
proof -
  have "caps o' = (\<lambda>e. if int e < d + 1 \<and> takes e then w else caps (gpu_lib s) e)"
    using assms by (auto simp: amd_limits_def below_next fun_eq_iff simp del: zle_add1_eq_le)
  then show ?thesis using assms(1) refusals_step [OF assms(2), of takes]
    by (simp add: amd_limits_def rs_check_def variorum_error_handler_def gpu_keeps_def replicate_add [symmetric] flip: replicate_append_same)
qed

lemma amd_cap_socket:
  fixes u :: "('o, 'a) gpu_state_scheme"
  assumes "hwloc_good (pe_hw P)" "rsmi_ok E n caps accepts" "uint n < 2 ^ 31" "i < sockets_of (pe_hw P)" "g = int (unat n div sockets_of (pe_hw P))"
    "w = ucast (powerlimit * 1000000)" "amd_limits caps (\<lambda>e. accepts e w) w s (int i * g) u"
  shows "\<exists>s'. ag_cap_each_gpu_power_limit P E i (nsockets (machine_topo (pe_hw P))) powerlimit u = Some s' \<and>
    amd_limits caps (\<lambda>e. accepts e w) w s ((int i + 1) * g) s'"
proof -
  let ?J = "amd_limits caps (\<lambda>e. accepts e w) w s"
  obtain o1 where 1: "rsmi_init E (gpu_lib u) = (True, o1)" "caps o1 = caps (gpu_lib u)" using assms(2) unfolding rsmi_ok_def by metis
  obtain o2 where 2: "rs_num_devices E o1 = (True, Some n, o2)" "caps o2 = caps o1" using assms(2) unfolding rsmi_ok_def by metis
  let ?u2 = "u\<lparr>gpu_lib := o2\<rparr>"
  obtain now u3 where u3: "gettimeofday P (rs_first P Gpu_cap None ?u2) = (now, u3)" by (cases "gettimeofday P (rs_first P Gpu_cap None ?u2)")
  then have f: "gpu_lib u3 = o2" "elog u3 = elog u" "gpu_keeps u u3" "ext_calls u3 = ext_calls u"
    by (auto simp: rs_first_def gettimeofday_def gpu_keeps_def)
  have c: "rs_count P E Init_strict (nsockets (machine_topo (pe_hw P))) u = Some (sint (n div nsockets (machine_topo (pe_hw P))), ?u2)"
    by (simp add: rs_count_def 1(1) 2(1) rs_check_def)
  let ?body = "\<lambda>d (_ :: unit) s. case rs_set_cap E d w (gpu_lib s) of (ok, o') \<Rightarrow> Some ((), rs_check ok (s\<lparr>gpu_lib := o'\<rparr>))"
  have "\<exists>v' s'. for_devices ?body [int i * g..(int i + 1) * g - 1] () u3 = Some (v', s') \<and> ?J ((int i + 1) * g) s'"
  proof (rule for_devices_walk [where I = "\<lambda>d _. ?J d"])
    show "int i * g \<le> (int i + 1) * g" using assms(5) by (simp add: distrib_right)
    show "?J (int i * g) u3" by (rule amd_limits_frame [OF assms(7) _ f(2-4)]) (simp add: f(1) 1(2) 2(2))
    fix d and v :: unit and t assume d: "int i * g \<le> d" "d < (int i + 1) * g" and t: "?J d t"
    have d0: "0 \<le> d" using reached_device(1) [OF assms(4)] d by (simp add: assms(5))
    obtain o' where o': "rs_set_cap E (int (nat d)) w (gpu_lib t) = (accepts (nat d) w, o')"
      "caps o' = (if accepts (nat d) w then (caps (gpu_lib t))(nat d := w) else caps (gpu_lib t))"
      using assms(2) unfolding rsmi_ok_def by metis
    show "\<exists>v' s'. ?body d v t = Some (v', s') \<and> ?J (d + 1) s'"
      using o'(1) d0 amd_limits_step [OF t d0 o'(2)] by simp
  qed
  then obtain s' where s': "for_devices ?body [int i * g..(int i + 1) * g - 1] () u3 = Some ((), s')" "?J ((int i + 1) * g) s'" by auto
  obtain o3 where 3: "rsmi_shut_down E (gpu_lib s') = (True, o3)" "caps o3 = caps (gpu_lib s')" using assms(2) unfolding rsmi_ok_def by metis
  have "?J ((int i + 1) * g) (s'\<lparr>gpu_lib := o3\<rparr>)"
    by (rule amd_limits_frame [OF s'(2)]) (simp_all add: 3(2) gpu_keeps_def)
  then show ?thesis
    using s'(1) by (simp add: ag_cap_each_gpu_power_limit_def c amd_block [OF assms(1,3,4)] assms(5) assms(6) rs_close_def rs_check_def 3(1) u3 split_beta)
qed

text \<open>
  C23: a power limit on AMD GPUs, for a library that can be opened, counts n devices and refuses any limits it likes. The call reaches the first
  n div k * k of n GPUs on k sockets and asks each for the same number of microwatts w, which is computed in 32 bits: up to 4294 W it is the limit
  that was asked for, from 4295 W on it is a smaller one, less by a multiple of 4294.967296 W. A GPU that accepts w has w for its limit
  afterwards, one that refuses it (w is out of its range, or the caller lacks permission) and one that is not reached keep
  theirs; each refusal is reported once, nothing else is, and the call returns 0 even so.
\<close>

theorem amd_cap_wraps:
  fixes s :: "('o, 'a) gpu_state_scheme"
  assumes "gpu_pre (pe_sys P) Amd s" "rsmi_ok E n caps accepts" "rs_idx E = 0" "uint n < 2 ^ 31" "0 \<le> watts"
    "b = reached (unat n) (sockets_of (pe_hw P))"
  shows "\<exists>u w. variorum_cap_each_gpu_power_limit (instinct_api P E L now name) (gpu_build Amd) (pe_sys P) watts s = Some (0, u) \<and>
    uint w = watts * 1000000 mod 2 ^ 32 \<and>
    (\<forall>e. caps (gpu_lib u) e = (if e < b \<and> accepts e w then w else caps (gpu_lib s) e)) \<and>
    (watts \<le> 4294 \<longrightarrow> uint w = watts * 1000000) \<and> (4295 \<le> watts \<longrightarrow> uint w < watts * 1000000) \<and>
    elog u = elog s @ replicate (card {e. e < b \<and> \<not> accepts e w}) VARIORUM_ERROR_PLATFORM_ENV"
proof -
  let ?A = "instinct_api P E L now name" and ?k = "sockets_of (pe_hw P)" and ?T = "machine_topo (pe_hw P)"
  let ?g = "unat n div ?k" and ?w = "ucast ((word_of_int watts :: u32) * 1000000) :: u64"
  have h: "hwloc_good (pe_hw P)" using assms(1) by (simp add: gpu_pre_def gpu_machine_def)
  let ?Q = "\<lambda>t' :: ('o, 'a) gpu_state_scheme. caps (gpu_lib t') = (\<lambda>e. if e < b \<and> accepts e ?w then ?w else caps (gpu_lib s) e) \<and>
    elog t' = elog s @ replicate (card {e. e < b \<and> \<not> accepts e ?w}) VARIORUM_ERROR_PLATFORM_ENV"
  have "\<exists>t'. api_call ?A (amd_gpu_instinct cap_each_gpu_power_limit) [uint (unsigned_of_int watts)] t = Some (0, t') \<and> gpu_keeps t t' \<and> ?Q t'"
    if o': "gpu_opened (pe_sys P) Amd s t" for t :: "('o, 'a) gpu_state_scheme"
  proof -
    let ?t = "looked_up (pe_hw P) t" and ?J = "amd_limits caps (\<lambda>e. accepts e ?w) ?w (looked_up (pe_hw P) t)"
    have "\<exists>t'. for_sockets (\<lambda>i. ag_cap_each_gpu_power_limit P E i (nsockets ?T) (word_of_int watts)) [0..<?k] ?t = Some t' \<and> ?J (int (?g * ?k)) t'"
    proof (rule blocks_walk)
      show "?J 0 ?t" by (simp add: amd_limits_def gpu_keeps_def refusals_def)
      show "\<exists>s'. ag_cap_each_gpu_power_limit P E i (nsockets ?T) (word_of_int watts) u = Some s' \<and> ?J ((int i + 1) * int ?g) s'"
        if "i < ?k" "?J (int i * int ?g) u" for i u
        by (rule amd_cap_socket [OF h assms(2,4) that(1) refl refl that(2)])
    qed
    then obtain t' where t': "for_sockets (\<lambda>i. ag_cap_each_gpu_power_limit P E i (nsockets ?T) (word_of_int watts)) [0..<?k] ?t = Some t'"
      "?J (int b) t'" by (auto simp: assms(6) reached_def)
    have "gpu_keeps t t'" using gpu_keeps_trans [OF looked_up_topo(2) [OF o']] t'(2) by (simp add: amd_limits_def)
    moreover have "?Q t'" using t'(2) opened_rest [OF o', of "pe_hw P"] by (simp add: amd_limits_def refusals_def cong: if_cong)
    moreover have "api_call ?A (amd_gpu_instinct cap_each_gpu_power_limit) [uint (unsigned_of_int watts)] t = Some (0, t')"
      using t'(1) sockets_of_topo(1) [OF h]
      by (simp add: instinct_api_def instinct_int_call_def amd_gpu_instinct_cap_each_gpu_power_limit_def instinct_sockets_def assms(3)
          looked_up_topo(1) [OF o'] unsigned_of_int_def)
    ultimately show ?thesis by blast
  qed
  from gpu.call_returns(2) [OF assms(1) gpu_table_entries(3) this]
  obtain t' u where u: "variorum_cap_each_gpu_power_limit ?A (gpu_build Amd) (pe_sys P) watts s = Some (0, u)" "?Q t'" "gpu_closed Amd t' u"
    unfolding variorum_cap_each_gpu_power_limit_def by auto
  have v: "uint ?w = watts * 1000000 mod 2 ^ 32"
  proof -
    have "(word_of_int watts :: u32) * 1000000 = word_of_int (watts * 1000000)" by simp
    then show ?thesis by (simp only: unsigned_ucast_eq uint_word_of_int) (simp add: take_bit_eq_mod)
  qed
  have l: "watts * 1000000 mod 2 ^ 32 < watts * 1000000" if "4295 \<le> watts"
    by (rule order_less_le_trans [OF pos_mod_bound]) (use that in simp_all)
  show ?thesis using u v l assms(5) by (intro exI [of _ u] exI [of _ ?w]) (auto simp: gpu_closed_def)
qed


section \<open>Examples\<close>

text \<open>
  A machine with two sockets and five GPUs. The state of the library is the limits of the GPUs; the second one refuses to be
  limited and does not answer.
\<close>

definition gpu_node :: power_env where
  "gpu_node = example_power (example_sys\<lparr>sys_nvml_count := 5, sys_apmidg_ndevs := 5\<rparr>)"

definition gpu_start_state :: "(nat \<Rightarrow> 'c) \<Rightarrow> (nat \<Rightarrow> 'c) gpu_state" where
  "gpu_start_state caps = rapl_state.extend rapl_start
     \<lparr>arrays = (\<lambda>_. None), feat_inited = {}, fixed_counters = [], fixed_limits = [], gpu_lib = caps, gpu_inited = {},
      gpu_start = (\<lambda>_. (0, 0))\<rparr>"

definition example_nvml :: "(nat \<Rightarrow> u32) nvml_env" where
  "example_nvml = \<lparr>nv_idx = 0, nv_ibm = False,
     nv_get = (\<lambda>q i caps. (i \<noteq> 1, if i = 1 then None else Some (1000 * (word_of_nat i + 100)), caps)),
     nv_util = (\<lambda>i caps. (True, Some (0, 0), caps)),
     nv_set_limit = (\<lambda>i w caps. (i \<noteq> 1, if i \<noteq> 1 then caps(i := w) else caps))\<rparr>"

definition example_apmidg :: "(nat \<Rightarrow> u32) apmidg_env" where
  "example_apmidg = \<lparr>ap_idx = 0, apmidg_readpoweravg = (\<lambda>d caps. (Fin 100, caps)), apmidg_readtemp = (\<lambda>d caps. (Some (Fin 40), caps)),
     apmidg_readfreq = (\<lambda>d caps. (Some (Fin 1200), caps)), apmidg_getpwrlim = (\<lambda>d caps. (Some (sint (caps (nat d))), caps)),
     apmidg_setpwrlim = (\<lambda>d w caps. caps(nat d := word_of_int w))\<rparr>"

definition example_rsmi :: "(nat \<Rightarrow> u64) rsmi_env" where
  "example_rsmi = \<lparr>rs_idx = 0, rsmi_init = Pair True, rsmi_shut_down = Pair True, rs_num_devices = (\<lambda>caps. (True, Some 5, caps)),
     rs_power = (\<lambda>i caps. (True, Some 90000000, caps)), rs_cap = (\<lambda>i caps. (True, Some (caps (nat i)), caps)),
     rs_cap_range = (\<lambda>i caps. (True, Some (300000000, 0), caps)), rs_temp = (\<lambda>i caps. (True, Some 40000, caps)),
     rs_freq = (\<lambda>i k caps. (True, Some (0, [1200000000]), caps)), rs_busy = (\<lambda>i caps. (True, Some 75, caps)),
     rs_set_cap = (\<lambda>i w caps. if w \<le> 750000000 \<and> i \<noteq> 1 then (True, caps(nat i := w)) else (False, caps))\<rparr>"

lemma gpu_node_facts:
  "sockets_of (pe_hw gpu_node) = 2" "hwloc_good (pe_hw gpu_node)" "unat (sys_nvml_count (pe_sys gpu_node)) = 5"
  "unat (sys_apmidg_ndevs (pe_sys gpu_node)) = 5" "gpu_machine (pe_sys gpu_node) G"
proof -
  have h: "hwloc_good two_socket_machine" using example_machine by (simp add: intel_machine_def example_sys_def)
  then show "hwloc_good (pe_hw gpu_node)" by (simp add: gpu_node_def example_power_def example_sys_def)
  show "sockets_of (pe_hw gpu_node) = 2" by (simp add: sockets_of_def gpu_node_def example_power_def example_sys_def two_socket_machine_def)
  show "unat (sys_nvml_count (pe_sys gpu_node)) = 5" "unat (sys_apmidg_ndevs (pe_sys gpu_node)) = 5"
    by (simp_all add: gpu_node_def example_power_def)
  show "gpu_machine (pe_sys gpu_node) G" using h by (simp add: gpu_machine_def gpu_node_def example_power_def example_sys_def)
qed

lemma gpu_start_fields [simp]:
  "length (g_platform (gpu_start_state caps)) = 2" "gpu_lib (gpu_start_state caps) = caps" "gpu_inited (gpu_start_state caps) = {}"
  "printed (gpu_start_state caps) = []" "elog (gpu_start_state caps) = []"
  by (simp_all add: gpu_start_state_def rapl_start_def rapl_state.defs arch_state.defs arch_init_def batch_state.defs
      msr_state.defs msr_init_def MAX_PLATFORMS_def)

lemma gpu_start_pre: "gpu_pre (pe_sys gpu_node) G (gpu_start_state caps)"
  by (simp add: gpu_pre_def gpu_node_facts)

lemma example_libraries:
  "nvml_ok example_nvml (\<lambda>caps. caps) (\<lambda>i w. i \<noteq> 1)" "nv_idx example_nvml = 0"
  "nvml_reads example_nvml Nv_power_usage (\<lambda>i. if i = 1 then None else Some (1000 * (word_of_nat i + 100)))"
  "ap_idx example_apmidg = 0" "rsmi_ok example_rsmi 5 (\<lambda>caps. caps) (\<lambda>i w. w \<le> 750000000 \<and> i \<noteq> 1)" "rs_idx example_rsmi = 0" "rsmi_counts example_rsmi 5"
  by (auto simp: nvml_ok_def nvml_reads_def rsmi_ok_def rsmi_counts_def example_nvml_def example_apmidg_def example_rsmi_def)

theorem nvidia_cap_reaches_witness:
  "\<exists>u. variorum_cap_each_gpu_power_limit (volta_api gpu_node example_nvml list_jansson (0, 0) ''node1'') (gpu_build Nvidia)
       (pe_sys gpu_node) 250 (gpu_start_state (\<lambda>_. 300000)) = Some (0, u) \<and>
     gpu_lib u 0 = 250000 \<and> gpu_lib u 1 = 300000 \<and> gpu_lib u 3 = 250000 \<and> gpu_lib u 4 = 300000"
proof -
  have b: "(4 :: nat) = reached (unat (sys_nvml_count (pe_sys gpu_node))) (sockets_of (pe_hw gpu_node))"
    by (simp add: gpu_node_facts reached_def)
  have w: "(250000 :: u32) = word_of_int 250 * 1000" by simp
  show ?thesis
    using nvidia_cap_reaches [OF gpu_start_pre [of Nvidia "\<lambda>_. 300000"] example_libraries(1,2) b w, of list_jansson "(0, 0)" "''node1''"] by auto
qed

theorem nvidia_power_report_witness:
  "\<exists>u. variorum_print_power (volta_api gpu_node example_nvml list_jansson (0, 0) ''node1'') (gpu_build Nvidia)
       (pe_sys gpu_node) (gpu_start_state (\<lambda>_. 300000)) = Some (0, u) \<and> length (printed u) = 5 \<and>
     printed u ! 1 = [FS ''_NVIDIA_GPU_POWER_USAGE'', FS (pe_host gpu_node), FI 0, FI 0, FF (nv_watts 100000)] \<and>
     printed u ! 2 = [FS ''_NVIDIA_GPU_POWER_USAGE'', FS (pe_host gpu_node), FI 0, FI 1, FF (nv_watts 100000)]"
proof -
  have b: "(4 :: nat) = reached (unat (sys_nvml_count (pe_sys gpu_node))) (sockets_of (pe_hw gpu_node))"
    and g: "(2 :: int) = int (unat (sys_nvml_count (pe_sys gpu_node)) div sockets_of (pe_hw gpu_node))"
    by (simp_all add: gpu_node_facts reached_def)
  have u: "[0..int 4 - 1] = [0, 1, 2, 3 :: int]" "[0..0 :: int] = [0]" "[0..1 :: int] = [0, 1]" by (simp_all add: upto.simps)
  show ?thesis
    using nvidia_power_report [OF gpu_start_pre [of Nvidia "\<lambda>_. 300000"] example_libraries(3,2) b g, of list_jansson "(0, 0)" "''node1''"]
    by (auto simp: u last_answer_def)
qed

theorem intel_verbose_clocks_undefined_witness:
  "variorum_print_verbose_frequency (intel_gpu_api gpu_node example_apmidg list_jansson (0, 0) ''node1'') (gpu_build Intel)
     (pe_sys gpu_node) (gpu_start_state (\<lambda>_. 0)) = None"
  using intel_verbose_clocks_undefined [OF gpu_start_pre [of Intel "\<lambda>_. 0"] example_libraries(4), of list_jansson "(0, 0)" "''node1''"]
  by (simp add: gpu_node_facts)

theorem amd_utilization_zero_witness:
  "\<exists>obj u. amd_gpu_instinct_get_gpu_utilization_json gpu_node example_rsmi (gpu_start_state (\<lambda>_. 0)) = Some (0, obj, u) \<and>
     (utilization_path gpu_node 1 @ [utilization_key 3], J_int 0) \<in> set obj"
proof -
  have b: "(4 :: nat) = reached (unat (5 :: u32)) (sockets_of (pe_hw gpu_node))"
    and g: "(2 :: int) = int (unat (5 :: u32) div sockets_of (pe_hw gpu_node))"
    and i: "rs_idx example_rsmi < length (g_platform (gpu_start_state (\<lambda>_. 0 :: u64)))" "uint (5 :: u32) < 2 ^ 31"
    by (simp_all add: gpu_node_facts reached_def example_libraries)
  obtain obj u where "amd_gpu_instinct_get_gpu_utilization_json gpu_node example_rsmi (gpu_start_state (\<lambda>_. 0)) = Some (0, obj, u)"
    "\<forall>d. 0 \<le> d \<and> d < int 4 \<longrightarrow> (utilization_path gpu_node (nat (d div 2)) @ [utilization_key d], J_int 0) \<in> set obj"
    using amd_utilization_zero [OF gpu_node_facts(2) i(1) example_libraries(7) i(2) g b] by blast
  moreover from this(2) [rule_format, of 3] have "(utilization_path gpu_node 1 @ [utilization_key 3], J_int 0) \<in> set obj" by simp
  ultimately show ?thesis by blast
qed

theorem amd_cap_wraps_witness:
  "\<exists>u. variorum_cap_each_gpu_power_limit (instinct_api gpu_node example_rsmi list_jansson (0, 0) ''node1'') (gpu_build Amd)
       (pe_sys gpu_node) 5000 (gpu_start_state (\<lambda>_. 300000000)) = Some (0, u) \<and>
     uint (gpu_lib u 0) = 705032704 \<and> gpu_lib u 1 = 300000000 \<and> gpu_lib u 4 = 300000000 \<and> elog u = [VARIORUM_ERROR_PLATFORM_ENV]"
proof -
  have b: "(4 :: nat) = reached (unat (5 :: u32)) (sockets_of (pe_hw gpu_node))" by (simp add: gpu_node_facts reached_def)
  obtain u w where u: "variorum_cap_each_gpu_power_limit (instinct_api gpu_node example_rsmi list_jansson (0, 0) ''node1'') (gpu_build Amd)
       (pe_sys gpu_node) 5000 (gpu_start_state (\<lambda>_. 300000000)) = Some (0, u)" "uint w = 5000 * 1000000 mod 2 ^ 32"
    "\<And>e. gpu_lib u e = (if e < 4 \<and> w \<le> 750000000 \<and> e \<noteq> 1 then w else 300000000)"
    "elog u = replicate (card {e. e < 4 \<and> \<not> (w \<le> 750000000 \<and> e \<noteq> (1 :: nat))}) VARIORUM_ERROR_PLATFORM_ENV"
    using amd_cap_wraps [OF gpu_start_pre [of Amd "\<lambda>_. 300000000"] example_libraries(5,6) _ _ b, of 5000 list_jansson "(0, 0)" "''node1''"]
    by auto
  have w: "w \<le> 750000000" using u(2) by (simp add: word_le_def)
  have "{e. e < 4 \<and> \<not> (w \<le> 750000000 \<and> e \<noteq> (1 :: nat))} = {1}" using w by auto
  then show ?thesis using u w by auto
qed

end
