(* ===== verification/Spec2Isabelle.thy ===== *)
theory Spec2Isabelle
  imports Timers Platform Vendor_Config Rapl_Energy_Props Rapl_Print Batch_Frames Socket_Loops
    Intel_Api Intel_Props Intel_Session Power9_Energy Arm_Props Epyc_Props Gpu_Props
begin

text \<open>
  A verification library for Variorum, a library that measures and controls power on many processors behind one
  vendor-neutral interface. Paths are below src/src/variorum unless they begin with src/.

  \<^bold>\<open>How the program works.\<close> A client calls a function of variorum.c, say variorum\_print\_power. Each such function
  calls variorum\_enter (config\_architecture.c), which clears the table of function pointers of every platform, reads the
  machine's topology from hwloc, detects the architectures, lets every vendor's config file install the functions of the
  model that was found (Intel/config\_intel.c and its siblings), and opens the devices: the MSR files of every processor,
  an E-SMI, NVML or APMIDG session. Then it calls the pointer for its feature in the table of each platform, and finally
  variorum\_exit closes the devices and frees the model numbers. The function behind the pointer is that of one model
  (Intel/Intel\_06\_4F.c, IBM/Power9.c, ARM/ARM\_Juno\_r2.c, AMD/epyc.c, Nvidia\_GPU/Volta.c): it hands the model's register addresses or files to
  the feature files, and those access the hardware through msr/msr\_core.c, the firmware's or the kernel's files, or a
  vendor's library. Results go to a stream, into a JSON object, or into hardware limits.

  \<^bold>\<open>How it is modelled.\<close> The state is one record that grows along this chain: vbase (the reported errors), tbase (the
  topology and the table g\_platform), msr\_state (descriptors and registers), batch\_state (the batches and the memory
  they live in), arch\_state (the detected models, the sessions of the vendors' libraries), rapl\_state and feat\_state (the
  static variables of the feature files, the lines printed, the JSON entries set), and then, per vendor, the
  firmware or library's own state (p9\_state, arm\_state, epyc\_state, gpu\_state). A C function that changes state is a function
  from the state to an option of its return value and the new state. None is a call that has undefined behaviour (an access out of
  bounds, a null pointer, an uninitialised value that matters) or ends the process; an error return is Some with the code it
  returns, and every call of variorum\_error\_handler appends to the log of the state. Integers are words where
  their width matters and doubles are rounded rationals (CDouble).

  \<^bold>\<open>Theories and the code they model.\<close>
  \<^item> Prelude: words, conversions and bit fields (the macros of config\_architecture.h). CDouble: C's double. C\_Text: printf and
    scanf on decimal numbers, strtok.
  \<^item> Variorum\_Error, Timers, Topology: variorum\_error.c, variorum\_timers.c, variorum\_topology.c.
  \<^item> Platform, Vendor\_Config, Arch: config\_architecture.c and .h, and the config files of all seven vendors.
  \<^item> Msr\_Device, Msr\_Batch: msr/msr\_core.c, the device files with single accesses and the batches. Msr\_Lifecycle,
    Msr\_Batch\_Facts, Batch\_Frames: what they guarantee.
  \<^item> Variorum\_Api: variorum.c, over the functions behind the pointers as a parameter. Api\_Facts: what a call does in terms of them.
  \<^item> Rapl, Rapl\_Energy, Rapl\_Print: Intel/intel\_power\_features.c. Features, Thermal, Clocks\_Features, Misc\_Features,
    Counters\_Features: Intel/thermal\_features.c, clocks\_features.c, misc\_features.c, counters\_features.c.
  \<^item> Intel\_Handlers, Intel\_Models, Intel\_Api: the functions of the nine files Intel/Intel\_06\_XX.c and their register tables, and the
    functions of variorum.c run on them. Intel\_Session: a client that makes many of these calls, against a specification.
  \<^item> Occ\_Sensors, Power9, Power9\_Energy: IBM/ibm\_power\_features.c and IBM/Power9.c. The sampling threads and the thread that
    calls the energy functions are a step relation: each access to energy\_acc and active\_sampling, each lock operation and each measurement
    is a step, and the steps of all threads come in any order (a run ends when the lock is initialised while it is held).
  \<^item> Arm\_Sysfs, Juno, Neoverse: ARM/arm\_util.c and the features and functions of the two boards.
  \<^item> Epyc: AMD/epyc.c and AMD/amd\_power\_features.c.
  \<^item> Gpu\_Loops, Nvidia\_Gpu, Amd\_Gpu, Intel\_Gpu: the feature files and functions in Nvidia\_GPU, AMD\_GPU and Intel\_GPU.
  \<^item> Vendor\_Session, Power9\_Session, Arm\_Session, Epyc\_Session, Gpu\_Session: variorum.c run on each of these vendors' functions.

  \<^bold>\<open>Parameters.\<close> Code that is not part of the repository is an argument of the definitions, with what its documentation promises as
  a named hypothesis. Where a property needs one, its witness has a concrete instance.
  \<^item> os\_env: the files and the msr and msr-safe drivers; driver\_ok says that a register keeps what is written to it
    where the driver allows it (allowed), and that each processor has its own; scoped\_driver (Msr\_Access) also covers registers that
    processors share and write masks.
  \<^item> hwloc: the topology library; hwloc\_good says that it loads and its counts are positive and divide one another. topo\_fits: the
    counts fit the code's types. machine\_ok: both topo\_fits and driver\_ok.
  \<^item> sys\_env: detection (cpuid, midr\_el1, the processor version register) and the results of opening E-SMI, NVML and APMIDG.
  \<^item> api\_env and json\_lib: the functions behind the pointers and jansson, for the theory of variorum.c alone. The sessions
    instantiate the first with the vendors' functions.
  \<^item> power\_env: log2 and pow (libm\_ok: exact where the result is), the clock, and what an uninitialised variable of the stack holds.
  \<^item> opal\_env (serves: the firmware's sensor file gives its bytes, however the reads are cut), sysfs\_env (sysfs\_ok: a file shows a number in
    decimal and takes the number that is written) and esmi\_env (esmi\_ok: a limit that was set is kept).
  \<^item> nvml\_env (nvml\_ok: a limit that is accepted is kept; nvml\_reads: an answer does not change during a report), rsmi\_env
    (rsmi\_ok: a device keeps a limit it accepts and refuses the others; rsmi\_counts) and apmidg\_env: the libraries of the GPUs.

  \<^bold>\<open>Interfaces.\<close> register\_file is what a user of the registers may rely on; its instance coord is the
  coordinate access of msr\_core.c. socket\_updates is a loop over the sockets each of whose steps changes one register; the turbo
  switch, its status and the power cap are its instances. bracket is the contract of variorum\_enter and
  variorum\_exit: between them the devices are usable, and a body that keeps them so can be closed; Intel and IBM builds
  provide it (intel, p9). vendor extends it by the table that is installed, for a build with one platform; ARM and AMD builds
  and builds for the GPUs of one vendor provide it (arm, amd, gpu). The properties about API calls rest on these facts.

  \<^bold>\<open>What the lemmas show.\<close>
  \<^item> Enter and exit: after a successful enter everything a feature function needs is in place (Arch\_Facts), enter and exit undo each
    other (Msr\_Lifecycle), what a call does that the platform lacks (Api\_Facts), and that a sequence of calls does what its
    specification says and leaves no descriptor open (Intel\_Session); where errors are lost or descriptors leak.
  \<^item> Registers: an access is in bounds and hits the register of its processor, what is written is read back (Msr\_Access), batches
    deliver the same as single reads (Msr\_Batch\_Facts).
  \<^item> Power limits and energy on Intel: the limit asked for is what the register enforces and what is read back, over the rounding of doubles
    (Rapl\_Facts, Rapl\_Limits, Socket\_Loops, Intel\_Props); measured energies add up to the energy used (Rapl\_Energy\_Props).
  \<^item> Power9: the report is what the firmware's bytes say (Occ\_Facts, Power9\_Facts, Power9\_Props); what every interleaving of the
    energy threads and their caller keeps, what it reports when the caller restarts sampling only after the threads have
    returned, and what goes wrong when it does not wait (Power9\_Energy).
  \<^item> ARM and AMD: the report is what the files show, limits arrive, and which failures are not noticed (Arm\_Facts, Arm\_Props,
    Epyc\_Props).
  \<^item> GPUs: which devices a call reaches and what becomes of a limit, what a line of the report shows, and two functions that cannot
    deliver (Gpu\_Facts, Gpu\_Props).
  \<^item> Where the code does not do what it means to, the property states what it does: lost energy units, a batch test off by
    one, a fallback that cannot work, leaks on error paths, a timer that hangs.

  \<^bold>\<open>Bounds and termination.\<close> No fuel is used. Loops over sockets, cores, threads and devices are structural recursions over the
  list of their indices. Restarting the search for a driver (init\_msr\_loop) and the loop of reads (read\_loop) are functions
  with a measure; the thread loop that may run past the array (load\_socket\_loop) and the timer, which can hang, are
  modelled so that not returning is a value.

  \<^bold>\<open>Not modelled.\<close>
  \<^item> Formatting: a line is the list of the arguments of its fprintf, with the text of the format where it matters. The build with
    libjustify differs in formatting only and is left out, as are the lines VARIORUM\_LOG asks for (not the dereferences they make) and the
    wording of error messages.
  \<^item> Of variorum.c: variorum\_print\_topology prints hwloc's tree, variorum\_get\_utilization\_json parses files of /proc with
    stdio, and variorum\_get\_current\_version returns a constant.
  \<^item> cpuid.c is one inline assembly instruction; its result is a parameter. src/src/var\_monitor and src/src/examples are programs
    around the library, src/src/tests and src/src/thirdparty\_builtin tests and the vendored googletest, src/src/wrappers bindings
    for Python and Fortran.
\<close>

end
